(* ===== verification/G88_Prelude.thy ===== *)
theory G88_Prelude
  imports Main "HOL-Library.Word" "HOL-Library.Monad_Syntax"
begin

unbundle bit_operations_syntax

text \<open>
  Shared vocabulary of the development: the machine integers of the host program, the C shift
  operators, bit fields of a 32-bit word, and the generic lemmas about lists, options and words
  that the component theories use.

  The simulator is a pre-ANSI C program for a big-endian 32-bit host (Sun 4): \<open>int\<close>,
  \<open>long\<close>, \<open>u_long\<close> and pointers have 32 bits.  All of its unsigned arithmetic is
  therefore arithmetic on \<open>32 word\<close>; a cast to \<open>int\<close> changes how a word is compared, divided
  or shifted to the right, never its bits.

  Results of type \<open>'a option\<close>: \<open>None\<close> is a run of the program that does not continue, that is, a
  call of \<open>err\<close> or \<open>exit\<close>, or a memory access through a pointer that does not point to a live
  object (undefined behaviour of the C program).  No definition returns \<open>None\<close> for anything else.
\<close>

section \<open>Machine integers\<close>

type_synonym u8 = "8 word"
type_synonym u32 = "32 word"
type_synonym u64 = "64 word"

text \<open>
  Shifts.  C leaves shift counts outside 0..31 undefined; the hosts the program is built for (SPARC,
  680x0, x86) use the low five bits of the count, and so do these definitions.  \<open>c_sar\<close> is the right
  shift of an \<open>int\<close>.
\<close>

definition c_shl :: "u32 \<Rightarrow> nat \<Rightarrow> u32" where
  "c_shl x n = push_bit (n mod 32) x"

definition c_shr :: "u32 \<Rightarrow> nat \<Rightarrow> u32" where
  "c_shr x n = drop_bit (n mod 32) x"

definition c_sar :: "u32 \<Rightarrow> nat \<Rightarrow> u32" where
  "c_sar x n = signed_drop_bit (n mod 32) x"

lemma c_shl_small: "n < 32 \<Longrightarrow> c_shl x n = push_bit n x"
  by (simp add: c_shl_def)

lemma c_shr_small: "n < 32 \<Longrightarrow> c_shr x n = drop_bit n x"
  by (simp add: c_shr_def)

text \<open>The sign bit of a word: C's \<open>(int)x < 0\<close>.\<close>

definition neg :: "u32 \<Rightarrow> bool" where
  "neg x \<longleftrightarrow> bit x 31"

section \<open>Bit fields\<close>

text \<open>
  A C bit field of \<open>len\<close> bits whose least significant bit has weight \<open>2 ^ lo\<close>.  On the big-endian
  host the first field of a structure occupies the most significant bits.
\<close>

definition bf_get :: "nat \<Rightarrow> nat \<Rightarrow> u32 \<Rightarrow> u32" where
  "bf_get lo len w = take_bit len (drop_bit lo w)"

definition bf_set :: "nat \<Rightarrow> nat \<Rightarrow> u32 \<Rightarrow> u32 \<Rightarrow> u32" where
  "bf_set lo len v w =
     (w AND NOT (push_bit lo (mask len))) OR push_bit lo (take_bit len v)"

definition bf_bit :: "nat \<Rightarrow> u32 \<Rightarrow> bool" where
  "bf_bit n w \<longleftrightarrow> bit w n"

named_theorems bf_simps "bit fields: reads after writes"

lemma bit_bf_get: "bit (bf_get lo len w) n \<longleftrightarrow> n < len \<and> bit w (n + lo)"
  by (auto simp: bf_get_def bit_simps add.commute dest: bit_imp_le_length)

lemma bit_bf_set:
  "bit (bf_set lo len v w) n \<longleftrightarrow>
     (if n \<in> {lo..<lo + len} then n < 32 \<and> bit v (n - lo) else bit w n)"
  by (auto simp: bf_set_def bit_simps dest: bit_imp_le_length)

lemma bf_get_set_same [bf_simps]:
  "lo + len \<le> 32 \<Longrightarrow> bf_get lo len (bf_set lo len v w) = take_bit len v"
  by (rule bit_word_eqI) (auto simp: bit_bf_get bit_bf_set bit_simps)

lemma bf_get_set_other [bf_simps]:
  "lo + len \<le> lo' \<or> lo' + len' \<le> lo \<Longrightarrow> bf_get lo len (bf_set lo' len' v w) = bf_get lo len w"
  by (rule bit_word_eqI) (auto simp: bit_bf_get bit_bf_set bit_simps)

lemma bf_bit_set_same [bf_simps]:
  "n < 32 \<Longrightarrow> bf_bit n (bf_set n 1 v w) \<longleftrightarrow> bit v 0"
  by (simp add: bf_bit_def bit_bf_set)

lemma bf_bit_set_other [bf_simps]:
  "n < lo \<or> lo + len \<le> n \<Longrightarrow> bf_bit n (bf_set lo len v w) \<longleftrightarrow> bf_bit n w"
  by (auto simp: bf_bit_def bit_bf_set)

section \<open>Words\<close>

lemma unat_u32: "unat x < 2 ^ 32" for x :: u32
  by (rule order_less_le_trans [OF unsigned_less]) simp

lemma word_and_not_self [simp]: "((x :: 'a::len word) AND NOT y) AND y = 0"
  by (rule bit_word_eqI) (auto simp: bit_simps)

lemma and_3_take_bit: "x AND 3 = take_bit 2 x" for x :: u32
  by (simp add: take_bit_eq_mask mask_eq_exp_minus_1)

lemma and_not_3_aligned [simp]: "(a AND NOT 3) AND 3 = 0" for a :: u32
  by (rule word_and_not_self)

lemma push_2_aligned [simp]: "push_bit 2 a AND 3 = 0" for a :: u32
  by (rule bit_word_eqI) (auto simp: and_3_take_bit bit_simps)

lemma and_not_mask: "a AND NOT (mask n) = push_bit n (drop_bit n a)" for a :: u32
  by (rule bit_word_eqI) (auto simp: bit_simps)

lemma and_not_3: "a AND NOT 3 = push_bit 2 (drop_bit 2 a)" for a :: u32
  using and_not_mask [of a 2] by (simp add: mask_eq_exp_minus_1)

lemma next_word_aligned [simp]: "((a AND NOT 3) + 4) AND 3 = 0" for a :: u32
proof -
  have "(a AND NOT 3) + 4 = push_bit 2 (drop_bit 2 a + 1)"
    by (simp only: and_not_3) (simp add: push_bit_eq_mult distrib_right)
  then show ?thesis by simp
qed

lemmas next_word_aligned' [simp] = next_word_aligned [simplified]

lemma and_3_cases: "a AND 3 = 0 \<or> a AND 3 = 1 \<or> a AND 3 = 2 \<or> a AND 3 = 3" for a :: u32
proof -
  have "unat (a AND 3) \<le> unat (3 :: u32)"
    using word_and_le1 [of a 3] by (simp only: word_le_nat_alt)
  then have "unat (a AND 3) \<in> {0, 1, 2, 3}" by auto
  then have "unat (a AND 3) = unat (0 :: u32) \<or> unat (a AND 3) = unat (1 :: u32) \<or>
      unat (a AND 3) = unat (2 :: u32) \<or> unat (a AND 3) = unat (3 :: u32)" by auto
  then show ?thesis by (simp only: word_unat_eq_iff [symmetric])
qed

section \<open>Lists and maps\<close>

lemma find_append:
  "find P (xs @ ys) = (case find P xs of None \<Rightarrow> find P ys | Some x \<Rightarrow> Some x)"
  by (induction xs) auto

lemma find_filter:
  "find P (filter Q xs) = find (\<lambda>x. Q x \<and> P x) xs"
  by (induction xs) auto

lemma find_SomeD: "find P xs = Some x \<Longrightarrow> P x \<and> x \<in> set xs"
  by (induction xs) (auto split: if_splits)

lemma find_split:
  assumes "find P xs = Some x"
  obtains us vs where "xs = us @ x # vs" and "\<forall>u \<in> set us. \<not> P u" and "P x"
  using assms
proof (induction xs arbitrary: thesis)
  case Nil
  then show ?case by simp
next
  case (Cons y ys)
  show ?case
  proof (cases "P y")
    case True
    with Cons.prems(2) have "x = y" by simp
    with True show ?thesis by (intro Cons.prems(1) [of "[]" ys]) simp_all
  next
    case False
    with Cons.prems(2) have "find P ys = Some x" by simp
    then obtain us vs where "ys = us @ x # vs" "\<forall>u \<in> set us. \<not> P u" "P x"
      using Cons.IH by blast
    with False show ?thesis by (intro Cons.prems(1) [of "y # us" vs]) simp_all
  qed
qed

lemma bind_SomeD: "Option.bind x f = Some y \<Longrightarrow> \<exists>a. x = Some a \<and> f a = Some y"
  by (cases x) simp_all

end
