(* ===== verification/Sim_State.thy ===== *)
theory Sim_State
  imports G88_Prelude
begin

text \<open>
  The data of the 88000 simulator (\<open>sim/sim.h\<close>, \<open>sim/sim_interface.h\<close>, \<open>sim/cmmu.h\<close> and the
  globals of \<open>sim/siminit.c\<close>).  C globals are the fields of the record \<open>mach\<close>, with the prefix
  \<open>g_\<close>; fields of C structures carry the prefix of their structure.  C arrays that are only ever
  indexed are functions from their index, and every access to a register array through a
  pointer goes through \<open>read_ptr\<close> and \<open>write_ptr\<close>, which check that the pointer is in range.

  Host pointers are values of \<open>hostptr\<close>.  The simulator stores three kinds of things in the
  operand slots of a decoded instruction: pointers to registers or literals, pointers to other
  decoded instructions (branch targets), and plain integers cast to a pointer type.
\<close>

section \<open>Constants\<close>

abbreviation (input) PAGESIZE :: u32 where "PAGESIZE \<equiv> 4096"
abbreviation (input) PAGEMASK :: u32 where "PAGEMASK \<equiv> 4095"

abbreviation (input) DWORD :: u32 where "DWORD \<equiv> 8"
abbreviation (input) WORD :: u32 where "WORD \<equiv> 4"
abbreviation (input) HALF :: u32 where "HALF \<equiv> 2"
abbreviation (input) BYTE :: u32 where "BYTE \<equiv> 1"

text \<open>The type of a memory operation (\<open>LD\<close> .. \<open>FETCH\<close> of \<open>sim.h\<close>).\<close>

datatype memop = LD | ST | XMEM | LD_U | XMEM_U | FETCH

datatype rw = READ | WRITE

text \<open>Exception codes.\<close>

abbreviation (input) E_NONE :: int where "E_NONE \<equiv> -1"
abbreviation (input) E_RST :: int where "E_RST \<equiv> 0"
abbreviation (input) E_INT :: int where "E_INT \<equiv> 1"
abbreviation (input) E_CACC :: int where "E_CACC \<equiv> 2"
abbreviation (input) E_DACC :: int where "E_DACC \<equiv> 3"
abbreviation (input) E_MA :: int where "E_MA \<equiv> 4"
abbreviation (input) E_OPC :: int where "E_OPC \<equiv> 5"
abbreviation (input) E_PRV :: int where "E_PRV \<equiv> 6"
abbreviation (input) E_BND :: int where "E_BND \<equiv> 7"
abbreviation (input) E_IDE :: int where "E_IDE \<equiv> 8"
abbreviation (input) E_IOV :: int where "E_IOV \<equiv> 9"
abbreviation (input) E_ERR :: int where "E_ERR \<equiv> 10"
abbreviation (input) E_FP :: int where "E_FP \<equiv> 114"
abbreviation (input) E_FPIM :: int where "E_FPIM \<equiv> 115"

abbreviation (input) M_USER :: nat where "M_USER \<equiv> 0"
abbreviation (input) M_SUPERVISOR :: nat where "M_SUPERVISOR \<equiv> 1"

text \<open>Bits of \<open>sim_interrupt_flag\<close>.\<close>

abbreviation (input) INT_FRONT_END :: u32 where "INT_FRONT_END \<equiv> 1"
abbreviation (input) INT_DEVICE :: u32 where "INT_DEVICE \<equiv> 2"
abbreviation (input) INT_INTERNAL :: u32 where "INT_INTERNAL \<equiv> 4"
abbreviation (input) INT_RESET :: u32 where "INT_RESET \<equiv> 8"
abbreviation (input) INT_SIGNAL :: u32 where "INT_SIGNAL \<equiv> 16"
abbreviation (input) INT_SINGLESTEP :: u32 where "INT_SINGLESTEP \<equiv> 32"
abbreviation (input) INT_MPSWITCH :: u32 where "INT_MPSWITCH \<equiv> 64"

text \<open>The value \<open>sim()\<close> returns.\<close>

datatype cause = NONE | BREAKPOINT | INTERRUPT | HOSED | CAUGHT_EXCEPTION | MPSWITCH

text \<open>Indices of the control registers in \<open>sfu0_regs\<close>.\<close>

abbreviation (input) rPID :: nat where "rPID \<equiv> 0"
abbreviation (input) rPSR :: nat where "rPSR \<equiv> 1"
abbreviation (input) rTPSR :: nat where "rTPSR \<equiv> 2"
abbreviation (input) rSSBR :: nat where "rSSBR \<equiv> 3"
abbreviation (input) rSXIP :: nat where "rSXIP \<equiv> 4"
abbreviation (input) rSNIP :: nat where "rSNIP \<equiv> 5"
abbreviation (input) rSFIP :: nat where "rSFIP \<equiv> 6"
abbreviation (input) rVBR :: nat where "rVBR \<equiv> 7"
abbreviation (input) rDMT0 :: nat where "rDMT0 \<equiv> 8"
abbreviation (input) rDMD0 :: nat where "rDMD0 \<equiv> 9"
abbreviation (input) rDMA0 :: nat where "rDMA0 \<equiv> 10"
abbreviation (input) rDMT1 :: nat where "rDMT1 \<equiv> 11"
abbreviation (input) rDMD1 :: nat where "rDMD1 \<equiv> 12"
abbreviation (input) rDMA1 :: nat where "rDMA1 \<equiv> 13"
abbreviation (input) rDMT2 :: nat where "rDMT2 \<equiv> 14"
abbreviation (input) rDMD2 :: nat where "rDMD2 \<equiv> 15"
abbreviation (input) rDMA2 :: nat where "rDMA2 \<equiv> 16"
abbreviation (input) rSTACKBASE :: nat where "rSTACKBASE \<equiv> 21"
abbreviation (input) rRAMSIZE :: nat where "rRAMSIZE \<equiv> 22"
abbreviation (input) rSBR :: nat where "rSBR \<equiv> 63"

section \<open>Instruction handlers\<close>

text \<open>
  The values of \<open>norm_e_addr\<close>: the entry points that the macro \<open>L\<close> creates in \<open>sim()\<close>.  Families
  that differ in a parameter only (the bit number of \<open>bb0\<close>, the operand precisions of \<open>fadd\<close>, the
  \<open>.usr\<close> and scaled variants of loads and stores) are one constructor with that parameter, and
  related labels are grouped in one enumeration (\<open>addop\<close>, \<open>subop\<close>, ...).
\<close>

datatype prec = Sgl | Dbl

datatype bcond =
    BC_eq0 | BC_ne0 | BC_gt0 | BC_lt0 | BC_ge0 | BC_le0
  | BC_4 | BC_5 | BC_6 | BC_7 | BC_8 | BC_9 | BC_10 | BC_11 | BC_always

datatype ldop = L_d | L_w | L_h | L_b | L_hu | L_bu
datatype stop = S_d | S_w | S_h | S_b
datatype xmop = X_w | X_bu

datatype addop =
    A_add | A_add_co | A_add_ci | A_add_cio | A_addu | A_addu_co | A_addu_ci | A_addu_cio
datatype subop =
    B_sub | B_sub_bo | B_sub_bi | B_sub_bio | B_subu | B_subu_bo | B_subu_bi | B_subu_bio
datatype logop = O_and | O_and_c | O_or | O_or_c | O_xor | O_xor_c
datatype bitop = O_clr | O_ext | O_extu | O_mak | O_rot | O_set | O_ff0 | O_ff1
datatype intop = O_cmp | O_div | O_divu | O_mul
datatype fpop =
    F_add prec prec prec | F_cmp prec prec | F_div prec prec prec | F_mul prec prec prec
  | F_sub prec prec prec | F_flt prec | F_int prec | F_nint prec | F_trnc prec
datatype jmpop = J_jmp | J_jmp_n | J_jsr | J_jsr_n
datatype ldaop = A_lda_d | A_lda | A_lda_h
datatype crop = C_ldcr | C_uldcr | C_stcr | C_ustcr | C_xcr | C_uxcr
datatype trapop = T_tb0 | T_tb1 | T_tbnd | T_tcnd
datatype brop = R_br | R_br_n | R_bsr | R_bsr_n
datatype bbop = R_bb0 | R_bb1 | R_bb0_n | R_bb1_n

datatype handler =
    H_end_of_page | H_not_decoded | H_opc_exception | H_ss_breakpoint
  | H_add addop | H_sub subop | H_log logop | H_bit bitop | H_int intop
  | H_fp fpop
  | H_jump jmpop
  | H_ld ldop bool bool  \<comment> \<open>operation, user space, scaled index\<close>
  | H_st stop bool bool
  | H_xmem xmop bool bool
  | H_lda ldaop
  | H_cr crop
  | H_trap trapop
  | H_rte
  | H_bcnd bcond bool    \<comment> \<open>condition, delayed\<close>
  | H_noop
  | H_br brop
  | H_bb bbop nat

section \<open>Memory pages and decoded instructions\<close>

text \<open>A decoded part belongs to a physical page of RAM or to a page on the IO list.\<close>

datatype part = RamPart nat | IoPart nat

datatype hostptr =
    PNull
  | PReg nat        \<comment> \<open>\<open>&regs[n]\<close>\<close>
  | PSfu0 nat       \<comment> \<open>\<open>&sfu0_regs[n]\<close>\<close>
  | PSfu1 nat       \<comment> \<open>\<open>&sfu1_regs[n]\<close>\<close>
  | PDummy nat      \<comment> \<open>word \<open>n\<close> of \<open>dummy_r0\<close>\<close>
  | PLit nat nat    \<comment> \<open>a literal: pool and index\<close>
  | PVar            \<comment> \<open>the local \<open>value\<close> of a memory access routine\<close>
  | PVal u32        \<comment> \<open>an integer cast to a pointer\<close>
  | PDec part nat   \<comment> \<open>a decoded instruction: part and index\<close>

record decoded_i =
  d_norm_e_addr :: handler
  d_dest :: hostptr
  d_s1 :: hostptr
  d_s2 :: hostptr

type_synonym decoded_part = "nat \<Rightarrow> decoded_i"   \<comment> \<open>1025 entries\<close>

record page =
  pg_values :: "nat \<Rightarrow> u32"                       \<comment> \<open>1024 words\<close>
  pg_decoded_part :: "decoded_part option"

text \<open>
  \<open>struct io_list\<close>: decoded pages for IO space.  The list elements are freed, the decoded parts they
  point to are not: the parts are named by a number and kept in \<open>g_io_parts\<close>.
\<close>

record io_list =
  il_page_number :: u32
  il_decoded_part :: nat

text \<open>\<open>struct litpool\<close>.\<close>

record litpool =
  lp_id :: nat
  lp_litcnt :: nat
  lp_lits :: "nat \<Rightarrow> u32"

text \<open>
  \<open>delayed_p\<close>: null, a decoded branch, or the static \<open>rte_decoded_i\<close> of \<open>sim()\<close>, whose \<open>s2\<close> field is
  null whenever it is pointed to.
\<close>

datatype delayedp = DNull | DPart part nat | DRte

text \<open>\<open>struct decitem\<close>: \<open>pagep\<close> always points to entry 0 of a decoded part.\<close>

record decitem =
  di_pagela :: u32
  di_pagep :: "part option"

section \<open>Instruction table entries\<close>

datatype fmt =
    F_0 | INTRL | INTRR | CBRANCH | IPREL | BITBRANCH | BITFIELD | INTRR2OP
  | FLDCR | FSTCR | FXCR | JMP | LDLIT | LDRO | LDRI | LDCR | ROT | RTE | TRAP | TBND | TCND
  | XCR | STCR | INTRR_S1_S2 | STLIT | STRO | STRI

datatype fixup = NOFIX | Fix_r0 | Fix_and_u | Fix_and | Fix_mask_u | Fix_or_u

datatype instr_info =
  II (ii_opcode: u32) (ii_opmask: u32) (ii_mnemonic: string)
     (ii_format: fmt) (ii_norm_e_addr: handler) (ii_fixup: fixup)

section \<open>CMMU registers\<close>

text \<open>
  \<open>struct cmmu_registers\<close>.  The one-word structures of bit fields are words; their fields are read
  and written with \<open>bf_get\<close> and \<open>bf_set\<close> at the positions \<open>cmmu.h\<close> gives them.
\<close>

record cmmu_registers =
  cm_idr :: u32
  cm_scmr :: u32
  cm_ssr :: u32
  cm_sadr :: u32
  cm_pad0 :: u32
  cm_sctr :: u32
  cm_lsr :: u32
  cm_ladr :: u32
  cm_pad1 :: u32
  cm_sapr :: u32
  cm_uapr :: u32
  cm_pad2 :: u32
  cm_bwp :: "nat \<Rightarrow> u32"
  cm_pad3 :: u32
  cm_cdr :: "nat \<Rightarrow> u32"
  cm_pad4 :: u32
  cm_ctr :: "nat \<Rightarrow> u32"
  cm_pad5 :: u32
  cm_clkvr :: u32
  cm_pad6 :: u32
  cm_cache_data :: "nat \<Rightarrow> nat \<Rightarrow> u32"
  cm_cache_tag :: "nat \<Rightarrow> nat \<Rightarrow> u32"
  cm_cache_clkvr :: "nat \<Rightarrow> u32"
  cm_segment_descriptor :: u32
  cm_segment_descriptor_address :: u32
  cm_page_descriptor :: u32
  cm_page_descriptor_address :: u32
  cm_area_descriptor :: u32
  cm_batc :: u32

section \<open>MVME188 board devices\<close>

datatype cio_state = cio_reset | cio_state0 | cio_state1

record board =
  b_ien :: "nat \<Rightarrow> u32"            \<comment> \<open>\<open>ien0\<close> .. \<open>ien3\<close>\<close>
  b_ist :: u32
  b_cio_regs :: "nat \<Rightarrow> u8"        \<comment> \<open>\<open>cio_regs\<close>, by byte offset\<close>
  b_cio_state :: cio_state
  b_cio_reg_pointer :: nat         \<comment> \<open>byte offset in \<open>cio_regs\<close>\<close>
  b_timer_on :: u32
  b_ticks :: u32
  b_timer_count :: u32

section \<open>Drivers of host devices\<close>

text \<open>
  The data of \<open>duart.c\<close>, with two directions of registers, written ones (0) and read ones (1), of 16 bytes each, two
  ports, and a ring buffer of typed-ahead characters for each port.  \<open>du_waiting\<close> are the characters that
  the host has for a port, \<open>du_sent\<close> those that were written to its line.
\<close>

record duart_state =
  du_registers :: "nat \<Rightarrow> nat \<Rightarrow> u8"
  du_reg_pointer :: "nat \<Rightarrow> nat"
  du_enables :: "nat \<Rightarrow> u32"
  du_output_reg :: u8
  du_in_buff :: "nat \<Rightarrow> nat \<Rightarrow> u8"
  du_front :: "nat \<Rightarrow> nat"           \<comment> \<open>\<open>in_buff_front\<close>, as an index\<close>
  du_rear :: "nat \<Rightarrow> nat"
  du_count :: "nat \<Rightarrow> nat"
  du_named :: "nat \<Rightarrow> bool"          \<comment> \<open>\<open>du_filename\<close> is not null\<close>
  du_opened :: "nat \<Rightarrow> bool"         \<comment> \<open>\<open>duart_fd\<close> is not 0\<close>
  du_inited :: "nat \<Rightarrow> bool"
  du_baud :: "nat \<Rightarrow> int"            \<comment> \<open>the last rate that the line was set to\<close>
  du_reset_cnt :: u32
  du_nmi_cnt :: u32
  du_total_read :: "nat \<Rightarrow> u32"
  du_waiting :: "nat \<Rightarrow> u8 list"
  du_sent :: "nat \<Rightarrow> u8 list"

text \<open>\<open>struct disk_regs\<close> of \<open>disk.c\<close>; the file is open unless \<open>fd\<close> is -1.\<close>

record disk_regs =
  dk_physical_address :: u32
  dk_block :: u32
  dk_count :: u32
  dk_command :: u32
  dk_open :: bool

text \<open>
  The files of the host, the characters of its console, and its clock: \<open>dr_clock n\<close> is what the call number
  \<open>n\<close> of \<open>gettimeofday\<close> stores in the four words of \<open>tu\<close> (\<open>gettime.c\<close>).
\<close>

record drivers =
  dr_duart :: duart_state
  dr_disks :: "nat \<Rightarrow> disk_regs"
  dr_files :: "nat \<Rightarrow> u8 list option"
  dr_cons_in :: "u8 list"
  dr_cons_out :: "u8 list"
  dr_tu :: "nat \<Rightarrow> u32"
  dr_clock :: "nat \<Rightarrow> nat \<Rightarrow> u32"
  dr_clock_calls :: nat

text \<open>One row of \<open>io_dev_tab\<close>; the device names the three routines of the row.\<close>

datatype device =
    Dv_data_cmmu nat | Dv_code_cmmu nat | Dv_duart | Dv_cio | Dv_ien_n nat | Dv_ien
  | Dv_ist | Dv_setswi | Dv_clrswi | Dv_istate | Dv_clrint | Dv_whoami
  | Dv_console | Dv_trivial_timer | Dv_special | Dv_disk nat | Dv_gettime

record io_dev =
  io_l_addr :: u32
  io_size :: u32
  io_restore :: bool
  io_cnt :: u32
  io_device :: device

text \<open>\<open>struct io_trace\<close> (the pointer to the device is its index in the table).\<close>

record io_trace =
  it_cnt :: u32
  it_addr :: u32
  it_io_ptr :: nat
  it_ip :: u32
  it_value :: u32
  it_mem_op_type :: memop
  it_size :: u32

text \<open>\<open>struct etrace\<close>.\<close>

record etrace =
  et_physical_address :: u32
  et_size :: u32
  et_fetch :: bool
  et_usmode :: nat
  et_lock :: bool
  et_write :: bool
  et_global :: bool
  et_cacheinhibit :: bool
  et_writethru :: bool
  et_lowdata :: u32

section \<open>Processors\<close>

text \<open>\<open>struct processor\<close> of \<open>simgdb.c\<close>: the registers of the processors that are not selected.\<close>

record processor =
  pr_general_registers :: "nat \<Rightarrow> u32"
  pr_sfu0_registers :: "nat \<Rightarrow> u32"
  pr_sfu1_registers :: "nat \<Rightarrow> u32"
  pr_delayed_p :: delayedp
  pr_delayed_ip :: u32

section \<open>The machine state\<close>

text \<open>
  A software TLB: a segment either shares \<open>defaultpagetlb\<close> (\<open>None\<close>) or has a second-level table whose
  entries are null or point to the \<open>values\<close> of a physical page, given by its number.  Pages are never
  freed, so a page number stands for the host pointer.
\<close>

type_synonym tlb = "nat \<Rightarrow> (nat \<Rightarrow> nat option) option"

record mach =
  g_memory_size :: u32
  g_page_table_size :: u32
  g_page_table :: "nat \<Rightarrow> page option"
  g_regs :: "nat \<Rightarrow> u32"
  g_sfu0_regs :: "nat \<Rightarrow> u32"
  g_sfu1_regs :: "nat \<Rightarrow> u32"
  g_dummy_r0 :: "nat \<Rightarrow> u32"
  g_var :: u32                        \<comment> \<open>the cell \<open>PVar\<close> points to\<close>
  g_ip :: u32
  g_delayed_ip :: u32
  g_delayed_p :: delayedp
  g_sim_errno :: bool
  g_sim_interrupt_flag :: u32
  g_sim_in_execution :: bool
  g_sim_exception :: int
  g_sim_catch_exception :: "nat \<Rightarrow> bool"
  g_fp_exception :: bool
  g_comefrom :: u32
  g_membrk :: u32
  g_single_step_command :: bool
  g_tracing :: u32
  g_etrace :: "etrace list"           \<comment> \<open>records written to the trace file, latest first\<close>
  g_u_load_tlb :: tlb
  g_s_load_tlb :: tlb
  g_u_store_tlb :: tlb
  g_s_store_tlb :: tlb
  g_deccache :: "nat \<Rightarrow> nat \<Rightarrow> decitem"
  g_nextdecp :: "nat \<Rightarrow> nat"
  g_io_list :: "io_list list"
  g_io_parts :: "nat \<Rightarrow> decoded_part option"
  g_io_next_id :: nat
  g_litpool :: "litpool list"
  g_lit_next_id :: nat
  g_decode_initialized :: bool
  g_decodecache :: "nat \<Rightarrow> instr_info list"
  g_selected_processor :: nat
  g_cmmus :: u32
  g_cmmu_number_table :: "nat \<Rightarrow> nat"
  g_cmmu_table :: "nat \<Rightarrow> cmmu_registers"
  g_last_global :: bool
  g_last_writethru :: bool
  g_last_cacheinhibit :: bool
  g_last_writeprotect :: bool
  g_board :: board
  g_drivers :: drivers
  g_io_dev_tab :: "io_dev list"
  g_io_cache :: "nat \<Rightarrow> nat"
  g_io_trace_buf :: "nat \<Rightarrow> io_trace"
  g_io_trace_buf_size :: nat          \<comment> \<open>0 before the buffer is allocated\<close>
  g_io_trace :: nat                   \<comment> \<open>the next slot\<close>
  g_io_trace_vals :: nat
  g_sigtab_func :: "nat \<Rightarrow> nat option"  \<comment> \<open>signal handlers, by name\<close>
  g_sigtab_cnt :: "nat \<Rightarrow> int"
  g_processors :: "nat \<Rightarrow> processor"
  g_cpu_enabled :: "nat \<Rightarrow> nat"
  g_mp_slice :: u32
  g_waiting_for_mpswitch :: bool
  g_stop_cause :: u32
  g_itimer :: u32                     \<comment> \<open>period of the host's interval timer, 0 when stopped\<close>
  g_vars :: "string \<Rightarrow> u32"           \<comment> \<open>the debugger's convenience variables\<close>

text \<open>\<open>varvalue\<close> and \<open>setvar\<close> of the debugger: an unset variable has the value 0.\<close>

definition varvalue :: "string \<Rightarrow> mach \<Rightarrow> u32" where
  "varvalue x m = g_vars m x"

definition setvar :: "string \<Rightarrow> u32 \<Rightarrow> mach \<Rightarrow> mach" where
  "setvar x v m = m\<lparr>g_vars := (g_vars m)(x := v)\<rparr>"

text \<open>The page, the segment and the offset of an address.\<close>

definition btos :: "u32 \<Rightarrow> nat" where
  "btos addr = unat (drop_bit 22 addr)"

definition btop :: "u32 \<Rightarrow> nat" where
  "btop addr = unat (drop_bit 12 addr AND 0x3ff)"

definition poff :: "u32 \<Rightarrow> u32" where
  "poff addr = addr AND PAGEMASK"

text \<open>Fields of the processor status register.\<close>

definition PSR_US_MODE :: "mach \<Rightarrow> nat" where
  "PSR_US_MODE m = unat (drop_bit 31 (g_sfu0_regs m rPSR))"

definition PSR_MA_CHECK_ON :: "mach \<Rightarrow> bool" where
  "PSR_MA_CHECK_ON m \<longleftrightarrow> g_sfu0_regs m rPSR AND 4 = 0"

definition PSR_FP_UNIT_ON :: "mach \<Rightarrow> bool" where
  "PSR_FP_UNIT_ON m \<longleftrightarrow> g_sfu0_regs m rPSR AND 8 = 0"

definition PSR_ENDIAN :: "mach \<Rightarrow> u32" where
  "PSR_ENDIAN m = drop_bit 30 (g_sfu0_regs m rPSR) AND 1"

definition PSR_INT_ENABLED :: "mach \<Rightarrow> bool" where
  "PSR_INT_ENABLED m \<longleftrightarrow> g_sfu0_regs m rPSR AND 2 = 0"

definition DATA_CMMU :: "mach \<Rightarrow> u32 \<Rightarrow> nat" where
  "DATA_CMMU m la = g_cmmu_number_table m (unat (drop_bit 12 la AND 3))"

definition CODE_CMMU :: "mach \<Rightarrow> u32 \<Rightarrow> nat" where
  "CODE_CMMU m la = g_cmmu_number_table m (4 + unat (drop_bit 12 la AND 3))"

section \<open>Pointers\<close>

definition set_reg :: "nat \<Rightarrow> u32 \<Rightarrow> mach \<Rightarrow> mach" where
  "set_reg n v m = m\<lparr>g_regs := (g_regs m)(n := v)\<rparr>"

definition set_cr :: "nat \<Rightarrow> u32 \<Rightarrow> mach \<Rightarrow> mach" where
  "set_cr n v m = m\<lparr>g_sfu0_regs := (g_sfu0_regs m)(n := v)\<rparr>"

fun lit_lookup :: "litpool list \<Rightarrow> nat \<Rightarrow> nat \<Rightarrow> u32 option" where
  "lit_lookup [] i k = None"
| "lit_lookup (lp # lps) i k =
     (if lp_id lp = i then (if k < lp_litcnt lp then Some (lp_lits lp k) else None)
      else lit_lookup lps i k)"

fun lit_update :: "litpool list \<Rightarrow> nat \<Rightarrow> nat \<Rightarrow> u32 \<Rightarrow> litpool list" where
  "lit_update [] i k v = []"
| "lit_update (lp # lps) i k v =
     (if lp_id lp = i then lp\<lparr>lp_lits := (lp_lits lp)(k := v)\<rparr> # lps
      else lp # lit_update lps i k v)"

fun read_ptr :: "mach \<Rightarrow> hostptr \<Rightarrow> u32 option" where
  "read_ptr m (PReg n) = (if n \<le> 32 then Some (g_regs m n) else None)"
| "read_ptr m (PSfu0 n) = (if n < 64 then Some (g_sfu0_regs m n) else None)"
| "read_ptr m (PSfu1 n) = (if n < 64 then Some (g_sfu1_regs m n) else None)"
| "read_ptr m (PDummy n) = (if n < 2 then Some (g_dummy_r0 m n) else None)"
| "read_ptr m (PLit i k) = lit_lookup (g_litpool m) i k"
| "read_ptr m PVar = Some (g_var m)"
| "read_ptr m PNull = None"
| "read_ptr m (PVal v) = None"
| "read_ptr m (PDec q n) = None"

fun write_ptr :: "mach \<Rightarrow> hostptr \<Rightarrow> u32 \<Rightarrow> mach option" where
  "write_ptr m (PReg n) v = (if n \<le> 32 then Some (set_reg n v m) else None)"
| "write_ptr m (PSfu0 n) v = (if n < 64 then Some (set_cr n v m) else None)"
| "write_ptr m (PSfu1 n) v =
     (if n < 64 then Some (m\<lparr>g_sfu1_regs := (g_sfu1_regs m)(n := v)\<rparr>) else None)"
| "write_ptr m (PDummy n) v =
     (if n < 2 then Some (m\<lparr>g_dummy_r0 := (g_dummy_r0 m)(n := v)\<rparr>) else None)"
| "write_ptr m (PLit i k) v =
     (if lit_lookup (g_litpool m) i k = None then None
      else Some (m\<lparr>g_litpool := lit_update (g_litpool m) i k v\<rparr>))"
| "write_ptr m PVar v = Some (m\<lparr>g_var := v\<rparr>)"
| "write_ptr m PNull v = None"
| "write_ptr m (PVal w) v = None"
| "write_ptr m (PDec q n) v = None"

text \<open>The word after the one a pointer points to, for double word operations.\<close>

fun ptr_succ :: "hostptr \<Rightarrow> hostptr" where
  "ptr_succ (PReg n) = PReg (Suc n)"
| "ptr_succ (PSfu0 n) = PSfu0 (Suc n)"
| "ptr_succ (PSfu1 n) = PSfu1 (Suc n)"
| "ptr_succ (PDummy n) = PDummy (Suc n)"
| "ptr_succ _ = PNull"

section \<open>Lemmas\<close>

lemma set_reg_simps [simp]:
  "g_regs (set_reg n v m) = (g_regs m)(n := v)"
  "g_sfu0_regs (set_reg n v m) = g_sfu0_regs m"
  "g_page_table (set_reg n v m) = g_page_table m"
  "g_memory_size (set_reg n v m) = g_memory_size m"
  "g_sfu1_regs (set_reg n v m) = g_sfu1_regs m"
  "g_dummy_r0 (set_reg n v m) = g_dummy_r0 m"
  "g_litpool (set_reg n v m) = g_litpool m"
  "g_var (set_reg n v m) = g_var m"
  by (simp_all add: set_reg_def)

lemma set_cr_simps [simp]:
  "g_regs (set_cr n v m) = g_regs m"
  "g_sfu0_regs (set_cr n v m) = (g_sfu0_regs m)(n := v)"
  "g_page_table (set_cr n v m) = g_page_table m"
  "g_memory_size (set_cr n v m) = g_memory_size m"
  "g_sfu1_regs (set_cr n v m) = g_sfu1_regs m"
  "g_dummy_r0 (set_cr n v m) = g_dummy_r0 m"
  "g_litpool (set_cr n v m) = g_litpool m"
  "g_var (set_cr n v m) = g_var m"
  by (simp_all add: set_cr_def)

lemma lit_lookup_update_same:
  "lit_lookup lps i k = Some u \<Longrightarrow> lit_lookup (lit_update lps i k v) i k = Some v"
  by (induction lps) (auto split: if_splits)

lemma lit_lookup_update_other:
  "(i, k) \<noteq> (j, l) \<Longrightarrow> lit_lookup (lit_update lps i k v) j l = lit_lookup lps j l"
  by (induction lps) auto

text \<open>A write through a pointer is seen by a read through it and by no other read.\<close>

lemma read_write_same: "write_ptr m p v = Some m' \<Longrightarrow> read_ptr m' p = Some v"
  by (cases p) (auto simp: lit_lookup_update_same split: if_splits)

lemma read_write_other:
  "write_ptr m p v = Some m' \<Longrightarrow> p \<noteq> q \<Longrightarrow> read_ptr m' q = read_ptr m q"
  by (cases p; cases q) (auto simp: lit_lookup_update_other split: if_splits)

lemma read_ptr_write_ptr: "(\<exists>v. read_ptr m p = Some v) \<longleftrightarrow> (\<exists>m'. write_ptr m p w = Some m')"
  by (cases p) auto

lemma write_ptr_page_table [simp]: "write_ptr m p v = Some m' \<Longrightarrow> g_page_table m' = g_page_table m"
  by (cases p) (auto split: if_splits)

section \<open>An empty machine\<close>

text \<open>
  A state in which every register and table is empty, the starting point of concrete runs.
\<close>

definition cleared_cmmu :: cmmu_registers where
  "cleared_cmmu =
     \<lparr>cm_idr = 0, cm_scmr = 0, cm_ssr = 0, cm_sadr = 0, cm_pad0 = 0, cm_sctr = 0, cm_lsr = 0,
      cm_ladr = 0, cm_pad1 = 0, cm_sapr = 0, cm_uapr = 0, cm_pad2 = 0, cm_bwp = (\<lambda>_. 0), cm_pad3 = 0,
      cm_cdr = (\<lambda>_. 0), cm_pad4 = 0, cm_ctr = (\<lambda>_. 0), cm_pad5 = 0, cm_clkvr = 0, cm_pad6 = 0,
      cm_cache_data = (\<lambda>_ _. 0), cm_cache_tag = (\<lambda>_ _. 0), cm_cache_clkvr = (\<lambda>_. 0),
      cm_segment_descriptor = 0, cm_segment_descriptor_address = 0, cm_page_descriptor = 0,
      cm_page_descriptor_address = 0, cm_area_descriptor = 0, cm_batc = 0\<rparr>"

definition cleared_board :: board where
  "cleared_board =
     \<lparr>b_ien = (\<lambda>_. 0), b_ist = 0, b_cio_regs = (\<lambda>_. 0), b_cio_state = cio_reset,
      b_cio_reg_pointer = 0, b_timer_on = 0, b_ticks = 0, b_timer_count = 0\<rparr>"

definition cleared_duart :: duart_state where
  "cleared_duart =
     \<lparr>du_registers = (\<lambda>_ _. 0), du_reg_pointer = (\<lambda>_. 0), du_enables = (\<lambda>_. 0), du_output_reg = 0,
      du_in_buff = (\<lambda>_ _. 0), du_front = (\<lambda>_. 0), du_rear = (\<lambda>_. 0), du_count = (\<lambda>_. 0),
      du_named = (\<lambda>_. False), du_opened = (\<lambda>_. False), du_inited = (\<lambda>_. False), du_baud = (\<lambda>_. 0),
      du_reset_cnt = 0, du_nmi_cnt = 0, du_total_read = (\<lambda>_. 0), du_waiting = (\<lambda>_. []), du_sent = (\<lambda>_. [])\<rparr>"

definition cleared_drivers :: drivers where
  "cleared_drivers =
     \<lparr>dr_duart = cleared_duart,
      dr_disks = (\<lambda>_. \<lparr>dk_physical_address = 0, dk_block = 0, dk_count = 0, dk_command = 0, dk_open = False\<rparr>),
      dr_files = (\<lambda>_. None), dr_cons_in = [], dr_cons_out = [], dr_tu = (\<lambda>_. 0), dr_clock = (\<lambda>_ _. 0),
      dr_clock_calls = 0\<rparr>"

definition cleared_processor :: processor where
  "cleared_processor =
     \<lparr>pr_general_registers = (\<lambda>_. 0), pr_sfu0_registers = (\<lambda>_. 0), pr_sfu1_registers = (\<lambda>_. 0),
      pr_delayed_p = DNull, pr_delayed_ip = 0\<rparr>"

definition cleared_mach :: mach where
  "cleared_mach =
     \<lparr>g_memory_size = 0, g_page_table_size = 0, g_page_table = (\<lambda>_. None), g_regs = (\<lambda>_. 0),
      g_sfu0_regs = (\<lambda>_. 0), g_sfu1_regs = (\<lambda>_. 0), g_dummy_r0 = (\<lambda>_. 0), g_var = 0, g_ip = 0,
      g_delayed_ip = 0, g_delayed_p = DNull, g_sim_errno = False, g_sim_interrupt_flag = 0,
      g_sim_in_execution = False, g_sim_exception = 0, g_sim_catch_exception = (\<lambda>_. False),
      g_fp_exception = False, g_comefrom = 0, g_membrk = 0, g_single_step_command = False,
      g_tracing = 0, g_etrace = [], g_u_load_tlb = (\<lambda>_. None), g_s_load_tlb = (\<lambda>_. None),
      g_u_store_tlb = (\<lambda>_. None), g_s_store_tlb = (\<lambda>_. None),
      g_deccache = (\<lambda>_ _. \<lparr>di_pagela = 0, di_pagep = None\<rparr>), g_nextdecp = (\<lambda>_. 0),
      g_io_list = [], g_io_parts = (\<lambda>_. None), g_io_next_id = 0, g_litpool = [], g_lit_next_id = 0,
      g_decode_initialized = False, g_decodecache = (\<lambda>_. []), g_selected_processor = 0,
      g_cmmus = 0, g_cmmu_number_table = (\<lambda>_. 0), g_cmmu_table = (\<lambda>_. cleared_cmmu),
      g_last_global = False, g_last_writethru = False, g_last_cacheinhibit = False,
      g_last_writeprotect = False, g_board = cleared_board, g_drivers = cleared_drivers, g_io_dev_tab = [],
      g_io_cache = (\<lambda>_. 0),
      g_io_trace_buf = (\<lambda>_. \<lparr>it_cnt = 0, it_addr = 0, it_io_ptr = 0, it_ip = 0, it_value = 0,
                            it_mem_op_type = LD, it_size = 0\<rparr>),
      g_io_trace_buf_size = 0, g_io_trace = 0, g_io_trace_vals = 0, g_sigtab_func = (\<lambda>_. None),
      g_sigtab_cnt = (\<lambda>_. 0), g_processors = (\<lambda>_. cleared_processor), g_cpu_enabled = (\<lambda>_. 0),
      g_mp_slice = 0, g_waiting_for_mpswitch = False, g_stop_cause = 0, g_itimer = 0,
      g_vars = (\<lambda>_. 0)\<rparr>"

end
