(* ===== verification/Sim_Literals.thy ===== *)
theory Sim_Literals
  imports Sim_State
begin

text \<open>
  The literal pools (\<open>mkliteral\<close> and \<open>free_literals\<close> of \<open>sim/simdecode.c\<close>).  A decoded instruction with a
  literal operand points into a pool, so the operand fetch of the execution loop is the same for
  registers and literals.  Pools are never compacted: what a decoded instruction relies on is that a
  literal keeps its value until all of them are freed.  The locale \<open>allocator\<close> states this contract.
\<close>

section \<open>Operations\<close>

abbreviation (input) POOLSIZE :: nat where "POOLSIZE \<equiv> 1022"

definition new_pool :: "mach \<Rightarrow> mach" where
  "new_pool m =
     m\<lparr>g_litpool := \<lparr>lp_id = g_lit_next_id m, lp_litcnt = 0, lp_lits = (\<lambda>_. 0)\<rparr> # g_litpool m,
       g_lit_next_id := Suc (g_lit_next_id m)\<rparr>"

text \<open>
  The slots of a pool are an array of \<open>POOLSIZE\<close> words.  \<open>mkliteral\<close> starts a new pool when the count has
  reached that, so the null results, which stand for a store through a null pointer or past the array,
  are those of a state that the invariant \<open>lit_inv\<close> excludes.
\<close>

definition put_literal :: "u32 \<Rightarrow> mach \<Rightarrow> hostptr \<times> mach" where
  "put_literal v m =
     (case g_litpool m of
        [] \<Rightarrow> (PNull, m)
      | lp # lps \<Rightarrow>
          if lp_litcnt lp \<ge> POOLSIZE then (PNull, m)
          else (PLit (lp_id lp) (lp_litcnt lp),
           m\<lparr>g_litpool := lp\<lparr>lp_litcnt := Suc (lp_litcnt lp),
                             lp_lits := (lp_lits lp)(lp_litcnt lp := v)\<rparr> # lps\<rparr>))"

definition mkliteral :: "u32 \<Rightarrow> mach \<Rightarrow> hostptr \<times> mach" where
  "mkliteral v m =
     (let m = (if g_litpool m = [] then new_pool m else m);
          m = (if lp_litcnt (hd (g_litpool m)) = POOLSIZE then new_pool m else m)
      in put_literal v m)"

definition free_literals :: "mach \<Rightarrow> mach" where
  "free_literals m = m\<lparr>g_litpool := []\<rparr>"

section \<open>The contract of an allocator\<close>

locale allocator =
  fixes inv :: "'s \<Rightarrow> bool"
    and alloc :: "'v \<Rightarrow> 's \<Rightarrow> 'p \<times> 's"
    and deref :: "'s \<Rightarrow> 'p \<Rightarrow> 'v option"
  assumes inv_alloc: "inv s \<Longrightarrow> inv (snd (alloc v s))"
    and deref_new: "inv s \<Longrightarrow> deref (snd (alloc v s)) (fst (alloc v s)) = Some v"
    and fresh: "inv s \<Longrightarrow> deref s (fst (alloc v s)) = None"
    and deref_old: "inv s \<Longrightarrow> p \<noteq> fst (alloc v s) \<Longrightarrow> deref (snd (alloc v s)) p = deref s p"
begin

fun alloc_all :: "'v list \<Rightarrow> 's \<Rightarrow> 'p list \<times> 's" where
  "alloc_all [] s = ([], s)"
| "alloc_all (v # vs) s =
     (let (p, s) = alloc v s; (ps, s) = alloc_all vs s in (p # ps, s))"

lemma deref_keep: "inv s \<Longrightarrow> deref s p = Some v \<Longrightarrow> deref (snd (alloc w s)) p = Some v"
  using fresh [of s w] deref_old [of s p w] by (cases "p = fst (alloc w s)") auto

lemma deref_keep_all: "inv s \<Longrightarrow> deref s p = Some v \<Longrightarrow> deref (snd (alloc_all vs s)) p = Some v"
proof (induction vs arbitrary: s)
  case Nil
  then show ?case by simp
next
  case (Cons w vs)
  then show ?case
    using inv_alloc [of s w] deref_keep [of s p v w] by (simp add: case_prod_beta)
qed

lemma deref_alloc_all:
  "inv s \<Longrightarrow> map (deref (snd (alloc_all vs s))) (fst (alloc_all vs s)) = map Some vs"
proof (induction vs arbitrary: s)
  case Nil
  then show ?case by simp
next
  case (Cons v vs)
  then show ?case
    using inv_alloc [of s v] deref_keep_all [OF inv_alloc [of s v] deref_new [of s v], of vs]
    by (simp add: case_prod_beta)
qed

lemma distinct_alloc_all: "inv s \<Longrightarrow> distinct (fst (alloc_all vs s))"
proof (induction vs arbitrary: s)
  case Nil
  then show ?case by simp
next
  case (Cons v vs)
  have old: "q \<notin> set (fst (alloc_all us t))" if "inv t" "deref t q = Some w" for us t q w
    using that
  proof (induction us arbitrary: t)
    case Nil
    then show ?case by simp
  next
    case (Cons u us)
    then show ?case
      using fresh [of t u] inv_alloc [of t u] deref_keep [of t q w u] by (auto simp: case_prod_beta)
  qed
  show ?case
    using Cons inv_alloc [of s v] old [OF inv_alloc [of s v] deref_new [of s v]]
    by (simp add: case_prod_beta)
qed

end

section \<open>The pools implement the contract\<close>

definition lit_inv :: "mach \<Rightarrow> bool" where
  "lit_inv m \<longleftrightarrow>
     distinct (map lp_id (g_litpool m)) \<and>
     (\<forall>lp \<in> set (g_litpool m). lp_id lp < g_lit_next_id m \<and> lp_litcnt lp \<le> POOLSIZE)"

definition deref_lit :: "mach \<Rightarrow> hostptr \<Rightarrow> u32 option" where
  "deref_lit m p = (case p of PLit i k \<Rightarrow> lit_lookup (g_litpool m) i k | _ \<Rightarrow> None)"

lemma lit_lookup_None: "\<forall>lp \<in> set lps. lp_id lp \<noteq> i \<Longrightarrow> lit_lookup lps i k = None"
  by (induction lps) auto

lemma lit_inv_new_pool: "lit_inv m \<Longrightarrow> lit_inv (new_pool m)"
  by (auto simp: lit_inv_def new_pool_def less_SucI)

lemma deref_new_pool: "lit_inv m \<Longrightarrow> deref_lit (new_pool m) p = deref_lit m p"
  by (cases p) (auto simp: deref_lit_def new_pool_def lit_inv_def intro!: lit_lookup_None [symmetric])

definition pool_ready :: "mach \<Rightarrow> mach" where
  "pool_ready m =
     (let m = (if g_litpool m = [] then new_pool m else m)
      in if lp_litcnt (hd (g_litpool m)) = POOLSIZE then new_pool m else m)"

lemma mkliteral_ready: "mkliteral v m = put_literal v (pool_ready m)"
  by (simp add: mkliteral_def pool_ready_def Let_def)

lemma pool_ready:
  assumes "lit_inv m"
  shows "lit_inv (pool_ready m)" and "deref_lit (pool_ready m) = deref_lit m"
    and "\<exists>lp lps. g_litpool (pool_ready m) = lp # lps \<and> lp_litcnt lp < POOLSIZE"
proof -
  let ?m = "if g_litpool m = [] then new_pool m else m"
  have inv: "lit_inv ?m" and d: "deref_lit ?m = deref_lit m" and ne: "g_litpool ?m \<noteq> []"
    using assms by (auto simp: lit_inv_new_pool deref_new_pool fun_eq_iff) (simp add: new_pool_def)
  have r: "pool_ready m = (if lp_litcnt (hd (g_litpool ?m)) = POOLSIZE then new_pool ?m else ?m)"
    by (simp add: pool_ready_def Let_def)
  show "lit_inv (pool_ready m)"
    unfolding r using inv lit_inv_new_pool by presburger
  show "deref_lit (pool_ready m) = deref_lit m"
    unfolding r using d deref_new_pool [OF inv] by (simp add: fun_eq_iff)
  obtain lp lps where l: "g_litpool ?m = lp # lps" using ne by (cases "g_litpool ?m") auto
  have "lp_litcnt lp \<le> POOLSIZE" using inv l by (simp add: lit_inv_def)
  then show "\<exists>lp lps. g_litpool (pool_ready m) = lp # lps \<and> lp_litcnt lp < POOLSIZE"
    unfolding r using l by (cases "lp_litcnt lp = POOLSIZE") (simp_all add: new_pool_def)
qed

interpretation literals: allocator lit_inv mkliteral deref_lit
proof unfold_locales
  fix s v
  assume inv: "lit_inv s"
  note ready = pool_ready [OF inv]
  obtain lp lps where l: "g_litpool (pool_ready s) = lp # lps" "lp_litcnt lp < POOLSIZE"
    using ready(3) by blast
  show "lit_inv (snd (mkliteral v s))"
    using ready(1) l by (auto simp: mkliteral_ready put_literal_def lit_inv_def)
  show "deref_lit (snd (mkliteral v s)) (fst (mkliteral v s)) = Some v"
    using l by (simp add: mkliteral_ready put_literal_def deref_lit_def)
  show "deref_lit s (fst (mkliteral v s)) = None"
    using l unfolding ready(2) [symmetric] by (simp add: mkliteral_ready put_literal_def deref_lit_def)
  fix p
  assume "p \<noteq> fst (mkliteral v s)"
  then show "deref_lit (snd (mkliteral v s)) p = deref_lit s p"
    using l unfolding ready(2) [symmetric]
    by (cases p) (auto simp: mkliteral_ready put_literal_def deref_lit_def)
qed

lemma mkliteral_frame:
  "g_regs (snd (mkliteral v m)) = g_regs m" "g_sfu0_regs (snd (mkliteral v m)) = g_sfu0_regs m"
  "g_page_table (snd (mkliteral v m)) = g_page_table m"
  "g_memory_size (snd (mkliteral v m)) = g_memory_size m"
  by (simp_all add: mkliteral_def put_literal_def new_pool_def Let_def split: list.split)

text \<open>A sequence of calls of \<open>mkliteral\<close>.\<close>

fun mkliterals :: "u32 list \<Rightarrow> mach \<Rightarrow> hostptr list \<times> mach" where
  "mkliterals [] m = ([], m)"
| "mkliterals (v # vs) m =
     (let (p, m) = mkliteral v m; (ps, m) = mkliterals vs m in (p # ps, m))"

lemma mkliterals_alloc_all: "mkliterals vs m = literals.alloc_all vs m"
  by (induction vs arbitrary: m) simp_all

text \<open>
  Property C36.  Literals are never shared: from any state of the pools, a sequence of calls of
  \<open>mkliteral\<close> returns distinct pointers, each of which still points to its own value after the last
  call, and the literals that existed before keep their values.
\<close>

theorem literals_distinct_and_kept:
  assumes "lit_inv m" and "mkliterals vs m = (ps, m')"
  shows "distinct ps \<and> map (deref_lit m') ps = map Some vs \<and>
     (\<forall>p v. deref_lit m p = Some v \<longrightarrow> deref_lit m' p = Some v)"
  using literals.distinct_alloc_all [of m vs] literals.deref_alloc_all [of m vs]
    literals.deref_keep_all [of m _ _ vs] assms
  by (simp add: mkliterals_alloc_all)

theorem literals_distinct_and_kept_witness:
  "distinct (fst (mkliterals [7, 7, 9] cleared_mach))"
  using literals_distinct_and_kept
    [of cleared_mach "[7, 7, 9]" "fst (mkliterals [7, 7, 9] cleared_mach)"
      "snd (mkliterals [7, 7, 9] cleared_mach)"]
  by (simp add: lit_inv_def cleared_mach_def)

end
