(* ===== verification/Sim_Memory.thy ===== *)
theory Sim_Memory
  imports Sim_State
begin

text \<open>
  Simulated physical memory (\<open>sim/memory.c\<close>).  Pages are allocated, zeroed, when they are first
  touched.  Addresses at or above \<open>memory_size\<close> belong to the IO space; the routine that serves
  them, \<open>io_operation\<close> of \<open>sim/io.c\<close>, is the parameter \<open>io\<close> of the definitions below, because it in
  turn reaches the CMMUs, which read and write memory.  The theory \<open>Sim_Io\<close> closes the cycle.
\<close>

type_synonym io_fn =
  "mach \<Rightarrow> u32 \<Rightarrow> hostptr \<Rightarrow> u32 \<Rightarrow> memop \<Rightarrow> bool \<Rightarrow> (int \<times> mach) option"

section \<open>Pages\<close>

definition clean_decoded_part :: "decoded_part \<Rightarrow> decoded_part" where
  "clean_decoded_part d =
     (\<lambda>k. if k < 1024 then (d k)\<lparr>d_norm_e_addr := H_not_decoded\<rparr>
          else if k = 1024 then (d k)\<lparr>d_norm_e_addr := H_end_of_page\<rparr> else d k)"

definition clean_page :: "page \<Rightarrow> page" where
  "clean_page p =
     p\<lparr>pg_values := (\<lambda>_. 0), pg_decoded_part := map_option clean_decoded_part (pg_decoded_part p)\<rparr>"

text \<open>Memory obtained from \<open>sbrk\<close> is zero.\<close>

definition allocate_page :: page where
  "allocate_page = \<lparr>pg_values = (\<lambda>_. 0), pg_decoded_part = None\<rparr>"

definition zero_decoded_i :: decoded_i where
  "zero_decoded_i =
     \<lparr>d_norm_e_addr = H_opc_exception, d_dest = PNull, d_s1 = PNull, d_s2 = PNull\<rparr>"

definition allocate_decoded_part :: decoded_part where
  "allocate_decoded_part = clean_decoded_part (\<lambda>_. zero_decoded_i)"

text \<open>Finding the page of an address, allocating it if this is the first access.\<close>

definition get_page :: "nat \<Rightarrow> mach \<Rightarrow> page" where
  "get_page n m = (case g_page_table m n of None \<Rightarrow> allocate_page | Some p \<Rightarrow> p)"

definition put_page :: "nat \<Rightarrow> page \<Rightarrow> mach \<Rightarrow> mach" where
  "put_page n p m = m\<lparr>g_page_table := (g_page_table m)(n := Some p)\<rparr>"

definition touch_page :: "nat \<Rightarrow> mach \<Rightarrow> mach" where
  "touch_page n m = put_page n (get_page n m) m"

definition page_of :: "u32 \<Rightarrow> nat" where
  "page_of a = unat (a div PAGESIZE)"

definition word_index :: "u32 \<Rightarrow> nat" where
  "word_index a = unat (poff a div 4)"

text \<open>Byte \<open>b\<close> of a word in memory order: the host is big-endian.\<close>

definition get_byte :: "nat \<Rightarrow> u32 \<Rightarrow> u8" where
  "get_byte b w = ucast (drop_bit (24 - 8 * b) w)"

definition set_byte :: "nat \<Rightarrow> u8 \<Rightarrow> u32 \<Rightarrow> u32" where
  "set_byte b v w = bf_set (24 - 8 * b) 8 (ucast v) w"

definition set_errno :: "bool \<Rightarrow> mach \<Rightarrow> mach" where
  "set_errno e m = m\<lparr>g_sim_errno := e\<rparr>"

section \<open>Reading\<close>

text \<open>
  A read outside memory; the result of the device is in the caller's local variable \<open>value\<close>.  The
  value the callers return is 0 when the operation fails.
\<close>

definition io_read :: "io_fn \<Rightarrow> mach \<Rightarrow> u32 \<Rightarrow> u32 \<Rightarrow> (bool \<times> u32 \<times> mach) option" where
  "io_read io m a sz =
     do {
       (ex, m') \<leftarrow> io m a PVar sz LD_U True;
       if ex \<noteq> E_NONE then Some (False, 0, set_errno True m') else Some (True, g_var m', m')
     }"

text \<open>The word of RAM that contains the address.\<close>

definition ram_word :: "mach \<Rightarrow> u32 \<Rightarrow> u32" where
  "ram_word m a = pg_values (get_page (page_of a) m) (word_index a)"

text \<open>An unaligned word is put together from two aligned ones.\<close>

function read_sim_w :: "io_fn \<Rightarrow> mach \<Rightarrow> u32 \<Rightarrow> (u32 \<times> mach) option" where
  "read_sim_w io m a =
     (let m = set_errno False m in
      if g_memory_size m \<le> a then
        do { (ok, v, m) \<leftarrow> io_read io m a WORD; Some (v, m) }
      else
        let m = touch_page (page_of a) m;
            w1 = ram_word m a
        in if a AND 3 = 0 then Some (w1, m)
           else if a AND 3 = 1 then
             do { (w2, m) \<leftarrow> read_sim_w io m ((a AND NOT 3) + 4);
                  Some (push_bit 8 w1 OR drop_bit 24 w2, m) }
           else if a AND 3 = 2 then
             do { (w2, m) \<leftarrow> read_sim_w io m ((a AND NOT 3) + 4);
                  Some (push_bit 16 w1 OR drop_bit 16 w2, m) }
           else
             do { (w2, m) \<leftarrow> read_sim_w io m ((a AND NOT 3) + 4);
                  Some (push_bit 24 w1 OR drop_bit 8 w2, m) })"
  by pat_completeness auto
termination
  by (relation "measure (\<lambda>(io, m, a). if a AND 3 = 0 then 0 else 1)") auto

declare read_sim_w.simps [simp del]

definition read_sim_b :: "io_fn \<Rightarrow> mach \<Rightarrow> u32 \<Rightarrow> (u8 \<times> mach) option" where
  "read_sim_b io m a =
     (if g_memory_size m \<le> a then
        do { (ok, v, m) \<leftarrow> io_read io m a BYTE; Some (ucast v, m) }
      else
        do { (w, m) \<leftarrow> read_sim_w io (set_errno False m) a; Some (ucast (drop_bit 24 w), m) })"

definition read_sim_h :: "io_fn \<Rightarrow> mach \<Rightarrow> u32 \<Rightarrow> (16 word \<times> mach) option" where
  "read_sim_h io m a =
     (if a AND 1 \<noteq> 0 then Some (0, set_errno True m)
      else if g_memory_size m \<le> a then
        do { (ok, v, m) \<leftarrow> io_read io m a HALF;
             Some (ucast v, if ok then set_errno False m else m) }
      else
        do { (w, m) \<leftarrow> read_sim_w io (set_errno False m) a; Some (ucast (drop_bit 16 w), m) })"

section \<open>Writing\<close>

text \<open>A write outside memory: the operand is the caller's parameter \<open>value\<close>.\<close>

definition io_write :: "io_fn \<Rightarrow> mach \<Rightarrow> u32 \<Rightarrow> u32 \<Rightarrow> u32 \<Rightarrow> (bool \<times> mach) option" where
  "io_write io m a v sz =
     do {
       (ex, m') \<leftarrow> io (m\<lparr>g_var := v\<rparr>) a PVar sz ST True;
       if ex \<noteq> E_NONE then Some (False, set_errno True m') else Some (True, m')
     }"

text \<open>Invalidate the decoded instruction that corresponds to a word.\<close>

definition invalidate :: "nat \<Rightarrow> page \<Rightarrow> page" where
  "invalidate k p =
     p\<lparr>pg_decoded_part :=
         map_option (\<lambda>d. d(k := (d k)\<lparr>d_norm_e_addr := H_not_decoded\<rparr>)) (pg_decoded_part p)\<rparr>"

definition store_word :: "nat \<Rightarrow> nat \<Rightarrow> u32 \<Rightarrow> mach \<Rightarrow> mach" where
  "store_word n k w m =
     (let p = get_page n m in put_page n (p\<lparr>pg_values := (pg_values p)(k := w)\<rparr>) m)"

definition write_sim_b :: "io_fn \<Rightarrow> mach \<Rightarrow> u32 \<Rightarrow> u32 \<Rightarrow> (int \<times> mach) option" where
  "write_sim_b io m a v =
     (let m = set_errno False m in
      if g_memory_size m \<le> a then
        do { (ok, m) \<leftarrow> io_write io m a v BYTE; Some (0, m) }
      else
        let n = page_of a; k = word_index a; m = touch_page n m;
            m = store_word n k (set_byte (unat (a AND 3)) (ucast v) (ram_word m a)) m
        in Some (0, put_page n (invalidate k (get_page n m)) m))"

definition write_sim_h :: "io_fn \<Rightarrow> mach \<Rightarrow> u32 \<Rightarrow> u32 \<Rightarrow> (int \<times> mach) option" where
  "write_sim_h io m a v =
     (let m = set_errno False m in
      if g_memory_size m \<le> a then
        do { (ok, m) \<leftarrow> io_write io m a v HALF; Some (if ok then 0 else -1, m) }
      else
        do {
          (r1, m) \<leftarrow> write_sim_b io m a (drop_bit 8 v AND 0xff);
          if r1 = -1 then Some (-1, set_errno True m)
          else do {
            (r2, m) \<leftarrow> write_sim_b io m (a + 1) (v AND 0xff);
            if r2 = -1 then Some (-1, set_errno True m) else Some (0, m)
          }
        })"

definition write_sim_w :: "io_fn \<Rightarrow> mach \<Rightarrow> u32 \<Rightarrow> u32 \<Rightarrow> (int \<times> mach) option" where
  "write_sim_w io m a v =
     (let m = set_errno False m in
      if g_memory_size m \<le> a then
        do { (ok, m) \<leftarrow> io_write io m a v WORD; Some (if ok then 0 else -1, m) }
      else
        let n = page_of a; k = word_index a; m = touch_page n m in
        if a AND 3 = 0 then
          let m = store_word n k v m in Some (0, put_page n (invalidate k (get_page n m)) m)
        else
          do {
            (r1, m) \<leftarrow> write_sim_b io m a (drop_bit 24 v AND 0xff);
            if r1 = -1 then Some (-1, set_errno True m)
            else do {
              (r2, m) \<leftarrow> write_sim_b io m (a + 1) (drop_bit 16 v AND 0xff);
              if r2 = -1 then Some (-1, set_errno True m)
              else do {
                (r3, m) \<leftarrow> write_sim_b io m (a + 2) (drop_bit 8 v AND 0xff);
                if r3 = -1 then Some (-1, set_errno True m)
                else do {
                  (r4, m) \<leftarrow> write_sim_b io m (a + 3) (v AND 0xff);
                  if r4 = -1 then Some (-1, set_errno True m) else Some (0, m)
                }
              }
            }
          })"

section \<open>Blocks of memory\<close>

text \<open>
  \<open>sim_ptr\<close>: the page and the offset of a buffer that lies within one page of RAM, or null.
\<close>

definition sim_ptr :: "mach \<Rightarrow> u32 \<Rightarrow> u32 \<Rightarrow> (nat \<times> u32) option \<times> mach" where
  "sim_ptr m a len =
     (if g_memory_size m \<le> a then (None, m)
      else if poff a + len > PAGESIZE then (None, m)
      else (Some (page_of a, poff a), touch_page (page_of a) m))"

text \<open>\<open>bzero\<close> on \<open>len\<close> bytes of a page from offset \<open>off\<close>.\<close>

definition zero_bytes :: "nat \<Rightarrow> nat \<Rightarrow> nat \<Rightarrow> u32 \<Rightarrow> u32" where
  "zero_bytes off len k w =
     foldr (\<lambda>b w. if off \<le> 4 * k + b \<and> 4 * k + b < off + len then set_byte b 0 w else w) [0, 1, 2, 3] w"

definition bzero :: "nat \<Rightarrow> nat \<Rightarrow> nat \<Rightarrow> mach \<Rightarrow> mach" where
  "bzero n off len m =
     (let p = get_page n m
      in put_page n (p\<lparr>pg_values := (\<lambda>k. zero_bytes off len k (pg_values p k))\<rparr>) m)"

text \<open>The inner loop of \<open>sim_zeromem\<close>: words at \<open>a\<close>, \<open>a + 4\<close>, ... while \<open>i < n\<close>.\<close>

function zero_words :: "io_fn \<Rightarrow> mach \<Rightarrow> u32 \<Rightarrow> nat \<Rightarrow> nat \<Rightarrow> (int \<times> mach) option" where
  "zero_words io m a i n =
     (if i < n then
        do {
          (r, m) \<leftarrow> write_sim_w io m (a + of_nat i) 0;
          if g_sim_errno m then Some (-1, m) else zero_words io m a (i + 4) n
        }
      else Some (0, m))"
  by pat_completeness auto
termination
  by (relation "measure (\<lambda>(io, m, a, i, n). n - i)") auto

declare zero_words.simps [simp del]

definition block_len :: "u32 \<Rightarrow> u32 \<Rightarrow> u32" where
  "block_len a len = (let b = PAGESIZE - poff a in if b > len then len else b)"

lemma poff_less: "poff a < PAGESIZE"
proof -
  have "poff a \<le> PAGEMASK" unfolding poff_def by (rule word_and_le1)
  then show ?thesis by (simp add: word_le_nat_alt word_less_nat_alt)
qed

lemma block_len_bounds:
  assumes "len \<noteq> 0"
  shows "block_len a len \<noteq> 0" and "block_len a len \<le> len"
    and "unat (len - block_len a len) < unat len"
proof -
  have "0 < PAGESIZE - poff a"
    using poff_less [of a] by (simp add: word_less_nat_alt unat_sub order_less_imp_le)
  with assms show *: "block_len a len \<noteq> 0" "block_len a len \<le> len"
    by (auto simp: block_len_def Let_def)
  then show "unat (len - block_len a len) < unat len"
    by (simp add: unat_sub word_le_nat_alt) (metis diff_less order_less_le_trans unat_gt_0)
qed

function sim_zeromem :: "io_fn \<Rightarrow> mach \<Rightarrow> u32 \<Rightarrow> u32 \<Rightarrow> (int \<times> mach) option" where
  "sim_zeromem io m a len =
     (if len = 0 then Some (0, m)
      else
        let n = block_len a len;
            (buf, m) = sim_ptr m a n
        in case buf of
             None \<Rightarrow>
               do {
                 (r, m) \<leftarrow> zero_words io m a 0 (unat n);
                 if r = -1 then Some (-1, m) else sim_zeromem io m (a + n) (len - n)
               }
           | Some (pg, off) \<Rightarrow>
               sim_zeromem io (bzero pg (unat off) (unat n) m) (a + n) (len - n))"
  by pat_completeness auto
termination
  by (relation "measure (\<lambda>(io, m, a, len). unat len)") (auto simp: block_len_bounds)

declare sim_zeromem.simps [simp del]

section \<open>Files\<close>

text \<open>
  A file is the list of bytes that \<open>read\<close> still has to deliver; \<open>junk\<close> are the contents of a fresh
  buffer of \<open>malloc\<close>, some of which is stored when the file ends inside a word.
\<close>

definition put_byte_at :: "nat \<Rightarrow> nat \<Rightarrow> u8 \<Rightarrow> mach \<Rightarrow> mach" where
  "put_byte_at pg off b m =
     store_word pg (off div 4) (set_byte (off mod 4) b (pg_values (get_page pg m) (off div 4))) m"

fun put_bytes :: "nat \<Rightarrow> nat \<Rightarrow> u8 list \<Rightarrow> mach \<Rightarrow> mach" where
  "put_bytes pg off [] m = m"
| "put_bytes pg off (b # bs) m = put_bytes pg (off + 1) bs (put_byte_at pg off b m)"

definition buf_word :: "(nat \<Rightarrow> u8) \<Rightarrow> u8 list \<Rightarrow> nat \<Rightarrow> u32" where
  "buf_word junk bs i =
     (let c = (\<lambda>j. if j < length bs then bs ! j else junk j)
      in push_bit 24 (ucast (c i)) OR push_bit 16 (ucast (c (i + 1)))
           OR push_bit 8 (ucast (c (i + 2))) OR ucast (c (i + 3)))"

function store_buf ::
  "io_fn \<Rightarrow> (nat \<Rightarrow> u8) \<Rightarrow> u8 list \<Rightarrow> mach \<Rightarrow> u32 \<Rightarrow> nat \<Rightarrow> (bool \<times> mach) option" where
  "store_buf io junk bs m a i =
     (if i < length bs then
        do {
          (r, m) \<leftarrow> write_sim_w io m (a + of_nat i) (buf_word junk bs i);
          if g_sim_errno m then Some (False, m) else store_buf io junk bs m a (i + 4)
        }
      else Some (True, m))"
  by pat_completeness auto
termination
  by (relation "measure (\<lambda>(io, junk, bs, m, a, i). length bs - i)") auto

function sim_readfile ::
  "io_fn \<Rightarrow> (nat \<Rightarrow> u8) \<Rightarrow> u8 list \<Rightarrow> mach \<Rightarrow> u32 \<Rightarrow> u32 \<Rightarrow> u32 \<Rightarrow> (u32 \<times> u8 list \<times> mach) option" where
  "sim_readfile io junk file m a len actual =
     (if len = 0 then Some (actual, file, m)
      else
        let n = block_len a len;
            (buf, m) = sim_ptr m a n;
            bs = take (unat n) file; file = drop (unat n) file
        in do {
             (ok, m) \<leftarrow> (case buf of
                None \<Rightarrow> store_buf io junk bs m a 0
              | Some (pg, off) \<Rightarrow> Some (True, put_bytes pg (unat off) bs m));
             if \<not> ok then Some (actual, file, m)
             else
               let actual = actual + of_nat (length bs) in
               if length bs \<noteq> unat n then Some (actual, file, m)
               else sim_readfile io junk file m (a + n) (len - n) actual
           })"
  by pat_completeness auto
termination
  by (relation "measure (\<lambda>(io, junk, file, m, a, len, actual). unat len)") (auto simp: block_len_bounds)

text \<open>Writing a file that accepts \<open>room\<close> more bytes; \<open>out\<close> is what it holds.\<close>

definition get_bytes :: "nat \<Rightarrow> nat \<Rightarrow> nat \<Rightarrow> mach \<Rightarrow> u8 list" where
  "get_bytes pg off n m =
     map (\<lambda>i. get_byte ((off + i) mod 4) (pg_values (get_page pg m) ((off + i) div 4))) [0..<n]"

function sim_writefile ::
  "nat \<Rightarrow> u8 list \<Rightarrow> mach \<Rightarrow> u32 \<Rightarrow> u32 \<Rightarrow> u32 \<Rightarrow> u32 \<times> u8 list \<times> mach" where
  "sim_writefile room out m a len actual =
     (if len = 0 then (actual, out, m)
      else
        let n = block_len a len;
            (buf, m) = sim_ptr m a n
        in case buf of
             None \<Rightarrow> (actual, out, m)
           | Some (pg, off) \<Rightarrow>
               let bs = take room (get_bytes pg (unat off) (unat n) m);
                   actual = actual + of_nat (length bs); out = out @ bs
               in if length bs \<noteq> unat n then (actual, out, m)
                  else sim_writefile (room - length bs) out m (a + n) (len - n) actual)"
  by pat_completeness auto
termination
  by (relation "measure (\<lambda>(room, out, m, a, len, actual). unat len)") (auto simp: block_len_bounds)

declare store_buf.simps [simp del] sim_readfile.simps [simp del] sim_writefile.simps [simp del]

section \<open>Memory as an array of bytes\<close>

text \<open>
  The abstract view of RAM: the byte at every physical address, in the target's (big-endian) order.
  The lemmas below say what each routine does to this array and to the decoded instructions.
\<close>

definition mem_byte :: "mach \<Rightarrow> nat \<Rightarrow> u8" where
  "mem_byte m n = get_byte (n mod 4) (pg_values (get_page (n div 4096) m) (n mod 4096 div 4))"

definition be_word :: "u8 \<Rightarrow> u8 \<Rightarrow> u8 \<Rightarrow> u8 \<Rightarrow> u32" where
  "be_word a b c d =
     push_bit 24 (ucast a) OR push_bit 16 (ucast b) OR push_bit 8 (ucast c) OR ucast d"

named_theorems mem_simps "the abstract view of memory after each operation"

lemma get_set_byte [mem_simps]:
  "b < 4 \<Longrightarrow> c < 4 \<Longrightarrow> get_byte b (set_byte c v w) = (if b = c then v else get_byte b w)"
  by (rule bit_word_eqI) (auto simp: get_byte_def set_byte_def bit_bf_set bit_simps)

text \<open>Two words are equal if they agree on each of the four bytes.\<close>

lemma word_eq_bytes:
  fixes v w :: u32
  assumes "\<And>n. n < 8 \<Longrightarrow> bit v n = bit w n" "\<And>n. 8 \<le> n \<Longrightarrow> n < 16 \<Longrightarrow> bit v n = bit w n"
    "\<And>n. 16 \<le> n \<Longrightarrow> n < 24 \<Longrightarrow> bit v n = bit w n" "\<And>n. 24 \<le> n \<Longrightarrow> n < 32 \<Longrightarrow> bit v n = bit w n"
  shows "v = w"
proof (rule bit_word_eqI)
  fix n :: nat
  assume "n < LENGTH(32)"
  then show "bit v n = bit w n"
    using assms [of n] by (cases "n < 8"; cases "n < 16"; cases "n < 24") simp_all
qed

lemma be_word_get_byte [mem_simps]:
  "be_word (get_byte 0 w) (get_byte 1 w) (get_byte 2 w) (get_byte 3 w) = w"
  by (rule word_eq_bytes) (auto simp: be_word_def get_byte_def bit_simps)

lemma page_of_nat: "page_of a = unat a div 4096"
  by (simp add: page_of_def unat_div)

lemma unat_poff: "unat (poff a) = unat a mod 4096"
proof -
  have "poff a = take_bit 12 a"
    by (simp add: poff_def take_bit_eq_mask mask_eq_exp_minus_1)
  then show ?thesis by (simp add: unsigned_take_bit_eq take_bit_eq_mod unat_mod)
qed

lemma word_index_nat: "word_index a = unat a mod 4096 div 4"
  by (simp add: word_index_def unat_div unat_poff)

lemma unat_and_3: "unat (a AND 3) = unat a mod 4" for a :: u32
  by (simp add: and_3_take_bit unsigned_take_bit_eq take_bit_eq_mod unat_mod)

lemma address_split: "(n :: nat) = 4096 * (n div 4096) + 4 * (n mod 4096 div 4) + n mod 4"
proof -
  have "n mod 4096 mod 4 = n mod 4" by (simp add: mod_mod_cancel)
  then have "4 * (n mod 4096 div 4) + n mod 4 = n mod 4096"
    using mult_div_mod_eq [of 4 "n mod 4096"] by simp
  then show ?thesis using mult_div_mod_eq [of 4096 n] by linarith
qed

lemma address_eqI:
  "n div 4096 = k div 4096 \<Longrightarrow> n mod 4096 div 4 = k mod 4096 div 4 \<Longrightarrow> n mod 4 = k mod 4 \<Longrightarrow> n = k"
  for n k :: nat
  using address_split [of n] address_split [of k] by simp

lemma word_of_address:
  "n div 4 = k div 4 \<longleftrightarrow> n div 4096 = k div 4096 \<and> n mod 4096 div 4 = k mod 4096 div 4"
  for n k :: nat
proof -
  have 1: "j div 4096 = j div 4 div 1024" for j :: nat
    by (simp add: div_mult2_eq [symmetric])
  have 2: "j mod 4096 div 4 = j div 4 mod 1024" for j :: nat
    using mod_mult2_eq [of j 4 1024] by simp
  show ?thesis
    unfolding 1 2 by (metis mult_div_mod_eq)
qed

lemma get_put_page [simp]: "get_page n (put_page k p m) = (if n = k then p else get_page n m)"
  by (simp add: get_page_def put_page_def)

lemma get_touch_page [simp]: "get_page n (touch_page k m) = get_page n m"
  by (simp add: touch_page_def)

lemma put_page_simps [simp]:
  "g_memory_size (put_page n p m) = g_memory_size m"
  "g_sim_errno (put_page n p m) = g_sim_errno m"
  "g_memory_size (set_errno e m) = g_memory_size m"
  "g_sim_errno (set_errno e m) = e"
  "get_page k (set_errno e m) = get_page k m"
  "g_memory_size (touch_page n m) = g_memory_size m"
  "g_sim_errno (touch_page n m) = g_sim_errno m"
  "g_memory_size (store_word n k w m) = g_memory_size m"
  "g_sim_errno (store_word n k w m) = g_sim_errno m"
  by (simp_all add: put_page_def set_errno_def get_page_def touch_page_def store_word_def Let_def)

lemma get_store_word [simp]:
  "get_page j (store_word n k w m) =
     (if j = n then (get_page n m)\<lparr>pg_values := (pg_values (get_page n m))(k := w)\<rparr>
      else get_page j m)"
  by (simp add: store_word_def Let_def)

text \<open>
  The decoded instruction of a word is stale-free: it either does not exist or is \<open>not_decoded\<close>, so
  that \<open>sim()\<close> decodes it again when it gets there.
\<close>

definition not_decoded_at :: "mach \<Rightarrow> nat \<Rightarrow> bool" where
  "not_decoded_at m n \<longleftrightarrow>
     (case pg_decoded_part (get_page (n div 4096) m) of
        None \<Rightarrow> True
      | Some d \<Rightarrow> d_norm_e_addr (d (n mod 4096 div 4)) = H_not_decoded)"

lemma mem_byte_store_byte:
  "mem_byte (store_word (k div 4096) (k mod 4096 div 4)
       (set_byte (k mod 4) v (pg_values (get_page (k div 4096) m) (k mod 4096 div 4))) m) n =
     (if n = k then v else mem_byte m n)"
proof (cases "n div 4096 = k div 4096 \<and> n mod 4096 div 4 = k mod 4096 div 4")
  case True
  then show ?thesis
    using address_eqI [of n k] by (auto simp: mem_byte_def get_set_byte)
next
  case False
  then show ?thesis by (auto simp: mem_byte_def)
qed

lemma mem_byte_invalidate [simp]:
  "mem_byte (put_page n (invalidate k (get_page n m)) m) = mem_byte m"
  by (rule ext) (simp add: mem_byte_def invalidate_def)

lemma mem_byte_frame [simp]:
  "mem_byte (set_errno e m) = mem_byte m" "mem_byte (touch_page n m) = mem_byte m"
  by (simp_all add: mem_byte_def fun_eq_iff)

lemma not_decoded_frame [simp]:
  "not_decoded_at (set_errno e m) = not_decoded_at m"
  "not_decoded_at (touch_page n m) = not_decoded_at m"
  "not_decoded_at (store_word j k w m) = not_decoded_at m"
  by (auto simp: not_decoded_at_def fun_eq_iff split: option.splits)

lemma not_decoded_invalidate:
  "not_decoded_at (put_page (k div 4096) (invalidate (k mod 4096 div 4) (get_page (k div 4096) m)) m) n
     \<longleftrightarrow> n div 4 = k div 4 \<or> not_decoded_at m n"
  unfolding word_of_address [of n k] by (auto simp: not_decoded_at_def invalidate_def split: option.splits)

text \<open>Byte stores to RAM.\<close>

lemma write_sim_b_ram:
  assumes "a < g_memory_size m"
  shows "\<exists>m'. write_sim_b io m a v = Some (0, m') \<and> g_memory_size m' = g_memory_size m \<and>
           \<not> g_sim_errno m' \<and>
           mem_byte m' = (mem_byte m)(unat a := ucast v) \<and>
           (\<forall>n. not_decoded_at m' n \<longleftrightarrow> n div 4 = unat a div 4 \<or> not_decoded_at m n)"
proof -
  let ?m = "touch_page (page_of a) (set_errno False m)"
  let ?m1 = "store_word (page_of a) (word_index a) (set_byte (unat (a AND 3)) (ucast v) (ram_word ?m a)) ?m"
  let ?m2 = "put_page (page_of a) (invalidate (word_index a) (get_page (page_of a) ?m1)) ?m1"
  have "write_sim_b io m a v = Some (0, ?m2)"
    using assms by (simp add: write_sim_b_def Let_def not_le [symmetric])
  moreover have "mem_byte ?m2 = (mem_byte m)(unat a := ucast v)"
  proof
    fix n
    have "mem_byte ?m2 n = mem_byte ?m1 n" by (simp only: mem_byte_invalidate)
    also have "\<dots> = (if n = unat a then ucast v else mem_byte ?m n)"
      unfolding ram_word_def page_of_nat word_index_nat unat_and_3 by (rule mem_byte_store_byte)
    finally show "mem_byte ?m2 n = ((mem_byte m)(unat a := ucast v)) n" by simp
  qed
  moreover have "not_decoded_at ?m2 n \<longleftrightarrow> n div 4 = unat a div 4 \<or> not_decoded_at m n" for n
    using not_decoded_invalidate [of "unat a" ?m1 n]
    by (simp only: page_of_nat word_index_nat not_decoded_frame)
  ultimately show ?thesis by auto
qed

text \<open>An aligned word of the array, and reads at any alignment.\<close>

definition mem_word :: "mach \<Rightarrow> nat \<Rightarrow> u32" where
  "mem_word m n = be_word (mem_byte m n) (mem_byte m (n + 1)) (mem_byte m (n + 2)) (mem_byte m (n + 3))"

lemma be_word_shift:
  "push_bit 8 (be_word a b c d) OR drop_bit 24 (be_word e f g h) = be_word b c d e"
  "push_bit 16 (be_word a b c d) OR drop_bit 16 (be_word e f g h) = be_word c d e f"
  "push_bit 24 (be_word a b c d) OR drop_bit 8 (be_word e f g h) = be_word d e f g"
  by (rule word_eq_bytes; auto simp: be_word_def bit_simps dest: bit_imp_le_length)+

lemma word_values:
  "pg_values (get_page (n div 4096) m) (n mod 4096 div 4) = mem_word m (4 * (n div 4))"
proof -
  have "mem_byte m (4 * (n div 4) + j) =
      get_byte j (pg_values (get_page (n div 4096) m) (n mod 4096 div 4))" if "j < 4" for j
    using that word_of_address [of "4 * (n div 4) + j" n] by (simp add: mem_byte_def)
  from this [of 0] this [of 1] this [of 2] this [of 3]
  show ?thesis by (simp add: mem_word_def be_word_get_byte [simplified])
qed

lemma ram_word_nat: "ram_word m a = mem_word m (4 * (unat a div 4))"
  unfolding ram_word_def page_of_nat word_index_nat by (rule word_values)

lemma mem_word_frame [simp]:
  "mem_word (set_errno e m) = mem_word m" "mem_word (touch_page n m) = mem_word m"
  by (simp_all add: mem_word_def fun_eq_iff)

lemma read_sim_w_aligned:
  assumes "a < g_memory_size m" "a AND 3 = 0"
  shows "read_sim_w io m a =
     Some (mem_word m (4 * (unat a div 4)), touch_page (page_of a) (set_errno False m))"
  using assms by (subst read_sim_w.simps) (simp add: not_le [symmetric] ram_word_nat)

lemma next_word_nat:
  fixes a :: u32
  assumes "unat a + 3 < 2 ^ 32" "a AND 3 \<noteq> 0"
  shows "unat ((a AND NOT 3) + 4) = 4 * (unat a div 4) + 4"
proof -
  have "(a AND NOT 3) + (a AND 3) = a"
    using bits_ident [of 2 a] by (simp only: and_not_3 and_3_take_bit)
  then have "a AND NOT 3 = a - (a AND 3)" by (metis add_diff_cancel_right')
  moreover have "a AND 3 \<le> a" by (rule word_and_le2)
  ultimately have "unat (a AND NOT 3) = unat a - unat a mod 4"
    by (simp only: unat_sub unat_and_3)
  then have *: "unat (a AND NOT 3) = 4 * (unat a div 4)"
    by (simp add: minus_mod_eq_mult_div)
  have "unat a mod 4 \<noteq> 0"
    using assms(2) unat_and_3 [of a] by (metis unat_eq_0)
  then have "4 * (unat a div 4) + 4 < 2 ^ 32" 
    using assms(1) mult_div_mod_eq [of 4 "unat a"] by linarith
  with * show ?thesis by (simp add: unat_word_ariths)
qed

lemma unat_numeral_2: "unat (2 :: u32) = 2" and unat_numeral_3: "unat (3 :: u32) = 3"
  by simp_all

text \<open>A word read from RAM, at any alignment, is the big-endian value of the four bytes there.\<close>

lemma read_sim_w_ram:
  assumes "unat a + 3 < unat (g_memory_size m)"
  shows "\<exists>m'. read_sim_w io m a = Some (mem_word m (unat a), m') \<and> mem_byte m' = mem_byte m \<and>
           not_decoded_at m' = not_decoded_at m \<and>
           g_memory_size m' = g_memory_size m \<and> \<not> g_sim_errno m'"
proof (cases "a AND 3 = 0")
  case True
  moreover from assms have "a < g_memory_size m" by (simp add: word_less_nat_alt)
  moreover from True have "4 * (unat a div 4) = unat a"
    using unat_and_3 [of a] by simp presburger
  ultimately show ?thesis by (simp add: read_sim_w_aligned)
next
  case False
  have less: "a < g_memory_size m" using assms by (simp add: word_less_nat_alt)
  have small: "unat a + 3 < 2 ^ 32" using assms unat_u32 [of "g_memory_size m"] by linarith
  let ?b = "(a AND NOT 3) + 4"
  let ?m = "touch_page (page_of a) (set_errno False m)"
  have b: "unat ?b = 4 * (unat a div 4) + 4" by (rule next_word_nat [OF small False])
  have r: "unat a mod 4 \<noteq> 0" "unat a mod 4 < 4"
    using False unat_and_3 [of a] by (auto simp flip: unat_eq_0)
  then have "unat ?b \<le> unat a + 3"
    unfolding b using mult_div_mod_eq [of 4 "unat a"] by linarith
  with assms have "?b < g_memory_size ?m" by (simp add: word_less_nat_alt)
  then have next_read: "read_sim_w io ?m ?b =
      Some (mem_word m (4 * (unat a div 4) + 4), touch_page (page_of ?b) (set_errno False ?m))"
    by (subst read_sim_w_aligned) (simp_all only: next_word_aligned b, simp add: add.commute)
  let ?n = "4 * (unat a div 4)"
  have *: "push_bit 8 (mem_word m ?n) OR drop_bit 24 (mem_word m (?n + 4)) = mem_word m (?n + 1)"
    "push_bit 16 (mem_word m ?n) OR drop_bit 16 (mem_word m (?n + 4)) = mem_word m (?n + 2)"
    "push_bit 24 (mem_word m ?n) OR drop_bit 8 (mem_word m (?n + 4)) = mem_word m (?n + 3)"
    unfolding mem_word_def be_word_shift
    by (simp_all only: add.assoc arith_simps one_plus_numeral numeral_plus_one one_add_one)
  have "unat a = ?n + unat (a AND 3)"
    using mult_div_mod_eq [of 4 "unat a"] by (simp only: unat_and_3)
  then consider "a AND 3 = 1" "unat a = ?n + 1" | "a AND 3 = 2" "unat a = ?n + 2"
    | "a AND 3 = 3" "unat a = ?n + 3"
    using and_3_cases [of a] False by (metis unat_1 unat_numeral_3 unat_numeral_2)
  then show ?thesis
    by cases (use less next_read * in
      \<open>subst read_sim_w.simps, simp add: not_le [symmetric] ram_word_nat Let_def\<close>)+
qed

text \<open>Word stores to RAM.\<close>

definition put_word :: "u32 \<Rightarrow> nat \<Rightarrow> (nat \<Rightarrow> u8) \<Rightarrow> nat \<Rightarrow> u8" where
  "put_word v n f =
     f(n := get_byte 0 v, n + 1 := get_byte 1 v, n + 2 := get_byte 2 v, n + 3 := get_byte 3 v)"

lemma and_255: "x AND 0xff = take_bit 8 x" for x :: u32
  by (simp add: take_bit_eq_mask mask_eq_exp_minus_1)

lemma ucast_bytes:
  "ucast (drop_bit 24 v AND 0xff :: u32) = get_byte 0 v"
  "ucast (drop_bit 16 v AND 0xff :: u32) = get_byte 1 v"
  "ucast (drop_bit 8 v AND 0xff :: u32) = get_byte 2 v"
  "ucast (v AND 0xff :: u32) = get_byte 3 v"
  by (auto intro!: bit_word_eqI simp: get_byte_def bit_simps and_255)

lemma mem_byte_store_word:
  "mem_byte (store_word (k div 4096) (k mod 4096 div 4) w m) n =
     (if n div 4 = k div 4 then get_byte (n mod 4) w else mem_byte m n)"
  unfolding word_of_address [of n k] by (auto simp: mem_byte_def)

lemma put_word_aligned:
  assumes "k mod 4 = 0"
  shows "(\<lambda>n. if n div 4 = k div 4 then get_byte (n mod 4) w else f n) = put_word w k f"
proof
  fix n :: nat
  obtain q where k: "k = 4 * q" using assms mod_0_imp_dvd by blast
  have "n = 4 * (n div 4) + n mod 4" "n mod 4 < 4" by simp_all
  moreover have "(4 * q + j) div 4 = q" if "j < 4" for j using that by simp
  ultimately have "n div 4 = k div 4 \<longleftrightarrow> n = k \<or> n = k + 1 \<or> n = k + 2 \<or> n = k + 3"
    unfolding k by (auto; linarith)
  moreover have "(k + 1) mod 4 = 1" "(k + 2) mod 4 = 2" "(k + 3) mod 4 = 3"
    unfolding k using mod_mult_self4 [of 4 q 1] mod_mult_self4 [of 4 q 2] mod_mult_self4 [of 4 q 3]
    by simp_all
  ultimately show "(if n div 4 = k div 4 then get_byte (n mod 4) w else f n) = put_word w k f n"
    using assms by (auto simp: put_word_def)
qed

lemma write_sim_w_ram:
  assumes "unat a + 3 < unat (g_memory_size m)"
  shows "\<exists>m'. write_sim_w io m a v = Some (0, m') \<and> g_memory_size m' = g_memory_size m \<and>
           \<not> g_sim_errno m' \<and> mem_byte m' = put_word v (unat a) (mem_byte m) \<and>
           (\<forall>n. not_decoded_at m' n \<longleftrightarrow>
                n div 4 = unat a div 4 \<or> n div 4 = (unat a + 3) div 4 \<or> not_decoded_at m n)"
proof -
  have less: "a < g_memory_size m" using assms by (simp add: word_less_nat_alt)
  let ?m = "touch_page (page_of a) (set_errno False m)"
  show ?thesis
  proof (cases "a AND 3 = 0")
    case True
    then have 4: "unat a mod 4 = 0" using unat_and_3 [of a] by simp
    then have 5: "(unat a + 3) div 4 = unat a div 4" by presburger
    let ?m1 = "store_word (page_of a) (word_index a) v ?m"
    let ?m2 = "put_page (page_of a) (invalidate (word_index a) (get_page (page_of a) ?m1)) ?m1"
    have "write_sim_w io m a v = Some (0, ?m2)"
      using less True by (simp add: write_sim_w_def Let_def not_le [symmetric])
    moreover have "mem_byte ?m2 = put_word v (unat a) (mem_byte m)"
      unfolding mem_byte_invalidate page_of_nat word_index_nat
      using put_word_aligned [OF 4, of v "mem_byte m"]
      by (intro ext) (simp only: mem_byte_store_word mem_byte_frame fun_eq_iff)
    moreover have "not_decoded_at ?m2 n \<longleftrightarrow> n div 4 = unat a div 4 \<or> not_decoded_at m n" for n
      using not_decoded_invalidate [of "unat a" ?m1 n]
      by (simp only: page_of_nat word_index_nat not_decoded_frame)
    ultimately show ?thesis using 5 by auto
  next
    case False
    have small: "unat a + 3 < 2 ^ 32" using assms unat_u32 [of "g_memory_size m"] by linarith
    then have u: "unat (a + 1) = unat a + 1" "unat (a + 2) = unat a + 2" "unat (a + 3) = unat a + 3"
      by (simp_all add: unat_word_ariths)
    from write_sim_b_ram [of a ?m io "drop_bit 24 v AND 0xff"] less obtain m1 where
      1: "write_sim_b io ?m a (drop_bit 24 v AND 0xff) = Some (0, m1)"
      "g_memory_size m1 = g_memory_size m" "mem_byte m1 = (mem_byte m)(unat a := get_byte 0 v)"
      "\<And>n. not_decoded_at m1 n \<longleftrightarrow> n div 4 = unat a div 4 \<or> not_decoded_at m n"
      by (auto simp: ucast_bytes(1))
    have "a + 1 < g_memory_size m1" using assms 1 u by (simp add: word_less_nat_alt)
    from write_sim_b_ram [OF this, of io "drop_bit 16 v AND 0xff"] 1 u obtain m2 where
      2: "write_sim_b io m1 (a + 1) (drop_bit 16 v AND 0xff) = Some (0, m2)"
      "g_memory_size m2 = g_memory_size m" "mem_byte m2 = (mem_byte m1)(unat a + 1 := get_byte 1 v)"
      "\<And>n. not_decoded_at m2 n \<longleftrightarrow> n div 4 = (unat a + 1) div 4 \<or> not_decoded_at m1 n"
      by (auto simp: ucast_bytes(2))
    have "a + 2 < g_memory_size m2" using assms 2 u by (simp add: word_less_nat_alt)
    from write_sim_b_ram [OF this, of io "drop_bit 8 v AND 0xff"] 2 u obtain m3 where
      3: "write_sim_b io m2 (a + 2) (drop_bit 8 v AND 0xff) = Some (0, m3)"
      "g_memory_size m3 = g_memory_size m" "mem_byte m3 = (mem_byte m2)(unat a + 2 := get_byte 2 v)"
      "\<And>n. not_decoded_at m3 n \<longleftrightarrow> n div 4 = (unat a + 2) div 4 \<or> not_decoded_at m2 n"
      by (auto simp: ucast_bytes(3))
    have "a + 3 < g_memory_size m3" using assms 3 u by (simp add: word_less_nat_alt)
    from write_sim_b_ram [OF this, of io "v AND 0xff"] 3 u obtain m4 where
      4: "write_sim_b io m3 (a + 3) (v AND 0xff) = Some (0, m4)"
      "g_memory_size m4 = g_memory_size m" "mem_byte m4 = (mem_byte m3)(unat a + 3 := get_byte 3 v)"
      "\<not> g_sim_errno m4"
      "\<And>n. not_decoded_at m4 n \<longleftrightarrow> n div 4 = (unat a + 3) div 4 \<or> not_decoded_at m3 n"
      by (auto simp: ucast_bytes(4))
    have "write_sim_w io m a v = Some (0, m4)"
      using less False by (simp add: write_sim_w_def Let_def not_le [symmetric] 1 2 3 4)
    moreover have "mem_byte m4 = put_word v (unat a) (mem_byte m)"
      by (simp add: 1 2 3 4 put_word_def)
    moreover have "not_decoded_at m4 n \<longleftrightarrow>
        n div 4 = unat a div 4 \<or> n div 4 = (unat a + 3) div 4 \<or> not_decoded_at m n" for n
    proof -
      have "(unat a + 1) div 4 = unat a div 4 \<or> (unat a + 1) div 4 = (unat a + 3) div 4"
        "(unat a + 2) div 4 = unat a div 4 \<or> (unat a + 2) div 4 = (unat a + 3) div 4"
        by presburger+
      then show ?thesis by (auto simp: 1 2 3 4)
    qed
    ultimately show ?thesis using 4 by auto
  qed
qed

text \<open>Zeroing a block.\<close>

lemma get_byte_zero_bytes:
  "b < 4 \<Longrightarrow> get_byte b (zero_bytes off len k w) =
     (if off \<le> 4 * k + b \<and> 4 * k + b < off + len then 0 else get_byte b w)"
  by (simp add: zero_bytes_def get_set_byte)

lemma mem_byte_bzero:
  "mem_byte (bzero pg off len m) n =
     (if n div 4096 = pg \<and> off \<le> n mod 4096 \<and> n mod 4096 < off + len then 0 else mem_byte m n)"
proof -
  have "4 * (n mod 4096 div 4) + n mod 4 = n mod 4096"
    using mult_div_mod_eq [of 4 "n mod 4096"] by (simp add: mod_mod_cancel)
  then show ?thesis
    by (simp add: mem_byte_def bzero_def Let_def get_byte_zero_bytes)
qed

lemma bzero_frame [simp]:
  "g_memory_size (bzero pg off len m) = g_memory_size m"
  by (simp add: bzero_def Let_def)

lemma pg_decoded_bzero [simp]:
  "pg_decoded_part (get_page k (bzero pg off len m)) = pg_decoded_part (get_page k m)"
  by (simp add: bzero_def Let_def)

lemma unat_page_minus_poff: "unat (PAGESIZE - poff a) = 4096 - unat a mod 4096"
  using poff_less [of a] by (simp add: unat_sub order_less_imp_le unat_poff)

lemma unat_block_len: "unat (block_len a len) = min (4096 - unat a mod 4096) (unat len)"
  by (simp add: block_len_def Let_def word_less_nat_alt unat_page_minus_poff min_def)

lemma sim_ptr_block:
  assumes "a < g_memory_size m"
  shows "sim_ptr m a (block_len a len) = (Some (page_of a, poff a), touch_page (page_of a) m)"
proof -
  have "unat a mod 4096 < 4096" by simp
  then have "unat (poff a + block_len a len) \<le> 4096"
    by (simp add: unat_word_ariths unat_poff unat_block_len)
  then have "\<not> poff a + block_len a len > PAGESIZE"
    by (simp add: word_less_nat_alt)
  with assms show ?thesis by (simp add: sim_ptr_def not_le [symmetric])
qed

lemma mod_block: "k < 4096 - x mod 4096 \<Longrightarrow> (x + k) div 4096 = x div 4096 \<and> (x + k) mod 4096 = x mod 4096 + k"
  for x k :: nat
proof -
  assume k: "k < 4096 - x mod 4096"
  have x: "x + k = (x mod 4096 + k) + 4096 * (x div 4096)" by simp
  have "(x + k) div 4096 = x div 4096 + (x mod 4096 + k) div 4096"
    by (subst x) (simp only: div_mult_self2 zero_neq_numeral not_False_eq_True)
  moreover have "(x + k) mod 4096 = (x mod 4096 + k) mod 4096"
    by (simp only: mod_add_left_eq)
  ultimately show ?thesis using k by simp
qed

lemma block_range:
  fixes x k j :: nat
  assumes "j \<le> 4096 - x mod 4096"
  shows "k div 4096 = x div 4096 \<and> x mod 4096 \<le> k mod 4096 \<and> k mod 4096 < x mod 4096 + j
           \<longleftrightarrow> x \<le> k \<and> k < x + j" (is "?l \<longleftrightarrow> ?r")
proof
  assume ?l
  then have "k div 4096 = x div 4096" "x mod 4096 \<le> k mod 4096" "k mod 4096 < x mod 4096 + j"
    by auto
  then show ?r
    using mult_div_mod_eq [of 4096 x] mult_div_mod_eq [of 4096 k] by linarith
next
  assume r: ?r
  then have "k = x + (k - x)" "k - x < 4096 - x mod 4096" using assms by linarith+
  then show ?l using mod_block [of "k - x" x] r by (metis add_less_cancel_left le_add1 nat_add_left_cancel_less)
qed

text \<open>What \<open>sim_zeromem\<close> does to RAM; the decoded instructions stay what they are.\<close>

lemma sim_zeromem_ram_aux:
  "unat a + unat len \<le> unat (g_memory_size m) \<Longrightarrow>
   \<exists>m'. sim_zeromem io m a len = Some (0, m') \<and>
     mem_byte m' = (\<lambda>n. if unat a \<le> n \<and> n < unat a + unat len then 0 else mem_byte m n) \<and>
     (\<forall>k. pg_decoded_part (get_page k m') = pg_decoded_part (get_page k m))"
proof (induction "unat len" arbitrary: m a len rule: less_induct)
  case less
  show ?case
  proof (cases "len = 0")
    case True
    then show ?thesis by (auto simp: sim_zeromem.simps fun_eq_iff)
  next
    case False
    let ?n = "block_len a len"
    let ?m = "bzero (page_of a) (unat (poff a)) (unat ?n) (touch_page (page_of a) m)"
    have n: "unat ?n = min (4096 - unat a mod 4096) (unat len)" by (rule unat_block_len)
    have "0 < unat len" using False by (simp add: unat_gt_0)
    then have a: "a < g_memory_size m"
      using less.prems by (simp add: word_less_nat_alt)
    have n_le: "unat ?n \<le> unat len" by (simp add: n)
    have fits: "unat a + unat len < 2 ^ 32"
      using less.prems unat_u32 [of "g_memory_size m"] by linarith
    then have an: "unat (a + ?n) = unat a + unat ?n"
      using n_le by (simp add: unat_word_ariths)
    have ln: "unat (len - ?n) = unat len - unat ?n"
      using n_le by (simp add: unat_sub word_le_nat_alt)
    have "unat (a + ?n) + unat (len - ?n) \<le> unat (g_memory_size ?m)"
      using less.prems n_le by (simp add: an ln)
    from less.hyps [OF block_len_bounds(3) [OF False] this] obtain m' where
      m': "sim_zeromem io ?m (a + ?n) (len - ?n) = Some (0, m')"
      "mem_byte m' = (\<lambda>k. if unat (a + ?n) \<le> k \<and> k < unat (a + ?n) + unat (len - ?n) then 0
                           else mem_byte ?m k)"
      "\<forall>k. pg_decoded_part (get_page k m') = pg_decoded_part (get_page k ?m)" by blast
    have "sim_zeromem io m a len = Some (0, m')"
      using m'(1) by (subst sim_zeromem.simps) (simp add: False Let_def sim_ptr_block [OF a])
    moreover have "mem_byte ?m k = (if unat a \<le> k \<and> k < unat a + unat ?n then 0 else mem_byte m k)" for k
      unfolding mem_byte_bzero page_of_nat unat_poff mem_byte_frame
      by (rule if_cong [OF block_range refl refl]) (simp add: n)
    then have "mem_byte m' = (\<lambda>n. if unat a \<le> n \<and> n < unat a + unat len then 0 else mem_byte m n)"
      using n_le unfolding m'(2) an ln by (auto simp: fun_eq_iff)
    ultimately show ?thesis using m'(3) by simp
  qed
qed

end
