(* ===== verification/Sim_Tlb.thy ===== *)
theory Sim_Tlb
  imports Sim_Literals Sim_Memory
begin

text \<open>
  The caches of translations (\<open>sim/siminit.c\<close> and the decoded-instruction flushes of
  \<open>sim/cmmu.c\<close>): four software TLBs, which map logical pages to pages of simulated memory for loads and
  for stores in user and in supervisor mode; the decoded-page cache \<open>deccache\<close>, one for each mode; the
  list of decoded pages of IO space; and the decoded instructions themselves.

  Before \<open>sim_init\<close> has run for the first time the segment pointers are null; \<open>sim_init\<close> and
  \<open>sim_flush_all_translations\<close> then point all of them to \<open>defaultpagetlb\<close>.  The model has this state
  from the start.
\<close>

section \<open>Software TLBs\<close>

definition flush_page_in :: "nat \<Rightarrow> nat \<Rightarrow> tlb \<Rightarrow> tlb" where
  "flush_page_in seg page t =
     (case t seg of None \<Rightarrow> t | Some q \<Rightarrow> t(seg := Some (q(page := None))))"

definition flush_segment_in :: "nat \<Rightarrow> tlb \<Rightarrow> tlb" where
  "flush_segment_in seg t = (case t seg of None \<Rightarrow> t | Some q \<Rightarrow> t(seg := Some (\<lambda>_. None)))"

definition flush_user_tlb_page :: "u32 \<Rightarrow> mach \<Rightarrow> mach option" where
  "flush_user_tlb_page page m =
     (let seg = drop_bit 10 page in
      if seg \<ge> 1024 then None
      else
        Some (m\<lparr>g_u_load_tlb := flush_page_in (unat seg) (unat (page AND 0x3ff)) (g_u_load_tlb m),
                g_u_store_tlb := flush_page_in (unat seg) (unat (page AND 0x3ff)) (g_u_store_tlb m)\<rparr>))"

definition flush_user_tlb_segment :: "nat \<Rightarrow> mach \<Rightarrow> mach option" where
  "flush_user_tlb_segment segment m =
     (if segment \<ge> 1024 then None
      else
        Some (m\<lparr>g_u_load_tlb := flush_segment_in segment (g_u_load_tlb m),
                g_u_store_tlb := flush_segment_in segment (g_u_store_tlb m)\<rparr>))"

fun each_segment :: "(nat \<Rightarrow> mach \<Rightarrow> mach option) \<Rightarrow> nat list \<Rightarrow> mach \<Rightarrow> mach option" where
  "each_segment f [] m = Some m"
| "each_segment f (i # is) m = do { m \<leftarrow> f i m; each_segment f is m }"

definition flush_user_tlb_all :: "mach \<Rightarrow> mach option" where
  "flush_user_tlb_all m = each_segment flush_user_tlb_segment [0..<1024] m"

definition flush_supervisor_tlb_page :: "u32 \<Rightarrow> mach \<Rightarrow> mach option" where
  "flush_supervisor_tlb_page page m =
     (let seg = drop_bit 10 page in
      if seg \<ge> 1024 then None
      else
        Some (m\<lparr>g_s_load_tlb := flush_page_in (unat seg) (unat (page AND 0x3ff)) (g_s_load_tlb m),
                g_s_store_tlb := flush_page_in (unat seg) (unat (page AND 0x3ff)) (g_s_store_tlb m)\<rparr>))"

definition flush_supervisor_tlb_segment :: "nat \<Rightarrow> mach \<Rightarrow> mach option" where
  "flush_supervisor_tlb_segment segment m =
     (if segment \<ge> 1024 then None
      else
        Some (m\<lparr>g_s_load_tlb := flush_segment_in segment (g_s_load_tlb m),
                g_s_store_tlb := flush_segment_in segment (g_s_store_tlb m)\<rparr>))"

definition flush_supervisor_tlb_all :: "mach \<Rightarrow> mach option" where
  "flush_supervisor_tlb_all m = each_segment flush_supervisor_tlb_segment [0..<1024] m"

definition flush_mode_page :: "nat \<Rightarrow> nat \<Rightarrow> nat \<Rightarrow> mach \<Rightarrow> mach" where
  "flush_mode_page usmode seg page m =
     (if usmode = M_USER then
        m\<lparr>g_u_load_tlb := flush_page_in seg page (g_u_load_tlb m),
          g_u_store_tlb := flush_page_in seg page (g_u_store_tlb m)\<rparr>
      else
        m\<lparr>g_s_load_tlb := flush_page_in seg page (g_s_load_tlb m),
          g_s_store_tlb := flush_page_in seg page (g_s_store_tlb m)\<rparr>)"

primrec flush_range_loop :: "nat \<Rightarrow> u32 \<Rightarrow> nat \<Rightarrow> mach \<Rightarrow> mach" where
  "flush_range_loop 0 la usmode m = m"
| "flush_range_loop (Suc n) la usmode m =
     flush_range_loop n (la + PAGESIZE) usmode (flush_mode_page usmode (btos la) (btop la) m)"

definition flush_tlb_range :: "u32 \<Rightarrow> u32 \<Rightarrow> nat \<Rightarrow> mach \<Rightarrow> mach" where
  "flush_tlb_range la len usmode m =
     flush_range_loop (unat (drop_bit 12 (len + 4095))) la usmode m"

section \<open>Decoded pages\<close>

text \<open>The list elements are freed; the decoded parts they name stay allocated.\<close>

definition flush_io_decoded_list :: "mach \<Rightarrow> mach" where
  "flush_io_decoded_list m = m\<lparr>g_io_list := []\<rparr>"

definition clean_io_part :: "nat \<Rightarrow> mach \<Rightarrow> mach" where
  "clean_io_part i m =
     m\<lparr>g_io_parts := (g_io_parts m)(i := map_option clean_decoded_part (g_io_parts m i))\<rparr>"

definition flush_io_decoded_list_entry :: "u32 \<Rightarrow> mach \<Rightarrow> mach" where
  "flush_io_decoded_list_entry physical_address m =
     (case find (\<lambda>p. il_page_number p = drop_bit 12 physical_address) (g_io_list m) of
        None \<Rightarrow> m
      | Some p \<Rightarrow> clean_io_part (il_decoded_part p) m)"

definition flush_deccache :: "nat \<Rightarrow> mach \<Rightarrow> mach" where
  "flush_deccache usmode m =
     m\<lparr>g_deccache := (g_deccache m)(usmode := (\<lambda>_. \<lparr>di_pagela = 0, di_pagep = None\<rparr>)),
       g_nextdecp := (g_nextdecp m)(usmode := 0)\<rparr>"

definition fpeint :: "mach \<Rightarrow> mach" where
  "fpeint m = m\<lparr>g_fp_exception := True\<rparr>"

text \<open>The loop over the page table: the decoded part of every allocated page is cleaned.\<close>

definition clean_decoded_pages :: "mach \<Rightarrow> mach" where
  "clean_decoded_pages m =
     m\<lparr>g_page_table := (\<lambda>n.
         if n < unat (g_page_table_size m) then
           map_option (\<lambda>p. p\<lparr>pg_decoded_part := map_option clean_decoded_part (pg_decoded_part p)\<rparr>)
             (g_page_table m n)
         else g_page_table m n)\<rparr>"

definition cache_flush_all :: "mach \<Rightarrow> mach" where
  "cache_flush_all m = free_literals (clean_decoded_pages m)"

definition cache_flush_page :: "u32 \<Rightarrow> mach \<Rightarrow> mach" where
  "cache_flush_page page m =
     (if page < g_page_table_size m then
        m\<lparr>g_page_table := (g_page_table m)(unat page :=
            map_option (\<lambda>p. p\<lparr>pg_decoded_part := map_option clean_decoded_part (pg_decoded_part p)\<rparr>)
              (g_page_table m (unat page)))\<rparr>
      else m)"

definition cache_flush_line :: "u32 \<Rightarrow> mach \<Rightarrow> mach" where
  "cache_flush_line line m = cache_flush_page (drop_bit 8 line) m"

definition cache_flush_segment :: "nat \<Rightarrow> mach \<Rightarrow> mach" where
  "cache_flush_segment segment m = cache_flush_all m"

definition sim_flush_all_translations :: "mach \<Rightarrow> mach option" where
  "sim_flush_all_translations m =
     do {
       m \<leftarrow> flush_user_tlb_all (flush_io_decoded_list (clean_decoded_pages m));
       m \<leftarrow> flush_supervisor_tlb_all m;
       Some (free_literals (flush_deccache M_USER (flush_deccache M_SUPERVISOR m)))
     }"

section \<open>What the TLBs map\<close>

text \<open>
  The abstract view of a TLB: a partial function from segments and pages.  Flushing removes entries
  and changes nothing else.
\<close>

definition tlb_entry :: "tlb \<Rightarrow> nat \<Rightarrow> nat \<Rightarrow> nat option" where
  "tlb_entry t seg page = (case t seg of None \<Rightarrow> None | Some q \<Rightarrow> q page)"

named_theorems tlb_simps "entries of a TLB after each operation"

lemma tlb_entry_flush_page [tlb_simps]:
  "tlb_entry (flush_page_in seg page t) s p = (if s = seg \<and> p = page then None else tlb_entry t s p)"
  by (auto simp: tlb_entry_def flush_page_in_def split: option.splits)

lemma tlb_entry_flush_segment [tlb_simps]:
  "tlb_entry (flush_segment_in seg t) s p = (if s = seg then None else tlb_entry t s p)"
  by (auto simp: tlb_entry_def flush_segment_in_def split: option.splits)

text \<open>The entry that a memory access of a mode uses.\<close>

definition load_tlb :: "nat \<Rightarrow> mach \<Rightarrow> tlb" where
  "load_tlb usmode m = (if usmode = M_USER then g_u_load_tlb m else g_s_load_tlb m)"

definition store_tlb :: "nat \<Rightarrow> mach \<Rightarrow> tlb" where
  "store_tlb usmode m = (if usmode = M_USER then g_u_store_tlb m else g_s_store_tlb m)"

text \<open>
  The invariant of the TLBs: a page that can be stored to through a TLB can also be loaded from, and
  it is the same page.
\<close>

definition tlb_inv :: "mach \<Rightarrow> bool" where
  "tlb_inv m \<longleftrightarrow>
     (\<forall>us s p q. tlb_entry (store_tlb us m) s p = Some q \<longrightarrow> tlb_entry (load_tlb us m) s p = Some q)"

text \<open>The operations that only flush: what is left was there before, in both TLBs alike.\<close>

definition tlb_shrinks :: "mach \<Rightarrow> mach \<Rightarrow> bool" where
  "tlb_shrinks m m' \<longleftrightarrow>
     (\<exists>f. \<forall>us s p.
        tlb_entry (load_tlb us m') s p = (if f us s p then None else tlb_entry (load_tlb us m) s p) \<and>
        tlb_entry (store_tlb us m') s p = (if f us s p then None else tlb_entry (store_tlb us m) s p))"

lemma tlb_shrinksI:
  assumes "\<And>us s p. tlb_entry (load_tlb us m') s p =
      (if f us s p then None else tlb_entry (load_tlb us m) s p)"
    and "\<And>us s p. tlb_entry (store_tlb us m') s p =
      (if f us s p then None else tlb_entry (store_tlb us m) s p)"
  shows "tlb_shrinks m m'"
  unfolding tlb_shrinks_def using assms by (intro exI [of _ f] allI conjI)

lemma tlb_shrinks_refl [simp]: "tlb_shrinks m m"
  by (rule tlb_shrinksI [of _ "\<lambda>_ _ _. False"]) simp_all

lemma tlb_shrinks_trans [trans]:
  assumes "tlb_shrinks m1 m2" and "tlb_shrinks m2 m3"
  shows "tlb_shrinks m1 m3"
proof -
  obtain f where f: "\<forall>us s p.
      tlb_entry (load_tlb us m2) s p = (if f us s p then None else tlb_entry (load_tlb us m1) s p) \<and>
      tlb_entry (store_tlb us m2) s p = (if f us s p then None else tlb_entry (store_tlb us m1) s p)"
    using assms(1) unfolding tlb_shrinks_def by (elim exE)
  obtain g where g: "\<forall>us s p.
      tlb_entry (load_tlb us m3) s p = (if g us s p then None else tlb_entry (load_tlb us m2) s p) \<and>
      tlb_entry (store_tlb us m3) s p = (if g us s p then None else tlb_entry (store_tlb us m2) s p)"
    using assms(2) unfolding tlb_shrinks_def by (elim exE)
  show ?thesis
    by (rule tlb_shrinksI [of _ "\<lambda>us s p. f us s p \<or> g us s p"]) (simp_all add: f g)
qed

lemma tlb_shrinks_inv: "tlb_shrinks m m' \<Longrightarrow> tlb_inv m \<Longrightarrow> tlb_inv m'"
  unfolding tlb_shrinks_def tlb_inv_def by (elim exE) (simp split: if_splits)

lemma flush_user_tlb_page_entries:
  assumes "flush_user_tlb_page page m = Some m'"
  shows "tlb_entry (load_tlb us m') s p =
      (if us = M_USER \<and> s = unat (drop_bit 10 page) \<and> p = unat (page AND 0x3ff) then None
       else tlb_entry (load_tlb us m) s p)"
    and "tlb_entry (store_tlb us m') s p =
      (if us = M_USER \<and> s = unat (drop_bit 10 page) \<and> p = unat (page AND 0x3ff) then None
       else tlb_entry (store_tlb us m) s p)"
  using assms
  by (auto simp: flush_user_tlb_page_def load_tlb_def store_tlb_def tlb_simps Let_def split: if_splits)

lemma flush_supervisor_tlb_page_entries:
  assumes "flush_supervisor_tlb_page page m = Some m'"
  shows "tlb_entry (load_tlb us m') s p =
      (if us \<noteq> M_USER \<and> s = unat (drop_bit 10 page) \<and> p = unat (page AND 0x3ff) then None
       else tlb_entry (load_tlb us m) s p)"
    and "tlb_entry (store_tlb us m') s p =
      (if us \<noteq> M_USER \<and> s = unat (drop_bit 10 page) \<and> p = unat (page AND 0x3ff) then None
       else tlb_entry (store_tlb us m) s p)"
  using assms
  by (auto simp: flush_supervisor_tlb_page_def load_tlb_def store_tlb_def tlb_simps Let_def
      split: if_splits)

lemma flush_user_tlb_segment_entries:
  assumes "flush_user_tlb_segment seg m = Some m'"
  shows "tlb_entry (load_tlb us m') s p =
      (if us = M_USER \<and> s = seg then None else tlb_entry (load_tlb us m) s p)"
    and "tlb_entry (store_tlb us m') s p =
      (if us = M_USER \<and> s = seg then None else tlb_entry (store_tlb us m) s p)"
  using assms
  by (auto simp: flush_user_tlb_segment_def load_tlb_def store_tlb_def tlb_simps split: if_splits)

lemma flush_supervisor_tlb_segment_entries:
  assumes "flush_supervisor_tlb_segment seg m = Some m'"
  shows "tlb_entry (load_tlb us m') s p =
      (if us \<noteq> M_USER \<and> s = seg then None else tlb_entry (load_tlb us m) s p)"
    and "tlb_entry (store_tlb us m') s p =
      (if us \<noteq> M_USER \<and> s = seg then None else tlb_entry (store_tlb us m) s p)"
  using assms
  by (auto simp: flush_supervisor_tlb_segment_def load_tlb_def store_tlb_def tlb_simps split: if_splits)

text \<open>
  A loop over segments that never fails and flushes one segment at a time.  The locale is used for the
  user and for the supervisor TLBs.
\<close>

locale segment_flush =
  fixes flush :: "nat \<Rightarrow> mach \<Rightarrow> mach option"
    and mode :: "nat \<Rightarrow> bool"
  assumes flush_ok: "seg < 1024 \<Longrightarrow> \<exists>m'. flush seg m = Some m'"
    and flush_load: "flush seg m = Some m' \<Longrightarrow> tlb_entry (load_tlb us m') s p =
      (if mode us \<and> s = seg then None else tlb_entry (load_tlb us m) s p)"
    and flush_store: "flush seg m = Some m' \<Longrightarrow> tlb_entry (store_tlb us m') s p =
      (if mode us \<and> s = seg then None else tlb_entry (store_tlb us m) s p)"
    and flush_page_table: "flush seg m = Some m' \<Longrightarrow> g_page_table m' = g_page_table m"
begin

lemma each_ok: "\<forall>i \<in> set is. i < 1024 \<Longrightarrow> \<exists>m'. each_segment flush is m = Some m'"
proof (induction "is" arbitrary: m)
  case Nil
  then show ?case by simp
next
  case (Cons i "is")
  then obtain m1 where "flush i m = Some m1" using flush_ok [of i m] by auto
  then show ?case using Cons by simp
qed

lemma each_entries:
  "each_segment flush is m = Some m' \<Longrightarrow>
     tlb_entry (load_tlb us m') s p =
       (if mode us \<and> s \<in> set is then None else tlb_entry (load_tlb us m) s p) \<and>
     tlb_entry (store_tlb us m') s p =
       (if mode us \<and> s \<in> set is then None else tlb_entry (store_tlb us m) s p) \<and>
     g_page_table m' = g_page_table m"
proof (induction "is" arbitrary: m)
  case Nil
  then show ?case by simp
next
  case (Cons i "is")
  then obtain m1 where 1: "flush i m = Some m1" "each_segment flush is m1 = Some m'"
    by (auto dest: bind_SomeD)
  show ?case
    using Cons.IH [OF 1(2)] flush_load [OF 1(1), of us s p] flush_store [OF 1(1), of us s p]
      flush_page_table [OF 1(1)] by auto
qed

lemma each_total:
  assumes "n \<le> 1024"
  shows "\<exists>m'. each_segment flush [0..<n] m = Some m' \<and> g_page_table m' = g_page_table m \<and>
     (\<forall>us s p. tlb_entry (load_tlb us m') s p =
        (if mode us \<and> s < n then None else tlb_entry (load_tlb us m) s p)) \<and>
     (\<forall>us s p. tlb_entry (store_tlb us m') s p =
        (if mode us \<and> s < n then None else tlb_entry (store_tlb us m) s p))"
proof -
  obtain m' where m': "each_segment flush [0..<n] m = Some m'"
    using each_ok [of "[0..<n]" m] assms by auto
  show ?thesis using each_entries [OF m'] m' by auto
qed

end

interpretation user_segments: segment_flush flush_user_tlb_segment "\<lambda>us. us = M_USER"
  by unfold_locales
     (auto simp: flush_user_tlb_segment_entries, auto simp: flush_user_tlb_segment_def split: if_splits)

interpretation supervisor_segments:
  segment_flush flush_supervisor_tlb_segment "\<lambda>us. us \<noteq> M_USER"
  by unfold_locales
     (auto simp: flush_supervisor_tlb_segment_entries,
      auto simp: flush_supervisor_tlb_segment_def split: if_splits)

lemma flush_mode_page_entries [tlb_simps]:
  "tlb_entry (load_tlb us (flush_mode_page md seg page m)) s p =
     (if (us = M_USER \<longleftrightarrow> md = M_USER) \<and> s = seg \<and> p = page then None
      else tlb_entry (load_tlb us m) s p)"
  "tlb_entry (store_tlb us (flush_mode_page md seg page m)) s p =
     (if (us = M_USER \<longleftrightarrow> md = M_USER) \<and> s = seg \<and> p = page then None
      else tlb_entry (store_tlb us m) s p)"
  by (auto simp: flush_mode_page_def load_tlb_def store_tlb_def tlb_simps)

lemma if_twice: "(if A \<and> E then x else if A \<and> H then x else y) = (if A \<and> (H \<or> E) then x else y)"
  by auto

lemma flush_range_entries:
  "tlb_entry (load_tlb us (flush_range_loop n la md m)) s p =
     (if (us = M_USER \<longleftrightarrow> md = M_USER) \<and>
         (\<exists>i < n. s = btos (la + of_nat i * PAGESIZE) \<and> p = btop (la + of_nat i * PAGESIZE))
      then None else tlb_entry (load_tlb us m) s p) \<and>
   tlb_entry (store_tlb us (flush_range_loop n la md m)) s p =
     (if (us = M_USER \<longleftrightarrow> md = M_USER) \<and>
         (\<exists>i < n. s = btos (la + of_nat i * PAGESIZE) \<and> p = btop (la + of_nat i * PAGESIZE))
      then None else tlb_entry (store_tlb us m) s p)"
proof (induction n arbitrary: la m)
  case 0
  then show ?case by simp
next
  case (Suc n)
  have ex: "(\<exists>i < Suc n. P i) \<longleftrightarrow> P 0 \<or> (\<exists>i < n. P (Suc i))" for P :: "nat \<Rightarrow> bool"
    using less_Suc_eq_0_disj by auto
  have zero: "la + of_nat 0 * PAGESIZE = la" by simp
  have step: "la + of_nat (Suc i) * PAGESIZE = la + PAGESIZE + of_nat i * PAGESIZE" for i
    by (simp add: algebra_simps)
  show ?case
    unfolding ex zero step flush_range_loop.simps Suc.IH [THEN conjunct1] Suc.IH [THEN conjunct2] tlb_simps
    by (simp only: if_twice simp_thms)
qed

section \<open>Properties\<close>

lemma flush_user_complete:
  "\<exists>m'. flush_user_tlb_all m = Some m' \<and>
     (\<forall>s < 1024. \<forall>p. tlb_entry (g_u_load_tlb m') s p = None \<and> tlb_entry (g_u_store_tlb m') s p = None) \<and>
     (\<forall>s p. tlb_entry (g_s_load_tlb m') s p = tlb_entry (g_s_load_tlb m) s p \<and>
            tlb_entry (g_s_store_tlb m') s p = tlb_entry (g_s_store_tlb m) s p)"
proof -
  obtain m1 where m1: "flush_user_tlb_all m = Some m1"
    "\<And>us s p. tlb_entry (load_tlb us m1) s p =
        (if us = M_USER \<and> s < 1024 then None else tlb_entry (load_tlb us m) s p)"
    "\<And>us s p. tlb_entry (store_tlb us m1) s p =
        (if us = M_USER \<and> s < 1024 then None else tlb_entry (store_tlb us m) s p)"
    using user_segments.each_total [OF order_refl, of m, folded flush_user_tlb_all_def] by blast
  show ?thesis
    using m1(1) m1(2) [of 0] m1(3) [of 0] m1(2) [of 1] m1(3) [of 1]
    by (auto simp: load_tlb_def store_tlb_def)
qed

lemma flush_supervisor_complete:
  "\<exists>m'. flush_supervisor_tlb_all m = Some m' \<and>
     (\<forall>s < 1024. \<forall>p. tlb_entry (g_s_load_tlb m') s p = None \<and> tlb_entry (g_s_store_tlb m') s p = None) \<and>
     (\<forall>s p. tlb_entry (g_u_load_tlb m') s p = tlb_entry (g_u_load_tlb m) s p \<and>
            tlb_entry (g_u_store_tlb m') s p = tlb_entry (g_u_store_tlb m) s p)"
proof -
  obtain m2 where m2: "flush_supervisor_tlb_all m = Some m2"
    "\<And>us s p. tlb_entry (load_tlb us m2) s p =
        (if us \<noteq> M_USER \<and> s < 1024 then None else tlb_entry (load_tlb us m) s p)"
    "\<And>us s p. tlb_entry (store_tlb us m2) s p =
        (if us \<noteq> M_USER \<and> s < 1024 then None else tlb_entry (store_tlb us m) s p)"
    using supervisor_segments.each_total [OF order_refl, of m, folded flush_supervisor_tlb_all_def] by blast
  show ?thesis
    using m2(1) m2(2) [of 0] m2(3) [of 0] m2(2) [of 1] m2(3) [of 1]
    by (auto simp: load_tlb_def store_tlb_def)
qed

text \<open>Flushing a mode's TLB removes every entry of this mode, in the load and in the store
  TLB, and no entry of the other mode; it cannot fail.
\<close>

theorem flush_tlb_all_complete:
  "(\<exists>m'. flush_user_tlb_all m = Some m' \<and>
     (\<forall>s < 1024. \<forall>p. tlb_entry (g_u_load_tlb m') s p = None \<and> tlb_entry (g_u_store_tlb m') s p = None) \<and>
     (\<forall>s p. tlb_entry (g_s_load_tlb m') s p = tlb_entry (g_s_load_tlb m) s p \<and>
            tlb_entry (g_s_store_tlb m') s p = tlb_entry (g_s_store_tlb m) s p)) \<and>
   (\<exists>m'. flush_supervisor_tlb_all m = Some m' \<and>
     (\<forall>s < 1024. \<forall>p. tlb_entry (g_s_load_tlb m') s p = None \<and> tlb_entry (g_s_store_tlb m') s p = None) \<and>
     (\<forall>s p. tlb_entry (g_u_load_tlb m') s p = tlb_entry (g_u_load_tlb m) s p \<and>
            tlb_entry (g_u_store_tlb m') s p = tlb_entry (g_u_store_tlb m) s p))"
  by (rule conjI [OF flush_user_complete flush_supervisor_complete])

theorem flush_tlb_all_complete_witness:
  "\<exists>m'. flush_user_tlb_all (cleared_mach\<lparr>g_u_load_tlb := (\<lambda>_. Some (\<lambda>_. Some 3))\<rparr>) = Some m' \<and>
     tlb_entry (g_u_load_tlb m') 5 7 = None"
  using flush_tlb_all_complete [of "cleared_mach\<lparr>g_u_load_tlb := (\<lambda>_. Some (\<lambda>_. Some 3))\<rparr>"] by auto

end
