(* ===== verification/Sim_Memop.thy ===== *)
theory Sim_Memop
  imports Sim_Tlb
begin

text \<open>
  \<open>do_mem_op\<close> of \<open>sim/misc.c\<close>: the transfer of a byte, a half word, a word or a double word between a
  register and the place a host pointer points to.  The places are the words of simulated pages and of
  the registers of the simulated devices; a pointer is such a place and an offset in bytes.
\<close>

section \<open>Places in host memory\<close>

datatype membase =
    BPage nat     \<comment> \<open>the \<open>values\<close> of a page\<close>
  | BCmmu nat     \<comment> \<open>a \<open>struct cmmu_registers\<close>\<close>
  | BIen nat      \<comment> \<open>\<open>ien0\<close> .. \<open>ien3\<close>\<close>
  | BIst
  | BTimer        \<comment> \<open>\<open>timer_on\<close>\<close>
  | BTu           \<comment> \<open>\<open>tu\<close> of \<open>gettime.c\<close>\<close>
  | BCio          \<comment> \<open>\<open>cio_regs\<close>\<close>
  | BConst u32    \<comment> \<open>a local variable that is only read\<close>

text \<open>The first 33 words of \<open>struct cmmu_registers\<close>, in the order of their declaration.\<close>

definition cm_get_word :: "cmmu_registers \<Rightarrow> nat \<Rightarrow> u32" where
  "cm_get_word c k =
     (if k = 0 then cm_idr c else if k = 1 then cm_scmr c else if k = 2 then cm_ssr c
      else if k = 3 then cm_sadr c else if k = 4 then cm_pad0 c else if k = 5 then cm_sctr c
      else if k = 6 then cm_lsr c else if k = 7 then cm_ladr c else if k = 8 then cm_pad1 c
      else if k = 9 then cm_sapr c else if k = 10 then cm_uapr c else if k = 11 then cm_pad2 c
      else if k < 20 then cm_bwp c (k - 12) else if k = 20 then cm_pad3 c
      else if k < 25 then cm_cdr c (k - 21) else if k = 25 then cm_pad4 c
      else if k < 30 then cm_ctr c (k - 26) else if k = 30 then cm_pad5 c
      else if k = 31 then cm_clkvr c else cm_pad6 c)"

definition cm_set_word :: "nat \<Rightarrow> u32 \<Rightarrow> cmmu_registers \<Rightarrow> cmmu_registers" where
  "cm_set_word k v c =
     (if k = 0 then c\<lparr>cm_idr := v\<rparr> else if k = 1 then c\<lparr>cm_scmr := v\<rparr>
      else if k = 2 then c\<lparr>cm_ssr := v\<rparr> else if k = 3 then c\<lparr>cm_sadr := v\<rparr>
      else if k = 4 then c\<lparr>cm_pad0 := v\<rparr> else if k = 5 then c\<lparr>cm_sctr := v\<rparr>
      else if k = 6 then c\<lparr>cm_lsr := v\<rparr> else if k = 7 then c\<lparr>cm_ladr := v\<rparr>
      else if k = 8 then c\<lparr>cm_pad1 := v\<rparr> else if k = 9 then c\<lparr>cm_sapr := v\<rparr>
      else if k = 10 then c\<lparr>cm_uapr := v\<rparr> else if k = 11 then c\<lparr>cm_pad2 := v\<rparr>
      else if k < 20 then c\<lparr>cm_bwp := (cm_bwp c)(k - 12 := v)\<rparr> else if k = 20 then c\<lparr>cm_pad3 := v\<rparr>
      else if k < 25 then c\<lparr>cm_cdr := (cm_cdr c)(k - 21 := v)\<rparr> else if k = 25 then c\<lparr>cm_pad4 := v\<rparr>
      else if k < 30 then c\<lparr>cm_ctr := (cm_ctr c)(k - 26 := v)\<rparr> else if k = 30 then c\<lparr>cm_pad5 := v\<rparr>
      else if k = 31 then c\<lparr>cm_clkvr := v\<rparr> else c\<lparr>cm_pad6 := v\<rparr>)"

lemma cm_get_set_word: "k \<le> 32 \<Longrightarrow> cm_get_word (cm_set_word k v c) k = v"
  by (simp add: cm_get_word_def cm_set_word_def)

definition set_cmmu :: "nat \<Rightarrow> cmmu_registers \<Rightarrow> mach \<Rightarrow> mach" where
  "set_cmmu n c m = m\<lparr>g_cmmu_table := (g_cmmu_table m)(n := c)\<rparr>"

definition set_board :: "(board \<Rightarrow> board) \<Rightarrow> mach \<Rightarrow> mach" where
  "set_board f m = m\<lparr>g_board := f (g_board m)\<rparr>"

definition set_drivers :: "(drivers \<Rightarrow> drivers) \<Rightarrow> mach \<Rightarrow> mach" where
  "set_drivers f m = m\<lparr>g_drivers := f (g_drivers m)\<rparr>"

definition join_bytes :: "(nat \<Rightarrow> u8) \<Rightarrow> nat \<Rightarrow> u32" where
  "join_bytes f k = be_word (f (4 * k)) (f (4 * k + 1)) (f (4 * k + 2)) (f (4 * k + 3))"

fun place_get :: "mach \<Rightarrow> membase \<Rightarrow> nat \<Rightarrow> u32 option" where
  "place_get m (BPage n) k = (if k < 1024 then Some (pg_values (get_page n m) k) else None)"
| "place_get m (BCmmu n) k = (if k \<le> 32 then Some (cm_get_word (g_cmmu_table m n) k) else None)"
| "place_get m (BIen j) k = (if k = 0 then Some (b_ien (g_board m) j) else None)"
| "place_get m BIst k = (if k = 0 then Some (b_ist (g_board m)) else None)"
| "place_get m BTimer k = (if k = 0 then Some (b_timer_on (g_board m)) else None)"
| "place_get m BTu k = (if k < 4 then Some (dr_tu (g_drivers m) k) else None)"
| "place_get m BCio k = (if k < 16 then Some (join_bytes (b_cio_regs (g_board m)) k) else None)"
| "place_get m (BConst w) k = (if k < 2 then Some w else None)"

fun place_set :: "mach \<Rightarrow> membase \<Rightarrow> nat \<Rightarrow> u32 \<Rightarrow> mach option" where
  "place_set m (BPage n) k w = (if k < 1024 then Some (store_word n k w m) else None)"
| "place_set m (BCmmu n) k w =
     (if k \<le> 32 then Some (set_cmmu n (cm_set_word k w (g_cmmu_table m n)) m) else None)"
| "place_set m (BIen j) k w =
     (if k = 0 then Some (set_board (\<lambda>b. b\<lparr>b_ien := (b_ien b)(j := w)\<rparr>) m) else None)"
| "place_set m BIst k w = (if k = 0 then Some (set_board (\<lambda>b. b\<lparr>b_ist := w\<rparr>) m) else None)"
| "place_set m BTimer k w = (if k = 0 then Some (set_board (\<lambda>b. b\<lparr>b_timer_on := w\<rparr>) m) else None)"
| "place_set m BTu k w =
     (if k < 4 then Some (set_drivers (\<lambda>d. d\<lparr>dr_tu := (dr_tu d)(k := w)\<rparr>) m) else None)"
| "place_set m BCio k w =
     (if k < 16 then
        Some (set_board (\<lambda>b. b\<lparr>b_cio_regs := (b_cio_regs b)(4 * k := get_byte 0 w,
                4 * k + 1 := get_byte 1 w, 4 * k + 2 := get_byte 2 w, 4 * k + 3 := get_byte 3 w)\<rparr>) m)
      else None)"
| "place_set m (BConst v) k w = None"

section \<open>Transfers\<close>

text \<open>
  The object of \<open>size\<close> bytes at byte \<open>b\<close> of a word, extended to 32 bits: \<open>char\<close> and \<open>short\<close> are signed.
\<close>

definition get_part :: "u32 \<Rightarrow> nat \<Rightarrow> bool \<Rightarrow> u32 \<Rightarrow> u32" where
  "get_part sz b sx w =
     (if sz = BYTE then
        (if sx then scast (get_byte b w) else ucast (get_byte b w))
      else if sz = HALF then
        (let h = (ucast (drop_bit (16 - 8 * b) w) :: 16 word)
         in if sx then scast h else ucast h)
      else w)"

definition set_part :: "u32 \<Rightarrow> nat \<Rightarrow> u32 \<Rightarrow> u32 \<Rightarrow> u32" where
  "set_part sz b v w =
     (if sz = BYTE then set_byte b (ucast v) w
      else if sz = HALF then bf_set (16 - 8 * b) 16 v w
      else v)"

definition aligned_to :: "u32 \<Rightarrow> nat \<Rightarrow> bool" where
  "aligned_to sz off \<longleftrightarrow> sz = BYTE \<or> (sz = HALF \<and> off mod 2 = 0) \<or> (sz = WORD \<and> off mod 4 = 0)"

definition mem_load :: "mach \<Rightarrow> membase \<Rightarrow> nat \<Rightarrow> u32 \<Rightarrow> bool \<Rightarrow> u32 option" where
  "mem_load m b off sz sx =
     (if \<not> aligned_to sz off then None
      else do { w \<leftarrow> place_get m b (off div 4); Some (get_part sz (off mod 4) sx w) })"

definition mem_store :: "mach \<Rightarrow> membase \<Rightarrow> nat \<Rightarrow> u32 \<Rightarrow> u32 \<Rightarrow> mach option" where
  "mem_store m b off sz v =
     (if \<not> aligned_to sz off then None
      else do {
        w \<leftarrow> place_get m b (off div 4);
        place_set m b (off div 4) (set_part sz (off mod 4) v w)
      })"

fun one_mem_op :: "hostptr \<Rightarrow> membase \<Rightarrow> nat \<Rightarrow> u32 \<Rightarrow> memop \<Rightarrow> mach \<Rightarrow> mach option" where
  "one_mem_op rp b off sz LD m = do { v \<leftarrow> mem_load m b off sz True; write_ptr m rp v }"
| "one_mem_op rp b off sz LD_U m = do { v \<leftarrow> mem_load m b off sz False; write_ptr m rp v }"
| "one_mem_op rp b off sz ST m = do { v \<leftarrow> read_ptr m rp; mem_store m b off sz v }"
| "one_mem_op rp b off sz XMEM m =
     do {
       t \<leftarrow> mem_load m b off sz True;
       v \<leftarrow> read_ptr m rp;
       m \<leftarrow> mem_store m b off sz v;
       write_ptr m rp t
     }"
| "one_mem_op rp b off sz XMEM_U m =
     do {
       t \<leftarrow> mem_load m b off sz False;
       v \<leftarrow> read_ptr m rp;
       m \<leftarrow> mem_store m b off sz v;
       write_ptr m rp t
     }"
| "one_mem_op rp b off sz FETCH m = Some m"

text \<open>In case the operation modified \<open>r0\<close> or the word after \<open>r31\<close>.\<close>

definition zero_r0 :: "mach \<Rightarrow> mach" where
  "zero_r0 m = set_reg 32 0 (set_reg 0 0 m)"

definition do_mem_op :: "hostptr \<Rightarrow> membase \<Rightarrow> nat \<Rightarrow> u32 \<Rightarrow> memop \<Rightarrow> mach \<Rightarrow> mach option" where
  "do_mem_op rp b off sz mop m =
     do {
       m \<leftarrow> (if sz = BYTE \<or> sz = HALF \<or> sz = WORD then one_mem_op rp b off sz mop m
             else if sz = DWORD then
               do {
                 m \<leftarrow> one_mem_op rp b off WORD mop m;
                 one_mem_op (ptr_succ rp) b (off + 4) WORD mop m
               }
             else Some m);
       Some (zero_r0 m)
     }"

section \<open>Lemmas\<close>

text \<open>What a load returns after a store of the same size.\<close>

definition extend :: "u32 \<Rightarrow> bool \<Rightarrow> u32 \<Rightarrow> u32" where
  "extend sz sx v =
     (if sz = BYTE then (if sx then scast (ucast v :: u8) else ucast (ucast v :: u8))
      else if sz = HALF then (if sx then scast (ucast v :: 16 word) else ucast (ucast v :: 16 word))
      else v)"

lemma get_set_part:
  assumes "b < 4" and "aligned_to sz b"
  shows "get_part sz b sx (set_part sz b v w) = extend sz sx v"
proof -
  have "(ucast (drop_bit (16 - 8 * b) (bf_set (16 - 8 * b) 16 v w)) :: 16 word) = ucast v"
    if "b = 0 \<or> b = 2"
    using that by (intro bit_word_eqI) (auto simp: bit_simps bit_bf_set)
  moreover have "b = 0 \<or> b = 2" if "sz = HALF"
    using assms that by (auto simp: aligned_to_def)
  ultimately show ?thesis
    using assms(1) by (auto simp: get_part_def set_part_def extend_def get_set_byte Let_def)
qed

lemma aligned_to_mod: "aligned_to sz off \<Longrightarrow> aligned_to sz (off mod 4)"
  by (auto simp: aligned_to_def mod_mod_cancel)

lemma bit_u8_large: "8 \<le> n \<Longrightarrow> bit (x :: u8) n = False"
  by (auto dest: bit_imp_le_length)

lemma be_word_bytes:
  "get_byte 0 (be_word a b c d) = a" "get_byte 1 (be_word a b c d) = b"
  "get_byte 2 (be_word a b c d) = c" "get_byte 3 (be_word a b c d) = d"
  by (auto intro!: bit_word_eqI simp: be_word_def get_byte_def bit_simps bit_u8_large)

lemma place_get_set_same: "place_set m b k w = Some m' \<Longrightarrow> place_get m' b k = Some w"
proof (cases b)
  case BCio
  then show "place_set m b k w = Some m' \<Longrightarrow> place_get m' b k = Some w"
    by (auto simp: set_board_def join_bytes_def be_word_get_byte [simplified] split: if_splits)
qed (auto simp: set_cmmu_def set_board_def set_drivers_def cm_get_set_word split: if_splits)

lemma load_after_store:
  assumes "mem_store m b off sz v = Some m'"
  shows "mem_load m' b off sz sx = Some (extend sz sx v)"
proof -
  from assms obtain w where al: "aligned_to sz off"
    and s: "place_set m b (off div 4) (set_part sz (off mod 4) v w) = Some m'"
    by (auto simp: mem_store_def split: if_splits dest!: bind_SomeD)
  show ?thesis
    using al place_get_set_same [OF s] get_set_part [OF _ aligned_to_mod [OF al], of sx v w]
    by (simp add: mem_load_def)
qed

lemma place_set_frame:
  assumes "place_set m b k w = Some m'"
  shows "g_regs m' = g_regs m" "g_sfu0_regs m' = g_sfu0_regs m" "g_sfu1_regs m' = g_sfu1_regs m"
    and "g_dummy_r0 m' = g_dummy_r0 m" "g_var m' = g_var m" "g_litpool m' = g_litpool m"
  using assms
  by (cases b; auto simp: set_cmmu_def set_board_def set_drivers_def store_word_def put_page_def Let_def split: if_splits)+

lemma read_ptr_place_set: "place_set m b k w = Some m' \<Longrightarrow> read_ptr m' p = read_ptr m p"
  using place_set_frame [of m b k w m'] by (cases p) simp_all

lemma place_get_write_ptr: "write_ptr m p v = Some m' \<Longrightarrow> place_get m' b k = place_get m b k"
  by (cases p; cases b) (auto simp: set_reg_def set_cr_def get_page_def split: if_splits)

lemma mem_load_write_ptr: "write_ptr m p v = Some m' \<Longrightarrow> mem_load m' b off sz sx = mem_load m b off sz sx"
  by (simp add: mem_load_def place_get_write_ptr)

lemma mem_load_zero_r0 [simp]: "mem_load (zero_r0 m) b off sz sx = mem_load m b off sz sx"
proof -
  have "place_get (zero_r0 m) b k = place_get m b k" for k
    by (cases b) (simp_all add: zero_r0_def set_reg_def get_page_def)
  then show ?thesis by (simp add: mem_load_def)
qed

lemma mem_store_regs: "mem_store m b off sz v = Some m' \<Longrightarrow> g_regs m' = g_regs m"
  by (auto simp: mem_store_def place_set_frame(1) split: if_splits dest!: bind_SomeD)

lemma read_ptr_mem_store: "mem_store m b off sz v = Some m' \<Longrightarrow> read_ptr m' p = read_ptr m p"
  by (auto simp: mem_store_def read_ptr_place_set split: if_splits dest!: bind_SomeD)

lemma zero_r0_regs [simp]: "g_regs (zero_r0 m) = (g_regs m)(0 := 0, 32 := 0)"
  by (simp add: zero_r0_def)

lemma do_mem_op_single:
  "sz \<in> {BYTE, HALF, WORD} \<Longrightarrow>
     do_mem_op rp b off sz mop m = do { m \<leftarrow> one_mem_op rp b off sz mop m; Some (zero_r0 m) }"
  by (auto simp: do_mem_op_def)

section \<open>Properties\<close>

text \<open>
  Property C29.  A store followed by a load of the same size at the same place: the register loaded
  holds the low bytes of the register stored, sign-extended by \<open>ld\<close> and zero-extended by \<open>ld.u\<close>.
\<close>

theorem do_mem_op_store_load:
  assumes "do_mem_op (PReg i) b off sz ST m = Some m1" and "do_mem_op (PReg j) b off sz mop m1 = Some m2"
    and "mop = LD \<or> mop = LD_U" and "sz \<in> {BYTE, HALF, WORD}" and "0 < j" and "j < 32" and "i < 32"
  shows "g_regs m2 j = extend sz (mop = LD) (g_regs m i)"
proof -
  obtain m0 where st: "mem_store m b off sz (g_regs m i) = Some m0" and m1: "m1 = zero_r0 m0"
    using assms(1,7) by (auto simp: do_mem_op_single [OF assms(4)] dest!: bind_SomeD)
  have "mem_load m1 b off sz sx = Some (extend sz sx (g_regs m i))" for sx
    using load_after_store [OF st] m1 by simp
  then have "one_mem_op (PReg j) b off sz mop m1 = Some (set_reg j (extend sz (mop = LD) (g_regs m i)) m1)"
    using assms(3,6) by auto
  then show ?thesis
    using assms(2,5,6) by (auto simp: do_mem_op_single [OF assms(4)])
qed

theorem do_mem_op_store_load_witness:
  "g_regs (the (do_mem_op (PReg 3) BIst 1 BYTE LD
      (the (do_mem_op (PReg 2) BIst 1 BYTE ST (set_reg 2 0x1f0 cleared_mach))))) 3 = 0xfffffff0"
proof -
  let ?m = "set_reg 2 0x1f0 cleared_mach"
  let ?m1 = "the (do_mem_op (PReg 2) BIst 1 BYTE ST ?m)"
  have 1: "do_mem_op (PReg 2) BIst 1 BYTE ST ?m = Some ?m1"
    by (simp add: do_mem_op_def mem_store_def aligned_to_def)
  have 2: "do_mem_op (PReg 3) BIst 1 BYTE LD ?m1 = Some (the (do_mem_op (PReg 3) BIst 1 BYTE LD ?m1))"
    by (simp add: do_mem_op_def mem_load_def aligned_to_def)
  show ?thesis
    using do_mem_op_store_load [OF 1 2] by (simp add: extend_def)
qed

text \<open>An exchange is a load and a store in one step: the register gets what a load would
  have returned, the place gets what a store of the old register would have written.
\<close>

theorem do_mem_op_exchange:
  assumes "do_mem_op (PReg i) b off sz mop m = Some m'" and "mop = XMEM \<or> mop = XMEM_U"
    and "sz \<in> {BYTE, HALF, WORD}" and "0 < i" and "i < 32"
  shows "mem_load m b off sz (mop = XMEM) = Some (g_regs m' i) \<and>
     (\<forall>sx. mem_load m' b off sz sx = Some (extend sz sx (g_regs m i)))"
proof -
  from assms(1,2,5) obtain t m1 m2 where t: "mem_load m b off sz (mop = XMEM) = Some t"
    and st: "mem_store m b off sz (g_regs m i) = Some m1" and w: "write_ptr m1 (PReg i) t = Some m2"
    and m': "m' = zero_r0 m2"
    by (auto simp: do_mem_op_single [OF assms(3)] dest!: bind_SomeD)
  have "g_regs m' i = t" using w m' assms(4,5) by auto
  moreover have "mem_load m' b off sz sx = Some (extend sz sx (g_regs m i))" for sx
    using load_after_store [OF st] mem_load_write_ptr [OF w] m' by simp
  ultimately show ?thesis using t by simp
qed

theorem do_mem_op_exchange_witness:
  "mem_load cleared_mach BIst 0 WORD True =
     Some (g_regs (the (do_mem_op (PReg 2) BIst 0 WORD XMEM cleared_mach)) 2)"
proof -
  have "do_mem_op (PReg 2) BIst 0 WORD XMEM cleared_mach =
      Some (the (do_mem_op (PReg 2) BIst 0 WORD XMEM cleared_mach))"
    by (simp add: do_mem_op_def mem_load_def mem_store_def aligned_to_def)
  from do_mem_op_exchange [OF this] show ?thesis by simp
qed

end
