(* ===== verification/Sim_Cmmu.thy ===== *)
theory Sim_Cmmu
  imports Sim_Memop
begin

text \<open>
  The 88200 cache and memory management units (\<open>sim/cmmu.c\<close>): address translation with the hardwired
  control memory area, the block address translation ports (BATC) and the two-level page tables; the
  registers and the commands a program gives through them.

  A data CMMU has a number below 4, a code CMMU a number from 4 on.
\<close>

section \<open>Descriptors\<close>

definition ad_segment_table_base :: "u32 \<Rightarrow> u32" where "ad_segment_table_base d = bf_get 12 20 d"
definition ad_writethru :: "u32 \<Rightarrow> bool" where "ad_writethru d = bf_bit 9 d"
definition ad_global :: "u32 \<Rightarrow> bool" where "ad_global d = bf_bit 7 d"
definition ad_cacheinhibit :: "u32 \<Rightarrow> bool" where "ad_cacheinhibit d = bf_bit 6 d"
definition ad_valid :: "u32 \<Rightarrow> bool" where "ad_valid d = bf_bit 0 d"

definition sd_page_table_base :: "u32 \<Rightarrow> u32" where "sd_page_table_base d = bf_get 12 20 d"
definition sd_writethru :: "u32 \<Rightarrow> bool" where "sd_writethru d = bf_bit 9 d"
definition sd_supervisor_only :: "u32 \<Rightarrow> bool" where "sd_supervisor_only d = bf_bit 8 d"
definition sd_global :: "u32 \<Rightarrow> bool" where "sd_global d = bf_bit 7 d"
definition sd_cacheinhibit :: "u32 \<Rightarrow> bool" where "sd_cacheinhibit d = bf_bit 6 d"
definition sd_writeprotect :: "u32 \<Rightarrow> bool" where "sd_writeprotect d = bf_bit 2 d"
definition sd_valid :: "u32 \<Rightarrow> bool" where "sd_valid d = bf_bit 0 d"

definition pd_page_frame_base :: "u32 \<Rightarrow> u32" where "pd_page_frame_base d = bf_get 12 20 d"
definition pd_writethru :: "u32 \<Rightarrow> bool" where "pd_writethru d = bf_bit 9 d"
definition pd_supervisor_only :: "u32 \<Rightarrow> bool" where "pd_supervisor_only d = bf_bit 8 d"
definition pd_global :: "u32 \<Rightarrow> bool" where "pd_global d = bf_bit 7 d"
definition pd_cacheinhibit :: "u32 \<Rightarrow> bool" where "pd_cacheinhibit d = bf_bit 6 d"
definition pd_modified :: "u32 \<Rightarrow> bool" where "pd_modified d = bf_bit 4 d"
definition pd_used :: "u32 \<Rightarrow> bool" where "pd_used d = bf_bit 3 d"
definition pd_writeprotect :: "u32 \<Rightarrow> bool" where "pd_writeprotect d = bf_bit 2 d"
definition pd_valid :: "u32 \<Rightarrow> bool" where "pd_valid d = bf_bit 0 d"

definition pd_set_modified :: "u32 \<Rightarrow> u32" where "pd_set_modified d = bf_set 4 1 1 d"
definition pd_set_used :: "u32 \<Rightarrow> u32" where "pd_set_used d = bf_set 3 1 1 d"

definition bw_l_base_address :: "u32 \<Rightarrow> u32" where "bw_l_base_address d = bf_get 19 13 d"
definition bw_p_base_address :: "u32 \<Rightarrow> u32" where "bw_p_base_address d = bf_get 6 13 d"
definition bw_supervisor :: "u32 \<Rightarrow> u32" where "bw_supervisor d = bf_get 5 1 d"
definition bw_writethru :: "u32 \<Rightarrow> bool" where "bw_writethru d = bf_bit 4 d"
definition bw_global :: "u32 \<Rightarrow> bool" where "bw_global d = bf_bit 3 d"
definition bw_cacheinhibit :: "u32 \<Rightarrow> bool" where "bw_cacheinhibit d = bf_bit 2 d"
definition bw_writeprotect :: "u32 \<Rightarrow> bool" where "bw_writeprotect d = bf_bit 1 d"
definition bw_valid :: "u32 \<Rightarrow> bool" where "bw_valid d = bf_bit 0 d"

definition lsr_set_faultcode :: "u32 \<Rightarrow> cmmu_registers \<Rightarrow> cmmu_registers" where
  "lsr_set_faultcode v c = c\<lparr>cm_lsr := bf_set 16 3 v (cm_lsr c)\<rparr>"

section \<open>Address translation\<close>

definition upd_cmmu :: "nat \<Rightarrow> (cmmu_registers \<Rightarrow> cmmu_registers) \<Rightarrow> mach \<Rightarrow> mach" where
  "upd_cmmu n f m = set_cmmu n (f (g_cmmu_table m n)) m"

text \<open>The exception a translation failure causes.\<close>

definition DACC_OR_CACC :: "nat \<Rightarrow> int" where
  "DACC_OR_CACC cmmu = (if cmmu < 4 then E_DACC else E_CACC)"

definition or_last :: "bool \<Rightarrow> bool \<Rightarrow> bool \<Rightarrow> mach \<Rightarrow> mach" where
  "or_last ci g wt m =
     m\<lparr>g_last_cacheinhibit := g_last_cacheinhibit m \<or> ci, g_last_global := g_last_global m \<or> g,
       g_last_writethru := g_last_writethru m \<or> wt\<rparr>"

text \<open>The control memory area at the top of the supervisor's address space is mapped to itself.\<close>

definition l_to_p_control :: "u32 \<Rightarrow> nat \<Rightarrow> mach \<Rightarrow> int \<times> u32 \<times> mach" where
  "l_to_p_control la n m =
     (let m = m\<lparr>g_last_writeprotect := False, g_last_cacheinhibit := True, g_last_global := False,
                g_last_writethru := True\<rparr>;
          base = 0x1ffe OR (drop_bit 19 la AND 1);
          batc = (\<lambda>b. bf_set 19 13 base (bf_set 6 13 base (bf_set 5 1 1 (bf_set 4 1 1 (bf_set 3 1 0
                        (bf_set 2 1 1 (bf_set 1 1 0 (bf_set 0 1 1 b))))))));
          m = upd_cmmu n (\<lambda>c. c\<lparr>cm_batc := batc (cm_batc c), cm_segment_descriptor_address := -1\<rparr>) m
      in (E_NONE, la, m))"

definition batc_match :: "nat \<Rightarrow> u32 \<Rightarrow> u32 \<Rightarrow> bool" where
  "batc_match usmode la b \<longleftrightarrow>
     bw_valid b \<and> bw_l_base_address b = drop_bit 19 la \<and> bw_supervisor b = of_nat usmode"

definition batc_find :: "nat \<Rightarrow> u32 \<Rightarrow> cmmu_registers \<Rightarrow> u32 option" where
  "batc_find usmode la c = find (batc_match usmode la) (map (cm_bwp c) [0..<8])"

definition l_to_p_batc :: "u32 \<Rightarrow> nat \<Rightarrow> rw \<Rightarrow> u32 \<Rightarrow> mach \<Rightarrow> int \<times> u32 \<times> mach" where
  "l_to_p_batc la n rw b m =
     (let m = upd_cmmu n (\<lambda>c. c\<lparr>cm_batc := b, cm_segment_descriptor_address := -1\<rparr>) m;
          m = or_last (bw_cacheinhibit b) (bw_global b) (bw_writethru b) m;
          m = m\<lparr>g_last_writeprotect := bw_writeprotect b\<rparr>;
          pa = push_bit 19 (bw_p_base_address b) OR (la AND 0x7ffff)
      in if bw_writeprotect b \<and> rw = WRITE then (DACC_OR_CACC n, pa, m) else (E_NONE, pa, m))"

text \<open>A translation fault: the fault code, and whether the page descriptor address is cleared.\<close>

definition l_to_p_fault :: "nat \<Rightarrow> u32 \<Rightarrow> bool \<Rightarrow> mach \<Rightarrow> (int \<times> u32 \<times> mach) option" where
  "l_to_p_fault n code no_pd m =
     Some (DACC_OR_CACC n, 0,
       upd_cmmu n (\<lambda>c. lsr_set_faultcode code
         (if no_pd then c\<lparr>cm_page_descriptor_address := -1\<rparr> else c)) m)"

text \<open>The last part: protection, the used and modified bits.\<close>

definition l_to_p_page :: "io_fn \<Rightarrow> u32 \<Rightarrow> nat \<Rightarrow> rw \<Rightarrow> mach \<Rightarrow> (int \<times> u32 \<times> mach) option" where
  "l_to_p_page io la n rw m =
     (let c = g_cmmu_table m n;
          pa = pd_page_frame_base (cm_page_descriptor c) * PAGESIZE + poff la;
          wp = sd_writeprotect (cm_segment_descriptor c) \<or> pd_writeprotect (cm_page_descriptor c);
          m = m\<lparr>g_last_writeprotect := wp\<rparr>
      in if rw = WRITE \<and> wp then
           Some (DACC_OR_CACC n, pa, upd_cmmu n (lsr_set_faultcode 7) m)
         else
           let pd = pd_set_used
                 (if rw = WRITE then pd_set_modified (cm_page_descriptor c) else cm_page_descriptor c);
               m = upd_cmmu n (\<lambda>c. c\<lparr>cm_page_descriptor := pd\<rparr>) m
           in do {
                (r, m) \<leftarrow> write_sim_w io m (cm_page_descriptor_address c) pd;
                let m = (if g_sim_errno m then upd_cmmu n (lsr_set_faultcode 3) m else m);
                let pd = cm_page_descriptor (g_cmmu_table m n);
                Some (E_NONE, pa, or_last (pd_cacheinhibit pd) (pd_global pd) (pd_writethru pd) m)
              })"

text \<open>The walk of the page tables.\<close>

definition l_to_p_walk :: "io_fn \<Rightarrow> nat \<Rightarrow> u32 \<Rightarrow> nat \<Rightarrow> rw \<Rightarrow> mach \<Rightarrow> (int \<times> u32 \<times> mach) option" where
  "l_to_p_walk io usmode la n rw m =
     (let sda = ad_segment_table_base (cm_area_descriptor (g_cmmu_table m n)) * PAGESIZE
                  + of_nat (btos la) * 4;
          m = upd_cmmu n (\<lambda>c. c\<lparr>cm_segment_descriptor_address := sda\<rparr>) m
      in do {
        (sd, m) \<leftarrow> read_sim_w io m sda;
        let m = upd_cmmu n (\<lambda>c. c\<lparr>cm_segment_descriptor := sd\<rparr>) m;
        if g_sim_errno m then l_to_p_fault n 3 True m
        else if \<not> sd_valid sd then l_to_p_fault n 4 True m
        else
          let m = or_last (sd_cacheinhibit sd) (sd_global sd) (sd_writethru sd) m in
          if usmode = M_USER \<and> sd_supervisor_only sd then l_to_p_fault n 6 True m
          else
            let pda = sd_page_table_base sd * PAGESIZE + of_nat (btop la) * 4;
                m = upd_cmmu n (\<lambda>c. c\<lparr>cm_page_descriptor_address := pda\<rparr>) m
            in do {
              (pd, m) \<leftarrow> read_sim_w io m pda;
              let m = upd_cmmu n (\<lambda>c. c\<lparr>cm_page_descriptor := pd\<rparr>) m;
              if g_sim_errno m then l_to_p_fault n 3 False m
              else if \<not> pd_valid pd then l_to_p_fault n 5 False m
              else if usmode = M_USER \<and> pd_supervisor_only pd then l_to_p_fault n 6 False m
              else l_to_p_page io la n rw m
            }
      })"

text \<open>
  The result is the exception, the physical address and the new state.  (In the code the address goes
  through a pointer and is 0 until it is known.)
\<close>

definition l_to_p :: "io_fn \<Rightarrow> nat \<Rightarrow> u32 \<Rightarrow> nat \<Rightarrow> rw \<Rightarrow> mach \<Rightarrow> (int \<times> u32 \<times> mach) option" where
  "l_to_p io usmode la cmmu rw m =
     (if \<not> bit (g_cmmus m) cmmu then None
      else
        let n = g_selected_processor m + (if 4 \<le> cmmu then 4 else 0);
            m = m\<lparr>g_last_writeprotect := False\<rparr>;
            m = upd_cmmu n (\<lambda>c. c\<lparr>cm_batc := bf_set 0 1 0 (cm_batc c)\<rparr>) m
        in if usmode = M_SUPERVISOR \<and> la AND 0xfff00000 = 0xfff00000 then
             Some (l_to_p_control la n m)
           else
             let ad = (if usmode = M_USER then cm_uapr (g_cmmu_table m n)
                       else cm_sapr (g_cmmu_table m n));
                 m = upd_cmmu n (\<lambda>c. c\<lparr>cm_area_descriptor := ad\<rparr>) m;
                 m = m\<lparr>g_last_cacheinhibit := ad_cacheinhibit ad, g_last_global := ad_global ad,
                        g_last_writethru := ad_writethru ad\<rparr>
             in if \<not> ad_valid ad then
                  Some (E_NONE, la, upd_cmmu n (\<lambda>c. c\<lparr>cm_segment_descriptor_address := -1\<rparr>) m)
                else
                  case batc_find usmode la (g_cmmu_table m n) of
                    Some b \<Rightarrow> Some (l_to_p_batc la n rw b m)
                  | None \<Rightarrow> l_to_p_walk io usmode la n rw m)"

end
