(* ===== verification/Sim_Cmmu_Op.thy ===== *)
theory Sim_Cmmu_Op
  imports Sim_Cmmu
begin

text \<open>
  The registers of the CMMUs as an IO device (\<open>sim/cmmu.c\<close>): configuration, initialization, the probe
  command, and \<open>cmmu_operation\<close>, which a load, store or exchange with a CMMU register executes.
\<close>

section \<open>Configuration and initialization\<close>

text \<open>\<open>init_cmmu_vars\<close>: the loop body for one of the two groups of CMMUs, data (0) and code (4).\<close>

definition set_numbers :: "nat \<Rightarrow> nat list \<Rightarrow> (nat \<Rightarrow> nat) \<Rightarrow> nat \<Rightarrow> nat" where
  "set_numbers i ns t = t(i := ns ! 0, i + 1 := ns ! 1, i + 2 := ns ! 2, i + 3 := ns ! 3)"

definition init_cmmu_group :: "nat \<Rightarrow> mach \<Rightarrow> mach option" where
  "init_cmmu_group i m =
     (let k = drop_bit i (g_cmmus m) AND 0xf;
          put = (\<lambda>ns. Some (m\<lparr>g_cmmu_number_table := set_numbers i ns (g_cmmu_number_table m)\<rparr>))
      in if k = 1 then put [i, i, i, i]
         else if k = 2 then put [i + 1, i + 1, i + 1, i + 1]
         else if k = 4 then put [i + 2, i + 2, i + 2, i + 2]
         else if k = 8 then put [i + 3, i + 3, i + 3, i + 3]
         else if k = 3 then put [i, i + 1, i, i + 1]
         else if k = 0xc then put [i, i + 1, i, i + 1]
         else if k = 15 then put [i, i + 1, i + 2, i + 3]
         else None)"

definition init_cmmu_vars :: "mach \<Rightarrow> mach option" where
  "init_cmmu_vars m =
     (let v = varvalue ''simcmmu'' m;
          m = m\<lparr>g_cmmus := (if v > 255 then 0 else v)\<rparr>;
          m = (if g_cmmus m = 0 then setvar ''simcmmu'' 0xff (m\<lparr>g_cmmus := 0xff\<rparr>) else m)
      in do { m \<leftarrow> init_cmmu_group 0 m; init_cmmu_group 4 m })"

definition cmmu_init :: "nat \<Rightarrow> mach \<Rightarrow> (int \<times> mach) option" where
  "cmmu_init cmmu m =
     do {
       m \<leftarrow> init_cmmu_vars m;
       if \<not> bit (g_cmmus m) cmmu then Some (-1, m)
       else
         let c = cleared_cmmu;
             c = c\<lparr>cm_idr := bf_set 16 5 0 (bf_set 21 3 5 (bf_set 24 8 (of_nat cmmu) (cm_idr c))),
                   cm_sapr := bf_set 6 1 1 (cm_sapr c), cm_uapr := bf_set 6 1 1 (cm_uapr c),
                   cm_clkvr := 0x3f0fc000\<rparr>;
             c = c\<lparr>cm_cache_clkvr := (\<lambda>i. if i < 256 then cm_clkvr c else cm_cache_clkvr c i),
                   cm_page_descriptor_address := -1, cm_segment_descriptor_address := -1,
                   cm_page_descriptor := -1, cm_segment_descriptor := -1, cm_area_descriptor := -1\<rparr>
         in Some (0, set_cmmu cmmu c m)
     }"

section \<open>The probe command\<close>

definition ssr_set :: "nat \<Rightarrow> bool \<Rightarrow> u32 \<Rightarrow> u32" where
  "ssr_set n b s = bf_set n 1 (of_bool b) s"

text \<open>The status after a translation that used a BATC port, and one that used the page tables.\<close>

definition probe_batc :: "nat \<Rightarrow> cmmu_registers \<Rightarrow> cmmu_registers" where
  "probe_batc mode c =
     (let b = cm_batc c in
      c\<lparr>cm_ssr := ssr_set 1 True (ssr_set 3 False (ssr_set 4 False
           (ssr_set 6 (bw_cacheinhibit b) (ssr_set 7 (bw_global b) (ssr_set 8 (odd mode)
           (ssr_set 9 (bw_writethru b) (ssr_set 14 False (ssr_set 15 False (cm_ssr c)))))))))\<rparr>)"

definition probe_page :: "mach \<Rightarrow> cmmu_registers \<Rightarrow> cmmu_registers" where
  "probe_page m c =
     (let sd = cm_segment_descriptor c; pd = cm_page_descriptor c in
      c\<lparr>cm_ssr := ssr_set 9 (g_last_writethru m)
           (ssr_set 8 (sd_supervisor_only sd \<or> pd_supervisor_only pd)
           (ssr_set 7 (g_last_global m) (ssr_set 6 (g_last_cacheinhibit m)
           (ssr_set 4 (pd_modified pd) (ssr_set 3 (pd_used pd) (ssr_set 1 False (cm_ssr c)))))))\<rparr>)"

definition probe :: "io_fn \<Rightarrow> nat \<Rightarrow> nat \<Rightarrow> mach \<Rightarrow> mach option" where
  "probe io mode cmmu m =
     (if \<not> bit (g_cmmus m) cmmu then Some m
      else
        let addr_to_trans = cm_sadr (g_cmmu_table m cmmu);
            m = upd_cmmu cmmu (\<lambda>c. c\<lparr>cm_sadr := 0\<rparr>) m
        in do {
          (status, pa, m) \<leftarrow> l_to_p io mode addr_to_trans cmmu READ m;
          let m = upd_cmmu cmmu (\<lambda>c. c\<lparr>cm_sadr := pa,
                      cm_ssr := ssr_set 0 (status = E_NONE)
                                  (ssr_set 2 (g_last_writeprotect m) (cm_ssr c))\<rparr>) m;
          if status \<noteq> E_NONE then Some m
          else if bw_valid (cm_batc (g_cmmu_table m cmmu)) then Some (upd_cmmu cmmu (probe_batc mode) m)
          else Some (upd_cmmu cmmu (probe_page m) m)
        })"

section \<open>Operations on the registers\<close>

abbreviation (input) CMMU_IDR :: u32 where "CMMU_IDR \<equiv> 0"
abbreviation (input) CMMU_SCMR :: u32 where "CMMU_SCMR \<equiv> 4"
abbreviation (input) CMMU_SADR :: u32 where "CMMU_SADR \<equiv> 0xc"
abbreviation (input) CMMU_SCTR :: u32 where "CMMU_SCTR \<equiv> 0x104"
abbreviation (input) CMMU_LADR :: u32 where "CMMU_LADR \<equiv> 0x10c"
abbreviation (input) CMMU_SAD :: u32 where "CMMU_SAD \<equiv> 0x200"
abbreviation (input) CMMU_UAD :: u32 where "CMMU_UAD \<equiv> 0x204"
abbreviation (input) CMMU_BATC0 :: u32 where "CMMU_BATC0 \<equiv> 0x400"
abbreviation (input) CMMU_BATC7 :: u32 where "CMMU_BATC7 \<equiv> 0x41c"
abbreviation (input) CMMU_CDR0 :: u32 where "CMMU_CDR0 \<equiv> 0x800"
abbreviation (input) CMMU_CDR3 :: u32 where "CMMU_CDR3 \<equiv> 0x80c"
abbreviation (input) CMMU_CTR0 :: u32 where "CMMU_CTR0 \<equiv> 0x840"
abbreviation (input) CMMU_CTR3 :: u32 where "CMMU_CTR3 \<equiv> 0x84c"
abbreviation (input) CMMU_CLKVR :: u32 where "CMMU_CLKVR \<equiv> 0x880"

text \<open>The byte offset in \<open>struct cmmu_registers\<close>; \<open>None\<close> is the code's -1.\<close>

definition cmmu_register_ptr :: "u32 \<Rightarrow> nat option" where
  "cmmu_register_ptr o' =
     (let chk = (\<lambda>l u base rest.
            if l \<le> o' \<and> o' \<le> u then Some (base + unat (o' - l)) else rest)
      in chk CMMU_IDR CMMU_SADR 0
         (chk CMMU_SCTR CMMU_LADR 20
         (chk CMMU_SAD CMMU_UAD 36
         (chk CMMU_BATC0 CMMU_BATC7 48
         (chk CMMU_CDR0 CMMU_CDR3 84
         (chk CMMU_CTR0 CMMU_CTR3 104
         (chk CMMU_CLKVR CMMU_CLKVR 124 None)))))))"

text \<open>The part of the software caches that was mapped by an old BATC entry.\<close>

fun flush_old_batc :: "nat \<Rightarrow> (nat \<Rightarrow> u32) \<Rightarrow> nat list \<Rightarrow> mach \<Rightarrow> mach" where
  "flush_old_batc cmmu old [] m = m"
| "flush_old_batc cmmu old (i # is) m =
     (let m = (if old i \<noteq> cm_bwp (g_cmmu_table m cmmu) i then
                 (if cmmu < 4 then
                    flush_tlb_range (push_bit 19 (bw_l_base_address (old i))) 0x80000
                      (unat (bw_supervisor (old i))) m
                  else flush_deccache (unat (bw_supervisor (old i))) m)
               else m)
      in flush_old_batc cmmu old is m)"

definition zero_pads :: "cmmu_registers \<Rightarrow> cmmu_registers" where
  "zero_pads c =
     c\<lparr>cm_pad1 := 0, cm_pad2 := 0, cm_pad3 := 0, cm_pad4 := 0, cm_pad5 := 0, cm_pad6 := 0\<rparr>"

definition fix_reserved :: "cmmu_registers \<Rightarrow> cmmu_registers" where
  "fix_reserved c =
     c\<lparr>cm_idr := bf_set 0 16 0 (bf_set 16 5 0 (bf_set 21 3 5 (cm_idr c))),
       cm_lsr := bf_set 0 16 0 (bf_set 19 13 0 (cm_lsr c)),
       cm_ssr := bf_set 5 1 0 (bf_set 10 4 0 (bf_set 16 16 0 (cm_ssr c))),
       cm_sctr := bf_set 0 13 0 (bf_set 16 16 0 (cm_sctr c)),
       cm_uapr := bf_set 1 5 0 (bf_set 8 1 0 (bf_set 10 2 0 (cm_uapr c))),
       cm_sapr := bf_set 1 5 0 (bf_set 8 1 0 (bf_set 10 2 0 (cm_sapr c)))\<rparr>"

text \<open>Writing the cache data, tag and status registers back to the cache arrays.\<close>

definition cache_write_back :: "u32 \<Rightarrow> cmmu_registers \<Rightarrow> cmmu_registers" where
  "cache_write_back o' c =
     (let c = (if CMMU_CDR0 \<le> o' \<and> o' \<le> CMMU_CDR3 then
                 c\<lparr>cm_cache_data := (\<lambda>w. (cm_cache_data c w)
                     (unat (drop_bit 2 (cm_sadr c) AND 0x3ff) := cm_cdr c w))\<rparr>
               else c);
          c = (if CMMU_CTR0 \<le> o' \<and> o' \<le> CMMU_CTR3 then
                 (let c = c\<lparr>cm_ctr := (\<lambda>w. cm_ctr c w AND 0xfffff000)\<rparr>
                  in c\<lparr>cm_cache_tag := (\<lambda>w. (cm_cache_tag c w)
                         (unat (drop_bit 4 (cm_sadr c) AND 0xff) := cm_ctr c w))\<rparr>)
               else c)
      in if o' = CMMU_CLKVR then
           (let c = c\<lparr>cm_clkvr := cm_clkvr c AND 0x3ffff000\<rparr>
            in c\<lparr>cm_cache_clkvr := (cm_cache_clkvr c)
                   (unat (drop_bit 4 (cm_sadr c) AND 0xff) := cm_clkvr c)\<rparr>)
         else c)"

text \<open>The command in the system command register.\<close>

definition cmmu_command :: "io_fn \<Rightarrow> nat \<Rightarrow> mach \<Rightarrow> mach option" where
  "cmmu_command io cmmu m =
     (let c = g_cmmu_table m cmmu;
          op = drop_bit 2 (cm_scmr c) AND 0xf; unit = cm_scmr c AND 3; sadr = cm_sadr c
      in if op < 5 \<or> op = 6 then Some m
         else if op = 5 \<or> op = 7 then
           Some (if 4 \<le> cmmu then
                   (if unit = 0 then cache_flush_line (drop_bit 4 sadr) m
                    else if unit = 1 then cache_flush_page (drop_bit 12 sadr) m
                    else if unit = 2 then cache_flush_segment (btos sadr) m
                    else cache_flush_all m)
                 else m)
         else if op = 8 \<or> op = 0xa then probe io M_USER cmmu m
         else if op = 9 \<or> op = 0xb then probe io M_SUPERVISOR cmmu m
         else if op = 0xc \<or> op = 0xe then
           (if cmmu < 4 then
              (if unit = 0 then Some m
               else if unit = 1 then flush_user_tlb_page (drop_bit 12 sadr) m
               else if unit = 2 then flush_user_tlb_segment (btos sadr) m
               else flush_user_tlb_all m)
            else Some (flush_deccache M_USER m))
         else
           (if cmmu < 4 then
              (if unit = 0 then Some m
               else if unit = 1 then flush_supervisor_tlb_page (drop_bit 12 sadr) m
               else if unit = 2 then flush_supervisor_tlb_segment (btos sadr) m
               else flush_supervisor_tlb_all m)
            else Some (flush_deccache M_SUPERVISOR m)))"

definition cache_reload :: "cmmu_registers \<Rightarrow> cmmu_registers" where
  "cache_reload c =
     (let i = unat (drop_bit 2 (cm_sadr c) AND 0x3ff); j = unat (drop_bit 4 (cm_sadr c) AND 0xff)
      in c\<lparr>cm_cdr := (\<lambda>w. if w < 4 then cm_cache_data c w i else cm_cdr c w),
           cm_ctr := (\<lambda>w. if w < 4 then cm_cache_tag c w j else cm_ctr c w),
           cm_clkvr := cm_cache_clkvr c j\<rparr>)"

text \<open>The two control registers are or'd together on a read.\<close>

definition join_scmr_sctr :: "cmmu_registers \<Rightarrow> cmmu_registers" where
  "join_scmr_sctr c =
     (let v = (cm_scmr c AND 0x3f) OR (cm_sctr c AND 0xe000) in c\<lparr>cm_scmr := v, cm_sctr := v\<rparr>)"

definition is_load :: "memop \<Rightarrow> bool" where
  "is_load mop \<longleftrightarrow> mop = LD \<or> mop = LD_U"

text \<open>What follows the transfer, for operations that write.\<close>

definition cmmu_written ::
  "io_fn \<Rightarrow> u32 \<Rightarrow> u32 \<Rightarrow> memop \<Rightarrow> nat \<Rightarrow> u32 \<Rightarrow> (nat \<Rightarrow> u32) \<Rightarrow> mach \<Rightarrow> (int \<times> mach) option" where
  "cmmu_written io o' sz mop cmmu old_sadr old_bwp m =
     (let m = (if CMMU_BATC0 \<le> o' \<and> o' \<le> CMMU_BATC7 then flush_old_batc cmmu old_bwp [0..<8] m else m);
          m = (if sz = DWORD then upd_cmmu cmmu zero_pads m else m);
          m = upd_cmmu cmmu fix_reserved m;
          m = upd_cmmu cmmu (cache_write_back o') m
      in do {
           m \<leftarrow> (if o' = CMMU_SCMR then cmmu_command io cmmu m else Some m);
           let m = (if old_sadr \<noteq> cm_sadr (g_cmmu_table m cmmu) then upd_cmmu cmmu cache_reload m else m);
           Some (E_NONE, if mop = ST then upd_cmmu cmmu join_scmr_sctr m else m)
         })"

definition cmmu_operation ::
  "io_fn \<Rightarrow> u32 \<Rightarrow> hostptr \<Rightarrow> u32 \<Rightarrow> memop \<Rightarrow> nat \<Rightarrow> bool \<Rightarrow> mach \<Rightarrow> (int \<times> mach) option" where
  "cmmu_operation io o' rp sz mop cmmu override m =
     (if sz < WORD \<and> mop = ST then Some (E_DACC, m)
      else if \<not> bit (g_cmmus m) cmmu then Some (if mop = ST then E_NONE else E_DACC, m)
      else
        case cmmu_register_ptr o' of
          None \<Rightarrow> Some (E_DACC, m)
        | Some offset \<Rightarrow>
            let batc = (CMMU_BATC0 \<le> o' \<and> o' \<le> CMMU_BATC7);
                (b, offset) = (if is_load mop \<and> \<not> override \<and> batc then (BConst 0, 0) else (BCmmu cmmu, offset));
                old_sadr = cm_sadr (g_cmmu_table m cmmu);
                old_bwp = cm_bwp (g_cmmu_table m cmmu)
            in do {
                 m \<leftarrow> do_mem_op rp b offset sz mop m;
                 if is_load mop then Some (E_NONE, m)
                 else cmmu_written io o' sz mop cmmu old_sadr old_bwp m
               })"

text \<open>A bus error: the status of the two CMMUs that the address selects.\<close>

definition cmmu_set_bus_error :: "u32 \<Rightarrow> mach \<Rightarrow> mach" where
  "cmmu_set_bus_error pa m =
     (let m = upd_cmmu (DATA_CMMU m pa) (lsr_set_faultcode 3) m
      in upd_cmmu (CODE_CMMU m pa) (lsr_set_faultcode 3) m)"

end
