(* ===== verification/Sim_Misc.thy ===== *)
theory Sim_Misc
  imports Sim_Cmmu_Op
begin

text \<open>
  Memory accesses that miss the software TLBs, the translation of code addresses to decoded
  instructions, the fault registers, tracing and signals (\<open>sim/misc.c\<close>).
\<close>

section \<open>Shadow registers and control registers\<close>

definition load_shadow_regs :: "u32 \<Rightarrow> u32 \<Rightarrow> mach \<Rightarrow> mach" where
  "load_shadow_regs ip delayed_ip m =
     (if g_sfu0_regs m rPSR AND 1 = 0 then
        let sxip = ip OR 2;
            snip = (if g_delayed_p m \<noteq> DNull then delayed_ip OR 2 else sxip + 4)
        in fold (\<lambda>r. set_cr r 0)
             [rDMT0, rDMT1, rDMT2, rDMD0, rDMD1, rDMD2, rDMA0, rDMA1, rDMA2]
             (set_cr rSFIP (snip + 4) (set_cr rSNIP snip (set_cr rSXIP sxip m)))
      else m)"

definition fixup_control_regs :: "mach \<Rightarrow> mach" where
  "fixup_control_regs m =
     (let m = set_cr rVBR (g_sfu0_regs m rVBR AND NOT PAGEMASK) m;
          m = set_cr rTPSR ((g_sfu0_regs m rTPSR OR 0x3f0) AND 0xf800e3ff) m
      in set_cr rPSR ((g_sfu0_regs m rPSR OR 0x3f0) AND 0xf800e3ff) m)"

text \<open>The register a data access fault names; \<open>err\<close> if the pointer is not a general register.\<close>

fun dmt_regnum :: "hostptr \<Rightarrow> nat option" where
  "dmt_regnum (PDummy 0) = Some 0"
| "dmt_regnum (PReg n) = (if n > 31 then None else Some n)"
| "dmt_regnum _ = None"

definition or_cr :: "nat \<Rightarrow> u32 \<Rightarrow> mach \<Rightarrow> mach" where
  "or_cr r v m = set_cr r (g_sfu0_regs m r OR v) m"

text \<open>The part that depends on the size of the access; a byte or a half word is replicated.\<close>

definition set_dmt_size :: "u32 \<Rightarrow> hostptr \<Rightarrow> u32 \<Rightarrow> rw \<Rightarrow> mach \<Rightarrow> mach option" where
  "set_dmt_size la rp sz rw m =
     do {
       v \<leftarrow> read_ptr m rp;
       if sz = BYTE then
         let w = v AND 0xff;
             m = set_cr rDMD0 (push_bit 24 w OR push_bit 16 w OR push_bit 8 w OR w) m
         in Some (or_cr rDMT0
              (if la AND 3 = 0 then 0x20 else if la AND 3 = 1 then 0x10
               else if la AND 3 = 2 then 0x8 else 0x4) m)
       else if sz = HALF then
         let w = v AND 0xffff; m = set_cr rDMD0 (push_bit 16 w OR w) m
         in Some (or_cr rDMT0 (if la AND 2 \<noteq> 0 then 0xc else 0x30) m)
       else if sz = WORD then Some (set_cr rDMD0 v (or_cr rDMT0 0x3c m))
       else if sz = DWORD then
         do {
           v1 \<leftarrow> read_ptr m (ptr_succ rp);
           let m = set_cr rDMD0 v (or_cr rDMT0 0x3c m);
           let m = set_cr rDMA1 (g_sfu0_regs m rDMA0 + 4) m;
           let m = set_cr rDMT1 (g_sfu0_regs m rDMT0 + 0x80) m;
           Some (set_cr rDMD1 v1 (or_cr rDMT0 0x2000 m))
         }
       else Some m
     }"

definition set_dmt_regs :: "u32 \<Rightarrow> hostptr \<Rightarrow> u32 \<Rightarrow> memop \<Rightarrow> rw \<Rightarrow> nat \<Rightarrow> mach \<Rightarrow> mach option" where
  "set_dmt_regs la rp sz mop rw usmode m =
     do {
       regnum \<leftarrow> dmt_regnum rp;
       let m = (if mop \<noteq> ST then
                  (let m = or_cr rSBR (c_shl 1 regnum) m
                   in if sz = DWORD then or_cr rSBR (c_shl 1 (regnum + 1)) m else m)
                else m);
       if g_sfu0_regs m rPSR AND 1 \<noteq> 0 then Some m
       else
         let m = set_cr rDMT0
                   (push_bit 7 (of_nat regnum) OR 1 OR push_bit 14 (of_nat usmode) OR
                      push_bit 15 (PSR_ENDIAN m)) m;
             m = set_cr rDMA0 (la AND NOT 3) m;
             m = (if rw = WRITE then or_cr rDMT0 2 m else m);
             m = (if mop = XMEM \<or> mop = XMEM_U then or_cr rDMT0 0x1000 m else m);
             m = (if mop = LD \<or> mop = XMEM then or_cr rDMT0 0x40 m else m)
         in set_dmt_size la rp sz rw m
     }"

section \<open>Execution trace\<close>

definition trace_flags :: "memop \<Rightarrow> bool \<times> bool \<times> bool" where
  "trace_flags mop =
     (case mop of LD \<Rightarrow> (False, False, False) | LD_U \<Rightarrow> (False, False, False)
        | ST \<Rightarrow> (True, False, False) | XMEM \<Rightarrow> (True, True, False) | XMEM_U \<Rightarrow> (True, True, False)
        | FETCH \<Rightarrow> (False, False, True))"

definition emit_trace_record :: "u32 \<Rightarrow> u32 \<Rightarrow> u32 \<Rightarrow> nat \<Rightarrow> memop \<Rightarrow> mach \<Rightarrow> mach" where
  "emit_trace_record pa data sz usmode mop m =
     (let (w, l, f) = trace_flags mop;
          et = \<lparr>et_physical_address = pa, et_size = sz, et_fetch = f, et_usmode = usmode, et_lock = l,
                et_write = w, et_global = g_last_global m, et_cacheinhibit = g_last_cacheinhibit m,
                et_writethru = g_last_writethru m, et_lowdata = data AND 0x3f\<rparr>
      in if sz = DWORD then
           let et = et\<lparr>et_size := WORD\<rparr> in m\<lparr>g_etrace := et # et # g_etrace m\<rparr>
         else m\<lparr>g_etrace := et # g_etrace m\<rparr>)"

definition open_trace_file :: "bool \<Rightarrow> mach \<Rightarrow> mach" where
  "open_trace_file can_open m = (if can_open then m else m\<lparr>g_tracing := 0\<rparr>)"

definition close_trace_file :: "mach \<Rightarrow> mach" where
  "close_trace_file m = m\<lparr>g_tracing := 0\<rparr>"

section \<open>Slow memory accesses\<close>

definition tlb_put :: "nat \<Rightarrow> nat \<Rightarrow> nat \<Rightarrow> tlb \<Rightarrow> tlb" where
  "tlb_put seg page pg t =
     (case t seg of
        None \<Rightarrow> t(seg := Some ((\<lambda>_. None)(page := Some pg)))
      | Some q \<Rightarrow> t(seg := Some (q(page := Some pg))))"

definition put_load_tlb :: "nat \<Rightarrow> u32 \<Rightarrow> nat \<Rightarrow> mach \<Rightarrow> mach" where
  "put_load_tlb usmode la pg m =
     (if usmode = M_USER then m\<lparr>g_u_load_tlb := tlb_put (btos la) (btop la) pg (g_u_load_tlb m)\<rparr>
      else m\<lparr>g_s_load_tlb := tlb_put (btos la) (btop la) pg (g_s_load_tlb m)\<rparr>)"

text \<open>The program calls \<open>err\<close> if the page is already in the store TLB.\<close>

definition put_store_tlb :: "nat \<Rightarrow> u32 \<Rightarrow> nat \<Rightarrow> mach \<Rightarrow> mach option" where
  "put_store_tlb usmode la pg m =
     (if tlb_entry (store_tlb usmode m) (btos la) (btop la) \<noteq> None then None
      else Some
        (if usmode = M_USER then m\<lparr>g_u_store_tlb := tlb_put (btos la) (btop la) pg (g_u_store_tlb m)\<rparr>
         else m\<lparr>g_s_store_tlb := tlb_put (btos la) (btop la) pg (g_s_store_tlb m)\<rparr>))"

text \<open>"Hack for Andrew".\<close>

definition catch_dacc :: "int \<Rightarrow> nat \<Rightarrow> mach \<Rightarrow> mach" where
  "catch_dacc ex usmode m =
     (if ex = E_DACC \<and> usmode = M_SUPERVISOR \<and> g_sim_catch_exception m 1024 then
        m\<lparr>g_sim_catch_exception := (g_sim_catch_exception m)(3 := True)\<rparr>
      else m)"

definition trace_access :: "u32 \<Rightarrow> hostptr \<Rightarrow> u32 \<Rightarrow> nat \<Rightarrow> memop \<Rightarrow> mach \<Rightarrow> mach option" where
  "trace_access pa rp sz usmode mop m =
     do { v \<leftarrow> read_ptr m rp; Some (emit_trace_record pa v sz usmode mop m) }"

definition rw_of :: "memop \<Rightarrow> rw" where
  "rw_of mop = (if mop = ST \<or> mop = XMEM \<or> mop = XMEM_U then WRITE else READ)"

text \<open>The access to IO space.\<close>

definition l_mem_io :: "io_fn \<Rightarrow> u32 \<Rightarrow> u32 \<Rightarrow> hostptr \<Rightarrow> u32 \<Rightarrow> memop \<Rightarrow> nat \<Rightarrow> mach \<Rightarrow> (int \<times> mach) option" where
  "l_mem_io io la pa rp sz mop usmode m =
     do {
       (ex, m) \<leftarrow> io m pa rp sz mop False;
       m \<leftarrow> (if ex \<noteq> E_NONE then
               do { m \<leftarrow> set_dmt_regs la rp sz mop (rw_of mop) usmode m; Some (cmmu_set_bus_error pa m) }
             else Some m);
       let m = catch_dacc ex usmode m;
       m \<leftarrow> (if g_tracing m \<noteq> 0 then trace_access pa rp sz usmode mop m else Some m);
       Some (ex, m)
     }"

text \<open>The access to a page of RAM; unless the run is traced, the page is then put into the TLBs.\<close>

definition l_mem_ram :: "u32 \<Rightarrow> u32 \<Rightarrow> hostptr \<Rightarrow> u32 \<Rightarrow> memop \<Rightarrow> nat \<Rightarrow> mach \<Rightarrow> (int \<times> mach) option" where
  "l_mem_ram la pa rp sz mop usmode m =
     (let pg = unat (drop_bit 12 pa); m = touch_page pg m in
      do {
        m \<leftarrow> do_mem_op rp (BPage pg) (unat (poff la)) sz mop m;
        if g_tracing m \<noteq> 0 then
          do { m \<leftarrow> trace_access pa rp sz usmode mop m; Some (E_NONE, m) }
        else
          let m = put_load_tlb usmode la pg m in
          if rw_of mop = WRITE then do { m \<leftarrow> put_store_tlb usmode la pg m; Some (E_NONE, m) }
          else Some (E_NONE, m)
      })"

definition l_mem_op :: "io_fn \<Rightarrow> u32 \<Rightarrow> hostptr \<Rightarrow> u32 \<Rightarrow> memop \<Rightarrow> nat \<Rightarrow> mach \<Rightarrow> (int \<times> mach) option" where
  "l_mem_op io la rp sz mop usmode m =
     do {
       (ex, pa, m) \<leftarrow> l_to_p io usmode la (DATA_CMMU m la) (rw_of mop) m;
       let m = catch_dacc ex usmode m;
       m \<leftarrow> (if ex \<noteq> E_NONE \<and> g_sfu0_regs m rPSR AND 1 = 0 then
               set_dmt_regs la rp sz mop (rw_of mop) usmode m
             else Some m);
       if ex \<noteq> E_NONE then Some (ex, m)
       else
         let pa = pa AND NOT (sz - 1) in
         if g_memory_size m \<le> pa then l_mem_io io la pa rp sz mop usmode m
         else l_mem_ram la pa rp sz mop usmode m
     }"

section \<open>Decoded instructions\<close>

fun get_part_of :: "mach \<Rightarrow> part \<Rightarrow> decoded_part option" where
  "get_part_of m (RamPart n) =
     (case g_page_table m n of None \<Rightarrow> None | Some p \<Rightarrow> pg_decoded_part p)"
| "get_part_of m (IoPart i) = g_io_parts m i"

definition get_dec :: "mach \<Rightarrow> part \<Rightarrow> nat \<Rightarrow> decoded_i option" where
  "get_dec m q i =
     (if i > 1024 then None else map_option (\<lambda>d. d i) (get_part_of m q))"

fun set_part_of :: "part \<Rightarrow> decoded_part \<Rightarrow> mach \<Rightarrow> mach" where
  "set_part_of (RamPart n) d m =
     put_page n ((get_page n m)\<lparr>pg_decoded_part := Some d\<rparr>) m"
| "set_part_of (IoPart i) d m = m\<lparr>g_io_parts := (g_io_parts m)(i := Some d)\<rparr>"

definition upd_dec :: "part \<Rightarrow> nat \<Rightarrow> (decoded_i \<Rightarrow> decoded_i) \<Rightarrow> mach \<Rightarrow> mach option" where
  "upd_dec q i f m =
     (if i > 1024 then None
      else case get_part_of m q of
             None \<Rightarrow> None
           | Some d \<Rightarrow> Some (set_part_of q (d(i := f (d i))) m))"

text \<open>The decoded part of a page of IO space, allocated when the page is not on the list.\<close>

definition io_decoded_ptr :: "u32 \<Rightarrow> mach \<Rightarrow> (part \<times> nat) \<times> mach" where
  "io_decoded_ptr pa m =
     (case find (\<lambda>p. il_page_number p = drop_bit 12 pa) (g_io_list m) of
        Some p \<Rightarrow> ((IoPart (il_decoded_part p), unat (poff pa) div 4), m)
      | None \<Rightarrow>
          let i = g_io_next_id m in
          ((IoPart i, unat (poff pa) div 4),
           m\<lparr>g_io_list := \<lparr>il_page_number = drop_bit 12 pa, il_decoded_part = i\<rparr> # g_io_list m,
             g_io_parts := (g_io_parts m)(i := Some allocate_decoded_part),
             g_io_next_id := Suc i\<rparr>))"

abbreviation (input) DECMAX :: nat where "DECMAX \<equiv> 30"

definition deccache_find :: "u32 \<Rightarrow> nat \<Rightarrow> mach \<Rightarrow> part option" where
  "deccache_find pagela usmode m =
     (case find (\<lambda>i. di_pagela (g_deccache m usmode i) = pagela \<and> di_pagep (g_deccache m usmode i) \<noteq> None)
        [0..<DECMAX] of
        None \<Rightarrow> None
      | Some i \<Rightarrow> di_pagep (g_deccache m usmode i))"

definition deccache_put :: "u32 \<Rightarrow> part \<Rightarrow> nat \<Rightarrow> mach \<Rightarrow> mach" where
  "deccache_put pagela q usmode m =
     (let i = g_nextdecp m usmode
      in m\<lparr>g_deccache := (g_deccache m)(usmode :=
              (g_deccache m usmode)(i := \<lparr>di_pagela = pagela, di_pagep = Some q\<rparr>)),
           g_nextdecp := (g_nextdecp m)(usmode := (if Suc i = DECMAX then 0 else Suc i))\<rparr>)"

text \<open>
  The result is the decoded instruction of a code address, or null if the address has no translation;
  \<open>active\<close> says that the caller passed a place for the page (its part is that of the result).
\<close>

definition l_to_d :: "io_fn \<Rightarrow> u32 \<Rightarrow> nat \<Rightarrow> bool \<Rightarrow> mach \<Rightarrow> ((part \<times> nat) option \<times> mach) option" where
  "l_to_d io la usmode active m =
     (let pagela = la AND NOT PAGEMASK in
      case deccache_find pagela usmode m of
        Some q \<Rightarrow> Some (Some (q, unat (poff la) div 4), m)
      | None \<Rightarrow>
          do {
            (status, pa, m) \<leftarrow> l_to_p io usmode la (CODE_CMMU m la) READ m;
            if status \<noteq> E_NONE then Some (None, m)
            else if g_memory_size m \<le> pa then
              let (d, m) = io_decoded_ptr pa m in Some (Some d, m)
            else
              let n = unat (drop_bit 12 pa); m = touch_page n m;
                  m = (if pg_decoded_part (get_page n m) = None
                       then set_part_of (RamPart n) allocate_decoded_part m else m);
                  m = (if active then deccache_put pagela (RamPart n) usmode m else m)
              in Some (Some (RamPart n, unat (poff pa) div 4), m)
          })"

definition set_handler :: "handler \<Rightarrow> (part \<times> nat) option \<Rightarrow> mach \<Rightarrow> mach option" where
  "set_handler h d m =
     (case d of None \<Rightarrow> Some m | Some (q, i) \<Rightarrow> upd_dec q i (\<lambda>d. d\<lparr>d_norm_e_addr := h\<rparr>) m)"

text \<open>The trace record of an instruction that is about to be executed in single-step mode.\<close>

definition trace_fetch :: "io_fn \<Rightarrow> u32 \<Rightarrow> nat \<Rightarrow> mach \<Rightarrow> mach option" where
  "trace_fetch io ip usmode m =
     do {
       (ex, pa, m) \<leftarrow> l_to_p io usmode ip (CODE_CMMU m ip) READ m;
       (instr, m) \<leftarrow> (if ex \<noteq> E_NONE then Some (0, m) else read_sim_w io m pa);
       Some (emit_trace_record pa instr WORD usmode FETCH m)
     }"

definition insert_ss_breakpoint :: "io_fn \<Rightarrow> u32 \<Rightarrow> nat \<Rightarrow> mach \<Rightarrow> mach option" where
  "insert_ss_breakpoint io ip usmode m =
     do {
       (d, m) \<leftarrow> l_to_d io (ip + 4) usmode False m;
       m \<leftarrow> set_handler H_ss_breakpoint d m;
       m \<leftarrow> (if g_tracing m \<noteq> 0 then trace_fetch io ip usmode m else Some m);
       let m = m\<lparr>g_sim_interrupt_flag := g_sim_interrupt_flag m OR INT_SINGLESTEP\<rparr>;
       (d, m) \<leftarrow> l_to_d io ip usmode False m;
       set_handler H_not_decoded d m
     }"

section \<open>Signals\<close>

text \<open>
  \<open>nsig\<close> is the number of signals of the host, \<open>call\<close> runs a handler.  Handlers run between two
  instructions: while the simulated program executes, a signal is only counted.
\<close>

definition simsighandler :: "nat \<Rightarrow> (nat \<Rightarrow> mach \<Rightarrow> mach) \<Rightarrow> nat \<Rightarrow> mach \<Rightarrow> mach" where
  "simsighandler nsig call s m =
     (if nsig \<le> s then m
      else if g_sim_in_execution m then
        m\<lparr>g_sigtab_cnt := (g_sigtab_cnt m)(s := g_sigtab_cnt m s + 1),
          g_sim_interrupt_flag := g_sim_interrupt_flag m OR INT_SIGNAL\<rparr>
      else case g_sigtab_func m s of None \<Rightarrow> m | Some f \<Rightarrow> call f m)"

definition simsignal :: "nat \<Rightarrow> nat \<Rightarrow> nat option \<Rightarrow> mach \<Rightarrow> mach" where
  "simsignal nsig s func m =
     (if nsig \<le> s then m
      else m\<lparr>g_sigtab_func := (g_sigtab_func m)(s := func), g_sigtab_cnt := (g_sigtab_cnt m)(s := 0)\<rparr>)"

partial_function (option) drain_signal :: "(nat \<Rightarrow> mach \<Rightarrow> mach) \<Rightarrow> nat \<Rightarrow> mach \<Rightarrow> mach option" where
  "drain_signal call s m =
     (if g_sigtab_cnt m s > 0 then
        (case g_sigtab_func m s of
           None \<Rightarrow> None
         | Some f \<Rightarrow>
             drain_signal call s
               (call f (m\<lparr>g_sigtab_cnt := (g_sigtab_cnt m)(s := g_sigtab_cnt m s - 1)\<rparr>)))
      else Some m)"

fun callhandlers :: "(nat \<Rightarrow> mach \<Rightarrow> mach) \<Rightarrow> nat list \<Rightarrow> mach \<Rightarrow> mach option" where
  "callhandlers call [] m = Some m"
| "callhandlers call (s # ss) m = do { m \<leftarrow> drain_signal call s m; callhandlers call ss m }"

end
