(* ===== verification/Sim_Decode.thy ===== *)
theory Sim_Decode
  imports Sim_State
begin

text \<open>
  Instruction lookup (\<open>sim/simdecode.c\<close>, \<open>fields88.h\<close>): the instruction fields, the table
  \<open>in_tab\<close>, the table of 64 search lists that \<open>builddecodetable\<close> makes of it, and
  \<open>sim_instruction_lookup\<close>, which moves the entry it finds to the front of its list.

  The lists are shared and reordered by every lookup, so what a lookup returns could depend on the
  lookups made before.  The locale \<open>adaptive_list\<close> gives the condition under which it does not, and its
  interpretation shows that the code's table satisfies it.
\<close>

section \<open>Instruction fields\<close>

definition OFFSET :: "u32 \<Rightarrow> u32" where "OFFSET i = i AND 0xffff"
definition B5 :: "u32 \<Rightarrow> nat" where "B5 i = unat (drop_bit 21 i AND 0x1f)"
definition W5 :: "u32 \<Rightarrow> nat" where "W5 i = unat (drop_bit 5 i AND 0x1f)"
definition O5 :: "u32 \<Rightarrow> nat" where "O5 i = unat (i AND 0x1f)"
definition S1 :: "u32 \<Rightarrow> nat" where "S1 i = unat (drop_bit 16 i AND 0x1f)"
definition S2 :: "u32 \<Rightarrow> nat" where "S2 i = unat (i AND 0x1f)"
definition D :: "u32 \<Rightarrow> nat" where "D i = unat (drop_bit 21 i AND 0x1f)"
definition M5 :: "u32 \<Rightarrow> u32" where "M5 i = drop_bit 21 i AND 0x1f"
definition LIT16 :: "u32 \<Rightarrow> u32" where "LIT16 i = i AND 0xffff"
definition REL16 :: "u32 \<Rightarrow> u32" where
  "REL16 i = signed_drop_bit 14 (push_bit 16 (i AND 0xffff))"
definition REL26 :: "u32 \<Rightarrow> u32" where
  "REL26 i = signed_drop_bit 4 (push_bit 6 (i AND 0x3ffffff))"
definition CRS :: "u32 \<Rightarrow> nat" where "CRS i = unat (drop_bit 5 i AND 0x3f)"
definition VEC :: "u32 \<Rightarrow> u32" where "VEC i = i AND 0x1ff"

section \<open>The instruction table\<close>

text \<open>The rows of \<open>in_tab\<close>, in five consecutive pieces.\<close>

definition in_tab_alu :: "instr_info list" where
  "in_tab_alu =
    [II 0x70000000 0xfc000000 ''add'' INTRL (H_add A_add) Fix_r0,
     II 0xf4007000 0xfc00ffe0 ''add'' INTRR (H_add A_add) Fix_r0,
     II 0xf4007100 0xfc00ffe0 ''add.co'' INTRR (H_add A_add_co) Fix_r0,
     II 0xf4007200 0xfc00ffe0 ''add.ci'' INTRR (H_add A_add_ci) Fix_r0,
     II 0xf4007300 0xfc00ffe0 ''add.cio'' INTRR (H_add A_add_cio) Fix_r0,
     II 0x60000000 0xfc000000 ''addu'' INTRL (H_add A_addu) Fix_r0,
     II 0xf4006000 0xfc00ffe0 ''addu'' INTRR (H_add A_addu) Fix_r0,
     II 0xf4006100 0xfc00ffe0 ''addu.co'' INTRR (H_add A_addu_co) Fix_r0,
     II 0xf4006200 0xfc00ffe0 ''addu.ci'' INTRR (H_add A_addu_ci) Fix_r0,
     II 0xf4006300 0xfc00ffe0 ''addu.cio'' INTRR (H_add A_addu_cio) Fix_r0,
     II 0x40000000 0xfc000000 ''and'' INTRL (H_log O_and) Fix_and,
     II 0x44000000 0xfc000000 ''and.u'' INTRL (H_log O_and) Fix_and_u,
     II 0xf4004000 0xfc00ffe0 ''and'' INTRR (H_log O_and) Fix_r0,
     II 0xf4004400 0xfc00ffe0 ''and.c'' INTRR (H_log O_and_c) Fix_r0,
     II 0xe8400000 0xffe00000 ''bcnd_eq0'' CBRANCH (H_bcnd BC_eq0 False) NOFIX,
     II 0xe9a00000 0xffe00000 ''bcnd_ne0'' CBRANCH (H_bcnd BC_ne0 False) NOFIX,
     II 0xe8200000 0xffe00000 ''bcnd_gt0'' CBRANCH (H_bcnd BC_gt0 False) NOFIX,
     II 0xe9800000 0xffe00000 ''bcnd_lt0'' CBRANCH (H_bcnd BC_lt0 False) NOFIX,
     II 0xe8600000 0xffe00000 ''bcnd_ge0'' CBRANCH (H_bcnd BC_ge0 False) NOFIX,
     II 0xe9c00000 0xffe00000 ''bcnd_le0'' CBRANCH (H_bcnd BC_le0 False) NOFIX,
     II 0xe8000000 0xffe00000 ''bcnd_0'' CBRANCH H_noop NOFIX,
     II 0xe8800000 0xffe00000 ''bcnd_4'' CBRANCH (H_bcnd BC_4 False) NOFIX,
     II 0xe8a00000 0xffe00000 ''bcnd_5'' CBRANCH (H_bcnd BC_5 False) NOFIX,
     II 0xe8c00000 0xffe00000 ''bcnd_6'' CBRANCH (H_bcnd BC_6 False) NOFIX,
     II 0xe8e00000 0xffe00000 ''bcnd_7'' CBRANCH (H_bcnd BC_7 False) NOFIX,
     II 0xe9000000 0xffe00000 ''bcnd_8'' CBRANCH (H_bcnd BC_8 False) NOFIX,
     II 0xe9200000 0xffe00000 ''bcnd_9'' CBRANCH (H_bcnd BC_9 False) NOFIX,
     II 0xe9400000 0xffe00000 ''bcnd_10'' CBRANCH (H_bcnd BC_10 False) NOFIX,
     II 0xe9600000 0xffe00000 ''bcnd_11'' CBRANCH (H_bcnd BC_11 False) NOFIX,
     II 0xe9e00000 0xffe00000 ''bcnd_always'' CBRANCH (H_bcnd BC_always False) NOFIX,
     II 0xec400000 0xffe00000 ''bcnd_eq0_n'' CBRANCH (H_bcnd BC_eq0 True) NOFIX,
     II 0xeda00000 0xffe00000 ''bcnd_ne0_n'' CBRANCH (H_bcnd BC_ne0 True) NOFIX,
     II 0xec200000 0xffe00000 ''bcnd_gt0_n'' CBRANCH (H_bcnd BC_gt0 True) NOFIX,
     II 0xed800000 0xffe00000 ''bcnd_lt0_n'' CBRANCH (H_bcnd BC_lt0 True) NOFIX,
     II 0xec600000 0xffe00000 ''bcnd_ge0_n'' CBRANCH (H_bcnd BC_ge0 True) NOFIX,
     II 0xedc00000 0xffe00000 ''bcnd_le0_n'' CBRANCH (H_bcnd BC_le0 True) NOFIX,
     II 0xec000000 0xffe00000 ''bcnd_0_n'' CBRANCH H_noop NOFIX,
     II 0xec800000 0xffe00000 ''bcnd_4_n'' CBRANCH (H_bcnd BC_4 True) NOFIX,
     II 0xeca00000 0xffe00000 ''bcnd_5_n'' CBRANCH (H_bcnd BC_5 True) NOFIX,
     II 0xecc00000 0xffe00000 ''bcnd_6_n'' CBRANCH (H_bcnd BC_6 True) NOFIX,
     II 0xece00000 0xffe00000 ''bcnd_7_n'' CBRANCH (H_bcnd BC_7 True) NOFIX,
     II 0xed000000 0xffe00000 ''bcnd_8_n'' CBRANCH (H_bcnd BC_8 True) NOFIX,
     II 0xed200000 0xffe00000 ''bcnd_9_n'' CBRANCH (H_bcnd BC_9 True) NOFIX,
     II 0xed400000 0xffe00000 ''bcnd_10_n'' CBRANCH (H_bcnd BC_10 True) NOFIX,
     II 0xed600000 0xffe00000 ''bcnd_11_n'' CBRANCH (H_bcnd BC_11 True) NOFIX,
     II 0xede00000 0xffe00000 ''bcnd_always_n'' CBRANCH (H_bcnd BC_always True) NOFIX,
     II 0xc0000000 0xfc000000 ''br'' IPREL (H_br R_br) NOFIX,
     II 0xc4000000 0xfc000000 ''br.n'' IPREL (H_br R_br_n) NOFIX]"

definition in_tab_bb :: "instr_info list" where
  "in_tab_bb =
    [II 0xd0000000 0xffe00000 ''bb0_0'' BITBRANCH (H_bb R_bb0 0) NOFIX,
     II 0xd0200000 0xffe00000 ''bb0_1'' BITBRANCH (H_bb R_bb0 1) NOFIX,
     II 0xd0400000 0xffe00000 ''bb0_2'' BITBRANCH (H_bb R_bb0 2) NOFIX,
     II 0xd0600000 0xffe00000 ''bb0_3'' BITBRANCH (H_bb R_bb0 3) NOFIX,
     II 0xd0800000 0xffe00000 ''bb0_4'' BITBRANCH (H_bb R_bb0 4) NOFIX,
     II 0xd0a00000 0xffe00000 ''bb0_5'' BITBRANCH (H_bb R_bb0 5) NOFIX,
     II 0xd0c00000 0xffe00000 ''bb0_6'' BITBRANCH (H_bb R_bb0 6) NOFIX,
     II 0xd0e00000 0xffe00000 ''bb0_7'' BITBRANCH (H_bb R_bb0 7) NOFIX,
     II 0xd1000000 0xffe00000 ''bb0_8'' BITBRANCH (H_bb R_bb0 8) NOFIX,
     II 0xd1200000 0xffe00000 ''bb0_9'' BITBRANCH (H_bb R_bb0 9) NOFIX,
     II 0xd1400000 0xffe00000 ''bb0_10'' BITBRANCH (H_bb R_bb0 10) NOFIX,
     II 0xd1600000 0xffe00000 ''bb0_11'' BITBRANCH (H_bb R_bb0 11) NOFIX,
     II 0xd1800000 0xffe00000 ''bb0_12'' BITBRANCH (H_bb R_bb0 12) NOFIX,
     II 0xd1a00000 0xffe00000 ''bb0_13'' BITBRANCH (H_bb R_bb0 13) NOFIX,
     II 0xd1c00000 0xffe00000 ''bb0_14'' BITBRANCH (H_bb R_bb0 14) NOFIX,
     II 0xd1e00000 0xffe00000 ''bb0_15'' BITBRANCH (H_bb R_bb0 15) NOFIX,
     II 0xd2000000 0xffe00000 ''bb0_16'' BITBRANCH (H_bb R_bb0 16) NOFIX,
     II 0xd2200000 0xffe00000 ''bb0_17'' BITBRANCH (H_bb R_bb0 17) NOFIX,
     II 0xd2400000 0xffe00000 ''bb0_18'' BITBRANCH (H_bb R_bb0 18) NOFIX,
     II 0xd2600000 0xffe00000 ''bb0_19'' BITBRANCH (H_bb R_bb0 19) NOFIX,
     II 0xd2800000 0xffe00000 ''bb0_20'' BITBRANCH (H_bb R_bb0 20) NOFIX,
     II 0xd2a00000 0xffe00000 ''bb0_21'' BITBRANCH (H_bb R_bb0 21) NOFIX,
     II 0xd2c00000 0xffe00000 ''bb0_22'' BITBRANCH (H_bb R_bb0 22) NOFIX,
     II 0xd2e00000 0xffe00000 ''bb0_23'' BITBRANCH (H_bb R_bb0 23) NOFIX,
     II 0xd3000000 0xffe00000 ''bb0_24'' BITBRANCH (H_bb R_bb0 24) NOFIX,
     II 0xd3200000 0xffe00000 ''bb0_25'' BITBRANCH (H_bb R_bb0 25) NOFIX,
     II 0xd3400000 0xffe00000 ''bb0_26'' BITBRANCH (H_bb R_bb0 26) NOFIX,
     II 0xd3600000 0xffe00000 ''bb0_27'' BITBRANCH (H_bb R_bb0 27) NOFIX,
     II 0xd3800000 0xffe00000 ''bb0_28'' BITBRANCH (H_bb R_bb0 28) NOFIX,
     II 0xd3a00000 0xffe00000 ''bb0_29'' BITBRANCH (H_bb R_bb0 29) NOFIX,
     II 0xd3c00000 0xffe00000 ''bb0_30'' BITBRANCH (H_bb R_bb0 30) NOFIX,
     II 0xd3e00000 0xffe00000 ''bb0_31'' BITBRANCH (H_bb R_bb0 31) NOFIX,
     II 0xd8000000 0xffe00000 ''bb1_0'' BITBRANCH (H_bb R_bb1 0) NOFIX,
     II 0xd8200000 0xffe00000 ''bb1_1'' BITBRANCH (H_bb R_bb1 1) NOFIX,
     II 0xd8400000 0xffe00000 ''bb1_2'' BITBRANCH (H_bb R_bb1 2) NOFIX,
     II 0xd8600000 0xffe00000 ''bb1_3'' BITBRANCH (H_bb R_bb1 3) NOFIX,
     II 0xd8800000 0xffe00000 ''bb1_4'' BITBRANCH (H_bb R_bb1 4) NOFIX,
     II 0xd8a00000 0xffe00000 ''bb1_5'' BITBRANCH (H_bb R_bb1 5) NOFIX,
     II 0xd8c00000 0xffe00000 ''bb1_6'' BITBRANCH (H_bb R_bb1 6) NOFIX,
     II 0xd8e00000 0xffe00000 ''bb1_7'' BITBRANCH (H_bb R_bb1 7) NOFIX,
     II 0xd9000000 0xffe00000 ''bb1_8'' BITBRANCH (H_bb R_bb1 8) NOFIX,
     II 0xd9200000 0xffe00000 ''bb1_9'' BITBRANCH (H_bb R_bb1 9) NOFIX,
     II 0xd9400000 0xffe00000 ''bb1_10'' BITBRANCH (H_bb R_bb1 10) NOFIX,
     II 0xd9600000 0xffe00000 ''bb1_11'' BITBRANCH (H_bb R_bb1 11) NOFIX,
     II 0xd9800000 0xffe00000 ''bb1_12'' BITBRANCH (H_bb R_bb1 12) NOFIX,
     II 0xd9a00000 0xffe00000 ''bb1_13'' BITBRANCH (H_bb R_bb1 13) NOFIX,
     II 0xd9c00000 0xffe00000 ''bb1_14'' BITBRANCH (H_bb R_bb1 14) NOFIX,
     II 0xd9e00000 0xffe00000 ''bb1_15'' BITBRANCH (H_bb R_bb1 15) NOFIX,
     II 0xda000000 0xffe00000 ''bb1_16'' BITBRANCH (H_bb R_bb1 16) NOFIX,
     II 0xda200000 0xffe00000 ''bb1_17'' BITBRANCH (H_bb R_bb1 17) NOFIX,
     II 0xda400000 0xffe00000 ''bb1_18'' BITBRANCH (H_bb R_bb1 18) NOFIX,
     II 0xda600000 0xffe00000 ''bb1_19'' BITBRANCH (H_bb R_bb1 19) NOFIX,
     II 0xda800000 0xffe00000 ''bb1_20'' BITBRANCH (H_bb R_bb1 20) NOFIX,
     II 0xdaa00000 0xffe00000 ''bb1_21'' BITBRANCH (H_bb R_bb1 21) NOFIX,
     II 0xdac00000 0xffe00000 ''bb1_22'' BITBRANCH (H_bb R_bb1 22) NOFIX,
     II 0xdae00000 0xffe00000 ''bb1_23'' BITBRANCH (H_bb R_bb1 23) NOFIX,
     II 0xdb000000 0xffe00000 ''bb1_24'' BITBRANCH (H_bb R_bb1 24) NOFIX,
     II 0xdb200000 0xffe00000 ''bb1_25'' BITBRANCH (H_bb R_bb1 25) NOFIX,
     II 0xdb400000 0xffe00000 ''bb1_26'' BITBRANCH (H_bb R_bb1 26) NOFIX,
     II 0xdb600000 0xffe00000 ''bb1_27'' BITBRANCH (H_bb R_bb1 27) NOFIX,
     II 0xdb800000 0xffe00000 ''bb1_28'' BITBRANCH (H_bb R_bb1 28) NOFIX,
     II 0xdba00000 0xffe00000 ''bb1_29'' BITBRANCH (H_bb R_bb1 29) NOFIX,
     II 0xdbc00000 0xffe00000 ''bb1_30'' BITBRANCH (H_bb R_bb1 30) NOFIX,
     II 0xdbe00000 0xffe00000 ''bb1_31'' BITBRANCH (H_bb R_bb1 31) NOFIX,
     II 0xd4000000 0xffe00000 ''bb0_n_0'' BITBRANCH (H_bb R_bb0_n 0) NOFIX,
     II 0xd4200000 0xffe00000 ''bb0_n_1'' BITBRANCH (H_bb R_bb0_n 1) NOFIX,
     II 0xd4400000 0xffe00000 ''bb0_n_2'' BITBRANCH (H_bb R_bb0_n 2) NOFIX,
     II 0xd4600000 0xffe00000 ''bb0_n_3'' BITBRANCH (H_bb R_bb0_n 3) NOFIX,
     II 0xd4800000 0xffe00000 ''bb0_n_4'' BITBRANCH (H_bb R_bb0_n 4) NOFIX,
     II 0xd4a00000 0xffe00000 ''bb0_n_5'' BITBRANCH (H_bb R_bb0_n 5) NOFIX,
     II 0xd4c00000 0xffe00000 ''bb0_n_6'' BITBRANCH (H_bb R_bb0_n 6) NOFIX,
     II 0xd4e00000 0xffe00000 ''bb0_n_7'' BITBRANCH (H_bb R_bb0_n 7) NOFIX,
     II 0xd5000000 0xffe00000 ''bb0_n_8'' BITBRANCH (H_bb R_bb0_n 8) NOFIX,
     II 0xd5200000 0xffe00000 ''bb0_n_9'' BITBRANCH (H_bb R_bb0_n 9) NOFIX,
     II 0xd5400000 0xffe00000 ''bb0_n_10'' BITBRANCH (H_bb R_bb0_n 10) NOFIX,
     II 0xd5600000 0xffe00000 ''bb0_n_11'' BITBRANCH (H_bb R_bb0_n 11) NOFIX,
     II 0xd5800000 0xffe00000 ''bb0_n_12'' BITBRANCH (H_bb R_bb0_n 12) NOFIX,
     II 0xd5a00000 0xffe00000 ''bb0_n_13'' BITBRANCH (H_bb R_bb0_n 13) NOFIX,
     II 0xd5c00000 0xffe00000 ''bb0_n_14'' BITBRANCH (H_bb R_bb0_n 14) NOFIX,
     II 0xd5e00000 0xffe00000 ''bb0_n_15'' BITBRANCH (H_bb R_bb0_n 15) NOFIX,
     II 0xd6000000 0xffe00000 ''bb0_n_16'' BITBRANCH (H_bb R_bb0_n 16) NOFIX,
     II 0xd6200000 0xffe00000 ''bb0_n_17'' BITBRANCH (H_bb R_bb0_n 17) NOFIX,
     II 0xd6400000 0xffe00000 ''bb0_n_18'' BITBRANCH (H_bb R_bb0_n 18) NOFIX,
     II 0xd6600000 0xffe00000 ''bb0_n_19'' BITBRANCH (H_bb R_bb0_n 19) NOFIX,
     II 0xd6800000 0xffe00000 ''bb0_n_20'' BITBRANCH (H_bb R_bb0_n 20) NOFIX,
     II 0xd6a00000 0xffe00000 ''bb0_n_21'' BITBRANCH (H_bb R_bb0_n 21) NOFIX,
     II 0xd6c00000 0xffe00000 ''bb0_n_22'' BITBRANCH (H_bb R_bb0_n 22) NOFIX,
     II 0xd6e00000 0xffe00000 ''bb0_n_23'' BITBRANCH (H_bb R_bb0_n 23) NOFIX,
     II 0xd7000000 0xffe00000 ''bb0_n_24'' BITBRANCH (H_bb R_bb0_n 24) NOFIX,
     II 0xd7200000 0xffe00000 ''bb0_n_25'' BITBRANCH (H_bb R_bb0_n 25) NOFIX,
     II 0xd7400000 0xffe00000 ''bb0_n_26'' BITBRANCH (H_bb R_bb0_n 26) NOFIX,
     II 0xd7600000 0xffe00000 ''bb0_n_27'' BITBRANCH (H_bb R_bb0_n 27) NOFIX,
     II 0xd7800000 0xffe00000 ''bb0_n_28'' BITBRANCH (H_bb R_bb0_n 28) NOFIX,
     II 0xd7a00000 0xffe00000 ''bb0_n_29'' BITBRANCH (H_bb R_bb0_n 29) NOFIX,
     II 0xd7c00000 0xffe00000 ''bb0_n_30'' BITBRANCH (H_bb R_bb0_n 30) NOFIX,
     II 0xd7e00000 0xffe00000 ''bb0_n_31'' BITBRANCH (H_bb R_bb0_n 31) NOFIX,
     II 0xdc000000 0xffe00000 ''bb1_n_0'' BITBRANCH (H_bb R_bb1_n 0) NOFIX,
     II 0xdc200000 0xffe00000 ''bb1_n_1'' BITBRANCH (H_bb R_bb1_n 1) NOFIX,
     II 0xdc400000 0xffe00000 ''bb1_n_2'' BITBRANCH (H_bb R_bb1_n 2) NOFIX,
     II 0xdc600000 0xffe00000 ''bb1_n_3'' BITBRANCH (H_bb R_bb1_n 3) NOFIX,
     II 0xdc800000 0xffe00000 ''bb1_n_4'' BITBRANCH (H_bb R_bb1_n 4) NOFIX,
     II 0xdca00000 0xffe00000 ''bb1_n_5'' BITBRANCH (H_bb R_bb1_n 5) NOFIX,
     II 0xdcc00000 0xffe00000 ''bb1_n_6'' BITBRANCH (H_bb R_bb1_n 6) NOFIX,
     II 0xdce00000 0xffe00000 ''bb1_n_7'' BITBRANCH (H_bb R_bb1_n 7) NOFIX,
     II 0xdd000000 0xffe00000 ''bb1_n_8'' BITBRANCH (H_bb R_bb1_n 8) NOFIX,
     II 0xdd200000 0xffe00000 ''bb1_n_9'' BITBRANCH (H_bb R_bb1_n 9) NOFIX,
     II 0xdd400000 0xffe00000 ''bb1_n_10'' BITBRANCH (H_bb R_bb1_n 10) NOFIX,
     II 0xdd600000 0xffe00000 ''bb1_n_11'' BITBRANCH (H_bb R_bb1_n 11) NOFIX,
     II 0xdd800000 0xffe00000 ''bb1_n_12'' BITBRANCH (H_bb R_bb1_n 12) NOFIX,
     II 0xdda00000 0xffe00000 ''bb1_n_13'' BITBRANCH (H_bb R_bb1_n 13) NOFIX,
     II 0xddc00000 0xffe00000 ''bb1_n_14'' BITBRANCH (H_bb R_bb1_n 14) NOFIX,
     II 0xdde00000 0xffe00000 ''bb1_n_15'' BITBRANCH (H_bb R_bb1_n 15) NOFIX,
     II 0xde000000 0xffe00000 ''bb1_n_16'' BITBRANCH (H_bb R_bb1_n 16) NOFIX,
     II 0xde200000 0xffe00000 ''bb1_n_17'' BITBRANCH (H_bb R_bb1_n 17) NOFIX,
     II 0xde400000 0xffe00000 ''bb1_n_18'' BITBRANCH (H_bb R_bb1_n 18) NOFIX,
     II 0xde600000 0xffe00000 ''bb1_n_19'' BITBRANCH (H_bb R_bb1_n 19) NOFIX,
     II 0xde800000 0xffe00000 ''bb1_n_20'' BITBRANCH (H_bb R_bb1_n 20) NOFIX,
     II 0xdea00000 0xffe00000 ''bb1_n_21'' BITBRANCH (H_bb R_bb1_n 21) NOFIX,
     II 0xdec00000 0xffe00000 ''bb1_n_22'' BITBRANCH (H_bb R_bb1_n 22) NOFIX,
     II 0xdee00000 0xffe00000 ''bb1_n_23'' BITBRANCH (H_bb R_bb1_n 23) NOFIX,
     II 0xdf000000 0xffe00000 ''bb1_n_24'' BITBRANCH (H_bb R_bb1_n 24) NOFIX,
     II 0xdf200000 0xffe00000 ''bb1_n_25'' BITBRANCH (H_bb R_bb1_n 25) NOFIX,
     II 0xdf400000 0xffe00000 ''bb1_n_26'' BITBRANCH (H_bb R_bb1_n 26) NOFIX,
     II 0xdf600000 0xffe00000 ''bb1_n_27'' BITBRANCH (H_bb R_bb1_n 27) NOFIX,
     II 0xdf800000 0xffe00000 ''bb1_n_28'' BITBRANCH (H_bb R_bb1_n 28) NOFIX,
     II 0xdfa00000 0xffe00000 ''bb1_n_29'' BITBRANCH (H_bb R_bb1_n 29) NOFIX,
     II 0xdfc00000 0xffe00000 ''bb1_n_30'' BITBRANCH (H_bb R_bb1_n 30) NOFIX,
     II 0xdfe00000 0xffe00000 ''bb1_n_31'' BITBRANCH (H_bb R_bb1_n 31) NOFIX]"

definition in_tab_fp :: "instr_info list" where
  "in_tab_fp =
    [II 0xc8000000 0xfc000000 ''bsr'' IPREL (H_br R_bsr) NOFIX,
     II 0xcc000000 0xfc000000 ''bsr.n'' IPREL (H_br R_bsr_n) NOFIX,
     II 0xf0008000 0xfc00fc00 ''clr'' BITFIELD (H_bit O_clr) Fix_r0,
     II 0xf4008000 0xfc00ffe0 ''clr'' INTRR (H_bit O_clr) Fix_r0,
     II 0x7c000000 0xfc000000 ''cmp'' INTRL (H_int O_cmp) Fix_r0,
     II 0xf4007c00 0xfc00fee0 ''cmp'' INTRR (H_int O_cmp) Fix_r0,
     II 0x78000000 0xfc000000 ''div'' INTRL (H_int O_div) Fix_r0,
     II 0xf4007800 0xfc00fee0 ''div'' INTRR (H_int O_div) Fix_r0,
     II 0x68000000 0xfc000000 ''divu'' INTRL (H_int O_divu) Fix_r0,
     II 0xf4006800 0xfc00fee0 ''divu'' INTRR (H_int O_divu) Fix_r0,
     II 0xf0009000 0xfc00fc00 ''ext'' BITFIELD (H_bit O_ext) Fix_r0,
     II 0xf4009000 0xfc00ffe0 ''ext'' INTRR (H_bit O_ext) Fix_r0,
     II 0xf0009800 0xfc00fc00 ''extu'' BITFIELD (H_bit O_extu) Fix_r0,
     II 0xf4009800 0xfc00ffe0 ''extu'' INTRR (H_bit O_extu) Fix_r0,
     II 0x84002800 0xfc00ffe0 ''fadd.sss'' INTRR (H_fp (F_add Sgl Sgl Sgl)) Fix_r0,
     II 0x84002880 0xfc00ffe0 ''fadd.ssd'' INTRR (H_fp (F_add Sgl Sgl Dbl)) Fix_r0,
     II 0x84002a00 0xfc00ffe0 ''fadd.sds'' INTRR (H_fp (F_add Sgl Dbl Sgl)) Fix_r0,
     II 0x84002a80 0xfc00ffe0 ''fadd.sdd'' INTRR (H_fp (F_add Sgl Dbl Dbl)) Fix_r0,
     II 0x84002820 0xfc00ffe0 ''fadd.dss'' INTRR (H_fp (F_add Dbl Sgl Sgl)) Fix_r0,
     II 0x840028a0 0xfc00ffe0 ''fadd.dsd'' INTRR (H_fp (F_add Dbl Sgl Dbl)) Fix_r0,
     II 0x84002a20 0xfc00ffe0 ''fadd.dds'' INTRR (H_fp (F_add Dbl Dbl Sgl)) Fix_r0,
     II 0x84002aa0 0xfc00ffe0 ''fadd.ddd'' INTRR (H_fp (F_add Dbl Dbl Dbl)) Fix_r0,
     II 0x84003800 0xfc00ffe0 ''fcmp.sss'' INTRR (H_fp (F_cmp Sgl Sgl)) Fix_r0,
     II 0x84003880 0xfc00ffe0 ''fcmp.ssd'' INTRR (H_fp (F_cmp Sgl Dbl)) Fix_r0,
     II 0x84003a00 0xfc00ffe0 ''fcmp.sds'' INTRR (H_fp (F_cmp Dbl Sgl)) Fix_r0,
     II 0x84003a80 0xfc00ffe0 ''fcmp.sdd'' INTRR (H_fp (F_cmp Dbl Dbl)) Fix_r0,
     II 0x84007000 0xfc00ffe0 ''fdiv.sss'' INTRR (H_fp (F_div Sgl Sgl Sgl)) Fix_r0,
     II 0x84007080 0xfc00ffe0 ''fdiv.ssd'' INTRR (H_fp (F_div Sgl Sgl Dbl)) Fix_r0,
     II 0x84007200 0xfc00ffe0 ''fdiv.sds'' INTRR (H_fp (F_div Sgl Dbl Sgl)) Fix_r0,
     II 0x84007280 0xfc00ffe0 ''fdiv.sdd'' INTRR (H_fp (F_div Sgl Dbl Dbl)) Fix_r0,
     II 0x84007020 0xfc00ffe0 ''fdiv.dss'' INTRR (H_fp (F_div Dbl Sgl Sgl)) Fix_r0,
     II 0x840070a0 0xfc00ffe0 ''fdiv.dsd'' INTRR (H_fp (F_div Dbl Sgl Dbl)) Fix_r0,
     II 0x84007220 0xfc00ffe0 ''fdiv.dds'' INTRR (H_fp (F_div Dbl Dbl Sgl)) Fix_r0,
     II 0x840072a0 0xfc00ffe0 ''fdiv.ddd'' INTRR (H_fp (F_div Dbl Dbl Dbl)) Fix_r0,
     II 0xf400ec00 0xfc1fffe0 ''ff0'' INTRR2OP (H_bit O_ff0) Fix_r0,
     II 0xf400e800 0xfc1fffe0 ''ff1'' INTRR2OP (H_bit O_ff1) Fix_r0,
     II 0x80004800 0xfc1ff81f ''fldcr'' FLDCR (H_cr C_ldcr) Fix_r0,
     II 0x84002000 0xfc1fffe0 ''flt.ss'' INTRR2OP (H_fp (F_flt Sgl)) Fix_r0,
     II 0x84002020 0xfc1fffe0 ''flt.ds'' INTRR2OP (H_fp (F_flt Dbl)) Fix_r0,
     II 0x84000000 0xfc00ffe0 ''fmul.sss'' INTRR (H_fp (F_mul Sgl Sgl Sgl)) Fix_r0,
     II 0x84000080 0xfc00ffe0 ''fmul.ssd'' INTRR (H_fp (F_mul Sgl Sgl Dbl)) Fix_r0,
     II 0x84000200 0xfc00ffe0 ''fmul.sds'' INTRR (H_fp (F_mul Sgl Dbl Sgl)) Fix_r0,
     II 0x84000280 0xfc00ffe0 ''fmul.sdd'' INTRR (H_fp (F_mul Sgl Dbl Dbl)) Fix_r0,
     II 0x84000020 0xfc00ffe0 ''fmul.dss'' INTRR (H_fp (F_mul Dbl Sgl Sgl)) Fix_r0,
     II 0x840000a0 0xfc00ffe0 ''fmul.dsd'' INTRR (H_fp (F_mul Dbl Sgl Dbl)) Fix_r0,
     II 0x84000220 0xfc00ffe0 ''fmul.dds'' INTRR (H_fp (F_mul Dbl Dbl Sgl)) Fix_r0,
     II 0x840002a0 0xfc00ffe0 ''fmul.ddd'' INTRR (H_fp (F_mul Dbl Dbl Dbl)) Fix_r0,
     II 0x80008800 0xffe0f800 ''fstcr'' FSTCR (H_cr C_stcr) NOFIX,
     II 0x84003000 0xfc00ffe0 ''fsub.sss'' INTRR (H_fp (F_sub Sgl Sgl Sgl)) Fix_r0,
     II 0x84003080 0xfc00ffe0 ''fsub.ssd'' INTRR (H_fp (F_sub Sgl Sgl Dbl)) Fix_r0,
     II 0x84003200 0xfc00ffe0 ''fsub.sds'' INTRR (H_fp (F_sub Sgl Dbl Sgl)) Fix_r0,
     II 0x84003280 0xfc00ffe0 ''fsub.sdd'' INTRR (H_fp (F_sub Sgl Dbl Dbl)) Fix_r0,
     II 0x84003020 0xfc00ffe0 ''fsub.dss'' INTRR (H_fp (F_sub Dbl Sgl Sgl)) Fix_r0,
     II 0x840030a0 0xfc00ffe0 ''fsub.dsd'' INTRR (H_fp (F_sub Dbl Sgl Dbl)) Fix_r0,
     II 0x84003220 0xfc00ffe0 ''fsub.dds'' INTRR (H_fp (F_sub Dbl Dbl Sgl)) Fix_r0,
     II 0x840032a0 0xfc00ffe0 ''fsub.ddd'' INTRR (H_fp (F_sub Dbl Dbl Dbl)) Fix_r0,
     II 0x8000c800 0xfc00f800 ''fxcr'' FXCR (H_cr C_xcr) NOFIX,
     II 0x84004800 0xfc1fffe0 ''int.ss'' INTRR2OP (H_fp (F_int Sgl)) Fix_r0,
     II 0x84004880 0xfc1fffe0 ''int.sd'' INTRR2OP (H_fp (F_int Dbl)) Fix_r0,
     II 0xf400c000 0xffffffe0 ''jmp'' JMP (H_jump J_jmp) NOFIX,
     II 0xf400c400 0xffffffe0 ''jmp.n'' JMP (H_jump J_jmp_n) NOFIX,
     II 0xf400c800 0xffffffe0 ''jsr'' JMP (H_jump J_jsr) NOFIX,
     II 0xf400cc00 0xffffffe0 ''jsr.n'' JMP (H_jump J_jsr_n) NOFIX]"

definition in_tab_mem :: "instr_info list" where
  "in_tab_mem =
    [II 0x10000000 0xfc000000 ''ld.d'' LDLIT (H_ld L_d False False) NOFIX,
     II 0x14000000 0xfc000000 ''ld'' LDLIT (H_ld L_w False False) Fix_r0,
     II 0x18000000 0xfc000000 ''ld.h'' LDLIT (H_ld L_h False False) Fix_r0,
     II 0x1c000000 0xfc000000 ''ld.b'' LDLIT (H_ld L_b False False) Fix_r0,
     II 0x00000000 0xfc000000 ''xmem.bu'' LDLIT (H_xmem X_bu False False) NOFIX,
     II 0x04000000 0xfc000000 ''xmem'' LDLIT (H_xmem X_w False False) NOFIX,
     II 0x08000000 0xfc000000 ''ld.hu'' LDLIT (H_ld L_hu False False) Fix_r0,
     II 0x0c000000 0xfc000000 ''ld.bu'' LDLIT (H_ld L_bu False False) Fix_r0,
     II 0xf4000000 0xfc00ffe0 ''xmem.bu'' LDRO (H_xmem X_bu False False) NOFIX,
     II 0xf4000400 0xfc00ffe0 ''xmem'' LDRO (H_xmem X_w False False) NOFIX,
     II 0xf4000800 0xfc00ffe0 ''ld.hu'' LDRO (H_ld L_hu False False) Fix_r0,
     II 0xf4000c00 0xfc00ffe0 ''ld.bu'' LDRO (H_ld L_bu False False) Fix_r0,
     II 0xf4001000 0xfc00ffe0 ''ld.d'' LDRO (H_ld L_d False False) Fix_r0,
     II 0xf4001400 0xfc00ffe0 ''ld'' LDRO (H_ld L_w False False) Fix_r0,
     II 0xf4001800 0xfc00ffe0 ''ld.h'' LDRO (H_ld L_h False False) Fix_r0,
     II 0xf4001c00 0xfc00ffe0 ''ld.b'' LDRO (H_ld L_b False False) Fix_r0,
     II 0xf4000200 0xfc00ffe0 ''xmem.bu'' LDRI (H_xmem X_bu False False) NOFIX,
     II 0xf4000600 0xfc00ffe0 ''xmem'' LDRI (H_xmem X_w False True) NOFIX,
     II 0xf4000a00 0xfc00ffe0 ''ld.hu'' LDRI (H_ld L_hu False True) Fix_r0,
     II 0xf4000e00 0xfc00ffe0 ''ld.bu'' LDRI (H_ld L_bu False False) Fix_r0,
     II 0xf4001200 0xfc00ffe0 ''ld.d'' LDRI (H_ld L_d False True) NOFIX,
     II 0xf4001600 0xfc00ffe0 ''ld'' LDRI (H_ld L_w False True) Fix_r0,
     II 0xf4001a00 0xfc00ffe0 ''ld.h'' LDRI (H_ld L_h False True) Fix_r0,
     II 0xf4001e00 0xfc00ffe0 ''ld.b'' LDRI (H_ld L_b False False) Fix_r0,
     II 0xf4000900 0xfc00ffe0 ''ld.hu.usr'' LDRO (H_ld L_hu True False) Fix_r0,
     II 0xf4000d00 0xfc00ffe0 ''ld.bu.usr'' LDRO (H_ld L_bu True False) Fix_r0,
     II 0xf4001100 0xfc00ffe0 ''ld.d.usr'' LDRO (H_ld L_d True False) NOFIX,
     II 0xf4001500 0xfc00ffe0 ''ld.usr'' LDRO (H_ld L_w True False) Fix_r0,
     II 0xf4001900 0xfc00ffe0 ''ld.h.usr'' LDRO (H_ld L_h True False) Fix_r0,
     II 0xf4001d00 0xfc00ffe0 ''ld.b.usr'' LDRO (H_ld L_b True False) Fix_r0,
     II 0xf4000b00 0xfc00ffe0 ''ld.hu.usr'' LDRI (H_ld L_hu True True) Fix_r0,
     II 0xf4000f00 0xfc00ffe0 ''ld.bu.usr'' LDRI (H_ld L_bu True False) Fix_r0,
     II 0xf4001300 0xfc00ffe0 ''ld.d.usr'' LDRI (H_ld L_d True True) NOFIX,
     II 0xf4001700 0xfc00ffe0 ''ld.usr'' LDRI (H_ld L_w True True) Fix_r0,
     II 0xf4001b00 0xfc00ffe0 ''ld.h.usr'' LDRI (H_ld L_h True True) Fix_r0,
     II 0xf4001f00 0xfc00ffe0 ''ld.b.usr'' LDRI (H_ld L_b True False) Fix_r0,
     II 0xf4000100 0xfc00ffe0 ''xmem.bu.usr'' LDRO (H_xmem X_bu True False) NOFIX,
     II 0xf4000500 0xfc00ffe0 ''xmem.usr'' LDRO (H_xmem X_w True False) NOFIX,
     II 0xf4000300 0xfc00ffe0 ''xmem.bu.usr'' LDRI (H_xmem X_bu True False) NOFIX,
     II 0xf4000700 0xfc00ffe0 ''xmem.usr'' LDRI (H_xmem X_w True True) NOFIX,
     II 0x30000000 0xfc000000 ''lda.d'' INTRL (H_add A_addu) Fix_r0,
     II 0x34000000 0xfc000000 ''lda'' INTRL (H_add A_addu) Fix_r0,
     II 0x38000000 0xfc000000 ''lda.h'' INTRL (H_add A_addu) Fix_r0,
     II 0x3c000000 0xfc000000 ''lda.b'' INTRL (H_add A_addu) Fix_r0,
     II 0xf4003000 0xfc00ffe0 ''lda.d'' INTRR (H_add A_addu) Fix_r0,
     II 0xf4003400 0xfc00ffe0 ''lda'' INTRR (H_add A_addu) Fix_r0,
     II 0xf4003800 0xfc00ffe0 ''lda.h'' INTRR (H_add A_addu) Fix_r0,
     II 0xf4003c00 0xfc00ffe0 ''lda.b'' INTRR (H_add A_addu) Fix_r0,
     II 0xf4003200 0xfc00ffe0 ''lda.d'' INTRR (H_lda A_lda_d) Fix_r0,
     II 0xf4003600 0xfc00ffe0 ''lda'' INTRR (H_lda A_lda) Fix_r0,
     II 0xf4003a00 0xfc00ffe0 ''lda.h'' INTRR (H_lda A_lda_h) Fix_r0,
     II 0xf4003e00 0xfc00ffe0 ''lda.b'' INTRR (H_add A_addu) Fix_r0,
     II 0x80004000 0xfc1ff81f ''ldcr'' LDCR (H_cr C_ldcr) Fix_r0]"

definition in_tab_rest :: "instr_info list" where
  "in_tab_rest =
    [II 0xf000a000 0xfc00fc00 ''mak'' BITFIELD (H_bit O_mak) Fix_r0,
     II 0xf400a000 0xfc00ffe0 ''mak'' INTRR (H_bit O_mak) Fix_r0,
     II 0x48000000 0xfc000000 ''mask'' INTRL (H_log O_and) Fix_r0,
     II 0x4c000000 0xfc000000 ''mask.u'' INTRL (H_log O_and) Fix_mask_u,
     II 0x6c000000 0xfc000000 ''mul'' INTRL (H_int O_mul) Fix_r0,
     II 0xf4006c00 0xfc00fee0 ''mul'' INTRR (H_int O_mul) Fix_r0,
     II 0x84005000 0xfc1fffe0 ''nint.ss'' INTRR2OP (H_fp (F_nint Sgl)) Fix_r0,
     II 0x84005080 0xfc1fffe0 ''nint.sd'' INTRR2OP (H_fp (F_nint Dbl)) Fix_r0,
     II 0x58000000 0xfc000000 ''or'' INTRL (H_log O_or) Fix_r0,
     II 0x5c000000 0xfc000000 ''or.u'' INTRL (H_log O_or) Fix_or_u,
     II 0xf4005800 0xfc00ffe0 ''or'' INTRR (H_log O_or) Fix_r0,
     II 0xf4005c00 0xfc00ffe0 ''or.c'' INTRR (H_log O_or_c) Fix_r0,
     II 0xf000a800 0xfc00ffe0 ''rot'' ROT (H_bit O_rot) Fix_r0,
     II 0xf400a800 0xfc00ffe0 ''rot'' INTRR (H_bit O_rot) Fix_r0,
     II 0xf400fc00 0xffffffff ''rte'' RTE H_rte NOFIX,
     II 0xf0008800 0xfc00fc00 ''set'' BITFIELD (H_bit O_set) Fix_r0,
     II 0xf4008800 0xfc00ffe0 ''set'' INTRR (H_bit O_set) Fix_r0,
     II 0x20000000 0xfc000000 ''st.d'' STLIT (H_st S_d False False) NOFIX,
     II 0x24000000 0xfc000000 ''st'' STLIT (H_st S_w False False) NOFIX,
     II 0x28000000 0xfc000000 ''st.h'' STLIT (H_st S_h False False) NOFIX,
     II 0x2c000000 0xfc000000 ''st.b'' STLIT (H_st S_b False False) NOFIX,
     II 0xf4002000 0xfc00ffe0 ''st.d'' STRO (H_st S_d False False) NOFIX,
     II 0xf4002400 0xfc00ffe0 ''st'' STRO (H_st S_w False False) NOFIX,
     II 0xf4002800 0xfc00ffe0 ''st.h'' STRO (H_st S_h False False) NOFIX,
     II 0xf4002c00 0xfc00ffe0 ''st.b'' STRO (H_st S_b False False) NOFIX,
     II 0xf4002200 0xfc00ffe0 ''st.d'' STRI (H_st S_d False True) NOFIX,
     II 0xf4002600 0xfc00ffe0 ''st'' STRI (H_st S_w False True) NOFIX,
     II 0xf4002a00 0xfc00ffe0 ''st.h'' STRI (H_st S_h False True) NOFIX,
     II 0xf4002e00 0xfc00ffe0 ''st.b'' STRI (H_st S_b False False) NOFIX,
     II 0xf4002100 0xfc00ffe0 ''st.d.usr'' STRO (H_st S_d True False) NOFIX,
     II 0xf4002500 0xfc00ffe0 ''st.usr'' STRO (H_st S_w True False) NOFIX,
     II 0xf4002900 0xfc00ffe0 ''st.h.usr'' STRO (H_st S_h True False) NOFIX,
     II 0xf4002d00 0xfc00ffe0 ''st.b.usr'' STRO (H_st S_b True False) NOFIX,
     II 0xf4002300 0xfc00ffe0 ''st.d.usr'' STRI (H_st S_d True True) NOFIX,
     II 0xf4002700 0xfc00ffe0 ''st.usr'' STRI (H_st S_w True True) NOFIX,
     II 0xf4002b00 0xfc00ffe0 ''st.h.usr'' STRI (H_st S_h True True) NOFIX,
     II 0xf4002f00 0xfc00ffe0 ''st.b.usr'' STRI (H_st S_b True False) NOFIX,
     II 0x80008000 0xffe0f800 ''stcr'' STCR (H_cr C_stcr) NOFIX,
     II 0x74000000 0xfc000000 ''sub'' INTRL (H_sub B_sub) Fix_r0,
     II 0xf4007400 0xfc00ffe0 ''sub'' INTRR (H_sub B_sub) Fix_r0,
     II 0xf4007500 0xfc00ffe0 ''sub.bo'' INTRR (H_sub B_sub_bo) Fix_r0,
     II 0xf4007600 0xfc00ffe0 ''sub.bi'' INTRR (H_sub B_sub_bi) Fix_r0,
     II 0xf4007700 0xfc00ffe0 ''sub.bio'' INTRR (H_sub B_sub_bio) Fix_r0,
     II 0x64000000 0xfc000000 ''subu'' INTRL (H_sub B_subu) Fix_r0,
     II 0xf4006400 0xfc00ffe0 ''subu'' INTRR (H_sub B_subu) Fix_r0,
     II 0xf4006500 0xfc00ffe0 ''subu.bo'' INTRR (H_sub B_subu_bo) Fix_r0,
     II 0xf4006600 0xfc00ffe0 ''subu.bi'' INTRR (H_sub B_subu_bi) Fix_r0,
     II 0xf4006700 0xfc00ffe0 ''subu.bio'' INTRR (H_sub B_subu_bio) Fix_r0,
     II 0xf000d000 0xfc00fe00 ''tb0'' TRAP (H_trap T_tb0) NOFIX,
     II 0xf000d800 0xfc00fe00 ''tb1'' TRAP (H_trap T_tb1) NOFIX,
     II 0xf8000000 0xffe00000 ''tbnd'' TBND (H_trap T_tbnd) NOFIX,
     II 0xf400f800 0xffe0ffe0 ''tbnd'' INTRR_S1_S2 (H_trap T_tbnd) NOFIX,
     II 0xf000e800 0xfc00fe00 ''tcnd'' TCND (H_trap T_tcnd) NOFIX,
     II 0x84005800 0xfc1fffe0 ''trnc.ss'' INTRR2OP (H_fp (F_trnc Sgl)) Fix_r0,
     II 0x84005880 0xfc1fffe0 ''trnc.sd'' INTRR2OP (H_fp (F_trnc Dbl)) Fix_r0,
     II 0x8000c000 0xfc00c000 ''xcr'' XCR (H_cr C_xcr) NOFIX,
     II 0x50000000 0xfc000000 ''xor'' INTRL (H_log O_xor) Fix_r0,
     II 0x54000000 0xfc000000 ''xor.u'' INTRL (H_log O_xor) Fix_or_u,
     II 0xf4005000 0xfc00ffe0 ''xor'' INTRR (H_log O_xor) Fix_r0,
     II 0xf4005400 0xfc00ffe0 ''xor.c'' INTRR (H_log O_xor_c) Fix_r0,
     II 0x00000000 0x00000000 ''pseudo'' F_0 H_end_of_page NOFIX,
     II 0x00000000 0x00000000 ''pseudo'' F_0 H_not_decoded NOFIX,
     II 0x00000000 0x00000000 ''pseudo'' F_0 H_opc_exception NOFIX]"

definition in_tab :: "instr_info list" where
  "in_tab = in_tab_alu @ in_tab_bb @ in_tab_fp @ in_tab_mem @ in_tab_rest"

section \<open>The search lists\<close>

definition DECODECACHE_INDEX :: "u32 \<Rightarrow> nat" where
  "DECODECACHE_INDEX i = unat (drop_bit 26 i)"

fun build_loop :: "instr_info list \<Rightarrow> (nat \<Rightarrow> instr_info list) \<Rightarrow> (nat \<Rightarrow> instr_info list)" where
  "build_loop [] c = c"
| "build_loop (p # ps) c =
     (let i = DECODECACHE_INDEX (ii_opcode p) in build_loop ps (c(i := p # c i)))"

definition builddecodetable :: "mach \<Rightarrow> mach" where
  "builddecodetable m =
     (if g_decode_initialized m then m
      else m\<lparr>g_decode_initialized := True, g_decodecache := build_loop in_tab (g_decodecache m)\<rparr>)"

definition ii_hit :: "u32 \<Rightarrow> instr_info \<Rightarrow> bool" where
  "ii_hit i p \<longleftrightarrow> ii_opmask p AND i = ii_opcode p"

text \<open>The loop over one list; \<open>us\<close> are the entries already passed, the last one first.\<close>

fun lookup_loop ::
  "u32 \<Rightarrow> instr_info list \<Rightarrow> instr_info list \<Rightarrow> (instr_info \<times> instr_info list) option" where
  "lookup_loop i us [] = None"
| "lookup_loop i us (p # ps) =
     (if ii_hit i p then Some (p, p # rev us @ ps) else lookup_loop i (p # us) ps)"

definition sim_instruction_lookup :: "u32 \<Rightarrow> mach \<Rightarrow> instr_info option \<times> mach" where
  "sim_instruction_lookup i m =
     (let h = DECODECACHE_INDEX i in
      case lookup_loop i [] (g_decodecache m h) of
        None \<Rightarrow> (None, m)
      | Some (p, ps) \<Rightarrow> (Some p, m\<lparr>g_decodecache := (g_decodecache m)(h := ps)\<rparr>))"

end
