(* ===== verification/Sim_Decoder.thy ===== *)
theory Sim_Decoder
  imports Sim_Misc Sim_Decode
begin

text \<open>
  \<open>decode\<close> of \<open>sim/simdecode.c\<close>: filling in a decoded instruction the first time it is executed.  The
  routine is called with the place of the decoded instruction, part \<open>q\<close> and index \<open>i\<close>, and returns
  whether the fetch faults.
\<close>

section \<open>Operands\<close>

definition set_operands :: "part \<Rightarrow> nat \<Rightarrow> hostptr \<Rightarrow> hostptr \<Rightarrow> hostptr \<Rightarrow> mach \<Rightarrow> mach option" where
  "set_operands q i s1 s2 dest m =
     upd_dec q i (\<lambda>d. d\<lparr>d_s1 := s1, d_s2 := s2, d_dest := dest\<rparr>) m"

text \<open>Load, store, exchange and register instructions.\<close>

definition decode_reg :: "fmt \<Rightarrow> u32 \<Rightarrow> part \<Rightarrow> nat \<Rightarrow> mach \<Rightarrow> mach option" where
  "decode_reg f instr q i m =
     (if f \<in> {STRO, STRI, LDRO, LDRI, INTRR, INTRR2OP, INTRR_S1_S2} then
        set_operands q i (PReg (S1 instr)) (PReg (S2 instr)) (PReg (D instr)) m
      else
        let v = (if f = ROT then of_nat (O5 instr)
                 else if f = BITFIELD then instr AND 0x3ff else LIT16 instr);
            (l, m) = mkliteral v m
        in set_operands q i (PReg (S1 instr)) l (PReg (D instr)) m)"

text \<open>
  A branch: if the target is on the page of the branch, \<open>s2\<close> is its decoded instruction; otherwise \<open>s2\<close>
  is null and \<open>dest\<close> the offset in bytes.
\<close>

definition decode_target :: "io_fn \<Rightarrow> u32 \<Rightarrow> u32 \<Rightarrow> nat \<Rightarrow> part \<Rightarrow> nat \<Rightarrow> mach \<Rightarrow> mach option" where
  "decode_target io rel ip usmode q i m =
     (let target_addr = ip + rel in
      if target_addr AND NOT PAGEMASK = ip AND NOT PAGEMASK then
        do {
          (d, m) \<leftarrow> l_to_d io target_addr usmode False m;
          upd_dec q i (\<lambda>x. x\<lparr>d_s2 := (case d of None \<Rightarrow> PNull | Some (q', j) \<Rightarrow> PDec q' j)\<rparr>) m
        }
      else upd_dec q i (\<lambda>x. x\<lparr>d_dest := PVal rel, d_s2 := PNull\<rparr>) m)"

definition decode_branch :: "io_fn \<Rightarrow> fmt \<Rightarrow> u32 \<Rightarrow> u32 \<Rightarrow> nat \<Rightarrow> part \<Rightarrow> nat \<Rightarrow> mach \<Rightarrow> mach option" where
  "decode_branch io f instr ip usmode q i m =
     (if f = BITBRANCH \<or> f = CBRANCH then
        do {
          m \<leftarrow> upd_dec q i (\<lambda>x. x\<lparr>d_s1 := PReg (S1 instr)\<rparr>) m;
          decode_target io (REL16 instr) ip usmode q i m
        }
      else if f = IPREL then decode_target io (REL26 instr) ip usmode q i m
      else upd_dec q i (\<lambda>x. x\<lparr>d_dest := PReg (S2 instr), d_s2 := PNull\<rparr>) m)"

definition decode_trap :: "fmt \<Rightarrow> u32 \<Rightarrow> part \<Rightarrow> nat \<Rightarrow> mach \<Rightarrow> mach option" where
  "decode_trap f instr q i m =
     (if f = TRAP then
        set_operands q i (PReg (S1 instr)) (PVal (VEC instr)) (PVal (c_shl 1 (B5 instr))) m
      else if f = TCND then
        set_operands q i (PReg (S1 instr)) (PVal (VEC instr)) (PVal (M5 instr)) m
      else if f = TBND then
        let (l, m) = mkliteral (LIT16 instr) m
        in upd_dec q i (\<lambda>x. x\<lparr>d_s1 := PReg (S1 instr), d_s2 := l\<rparr>) m
      else Some m)"

text \<open>
  Control registers.  What cannot be written is directed to \<open>dummy_r0\<close>, or exchanged with itself.
\<close>

definition cr_writable :: "nat \<Rightarrow> bool" where
  "cr_writable n \<longleftrightarrow> n \<in> {1, 2, 3, 5, 6, 7, 17, 18, 19, 20}"

definition decode_cr :: "fmt \<Rightarrow> u32 \<Rightarrow> part \<Rightarrow> nat \<Rightarrow> mach \<Rightarrow> mach option" where
  "decode_cr f instr q i m =
     (let n = CRS instr; s1 = PReg (S1 instr); dest = PReg (D instr);
          unpriv = (\<lambda>h x. if 62 \<le> n then x\<lparr>d_norm_e_addr := H_cr h\<rparr> else x)
      in if f = FLDCR then
           upd_dec q i (\<lambda>x. unpriv C_uldcr (x\<lparr>d_dest := dest, d_s1 := PSfu1 n\<rparr>)) m
         else if f = LDCR then upd_dec q i (\<lambda>x. x\<lparr>d_dest := dest, d_s1 := PSfu0 n\<rparr>) m
         else if f = FSTCR then
           upd_dec q i (\<lambda>x. unpriv C_ustcr
             (x\<lparr>d_s1 := s1, d_dest := (if n \<le> 8 \<or> 62 \<le> n then PSfu1 n else PDummy 0)\<rparr>)) m
         else if f = STCR then
           upd_dec q i (\<lambda>x. x\<lparr>d_s1 := s1,
             d_dest := (if cr_writable n \<or> n = 21 then PSfu0 n else PDummy 0)\<rparr>) m
         else if f = XCR then
           set_operands q i (if cr_writable n then s1 else PSfu0 n) (PSfu0 n) dest m
         else
           upd_dec q i (\<lambda>x. unpriv C_uxcr
             (x\<lparr>d_s2 := PSfu1 n, d_s1 := (if n < 9 \<or> 61 < n then s1 else PSfu1 n), d_dest := dest\<rparr>)) m)"

section \<open>Fixups\<close>

definition fix_r0 :: "part \<Rightarrow> nat \<Rightarrow> mach \<Rightarrow> mach option" where
  "fix_r0 q i m =
     upd_dec q i (\<lambda>x. if d_dest x = PReg 0 then x\<lparr>d_dest := PDummy 0\<rparr> else x) m"

text \<open>Changing the literal in place.\<close>

definition upd_literal :: "(u32 \<Rightarrow> u32) \<Rightarrow> part \<Rightarrow> nat \<Rightarrow> mach \<Rightarrow> mach option" where
  "upd_literal f q i m =
     do {
       x \<leftarrow> get_dec m q i;
       v \<leftarrow> read_ptr m (d_s2 x);
       write_ptr m (d_s2 x) (f v)
     }"

definition fix_and_u :: "part \<Rightarrow> nat \<Rightarrow> mach \<Rightarrow> mach option" where
  "fix_and_u q i m = do { m \<leftarrow> upd_literal (\<lambda>v. push_bit 16 v OR 0xffff) q i m; fix_r0 q i m }"

definition fix_and :: "part \<Rightarrow> nat \<Rightarrow> mach \<Rightarrow> mach option" where
  "fix_and q i m = do { m \<leftarrow> upd_literal (\<lambda>v. v OR 0xffff0000) q i m; fix_r0 q i m }"

definition fix_mask_u :: "part \<Rightarrow> nat \<Rightarrow> mach \<Rightarrow> mach option" where
  "fix_mask_u q i m = do { m \<leftarrow> upd_literal (push_bit 16) q i m; fix_r0 q i m }"

definition fix_or_u :: "part \<Rightarrow> nat \<Rightarrow> mach \<Rightarrow> mach option" where
  "fix_or_u q i m = do { m \<leftarrow> upd_literal (push_bit 16) q i m; fix_r0 q i m }"

definition do_fixup :: "fixup \<Rightarrow> part \<Rightarrow> nat \<Rightarrow> mach \<Rightarrow> mach option" where
  "do_fixup f q i m =
     (case f of
        NOFIX \<Rightarrow> Some m | Fix_r0 \<Rightarrow> fix_r0 q i m | Fix_and_u \<Rightarrow> fix_and_u q i m
      | Fix_and \<Rightarrow> fix_and q i m | Fix_mask_u \<Rightarrow> fix_mask_u q i m | Fix_or_u \<Rightarrow> fix_or_u q i m)"

section \<open>decode\<close>

definition decode_format :: "io_fn \<Rightarrow> fmt \<Rightarrow> u32 \<Rightarrow> u32 \<Rightarrow> nat \<Rightarrow> part \<Rightarrow> nat \<Rightarrow> mach \<Rightarrow> mach option" where
  "decode_format io f instr ip usmode q i m =
     (if f \<in> {STRO, STRI, STLIT, LDRO, LDRI, INTRR, INTRR2OP, INTRR_S1_S2, LDLIT, INTRL, ROT, BITFIELD} then
        decode_reg f instr q i m
      else if f \<in> {BITBRANCH, CBRANCH, IPREL, JMP} then decode_branch io f instr ip usmode q i m
      else if f \<in> {TRAP, TBND, TCND, RTE} then decode_trap f instr q i m
      else decode_cr f instr q i m)"

text \<open>The part of \<open>decode\<close> after the fetch of the instruction, and the whole.\<close>

definition decode_word :: "io_fn \<Rightarrow> part \<Rightarrow> nat \<Rightarrow> u32 \<Rightarrow> nat \<Rightarrow> u32 \<Rightarrow> mach \<Rightarrow> (bool \<times> mach) option" where
  "decode_word io q i ip usmode instr m =
     (let (ii, m) = sim_instruction_lookup instr m in
      case ii of
        None \<Rightarrow> do { m \<leftarrow> set_handler H_opc_exception (Some (q, i)) m; Some (False, m) }
      | Some ii \<Rightarrow>
          do {
            m \<leftarrow> set_handler (ii_norm_e_addr ii) (Some (q, i)) m;
            if ii_format ii = F_0 then
              do { m \<leftarrow> set_handler H_opc_exception (Some (q, i)) m; Some (False, m) }
            else do {
              m \<leftarrow> decode_format io (ii_format ii) instr ip usmode q i m;
              m \<leftarrow> do_fixup (ii_fixup ii) q i m;
              Some (False, m)
            }
          })"

definition decode :: "io_fn \<Rightarrow> part \<Rightarrow> nat \<Rightarrow> u32 \<Rightarrow> nat \<Rightarrow> mach \<Rightarrow> (bool \<times> mach) option" where
  "decode io q i ip usmode m =
     do {
       (exception, pa, m) \<leftarrow> l_to_p io usmode ip (CODE_CMMU m ip) READ m;
       if exception \<noteq> E_NONE then Some (True, m)
       else do {
         (instr, m) \<leftarrow> read_sim_w io m pa;
         if g_sim_errno m then Some (True, m) else decode_word io q i ip usmode instr m
       }
     }"

section \<open>Lemmas\<close>

lemma get_part_of_set [simp]: "get_part_of (set_part_of q d m) q = Some d"
  by (cases q) (simp_all add: put_page_def)

lemma get_dec_upd_dec: "upd_dec q i f m = Some m' \<Longrightarrow> \<exists>d. get_dec m q i = Some d \<and> get_dec m' q i = Some (f d)"
  by (auto simp: upd_dec_def get_dec_def split: if_splits option.splits)

text \<open>The rows of the table whose handlers write their result through \<open>dest\<close> without protecting \<open>r0\<close>.\<close>

fun writes_dest :: "handler \<Rightarrow> bool" where
  "writes_dest (H_add _) = True" | "writes_dest (H_sub _) = True" | "writes_dest (H_log _) = True"
| "writes_dest (H_bit _) = True" | "writes_dest (H_int _) = True" | "writes_dest (H_fp _) = True"
| "writes_dest (H_lda _) = True" | "writes_dest _ = False"

end
