(* ===== verification/Sim_Mvme188.thy ===== *)
theory Sim_Mvme188
  imports Sim_Misc
begin

text \<open>
  The MVME188 board: the interrupt enable and status registers, the software interrupt registers,
  \<open>WHOAMI\<close>, and the counter/timer (CIO) with its command registers and interrupt logic
  (\<open>sim/mvme188.c\<close>), and the host timer that drives it (\<open>sim/io.c\<close>).

  The registers of the CIO are the bytes of \<open>cio_regs\<close>, named by their offset.
\<close>

section \<open>Interrupt registers\<close>

text \<open>For a processor number above 3 the local variable of the code is not set.\<close>

definition check_for_interrupt :: "mach \<Rightarrow> mach" where
  "check_for_interrupt m =
     (if b_ien (g_board m) (g_selected_processor m) AND b_ist (g_board m) \<noteq> 0
      then m\<lparr>g_sim_interrupt_flag := g_sim_interrupt_flag m OR INT_DEVICE\<rparr> else m)"

definition upd_ist :: "(u32 \<Rightarrow> u32) \<Rightarrow> mach \<Rightarrow> mach" where
  "upd_ist f m = set_board (\<lambda>b. b\<lparr>b_ist := f (b_ist b)\<rparr>) m"

definition set_ist :: "nat \<Rightarrow> mach \<Rightarrow> mach" where
  "set_ist n m = check_for_interrupt (upd_ist (\<lambda>w. w OR c_shl 1 n) m)"

definition clear_ist :: "nat \<Rightarrow> mach \<Rightarrow> mach" where
  "clear_ist n m = upd_ist (\<lambda>w. w AND NOT (c_shl 1 n)) m"

text \<open>\<open>ien0_init\<close> .. \<open>ien3_init\<close> and \<open>ist_init\<close>; the other initializations are empty.\<close>

definition ien_n_init :: "nat \<Rightarrow> mach \<Rightarrow> mach" where
  "ien_n_init j m = set_board (\<lambda>b. b\<lparr>b_ien := (b_ien b)(j := 0)\<rparr>) m"

definition ist_init :: "mach \<Rightarrow> mach" where
  "ist_init m = upd_ist (\<lambda>_. 0) m"

definition ien_n_operation :: "nat \<Rightarrow> hostptr \<Rightarrow> u32 \<Rightarrow> memop \<Rightarrow> mach \<Rightarrow> (int \<times> mach) option" where
  "ien_n_operation j rp sz mop m =
     (if sz > WORD then Some (E_DACC, m)
      else do { m \<leftarrow> do_mem_op rp (BIen j) 0 sz mop m; Some (E_NONE, check_for_interrupt m) })"

definition ien_operation :: "hostptr \<Rightarrow> u32 \<Rightarrow> memop \<Rightarrow> mach \<Rightarrow> (int \<times> mach) option" where
  "ien_operation rp sz mop m =
     (if sz > WORD \<or> mop \<noteq> ST then Some (E_DACC, m)
      else do {
        m \<leftarrow> do_mem_op rp (BIen 0) 0 sz mop m;
        m \<leftarrow> do_mem_op rp (BIen 1) 0 sz mop m;
        m \<leftarrow> do_mem_op rp (BIen 2) 0 sz mop m;
        m \<leftarrow> do_mem_op rp (BIen 3) 0 sz mop m;
        Some (E_NONE, check_for_interrupt m)
      })"

definition ist_operation :: "hostptr \<Rightarrow> u32 \<Rightarrow> memop \<Rightarrow> mach \<Rightarrow> (int \<times> mach) option" where
  "ist_operation rp sz mop m =
     (if sz > WORD \<or> \<not> is_load mop then Some (E_DACC, m)
      else do { m \<leftarrow> do_mem_op rp BIst 0 sz mop m; Some (E_NONE, m) })"

text \<open>The software interrupt bits a register selects: bits 0..3, and bits 4..7 moved to 24..27.\<close>

definition swi_bits :: "u32 \<Rightarrow> u32" where
  "swi_bits v = (v AND 0xf) OR push_bit 24 (drop_bit 4 v AND 0xf)"

definition setswi_operation :: "hostptr \<Rightarrow> u32 \<Rightarrow> memop \<Rightarrow> mach \<Rightarrow> (int \<times> mach) option" where
  "setswi_operation rp sz mop m =
     (if sz > WORD \<or> mop \<noteq> ST then Some (E_DACC, m)
      else do { v \<leftarrow> read_ptr m rp; Some (E_NONE, upd_ist (\<lambda>w. w OR swi_bits v) m) })"

definition clrswi_operation :: "hostptr \<Rightarrow> u32 \<Rightarrow> memop \<Rightarrow> mach \<Rightarrow> (int \<times> mach) option" where
  "clrswi_operation rp sz mop m =
     (if sz > WORD \<or> mop \<noteq> ST then Some (E_DACC, m)
      else do { v \<leftarrow> read_ptr m rp; Some (E_NONE, upd_ist (\<lambda>w. w AND NOT (swi_bits v)) m) })"

definition istate_operation :: "hostptr \<Rightarrow> u32 \<Rightarrow> memop \<Rightarrow> mach \<Rightarrow> (int \<times> mach) option" where
  "istate_operation rp sz mop m = Some (E_DACC, m)"

definition clrint_operation :: "hostptr \<Rightarrow> u32 \<Rightarrow> memop \<Rightarrow> mach \<Rightarrow> (int \<times> mach) option" where
  "clrint_operation rp sz mop m = Some (E_DACC, m)"

definition whoami_operation :: "hostptr \<Rightarrow> u32 \<Rightarrow> memop \<Rightarrow> mach \<Rightarrow> (int \<times> mach) option" where
  "whoami_operation rp sz mop m =
     (if sz > WORD \<or> \<not> is_load mop then Some (E_DACC, m)
      else do { m \<leftarrow> do_mem_op rp (BConst (c_shl 1 (g_selected_processor m))) 0 sz mop m; Some (E_NONE, m) })"

section \<open>The host timer\<close>

text \<open>
  The interval timer of the host: \<open>g_itimer\<close> is its period in microseconds, 0 when it is stopped.  The
  handler of its signal is \<open>Oscillator\<close>.
\<close>

abbreviation (input) NSIG :: nat where "NSIG \<equiv> 32"
abbreviation (input) SIGVTALRM :: nat where "SIGVTALRM \<equiv> 26"
abbreviation (input) Oscillator_name :: nat where "Oscillator_name \<equiv> 1"

definition HoldOscillator :: "mach \<Rightarrow> mach" where
  "HoldOscillator m = m\<lparr>g_itimer := 0\<rparr>"

definition ReleaseOscillator :: "mach \<Rightarrow> mach" where
  "ReleaseOscillator m =
     (if 0 <s b_timer_on (g_board m) \<or> g_waiting_for_mpswitch m then
        let m = simsignal NSIG SIGVTALRM (Some Oscillator_name) m;
            usec = varvalue ''simtick'' m;
            m = (if usec < 10000 then setvar ''simtick'' 10000 m else m)
        in m\<lparr>g_itimer := (if usec < 10000 then 10000 else usec)\<rparr>
      else m)"

section \<open>The counter/timer\<close>

abbreviation (input) c_micr :: nat where "c_micr \<equiv> 0"
abbreviation (input) c_porta_com :: nat where "c_porta_com \<equiv> 8"
abbreviation (input) c_portb_com :: nat where "c_portb_com \<equiv> 9"
abbreviation (input) c_ctim1_com :: nat where "c_ctim1_com \<equiv> 10"
abbreviation (input) c_ctim2_com :: nat where "c_ctim2_com \<equiv> 11"
abbreviation (input) c_ctim3_com :: nat where "c_ctim3_com \<equiv> 12"
abbreviation (input) c_porta_data :: nat where "c_porta_data \<equiv> 13"
abbreviation (input) c_portb_data :: nat where "c_portb_data \<equiv> 14"
abbreviation (input) c_portc_data :: nat where "c_portc_data \<equiv> 15"

definition cio_reg :: "mach \<Rightarrow> nat \<Rightarrow> u8" where
  "cio_reg m r = b_cio_regs (g_board m) r"

definition upd_cio :: "nat \<Rightarrow> (u8 \<Rightarrow> u8) \<Rightarrow> mach \<Rightarrow> mach" where
  "upd_cio r f m = set_board (\<lambda>b. b\<lparr>b_cio_regs := (b_cio_regs b)(r := f (b_cio_regs b r))\<rparr>) m"

definition set_cio_state :: "cio_state \<Rightarrow> mach \<Rightarrow> mach" where
  "set_cio_state s m = set_board (\<lambda>b. b\<lparr>b_cio_state := s\<rparr>) m"

text \<open>
  The interrupt logic: the sources in the order of their priority.  A source with an interrupt in
  service blocks the search; one with a pending and enabled interrupt raises bit 21.
\<close>

fun cio_search :: "nat list \<Rightarrow> mach \<Rightarrow> mach" where
  "cio_search [] m = clear_ist 21 m"
| "cio_search (r # rs) m =
     (if cio_reg m r AND 0x80 \<noteq> 0 then m
      else if cio_reg m r AND 0x60 = 0x60 then set_ist 21 m
      else cio_search rs m)"

definition check_for_cio_interrupt :: "mach \<Rightarrow> mach" where
  "check_for_cio_interrupt m =
     (if cio_reg m c_micr AND 0x80 = 0 then clear_ist 21 m
      else cio_search [c_ctim3_com, c_porta_com, c_ctim2_com, c_portb_com, c_ctim1_com] m)"

definition set_cio_interrupt :: "mach \<Rightarrow> mach" where
  "set_cio_interrupt m = check_for_cio_interrupt (upd_cio c_ctim1_com (\<lambda>w. w OR 0x20) m)"

definition cio_do_reset :: "mach \<Rightarrow> mach" where
  "cio_do_reset m =
     set_board (\<lambda>b. b\<lparr>b_cio_reg_pointer := c_micr,
       b_cio_regs := (\<lambda>_. 0)(c_micr := 1, c_porta_com := 8, c_portb_com := 8),
       b_cio_state := cio_reset\<rparr>) m"

definition cio_command :: "u32 \<Rightarrow> u8 \<Rightarrow> u8" where
  "cio_command command w =
     (let k = drop_bit 5 command AND 7 in
      if k = 0 then w
      else if k = 1 then w AND NOT 0xa0
      else if k = 2 then w OR 0x80
      else if k = 3 then w AND NOT 0x80
      else if k = 4 then w OR 0x20
      else if k = 5 then w AND NOT 0x20
      else if k = 6 then w OR 0x40
      else w AND NOT 0x40)"

text \<open>The gate bit of a counter/timer command starts or stops the timer.\<close>

definition cio_gate :: "u32 \<Rightarrow> mach \<Rightarrow> mach" where
  "cio_gate command m =
     (let old = b_timer_on (g_board m);
          tpi = varvalue ''simticksperint'' m;
          (tpi, m) = (if tpi = 0 then (3, setvar ''simticksperint'' 3 m) else (tpi, m));
          on = (if command AND 4 \<noteq> 0 then tpi else 0);
          m = set_board (\<lambda>b. b\<lparr>b_timer_on := on\<rparr>) m
      in if on \<noteq> 0 \<and> old = 0
         then set_board (\<lambda>b. b\<lparr>b_timer_count := on\<rparr>) (ReleaseOscillator (HoldOscillator m)) else m)"

definition cio_write_command_reg :: "u32 \<Rightarrow> nat \<Rightarrow> mach \<Rightarrow> mach" where
  "cio_write_command_reg command r m =
     (let m = upd_cio r (cio_command command) m in
      if r \<in> {c_ctim1_com, c_ctim2_com, c_ctim3_com} then
        upd_cio r (\<lambda>w. (w AND NOT 4) OR ucast (command AND 4)) (cio_gate command m)
      else m)"

definition reload_timer :: "nat \<Rightarrow> mach \<Rightarrow> mach" where
  "reload_timer t m =
     (if t \<in> {1, 2, 3} then
        upd_cio (15 + 2 * t) (\<lambda>_. cio_reg m (21 + 2 * t))
          (upd_cio (14 + 2 * t) (\<lambda>_. cio_reg m (20 + 2 * t)) m)
      else m)"

text \<open>The location at offset 12: a write selects a register, the next access goes to it.\<close>

definition cio_register_access :: "hostptr \<Rightarrow> memop \<Rightarrow> mach \<Rightarrow> mach option" where
  "cio_register_access rp mop m =
     (let r = b_cio_reg_pointer (g_board m) in
      case b_cio_state (g_board m) of
        cio_reset \<Rightarrow>
          do {
            m \<leftarrow> do_mem_op rp BCio c_micr BYTE mop m;
            Some (if cio_reg m c_micr AND 1 \<noteq> 0 then upd_cio c_micr (\<lambda>_. 1) m
                  else set_cio_state cio_state0 m)
          }
      | cio_state0 \<Rightarrow>
          if mop = ST then
            do {
              v \<leftarrow> read_ptr m rp;
              Some (set_cio_state cio_state1
                     (set_board (\<lambda>b. b\<lparr>b_cio_reg_pointer := unat (v AND 0x3f)\<rparr>) m))
            }
          else do_mem_op rp BCio r BYTE mop m
      | cio_state1 \<Rightarrow>
          do {
            m \<leftarrow> (if mop = ST \<and> r \<in> {c_porta_com, c_portb_com, c_ctim1_com, c_ctim2_com, c_ctim3_com} then
                    do { v \<leftarrow> read_ptr m rp; Some (cio_write_command_reg v r m) }
                  else do_mem_op rp BCio r BYTE mop m);
            Some (set_cio_state cio_state0 m)
          })"

definition cio_operation :: "u32 \<Rightarrow> hostptr \<Rightarrow> u32 \<Rightarrow> memop \<Rightarrow> mach \<Rightarrow> (int \<times> mach) option" where
  "cio_operation o' rp sz mop m =
     (if sz \<noteq> WORD \<or> (\<not> is_load mop \<and> mop \<noteq> ST) then Some (E_DACC, m)
      else
        let done = (\<lambda>r. do { m \<leftarrow> r; Some (E_NONE, check_for_cio_interrupt m) })
        in if o' = 0 then done (do_mem_op rp BCio c_porta_data BYTE mop m)
           else if o' = 4 then done (do_mem_op rp BCio c_portb_data BYTE mop m)
           else if o' = 8 then done (do_mem_op rp BCio c_portc_data BYTE mop m)
           else if o' = 12 then done (cio_register_access rp mop m)
           else Some (E_DACC, m))"

end
