(* ===== verification/Sim_Alu.thy ===== *)
theory Sim_Alu
  imports Sim_Decode
begin

text \<open>
  The arithmetic of the integer instructions (\<open>sim/execute.c\<close>), as functions of the operand values:
  what a handler stores in its destination and the conditions it derives from the signs of the operands
  and of the result.  The lemmas say what these conditions are in terms of integer arithmetic.
\<close>

section \<open>Addition and subtraction\<close>

definition both_neg :: "u32 \<Rightarrow> u32 \<Rightarrow> bool" where
  "both_neg s1 s2 \<longleftrightarrow> neg (s1 AND s2)"

definition both_pos :: "u32 \<Rightarrow> u32 \<Rightarrow> bool" where
  "both_pos s1 s2 \<longleftrightarrow> \<not> neg (s1 OR s2)"

definition add_carry :: "u32 \<Rightarrow> u32 \<Rightarrow> u32 \<Rightarrow> bool" where
  "add_carry s1 s2 res \<longleftrightarrow> both_neg s1 s2 \<or> (\<not> neg res \<and> \<not> both_pos s1 s2)"

definition add_overflow :: "u32 \<Rightarrow> u32 \<Rightarrow> u32 \<Rightarrow> bool" where
  "add_overflow s1 s2 res \<longleftrightarrow> (both_neg s1 s2 \<and> \<not> neg res) \<or> (both_pos s1 s2 \<and> neg res)"

definition sub_overflow :: "u32 \<Rightarrow> u32 \<Rightarrow> u32 \<Rightarrow> bool" where
  "sub_overflow s1 s2 res \<longleftrightarrow>
     (neg s1 \<and> \<not> neg s2 \<and> \<not> neg res) \<or> (\<not> neg s1 \<and> neg s2 \<and> neg res)"

text \<open>The condition is written \<open>s1_neg && s1_neg\<close> in the code.\<close>

definition sub_carry :: "u32 \<Rightarrow> u32 \<Rightarrow> u32 \<Rightarrow> bool" where
  "sub_carry s1 s2 res \<longleftrightarrow> (neg s1 \<and> neg s1) \<or> (neg res \<and> (\<not> neg s1 \<or> \<not> neg s2))"

fun add_signed :: "addop \<Rightarrow> bool" where
  "add_signed A_add = True" | "add_signed A_add_co = True" | "add_signed A_add_ci = True"
| "add_signed A_add_cio = True" | "add_signed _ = False"

fun add_carry_in :: "addop \<Rightarrow> bool" where
  "add_carry_in A_add_ci = True" | "add_carry_in A_add_cio = True" | "add_carry_in A_addu_ci = True"
| "add_carry_in A_addu_cio = True" | "add_carry_in _ = False"

fun add_carry_out :: "addop \<Rightarrow> bool" where
  "add_carry_out A_add_co = True" | "add_carry_out A_add_cio = True" | "add_carry_out A_addu_co = True"
| "add_carry_out A_addu_cio = True" | "add_carry_out _ = False"

fun sub_signed :: "subop \<Rightarrow> bool" where
  "sub_signed B_sub = True" | "sub_signed B_sub_bo = True" | "sub_signed B_sub_bi = True"
| "sub_signed B_sub_bio = True" | "sub_signed _ = False"

fun sub_carry_in :: "subop \<Rightarrow> bool" where
  "sub_carry_in B_sub_bi = True" | "sub_carry_in B_sub_bio = True" | "sub_carry_in B_subu_bi = True"
| "sub_carry_in B_subu_bio = True" | "sub_carry_in _ = False"

fun sub_carry_out :: "subop \<Rightarrow> bool" where
  "sub_carry_out B_sub_bo = True" | "sub_carry_out B_sub_bio = True" | "sub_carry_out B_subu_bo = True"
| "sub_carry_out B_subu_bio = True" | "sub_carry_out _ = False"

section \<open>Logic and bit fields\<close>

fun log_value :: "logop \<Rightarrow> u32 \<Rightarrow> u32 \<Rightarrow> u32" where
  "log_value O_and a b = a AND b"
| "log_value O_and_c a b = a AND NOT b"
| "log_value O_or a b = a OR b"
| "log_value O_or_c a b = a OR NOT b"
| "log_value O_xor a b = a XOR b"
| "log_value O_xor_c a b = a XOR NOT b"

text \<open>The mask of a bit field: width 0 stands for 32, with the offset shifting bits out.\<close>

definition field_mask :: "u32 \<Rightarrow> u32" where
  "field_mask s2 =
     (if W5 s2 = 0 then c_shl 0xffffffff (O5 s2) else c_shl (c_shl 1 (W5 s2) - 1) (O5 s2))"

definition ext_value :: "u32 \<Rightarrow> u32 \<Rightarrow> u32" where
  "ext_value s1 s2 =
     (if W5 s2 = 0 then c_sar s1 (O5 s2)
      else
        let left_sh_cnt = 32 - (int (O5 s2) + int (W5 s2))
        in c_sar (c_shl s1 (nat (left_sh_cnt mod 32))) (nat (int (O5 s2) + left_sh_cnt)))"

definition extu_value :: "u32 \<Rightarrow> u32 \<Rightarrow> u32" where
  "extu_value s1 s2 =
     (if W5 s2 = 0 then c_shr s1 (O5 s2) else c_shr s1 (O5 s2) AND (c_shl 1 (W5 s2) - 1))"

definition mak_value :: "u32 \<Rightarrow> u32 \<Rightarrow> u32" where
  "mak_value s1 s2 =
     (if W5 s2 = 0 then c_shl s1 (O5 s2) else c_shl (s1 AND (c_shl 1 (W5 s2) - 1)) (O5 s2))"

text \<open>The loops of \<open>ff0\<close> and \<open>ff1\<close>: \<open>i\<close> is the bit looked at plus one.\<close>

fun ff_loop :: "bool \<Rightarrow> u32 \<Rightarrow> nat \<Rightarrow> u32" where
  "ff_loop b w 0 = 32"
| "ff_loop b w (Suc i) = (if c_shr w i AND 1 = (if b then 1 else 0) then of_nat i else ff_loop b w i)"

fun rot_loop :: "nat \<Rightarrow> u32 \<Rightarrow> u32" where
  "rot_loop 0 w = w"
| "rot_loop (Suc n) w = rot_loop n (c_shr w 1 OR c_shl (w AND 1) 31)"

text \<open>The result of a bit operation from the operands and the old destination.\<close>

fun bit_value :: "bitop \<Rightarrow> u32 \<Rightarrow> u32 \<Rightarrow> u32 \<Rightarrow> u32" where
  "bit_value O_clr s1 s2 d = s1 AND NOT (field_mask s2)"
| "bit_value O_set s1 s2 d = s1 OR field_mask s2"
| "bit_value O_ext s1 s2 d = ext_value s1 s2"
| "bit_value O_extu s1 s2 d = extu_value s1 s2"
| "bit_value O_mak s1 s2 d = mak_value s1 s2"
| "bit_value O_rot s1 s2 d = rot_loop (O5 s2) d"
| "bit_value O_ff0 s1 s2 d = ff_loop False s2 32"
| "bit_value O_ff1 s1 s2 d = ff_loop True s2 32"

section \<open>Comparison\<close>

definition cmp_value :: "u32 \<Rightarrow> u32 \<Rightarrow> u32" where
  "cmp_value s1 s2 =
     (if s1 = s2 then 0xaa4
      else (if s1 > s2 then 0x908 else 0x608) OR (if s2 <s s1 then 0x90 else 0x60))"

section \<open>Branch and trap conditions\<close>

fun bcond_holds :: "bcond \<Rightarrow> u32 \<Rightarrow> bool" where
  "bcond_holds BC_eq0 w \<longleftrightarrow> w = 0"
| "bcond_holds BC_ne0 w \<longleftrightarrow> w \<noteq> 0"
| "bcond_holds BC_gt0 w \<longleftrightarrow> 0 <s w"
| "bcond_holds BC_lt0 w \<longleftrightarrow> w <s 0"
| "bcond_holds BC_ge0 w \<longleftrightarrow> 0 \<le>s w"
| "bcond_holds BC_le0 w \<longleftrightarrow> w \<le>s 0"
| "bcond_holds BC_4 w \<longleftrightarrow> w \<noteq> 0x80000000 \<and> w <s 0"
| "bcond_holds BC_5 w \<longleftrightarrow> w AND 0x7fffffff \<noteq> 0"
| "bcond_holds BC_6 w \<longleftrightarrow> w \<le>s 0 \<and> w \<noteq> 0x80000000"
| "bcond_holds BC_7 w \<longleftrightarrow> w \<noteq> 0x80000000"
| "bcond_holds BC_8 w \<longleftrightarrow> w = 0x80000000"
| "bcond_holds BC_9 w \<longleftrightarrow> 0 <s w \<or> w = 0x80000000"
| "bcond_holds BC_10 w \<longleftrightarrow> w AND 0x7fffffff = 0"
| "bcond_holds BC_11 w \<longleftrightarrow> 0 \<le>s w \<or> w = 0x80000000"
| "bcond_holds BC_always w \<longleftrightarrow> True"

text \<open>The index \<open>tcnd\<close> computes from a word: bit 1 is the sign, bit 0 says that the rest is zero.\<close>

definition cc_index :: "u32 \<Rightarrow> nat" where
  "cc_index w = unat ((drop_bit 30 w AND 2) OR of_bool (w AND 0x7fffffff = 0))"

section \<open>Signs, carries and overflows\<close>

lemma uint_u32: "0 \<le> uint x" "uint x < 4294967296" for x :: u32
  using uint_lt2p [of x] by simp_all

lemma mod_wrap: "0 \<le> x \<Longrightarrow> x < 2 * k \<Longrightarrow> x mod k = (if x < k then x else x - k)" for x k :: int
  using minus_mod_self2 [of x k] mod_pos_pos_trivial [of "x - k" k] mod_pos_pos_trivial [of x k]
  by (cases "x < k") auto

lemma neg_sint: "neg x \<longleftrightarrow> sint x < 0"
  using bit_last_iff [of x] by (simp add: neg_def)

lemma sint_uint_less: "sint x = (if uint x < 2147483648 then uint x else uint x - 4294967296)" for x :: u32
proof -
  have "sint x = (uint x + 2147483648) mod 4294967296 - 2147483648"
    by (simp add: sint_uint signed_take_bit_eq_take_bit_shift take_bit_eq_mod)
  also have "(uint x + 2147483648) mod 4294967296 =
      (if uint x + 2147483648 < 4294967296 then uint x + 2147483648
       else uint x + 2147483648 - 4294967296)"
    by (rule mod_wrap) (use uint_u32 [of x] in linarith)+
  finally show ?thesis by simp
qed

lemma neg_uint: "neg x \<longleftrightarrow> 2147483648 \<le> uint x"
  unfolding neg_sint sint_uint_less using uint_u32 [of x] by simp

lemma sint_uint_cases: "sint x = (if neg x then uint x - 4294967296 else uint x)" for x :: u32
  unfolding neg_uint sint_uint_less by simp

text \<open>Sums with a carry and differences, in integers.\<close>

lemma uint_add_carry:
  fixes s1 s2 c :: u32
  assumes "uint c \<le> 1"
  shows "uint (s1 + s2 + c) =
    (if uint s1 + uint s2 + uint c < 4294967296 then uint s1 + uint s2 + uint c
     else uint s1 + uint s2 + uint c - 4294967296)"
proof -
  have "uint (s1 + s2 + c) = (uint s1 + uint s2 + uint c) mod 4294967296"
    by (simp add: uint_word_ariths mod_simps)
  also have "\<dots> = (if uint s1 + uint s2 + uint c < 4294967296 then uint s1 + uint s2 + uint c
     else uint s1 + uint s2 + uint c - 4294967296)"
    by (rule mod_wrap) (use assms uint_u32 [of s1] uint_u32 [of s2] uint_u32 [of c] in linarith)+
  finally show ?thesis .
qed

lemma uint_sub:
  "uint (s1 - s2) = (if uint s2 \<le> uint s1 then uint s1 - uint s2 else uint s1 - uint s2 + 4294967296)"
  for s1 s2 :: u32
proof -
  have "uint (s1 - s2) = (uint s1 - uint s2 + 4294967296) mod 4294967296"
    by (simp add: uint_word_ariths)
  also have "\<dots> = (if uint s1 - uint s2 + 4294967296 < 4294967296 then uint s1 - uint s2 + 4294967296
     else uint s1 - uint s2 + 4294967296 - 4294967296)"
    by (rule mod_wrap) (use uint_u32 [of s1] uint_u32 [of s2] in linarith)+
  finally show ?thesis by auto
qed

lemma neg_and [simp]: "neg (a AND b) \<longleftrightarrow> neg a \<and> neg b"
  by (simp add: neg_def bit_simps)

lemma neg_or [simp]: "neg (a OR b) \<longleftrightarrow> neg a \<or> neg b"
  by (simp add: neg_def bit_simps)

lemmas sign_defs = add_carry_def add_overflow_def sub_overflow_def sub_carry_def both_neg_def
  both_pos_def neg_and neg_or

lemma add_carry_exact:
  assumes "uint c \<le> 1"
  shows "add_carry s1 s2 (s1 + s2 + c) \<longleftrightarrow> 4294967296 \<le> uint s1 + uint s2 + uint c"
  unfolding sign_defs unfolding neg_uint sint_uint_cases uint_add_carry [OF assms]
  using assms uint_u32 [of s1] uint_u32 [of s2] uint_u32 [of c] by presburger

lemma add_overflow_exact:
  assumes "uint c \<le> 1"
  shows "add_overflow s1 s2 (s1 + s2 + c) \<longleftrightarrow>
    sint s1 + sint s2 + uint c < -2147483648 \<or> 2147483648 \<le> sint s1 + sint s2 + uint c"
  unfolding sign_defs unfolding neg_uint sint_uint_cases uint_add_carry [OF assms]
  using assms uint_u32 [of s1] uint_u32 [of s2] uint_u32 [of c] by presburger

lemma sub_overflow_exact:
  "sub_overflow s1 s2 (s1 - s2) \<longleftrightarrow>
    sint s1 - sint s2 < -2147483648 \<or> 2147483648 \<le> sint s1 - sint s2"
  unfolding sign_defs unfolding neg_uint sint_uint_cases uint_sub using uint_u32 [of s1] uint_u32 [of s2] by presburger

lemma sub_carry_borrow:
  "(sub_carry s1 s2 (s1 - s2) \<longleftrightarrow> s1 < s2) \<longleftrightarrow>
    (if neg s1 then neg s2 \<and> s1 < s2 else neg s2 \<longrightarrow> neg (s1 - s2))"
  unfolding sign_defs unfolding neg_uint sint_uint_cases uint_sub word_less_def using uint_u32 [of s1] uint_u32 [of s2] by presburger

section \<open>Bit fields\<close>

text \<open>The width a bit field operand gives.\<close>

definition field_width :: "u32 \<Rightarrow> nat" where
  "field_width s2 = (if W5 s2 = 0 then 32 else W5 s2)"

lemma unat_and_1f: "unat (x AND 0x1f) < 32" for x :: u32
proof -
  have "unat (x AND 0x1f) \<le> unat (0x1f :: u32)"
    using word_and_le1 [of x "0x1f"] by (simp only: word_le_nat_alt)
  then show ?thesis by simp
qed

lemma O5_less [simp]: "O5 s2 < 32"
  by (simp add: O5_def unat_and_1f)

lemma W5_less [simp]: "W5 s2 < 32"
  by (simp add: W5_def unat_and_1f)

lemma bit_low_ones: "n < 32 \<Longrightarrow> bit (c_shl 1 n - 1) k \<longleftrightarrow> k < n"
  by (auto simp: c_shl_def push_bit_of_1 mask_eq_exp_minus_1 [symmetric] bit_simps)

lemma bit_field_mask:
  "bit (field_mask s2) n \<longleftrightarrow> n < 32 \<and> O5 s2 \<le> n \<and> n < O5 s2 + field_width s2"
proof (cases "W5 s2 = 0")
  case True
  have "bit (0xffffffff :: u32) k" if "k < 32" for k
  proof -
    have "(0xffffffff :: u32) = -1" by simp
    with that show ?thesis by (simp only: bit_minus_1_iff) simp
  qed
  with True show ?thesis
    by (auto simp: field_mask_def field_width_def c_shl_small bit_simps)
next
  case False
  then show ?thesis
    by (auto simp: field_mask_def field_width_def c_shl_def [of _ "O5 s2"] bit_push_bit_iff bit_low_ones)
qed

lemma bit_ext_value:
  assumes "O5 s2 + W5 s2 \<le> 32"
  shows "bit (ext_value s1 s2) n \<longleftrightarrow> n < 32 \<and> bit s1 (min (O5 s2 + min n (field_width s2 - 1)) 31)"
proof (cases "W5 s2 = 0")
  case True
  then show ?thesis
    by (auto simp: ext_value_def field_width_def c_sar_def bit_simps min_def dest: bit_imp_le_length)
next
  case False
  define l where "l = 32 - (O5 s2 + W5 s2)"
  have li: "32 - (int (O5 s2) + int (W5 s2)) = int l"
    using assms by (simp add: l_def)
  have l1: "nat (int l mod 32) = l mod 32"
    by (simp add: nat_mod_distrib)
  have l2: "nat (int (O5 s2) + int l) = 32 - W5 s2"
    using assms by (simp add: l_def)
  have "l < 32" using False by (simp add: l_def)
  with False have v: "ext_value s1 s2 = signed_drop_bit (32 - W5 s2) (push_bit l s1)"
    by (simp add: ext_value_def Let_def li l1 l2 c_sar_def c_shl_def)
  have w: "0 < W5 s2" "W5 s2 < 32" and o: "O5 s2 = 32 - l - W5 s2"
    using False assms by (simp_all add: l_def)
  show ?thesis
  proof (cases "n < W5 s2")
    case True
    then show ?thesis
      using w assms by (simp add: v bit_signed_drop_bit_iff bit_push_bit_iff field_width_def l_def min_def)
        (auto simp: algebra_simps)
  next
    case n: False
    show ?thesis
    proof (cases "n < 32")
      case True
      then show ?thesis
        using n w assms by (simp add: v bit_signed_drop_bit_iff bit_push_bit_iff field_width_def l_def min_def)
          (auto simp: algebra_simps)
    next
      case False
      then show ?thesis
        using bit_imp_le_length [of "ext_value s1 s2" n] by auto
    qed
  qed
qed

lemma bit_extu_value:
  "bit (extu_value s1 s2) n \<longleftrightarrow> n < field_width s2 \<and> bit s1 (n + O5 s2)"
  by (cases "W5 s2 = 0")
     (auto simp: extu_value_def field_width_def c_shr_def bit_simps bit_low_ones add.commute
       dest: bit_imp_le_length)

lemma bit_mak_value:
  "bit (mak_value s1 s2) n \<longleftrightarrow>
     n < 32 \<and> O5 s2 \<le> n \<and> n < O5 s2 + field_width s2 \<and> bit s1 (n - O5 s2)"
  by (cases "W5 s2 = 0")
     (auto simp: mak_value_def field_width_def c_shl_def [of _ "O5 s2"] bit_push_bit_iff
       bit_and_iff bit_low_ones)

lemma ff_loop_first:
  "n \<le> 32 \<Longrightarrow>
    (ff_loop b w n = 32 \<and> (\<forall>i < n. bit w i \<noteq> b)) \<or>
    (\<exists>k < n. ff_loop b w n = of_nat k \<and> bit w k = b \<and> (\<forall>i. k < i \<and> i < n \<longrightarrow> bit w i \<noteq> b))"
proof (induction n)
  case 0
  then show ?case by simp
next
  case (Suc n)
  have "c_shr w n AND 1 = (if b then 1 else 0) \<longleftrightarrow> bit w n = b"
    using Suc.prems by (simp add: c_shr_small and_one_eq mod_2_eq_odd bit_iff_odd_drop_bit)
  then show ?case
    using Suc by (auto simp: less_Suc_eq)
qed

lemma rot_loop_rotr: "rot_loop n w = word_rotr n w"
proof (induction n arbitrary: w)
  case 0
  show ?case by (auto intro!: bit_word_eqI simp: bit_simps)
next
  case (Suc n)
  have "c_shr w 1 OR c_shl (w AND 1) 31 = word_rotr 1 w"
  proof (rule bit_word_eqI)
    fix n assume "n < LENGTH(32)"
    then show "bit (c_shr w 1 OR c_shl (w AND 1) 31) n = bit (word_rotr 1 w) n"
      by (cases "n = 31") (auto simp: c_shr_small c_shl_small bit_simps dest: bit_imp_le_length)
  qed
  then show ?case
    using Suc by (simp add: word_rotr_word_rotr_eq)
qed

section \<open>Properties\<close>

text \<open>The result of \<open>cmp\<close> has one bit for each of the ten relations of its operands, signed
  and unsigned, and no other bit.
\<close>

theorem cmp_value_bits:
  "cmp_value s1 s2 =
     push_bit 2 (of_bool (s1 = s2)) OR push_bit 3 (of_bool (s1 \<noteq> s2)) OR
     push_bit 4 (of_bool (s2 <s s1)) OR push_bit 5 (of_bool (s1 \<le>s s2)) OR
     push_bit 6 (of_bool (s1 <s s2)) OR push_bit 7 (of_bool (s2 \<le>s s1)) OR
     push_bit 8 (of_bool (s2 < s1)) OR push_bit 9 (of_bool (s1 \<le> s2)) OR
     push_bit 10 (of_bool (s1 < s2)) OR push_bit 11 (of_bool (s2 \<le> s1))"
proof (cases "s1 = s2")
  case True
  then show ?thesis by (simp add: cmp_value_def)
next
  case False
  then have "sint s1 \<noteq> sint s2" and "uint s1 \<noteq> uint s2"
    using signed_word_eqI [of s1 s2] by (auto simp: word_uint_eq_iff)
  with False show ?thesis
    by (auto simp: cmp_value_def word_sless_alt word_sle_eq word_less_def word_le_def)
qed

text \<open>\<open>clr\<close>, \<open>set\<close>, \<open>extu\<close> and \<open>mak\<close> for every width and offset, also fields that
  extend beyond bit 31: which bit of the result comes from where.  Width 0 stands for 32.
\<close>

theorem bit_field_instructions:
  "(bit (bit_value O_clr s1 s2 d) n \<longleftrightarrow> bit s1 n \<and> \<not> (O5 s2 \<le> n \<and> n < O5 s2 + field_width s2)) \<and>
   (bit (bit_value O_set s1 s2 d) n \<longleftrightarrow>
      bit s1 n \<or> (n < 32 \<and> O5 s2 \<le> n \<and> n < O5 s2 + field_width s2)) \<and>
   (bit (bit_value O_extu s1 s2 d) n \<longleftrightarrow> n < field_width s2 \<and> bit s1 (n + O5 s2)) \<and>
   (bit (bit_value O_mak s1 s2 d) n \<longleftrightarrow>
      n < 32 \<and> O5 s2 \<le> n \<and> n < O5 s2 + field_width s2 \<and> bit s1 (n - O5 s2))"
  using bit_imp_le_length [of s1 n]
  by (auto simp: bit_and_iff bit_or_iff bit_not_iff bit_field_mask bit_extu_value bit_mak_value)

text \<open>
  \<open>ext\<close> sign-extends a field that lies inside the word: bits from the width on are copies
  of the top bit of the field.
\<close>

theorem ext_sign_extends:
  assumes "O5 s2 + W5 s2 \<le> 32"
  shows "bit (bit_value O_ext s1 s2 d) n \<longleftrightarrow>
    n < 32 \<and> bit s1 (min (O5 s2 + min n (field_width s2 - 1)) 31)"
  using bit_ext_value [OF assms] by simp

theorem ext_sign_extends_witness: "bit (bit_value O_ext 0xf00 0x88 0) 30"
  using ext_sign_extends [of "0x88" "0xf00" 0 30]
  by (simp add: O5_def W5_def field_width_def bit_simps bit_numeral_rec)

text \<open>\<open>extu\<close> undoes \<open>mak\<close> with the same operand if the field lies inside the word: what comes
  back is the low bits of the value that fit in the field.
\<close>

theorem mak_extu_roundtrip:
  assumes "O5 s2 + field_width s2 \<le> 32"
  shows "bit_value O_extu (bit_value O_mak v s2 d) s2 d' = take_bit (field_width s2) v"
  by (rule bit_word_eqI) (use assms in \<open>auto simp: bit_extu_value bit_mak_value bit_take_bit_iff\<close>)

theorem mak_extu_roundtrip_witness:
  "bit_value O_extu (bit_value O_mak 0x1ff 0x104 0) 0x104 0 = take_bit 8 0x1ff"
  using mak_extu_roundtrip [of "0x104" "0x1ff" 0 0] by (simp add: O5_def W5_def field_width_def)

text \<open>
  \<open>ff0\<close> and \<open>ff1\<close> return the number of the highest clear or set bit, 32 if there is none;
  \<open>rot\<close> rotates to the right, but the old destination and not its first operand.
\<close>

theorem find_first_and_rotate:
  "bit_value (if b then O_ff1 else O_ff0) s1 s2 d =
     (if {i. i < 32 \<and> bit s2 i = b} = {} then 32 else of_nat (Max {i. i < 32 \<and> bit s2 i = b})) \<and>
   bit_value O_rot s1 s2 d = word_rotr (O5 s2) d"
proof -
  let ?B = "{i. i < 32 \<and> bit s2 i = b}"
  consider "ff_loop b s2 32 = 32" "?B = {}"
    | k where "ff_loop b s2 32 = of_nat k" "k \<in> ?B" "\<And>i. i \<in> ?B \<Longrightarrow> i \<le> k"
    using ff_loop_first [of 32 b s2] by (auto simp: not_less [symmetric])
  then have "ff_loop b s2 32 = (if ?B = {} then 32 else of_nat (Max ?B))"
  proof cases
    case (2 k)
    then have "Max ?B = k" by (intro Max_eqI) auto
    with 2 show ?thesis by auto
  qed simp
  then show ?thesis
    by (cases b) (simp_all add: rot_loop_rotr)
qed

end
