(* ===== verification/Sim_Execute.thy ===== *)
theory Sim_Execute
  imports Sim_Decoder Sim_Mvme188 Sim_Alu
begin

text \<open>
  The handlers of \<open>sim()\<close> (\<open>sim/execute.c\<close>).  The labels that handlers jump to are the constructors of
  \<open>point\<close>; a handler returns the point at which the function goes on, its local variables (\<open>frame\<close>) and
  the new state of the machine.
\<close>

section \<open>The host\<close>

text \<open>
  What the host provides: its floating point operations on the bits of operands and results (a single
  precision number in the low word), each with a flag that says whether it raised \<open>SIGFPE\<close>; the
  addresses of decoded parts and of the registers; the contents of local variables that are not
  initialized (\<open>h_addr None\<close> for \<open>pagep\<close>, \<open>h_membrk0\<close> for \<open>membrkphys\<close>); the handlers of signals.
\<close>

record fpu =
  fp_arith :: "fpop \<Rightarrow> u64 \<Rightarrow> u64 \<Rightarrow> u64 \<times> bool"
  fp_compare :: "prec \<Rightarrow> prec \<Rightarrow> u64 \<Rightarrow> u64 \<Rightarrow> bool \<times> bool \<times> bool"   \<comment> \<open>equal, less, raised\<close>
  fp_is_zero :: "prec \<Rightarrow> u64 \<Rightarrow> bool"

record host =
  h_io :: io_fn
  h_fpu :: fpu
  h_addr :: "part option \<Rightarrow> u32"
  h_ptr :: "hostptr \<Rightarrow> u32"
  h_membrk0 :: "(nat \<times> nat) option"
  h_simdiags :: bool
  h_call :: "nat \<Rightarrow> mach \<Rightarrow> mach"

section \<open>Local variables\<close>

text \<open>
  \<open>p\<close> is null or a decoded instruction, \<open>pagep\<close> the part it should be in; \<open>load_tlb\<close> and \<open>store_tlb\<close>
  always are those of \<open>usmode\<close>; \<open>membrkphys\<close> is null or a page and an offset in it.
\<close>

record frame =
  f_p :: "(part \<times> nat) option"
  f_pagep :: "part option"
  f_pagela :: u32
  f_usmode :: nat
  f_r_delayed_p :: delayedp
  f_membrkphys :: "(nat \<times> nat) option"

datatype point =
    P_dispatch | P_after_br | P_delayed_br | P_cacc | P_gen_exception int
  | P_gen_exception_without_check int | P_interrupt | P_ss_breakpoint | P_stack_overflow
  | P_return_pt cause | P_return_with_exception cause
  | P_sim_1              \<comment> \<open>the call \<open>sim(1)\<close> of \<open>rte\<close>, then \<open>cacc\<close>\<close>
  | P_done cause

type_synonym ctl = "(point \<times> frame \<times> mach) option"

definition host_addr :: "host \<Rightarrow> (part \<times> nat) option \<Rightarrow> u32" where
  "host_addr h p = (case p of None \<Rightarrow> 0 | Some (q, i) \<Rightarrow> h_addr h (Some q) + 16 * of_nat i)"

definition IP :: "host \<Rightarrow> frame \<Rightarrow> u32" where
  "IP h f = f_pagela f + (host_addr h (f_p f) - h_addr h (f_pagep f)) div 4"

definition cur :: "frame \<Rightarrow> mach \<Rightarrow> decoded_i option" where
  "cur f m = (case f_p f of None \<Rightarrow> None | Some (q, i) \<Rightarrow> get_dec m q i)"

text \<open>A pointer as an integer, and the number of words from \<open>regs[0]\<close> to the place it points to.\<close>

fun ptr_int :: "host \<Rightarrow> hostptr \<Rightarrow> u32" where
  "ptr_int h PNull = 0"
| "ptr_int h (PVal w) = w"
| "ptr_int h (PDec q i) = h_addr h (Some q) + 16 * of_nat i"
| "ptr_int h p = h_ptr h p"

fun REGNUM :: "host \<Rightarrow> hostptr \<Rightarrow> u32" where
  "REGNUM h (PReg n) = of_nat n"
| "REGNUM h p = c_sar (ptr_int h p - h_ptr h (PReg 0)) 2"

definition or_SBR :: "u32 \<Rightarrow> mach \<Rightarrow> mach" where
  "or_SBR n m = or_cr rSBR (c_shl 1 (unat n)) m"

definition CARRY_BIT :: "mach \<Rightarrow> u32" where
  "CARRY_BIT m = drop_bit 28 (g_sfu0_regs m rPSR) AND 1"

definition put_carry :: "bool \<Rightarrow> mach \<Rightarrow> mach" where
  "put_carry c m =
     set_cr rPSR (if c then g_sfu0_regs m rPSR OR 0x10000000 else g_sfu0_regs m rPSR AND 0xefffffff) m"

section \<open>Dispatching\<close>

definition INC_D_IP :: "frame \<Rightarrow> frame" where
  "INC_D_IP f = f\<lparr>f_p := map_option (\<lambda>(q, i). (q, Suc i)) (f_p f)\<rparr>"

definition dispatch_next :: "frame \<Rightarrow> mach \<Rightarrow> ctl" where
  "dispatch_next f m =
     (if f_r_delayed_p f \<noteq> DNull then Some (P_delayed_br, f, m) else Some (P_dispatch, INC_D_IP f, m))"

text \<open>Continue at a logical address: \<open>p\<close>, \<open>pagep\<close> and \<open>pagela\<close> are set; false if it has no translation.\<close>

definition fetch :: "host \<Rightarrow> u32 \<Rightarrow> frame \<Rightarrow> mach \<Rightarrow> (bool \<times> frame \<times> mach) option" where
  "fetch h la f m =
     do {
       (d, m) \<leftarrow> l_to_d (h_io h) la (f_usmode f) True m;
       let f = f\<lparr>f_pagela := la AND NOT PAGEMASK, f_p := d\<rparr>;
       case d of None \<Rightarrow> Some (False, f, m) | Some (q, i) \<Rightarrow> Some (True, f\<lparr>f_pagep := Some q\<rparr>, m)
     }"

definition set_ip :: "u32 \<Rightarrow> mach \<Rightarrow> mach" where
  "set_ip a m = m\<lparr>g_ip := a\<rparr>"

text \<open>Go to an address; a fault leaves it in the global \<open>ip\<close>.\<close>

definition goto_address :: "host \<Rightarrow> u32 \<Rightarrow> point \<Rightarrow> frame \<Rightarrow> mach \<Rightarrow> ctl" where
  "goto_address h la pt f m =
     do {
       (ok, f, m) \<leftarrow> fetch h la f m;
       Some (if ok then (pt, f, m) else (P_cacc, f, set_ip la m))
     }"

text \<open>The same where the global \<open>ip\<close> is set first.\<close>

definition goto_ip :: "host \<Rightarrow> u32 \<Rightarrow> point \<Rightarrow> frame \<Rightarrow> mach \<Rightarrow> ctl" where
  "goto_ip h la pt f m =
     do {
       (ok, f, m) \<leftarrow> fetch h la f (set_ip la m);
       Some (if ok then pt else P_cacc, f, m)
     }"

definition TAKE_BRANCH :: "host \<Rightarrow> decoded_i \<Rightarrow> frame \<Rightarrow> mach \<Rightarrow> ctl" where
  "TAKE_BRANCH h d f m =
     (case d_s2 d of
        PDec q j \<Rightarrow> Some (P_after_br, f\<lparr>f_p := Some (q, j)\<rparr>, m)
      | PNull \<Rightarrow> goto_ip h (IP h f + ptr_int h (d_dest d)) P_after_br f m
      | _ \<Rightarrow> None)"

definition delay :: "frame \<Rightarrow> frame" where
  "delay f = f\<lparr>f_r_delayed_p := (case f_p f of None \<Rightarrow> DNull | Some (q, i) \<Rightarrow> DPart q i)\<rparr>"

definition TAKE_DELAYED_BRANCH :: "host \<Rightarrow> decoded_i \<Rightarrow> frame \<Rightarrow> mach \<Rightarrow> ctl" where
  "TAKE_DELAYED_BRANCH h d f m =
     Some (P_dispatch, INC_D_IP (delay f), m\<lparr>g_delayed_ip := IP h f + ptr_int h (d_dest d)\<rparr>)"

definition stack_bad :: "mach \<Rightarrow> bool" where
  "stack_bad m \<longleftrightarrow>
     g_sfu0_regs m rSTACKBASE \<noteq> 0 \<and> neg (g_sfu0_regs m rPSR) \<and> g_regs m 31 < g_sfu0_regs m rSTACKBASE"

definition CHECK_STACK_NEXT :: "frame \<Rightarrow> mach \<Rightarrow> ctl" where
  "CHECK_STACK_NEXT f m = (if stack_bad m then Some (P_stack_overflow, f, m) else dispatch_next f m)"

definition GEN_EXCEPTION :: "int \<Rightarrow> frame \<Rightarrow> mach \<Rightarrow> ctl" where
  "GEN_EXCEPTION ex f m = Some (P_gen_exception ex, f, m)"

section \<open>Integer instructions\<close>

text \<open>Store a result and go on.\<close>

definition DST_next :: "decoded_i \<Rightarrow> u32 \<Rightarrow> frame \<Rightarrow> mach \<Rightarrow> ctl" where
  "DST_next d v f m = do { m \<leftarrow> write_ptr m (d_dest d) v; dispatch_next f m }"

definition exec_add :: "host \<Rightarrow> addop \<Rightarrow> decoded_i \<Rightarrow> frame \<Rightarrow> mach \<Rightarrow> ctl" where
  "exec_add h op d f m =
     do {
       s1 \<leftarrow> read_ptr m (d_s1 d);
       s2 \<leftarrow> read_ptr m (d_s2 d);
       let res = s1 + s2 + (if add_carry_in op then CARRY_BIT m else 0);
       m \<leftarrow> write_ptr m (d_dest d) res;
       let m = (if add_carry_out op then put_carry (add_carry s1 s2 res) m else m);
       if add_signed op \<and> add_overflow s1 s2 res then GEN_EXCEPTION E_IOV f m
       else if op = A_add \<or> op = A_addu then CHECK_STACK_NEXT f m
       else dispatch_next f m
     }"

definition exec_sub :: "host \<Rightarrow> subop \<Rightarrow> decoded_i \<Rightarrow> frame \<Rightarrow> mach \<Rightarrow> ctl" where
  "exec_sub h op d f m =
     do {
       s1 \<leftarrow> read_ptr m (d_s1 d);
       s2 \<leftarrow> read_ptr m (d_s2 d);
       let res = (s1 - s2) + (if sub_carry_in op then CARRY_BIT m else 0);
       m \<leftarrow> write_ptr m (d_dest d) res;
       let m = (if sub_carry_out op then put_carry (sub_carry s1 s2 res) m else m);
       if sub_signed op \<and> sub_overflow s1 s2 res then GEN_EXCEPTION E_IOV f m
       else if op = B_sub \<or> op = B_subu then CHECK_STACK_NEXT f m
       else dispatch_next f m
     }"

definition exec_log :: "logop \<Rightarrow> decoded_i \<Rightarrow> frame \<Rightarrow> mach \<Rightarrow> ctl" where
  "exec_log op d f m =
     do {
       s1 \<leftarrow> read_ptr m (d_s1 d);
       s2 \<leftarrow> read_ptr m (d_s2 d);
       m \<leftarrow> write_ptr m (d_dest d) (log_value op s1 s2);
       if op = O_or then CHECK_STACK_NEXT f m else dispatch_next f m
     }"

text \<open>
  The loop of \<open>rot\<close>: the count is read from the second operand again in every iteration, so it changes
  under way if that operand is the destination.  A count is below 32, which bounds the iterations.
\<close>

fun rot_dest :: "nat \<Rightarrow> nat \<Rightarrow> decoded_i \<Rightarrow> mach \<Rightarrow> mach option" where
  "rot_dest 0 i d m = Some m"
| "rot_dest (Suc n) i d m =
     do {
       s2 \<leftarrow> read_ptr m (d_s2 d);
       if i < O5 s2 then
         do {
           w \<leftarrow> read_ptr m (d_dest d);
           m \<leftarrow> write_ptr m (d_dest d) (c_shr w 1 OR c_shl (w AND 1) 31);
           rot_dest n (Suc i) d m
         }
       else Some m
     }"

definition exec_bit :: "bitop \<Rightarrow> decoded_i \<Rightarrow> frame \<Rightarrow> mach \<Rightarrow> ctl" where
  "exec_bit op d f m =
     (if op = O_rot then do { m \<leftarrow> rot_dest 32 0 d m; dispatch_next f m }
      else do {
       s1 \<leftarrow> read_ptr m (d_s1 d);
       s2 \<leftarrow> read_ptr m (d_s2 d);
       old \<leftarrow> read_ptr m (d_dest d);
       m \<leftarrow> write_ptr m (d_dest d) (bit_value op s1 s2 old);
       if op = O_clr \<or> op = O_extu then CHECK_STACK_NEXT f m else dispatch_next f m
     })"

definition fp_precise :: "host \<Rightarrow> prec \<Rightarrow> decoded_i \<Rightarrow> frame \<Rightarrow> mach \<Rightarrow> ctl" where
  "fp_precise h dp d f m =
     (let m = or_SBR (REGNUM h (d_dest d)) m;
          m = (if dp = Dbl then or_SBR (REGNUM h (d_dest d) + 1) m else m)
      in GEN_EXCEPTION E_FP f m)"

definition SET_FP_CREGS :: "u32 \<Rightarrow> u32 \<Rightarrow> u32 \<Rightarrow> mach \<Rightarrow> mach" where
  "SET_FP_CREGS s1 s2 dreg m =
     or_SBR dreg (m\<lparr>g_sfu1_regs := (g_sfu1_regs m)(2 := s1, 4 := s2, 5 := dreg)\<rparr>)"

definition exec_int :: "host \<Rightarrow> intop \<Rightarrow> decoded_i \<Rightarrow> frame \<Rightarrow> mach \<Rightarrow> ctl" where
  "exec_int h op d f m =
     (if op \<noteq> O_cmp \<and> \<not> PSR_FP_UNIT_ON m then fp_precise h Sgl d f m
      else do {
        s1 \<leftarrow> read_ptr m (d_s1 d);
        s2 \<leftarrow> read_ptr m (d_s2 d);
        case op of
          O_cmp \<Rightarrow> DST_next d (cmp_value s1 s2) f m
        | O_div \<Rightarrow>
            if s1 <s 0 \<or> s2 \<le>s 0 then GEN_EXCEPTION E_IDE f (SET_FP_CREGS s1 s2 (REGNUM h (d_dest d)) m)
            else DST_next d (word_of_int (sint s1 div sint s2)) f m
        | O_divu \<Rightarrow>
            if s2 = 0 then GEN_EXCEPTION E_IDE f (SET_FP_CREGS s1 s2 (REGNUM h (d_dest d)) m)
            else DST_next d (s1 div s2) f m
        | O_mul \<Rightarrow> DST_next d (s1 * s2) f m
      })"

definition exec_lda :: "ldaop \<Rightarrow> decoded_i \<Rightarrow> frame \<Rightarrow> mach \<Rightarrow> ctl" where
  "exec_lda op d f m =
     do {
       s1 \<leftarrow> read_ptr m (d_s1 d);
       s2 \<leftarrow> read_ptr m (d_s2 d);
       DST_next d (s1 + push_bit (case op of A_lda_d \<Rightarrow> 3 | A_lda \<Rightarrow> 2 | A_lda_h \<Rightarrow> 1) s2) f m
     }"

section \<open>Floating point instructions\<close>

definition read_fp :: "mach \<Rightarrow> prec \<Rightarrow> hostptr \<Rightarrow> u64 option" where
  "read_fp m pr rp =
     do {
       w \<leftarrow> read_ptr m rp;
       if pr = Sgl then Some (ucast w)
       else do { w' \<leftarrow> read_ptr m (ptr_succ rp); Some (push_bit 32 (ucast w) OR ucast w') }
     }"

definition write_fp :: "mach \<Rightarrow> prec \<Rightarrow> hostptr \<Rightarrow> u64 \<Rightarrow> mach option" where
  "write_fp m pr rp v =
     (if pr = Sgl then write_ptr m rp (ucast v)
      else do {
        m \<leftarrow> write_ptr m rp (ucast (drop_bit 32 v));
        write_ptr m (ptr_succ rp) (ucast v)
      })"

text \<open>The precisions of the destination and of the operands.\<close>

fun fp_precs :: "fpop \<Rightarrow> prec \<times> prec \<times> prec" where
  "fp_precs (F_add d a b) = (d, a, b)"
| "fp_precs (F_sub d a b) = (d, a, b)"
| "fp_precs (F_mul d a b) = (d, a, b)"
| "fp_precs (F_div d a b) = (d, a, b)"
| "fp_precs (F_cmp a b) = (Sgl, a, b)"
| "fp_precs (F_flt d) = (d, Sgl, Sgl)"
| "fp_precs (F_int a) = (Sgl, a, a)"
| "fp_precs (F_nint a) = (Sgl, a, a)"
| "fp_precs (F_trnc a) = (Sgl, a, a)"

text \<open>The operands an operation reads: both, or \<open>s2\<close> only, or (\<open>nint\<close>) \<open>s1\<close> only.\<close>

fun fp_uses_s1 :: "fpop \<Rightarrow> bool" where
  "fp_uses_s1 (F_flt _) = False" | "fp_uses_s1 (F_int _) = False" | "fp_uses_s1 (F_trnc _) = False"
| "fp_uses_s1 _ = True"

fun fp_uses_s2 :: "fpop \<Rightarrow> bool" where
  "fp_uses_s2 (F_nint _) = False" | "fp_uses_s2 _ = True"

definition FCMP :: "bool \<Rightarrow> bool \<Rightarrow> u32" where
  "FCMP eq lt = (if eq then 0x6a6 else if lt then 0x66a else 0x69a)"

definition fp_imprecise :: "host \<Rightarrow> prec \<Rightarrow> decoded_i \<Rightarrow> frame \<Rightarrow> mach \<Rightarrow> ctl" where
  "fp_imprecise h dp d f m =
     (let m = m\<lparr>g_fp_exception := False\<rparr>;
          m = or_SBR (if dp = Dbl then REGNUM h (d_dest d) + 1 else REGNUM h (d_dest d)) m
      in GEN_EXCEPTION E_FPIM f m)"

fun is_fdiv :: "fpop \<Rightarrow> bool" where
  "is_fdiv (F_div _ _ _) = True" | "is_fdiv _ = False"

definition fp_result :: "fpu \<Rightarrow> fpop \<Rightarrow> u64 \<Rightarrow> u64 \<Rightarrow> u64 \<times> bool" where
  "fp_result u op a b =
     (case op of
        F_cmp p1 p2 \<Rightarrow> (let (eq, lt, raised) = fp_compare u p1 p2 a b in (ucast (FCMP eq lt), raised))
      | _ \<Rightarrow> fp_arith u op a b)"

definition exec_fp :: "host \<Rightarrow> fpop \<Rightarrow> decoded_i \<Rightarrow> frame \<Rightarrow> mach \<Rightarrow> ctl" where
  "exec_fp h op d f m =
     (let (dp, p1, p2) = fp_precs op in
      if \<not> PSR_FP_UNIT_ON m then fp_precise h dp d f m
      else do {
        a \<leftarrow> (if fp_uses_s1 op then read_fp m p1 (d_s1 d) else Some 0);
        b \<leftarrow> (if fp_uses_s2 op then read_fp m p2 (d_s2 d) else Some 0);
        if is_fdiv op \<and> fp_is_zero (h_fpu h) p2 b then GEN_EXCEPTION E_IDE f m
        else do {
          let (v, raised) = fp_result (h_fpu h) op a b;
          m \<leftarrow> write_fp (if raised then fpeint m else m) dp (d_dest d) v;
          if g_fp_exception m then fp_imprecise h dp d f m else dispatch_next f m
        }
      })"

section \<open>Memory instructions\<close>

definition macc :: "host \<Rightarrow> decoded_i \<Rightarrow> frame \<Rightarrow> mach \<Rightarrow> ctl" where
  "macc h d f m = GEN_EXCEPTION E_MA f (or_SBR (REGNUM h (d_dest d)) m)"

text \<open>
  The macros \<open>CALC_ADDR\<close> and \<open>CALC_ADDR_SCALED\<close>.  \<open>fast\<close> is what the handler does when the TLB has the
  page; otherwise \<open>l_mem_op\<close> does the whole access, with the address as it was computed.
\<close>

definition CALC_ADDR ::
  "host \<Rightarrow> bool \<Rightarrow> u32 \<Rightarrow> memop \<Rightarrow> (nat \<Rightarrow> mach \<Rightarrow> tlb) \<Rightarrow> nat \<Rightarrow> (nat \<Rightarrow> nat \<Rightarrow> ctl) \<Rightarrow> decoded_i \<Rightarrow> frame \<Rightarrow> mach \<Rightarrow> ctl"
where
  "CALC_ADDR h scaled sz mop tlb us fast d f m =
     do {
       s1 \<leftarrow> read_ptr m (d_s1 d);
       s2 \<leftarrow> read_ptr m (d_s2 d);
       let la = s1 + (if scaled then s2 * sz else s2);
       if la AND (sz - 1) \<noteq> 0 \<and> PSR_MA_CHECK_ON m then macc h d f m
       else
         let a = la AND NOT (sz - 1) in
         case tlb_entry (tlb us m) (btos a) (btop a) of
           Some pg \<Rightarrow> fast pg (unat (poff a))
         | None \<Rightarrow>
             do {
               (ex, m) \<leftarrow> l_mem_op (h_io h) la (d_dest d) sz mop us (set_ip (IP h f) m);
               if ex \<noteq> E_NONE then GEN_EXCEPTION ex f m else dispatch_next f m
             }
     }"

fun ld_size :: "ldop \<Rightarrow> u32" where
  "ld_size L_d = DWORD" | "ld_size L_w = WORD" | "ld_size L_h = HALF" | "ld_size L_b = BYTE"
| "ld_size L_hu = HALF" | "ld_size L_bu = BYTE"

definition ld_mop :: "ldop \<Rightarrow> memop" where
  "ld_mop op = (if op = L_hu \<or> op = L_bu then LD_U else LD)"

definition fast_ld :: "ldop \<Rightarrow> bool \<Rightarrow> decoded_i \<Rightarrow> frame \<Rightarrow> mach \<Rightarrow> nat \<Rightarrow> nat \<Rightarrow> ctl" where
  "fast_ld op check d f m pg off =
     (if op = L_d then
        do {
          v \<leftarrow> mem_load m (BPage pg) off WORD True;
          m \<leftarrow> write_ptr m (d_dest d) v;
          v \<leftarrow> mem_load m (BPage pg) (off + 4) WORD True;
          m \<leftarrow> write_ptr m (ptr_succ (d_dest d)) v;
          dispatch_next f (zero_r0 m)
        }
      else
        do {
          v \<leftarrow> mem_load m (BPage pg) off (ld_size op) (ld_mop op = LD);
          m \<leftarrow> write_ptr m (d_dest d) v;
          if check then CHECK_STACK_NEXT f m else dispatch_next f m
        })"

definition exec_ld :: "host \<Rightarrow> ldop \<Rightarrow> bool \<Rightarrow> bool \<Rightarrow> decoded_i \<Rightarrow> frame \<Rightarrow> mach \<Rightarrow> ctl" where
  "exec_ld h op usr scaled d f m =
     (if usr \<and> f_usmode f = M_USER then GEN_EXCEPTION E_PRV f m
      else CALC_ADDR h scaled (ld_size op) (ld_mop op) load_tlb (if usr then M_USER else f_usmode f)
             (fast_ld op (op = L_w \<and> \<not> usr \<and> \<not> scaled) d f m) d f m)"

text \<open>Whether an access of \<open>n\<close> bytes at \<open>off\<close> touches the word at the memory breakpoint.\<close>

definition hits_membrk :: "frame \<Rightarrow> nat \<Rightarrow> nat \<Rightarrow> nat \<Rightarrow> bool" where
  "hits_membrk f pg off n =
     (case f_membrkphys f of
        None \<Rightarrow> False
      | Some (bpg, boff) \<Rightarrow> pg = bpg \<and> off \<le> boff + 3 \<and> boff \<le> off + (n - 1))"

definition membrk_next :: "nat \<Rightarrow> nat \<Rightarrow> nat \<Rightarrow> frame \<Rightarrow> mach \<Rightarrow> ctl" where
  "membrk_next pg off n f m =
     (if hits_membrk f pg off n then Some (P_return_pt BREAKPOINT, f, m) else dispatch_next f m)"

fun st_size :: "stop \<Rightarrow> u32" where
  "st_size S_d = DWORD" | "st_size S_w = WORD" | "st_size S_h = HALF" | "st_size S_b = BYTE"

text \<open>\<open>st_usr_sc\<close> stores a second word, as the double word stores do.\<close>

definition st_second :: "stop \<Rightarrow> bool \<Rightarrow> bool \<Rightarrow> bool" where
  "st_second op usr scaled \<longleftrightarrow> op = S_d \<or> (op = S_w \<and> usr \<and> scaled)"

definition fast_st :: "stop \<Rightarrow> bool \<Rightarrow> decoded_i \<Rightarrow> frame \<Rightarrow> mach \<Rightarrow> nat \<Rightarrow> nat \<Rightarrow> ctl" where
  "fast_st op second d f m pg off =
     do {
       v \<leftarrow> read_ptr m (d_dest d);
       m \<leftarrow> mem_store m (BPage pg) off (if op = S_d then WORD else st_size op) v;
       m \<leftarrow> (if second then
               do { v \<leftarrow> read_ptr m (ptr_succ (d_dest d)); mem_store m (BPage pg) (off + 4) WORD v }
             else Some m);
       membrk_next pg off (unat (st_size op)) f m
     }"

definition exec_st :: "host \<Rightarrow> stop \<Rightarrow> bool \<Rightarrow> bool \<Rightarrow> decoded_i \<Rightarrow> frame \<Rightarrow> mach \<Rightarrow> ctl" where
  "exec_st h op usr scaled d f m =
     (if usr \<and> f_usmode f = M_USER then GEN_EXCEPTION E_PRV f m
      else CALC_ADDR h scaled (st_size op) ST store_tlb (if usr then M_USER else f_usmode f)
             (fast_st op (st_second op usr scaled) d f m) d f m)"

text \<open>The exchange of a byte addresses the first byte of a word.\<close>

definition xm_size :: "xmop \<Rightarrow> u32" where
  "xm_size op = (case op of X_w \<Rightarrow> WORD | X_bu \<Rightarrow> BYTE)"

definition fast_xmem :: "xmop \<Rightarrow> decoded_i \<Rightarrow> frame \<Rightarrow> mach \<Rightarrow> nat \<Rightarrow> nat \<Rightarrow> ctl" where
  "fast_xmem op d f m pg off =
     do {
       i \<leftarrow> mem_load m (BPage pg) off (xm_size op) False;
       v \<leftarrow> read_ptr m (d_dest d);
       m \<leftarrow> mem_store m (BPage pg) off (xm_size op) v;
       m \<leftarrow> write_ptr m (d_dest d) i;
       membrk_next pg off (unat (xm_size op)) f (set_reg 0 0 m)
     }"

definition exec_xmem :: "host \<Rightarrow> xmop \<Rightarrow> bool \<Rightarrow> bool \<Rightarrow> decoded_i \<Rightarrow> frame \<Rightarrow> mach \<Rightarrow> ctl" where
  "exec_xmem h op usr scaled d f m =
     (if usr \<and> f_usmode f = M_USER then GEN_EXCEPTION E_PRV f m
      else CALC_ADDR h scaled WORD XMEM store_tlb (if usr then M_USER else f_usmode f)
             (fast_xmem op d f m) d f m)"

end
