(* ===== verification/Sim_Run.thy ===== *)
theory Sim_Run
  imports Sim_Execute
begin

text \<open>
  The function \<open>sim()\<close> (\<open>sim/execute.c\<close>): control transfer, traps and control registers, exceptions and
  their return, and the loop that dispatches decoded instructions.
\<close>

section \<open>Control registers\<close>

definition SET_US_MODE :: "frame \<Rightarrow> mach \<Rightarrow> frame" where
  "SET_US_MODE f m = f\<lparr>f_usmode := PSR_US_MODE m\<rparr>"

definition exec_ldcr :: "bool \<Rightarrow> decoded_i \<Rightarrow> frame \<Rightarrow> mach \<Rightarrow> ctl" where
  "exec_ldcr priv d f m =
     (if priv \<and> f_usmode f = M_USER then GEN_EXCEPTION E_PRV f m
      else
        let m = load_shadow_regs (g_ip m) (g_delayed_ip m) m in
        do {
          v \<leftarrow> read_ptr m (d_s1 d);
          m \<leftarrow> write_ptr m (d_dest d) v;
          if priv then CHECK_STACK_NEXT f m else dispatch_next f m
        })"

definition exec_stcr :: "bool \<Rightarrow> decoded_i \<Rightarrow> frame \<Rightarrow> mach \<Rightarrow> ctl" where
  "exec_stcr priv d f m =
     (if priv \<and> f_usmode f = M_USER then GEN_EXCEPTION E_PRV f m
      else
        do {
          v \<leftarrow> read_ptr m (d_s1 d);
          m \<leftarrow> write_ptr m (d_dest d) v;
          let m = fixup_control_regs m;
          if priv then (let m = check_for_interrupt m in dispatch_next (SET_US_MODE f m) m)
          else dispatch_next f m
        })"

definition exec_xcr :: "bool \<Rightarrow> decoded_i \<Rightarrow> frame \<Rightarrow> mach \<Rightarrow> ctl" where
  "exec_xcr priv d f m =
     (if priv \<and> f_usmode f = M_USER then GEN_EXCEPTION E_PRV f m
      else
        let m = (if priv then load_shadow_regs (g_ip m) (g_delayed_ip m) m else m) in
        do {
          i \<leftarrow> read_ptr m (d_s1 d);
          v \<leftarrow> read_ptr m (d_s2 d);
          m \<leftarrow> write_ptr m (d_dest d) v;
          m \<leftarrow> write_ptr m (d_s2 d) i;
          let m = fixup_control_regs m;
          if priv then
            (let m = set_reg 0 0 (check_for_interrupt m) in dispatch_next (SET_US_MODE f m) m)
          else dispatch_next f (set_reg 0 0 m)
        })"

definition exec_cr :: "crop \<Rightarrow> decoded_i \<Rightarrow> frame \<Rightarrow> mach \<Rightarrow> ctl" where
  "exec_cr op d f m =
     (case op of
        C_ldcr \<Rightarrow> exec_ldcr True d f m | C_uldcr \<Rightarrow> exec_ldcr False d f m
      | C_stcr \<Rightarrow> exec_stcr True d f m | C_ustcr \<Rightarrow> exec_stcr False d f m
      | C_xcr \<Rightarrow> exec_xcr True d f m | C_uxcr \<Rightarrow> exec_xcr False d f m)"

section \<open>Jumps and branches\<close>

definition set_comefrom :: "u32 \<Rightarrow> mach \<Rightarrow> mach" where
  "set_comefrom a m = m\<lparr>g_comefrom := a\<rparr>"

text \<open>A jump to a target that is not on the page of the jump sets \<open>ip\<close> only if it faults.\<close>

definition exec_jmp :: "host \<Rightarrow> decoded_i \<Rightarrow> frame \<Rightarrow> mach \<Rightarrow> ctl" where
  "exec_jmp h d f m =
     do {
       v \<leftarrow> read_ptr m (d_dest d);
       let dst = v AND NOT 3;
       let m = set_comefrom (IP h f) m;
       if dst AND NOT PAGEMASK = f_pagela f then
         (case f_pagep f of
            None \<Rightarrow> None
          | Some q \<Rightarrow> Some (P_after_br, f\<lparr>f_p := Some (q, unat (poff dst) div 4)\<rparr>, m))
       else goto_address h dst P_after_br f m
     }"

definition exec_jmp_n :: "host \<Rightarrow> decoded_i \<Rightarrow> frame \<Rightarrow> mach \<Rightarrow> ctl" where
  "exec_jmp_n h d f m =
     do {
       v \<leftarrow> read_ptr m (d_dest d);
       Some (P_dispatch, INC_D_IP (delay f), (set_comefrom (IP h f) m)\<lparr>g_delayed_ip := v AND NOT 3\<rparr>)
     }"

text \<open>
  The on-page target of \<open>jsr\<close> is found by adding to \<open>p\<close> four times the distance from the current \<open>ip\<close>; a
  result outside the part, or not a multiple of the size of an element, is not a decoded instruction.
\<close>

definition move_p :: "u32 \<Rightarrow> frame \<Rightarrow> frame option" where
  "move_p dist f =
     (case f_p f of
        None \<Rightarrow> None
      | Some (q, i) \<Rightarrow>
          let j = int i + sint dist div 4 in
          if dist AND 3 \<noteq> 0 \<or> j < 0 then None else Some (f\<lparr>f_p := Some (q, nat j)\<rparr>))"

definition exec_jsr :: "host \<Rightarrow> decoded_i \<Rightarrow> frame \<Rightarrow> mach \<Rightarrow> ctl" where
  "exec_jsr h d f m =
     do {
       v \<leftarrow> read_ptr m (d_dest d);
       let dst = v AND NOT 3;
       let curip = IP h f;
       let m = set_reg 1 (curip + 4) (set_comefrom curip m);
       if dst AND NOT PAGEMASK = f_pagela f then
         do { f \<leftarrow> move_p (dst - curip) f; Some (P_after_br, f, m) }
       else goto_address h dst P_after_br f m
     }"

definition exec_jsr_n :: "host \<Rightarrow> decoded_i \<Rightarrow> frame \<Rightarrow> mach \<Rightarrow> ctl" where
  "exec_jsr_n h d f m =
     do {
       v \<leftarrow> read_ptr m (d_dest d);
       Some (P_dispatch, INC_D_IP (delay f),
         set_reg 1 (IP h f + 8) ((set_comefrom (IP h f) m)\<lparr>g_delayed_ip := v AND NOT 3\<rparr>))
     }"

definition exec_jump :: "host \<Rightarrow> jmpop \<Rightarrow> decoded_i \<Rightarrow> frame \<Rightarrow> mach \<Rightarrow> ctl" where
  "exec_jump h op d f m =
     (case op of J_jmp \<Rightarrow> exec_jmp h d f m | J_jmp_n \<Rightarrow> exec_jmp_n h d f m
        | J_jsr \<Rightarrow> exec_jsr h d f m | J_jsr_n \<Rightarrow> exec_jsr_n h d f m)"

definition branch :: "host \<Rightarrow> bool \<Rightarrow> bool \<Rightarrow> decoded_i \<Rightarrow> frame \<Rightarrow> mach \<Rightarrow> ctl" where
  "branch h taken delayed d f m =
     (if taken then (if delayed then TAKE_DELAYED_BRANCH h d f m else TAKE_BRANCH h d f m)
      else dispatch_next f m)"

definition exec_bcnd :: "host \<Rightarrow> bcond \<Rightarrow> bool \<Rightarrow> decoded_i \<Rightarrow> frame \<Rightarrow> mach \<Rightarrow> ctl" where
  "exec_bcnd h c delayed d f m =
     (if c = BC_always then branch h True delayed d f m
      else do { w \<leftarrow> read_ptr m (d_s1 d); branch h (bcond_holds c w) delayed d f m })"

definition exec_bb :: "host \<Rightarrow> bbop \<Rightarrow> nat \<Rightarrow> decoded_i \<Rightarrow> frame \<Rightarrow> mach \<Rightarrow> ctl" where
  "exec_bb h op n d f m =
     do {
       w \<leftarrow> read_ptr m (d_s1 d);
       let set = (w AND c_shl 1 n \<noteq> 0);
       case op of
         R_bb0 \<Rightarrow> branch h (\<not> set) False d f m
       | R_bb1 \<Rightarrow> branch h set False d f m
       | R_bb0_n \<Rightarrow> branch h (\<not> set) True d f m
       | R_bb1_n \<Rightarrow> branch h set True d f m
     }"

definition exec_br :: "host \<Rightarrow> brop \<Rightarrow> decoded_i \<Rightarrow> frame \<Rightarrow> mach \<Rightarrow> ctl" where
  "exec_br h op d f m =
     (case op of
        R_br \<Rightarrow> TAKE_BRANCH h d f m
      | R_br_n \<Rightarrow> TAKE_DELAYED_BRANCH h d f m
      | R_bsr \<Rightarrow> TAKE_BRANCH h d f (set_reg 1 (IP h f + 4) m)
      | R_bsr_n \<Rightarrow> TAKE_DELAYED_BRANCH h d f (set_reg 1 (IP h f + 8) m))"

text \<open>The second half of a delayed branch.\<close>

definition delayed_s2 :: "delayedp \<Rightarrow> mach \<Rightarrow> hostptr option" where
  "delayed_s2 r m =
     (case r of DPart q i \<Rightarrow> map_option d_s2 (get_dec m q i) | DRte \<Rightarrow> Some PNull | DNull \<Rightarrow> None)"

definition delayed_br :: "host \<Rightarrow> frame \<Rightarrow> mach \<Rightarrow> ctl" where
  "delayed_br h f m =
     do {
       s2 \<leftarrow> delayed_s2 (f_r_delayed_p f) m;
       let f = f\<lparr>f_r_delayed_p := DNull\<rparr>;
       case s2 of
         PDec q j \<Rightarrow> Some (P_after_br, f\<lparr>f_p := Some (q, j)\<rparr>, m)
       | PNull \<Rightarrow> goto_address h (g_delayed_ip m) P_after_br f m
       | _ \<Rightarrow> None
     }"

section \<open>Traps\<close>

abbreviation (input) TR_BPT :: u32 where "TR_BPT \<equiv> 254"

definition trap :: "u32 \<Rightarrow> frame \<Rightarrow> mach \<Rightarrow> ctl" where
  "trap vec f m =
     (if f_usmode f = M_USER \<and> vec <s 128 then GEN_EXCEPTION E_PRV f m
      else GEN_EXCEPTION (sint vec) f m)"

definition exec_trap :: "host \<Rightarrow> trapop \<Rightarrow> decoded_i \<Rightarrow> frame \<Rightarrow> mach \<Rightarrow> ctl" where
  "exec_trap h op d f m =
     do {
       s1 \<leftarrow> read_ptr m (d_s1 d);
       case op of
         T_tb0 \<Rightarrow>
           if g_sfu0_regs m rSBR \<noteq> 0 then Some (P_return_pt HOSED, f, m)
           else if s1 AND ptr_int h (d_dest d) = 0 then
             (if ptr_int h (d_s2 d) = TR_BPT then Some (P_return_pt BREAKPOINT, f, m)
              else trap (ptr_int h (d_s2 d)) f m)
           else dispatch_next f m
       | T_tb1 \<Rightarrow>
           if g_sfu0_regs m rSBR \<noteq> 0 then Some (P_return_pt HOSED, f, m)
           else if s1 AND ptr_int h (d_dest d) = 1 then trap (ptr_int h (d_s2 d)) f m
           else dispatch_next f m
       | T_tbnd \<Rightarrow>
           do {
             s2 \<leftarrow> read_ptr m (d_s2 d);
             if s1 > s2 then GEN_EXCEPTION E_BND f m else dispatch_next f m
           }
       | T_tcnd \<Rightarrow>
           if bit (ptr_int h (d_dest d)) (cc_index s1) then trap (ptr_int h (d_s2 d)) f m
           else dispatch_next f m
     }"

section \<open>Return from exception\<close>

text \<open>
  The parts of \<open>rte\<close>: what it does to the registers, and where it goes on.  The test of the code for
  both low bits of \<open>SNIP\<close> is \<open>SNIP & 3 == 3\<close>, which is \<open>SNIP & 1\<close>.
\<close>

definition rte_restore :: "host \<Rightarrow> frame \<Rightarrow> mach \<Rightarrow> frame \<times> mach" where
  "rte_restore h f m =
     (let m = set_comefrom (IP h f) m;
          m = set_cr rSBR (g_sfu0_regs m rSSBR) m;
          m = set_cr rPSR ((g_sfu0_regs m rTPSR OR 0x3f0) AND 0xf800e3ff) m
      in (f\<lparr>f_r_delayed_p := DNull\<rparr>, m))"

definition rte_resume :: "host \<Rightarrow> bool \<Rightarrow> u32 \<Rightarrow> frame \<Rightarrow> mach \<Rightarrow> ctl" where
  "rte_resume h ss ip f m =
     do {
       (pt, f, m) \<leftarrow> goto_ip h ip P_after_br (SET_US_MODE f m) m;
       Some (if pt = P_after_br \<and> ss then P_return_pt NONE else pt, f, m)
     }"

definition rte_continue :: "host \<Rightarrow> bool \<Rightarrow> frame \<Rightarrow> mach \<Rightarrow> ctl" where
  "rte_continue h ss f m =
     (let snip = g_sfu0_regs m rSNIP; sfip = g_sfu0_regs m rSFIP in
      if snip AND 1 \<noteq> 0 then Some (P_cacc, f, set_ip (snip AND NOT 3) m)
      else if snip AND 2 \<noteq> 0 then
        let ip = snip AND NOT 3; m = set_ip ip m in
        if sfip AND 3 = 3 then Some (P_sim_1, f, m)
        else if sfip AND 2 \<noteq> 0 \<and> sfip AND NOT 3 \<noteq> ip + 4 then
          rte_resume h ss ip (f\<lparr>f_r_delayed_p := DRte\<rparr>) (m\<lparr>g_delayed_ip := sfip AND NOT 3\<rparr>)
        else rte_resume h ss ip f m
      else if sfip AND 2 \<noteq> 0 then
        let ip = sfip AND NOT 3; m = set_ip ip m in
        if sfip AND 1 \<noteq> 0 then Some (P_cacc, f, m) else rte_resume h ss ip f m
      else Some (P_return_pt HOSED, f, set_ip ((sfip AND NOT 3) + 4) m))"

definition exec_rte :: "host \<Rightarrow> bool \<Rightarrow> frame \<Rightarrow> mach \<Rightarrow> ctl" where
  "exec_rte h ss f m =
     (if f_usmode f = M_USER then GEN_EXCEPTION E_PRV f m
      else if g_sfu0_regs m rPSR AND 1 = 0 then Some (P_return_pt HOSED, f, m)
      else if g_sfu0_regs m rTPSR AND 1 = 1 \<and> \<not> h_simdiags h then Some (P_return_pt HOSED, f, m)
      else let (f, m) = rte_restore h f m in rte_continue h ss f m)"

section \<open>Dispatching an instruction\<close>

definition exec_end_of_page :: "host \<Rightarrow> frame \<Rightarrow> mach \<Rightarrow> ctl" where
  "exec_end_of_page h f m = goto_ip h (IP h f) P_dispatch f m"

text \<open>A code access fault while decoding is raised with the \<open>ip\<close> left by an earlier instruction.\<close>

definition exec_not_decoded :: "host \<Rightarrow> frame \<Rightarrow> mach \<Rightarrow> ctl" where
  "exec_not_decoded h f m =
     (case f_p f of
        None \<Rightarrow> None
      | Some (q, i) \<Rightarrow>
          do {
            (fault, m) \<leftarrow> decode (h_io h) q i (IP h f) (f_usmode f) m;
            Some (if fault then P_cacc else P_dispatch, f, m)
          })"

definition exec_handler :: "host \<Rightarrow> bool \<Rightarrow> decoded_i \<Rightarrow> frame \<Rightarrow> mach \<Rightarrow> ctl" where
  "exec_handler h ss d f m =
     (case d_norm_e_addr d of
        H_end_of_page \<Rightarrow> exec_end_of_page h f m
      | H_not_decoded \<Rightarrow> exec_not_decoded h f m
      | H_opc_exception \<Rightarrow> GEN_EXCEPTION E_OPC f m
      | H_ss_breakpoint \<Rightarrow> Some (P_ss_breakpoint, f, m)
      | H_add op \<Rightarrow> exec_add h op d f m
      | H_sub op \<Rightarrow> exec_sub h op d f m
      | H_log op \<Rightarrow> exec_log op d f m
      | H_bit op \<Rightarrow> exec_bit op d f m
      | H_int op \<Rightarrow> exec_int h op d f m
      | H_fp op \<Rightarrow> exec_fp h op d f m
      | H_jump op \<Rightarrow> exec_jump h op d f m
      | H_ld op usr scaled \<Rightarrow> exec_ld h op usr scaled d f m
      | H_st op usr scaled \<Rightarrow> exec_st h op usr scaled d f m
      | H_xmem op usr scaled \<Rightarrow> exec_xmem h op usr scaled d f m
      | H_lda op \<Rightarrow> exec_lda op d f m
      | H_cr op \<Rightarrow> exec_cr op d f m
      | H_trap op \<Rightarrow> exec_trap h op d f m
      | H_rte \<Rightarrow> exec_rte h ss f m
      | H_bcnd c delayed \<Rightarrow> exec_bcnd h c delayed d f m
      | H_noop \<Rightarrow> dispatch_next f m
      | H_br op \<Rightarrow> exec_br h op d f m
      | H_bb op n \<Rightarrow> exec_bb h op n d f m)"

section \<open>Exceptions\<close>

definition catch_index :: "int \<Rightarrow> nat \<Rightarrow> nat" where
  "catch_index ex usmode = nat ex + (if usmode = M_USER then 512 else 0)"

text \<open>The label \<open>gen_exception\<close>, with the value of \<open>IP\<close>.\<close>

definition gen_exception :: "int \<Rightarrow> u32 \<Rightarrow> frame \<Rightarrow> mach \<Rightarrow> ctl" where
  "gen_exception ex ip f m =
     (let ip = (if ex = E_INT then ip - 4 else ip);
          m = set_cr rSNIP (ip OR 2) (set_ip ip m);
          m = (if g_delayed_p m \<noteq> DNull
               then (set_cr rSFIP (g_delayed_ip m OR 2) m)\<lparr>g_delayed_p := DNull\<rparr>
               else set_cr rSFIP ((ip + 4) OR 2) m)
      in if g_sim_catch_exception m (catch_index ex (f_usmode f)) then
           Some (P_return_with_exception CAUGHT_EXCEPTION, f, m\<lparr>g_sim_exception := ex\<rparr>)
         else Some (P_gen_exception_without_check ex, f, m))"

text \<open>The registers an exception sets, and its vector.\<close>

definition exception_registers :: "int \<Rightarrow> frame \<Rightarrow> mach \<Rightarrow> frame \<times> mach" where
  "exception_registers ex f m =
     (let m = (if ex \<noteq> E_DACC \<and> g_sfu0_regs m rPSR AND 1 = 0
               then set_cr rDMT0 0 (set_cr rDMT1 0 (set_cr rDMT2 0 m)) else m);
          m = m\<lparr>g_sim_exception := E_NONE\<rparr>;
          m = set_cr rTPSR ((g_sfu0_regs m rPSR OR 0x3f0) AND 0xf800e3ff) m;
          m = set_cr rSSBR (g_sfu0_regs m rSBR) m;
          m = set_cr rSBR 0 m;
          m = set_cr rPSR (g_sfu0_regs m rPSR OR 0x800003fb) m;
          m = set_cr rSXIP (if ex = E_CACC then g_ip m OR 3 else g_ip m OR 2) m;
          target = (if f_r_delayed_p f \<noteq> DNull then g_delayed_ip m else g_ip m + 4);
          m = set_cr rSNIP (target OR 2) m;
          m = set_cr rSFIP ((target + 4) OR 2) m
      in (f\<lparr>f_r_delayed_p := DNull\<rparr>, m))"

text \<open>Marking the next instruction pointer if it has no translation, and entering the handler.\<close>

definition enter_vector :: "host \<Rightarrow> bool \<Rightarrow> int \<Rightarrow> frame \<Rightarrow> mach \<Rightarrow> ctl" where
  "enter_vector h ss ex f m =
     do {
       (d, m) \<leftarrow> l_to_d (h_io h) (g_sfu0_regs m rSNIP AND NOT 3) (f_usmode f) False m;
       let m = (if d = None then or_cr rSNIP 1 m else m);
       let m = set_cr rSSBR 0 m;
       let f = f\<lparr>f_usmode := M_SUPERVISOR\<rparr>;
       let ip = g_sfu0_regs m rVBR + word_of_int (ex * 8);
       (ok, f, m) \<leftarrow> fetch h ip f (set_ip ip m);
       if \<not> ok then Some (P_return_pt HOSED, f, m)
       else if ss then Some (P_return_pt NONE, f, m)
       else do {
         m \<leftarrow> (if g_tracing m \<noteq> 0 then insert_ss_breakpoint (h_io h) ip M_SUPERVISOR m else Some m);
         Some (P_dispatch, f, m)
       }
     }"

definition gen_exception_without_check :: "host \<Rightarrow> bool \<Rightarrow> int \<Rightarrow> frame \<Rightarrow> mach \<Rightarrow> ctl" where
  "gen_exception_without_check h ss ex f m =
     (let frozen = (g_sfu0_regs m rPSR AND 1 \<noteq> 0); ex = (if frozen then E_ERR else ex) in
      if frozen \<and> g_sim_catch_exception m (catch_index E_ERR (f_usmode f)) then
        Some (P_return_with_exception CAUGHT_EXCEPTION, f, m\<lparr>g_sim_exception := E_ERR\<rparr>)
      else let (f, m) = exception_registers ex f m in enter_vector h ss ex f m)"

section \<open>Interrupts and the return to the front end\<close>

definition clear_flag :: "u32 \<Rightarrow> mach \<Rightarrow> mach" where
  "clear_flag b m = m\<lparr>g_sim_interrupt_flag := g_sim_interrupt_flag m AND NOT b\<rparr>"

definition interrupt_label :: "host \<Rightarrow> frame \<Rightarrow> mach \<Rightarrow> ctl" where
  "interrupt_label h f m =
     (let fl = g_sim_interrupt_flag m in
      if fl AND INT_SINGLESTEP \<noteq> 0 then Some (P_ss_breakpoint, f, clear_flag INT_SINGLESTEP m)
      else if fl AND INT_SIGNAL \<noteq> 0 then
        do { m \<leftarrow> callhandlers (h_call h) [0..<NSIG] (clear_flag INT_SIGNAL m); Some (P_after_br, f, m) }
      else if fl AND INT_FRONT_END \<noteq> 0 then Some (P_return_pt INTERRUPT, f, clear_flag INT_FRONT_END m)
      else if fl AND INT_INTERNAL \<noteq> 0 then Some (P_return_pt INTERRUPT, f, clear_flag INT_INTERNAL m)
      else if fl AND INT_DEVICE \<noteq> 0 then
        (let m = clear_flag INT_DEVICE m in
         if PSR_INT_ENABLED m then GEN_EXCEPTION E_INT f m else Some (P_after_br, f, m))
      else if fl AND INT_RESET \<noteq> 0 then GEN_EXCEPTION E_RST f (clear_flag INT_RESET m)
      else if fl AND INT_MPSWITCH \<noteq> 0 then Some (P_return_pt MPSWITCH, f, clear_flag INT_MPSWITCH m)
      else Some (P_return_pt HOSED, f, m\<lparr>g_sim_interrupt_flag := 0\<rparr>))"

definition ss_breakpoint :: "host \<Rightarrow> bool \<Rightarrow> frame \<Rightarrow> mach \<Rightarrow> ctl" where
  "ss_breakpoint h ss f m =
     (case f_p f of
        None \<Rightarrow> None
      | Some p \<Rightarrow>
          do {
            m \<leftarrow> set_handler H_not_decoded (Some p) m;
            if ss then Some (P_return_pt NONE, f, m)
            else do {
              m \<leftarrow> (if g_tracing m \<noteq> 0 then insert_ss_breakpoint (h_io h) (IP h f) (f_usmode f) m else Some m);
              Some (P_dispatch, f, m)
            }
          })"

definition return_pt :: "host \<Rightarrow> bool \<Rightarrow> cause \<Rightarrow> frame \<Rightarrow> mach \<Rightarrow> ctl" where
  "return_pt h ss cause f m =
     (let ip = IP h f; m = set_ip ip m;
          m = (if g_sfu0_regs m rPSR AND 1 = 0 then
                 (let m = set_cr rTPSR (g_sfu0_regs m rPSR) (set_cr rSNIP (ip OR 2) m)
                  in if g_delayed_p m \<noteq> DNull then set_cr rSFIP (g_delayed_ip m OR 2) m
                     else set_cr rSFIP ((ip + 4) OR 2) m)
               else m);
          m = (if ss then clear_flag INT_SINGLESTEP m else m)
      in if ss \<and> cause \<noteq> HOSED \<and> stack_bad m then Some (P_stack_overflow, f, m)
         else Some (P_return_with_exception cause, f, m))"

definition return_with_exception :: "host \<Rightarrow> cause \<Rightarrow> frame \<Rightarrow> mach \<Rightarrow> ctl" where
  "return_with_exception h cause f m =
     do {
       m \<leftarrow> callhandlers (h_call h) [0..<NSIG] m;
       let m = m\<lparr>g_sim_in_execution := False\<rparr>;
       let m = (if g_single_step_command m then m else HoldOscillator m);
       Some (P_done cause, f, m\<lparr>g_delayed_p := f_r_delayed_p f\<rparr>)
     }"

section \<open>The function sim\<close>

text \<open>One transfer of control.  \<open>P_sim_1\<close> and \<open>P_done\<close> are left to \<open>run\<close>.\<close>

fun step :: "host \<Rightarrow> bool \<Rightarrow> point \<Rightarrow> frame \<Rightarrow> mach \<Rightarrow> ctl" where
  "step h ss P_dispatch f m = do { d \<leftarrow> cur f m; exec_handler h ss d f m }"
| "step h ss P_after_br f m =
     Some (if g_sim_interrupt_flag m \<noteq> 0 then P_interrupt else P_dispatch, f, m)"
| "step h ss P_delayed_br f m = delayed_br h f m"
| "step h ss P_cacc f m =
     gen_exception E_CACC (g_ip m) (f\<lparr>f_pagela := g_ip m AND NOT PAGEMASK\<rparr>) m"
| "step h ss (P_gen_exception ex) f m = gen_exception ex (IP h f) f m"
| "step h ss (P_gen_exception_without_check ex) f m = gen_exception_without_check h ss ex f m"
| "step h ss P_interrupt f m = interrupt_label h f m"
| "step h ss P_ss_breakpoint f m = ss_breakpoint h ss f m"
| "step h ss P_stack_overflow f m = Some (P_return_pt HOSED, f, m)"
| "step h ss (P_return_pt c) f m = return_pt h ss c f m"
| "step h ss (P_return_with_exception c) f m = return_with_exception h c f m"
| "step h ss P_sim_1 f m = Some (P_cacc, f, m)"
| "step h ss (P_done c) f m = Some (P_done c, f, m)"

text \<open>The memory breakpoint: its page is allocated, so that it has an address.\<close>

definition set_membrk :: "host \<Rightarrow> mach \<Rightarrow> (nat \<times> nat) option \<times> mach" where
  "set_membrk h m =
     (let b = g_membrk m in
      if b = 0 then (None, m)
      else if g_memory_size m \<le> b then (h_membrk0 h, m)
      else let n = unat (drop_bit 12 b) in (Some (n, unat (poff b)), touch_page n m))"

text \<open>The start of \<open>sim\<close>, up to the first dispatch.\<close>

definition sim_start :: "host \<Rightarrow> bool \<Rightarrow> frame \<Rightarrow> mach \<Rightarrow> ctl" where
  "sim_start h ss f m =
     do {
       m \<leftarrow> (if ss \<or> g_tracing m \<noteq> 0 then insert_ss_breakpoint (h_io h) (g_ip m) (f_usmode f) m else Some m);
       let m = m\<lparr>g_single_step_command := ss\<rparr>;
       let m = (if ss then m else ReleaseOscillator m);
       if g_sim_interrupt_flag m AND INT_DEVICE \<noteq> 0 \<and> PSR_INT_ENABLED m then GEN_EXCEPTION E_INT f m
       else Some (P_dispatch, f, m)
     }"

definition sim_entry :: "host \<Rightarrow> bool \<Rightarrow> mach \<Rightarrow> ctl" where
  "sim_entry h ss m =
     (let (mb, m) = set_membrk h m;
          f = \<lparr>f_p = None, f_pagep = None, f_pagela = g_ip m AND NOT PAGEMASK, f_usmode = PSR_US_MODE m,
               f_r_delayed_p = g_delayed_p m, f_membrkphys = mb\<rparr>;
          m = m\<lparr>g_sim_in_execution := True\<rparr>
      in if g_sim_exception m \<noteq> E_NONE then Some (P_gen_exception_without_check (g_sim_exception m), f, m)
         else do {
           (ok, f, m) \<leftarrow> fetch h (g_ip m) f m;
           if ok then sim_start h ss f m else Some (P_cacc, f, m)
         })"

text \<open>
  The loop.  \<open>n\<close> bounds the number of transfers of control, those of the nested call included; the
  result tells a run that does not end within the bound from one that stops abnormally.
\<close>

datatype run_result = Out_of_fuel | Stuck | Returned cause mach

fun run :: "nat \<Rightarrow> host \<Rightarrow> bool \<Rightarrow> point \<Rightarrow> frame \<Rightarrow> mach \<Rightarrow> run_result" where
  "run 0 h ss pt f m = Out_of_fuel"
| "run (Suc n) h ss pt f m =
     (case pt of
        P_done c \<Rightarrow> Returned c m
      | P_sim_1 \<Rightarrow>
          (case sim_entry h True m of
             None \<Rightarrow> Stuck
           | Some (pt', f', m') \<Rightarrow>
               (case run n h True pt' f' m' of
                  Returned c m'' \<Rightarrow> run n h ss P_cacc f m''
                | r \<Rightarrow> r))
      | _ \<Rightarrow>
          (case step h ss pt f m of
             None \<Rightarrow> Stuck
           | Some (pt', f', m') \<Rightarrow> run n h ss pt' f' m'))"

definition sim :: "nat \<Rightarrow> host \<Rightarrow> bool \<Rightarrow> mach \<Rightarrow> run_result" where
  "sim n h ss m =
     (case sim_entry h ss m of None \<Rightarrow> Stuck | Some (pt, f, m) \<Rightarrow> run n h ss pt f m)"

end
