(* ===== verification/Sim_Instr.thy ===== *)
theory Sim_Instr
  imports Sim_Run
begin

text \<open>
  What the handlers of \<open>sim()\<close> compute: the integer instructions against integer arithmetic, the
  protection of \<open>r0\<close>, privileged instructions, alignment, the fast paths of loads and stores against
  the slow path, and the memory breakpoint.
\<close>

section \<open>Lemmas\<close>

lemma dispatch_next_some:
  "dispatch_next f m = Some (if f_r_delayed_p f \<noteq> DNull then P_delayed_br else P_dispatch,
     if f_r_delayed_p f \<noteq> DNull then f else INC_D_IP f, m)"
  by (simp add: dispatch_next_def)

lemma CHECK_STACK_NEXT_some:
  "CHECK_STACK_NEXT f m = Some (if stack_bad m then P_stack_overflow else
       if f_r_delayed_p f \<noteq> DNull then P_delayed_br else P_dispatch,
     if stack_bad m \<or> f_r_delayed_p f \<noteq> DNull then f else INC_D_IP f, m)"
  by (simp add: CHECK_STACK_NEXT_def dispatch_next_some)

text \<open>Every handler ends in one of a few ways; what they do to the state is \<open>ctl_mach\<close>.\<close>

definition ctl_mach :: "ctl \<Rightarrow> mach option" where
  "ctl_mach r = map_option (\<lambda>(pt, f, m). m) r"

definition ctl_point :: "ctl \<Rightarrow> point option" where
  "ctl_point r = map_option fst r"

lemma ctl_simps [simp]:
  "ctl_mach (Some (pt, f, m)) = Some m" "ctl_point (Some (pt, f, m)) = Some pt"
  "ctl_mach (GEN_EXCEPTION ex f m) = Some m" "ctl_point (GEN_EXCEPTION ex f m) = Some (P_gen_exception ex)"
  "ctl_mach (CHECK_STACK_NEXT f m) = Some m"
  "ctl_point (CHECK_STACK_NEXT f m) \<noteq> Some (P_gen_exception ex)"
  by (simp_all add: ctl_mach_def ctl_point_def GEN_EXCEPTION_def CHECK_STACK_NEXT_some dispatch_next_some)

lemma put_carry_simps [simp]:
  "g_regs (put_carry c m) = g_regs m"
  "bit (g_sfu0_regs (put_carry c m) (Suc 0)) 28 = c"
  by (auto simp: put_carry_def bit_simps bit_numeral_rec)

lemma uint_CARRY_BIT: "uint (CARRY_BIT m) = (if bit (g_sfu0_regs m rPSR) 28 then 1 else 0)"
  by (simp add: CARRY_BIT_def and_one_eq mod_2_eq_odd bit_iff_odd_drop_bit)

text \<open>A host without devices, whose floating point unit returns 0, and a frame for concrete runs.\<close>

definition idle_fpu :: fpu where
  "idle_fpu = \<lparr>fp_arith = (\<lambda>op a b. (0, False)), fp_compare = (\<lambda>p q a b. (a = b, a < b, False)),
     fp_is_zero = (\<lambda>p a. a = 0)\<rparr>"

definition idle_host :: host where
  "idle_host = \<lparr>h_io = (\<lambda>m pa rp sz mop override. None), h_fpu = idle_fpu, h_addr = (\<lambda>q. 0x10000),
     h_ptr = (\<lambda>p. 0x8000), h_membrk0 = None, h_simdiags = False, h_call = (\<lambda>s m. m)\<rparr>"

definition frame0 :: "nat \<Rightarrow> frame" where
  "frame0 usmode = \<lparr>f_p = Some (RamPart 0, 0), f_pagep = Some (RamPart 0), f_pagela = 0,
     f_usmode = usmode, f_r_delayed_p = DNull, f_membrkphys = None\<rparr>"

definition instr3 :: "handler \<Rightarrow> decoded_i" where
  "instr3 hdl = \<lparr>d_norm_e_addr = hdl, d_dest = PReg 3, d_s1 = PReg 4, d_s2 = PReg 5\<rparr>"

definition mach2 :: "u32 \<Rightarrow> u32 \<Rightarrow> mach" where
  "mach2 a b = set_reg 4 a (set_reg 5 b cleared_mach)"

lemma instr3_simps [simp]:
  "d_norm_e_addr (instr3 hdl) = hdl" "d_dest (instr3 hdl) = PReg 3" "d_s1 (instr3 hdl) = PReg 4"
  "d_s2 (instr3 hdl) = PReg 5"
  by (simp_all add: instr3_def)

lemma f_r_delayed_frame0 [simp]: "f_r_delayed_p (frame0 us) = DNull"
  by (simp add: frame0_def)

lemma mach2_simps [simp]: "g_regs (mach2 a b) 4 = a" "g_regs (mach2 a b) 5 = b"
  by (simp_all add: mach2_def)

section \<open>Addition and subtraction\<close>

text \<open>The carry an instruction adds.\<close>

definition carry_in :: "bool \<Rightarrow> mach \<Rightarrow> int" where
  "carry_in b m = (if b \<and> bit (g_sfu0_regs m rPSR) 28 then 1 else 0)"

text \<open>
  Property C10.  The eight forms of \<open>add\<close>: the destination gets the sum modulo 2 to the 32, the carry
  bit of the PSR is the carry of the unsigned sum (for the forms that set it), and an integer overflow
  is raised exactly by the signed forms whose sum does not fit in 32 bits.
\<close>

theorem add_exact:
  assumes "read_ptr m (d_s1 d) = Some s1" and "read_ptr m (d_s2 d) = Some s2"
    and "d_dest d = PReg n" and "n < 32" and "c = carry_in (add_carry_in op) m"
  shows "\<exists>pt f' m'. exec_add h op d f m = Some (pt, f', m') \<and>
    uint (g_regs m' n) = (uint s1 + uint s2 + c) mod 2 ^ 32 \<and>
    (bit (g_sfu0_regs m' rPSR) 28 \<longleftrightarrow>
       (if add_carry_out op then 2 ^ 32 \<le> uint s1 + uint s2 + c else bit (g_sfu0_regs m rPSR) 28)) \<and>
    (pt = P_gen_exception E_IOV \<longleftrightarrow>
       add_signed op \<and> \<not> (- (2 ^ 31) \<le> sint s1 + sint s2 + c \<and> sint s1 + sint s2 + c < 2 ^ 31))"
proof -
  define b where "b = (if add_carry_in op then CARRY_BIT m else 0)"
  have c: "uint b = c" and b: "uint b \<le> 1"
    using assms(5) by (simp_all add: b_def carry_in_def uint_CARRY_BIT)
  let ?r = "s1 + s2 + b"
  define m1 where "m1 = set_reg n ?r m"
  define m2 where "m2 = (if add_carry_out op then put_carry (add_carry s1 s2 ?r) m1 else m1)"
  have e: "exec_add h op d f m =
      (if add_signed op \<and> add_overflow s1 s2 ?r then GEN_EXCEPTION E_IOV f m2
       else if op = A_add \<or> op = A_addu then CHECK_STACK_NEXT f m2 else dispatch_next f m2)"
    using assms(1-4) by (simp add: exec_add_def Let_def b_def [symmetric] m1_def m2_def)
  then have "\<exists>pt f'. exec_add h op d f m = Some (pt, f', m2) \<and>
      (pt = P_gen_exception E_IOV \<longleftrightarrow> add_signed op \<and> add_overflow s1 s2 ?r)"
    by (simp add: GEN_EXCEPTION_def CHECK_STACK_NEXT_some dispatch_next_some)
  moreover have "uint (g_regs m2 n) = (uint s1 + uint s2 + c) mod 2 ^ 32"
    by (simp add: m2_def m1_def uint_word_ariths mod_simps c [symmetric])
  moreover have "bit (g_sfu0_regs m2 rPSR) 28 \<longleftrightarrow>
      (if add_carry_out op then 2 ^ 32 \<le> uint s1 + uint s2 + c else bit (g_sfu0_regs m rPSR) 28)"
    using add_carry_exact [OF b, of s1 s2] by (simp add: m2_def m1_def c)
  ultimately show ?thesis
    using add_overflow_exact [OF b, of s1 s2] by (auto simp: c)
qed

theorem add_exact_witness:
  "\<exists>pt f' m'. exec_add idle_host A_addu_co (instr3 (H_add A_addu_co)) (frame0 1) (mach2 0xffffffff 2) =
      Some (pt, f', m') \<and> uint (g_regs m' 3) = 1 \<and> bit (g_sfu0_regs m' rPSR) 28"
  using add_exact [of "mach2 0xffffffff 2" "instr3 (H_add A_addu_co)" "0xffffffff" 2 3 0 A_addu_co
      idle_host "frame0 1"]
  by (auto simp: carry_in_def)

text \<open>
  Property C19.  The eight forms of \<open>sub\<close> with a destination register: the destination gets the difference of the
  operands modulo 2 to the 32, to which the forms with a borrow-in add the carry bit (the hardware subtracts a
  borrow); the forms without borrow-out keep the carry bit of the PSR; and of the forms without
  borrow-in exactly the signed ones whose difference does not fit in 32 bits raise an integer overflow, after the
  destination has been written.  An unsigned form never does.
\<close>

theorem sub_exact:
  assumes "read_ptr m (d_s1 d) = Some s1" and "read_ptr m (d_s2 d) = Some s2"
    and "d_dest d = PReg n" and "n < 32" and "c = carry_in (sub_carry_in op) m"
  shows "\<exists>pt f' m'. exec_sub h op d f m = Some (pt, f', m') \<and>
    uint (g_regs m' n) = (uint s1 - uint s2 + c) mod 2 ^ 32 \<and>
    (\<not> sub_carry_out op \<longrightarrow> (bit (g_sfu0_regs m' rPSR) 28 \<longleftrightarrow> bit (g_sfu0_regs m rPSR) 28)) \<and>
    (pt = P_gen_exception E_IOV \<longrightarrow> sub_signed op) \<and>
    (\<not> sub_carry_in op \<longrightarrow> (pt = P_gen_exception E_IOV \<longleftrightarrow>
       sub_signed op \<and> \<not> (- (2 ^ 31) \<le> sint s1 - sint s2 \<and> sint s1 - sint s2 < 2 ^ 31)))"
proof -
  define b where "b = (if sub_carry_in op then CARRY_BIT m else 0)"
  have c: "uint b = c" and b: "uint b \<le> 1"
    using assms(5) by (simp_all add: b_def carry_in_def uint_CARRY_BIT)
  let ?r = "s1 - s2 + b"
  define m1 where "m1 = set_reg n ?r m"
  define m2 where "m2 = (if sub_carry_out op then put_carry (sub_carry s1 s2 ?r) m1 else m1)"
  have e: "exec_sub h op d f m =
      (if sub_signed op \<and> sub_overflow s1 s2 ?r then GEN_EXCEPTION E_IOV f m2
       else if op = B_sub \<or> op = B_subu then CHECK_STACK_NEXT f m2 else dispatch_next f m2)"
    using assms(1-4) by (simp add: exec_sub_def Let_def b_def [symmetric] m1_def m2_def)
  then have "\<exists>pt f'. exec_sub h op d f m = Some (pt, f', m2) \<and>
      (pt = P_gen_exception E_IOV \<longleftrightarrow> sub_signed op \<and> sub_overflow s1 s2 ?r)"
    by (simp add: GEN_EXCEPTION_def CHECK_STACK_NEXT_some dispatch_next_some)
  moreover have "uint (g_regs m2 n) = (uint s1 - uint s2 + c) mod 2 ^ 32"
    by (simp add: m2_def m1_def uint_word_ariths mod_simps c [symmetric])
  moreover have "\<not> sub_carry_out op \<Longrightarrow> bit (g_sfu0_regs m2 rPSR) 28 \<longleftrightarrow> bit (g_sfu0_regs m rPSR) 28"
    by (simp add: m2_def m1_def)
  moreover have "\<not> sub_carry_in op \<Longrightarrow> sub_overflow s1 s2 ?r \<longleftrightarrow>
      \<not> (- (2 ^ 31) \<le> sint s1 - sint s2 \<and> sint s1 - sint s2 < 2 ^ 31)"
    using sub_overflow_exact [of s1 s2] by (auto simp: b_def)
  ultimately show ?thesis by blast
qed

theorem sub_exact_witness:
  "\<exists>f' m'. exec_sub idle_host B_sub (instr3 (H_sub B_sub)) (frame0 1) (mach2 0x80000000 1) =
      Some (P_gen_exception E_IOV, f', m') \<and> uint (g_regs m' 3) = 0x7fffffff"
  using sub_exact [of "mach2 0x80000000 1" "instr3 (H_sub B_sub)" "0x80000000" 1 3 0 B_sub idle_host "frame0 1"]
  by (auto simp: carry_in_def)

text \<open>
  The carry bit that \<open>sub.bo\<close> and \<open>subu.bo\<close> set is not the borrow: it is the borrow of
  \<open>s1 - s2\<close> exactly if both operands are not negative, or both are and a borrow occurs, or only the
  second is and the difference is negative as a signed number.
\<close>

theorem sub_borrow_flag:
  assumes "read_ptr m (d_s1 d) = Some s1" and "read_ptr m (d_s2 d) = Some s2"
    and "d_dest d = PReg n" and "n < 32" and "op = B_sub_bo \<or> op = B_subu_bo"
  shows "\<exists>pt f' m'. exec_sub h op d f m = Some (pt, f', m') \<and>
    ((bit (g_sfu0_regs m' rPSR) 28 \<longleftrightarrow> s1 < s2) \<longleftrightarrow>
       (if sint s1 < 0 then sint s2 < 0 \<and> s1 < s2 else sint s2 < 0 \<longrightarrow> sint (s1 - s2) < 0))"
proof -
  let ?m = "put_carry (sub_carry s1 s2 (s1 - s2)) (set_reg n (s1 - s2) m)"
  have "exec_sub h op d f m =
      (if op = B_sub_bo \<and> sub_overflow s1 s2 (s1 - s2) then GEN_EXCEPTION E_IOV f ?m else dispatch_next f ?m)"
    using assms by (auto simp: exec_sub_def Let_def)
  then have "\<exists>pt f'. exec_sub h op d f m = Some (pt, f', ?m)"
    by (simp add: GEN_EXCEPTION_def dispatch_next_some)
  then show ?thesis
    using sub_carry_borrow [of s1 s2] by (simp only: neg_sint) auto
qed

theorem sub_borrow_flag_witness:
  "\<exists>pt f' m'. exec_sub idle_host B_subu_bo (instr3 (H_sub B_subu_bo)) (frame0 1) (mach2 0x80000001 1) =
      Some (pt, f', m') \<and> bit (g_sfu0_regs m' rPSR) 28"
  using sub_borrow_flag [of "mach2 0x80000001 1" "instr3 (H_sub B_subu_bo)" "0x80000001" 1 3 B_subu_bo
      idle_host "frame0 1"]
  by auto

section \<open>Rotation\<close>

text \<open>
  \<open>rot\<close> rotates its destination to the right by the count, if the count is not in the destination itself.
\<close>

lemma rot_dest_rotates:
  "d_dest d = PReg k \<Longrightarrow> k < 32 \<Longrightarrow> d_s2 d = PReg j \<Longrightarrow> j < 32 \<Longrightarrow> j \<noteq> k \<Longrightarrow> O5 (g_regs m j) \<le> i + n \<Longrightarrow>
     rot_dest n i d m = Some (set_reg k (rot_loop (O5 (g_regs m j) - i) (g_regs m k)) m)"
proof (induction n arbitrary: i m)
  case 0
  then show ?case by (simp add: set_reg_def)
next
  case (Suc n)
  show ?case
  proof (cases "i < O5 (g_regs m j)")
    case True
    then have "O5 (g_regs m j) - i = Suc (O5 (g_regs m j) - Suc i)" by simp
    then show ?thesis
      using True Suc.prems Suc.IH [of "set_reg k (c_shr (g_regs m k) 1 OR c_shl (g_regs m k AND 1) 31) m" "Suc i"]
      by (simp add: set_reg_def)
  qed (use Suc.prems in \<open>simp add: set_reg_def\<close>)
qed

theorem rot_rotates:
  assumes "d_dest d = PReg k" and "k < 32" and "d_s2 d = PReg j" and "j < 32" and "j \<noteq> k"
  shows "exec_bit O_rot d f m = dispatch_next f (set_reg k (word_rotr (O5 (g_regs m j)) (g_regs m k)) m)"
proof -
  have "O5 (g_regs m j) \<le> 0 + 32" using O5_less [of "g_regs m j"] by linarith
  from rot_dest_rotates [OF assms this] show ?thesis by (simp add: exec_bit_def rot_loop_rotr)
qed

section \<open>The register that is always zero\<close>

lemma write_ptr_r0: "write_ptr m p v = Some m' \<Longrightarrow> p \<noteq> PReg 0 \<Longrightarrow> g_regs m' 0 = g_regs m 0"
  by (cases p) (auto split: if_splits)

lemma ptr_succ_not_r0 [simp]: "ptr_succ p \<noteq> PReg 0"
  by (cases p) auto

lemma or_SBR_regs [simp]: "g_regs (or_SBR n m) = g_regs m"
  by (simp add: or_SBR_def or_cr_def)

lemma ctl_keeps [simp]:
  "dispatch_next f m = Some (pt, f', m') \<Longrightarrow> g_regs m' = g_regs m"
  "CHECK_STACK_NEXT f m = Some (pt, f', m') \<Longrightarrow> g_regs m' = g_regs m"
  "GEN_EXCEPTION ex f m = Some (pt, f', m') \<Longrightarrow> g_regs m' = g_regs m"
  by (auto simp: GEN_EXCEPTION_def CHECK_STACK_NEXT_some dispatch_next_some)

lemma write_fp_r0: "write_fp m pr p v = Some m' \<Longrightarrow> p \<noteq> PReg 0 \<Longrightarrow> g_regs m' 0 = g_regs m 0"
  by (auto simp: write_fp_def write_ptr_r0 split: if_splits dest!: bind_SomeD)

lemmas r0_defs = exec_add_def exec_sub_def exec_log_def exec_bit_def exec_int_def exec_lda_def
  DST_next_def fp_precise_def fp_imprecise_def SET_FP_CREGS_def

lemma exec_fp_r0:
  "exec_fp h op d f m = Some (pt, f', m') \<Longrightarrow> d_dest d \<noteq> PReg 0 \<Longrightarrow> g_regs m' 0 = g_regs m 0"
  by (auto simp: exec_fp_def r0_defs Let_def fpeint_def split: prod.splits if_splits
      dest!: bind_SomeD ctl_keeps write_fp_r0)

lemma exec_int_r0:
  "exec_int h op d f m = Some (pt, f', m') \<Longrightarrow> d_dest d \<noteq> PReg 0 \<Longrightarrow> g_regs m' 0 = g_regs m 0"
  by (cases op)
     (auto simp: r0_defs Let_def split: if_splits dest!: bind_SomeD ctl_keeps write_ptr_r0)

lemma exec_add_r0:
  "exec_add h op d f m = Some (pt, f', m') \<Longrightarrow> d_dest d \<noteq> PReg 0 \<Longrightarrow> g_regs m' 0 = g_regs m 0"
  by (auto simp: exec_add_def Let_def split: if_splits dest!: bind_SomeD ctl_keeps write_ptr_r0)

lemma exec_sub_r0:
  "exec_sub h op d f m = Some (pt, f', m') \<Longrightarrow> d_dest d \<noteq> PReg 0 \<Longrightarrow> g_regs m' 0 = g_regs m 0"
  by (auto simp: exec_sub_def Let_def split: if_splits dest!: bind_SomeD ctl_keeps write_ptr_r0)

lemma exec_log_r0:
  "exec_log op d f m = Some (pt, f', m') \<Longrightarrow> d_dest d \<noteq> PReg 0 \<Longrightarrow> g_regs m' 0 = g_regs m 0"
  by (auto simp: exec_log_def split: if_splits dest!: bind_SomeD ctl_keeps write_ptr_r0)

lemma rot_dest_r0: "rot_dest n i d m = Some m' \<Longrightarrow> d_dest d \<noteq> PReg 0 \<Longrightarrow> g_regs m' 0 = g_regs m 0"
proof (induction n arbitrary: i m)
  case (Suc n)
  then show ?case by (auto split: if_splits dest!: bind_SomeD write_ptr_r0)
qed simp

lemma exec_bit_r0:
  "exec_bit op d f m = Some (pt, f', m') \<Longrightarrow> d_dest d \<noteq> PReg 0 \<Longrightarrow> g_regs m' 0 = g_regs m 0"
  by (auto simp: exec_bit_def split: if_splits dest!: bind_SomeD ctl_keeps write_ptr_r0 rot_dest_r0)

lemma exec_lda_r0:
  "exec_lda op d f m = Some (pt, f', m') \<Longrightarrow> d_dest d \<noteq> PReg 0 \<Longrightarrow> g_regs m' 0 = g_regs m 0"
  by (auto simp: exec_lda_def DST_next_def dest!: bind_SomeD ctl_keeps write_ptr_r0)

lemmas exec_r0 = exec_add_r0 exec_sub_r0 exec_log_r0 exec_bit_r0 exec_lda_r0 exec_int_r0 exec_fp_r0

text \<open>
  The instructions of \<open>writes_dest\<close> leave \<open>r0\<close> alone when the
  decoded destination is not \<open>r0\<close>: whatever the operands, and also when they raise an exception.
\<close>

theorem results_spare_r0:
  assumes "writes_dest (d_norm_e_addr d)" and "d_dest d \<noteq> PReg 0"
    and "exec_handler h ss d f m = Some (pt, f', m')"
  shows "g_regs m' 0 = g_regs m 0"
  using assms by (cases "d_norm_e_addr d") (simp_all add: exec_handler_def exec_r0)

theorem results_spare_r0_witness:
  "ctl_mach (exec_handler idle_host False (instr3 (H_log O_and)) (frame0 1) (mach2 6 3)) =
      Some (set_reg 3 2 (mach2 6 3)) \<and> g_regs (set_reg 3 2 (mach2 6 3)) 0 = g_regs (mach2 6 3) 0"
proof -
  have e: "exec_handler idle_host False (instr3 (H_log O_and)) (frame0 1) (mach2 6 3) =
      Some (P_dispatch, INC_D_IP (frame0 1), set_reg 3 2 (mach2 6 3))"
    unfolding exec_handler_def instr3_simps handler.case exec_log_def
    by (simp, simp only: dispatch_next_some, simp)
  show ?thesis
    using results_spare_r0 [OF _ _ e] unfolding e by simp
qed

section \<open>Privileged instructions and alignment\<close>

text \<open>The instructions that user programs may not execute.\<close>

fun privileged :: "handler \<Rightarrow> bool" where
  "privileged (H_cr op) \<longleftrightarrow> op = C_ldcr \<or> op = C_stcr \<or> op = C_xcr"
| "privileged H_rte \<longleftrightarrow> True"
| "privileged (H_ld op usr scaled) \<longleftrightarrow> usr"
| "privileged (H_st op usr scaled) \<longleftrightarrow> usr"
| "privileged (H_xmem op usr scaled) \<longleftrightarrow> usr"
| "privileged _ \<longleftrightarrow> False"

text \<open>
  Property C18.  In user mode a privileged instruction raises a privilege violation and changes
  nothing: no register, no memory, no control register.
\<close>

theorem privileged_in_user_mode:
  assumes "privileged (d_norm_e_addr d)" and "f_usmode f = M_USER"
  shows "exec_handler h ss d f m = Some (P_gen_exception E_PRV, f, m)"
  using assms
  by (cases "d_norm_e_addr d")
     (auto simp: exec_handler_def exec_cr_def exec_ldcr_def exec_stcr_def exec_xcr_def exec_rte_def
       exec_ld_def exec_st_def exec_xmem_def GEN_EXCEPTION_def)

theorem privileged_in_user_mode_witness:
  "exec_handler idle_host False (instr3 (H_cr C_stcr)) (frame0 M_USER) cleared_mach =
     Some (P_gen_exception E_PRV, frame0 M_USER, cleared_mach)"
  by (rule privileged_in_user_mode) (simp_all add: frame0_def)

text \<open>The forms that access the user address space from supervisor mode.\<close>

fun usr_form :: "handler \<Rightarrow> bool" where
  "usr_form (H_ld op usr scaled) = usr"
| "usr_form (H_st op usr scaled) = usr"
| "usr_form (H_xmem op usr scaled) = usr"
| "usr_form _ = False"

text \<open>The address a memory instruction computes, and the size it requires it to be aligned to.\<close>

fun mem_access :: "handler \<Rightarrow> (u32 \<times> bool) option" where
  "mem_access (H_ld op usr scaled) = Some (ld_size op, scaled)"
| "mem_access (H_st op usr scaled) = Some (st_size op, scaled)"
| "mem_access (H_xmem op usr scaled) = Some (WORD, scaled)"
| "mem_access _ = None"

lemma CALC_ADDR_misaligned:
  assumes "read_ptr m (d_s1 d) = Some s1" and "read_ptr m (d_s2 d) = Some s2"
    and "(s1 + (if scaled then s2 * sz else s2)) AND (sz - 1) \<noteq> 0" and "PSR_MA_CHECK_ON m"
  shows "CALC_ADDR h scaled sz mop tlb us fast d f m = macc h d f m"
  using assms by (simp add: CALC_ADDR_def)

text \<open>
  Property C23.  With alignment checking on (\<open>PSR_MA_CHECK_ON\<close>), a load, store or exchange at a misaligned address
  raises a misaligned access exception before memory or the destination is touched: only the scoreboard
  bit of the destination is set.  This holds in supervisor mode, and in user mode for all but the
  \<open>.usr\<close> forms, which are refused as privileged there before the address is looked at.
\<close>

theorem misaligned_access_traps:
  assumes "mem_access (d_norm_e_addr d) = Some (sz, scaled)" and "PSR_MA_CHECK_ON m"
    and "read_ptr m (d_s1 d) = Some s1" and "read_ptr m (d_s2 d) = Some s2"
    and "(s1 + (if scaled then s2 * sz else s2)) AND (sz - 1) \<noteq> 0"
    and "\<not> (f_usmode f = M_USER \<and> usr_form (d_norm_e_addr d))"
  shows "exec_handler h ss d f m = Some (P_gen_exception E_MA, f, or_SBR (REGNUM h (d_dest d)) m)"
  using assms
  by (cases "d_norm_e_addr d")
     (auto simp: exec_handler_def exec_ld_def exec_st_def exec_xmem_def CALC_ADDR_misaligned macc_def
       GEN_EXCEPTION_def)

theorem misaligned_access_traps_witness:
  "exec_handler idle_host False (instr3 (H_st S_h False True)) (frame0 M_USER) (mach2 0x1001 2) =
     Some (P_gen_exception E_MA, frame0 M_USER, or_SBR 3 (mach2 0x1001 2))"
proof -
  have "exec_handler idle_host False (instr3 (H_st S_h False True)) (frame0 M_USER) (mach2 0x1001 2) =
     Some (P_gen_exception E_MA, frame0 M_USER,
       or_SBR (REGNUM idle_host (d_dest (instr3 (H_st S_h False True)))) (mach2 0x1001 2))"
    by (rule misaligned_access_traps [where ?s1.0 = "0x1001" and ?s2.0 = 2 and sz = 2 and scaled = True])
       (simp_all add: frame0_def mach2_def cleared_mach_def PSR_MA_CHECK_ON_def)
  then show ?thesis by simp
qed

section \<open>Division and traps\<close>

text \<open>
  Property C33.  \<open>div\<close> and \<open>divu\<close> to a general register never divide by zero: with the floating point unit
  on (\<open>PSR_FP_UNIT_ON\<close>; the unit does the integer divisions) they raise an integer divide exception exactly for
  a zero divisor and, in \<open>div\<close>, for a negative operand; the operands are then in the fault registers, and
  no general register changes.  In all other cases the next instruction is dispatched, the
  destination, and no other register, gets the quotient, and the fault registers are as they were.
\<close>

theorem division_traps:
  assumes "read_ptr m (d_s1 d) = Some s1" and "read_ptr m (d_s2 d) = Some s2"
    and "d_dest d = PReg n" and "n < 32" and "PSR_FP_UNIT_ON m"
  shows "\<exists>m'. (if s2 = 0 \<or> (sg \<and> (sint s1 < 0 \<or> sint s2 < 0))
     then exec_int h (if sg then O_div else O_divu) d f m = Some (P_gen_exception E_IDE, f, m') \<and>
       g_sfu1_regs m' 2 = s1 \<and> g_sfu1_regs m' 4 = s2 \<and> g_regs m' = g_regs m
     else exec_int h (if sg then O_div else O_divu) d f m = dispatch_next f m' \<and>
       uint (g_regs m' n) = uint s1 div uint s2 \<and> (\<forall>k. k \<noteq> n \<longrightarrow> g_regs m' k = g_regs m k) \<and>
       g_sfu1_regs m' = g_sfu1_regs m)"
proof -
  have [simp]: "g_sfu1_regs (or_SBR k m) = g_sfu1_regs m" for k m
    by (simp add: or_SBR_def or_cr_def)
  have q: "uint (word_of_int (sint s1 div sint s2) :: u32) = uint s1 div uint s2"
    if "\<not> sint s1 < 0" "\<not> sint s2 < 0"
  proof -
    have "uint s1 div uint s2 \<le> uint s1"
    proof (cases "uint s2 = 0")
      case False
      then have "1 \<le> uint s2" using uint_u32 [of s2] by linarith
      then show ?thesis using zdiv_mono2 [of "uint s1" 1 "uint s2"] by simp
    qed simp
    moreover have "0 \<le> uint s1 div uint s2"
      by (simp add: div_int_pos_iff)
    ultimately have d: "(uint s1 div uint s2) mod 4294967296 = uint s1 div uint s2"
      using uint_u32 [of s1] by (intro mod_pos_pos_trivial) linarith+
    have w: "uint (word_of_int i :: u32) = i mod 4294967296" for i
      by (simp add: uint_word_of_int)
    have "\<not> neg s1" "\<not> neg s2" using that by (simp_all only: neg_sint not_False_eq_True)
    then have "sint s1 = uint s1" "sint s2 = uint s2" by (simp_all add: sint_uint_cases)
    then show ?thesis by (subst w) (simp only: d)
  qed
  have z: "sint s2 \<le> 0 \<longleftrightarrow> s2 = 0 \<or> sint s2 < 0"
    using signed_word_eqI [of s2 0] by (auto simp: le_less)
  have div: "exec_int h O_div d f m =
      (if sint s1 < 0 \<or> sint s2 \<le> 0 then GEN_EXCEPTION E_IDE f (SET_FP_CREGS s1 s2 (REGNUM h (d_dest d)) m)
       else dispatch_next f (set_reg n (word_of_int (sint s1 div sint s2)) m))"
    using assms by (simp add: exec_int_def DST_next_def word_sless_alt word_sle_eq)
  have divu: "exec_int h O_divu d f m =
      (if s2 = 0 then GEN_EXCEPTION E_IDE f (SET_FP_CREGS s1 s2 (REGNUM h (d_dest d)) m)
       else dispatch_next f (set_reg n (s1 div s2) m))"
    using assms by (simp add: exec_int_def DST_next_def)
  have regs: "g_sfu1_regs (SET_FP_CREGS s1 s2 k m) 2 = s1" "g_sfu1_regs (SET_FP_CREGS s1 s2 k m) 4 = s2"
    "g_regs (SET_FP_CREGS s1 s2 k m) = g_regs m" for k
    by (simp_all add: SET_FP_CREGS_def)
  let ?traps = "s2 = 0 \<or> (sg \<and> (sint s1 < 0 \<or> sint s2 < 0))"
  show ?thesis
  proof (cases ?traps)
    case True
    then have "exec_int h (if sg then O_div else O_divu) d f m =
        GEN_EXCEPTION E_IDE f (SET_FP_CREGS s1 s2 (REGNUM h (d_dest d)) m)"
    proof (cases sg)
      case sg: True
      with True have "sint s1 < 0 \<or> sint s2 \<le> 0" using z by blast
      with sg show ?thesis by (simp only: div if_True)
    next
      case sg: False
      with True have "s2 = 0" by blast
      with sg show ?thesis by (simp only: divu if_True if_False refl)
    qed
    then have e: "exec_int h (if sg then O_div else O_divu) d f m =
        Some (P_gen_exception E_IDE, f, SET_FP_CREGS s1 s2 (REGNUM h (d_dest d)) m)"
      by (simp only: GEN_EXCEPTION_def)
    show ?thesis
      unfolding if_P [OF True] by (intro exI conjI, rule e) (simp_all only: regs)
  next
    case False
    define v :: u32 where "v = (if sg then word_of_int (sint s1 div sint s2) else s1 div s2)"
    have e: "exec_int h (if sg then O_div else O_divu) d f m = dispatch_next f (set_reg n v m)"
      using False by (cases sg) (simp_all only: div divu z v_def de_Morgan_disj if_True if_False simp_thms)
    have "uint v = uint s1 div uint s2"
      using False q by (cases sg) (simp_all only: v_def uint_div de_Morgan_disj if_True if_False simp_thms)
    then have "uint (g_regs (set_reg n v m) n) = uint s1 div uint s2" by simp
    moreover have "\<forall>k. k \<noteq> n \<longrightarrow> g_regs (set_reg n v m) k = g_regs m k" "g_sfu1_regs (set_reg n v m) = g_sfu1_regs m"
      by (simp_all add: set_reg_def)
    ultimately show ?thesis
      unfolding if_not_P [OF False] e by blast
  qed
qed

theorem division_traps_witness:
  "\<exists>m'. exec_int idle_host O_div (instr3 (H_int O_div)) (frame0 1) (mach2 7 0) =
     Some (P_gen_exception E_IDE, frame0 1, m')"
  using division_traps [of "mach2 7 0" "instr3 (H_int O_div)" 7 0 3 True idle_host "frame0 1"]
  by (auto simp: mach2_def cleared_mach_def PSR_FP_UNIT_ON_def)

text \<open>
  \<open>tb1\<close> compares the selected bit with 1 and not with 0: with a mask for any bit but bit 0
  the trap is never taken, whether the bit is set or not, and execution goes on.
\<close>

theorem tb1_misses_bits:
  assumes "d_dest d = PVal (c_shl 1 n)" and "0 < n" and "n < 32" and "read_ptr m (d_s1 d) = Some s1"
    and "g_sfu0_regs m rSBR = 0"
  shows "exec_trap h T_tb1 d f m = dispatch_next f m"
proof -
  have "\<not> bit (s1 AND c_shl 1 n) 0"
    using assms(2,3) by (auto simp: c_shl_def bit_simps)
  then have "s1 AND c_shl 1 n \<noteq> 1" by auto
  then show ?thesis using assms by (simp add: exec_trap_def)
qed

theorem tb1_misses_bits_witness:
  "exec_trap idle_host T_tb1 \<lparr>d_norm_e_addr = H_trap T_tb1, d_dest = PVal (c_shl 1 5), d_s1 = PReg 4,
       d_s2 = PVal 200\<rparr> (frame0 1) (mach2 0x20 0) = dispatch_next (frame0 1) (mach2 0x20 0)"
  by (rule tb1_misses_bits [where n = 5 and ?s1.0 = "0x20"]) (simp_all add: mach2_def cleared_mach_def)

end
