(* ===== verification/Sim_Paths.thy ===== *)
theory Sim_Paths
  imports Sim_Instr
begin

text \<open>
  The two paths of a memory instruction: the fast path of the handlers, taken when the TLB has the page,
  against \<open>do_mem_op\<close>, which the slow path ends in; and what the slow path leaves in the TLBs.
\<close>

section \<open>The fast path\<close>

lemma zero_r0_id: "g_regs m 0 = 0 \<Longrightarrow> g_regs m 32 = 0 \<Longrightarrow> zero_r0 m = m"
  by (simp add: zero_r0_def set_reg_def fun_upd_idem)

lemma write_ptr_zero_r0:
  assumes "write_ptr m p v = Some m'" and "p \<noteq> PReg 0" and "p \<noteq> PReg 32" and "g_regs m 0 = 0" and "g_regs m 32 = 0"
  shows "zero_r0 m' = m'"
  using assms by (intro zero_r0_id) (cases p; auto split: if_splits)+

lemma mem_store_zero_r0:
  "mem_store m b off sz v = Some m' \<Longrightarrow> g_regs m 0 = 0 \<Longrightarrow> g_regs m 32 = 0 \<Longrightarrow> zero_r0 m' = m'"
  by (simp add: zero_r0_id mem_store_regs)

lemma bind_cong_Some:
  "(\<And>y. x = Some y \<Longrightarrow> f y = g y) \<Longrightarrow> Option.bind x f = Option.bind x g"
  by (cases x) simp_all

lemma do_mem_op_ld:
  assumes "op \<noteq> L_d"
  shows "do_mem_op rp b off (ld_size op) (ld_mop op) m =
    do { v \<leftarrow> mem_load m b off (ld_size op) (ld_mop op = LD); m \<leftarrow> write_ptr m rp v; Some (zero_r0 m) }"
  using assms by (cases op) (simp_all add: do_mem_op_def ld_mop_def)

lemma do_mem_op_st:
  assumes "op \<noteq> S_d"
  shows "do_mem_op rp b off (st_size op) ST m =
    do { v \<leftarrow> read_ptr m rp; m \<leftarrow> mem_store m b off (st_size op) v; Some (zero_r0 m) }"
  using assms by (cases op) (simp_all add: do_mem_op_def)

text \<open>
  Property C16.  On the fast path the loads and stores do to registers and memory what \<open>do_mem_op\<close>, which the
  slow path ends in, does on the same page, for every form: loads for their size and type, stores for
  their size, but for \<open>st.usr\<close> with a scaled index, where the fast path stores a double word (\<open>execute.c\<close>, line
  1340) and the slow path a word.  It is required that \<open>r0\<close> and the word after \<open>r31\<close> are zero, as between
  any two instructions, and that a load of less than a double word is not into one of them: the
  decoder makes no such load.  In addition loads of words look at the stack pointer and stores at
  the memory breakpoint.
\<close>

theorem fast_paths_transfer:
  assumes "g_regs m 0 = 0" and "g_regs m 32 = 0" and "op = L_d \<or> d_dest d \<noteq> PReg 0 \<and> d_dest d \<noteq> PReg 32"
  shows "fast_ld op check d f m pg off =
      do { m' \<leftarrow> do_mem_op (d_dest d) (BPage pg) off (ld_size op) (ld_mop op) m;
           if check \<and> op \<noteq> L_d then CHECK_STACK_NEXT f m' else dispatch_next f m' } \<and>
    fast_st sop (st_second sop usr scaled) d f m pg off =
      do { m' \<leftarrow> do_mem_op (d_dest d) (BPage pg) off (if sop = S_w \<and> usr \<and> scaled then DWORD else st_size sop) ST m;
           membrk_next pg off (unat (st_size sop)) f m' }"
proof
  show "fast_ld op check d f m pg off =
      do { m' \<leftarrow> do_mem_op (d_dest d) (BPage pg) off (ld_size op) (ld_mop op) m;
           if check \<and> op \<noteq> L_d then CHECK_STACK_NEXT f m' else dispatch_next f m' }"
  proof (cases "op = L_d")
    case True
    then show ?thesis by (simp add: fast_ld_def do_mem_op_def ld_mop_def)
  next
    case False
    then show ?thesis
      using write_ptr_zero_r0 [OF _ _ _ assms(1,2)] assms(3)
      by (simp add: fast_ld_def do_mem_op_ld) (intro bind_cong_Some, simp)
  qed
  show "fast_st sop (st_second sop usr scaled) d f m pg off =
      do { m' \<leftarrow> do_mem_op (d_dest d) (BPage pg) off (if sop = S_w \<and> usr \<and> scaled then DWORD else st_size sop) ST m;
           membrk_next pg off (unat (st_size sop)) f m' }"
  proof (cases "st_second sop usr scaled")
    case True
    then have "fast_st sop True d f m pg off =
      do { m' \<leftarrow> do_mem_op (d_dest d) (BPage pg) off DWORD ST m; membrk_next pg off (unat (st_size sop)) f m' }"
      using mem_store_zero_r0 assms(1,2) mem_store_regs
      by (auto simp: st_second_def fast_st_def do_mem_op_def intro!: bind_cong_Some)
    then show ?thesis using True by (auto simp: st_second_def)
  next
    case False
    then have s: "sop \<noteq> S_d" "st_second sop usr scaled = False" "(sop = S_w \<and> usr \<and> scaled) = False"
      by (auto simp: st_second_def)
    show ?thesis
      unfolding s(2,3) if_False
      using s(1) mem_store_zero_r0 [OF _ assms(1,2)]
      by (simp add: fast_st_def do_mem_op_st) (intro bind_cong_Some, simp)
  qed
qed

theorem fast_paths_transfer_witness:
  "fast_st S_w False (instr3 (H_st S_w False False)) (frame0 1) (mach2 1 2) 5 16 =
      do { m' \<leftarrow> do_mem_op (PReg 3) (BPage 5) 16 WORD ST (mach2 1 2); membrk_next 5 16 4 (frame0 1) m' }"
  using fast_paths_transfer [of "mach2 1 2" L_w "instr3 (H_st S_w False False)" False "frame0 1" 5 16 S_w False False]
  by (simp add: mach2_def cleared_mach_def st_second_def)

section \<open>The slow path\<close>

lemma tlb_entry_put: "tlb_entry (tlb_put s p pg t) s' p' = (if s' = s \<and> p' = p then Some pg else tlb_entry t s' p')"
  by (auto simp: tlb_entry_def tlb_put_def split: option.splits)

lemma put_load_tlb_entry:
  "tlb_entry (load_tlb us' (put_load_tlb us la pg m)) s p =
     (if (us' = M_USER \<longleftrightarrow> us = M_USER) \<and> s = btos la \<and> p = btop la then Some pg else tlb_entry (load_tlb us' m) s p)"
  "tlb_entry (store_tlb us' (put_load_tlb us la pg m)) s p = tlb_entry (store_tlb us' m) s p"
  by (auto simp: put_load_tlb_def load_tlb_def store_tlb_def tlb_entry_put)

lemma put_store_tlb_entry:
  assumes "put_store_tlb us la pg m = Some m'"
  shows "tlb_entry (store_tlb us' m') s p =
      (if (us' = M_USER \<longleftrightarrow> us = M_USER) \<and> s = btos la \<and> p = btop la then Some pg else tlb_entry (store_tlb us' m) s p)"
    and "tlb_entry (load_tlb us' m') s p = tlb_entry (load_tlb us' m) s p" and "g_page_table m' = g_page_table m"
  using assms by (auto simp: put_store_tlb_def load_tlb_def store_tlb_def tlb_entry_put split: if_splits)

text \<open>The part of the state that a transfer leaves alone.\<close>

definition tlb_view :: "mach \<Rightarrow> u32 \<times> tlb \<times> tlb \<times> tlb \<times> tlb" where
  "tlb_view m = (g_tracing m, g_u_load_tlb m, g_s_load_tlb m, g_u_store_tlb m, g_s_store_tlb m)"

definition keeps :: "nat \<Rightarrow> mach \<Rightarrow> mach \<Rightarrow> bool" where
  "keeps pg m m' \<longleftrightarrow> tlb_view m' = tlb_view m \<and> (g_page_table m pg \<noteq> None \<longrightarrow> g_page_table m' pg \<noteq> None)"

lemma keeps_refl [simp]: "keeps pg m m"
  by (simp add: keeps_def)

lemma keeps_trans [trans]: "keeps pg m1 m2 \<Longrightarrow> keeps pg m2 m3 \<Longrightarrow> keeps pg m1 m3"
  by (auto simp: keeps_def)

lemma keeps_write_ptr: "write_ptr m p v = Some m' \<Longrightarrow> keeps pg m m'"
  by (cases p) (auto simp: keeps_def tlb_view_def set_reg_def set_cr_def split: if_splits)

lemma keeps_mem_store: "mem_store m b off sz v = Some m' \<Longrightarrow> keeps pg m m'"
  by (cases b) (auto simp: keeps_def tlb_view_def mem_store_def set_cmmu_def set_board_def set_drivers_def store_word_def
      put_page_def Let_def split: if_splits dest!: bind_SomeD)

lemma keeps_one_mem_op: "one_mem_op rp b off sz mop m = Some m' \<Longrightarrow> keeps pg m m'"
  by (cases mop) (auto dest!: bind_SomeD dest: keeps_write_ptr keeps_mem_store keeps_trans)

lemma keeps_zero_r0: "keeps pg m (zero_r0 m)"
  by (simp add: keeps_def tlb_view_def zero_r0_def set_reg_def)

lemma keeps_do_mem_op: "do_mem_op rp b off sz mop m = Some m' \<Longrightarrow> keeps pg m m'"
  by (auto simp: do_mem_op_def split: if_splits dest!: bind_SomeD)
     (meson keeps_trans keeps_zero_r0 keeps_one_mem_op)+

text \<open>
  An untraced access to RAM that missed the TLBs leaves an entry for its page in the load TLB of its
  mode, and one in the store TLB if it writes, so that the next access is on the fast path; the entry
  leads to a page that exists, all other entries stay, and what can be stored to still can be loaded from.
\<close>

theorem slow_access_fills_tlb:
  assumes "l_mem_ram la pa rp sz mop us m = Some (ex, m')" and "g_tracing m = 0" and "tlb_inv m"
    and "rw_of mop = READ \<longrightarrow> tlb_entry (load_tlb us m) (btos la) (btop la) = None"
    and pg: "pg = unat (drop_bit 12 pa)"
  shows "ex = E_NONE \<and> g_page_table m' pg \<noteq> None \<and>
     tlb_entry (load_tlb us m') (btos la) (btop la) = Some pg \<and>
     (rw_of mop = WRITE \<longrightarrow> tlb_entry (store_tlb us m') (btos la) (btop la) = Some pg) \<and>
     tlb_inv m' \<and>
     (\<forall>us' s p. \<not> ((us' = M_USER \<longleftrightarrow> us = M_USER) \<and> s = btos la \<and> p = btop la) \<longrightarrow>
        tlb_entry (load_tlb us' m') s p = tlb_entry (load_tlb us' m) s p \<and>
        tlb_entry (store_tlb us' m') s p = tlb_entry (store_tlb us' m) s p)"
proof -
  let ?m0 = "touch_page pg m"
  obtain m1 where m1: "do_mem_op rp (BPage pg) (unat (poff la)) sz mop ?m0 = Some m1"
    using assms(1) by (auto simp: l_mem_ram_def Let_def pg dest!: bind_SomeD)
  have view: "tlb_view m1 = tlb_view m" and page: "g_page_table m1 pg \<noteq> None"
    using keeps_do_mem_op [OF m1, of pg] by (auto simp: keeps_def tlb_view_def touch_page_def put_page_def)
  have tlbs: "load_tlb u m1 = load_tlb u m" "store_tlb u m1 = store_tlb u m" for u
    using view by (auto simp: tlb_view_def load_tlb_def store_tlb_def)
  let ?m2 = "put_load_tlb us la pg m1"
  have page2: "g_page_table ?m2 pg \<noteq> None" using page by (auto simp: put_load_tlb_def)
  have rest: "ex = E_NONE \<and> (if rw_of mop = WRITE then put_store_tlb us la pg ?m2 = Some m' else m' = ?m2)"
    using assms(1,2) m1 view by (auto simp: l_mem_ram_def Let_def pg tlb_view_def split: if_splits dest!: bind_SomeD)
  note load2 = put_load_tlb_entry(1) [of _ us la pg m1] and store2 = put_load_tlb_entry(2) [of _ us la pg m1]
  have no_store: "tlb_entry (store_tlb us m) (btos la) (btop la) = None" if "rw_of mop = READ"
    using assms(3,4) that unfolding tlb_inv_def by (metis option.exhaust option.simps(3))
  have mode: "tlb_entry (store_tlb u m) = tlb_entry (store_tlb us m)" if "u = M_USER \<longleftrightarrow> us = M_USER" for u
    using that by (simp add: store_tlb_def)
  show ?thesis
  proof (cases "rw_of mop = WRITE")
    case True
    then have st: "put_store_tlb us la pg ?m2 = Some m'" and ex: "ex = E_NONE" using rest by simp_all
    note entries = put_store_tlb_entry [OF st] load2 store2 tlbs
    have "tlb_inv m'" using assms(3) unfolding tlb_inv_def entries by auto
    with True ex page2 show ?thesis by (auto simp: entries)
  next
    case False
    then have m': "m' = ?m2" and ex: "ex = E_NONE" and rd: "rw_of mop = READ"
      using rest by (simp_all, cases "rw_of mop", simp_all)
    note entries = load2 store2 tlbs
    have "tlb_inv m'"
      unfolding tlb_inv_def m' entries
    proof (intro allI impI)
      fix u s p q
      assume q: "tlb_entry (store_tlb u m) s p = Some q"
      then have "\<not> ((u = M_USER \<longleftrightarrow> us = M_USER) \<and> s = btos la \<and> p = btop la)"
        using no_store [OF rd] mode [of u] by (metis option.distinct(1))
      with q assms(3) show "(if (u = M_USER \<longleftrightarrow> us = M_USER) \<and> s = btos la \<and> p = btop la then Some pg
          else tlb_entry (load_tlb u m) s p) = Some q"
        unfolding tlb_inv_def by (simp only: if_False)
    qed
    with False ex page2 show ?thesis by (auto simp: m' entries)
  qed
qed

theorem slow_access_fills_tlb_witness:
  "\<exists>m'. l_mem_ram 0x2004 0x5004 (PReg 3) WORD ST M_USER cleared_mach = Some (E_NONE, m') \<and>
     tlb_entry (load_tlb M_USER m') (btos 0x2004) (btop 0x2004) = Some 5 \<and> tlb_inv m'"
proof -
  have "tlb_entry (store_tlb us cleared_mach) s p = None" for us s p
    by (simp add: store_tlb_def cleared_mach_def tlb_entry_def)
  then have inv: "tlb_inv cleared_mach" by (simp add: tlb_inv_def)
  let ?m = "touch_page 5 cleared_mach"
  have "mem_store ?m (BPage 5) 4 WORD 0 \<noteq> None" by (simp add: mem_store_def aligned_to_def)
  then obtain m1 where st: "mem_store ?m (BPage 5) 4 WORD 0 = Some m1" by blast
  have op: "do_mem_op (PReg 3) (BPage 5) 4 WORD ST ?m = Some (zero_r0 m1)"
    using st by (simp add: do_mem_op_def touch_page_def put_page_def cleared_mach_def)
  then have "tlb_view (zero_r0 m1) = tlb_view cleared_mach"
    using keeps_do_mem_op [OF op, of 5] by (simp add: keeps_def tlb_view_def touch_page_def put_page_def)
  then have "l_mem_ram 0x2004 0x5004 (PReg 3) WORD ST M_USER cleared_mach \<noteq> None"
    using op by (simp add: l_mem_ram_def Let_def poff_def tlb_view_def cleared_mach_def rw_of_def put_store_tlb_def
        put_load_tlb_def store_tlb_def tlb_entry_def)
  then obtain ex m' where e: "l_mem_ram 0x2004 0x5004 (PReg 3) WORD ST M_USER cleared_mach = Some (ex, m')"
    by (metis option.exhaust prod.exhaust)
  from slow_access_fills_tlb [OF e _ inv, of 5] have "ex = E_NONE"
    "tlb_entry (load_tlb M_USER m') (btos 0x2004) (btop 0x2004) = Some 5" "tlb_inv m'"
    by (simp_all add: rw_of_def cleared_mach_def)
  with e show ?thesis by blast
qed

end
