(* ===== verification/Sim_Translate.thy ===== *)
theory Sim_Translate
  imports Sim_Cmmu
begin

text \<open>
  What address translation computes: \<open>l_to_p\<close> is compared with a specification of the 88200 table walk
  over the abstract view of memory, and the protection properties are derived from it.  The page
  tables are in RAM.
\<close>

section \<open>The specification\<close>

definition seg_addr :: "u32 \<Rightarrow> u32 \<Rightarrow> u32" where
  "seg_addr ad la = ad_segment_table_base ad * PAGESIZE + of_nat (btos la) * 4"

definition pd_addr :: "u32 \<Rightarrow> u32 \<Rightarrow> u32" where
  "pd_addr sd la = sd_page_table_base sd * PAGESIZE + of_nat (btop la) * 4"

text \<open>
  The walk: a fault code, or the physical address with the address of the page descriptor and its new
  value.  \<open>mem\<close> is the word of memory at an address.
\<close>

definition walk_spec ::
  "(nat \<Rightarrow> u32) \<Rightarrow> nat \<Rightarrow> u32 \<Rightarrow> rw \<Rightarrow> u32 \<Rightarrow> u32 + (u32 \<times> u32 \<times> u32)" where
  "walk_spec mem usmode la rw ad =
     (let sd = mem (unat (seg_addr ad la)); pda = pd_addr sd la; pd = mem (unat pda) in
      if \<not> sd_valid sd then Inl 4
      else if usmode = M_USER \<and> sd_supervisor_only sd then Inl 6
      else if \<not> pd_valid pd then Inl 5
      else if usmode = M_USER \<and> pd_supervisor_only pd then Inl 6
      else if rw = WRITE \<and> (sd_writeprotect sd \<or> pd_writeprotect pd) then Inl 7
      else Inr (pd_page_frame_base pd * PAGESIZE + poff la, pda,
             pd_set_used (if rw = WRITE then pd_set_modified pd else pd)))"

text \<open>The tables that a walk reads are in RAM.\<close>

definition tables_in_ram :: "mach \<Rightarrow> u32 \<Rightarrow> u32 \<Rightarrow> bool" where
  "tables_in_ram m ad la \<longleftrightarrow>
     seg_addr ad la < g_memory_size m \<and>
     unat (seg_addr ad la) + 3 < unat (g_memory_size m) \<and>
     (let pda = pd_addr (mem_word m (unat (seg_addr ad la))) la
      in unat pda + 3 < unat (g_memory_size m))"

section \<open>Frames\<close>

text \<open>An access to RAM changes the page table and the error flag only.\<close>

definition ram_step :: "mach \<Rightarrow> mach \<Rightarrow> bool" where
  "ram_step m m' \<longleftrightarrow> m' = m\<lparr>g_page_table := g_page_table m', g_sim_errno := False\<rparr>"

lemma ram_step_frame:
  assumes "ram_step m m'"
  shows "g_cmmu_table m' = g_cmmu_table m" "g_memory_size m' = g_memory_size m"
    "g_sim_errno m' = False" "g_regs m' = g_regs m" "g_last_writeprotect m' = g_last_writeprotect m"
  by (subst assms [unfolded ram_step_def], simp)+

lemma upd_cmmu_frame [simp]:
  "mem_byte (upd_cmmu n f m) = mem_byte m" "g_memory_size (upd_cmmu n f m) = g_memory_size m"
  "g_sim_errno (upd_cmmu n f m) = g_sim_errno m"
  "g_cmmu_table (upd_cmmu n f m) = (g_cmmu_table m)(n := f (g_cmmu_table m n))"
  by (simp_all add: upd_cmmu_def set_cmmu_def mem_byte_def get_page_def fun_eq_iff)

lemma or_last_frame [simp]:
  "mem_byte (or_last a b c m) = mem_byte m" "g_memory_size (or_last a b c m) = g_memory_size m"
  "g_sim_errno (or_last a b c m) = g_sim_errno m" "g_cmmu_table (or_last a b c m) = g_cmmu_table m"
  by (simp_all add: or_last_def mem_byte_def get_page_def fun_eq_iff)

lemma mem_word_byte: "mem_byte m = mem_byte m' \<Longrightarrow> mem_word m = mem_word m'"
  by (simp add: mem_word_def fun_eq_iff)

lemma word_multiple_aligned: "(x * 4096 + y * 4) AND 3 = 0" for x y :: u32
proof -
  have "x * 4096 + y * 4 = push_bit 2 (x * 1024 + y)"
    by (simp add: push_bit_eq_mult distrib_right)
  then show ?thesis by simp
qed

lemma seg_addr_aligned [simp]: "seg_addr ad la AND 3 = 0"
  unfolding seg_addr_def by (rule word_multiple_aligned)

lemma pd_addr_aligned [simp]: "pd_addr sd la AND 3 = 0"
  unfolding pd_addr_def by (rule word_multiple_aligned)

lemma aligned_nat: "a AND 3 = 0 \<Longrightarrow> 4 * (unat a div 4) = unat a" for a :: u32
  using unat_and_3 [of a] mult_div_mod_eq [of 4 "unat a"] by simp

lemma read_aligned_step:
  assumes "a AND 3 = 0" and "unat a + 3 < unat (g_memory_size m)"
  obtains m' where "read_sim_w io m a = Some (mem_word m (unat a), m')" and "ram_step m m'"
    and "mem_byte m' = mem_byte m"
proof
  let ?m = "touch_page (page_of a) (set_errno False m)"
  have "a < g_memory_size m" using assms(2) by (simp add: word_less_nat_alt)
  then show "read_sim_w io m a = Some (mem_word m (unat a), ?m)"
    by (simp add: read_sim_w_aligned assms(1) aligned_nat [OF assms(1)])
  show "ram_step m ?m"
    by (auto simp: ram_step_def touch_page_def put_page_def set_errno_def)
  show "mem_byte ?m = mem_byte m" by simp
qed

lemma write_aligned_step:
  assumes "a AND 3 = 0" and "unat a + 3 < unat (g_memory_size m)"
  obtains m' where "write_sim_w io m a v = Some (0, m')" and "ram_step m m'"
    and "mem_byte m' = put_word v (unat a) (mem_byte m)"
proof -
  obtain m' where 1: "write_sim_w io m a v = Some (0, m')"
    and 2: "mem_byte m' = put_word v (unat a) (mem_byte m)"
    using write_sim_w_ram [OF assms(2)] by blast
  have "a < g_memory_size m" using assms(2) by (simp add: word_less_nat_alt)
  with 1 assms(1) have step: "ram_step m m'"
    by (auto simp: write_sim_w_def Let_def ram_step_def store_word_def touch_page_def put_page_def
        set_errno_def not_le [symmetric])
  show ?thesis by (rule that [OF 1 step 2])
qed

section \<open>The walk implements the specification\<close>

lemma faultcode_set: "bf_get 16 3 (cm_lsr (lsr_set_faultcode v c)) = take_bit 3 v"
  by (simp add: lsr_set_faultcode_def bf_simps)

text \<open>What a walk does: the outcome, and what is left in memory.\<close>

definition walk_result :: "nat \<Rightarrow> mach \<Rightarrow> u32 + (u32 \<times> u32 \<times> u32) \<Rightarrow> (int \<times> u32 \<times> mach) option \<Rightarrow> bool" where
  "walk_result n m spec r \<longleftrightarrow>
     (case spec of
        Inl code \<Rightarrow>
          \<exists>pa m'. r = Some (DACC_OR_CACC n, pa, m') \<and> mem_byte m' = mem_byte m \<and>
            bf_get 16 3 (cm_lsr (g_cmmu_table m' n)) = code
      | Inr (pa, pda, pd) \<Rightarrow>
          \<exists>m'. r = Some (E_NONE, pa, m') \<and> mem_byte m' = put_word pd (unat pda) (mem_byte m))"

lemma walk_result_fault:
  "mem_byte m1 = mem_byte m \<Longrightarrow> take_bit 3 code = code \<Longrightarrow>
     walk_result n m (Inl code) (l_to_p_fault n code b m1)"
  by (simp add: walk_result_def l_to_p_fault_def faultcode_set)

lemma l_to_p_page_result:
  assumes c: "g_cmmu_table m1 n = c" and mem: "mem_byte m1 = mem_byte m"
    and ram: "unat (cm_page_descriptor_address c) + 3 < unat (g_memory_size m1)"
    and al: "cm_page_descriptor_address c AND 3 = 0"
  shows "walk_result n m
     (if rw = WRITE \<and> (sd_writeprotect (cm_segment_descriptor c) \<or> pd_writeprotect (cm_page_descriptor c))
      then Inl 7
      else Inr (pd_page_frame_base (cm_page_descriptor c) * PAGESIZE + poff la,
        cm_page_descriptor_address c,
        pd_set_used (if rw = WRITE then pd_set_modified (cm_page_descriptor c) else cm_page_descriptor c)))
     (l_to_p_page io la n rw m1)"
proof -
  define wp where "wp = (sd_writeprotect (cm_segment_descriptor c) \<or> pd_writeprotect (cm_page_descriptor c))"
  define pd where "pd = pd_set_used (if rw = WRITE then pd_set_modified (cm_page_descriptor c)
    else cm_page_descriptor c)"
  note folds = wp_def [symmetric] pd_def [symmetric]
  show ?thesis
  proof (cases "rw = WRITE \<and> wp")
    case True
    then show ?thesis
      unfolding folds using c mem
      by (auto simp: walk_result_def l_to_p_page_def Let_def faultcode_set mem_byte_def
          get_page_def fun_eq_iff upd_cmmu_def set_cmmu_def folds)
  next
    case False
    then have f: "(rw = WRITE \<and> wp) = False" by simp
    let ?m2 = "upd_cmmu n (\<lambda>c. c\<lparr>cm_page_descriptor := pd\<rparr>) (m1\<lparr>g_last_writeprotect := wp\<rparr>)"
    have mem2: "mem_byte ?m2 = mem_byte m"
      using mem by (simp add: mem_byte_def get_page_def fun_eq_iff upd_cmmu_def set_cmmu_def)
    have "unat (cm_page_descriptor_address c) + 3 < unat (g_memory_size ?m2)" using ram by simp
    from write_aligned_step [OF al this, of io pd] obtain m3 where
      m3: "write_sim_w io ?m2 (cm_page_descriptor_address c) pd = Some (0, m3)" "ram_step ?m2 m3"
        "mem_byte m3 = put_word pd (unat (cm_page_descriptor_address c)) (mem_byte ?m2)" .
    show ?thesis
      unfolding folds f if_False using m3(1,3) mem2 ram_step_frame [OF m3(2)] c
      by (simp add: walk_result_def l_to_p_page_def Let_def folds f del: de_Morgan_conj)
  qed
qed

lemma l_to_p_walk_result:
  assumes ad: "cm_area_descriptor (g_cmmu_table m n) = ad" and ram: "tables_in_ram m ad la"
  shows "walk_result n m (walk_spec (mem_word m) usmode la rw ad) (l_to_p_walk io usmode la n rw m)"
proof -
  let ?sda = "seg_addr ad la"
  define sd where "sd = mem_word m (unat ?sda)"
  let ?pda = "pd_addr sd la"
  define pd where "pd = mem_word m (unat ?pda)"
  let ?m1 = "upd_cmmu n (\<lambda>c. c\<lparr>cm_segment_descriptor_address := ?sda\<rparr>) m"
  have "unat ?sda + 3 < unat (g_memory_size ?m1)" using ram by (simp add: tables_in_ram_def)
  from read_aligned_step [OF seg_addr_aligned this, of io] obtain m2 where
    m2: "read_sim_w io ?m1 ?sda = Some (sd, m2)" "ram_step ?m1 m2" "mem_byte m2 = mem_byte m"
    by (metis mem_word_byte sd_def upd_cmmu_frame(1))
  let ?m3 = "upd_cmmu n (\<lambda>c. c\<lparr>cm_segment_descriptor := sd\<rparr>) m2"
  let ?m4 = "upd_cmmu n (\<lambda>c. c\<lparr>cm_page_descriptor_address := ?pda\<rparr>)
      (or_last (sd_cacheinhibit sd) (sd_global sd) (sd_writethru sd) ?m3)"
  have size4: "g_memory_size ?m4 = g_memory_size m" using ram_step_frame(2) [OF m2(2)] by simp
  have pda_ram: "unat ?pda + 3 < unat (g_memory_size ?m4)"
    unfolding size4 using ram by (simp add: tables_in_ram_def sd_def Let_def)
  have "mem_byte ?m4 = mem_byte m" using m2(3) by simp
  with read_aligned_step [OF pd_addr_aligned pda_ram, of io] obtain m5 where
    m5: "read_sim_w io ?m4 ?pda = Some (pd, m5)" "ram_step ?m4 m5" "mem_byte m5 = mem_byte m"
    by (metis mem_word_byte pd_def)
  let ?m6 = "upd_cmmu n (\<lambda>c. c\<lparr>cm_page_descriptor := pd\<rparr>) m5"
  have c6: "cm_page_descriptor_address (g_cmmu_table ?m6 n) = ?pda"
    "cm_segment_descriptor (g_cmmu_table ?m6 n) = sd" "cm_page_descriptor (g_cmmu_table ?m6 n) = pd"
    using ram_step_frame(1) [OF m5(2)] ram_step_frame(1) [OF m2(2)] by simp_all
  have e: "g_sim_errno m2 = False" "g_sim_errno m5 = False"
    using ram_step_frame(3) [OF m2(2)] ram_step_frame(3) [OF m5(2)] by simp_all
  have walk: "l_to_p_walk io usmode la n rw m =
      (if \<not> sd_valid sd then l_to_p_fault n 4 True ?m3
       else if usmode = M_USER \<and> sd_supervisor_only sd then
         l_to_p_fault n 6 True (or_last (sd_cacheinhibit sd) (sd_global sd) (sd_writethru sd) ?m3)
       else if \<not> pd_valid pd then l_to_p_fault n 5 False ?m6
       else if usmode = M_USER \<and> pd_supervisor_only pd then l_to_p_fault n 6 False ?m6
       else l_to_p_page io la n rw ?m6)"
    using m2(1) m5(1) e by (simp add: l_to_p_walk_def ad Let_def seg_addr_def pd_addr_def)
  have spec: "walk_spec (mem_word m) usmode la rw ad =
      (if \<not> sd_valid sd then Inl 4
       else if usmode = M_USER \<and> sd_supervisor_only sd then Inl 6
       else if \<not> pd_valid pd then Inl 5
       else if usmode = M_USER \<and> pd_supervisor_only pd then Inl 6
       else if rw = WRITE \<and> (sd_writeprotect sd \<or> pd_writeprotect pd) then Inl 7
       else Inr (pd_page_frame_base pd * PAGESIZE + poff la, ?pda,
              pd_set_used (if rw = WRITE then pd_set_modified pd else pd)))"
    by (simp add: walk_spec_def sd_def pd_def Let_def)
  have page: "walk_result n m
     (if rw = WRITE \<and> (sd_writeprotect sd \<or> pd_writeprotect pd) then Inl 7
      else Inr (pd_page_frame_base pd * PAGESIZE + poff la, ?pda,
        pd_set_used (if rw = WRITE then pd_set_modified pd else pd)))
     (l_to_p_page io la n rw ?m6)"
    by (rule l_to_p_page_result [OF refl, of ?m6 m n rw la io, unfolded c6])
       (use m5(3) pda_ram ram_step_frame(2) [OF m5(2)] size4 in simp_all)
  have "walk_result n m (Inl 4) (l_to_p_fault n 4 True ?m3)"
    "walk_result n m (Inl 6)
       (l_to_p_fault n 6 True (or_last (sd_cacheinhibit sd) (sd_global sd) (sd_writethru sd) ?m3))"
    "walk_result n m (Inl 5) (l_to_p_fault n 5 False ?m6)"
    "walk_result n m (Inl 6) (l_to_p_fault n 6 False ?m6)"
    by (rule walk_result_fault; simp add: m2(3) m5(3))+
  then show ?thesis unfolding walk spec using page by (simp split del: if_split split: if_splits)
qed

lemma mem_word_eval: "n mod 4 = 0 \<Longrightarrow> mem_word m n = pg_values (get_page (n div 4096) m) (n mod 4096 div 4)"
  using mult_div_mod_eq [of 4 n] by (simp add: word_values)

section \<open>Properties\<close>

text \<open>The area descriptor of a mode, and the addresses that the page tables translate.\<close>

definition area_of :: "nat \<Rightarrow> cmmu_registers \<Rightarrow> u32" where
  "area_of usmode c = (if usmode = M_USER then cm_uapr c else cm_sapr c)"

definition control_area :: "nat \<Rightarrow> u32 \<Rightarrow> bool" where
  "control_area usmode la \<longleftrightarrow> usmode = M_SUPERVISOR \<and> la AND 0xfff00000 = 0xfff00000"

definition paged :: "nat \<Rightarrow> u32 \<Rightarrow> cmmu_registers \<Rightarrow> bool" where
  "paged usmode la c \<longleftrightarrow>
     \<not> control_area usmode la \<and> ad_valid (area_of usmode c) \<and> batc_find usmode la c = None"

text \<open>The CMMU that a translation uses.\<close>

definition cmmu_used :: "mach \<Rightarrow> nat \<Rightarrow> nat" where
  "cmmu_used m cmmu = g_selected_processor m + (if 4 \<le> cmmu then 4 else 0)"

lemma batc_find_bwp: "cm_bwp c = cm_bwp c' \<Longrightarrow> batc_find us la c = batc_find us la c'"
  by (simp add: batc_find_def)

text \<open>The state when the area descriptor has been fetched.\<close>

definition before_area :: "nat \<Rightarrow> mach \<Rightarrow> mach" where
  "before_area n m =
     upd_cmmu n (\<lambda>c. c\<lparr>cm_batc := bf_set 0 1 0 (cm_batc c)\<rparr>) (m\<lparr>g_last_writeprotect := False\<rparr>)"

definition after_area :: "nat \<Rightarrow> nat \<Rightarrow> mach \<Rightarrow> mach" where
  "after_area usmode n m =
     (let ad = area_of usmode (g_cmmu_table m n)
      in (upd_cmmu n (\<lambda>c. c\<lparr>cm_area_descriptor := ad\<rparr>) (before_area n m))
           \<lparr>g_last_cacheinhibit := ad_cacheinhibit ad, g_last_global := ad_global ad,
            g_last_writethru := ad_writethru ad\<rparr>)"

lemma mem_byte_last [simp]:
  "mem_byte (m\<lparr>g_last_writeprotect := a\<rparr>) = mem_byte m"
  "mem_byte (m\<lparr>g_last_cacheinhibit := b\<rparr>) = mem_byte m"
  "mem_byte (m\<lparr>g_last_global := c\<rparr>) = mem_byte m"
  "mem_byte (m\<lparr>g_last_writethru := d\<rparr>) = mem_byte m"
  by (simp_all add: mem_byte_def get_page_def fun_eq_iff)

lemma area_of_batc [simp]: "area_of usmode (c\<lparr>cm_batc := b\<rparr>) = area_of usmode c"
  by (simp add: area_of_def)

lemma area_frame:
  "mem_byte (before_area n m) = mem_byte m" "mem_byte (after_area usmode n m) = mem_byte m"
  "g_memory_size (after_area usmode n m) = g_memory_size m"
  "cm_area_descriptor (g_cmmu_table (after_area usmode n m) n) = area_of usmode (g_cmmu_table m n)"
  by (simp_all add: before_area_def after_area_def Let_def)

lemma l_to_p_eq:
  assumes "bit (g_cmmus m) cmmu"
  shows "l_to_p io usmode la cmmu rw m =
     (if control_area usmode la then Some (l_to_p_control la (cmmu_used m cmmu) (before_area (cmmu_used m cmmu) m))
      else if \<not> ad_valid (area_of usmode (g_cmmu_table m (cmmu_used m cmmu))) then
        Some (E_NONE, la, upd_cmmu (cmmu_used m cmmu) (\<lambda>c. c\<lparr>cm_segment_descriptor_address := -1\<rparr>)
                            (after_area usmode (cmmu_used m cmmu) m))
      else case batc_find usmode la (g_cmmu_table m (cmmu_used m cmmu)) of
             Some b \<Rightarrow> Some (l_to_p_batc la (cmmu_used m cmmu) rw b (after_area usmode (cmmu_used m cmmu) m))
           | None \<Rightarrow> l_to_p_walk io usmode la (cmmu_used m cmmu) rw (after_area usmode (cmmu_used m cmmu) m))"
proof -
  let ?n = "cmmu_used m cmmu"
  have batc: "batc_find usmode la (g_cmmu_table (after_area usmode ?n m) ?n) =
      batc_find usmode la (g_cmmu_table m ?n)"
    by (rule batc_find_bwp) (simp add: after_area_def before_area_def Let_def)
  have ad: "area_of usmode (g_cmmu_table (before_area ?n m) ?n) = area_of usmode (g_cmmu_table m ?n)"
    by (simp add: before_area_def)
  show ?thesis
    using assms unfolding l_to_p_def Let_def cmmu_used_def [symmetric] area_of_def [symmetric]
      before_area_def [symmetric] control_area_def [symmetric] ad
      after_area_def [unfolded Let_def, symmetric] batc
    by simp
qed

lemma l_to_p_paged:
  assumes "bit (g_cmmus m) cmmu" and "paged usmode la (g_cmmu_table m (cmmu_used m cmmu))"
    and "tables_in_ram m (area_of usmode (g_cmmu_table m (cmmu_used m cmmu))) la"
  shows "walk_result (cmmu_used m cmmu) m
     (walk_spec (mem_word m) usmode la rw (area_of usmode (g_cmmu_table m (cmmu_used m cmmu))))
     (l_to_p io usmode la cmmu rw m)"
proof -
  let ?n = "cmmu_used m cmmu"
  let ?ad = "area_of usmode (g_cmmu_table m ?n)"
  let ?m2 = "after_area usmode ?n m"
  have eq: "l_to_p io usmode la cmmu rw m = l_to_p_walk io usmode la ?n rw ?m2"
    using assms(2) by (simp add: l_to_p_eq [OF assms(1)] paged_def)
  have "tables_in_ram ?m2 ?ad la"
    using assms(3) mem_word_byte [OF area_frame(2)] area_frame(3) by (simp only: tables_in_ram_def)
  from l_to_p_walk_result [OF area_frame(4) this, of usmode rw io]
  show ?thesis
    unfolding eq walk_result_def area_frame(2) mem_word_byte [OF area_frame(2)] .
qed

text \<open>
  Property C1.  Where the page tables decide, \<open>l_to_p\<close> computes what the walk of the specification
  computes: the same fault code with memory unchanged, or the same physical address with memory
  changed in the used and modified bits of the page descriptor only.  Any IO routine may be plugged in.
\<close>

theorem l_to_p_refines_walk:
  assumes "bit (g_cmmus m) cmmu" and "paged usmode la (g_cmmu_table m (cmmu_used m cmmu))"
    and "tables_in_ram m (area_of usmode (g_cmmu_table m (cmmu_used m cmmu))) la"
  shows "case walk_spec (mem_word m) usmode la rw (area_of usmode (g_cmmu_table m (cmmu_used m cmmu))) of
      Inl code \<Rightarrow>
        \<exists>pa m'. l_to_p io usmode la cmmu rw m = Some (DACC_OR_CACC (cmmu_used m cmmu), pa, m') \<and>
          mem_byte m' = mem_byte m \<and> bf_get 16 3 (cm_lsr (g_cmmu_table m' (cmmu_used m cmmu))) = code
    | Inr (pa, pda, pd) \<Rightarrow>
        \<exists>m'. l_to_p io usmode la cmmu rw m = Some (E_NONE, pa, m') \<and>
          mem_byte m' = put_word pd (unat pda) (mem_byte m)"
  using l_to_p_paged [OF assms, of rw io] by (simp only: walk_result_def)

text \<open>A machine with one segment and one page: \<open>0x123\<close> is mapped to \<open>0x5123\<close>, for reading only.\<close>

definition example_mach :: mach where
  "example_mach =
     cleared_mach\<lparr>g_cmmus := 0xff, g_memory_size := 0x10000,
       g_page_table := (\<lambda>_. None)
         (0 \<mapsto> \<lparr>pg_values = (\<lambda>_. 0)(0 := 0x1001), pg_decoded_part = None\<rparr>,
          1 \<mapsto> \<lparr>pg_values = (\<lambda>_. 0)(0 := 0x5005), pg_decoded_part = None\<rparr>),
       g_cmmu_table := (\<lambda>_. cleared_cmmu\<lparr>cm_uapr := 1\<rparr>)\<rparr>"

lemma example_mach_simps:
  "g_cmmus example_mach = 0xff" "cmmu_used example_mach 0 = 0"
  "area_of M_USER (g_cmmu_table example_mach 0) = 1" "g_memory_size example_mach = 0x10000"
  "mem_word example_mach 0 = 0x1001" "mem_word example_mach 4096 = 0x5005"
  by (simp_all add: example_mach_def cleared_mach_def cmmu_used_def area_of_def mem_word_eval get_page_def)

lemma example_addresses:
  "seg_addr 1 0x123 = 0" "pd_addr 0x1001 0x123 = 0x1000"
  by (simp_all add: seg_addr_def pd_addr_def ad_segment_table_base_def sd_page_table_base_def btos_def
      btop_def bf_get_def)

lemma example_paged: "paged M_USER 0x123 (g_cmmu_table example_mach 0)"
  by (simp add: paged_def control_area_def example_mach_simps(3) ad_valid_def bf_bit_def)
     (simp add: example_mach_def batc_find_def cleared_cmmu_def batc_match_def bw_valid_def bf_bit_def
        find_None_iff)

lemma example_in_ram: "tables_in_ram example_mach 1 0x123"
  by (simp add: tables_in_ram_def example_addresses example_mach_simps Let_def)

lemma example_walk:
  "walk_spec (mem_word example_mach) M_USER 0x123 READ 1 = Inr (0x5123, 0x1000, 0x500d)"
  "walk_spec (mem_word example_mach) M_USER 0x123 WRITE 1 = Inl 7"
  by (simp_all add: walk_spec_def example_addresses example_mach_simps Let_def sd_valid_def
      sd_supervisor_only_def pd_valid_def pd_supervisor_only_def sd_writeprotect_def pd_writeprotect_def
      bf_bit_def pd_page_frame_base_def bf_get_def poff_def pd_set_used_def bf_set_def)

theorem l_to_p_refines_walk_witness:
  "\<exists>m'. l_to_p (\<lambda>m a p sz mop ov. None) M_USER 0x123 0 READ example_mach = Some (E_NONE, 0x5123, m')"
proof -
  have "bit (g_cmmus example_mach) 0"
    "paged M_USER 0x123 (g_cmmu_table example_mach (cmmu_used example_mach 0))"
    "tables_in_ram example_mach (area_of M_USER (g_cmmu_table example_mach (cmmu_used example_mach 0))) 0x123"
    by (simp_all add: example_mach_simps example_paged [simplified] example_in_ram [simplified])
  from l_to_p_refines_walk [OF this, where rw = READ and io = "\<lambda>m a p sz mop ov. None"]
  show ?thesis by (auto simp: example_mach_simps example_walk)
qed

text \<open>
  Property C2.  Protection: a user translation that succeeds through the page tables never used a
  segment or a page that is invalid or reserved to the supervisor, and one for writing never used a
  write-protected one; the frame is the one of the page descriptor and the offset is kept.
\<close>

theorem l_to_p_protects:
  assumes "bit (g_cmmus m) cmmu" and "paged usmode la (g_cmmu_table m (cmmu_used m cmmu))"
    and "tables_in_ram m (area_of usmode (g_cmmu_table m (cmmu_used m cmmu))) la"
    and "l_to_p io usmode la cmmu rw m = Some (E_NONE, pa, m')"
    and sd: "sd = mem_word m (unat (seg_addr (area_of usmode (g_cmmu_table m (cmmu_used m cmmu))) la))"
    and pd: "pd = mem_word m (unat (pd_addr sd la))"
  shows "sd_valid sd \<and> pd_valid pd \<and>
     (usmode = M_USER \<longrightarrow> \<not> sd_supervisor_only sd \<and> \<not> pd_supervisor_only pd) \<and>
     (rw = WRITE \<longrightarrow> \<not> sd_writeprotect sd \<and> \<not> pd_writeprotect pd) \<and>
     pa = pd_page_frame_base pd * PAGESIZE + poff la"
proof -
  have "DACC_OR_CACC n \<noteq> E_NONE" for n by (simp add: DACC_OR_CACC_def)
  then show ?thesis
    using l_to_p_paged [OF assms(1-3), of rw io] assms(4)
    by (auto simp: walk_result_def walk_spec_def Let_def sd [symmetric] pd [symmetric] split: if_splits)
qed

theorem l_to_p_protects_witness:
  "pd_valid (mem_word example_mach 0x1000)"
proof -
  let ?io = "(\<lambda>m a p sz mop ov. None) :: io_fn"
  have 1: "bit (g_cmmus example_mach) 0"
    "paged M_USER 0x123 (g_cmmu_table example_mach (cmmu_used example_mach 0))"
    "tables_in_ram example_mach (area_of M_USER (g_cmmu_table example_mach (cmmu_used example_mach 0))) 0x123"
    by (simp_all add: example_mach_simps example_paged [simplified] example_in_ram [simplified])
  obtain m' where 2: "l_to_p ?io M_USER 0x123 0 READ example_mach = Some (E_NONE, 0x5123, m')"
    using l_to_p_paged [OF 1, where rw = READ and io = ?io] by (auto simp: walk_result_def example_mach_simps example_walk)
  show ?thesis
    using l_to_p_protects [OF 1 2 refl refl] by (simp add: example_mach_simps example_addresses)
qed



end
