(* ===== verification/Sim_Access.thy ===== *)
theory Sim_Access
  imports Sim_Paths Sim_Translate
begin

text \<open>
  The data accesses of the processor as a whole: the translation of the CMMU, the transfer, and the
  software TLBs that remember the translation; and the BATC entries whose changes take it back.
\<close>

section \<open>What a translation leaves alone\<close>

definition same_view :: "mach \<Rightarrow> mach \<Rightarrow> bool" where
  "same_view m m' \<longleftrightarrow> tlb_view m' = tlb_view m \<and> g_memory_size m' = g_memory_size m"

named_theorems view

lemma same_view_refl [view]: "same_view m m"
  by (simp add: same_view_def)

lemma same_view_trans: "same_view m m' \<Longrightarrow> same_view m' m'' \<Longrightarrow> same_view m m''"
  by (simp add: same_view_def)

lemma same_view_steps [view]:
  "same_view m (upd_cmmu n f m)" "same_view m (or_last a b c m)" "same_view m (m\<lparr>g_last_writeprotect := d\<rparr>)"
  "same_view m (before_area n m)" "same_view m (after_area us n m)"
  by (simp_all add: same_view_def tlb_view_def upd_cmmu_def set_cmmu_def or_last_def before_area_def after_area_def Let_def)

lemma same_view_ram_step: "ram_step m m' \<Longrightarrow> same_view m m'"
  by (cases m, cases m') (simp add: ram_step_def same_view_def tlb_view_def)

lemma page_same_view:
  assumes "l_to_p_page io la n rw m = Some (ex, pa, m')"
    and "cm_page_descriptor_address (g_cmmu_table m n) AND 3 = 0"
    and "unat (cm_page_descriptor_address (g_cmmu_table m n)) + 3 < unat (g_memory_size m)"
  shows "same_view m m'"
proof -
  let ?c = "g_cmmu_table m n"
  let ?wp = "sd_writeprotect (cm_segment_descriptor ?c) \<or> pd_writeprotect (cm_page_descriptor ?c)"
  let ?pd = "pd_set_used (if rw = WRITE then pd_set_modified (cm_page_descriptor ?c) else cm_page_descriptor ?c)"
  let ?m1 = "upd_cmmu n (\<lambda>c. c\<lparr>cm_page_descriptor := ?pd\<rparr>) (m\<lparr>g_last_writeprotect := ?wp\<rparr>)"
  have "unat (cm_page_descriptor_address ?c) + 3 < unat (g_memory_size ?m1)" using assms(3) by simp
  from write_aligned_step [OF assms(2) this, of io ?pd] obtain m2 where
    m2: "write_sim_w io ?m1 (cm_page_descriptor_address ?c) ?pd = Some (0, m2)" "ram_step ?m1 m2" .
  have v1: "same_view m ?m1" by (rule same_view_trans [of _ "m\<lparr>g_last_writeprotect := ?wp\<rparr>"]) (rule view)+
  have v2: "same_view m m2" by (rule same_view_trans [OF v1 same_view_ram_step [OF m2(2)]])
  show ?thesis
  proof (cases "rw = WRITE \<and> ?wp")
    case True
    then have "m' = upd_cmmu n (lsr_set_faultcode 7) (m\<lparr>g_last_writeprotect := ?wp\<rparr>)"
      using assms(1) by (simp add: l_to_p_page_def Let_def)
    then show ?thesis
      using same_view_trans [of m "m\<lparr>g_last_writeprotect := ?wp\<rparr>" m'] view by metis
  next
    case False
    have e: "g_sim_errno m2 = False" by (rule ram_step_frame(3) [OF m2(2)])
    have "m' = or_last (pd_cacheinhibit (cm_page_descriptor (g_cmmu_table m2 n)))
        (pd_global (cm_page_descriptor (g_cmmu_table m2 n))) (pd_writethru (cm_page_descriptor (g_cmmu_table m2 n))) m2"
      using assms(1) False m2(1) e unfolding l_to_p_page_def Let_def by (simp split: if_splits)
    then show ?thesis using same_view_trans [OF v2] view by metis
  qed
qed

lemma fault_same_view: "l_to_p_fault n code b m = Some (ex, pa, m') \<Longrightarrow> same_view m m'"
  using view by (auto simp: l_to_p_fault_def)

lemma walk_same_view:
  assumes ad: "cm_area_descriptor (g_cmmu_table m n) = ad" and ram: "tables_in_ram m ad la"
    and r: "l_to_p_walk io us la n rw m = Some (ex, pa, m')"
  shows "same_view m m'"
proof -
  let ?sda = "seg_addr ad la"
  define sd where "sd = mem_word m (unat ?sda)"
  let ?pda = "pd_addr sd la"
  let ?m1 = "upd_cmmu n (\<lambda>c. c\<lparr>cm_segment_descriptor_address := ?sda\<rparr>) m"
  have "unat ?sda + 3 < unat (g_memory_size ?m1)" using ram by (simp add: tables_in_ram_def)
  from read_aligned_step [OF seg_addr_aligned this, of io] obtain m2 where
    m2: "read_sim_w io ?m1 ?sda = Some (sd, m2)" "ram_step ?m1 m2"
    by (metis mem_word_byte sd_def upd_cmmu_frame(1))
  let ?m3 = "upd_cmmu n (\<lambda>c. c\<lparr>cm_segment_descriptor := sd\<rparr>) m2"
  let ?m3' = "or_last (sd_cacheinhibit sd) (sd_global sd) (sd_writethru sd) ?m3"
  let ?m4 = "upd_cmmu n (\<lambda>c. c\<lparr>cm_page_descriptor_address := ?pda\<rparr>) ?m3'"
  have v3: "same_view m ?m3"
    using same_view_trans [OF same_view_trans [OF _ same_view_ram_step [OF m2(2)]]] view by metis
  have v3': "same_view m ?m3'" using same_view_trans [OF v3] view by metis
  have v4: "same_view m ?m4" using same_view_trans [OF v3'] view by metis
  then have pda_ram: "unat ?pda + 3 < unat (g_memory_size ?m4)"
    using ram by (simp add: same_view_def tables_in_ram_def sd_def Let_def)
  obtain pd m5 where m5: "read_sim_w io ?m4 ?pda = Some (pd, m5)" "ram_step ?m4 m5"
    using read_aligned_step [OF pd_addr_aligned pda_ram, of io] by metis
  let ?m6 = "upd_cmmu n (\<lambda>c. c\<lparr>cm_page_descriptor := pd\<rparr>) m5"
  have v6: "same_view m ?m6"
    using same_view_trans [OF same_view_trans [OF v4 same_view_ram_step [OF m5(2)]]] view by metis
  have e: "g_sim_errno m2 = False" "g_sim_errno m5 = False"
    using ram_step_frame(3) [OF m2(2)] ram_step_frame(3) [OF m5(2)] by simp_all
  have pda: "cm_page_descriptor_address (g_cmmu_table ?m6 n) = ?pda"
    using ram_step_frame(1) [OF m5(2)] by simp
  have "unat ?pda + 3 < unat (g_memory_size ?m6)"
    using pda_ram v4 v6 by (simp add: same_view_def)
  then have page: "same_view ?m6 m'" if "l_to_p_page io la n rw ?m6 = Some (ex, pa, m')"
    using page_same_view [OF that] pda pd_addr_aligned by simp
  have walk: "l_to_p_walk io us la n rw m =
      (if \<not> sd_valid sd then l_to_p_fault n 4 True ?m3
       else if us = M_USER \<and> sd_supervisor_only sd then l_to_p_fault n 6 True ?m3'
       else if \<not> pd_valid pd then l_to_p_fault n 5 False ?m6
       else if us = M_USER \<and> pd_supervisor_only pd then l_to_p_fault n 6 False ?m6
       else l_to_p_page io la n rw ?m6)"
    using m2(1) m5(1) e by (simp add: l_to_p_walk_def ad Let_def seg_addr_def pd_addr_def)
  show ?thesis
    using r unfolding walk
    by (auto split: if_splits intro: same_view_trans [OF v3 fault_same_view] same_view_trans [OF v3' fault_same_view]
        same_view_trans [OF v6 fault_same_view] same_view_trans [OF v6 page])
qed

lemma translation_same_view:
  assumes "bit (g_cmmus m) cmmu" and "paged us la (g_cmmu_table m (cmmu_used m cmmu))"
    and "tables_in_ram m (area_of us (g_cmmu_table m (cmmu_used m cmmu))) la"
    and "l_to_p io us la cmmu rw m = Some (ex, pa, m')"
  shows "same_view m m'"
proof -
  let ?n = "cmmu_used m cmmu"
  let ?m2 = "after_area us ?n m"
  have "l_to_p_walk io us la ?n rw ?m2 = Some (ex, pa, m')"
    using assms(2,4) by (simp add: l_to_p_eq [OF assms(1)] paged_def)
  moreover have "tables_in_ram ?m2 (area_of us (g_cmmu_table m ?n)) la"
    using assms(3) mem_word_byte [OF area_frame(2)] area_frame(3) by (simp only: tables_in_ram_def)
  ultimately show ?thesis
    using same_view_trans [OF same_view_steps(5) walk_same_view [OF area_frame(4)]] by blast
qed

lemma cr_view [simp]: "tlb_view (set_cr n v m) = tlb_view m" "tlb_view (or_cr n v m) = tlb_view m"
  by (simp_all add: tlb_view_def set_cr_def or_cr_def)

lemma dmt_size_view: "set_dmt_size la rp sz rw m = Some m' \<Longrightarrow> tlb_view m' = tlb_view m"
  by (auto simp: set_dmt_size_def Let_def split: if_splits dest!: bind_SomeD)

lemma dmt_view: "set_dmt_regs la rp sz mop rw us m = Some m' \<Longrightarrow> tlb_view m' = tlb_view m"
  by (auto simp: set_dmt_regs_def Let_def dest!: bind_SomeD dmt_size_view split: if_splits)

lemma catch_view [simp]: "tlb_view (catch_dacc ex us m) = tlb_view m"
  by (simp add: catch_dacc_def tlb_view_def)

section \<open>An access that misses the TLBs\<close>

lemma same_page:
  fixes pa sz :: u32
  assumes "sz \<in> {1, 2, 4, 8}"
  shows "drop_bit 12 (pa AND NOT (sz - 1)) = drop_bit 12 pa"
  by (rule bit_word_eqI) (use assms in \<open>auto simp: bit_simps bit_numeral_rec dest: bit_imp_le_length split: nat.splits\<close>)

lemma view_tlbs:
  assumes "tlb_view m' = tlb_view m"
  shows "load_tlb u m' = load_tlb u m" "store_tlb u m' = store_tlb u m" "g_tracing m' = g_tracing m"
  using assms by (auto simp: tlb_view_def load_tlb_def store_tlb_def)

text \<open>
  Property C15.  A data access of the processor that misses the software TLBs (\<open>l_mem_op\<close>), at an address that the
  page tables translate, with the tables in RAM and tracing off.  The walk of the specification decides:
  if it faults, the access ends in an exception and no entry of any TLB changes; if it yields the
  physical address \<open>pa\<close>, and \<open>pa\<close> lies in RAM, the access succeeds, and from then on the load TLB of the mode, and
  for a write the store TLB too, send the page of the address to the page frame of \<open>pa\<close>, so that the next access
  goes there on the fast path; that page of RAM exists, no other entry changes, and still every
  page that can be stored to can be loaded from.
\<close>

theorem missed_access_translated:
  assumes "bit (g_cmmus m) (DATA_CMMU m la)" and n: "n = cmmu_used m (DATA_CMMU m la)"
    and "paged us la (g_cmmu_table m n)" and "tables_in_ram m (area_of us (g_cmmu_table m n)) la"
    and "g_tracing m = 0" and "tlb_inv m" and "sz \<in> {1, 2, 4, 8}"
    and "rw_of mop = READ \<longrightarrow> tlb_entry (load_tlb us m) (btos la) (btop la) = None"
    and "l_mem_op io la rp sz mop us m = Some (ex, m')"
  shows "case walk_spec (mem_word m) us la (rw_of mop) (area_of us (g_cmmu_table m n)) of
      Inl code \<Rightarrow> ex \<noteq> E_NONE \<and>
        (\<forall>u s p. tlb_entry (load_tlb u m') s p = tlb_entry (load_tlb u m) s p \<and>
           tlb_entry (store_tlb u m') s p = tlb_entry (store_tlb u m) s p)
    | Inr (pa, pda, pd) \<Rightarrow> pa AND NOT (sz - 1) < g_memory_size m \<longrightarrow>
        ex = E_NONE \<and> g_page_table m' (unat (drop_bit 12 pa)) \<noteq> None \<and>
        tlb_entry (load_tlb us m') (btos la) (btop la) = Some (unat (drop_bit 12 pa)) \<and>
        (rw_of mop = WRITE \<longrightarrow> tlb_entry (store_tlb us m') (btos la) (btop la) = Some (unat (drop_bit 12 pa))) \<and>
        tlb_inv m' \<and>
        (\<forall>u s p. \<not> ((u = M_USER \<longleftrightarrow> us = M_USER) \<and> s = btos la \<and> p = btop la) \<longrightarrow>
           tlb_entry (load_tlb u m') s p = tlb_entry (load_tlb u m) s p \<and>
           tlb_entry (store_tlb u m') s p = tlb_entry (store_tlb u m) s p)"
proof -
  let ?rw = "rw_of mop" and ?spec = "walk_spec (mem_word m) us la (rw_of mop) (area_of us (g_cmmu_table m n))"
  note walk = l_to_p_paged [OF assms(1) assms(3,4) [unfolded n], of ?rw io, folded n]
  obtain ex1 pa m1 where t: "l_to_p io us la (DATA_CMMU m la) ?rw m = Some (ex1, pa, m1)"
    using assms(9) by (auto simp: l_mem_op_def dest!: bind_SomeD)
  have view: "tlb_view m1 = tlb_view m" "g_memory_size m1 = g_memory_size m"
    using translation_same_view [OF assms(1) assms(3,4) [unfolded n] t] by (simp_all add: same_view_def)
  note view1 = view_tlbs [OF view(1)]
  show ?thesis
  proof (cases ?spec)
    case (Inl code)
    then have ex1: "ex1 \<noteq> E_NONE" using walk t by (auto simp: walk_result_def DACC_OR_CACC_def)
    then have "ex = ex1 \<and> tlb_view m' = tlb_view m1"
      using assms(9) t by (auto simp: l_mem_op_def Let_def dest!: bind_SomeD dmt_view split: if_splits)
    with ex1 Inl view_tlbs [of m' m] view(1) show ?thesis by simp
  next
    case (Inr r)
    then obtain pda pd where r: "r = (pa, pda, pd)" and ex1: "ex1 = E_NONE"
      using walk t by (cases r) (auto simp: walk_result_def)
    have "ex = E_NONE \<and> g_page_table m' (unat (drop_bit 12 pa)) \<noteq> None \<and>
        tlb_entry (load_tlb us m') (btos la) (btop la) = Some (unat (drop_bit 12 pa)) \<and>
        (?rw = WRITE \<longrightarrow> tlb_entry (store_tlb us m') (btos la) (btop la) = Some (unat (drop_bit 12 pa))) \<and>
        tlb_inv m' \<and>
        (\<forall>u s p. \<not> ((u = M_USER \<longleftrightarrow> us = M_USER) \<and> s = btos la \<and> p = btop la) \<longrightarrow>
           tlb_entry (load_tlb u m') s p = tlb_entry (load_tlb u m) s p \<and>
           tlb_entry (store_tlb u m') s p = tlb_entry (store_tlb u m) s p)"
      if "pa AND NOT (sz - 1) < g_memory_size m"
    proof -
      have "l_mem_ram la (pa AND NOT (sz - 1)) rp sz mop us m1 = Some (ex, m')"
        using assms(9) t ex1 that [unfolded not_le [symmetric]] view(2) by (simp add: l_mem_op_def Let_def catch_dacc_def)
      moreover have "tlb_inv m1" using assms(6) unfolding tlb_inv_def view1 .
      ultimately show ?thesis
        using slow_access_fills_tlb [of la "pa AND NOT (sz - 1)" rp sz mop us m1 ex m' "unat (drop_bit 12 pa)"]
          assms(5,7,8) same_page [of sz pa] unfolding view1 by simp
    qed
    then show ?thesis by (simp add: Inr r)
  qed
qed

theorem missed_access_translated_witness:
  "\<exists>m'. l_mem_op (\<lambda>_ _ _ _ _ _. None) 0x123 (PReg 3) BYTE LD M_USER example_mach = Some (E_NONE, m') \<and>
     tlb_entry (load_tlb M_USER m') (btos 0x123) (btop 0x123) = Some 5"
proof -
  let ?io = "(\<lambda>_ _ _ _ _ _. None) :: io_fn"
  have cmmu: "DATA_CMMU example_mach 0x123 = 0"
    by (simp add: DATA_CMMU_def example_mach_def cleared_mach_def)
  have 1: "bit (g_cmmus example_mach) 0" "paged M_USER 0x123 (g_cmmu_table example_mach 0)"
    "tables_in_ram example_mach (area_of M_USER (g_cmmu_table example_mach 0)) 0x123"
    "g_tracing example_mach = 0" "tlb_inv example_mach"
    "tlb_entry (load_tlb M_USER example_mach) (btos 0x123) (btop 0x123) = None"
    using example_paged example_in_ram
    by (simp_all add: example_mach_simps tlb_inv_def) (simp_all add: example_mach_def cleared_mach_def tlb_entry_def
        load_tlb_def store_tlb_def)
  obtain m1 where m1: "l_to_p ?io M_USER 0x123 0 READ example_mach = Some (E_NONE, 0x5123, m1)"
    using l_to_p_paged [OF 1(1), of M_USER "0x123" READ ?io] 1(2,3)
    by (auto simp: example_mach_simps walk_result_def example_walk)
  have v: "g_tracing m1 = 0" "g_memory_size m1 = 0x10000"
    using translation_same_view [OF 1(1) _ _ m1] 1(2-4) by (simp_all add: example_mach_simps same_view_def tlb_view_def)
  have tr: "g_tracing (zero_r0 (set_reg k w (touch_page p m1))) = 0" for k w p
    using v(1) by (simp add: zero_r0_def set_reg_def touch_page_def put_page_def)
  have "l_mem_op ?io 0x123 (PReg 3) BYTE LD M_USER example_mach \<noteq> None"
    by (simp add: tr l_mem_op_def cmmu rw_of_def m1 v catch_dacc_def l_mem_ram_def Let_def poff_def do_mem_op_def
        mem_load_def aligned_to_def)
  then obtain ex m' where e: "l_mem_op ?io 0x123 (PReg 3) BYTE LD M_USER example_mach = Some (ex, m')"
    by (metis option.exhaust prod.exhaust)
  have n: "0 = cmmu_used example_mach (DATA_CMMU example_mach 0x123)" by (simp add: cmmu example_mach_simps)
  have "ex = E_NONE \<and> tlb_entry (load_tlb M_USER m') (btos 0x123) (btop 0x123) = Some 5"
    using missed_access_translated [OF _ n 1(2,3,4,5) _ _ e] 1(1,6)
    by (simp add: cmmu rw_of_def example_walk example_mach_simps)
  with e show ?thesis by blast
qed

section \<open>A changed BATC entry\<close>

text \<open>
  The block of addresses that a BATC entry maps: 512 KB, given by the top 13 bits.
\<close>

definition batc_page :: "u32 \<Rightarrow> nat \<Rightarrow> nat \<Rightarrow> bool" where
  "batc_page bw s p \<longleftrightarrow> (\<exists>a. drop_bit 19 a = bw_l_base_address bw \<and> s = btos a \<and> p = btop a)"

lemma unat_page: "btos a = unat a div 0x400000" "btop a = unat a div 0x1000 mod 0x400"
proof -
  have m: "(0x3ff :: u32) = mask 10" by (simp add: mask_eq_exp_minus_1)
  show "btos a = unat a div 0x400000" by (simp add: btos_def unat_drop_bit_eq drop_bit_nat_def)
  show "btop a = unat a div 0x1000 mod 0x400"
    unfolding btop_def m take_bit_eq_mask [symmetric]
    by (simp add: unsigned_take_bit_eq unat_drop_bit_eq drop_bit_nat_def take_bit_nat_def)
qed

lemma unat_block:
  assumes "unat b < 0x2000" and "i < 128"
  shows "unat (push_bit 19 b + of_nat i * PAGESIZE) = unat b * 0x80000 + i * 0x1000"
  using assms by (simp add: push_bit_eq_mult unat_word_ariths unat_of_nat)

lemma base_bound: "unat (bw_l_base_address bw) < 0x2000"
  unfolding bw_l_base_address_def bf_get_def
  by (simp add: unsigned_take_bit_eq take_bit_nat_def)

lemma same_page_parts:
  fixes N :: nat
  shows "N div 0x400000 = (N div 0x80000 * 0x80000 + N div 0x1000 mod 128 * 0x1000) div 0x400000" (is ?A)
    and "N div 0x1000 = (N div 0x80000 * 0x80000 + N div 0x1000 mod 128 * 0x1000) div 0x1000" (is ?B)
proof -
  define k where "k = N div 0x1000"
  have d: "N div 0x80000 = k div 128" "N div 0x400000 = k div 1024"
    by (simp_all add: k_def div_mult2_eq [symmetric])
  define q r where "q = k div 128" and "r = k mod 128"
  have "k = q * 128 + r" by (simp add: q_def r_def)
  then have "k div 128 * 0x80000 + k mod 128 * 0x1000 = k * 0x1000" unfolding q_def [symmetric] r_def [symmetric] by simp
  moreover have "k * 0x1000 div 0x400000 = k div 1024"
    using div_mult_mult2 [of "0x1000 :: nat" k 1024] by simp
  ultimately show ?A ?B by (simp_all add: d k_def [symmetric])
qed

text \<open>The 128 pages that a flush of the block visits are the pages of the block.\<close>

lemma block_pages:
  "(\<exists>i < 128. s = btos (push_bit 19 (bw_l_base_address bw) + of_nat i * PAGESIZE) \<and>
      p = btop (push_bit 19 (bw_l_base_address bw) + of_nat i * PAGESIZE)) \<longleftrightarrow> batc_page bw s p"
    (is "?L \<longleftrightarrow> _")
proof
  let ?b = "bw_l_base_address bw"
  have d: "drop_bit 19 a = ?b \<longleftrightarrow> unat a div 0x80000 = unat ?b" for a :: u32
    by (simp add: word_unat_eq_iff unat_drop_bit_eq drop_bit_nat_def)
  {
    assume ?L
    then obtain i where i: "i < 128" "s = btos (push_bit 19 ?b + of_nat i * PAGESIZE)"
      "p = btop (push_bit 19 ?b + of_nat i * PAGESIZE)" by blast
    have "unat (push_bit 19 ?b + of_nat i * PAGESIZE) div 0x80000 = unat ?b"
      unfolding unat_block [OF base_bound i(1)] using i(1) by simp
    then show "batc_page bw s p" unfolding batc_page_def d using i(2,3) by blast
  next
    assume "batc_page bw s p"
    then obtain a where a: "unat a div 0x80000 = unat ?b" "s = btos a" "p = btop a"
      unfolding batc_page_def d by blast
    have i: "unat a div 0x1000 mod 128 < 128" by simp
    have "unat a div 0x400000 = (unat ?b * 0x80000 + unat a div 0x1000 mod 128 * 0x1000) div 0x400000"
      "unat a div 0x1000 = (unat ?b * 0x80000 + unat a div 0x1000 mod 128 * 0x1000) div 0x1000"
      unfolding a(1) [symmetric] by (rule same_page_parts)+
    then show ?L using i a(2,3) unfolding unat_page
      by (intro exI [of _ "unat a div 0x1000 mod 128"]) (simp only: unat_block [OF base_bound i] simp_thms)
  }
qed

lemma block_flush:
  "tlb_entry (load_tlb us (flush_tlb_range (push_bit 19 (bw_l_base_address bw)) 0x80000 md m)) s p =
     (if (us = M_USER \<longleftrightarrow> md = M_USER) \<and> batc_page bw s p then None else tlb_entry (load_tlb us m) s p)"
  "tlb_entry (store_tlb us (flush_tlb_range (push_bit 19 (bw_l_base_address bw)) 0x80000 md m)) s p =
     (if (us = M_USER \<longleftrightarrow> md = M_USER) \<and> batc_page bw s p then None else tlb_entry (store_tlb us m) s p)"
proof -
  have n: "unat (drop_bit 12 (0x80000 + 4095 :: u32)) = 128" by simp
  show "tlb_entry (load_tlb us (flush_tlb_range (push_bit 19 (bw_l_base_address bw)) 0x80000 md m)) s p =
     (if (us = M_USER \<longleftrightarrow> md = M_USER) \<and> batc_page bw s p then None else tlb_entry (load_tlb us m) s p)"
    "tlb_entry (store_tlb us (flush_tlb_range (push_bit 19 (bw_l_base_address bw)) 0x80000 md m)) s p =
     (if (us = M_USER \<longleftrightarrow> md = M_USER) \<and> batc_page bw s p then None else tlb_entry (store_tlb us m) s p)"
    unfolding flush_tlb_range_def n block_pages [symmetric] by (simp_all only: flush_range_entries)
qed

lemma flush_range_cmmu [simp]: "g_cmmu_table (flush_tlb_range la len md m) = g_cmmu_table m"
proof -
  have "g_cmmu_table (flush_range_loop n la md m) = g_cmmu_table m" for n
    by (induction n arbitrary: la m) (simp_all add: flush_mode_page_def)
  then show ?thesis by (simp add: flush_tlb_range_def)
qed

text \<open>The loop over the eight entries, when at most the entry \<open>i\<close> has changed.\<close>

lemma flush_old_same:
  "\<forall>j \<in> set js. old j = cm_bwp (g_cmmu_table m n) j \<Longrightarrow> flush_old_batc n old js m = m"
  by (induction js arbitrary: m) simp_all

lemma flush_old_one:
  assumes "\<forall>j. j \<noteq> i \<longrightarrow> old j = cm_bwp (g_cmmu_table m n) j" and "i \<in> set js" and "distinct js" and "n < 4"
  shows "flush_old_batc n old js m =
     (if old i \<noteq> cm_bwp (g_cmmu_table m n) i then
        flush_tlb_range (push_bit 19 (bw_l_base_address (old i))) 0x80000 (unat (bw_supervisor (old i))) m else m)"
  using assms
proof (induction js arbitrary: m)
  case Nil
  then show ?case by simp
next
  case (Cons j js)
  show ?case
  proof (cases "j = i")
    case True
    then have "\<forall>k \<in> set js. old k = cm_bwp (g_cmmu_table m n) k" using Cons.prems(1,3) by auto
    then show ?thesis using True Cons.prems(4) by (simp add: flush_old_same)
  next
    case False
    then show ?thesis using Cons by simp
  qed
qed


lemma batc_port:
  assumes "i < 8"
  shows "cmmu_register_ptr (CMMU_BATC0 + 4 * of_nat i) = Some (48 + 4 * i)"
    and "CMMU_BATC0 \<le> CMMU_BATC0 + 4 * of_nat i" and "CMMU_BATC0 + 4 * of_nat i \<le> CMMU_BATC7"
proof -
  have u: "unat (4 * of_nat i :: u32) = 4 * i" "unat (0x400 + 4 * of_nat i :: u32) = 0x400 + 4 * i"
    using assms by (simp_all add: unat_word_ariths unat_of_nat)
  show "CMMU_BATC0 \<le> CMMU_BATC0 + 4 * of_nat i" "CMMU_BATC0 + 4 * of_nat i \<le> CMMU_BATC7"
    using assms unfolding word_le_nat_alt u by simp_all
  then show "cmmu_register_ptr (CMMU_BATC0 + 4 * of_nat i) = Some (48 + 4 * i)"
    using assms by (simp only: cmmu_register_ptr_def Let_def word_le_nat_alt u) (simp add: u)
qed

lemma batc_store:
  assumes "i < 8" and "r < 32"
  shows "do_mem_op (PReg r) (BCmmu n) (48 + 4 * i) WORD ST m =
     Some (zero_r0 (set_cmmu n (cm_set_word (12 + i) (g_regs m r) (g_cmmu_table m n)) m))"
proof -
  have "(48 + 4 * i) div 4 = 12 + i" "(48 + 4 * i) mod 4 = 0" by simp_all
  then show ?thesis using assms by (simp add: do_mem_op_def mem_store_def aligned_to_def set_part_def)
qed

text \<open>The entry of the port, and nothing the flush depends on otherwise.\<close>

lemma batc_set:
  assumes "i < 8"
  shows "cm_set_word (12 + i) v c = c\<lparr>cm_bwp := (cm_bwp c)(i := v)\<rparr>"
  using assms by (simp add: cm_set_word_def)

lemma keep_batc:
  "cm_bwp (fix_reserved c) = cm_bwp c" "cm_bwp (cache_write_back o' c) = cm_bwp c"
  "cm_bwp (join_scmr_sctr c) = cm_bwp c" "cm_sadr (fix_reserved c) = cm_sadr c"
  "cm_sadr (cache_write_back o' c) = cm_sadr c"
  by (simp_all add: fix_reserved_def cache_write_back_def join_scmr_sctr_def Let_def)

lemma tlb_of_update [simp]:
  "load_tlb us (upd_cmmu n f m) = load_tlb us m" "store_tlb us (upd_cmmu n f m) = store_tlb us m"
  "load_tlb us (zero_r0 m) = load_tlb us m" "store_tlb us (zero_r0 m) = store_tlb us m"
  "load_tlb us (set_cmmu n c m) = load_tlb us m" "store_tlb us (set_cmmu n c m) = store_tlb us m"
  by (simp_all add: load_tlb_def store_tlb_def upd_cmmu_def set_cmmu_def zero_r0_def set_reg_def)

text \<open>
  Property C27.  A store of a word to BATC port \<open>i\<close> of a data CMMU (\<open>cmmu_operation\<close>) succeeds, puts the word
  into the entry, and takes back what the old entry may have sent to the software TLBs: if the word
  differs from the old entry, then exactly the pages of the 512 KB block that the old entry mapped lose
  their translation, in the load and in the store TLB of the old entry's mode, whether or not the old
  entry was valid; every other translation of both modes stays.  The pages of the block that the new
  entry maps are among those that stay.
\<close>

theorem batc_store_flushes:
  assumes "n < 4" and "bit (g_cmmus m) n" and "i < 8" and "r < 32"
    and old: "old = cm_bwp (g_cmmu_table m n) i"
  shows "\<exists>m'. cmmu_operation io (CMMU_BATC0 + 4 * of_nat i) (PReg r) WORD ST n override m = Some (E_NONE, m') \<and>
     cm_bwp (g_cmmu_table m' n) = (cm_bwp (g_cmmu_table m n))(i := g_regs m r) \<and>
     (\<forall>us s p.
        (let gone = (old \<noteq> g_regs m r \<and> (us = M_USER \<longleftrightarrow> bw_supervisor old = 0) \<and> batc_page old s p)
         in tlb_entry (load_tlb us m') s p = (if gone then None else tlb_entry (load_tlb us m) s p) \<and>
            tlb_entry (store_tlb us m') s p = (if gone then None else tlb_entry (store_tlb us m) s p)))"
proof -
  let ?o = "CMMU_BATC0 + 4 * of_nat i" and ?c = "g_cmmu_table m n"
  let ?m1 = "zero_r0 (set_cmmu n (?c\<lparr>cm_bwp := (cm_bwp ?c)(i := g_regs m r)\<rparr>) m)"
  let ?m2 = "if old \<noteq> g_regs m r
             then flush_tlb_range (push_bit 19 (bw_l_base_address old)) 0x80000 (unat (bw_supervisor old)) ?m1 else ?m1"
  let ?m3 = "upd_cmmu n (cache_write_back ?o) (upd_cmmu n fix_reserved ?m2)"
  have c1: "g_cmmu_table ?m1 = (g_cmmu_table m)(n := ?c\<lparr>cm_bwp := (cm_bwp ?c)(i := g_regs m r)\<rparr>)"
    by (simp add: zero_r0_def set_reg_def set_cmmu_def)
  then have c2: "g_cmmu_table ?m2 = g_cmmu_table ?m1" by simp
  have f: "flush_old_batc n (cm_bwp ?c) [0..<8] ?m1 = ?m2"
    using flush_old_one [of i "cm_bwp ?c" ?m1 n "[0..<8]"] assms(1,3) by (simp add: c1 old)
  have w: "cmmu_written io ?o WORD ST n (cm_sadr ?c) (cm_bwp ?c) ?m1 = Some (E_NONE, upd_cmmu n join_scmr_sctr ?m3)"
  proof -
    have "\<not> CMMU_BATC0 \<le> CMMU_SCMR" by simp
    then have o4: "?o \<noteq> CMMU_SCMR" using batc_port(2) [OF assms(3)] by metis
    have s: "cm_sadr (g_cmmu_table ?m3 n) = cm_sadr ?c" by (simp add: keep_batc c2 c1)
    show ?thesis
      unfolding cmmu_written_def f Let_def using batc_port(2,3) [OF assms(3)] o4 s by simp
  qed
  have "cmmu_operation io ?o (PReg r) WORD ST n override m = Some (E_NONE, upd_cmmu n join_scmr_sctr ?m3)"
    using assms(2) batc_port [OF assms(3)] batc_store [OF assms(3,4)] w
    by (simp add: cmmu_operation_def is_load_def batc_set [OF assms(3)])
  moreover have "cm_bwp (g_cmmu_table (upd_cmmu n join_scmr_sctr ?m3) n) = (cm_bwp ?c)(i := g_regs m r)"
    by (simp add: keep_batc c2 c1)
  moreover have "unat (bw_supervisor old) = M_USER \<longleftrightarrow> bw_supervisor old = 0" by (simp add: unat_eq_0)
  ultimately show ?thesis
    unfolding Let_def tlb_of_update
    by (intro exI [of _ "upd_cmmu n join_scmr_sctr ?m3"] conjI allI) (simp_all add: block_flush)
qed

theorem batc_store_flushes_witness:
  "\<exists>m'. cmmu_operation (\<lambda>_ _ _ _ _ _. None) 0x404 (PReg 2) WORD ST 0 False
        (cleared_mach\<lparr>g_cmmus := 0xff, g_regs := (\<lambda>_. 0x7fff0001), g_u_load_tlb := (\<lambda>_. Some (\<lambda>_. Some 9)),
           g_s_load_tlb := (\<lambda>_. Some (\<lambda>_. Some 8))\<rparr>) = Some (E_NONE, m') \<and>
     tlb_entry (load_tlb M_USER m') (btos 0x7ffff) (btop 0x7ffff) = None \<and>
     tlb_entry (load_tlb M_SUPERVISOR m') (btos 0x7ffff) (btop 0x7ffff) = Some 8 \<and>
     cm_bwp (g_cmmu_table m' 0) 1 = 0x7fff0001"
proof -
  let ?m = "cleared_mach\<lparr>g_cmmus := 0xff, g_regs := (\<lambda>_. 0x7fff0001), g_u_load_tlb := (\<lambda>_. Some (\<lambda>_. Some 9)),
      g_s_load_tlb := (\<lambda>_. Some (\<lambda>_. Some 8))\<rparr>"
  have old: "cm_bwp (g_cmmu_table ?m 0) 1 = 0" by (simp add: cleared_mach_def cleared_cmmu_def)
  have b: "bw_supervisor 0 = 0" by (simp add: bw_supervisor_def bf_get_def)
  have p: "batc_page 0 (btos 0x7ffff) (btop 0x7ffff)"
    unfolding batc_page_def by (intro exI [of _ "0x7ffff"]) (simp add: bw_l_base_address_def bf_get_def)
  have e: "tlb_entry (load_tlb M_SUPERVISOR ?m) s p = Some 8" for s p
    by (simp add: tlb_entry_def load_tlb_def)
  show ?thesis
    using batc_store_flushes [of 0 ?m 1 2 0 "\<lambda>_ _ _ _ _ _. None" False] old b p e
    by (auto simp: Let_def)
qed

end
