(* ===== verification/Sim_Lookup.thy ===== *)
theory Sim_Lookup
  imports Sim_Decode
begin

text \<open>
  Properties of instruction lookup.  The interface \<open>adaptive_list\<close> states what a search that moves
  the found entry to the front does to a list, and proves that the answers do not depend on the
  history when every entry that an earlier entry overlaps is hidden by it completely.  The code's
  lists are shown to have that property by evaluating a pairwise check of the table.
\<close>

section \<open>The interface: searching with move to front\<close>

definition hides :: "('k \<Rightarrow> 'e \<Rightarrow> bool) \<Rightarrow> 'e \<Rightarrow> 'e \<Rightarrow> bool" where
  "hides hit a b \<longleftrightarrow> (\<forall>k k'. hit k a \<longrightarrow> hit k b \<longrightarrow> hit k' b \<longrightarrow> hit k' a)"

locale adaptive_list =
  fixes hit :: "'k \<Rightarrow> 'e \<Rightarrow> bool"
    and search :: "'k \<Rightarrow> 'e list \<Rightarrow> ('e \<times> 'e list) option"
    and initial :: "'e list"
  assumes search_None: "search k l = None \<longleftrightarrow> find (hit k) l = None"
    and search_Some: "search k l = Some (e, l') \<Longrightarrow>
      \<exists>us vs. l = us @ e # vs \<and> l' = e # us @ vs \<and> hit k e \<and> (\<forall>u \<in> set us. \<not> hit k u)"
    and initial_hides: "sorted_wrt (hides hit) initial"
begin

definition good :: "'e list \<Rightarrow> bool" where
  "good l \<longleftrightarrow> sorted_wrt (hides hit) l \<and> (\<forall>k. find (hit k) l = find (hit k) initial)"

lemma good_initial: "good initial"
  by (simp add: good_def initial_hides)

lemma find_mtf:
  assumes "\<forall>u \<in> set us. \<forall>k'. hit k' u \<longrightarrow> \<not> hit k' e"
  shows "find (hit k') (e # us @ vs) = find (hit k') (us @ e # vs)"
  using assms by (induction us) auto

lemma search_good:
  assumes "good l" and "search k l = Some (e, l')"
  shows "good l'"
proof -
  obtain us vs where l: "l = us @ e # vs" and l': "l' = e # us @ vs" and "hit k e"
    and us: "\<forall>u \<in> set us. \<not> hit k u"
    using search_Some [OF assms(2)] by blast
  have hid: "\<forall>u \<in> set us. hides hit u e"
    using assms(1) l by (simp add: good_def sorted_wrt_append)
  have disj: "\<forall>u \<in> set us. \<forall>k'. hit k' u \<longrightarrow> \<not> hit k' e"
    using hid us \<open>hit k e\<close> unfolding hides_def by blast
  then have "\<forall>u \<in> set us. hides hit e u"
    unfolding hides_def by blast
  then have "sorted_wrt (hides hit) l'"
    using assms(1) l l' by (auto simp: good_def sorted_wrt_append)
  moreover have "find (hit k') l' = find (hit k') initial" for k'
    using find_mtf [OF disj] assms(1) l l' by (simp add: good_def)
  ultimately show ?thesis by (simp add: good_def)
qed

lemma search_result:
  assumes "good l"
  shows "map_option fst (search k l) = find (hit k) initial"
proof (cases "search k l")
  case None
  then show ?thesis using assms search_None [of k l] by (simp add: good_def)
next
  case (Some r)
  obtain e l' where r: "r = (e, l')" by (cases r)
  from search_Some [OF Some [unfolded r]]
  obtain us vs where l: "l = us @ e # vs" and e: "hit k e" and us: "\<forall>u \<in> set us. \<not> hit k u"
    by blast
  have "find (hit k) us = None"
    using us by (auto simp: find_None_iff)
  then have "find (hit k) l = Some e"
    using e l by (simp add: find_append)
  with Some r show ?thesis using assms by (simp add: good_def)
qed

end

section \<open>The code's search\<close>

lemma lookup_loop_None:
  "lookup_loop i us l = None \<longleftrightarrow> find (ii_hit i) l = None"
  by (induction l arbitrary: us) auto

lemma lookup_loop_Some:
  "lookup_loop i us l = Some (p, l') \<Longrightarrow>
     \<exists>us' vs. l = us' @ p # vs \<and> l' = p # rev us @ us' @ vs \<and> ii_hit i p \<and>
       (\<forall>u \<in> set us'. \<not> ii_hit i u)"
proof (induction l arbitrary: us)
  case Nil
  then show ?case by simp
next
  case (Cons q l)
  show ?case
  proof (cases "ii_hit i q")
    case True
    with Cons.prems show ?thesis by (intro exI [of _ "[]"] exI [of _ l]) auto
  next
    case False
    with Cons.prems have "lookup_loop i (q # us) l = Some (p, l')" by simp
    then obtain us' vs where "l = us' @ p # vs" "l' = p # rev (q # us) @ us' @ vs" "ii_hit i p"
      "\<forall>u \<in> set us'. \<not> ii_hit i u"
      using Cons.IH by blast
    with False show ?thesis by (intro exI [of _ "q # us'"] exI [of _ vs]) auto
  qed
qed

section \<open>The pairwise check of the table\<close>

text \<open>
  Two rows of the same list are disjoint unless the first has the empty mask, or they are the rows
  of \<open>xcr\<close> and \<open>fxcr\<close>.
\<close>

type_synonym om = "u32 \<times> u32"   \<comment> \<open>opcode and mask of a row\<close>

fun om_ok :: "om \<Rightarrow> om \<Rightarrow> bool" where
  "om_ok (o1, m1) (o2, m2) \<longleftrightarrow>
     (o1 XOR o2) AND m1 AND m2 \<noteq> 0 \<or> (o1 = 0 \<and> m1 = 0) \<or>
     (o1 = 0x8000c000 \<and> m1 = 0xfc00c000 \<and> o2 = 0x8000c800 \<and> m2 = 0xfc00f800)"

definition om_of :: "instr_info \<Rightarrow> om" where
  "om_of p = (ii_opcode p, ii_opmask p)"

fun group_ins :: "int \<Rightarrow> 'a \<Rightarrow> (int \<times> 'a list) list \<Rightarrow> (int \<times> 'a list) list" where
  "group_ins k x [] = [(k, [x])]"
| "group_ins k x ((k', l) # gs) = (if k = k' then (k', x # l) # gs else (k', l) # group_ins k x gs)"

fun group_rows :: "(int \<times> 'a) list \<Rightarrow> (int \<times> 'a list) list" where
  "group_rows [] = []"
| "group_rows ((k, x) # rs) = group_ins k x (group_rows rs)"

definition row_of :: "instr_info \<Rightarrow> int \<times> om" where
  "row_of p = (uint (ii_opcode p AND 0xfc000000), om_of p)"

definition keyed :: "om list \<Rightarrow> (int \<times> om) list" where
  "keyed l = (let c = foldr (\<lambda>r x. snd r AND x) l (-1) in map (\<lambda>r. (uint (fst r AND c), r)) l)"

definition keyed_ok :: "(int \<times> om) list \<Rightarrow> bool" where
  "keyed_ok = sorted_wrt (\<lambda>a b. fst a \<noteq> fst b \<or> om_ok (snd a) (snd b))"

definition rows_ok :: "(int \<times> om) list \<Rightarrow> bool" where
  "rows_ok rs \<longleftrightarrow> list_all (\<lambda>g. keyed_ok (keyed (snd g))) (group_rows rs)"

lemma in_tab_rows_ok: "rows_ok (map row_of (rev in_tab))"
  by code_simp

lemma map_of_group_ins:
  "map_of (group_ins k x gs) k' =
     (if k' = k then Some (x # (case map_of gs k of None \<Rightarrow> [] | Some l \<Rightarrow> l)) else map_of gs k')"
  by (induction k x gs rule: group_ins.induct) auto

lemma map_of_group_rows:
  "(case map_of (group_rows rs) k of None \<Rightarrow> [] | Some l \<Rightarrow> l) =
     map snd (filter (\<lambda>r. fst r = k) rs)"
  by (induction rs rule: group_rows.induct) (auto simp: map_of_group_ins)

lemma mask_conj_sub:
  "r \<in> set l \<Longrightarrow> foldr (\<lambda>r x. snd r AND x) l (c0 :: u32) AND snd r = foldr (\<lambda>r x. snd r AND x) l c0"
  by (induction l) (auto simp: and.assoc and.left_commute and.commute)

lemma xor_and_eq_0: "((a :: u32) XOR b) AND c = 0 \<longleftrightarrow> a AND c = b AND c"
  by (auto simp: bit_eq_iff bit_simps)

text \<open>Rows whose opcodes differ within the part common to all masks are disjoint.\<close>

lemma keyed_ok_om_ok:
  assumes "keyed_ok (keyed l)"
  shows "sorted_wrt om_ok l"
proof -
  define c where "c = foldr (\<lambda>r x. snd r AND x) l (-1 :: u32)"
  have sub: "c AND snd r = c" if "r \<in> set l" for r
    using mask_conj_sub [OF that] by (simp add: c_def)
  have pairs: "sorted_wrt (\<lambda>a b. uint (fst a AND c) \<noteq> uint (fst b AND c) \<or> om_ok a b) l"
    using assms by (simp add: keyed_ok_def keyed_def c_def Let_def sorted_wrt_map)
  have "om_ok a b" if ab: "uint (fst a AND c) \<noteq> uint (fst b AND c) \<or> om_ok a b"
    and mem: "a \<in> set l" "b \<in> set l" for a b
  proof (rule ccontr)
    assume no: "\<not> om_ok a b"
    obtain o1 m1 o2 m2 where a: "a = (o1, m1)" and b: "b = (o2, m2)" by (cases a; cases b)
    from no a b have z: "(o1 XOR o2) AND m1 AND m2 = 0" by auto
    have c: "c = m1 AND m2 AND c"
      using sub [OF mem(1)] sub [OF mem(2)] a b by (simp add: and.assoc and.commute and.left_commute)
    have "(o1 XOR o2) AND c = ((o1 XOR o2) AND m1 AND m2) AND c"
      using c by (metis and.assoc)
    then have "(o1 XOR o2) AND c = 0" using z by simp
    then have "o1 AND c = o2 AND c" by (simp add: xor_and_eq_0)
    with ab no a b show False by simp
  qed
  then show ?thesis
    by (rule sorted_wrt_mono_rel [OF _ pairs])
qed

section \<open>The lists of the code\<close>

definition initial_list :: "nat \<Rightarrow> instr_info list" where
  "initial_list n = filter (\<lambda>p. DECODECACHE_INDEX (ii_opcode p) = n) (rev in_tab)"

lemma build_loop_eq:
  "build_loop ps c n = filter (\<lambda>p. DECODECACHE_INDEX (ii_opcode p) = n) (rev ps) @ c n"
  by (induction ps arbitrary: c) (auto simp: Let_def)

lemma drop_top_bits: "drop_bit 26 (i AND 0xfc000000) = drop_bit 26 (i :: u32)"
proof -
  have m: "(0xfc000000 :: u32) = push_bit 26 (mask 6)" by (simp add: mask_eq_exp_minus_1)
  show ?thesis unfolding m
    by (rule bit_word_eqI) (auto simp: bit_simps dest: bit_imp_le_length)
qed

lemma index_eq_iff:
  "DECODECACHE_INDEX i = DECODECACHE_INDEX j \<longleftrightarrow> i AND 0xfc000000 = j AND 0xfc000000"
proof
  assume "DECODECACHE_INDEX i = DECODECACHE_INDEX j"
  then have d: "drop_bit 26 i = drop_bit 26 j"
    by (simp add: DECODECACHE_INDEX_def word_unat_eq_iff)
  have m: "(0xfc000000 :: u32) = push_bit 26 (mask 6)" by (simp add: mask_eq_exp_minus_1)
  have e: "x AND 0xfc000000 = push_bit 26 (drop_bit 26 x)" for x :: u32
    unfolding m by (rule bit_word_eqI) (auto simp: bit_simps)
  show "i AND 0xfc000000 = j AND 0xfc000000" by (simp only: e d)
next
  assume "i AND 0xfc000000 = j AND 0xfc000000"
  then have "drop_bit 26 i = drop_bit 26 j" by (metis drop_top_bits)
  then show "DECODECACHE_INDEX i = DECODECACHE_INDEX j" by (simp add: DECODECACHE_INDEX_def)
qed

lemma initial_list_rows:
  "p0 \<in> set (initial_list n) \<Longrightarrow>
     map om_of (initial_list n) =
       (case map_of (group_rows (map row_of (rev in_tab))) (uint (ii_opcode p0 AND 0xfc000000)) of
          None \<Rightarrow> [] | Some l \<Rightarrow> l)"
  unfolding map_of_group_rows
  by (auto simp: initial_list_def filter_map o_def row_of_def index_eq_iff word_uint_eq_iff
      intro!: arg_cong [where f = "map om_of"] filter_cong)

lemma initial_list_om_ok: "sorted_wrt om_ok (map om_of (initial_list n))"
proof (cases "initial_list n")
  case Nil
  then show ?thesis by simp
next
  case (Cons p0 ps)
  let ?k = "uint (ii_opcode p0 AND 0xfc000000)"
  have eq: "map om_of (initial_list n) =
       (case map_of (group_rows (map row_of (rev in_tab))) ?k of None \<Rightarrow> [] | Some l \<Rightarrow> l)"
    by (rule initial_list_rows) (simp add: Cons)
  show ?thesis
  proof (cases "map_of (group_rows (map row_of (rev in_tab))) ?k")
    case None
    with eq show ?thesis by simp
  next
    case (Some l)
    then have "(?k, l) \<in> set (group_rows (map row_of (rev in_tab)))" by (rule map_of_SomeD)
    then have "keyed_ok (keyed l)"
      using in_tab_rows_ok by (auto simp: rows_ok_def list_all_iff)
    with eq Some show ?thesis by (simp add: keyed_ok_om_ok)
  qed
qed

section \<open>What overlapping rows do\<close>

lemma and_submask: "i AND m = v \<Longrightarrow> m AND m' = m' \<Longrightarrow> i AND m' = v AND m'"
  for i m v m' :: u32
  by (metis and.assoc)

lemma om_ok_disjoint:
  assumes "(ii_opcode p XOR ii_opcode q) AND ii_opmask p AND ii_opmask q \<noteq> 0"
    and "ii_hit i p"
  shows "\<not> ii_hit i q"
proof
  assume "ii_hit i q"
  then have q: "ii_opcode q = ii_opmask q AND i" by (simp add: ii_hit_def)
  have p: "ii_opcode p = ii_opmask p AND i" using assms(2) by (simp add: ii_hit_def)
  have "(ii_opcode p XOR ii_opcode q) AND ii_opmask p AND ii_opmask q = 0"
    unfolding p q by (rule bit_word_eqI) (auto simp: bit_simps)
  with assms(1) show False by simp
qed

lemma om_ok_hides: "om_ok (om_of p) (om_of q) \<Longrightarrow> hides ii_hit p q"
proof -
  assume ok: "om_ok (om_of p) (om_of q)"
  have xcr: "i AND 0xfc00c000 = 0x8000c000" if "0xfc00f800 AND i = (0x8000c800 :: u32)" for i
    using and_submask [of i "0xfc00f800" "0x8000c800" "0xfc00c000"] that by (simp add: and.commute)
  show ?thesis
    using ok om_ok_disjoint [of p q] xcr
    by (auto simp: om_of_def hides_def ii_hit_def and.commute)
qed

lemma initial_list_hides: "sorted_wrt (hides ii_hit) (initial_list n)"
  using initial_list_om_ok [of n]
  by (auto simp: sorted_wrt_map intro: sorted_wrt_mono_rel [rotated] om_ok_hides)

interpretation insn_list: adaptive_list ii_hit "\<lambda>i. lookup_loop i []" "initial_list n" for n
proof unfold_locales
  fix k l
  show "(lookup_loop k [] l = None) = (find (ii_hit k) l = None)"
    by (rule lookup_loop_None)
next
  fix k l e l'
  assume "lookup_loop k [] l = Some (e, l')"
  from lookup_loop_Some [OF this]
  show "\<exists>us vs. l = us @ e # vs \<and> l' = e # us @ vs \<and> ii_hit k e \<and> (\<forall>u \<in> set us. \<not> ii_hit k u)"
    by simp
qed (rule initial_list_hides)

section \<open>Lookups of the machine\<close>

text \<open>
  The specification of decoding: the last row of the table that matches the instruction, among
  the rows whose opcode has the same six top bits.
\<close>

definition decode_spec :: "u32 \<Rightarrow> instr_info option" where
  "decode_spec i =
     find (\<lambda>p. DECODECACHE_INDEX (ii_opcode p) = DECODECACHE_INDEX i \<and> ii_hit i p) (rev in_tab)"

definition decode_inv :: "mach \<Rightarrow> bool" where
  "decode_inv m \<longleftrightarrow> (\<forall>n. insn_list.good n (g_decodecache m n))"

lemma decode_spec_alt: "decode_spec i = find (ii_hit i) (initial_list (DECODECACHE_INDEX i))"
  by (simp add: decode_spec_def initial_list_def find_filter)

lemma decode_inv_build:
  "\<not> g_decode_initialized m \<Longrightarrow> g_decodecache m = (\<lambda>_. []) \<Longrightarrow> decode_inv (builddecodetable m)"
  by (simp add: decode_inv_def builddecodetable_def build_loop_eq insn_list.good_initial
      flip: initial_list_def)

lemma decode_inv_lookup:
  assumes "decode_inv m"
  shows "decode_inv (snd (sim_instruction_lookup i m))"
  using assms insn_list.search_good
  by (fastforce simp: decode_inv_def sim_instruction_lookup_def Let_def split: option.splits prod.splits)

lemma lookup_decode_spec:
  assumes "decode_inv m"
  shows "fst (sim_instruction_lookup i m) = decode_spec i"
proof -
  have "insn_list.good (DECODECACHE_INDEX i) (g_decodecache m (DECODECACHE_INDEX i))"
    using assms by (simp add: decode_inv_def)
  from insn_list.search_result [OF this, of i] show ?thesis
    by (auto simp: sim_instruction_lookup_def Let_def decode_spec_alt split: option.splits)
qed

text \<open>A run of lookups.\<close>

fun lookup_run :: "u32 list \<Rightarrow> mach \<Rightarrow> mach" where
  "lookup_run [] m = m"
| "lookup_run (i # is) m = lookup_run is (snd (sim_instruction_lookup i m))"

lemma decode_inv_run: "decode_inv m \<Longrightarrow> decode_inv (lookup_run is m)"
  by (induction "is" arbitrary: m) (simp_all add: decode_inv_lookup)

lemma fxcr_rows: "list_all (\<lambda>p. ii_opcode p = 0x8000c800 \<longrightarrow> ii_format p = FXCR) in_tab"
  by code_simp

lemma fxcr_row_hit:
  "list_all (\<lambda>p. ii_format p = FXCR \<longrightarrow> ii_opcode p = 0x8000c800 \<and> ii_opmask p = 0xfc00f800) in_tab"
  by code_simp

lemma in_tab_rest_no_fxcr: "list_all (\<lambda>p. ii_format p \<noteq> FXCR) in_tab_rest"
  by code_simp

lemma xcr_row:
  "II 0x8000c000 0xfc00c000 ''xcr'' XCR (H_cr C_xcr) NOFIX \<in> set in_tab_rest"
  by (simp add: in_tab_rest_def)

lemma decode_spec_index_0:
  assumes "DECODECACHE_INDEX i = 0"
  shows "decode_spec i = Some (II 0 0 ''pseudo'' F_0 H_opc_exception NOFIX)"
proof -
  have "rev in_tab_rest = II 0 0 ''pseudo'' F_0 H_opc_exception NOFIX # tl (rev in_tab_rest)"
    by (simp add: in_tab_rest_def)
  then have tab: "rev in_tab = II 0 0 ''pseudo'' F_0 H_opc_exception NOFIX #
      tl (rev in_tab_rest) @ rev (in_tab_alu @ in_tab_bb @ in_tab_fp @ in_tab_mem)"
    unfolding in_tab_def rev_append by (metis append_Cons append_assoc)
  show ?thesis
    unfolding decode_spec_def tab using assms by (simp add: ii_hit_def DECODECACHE_INDEX_def)
qed

lemma decode_spec_not_fxcr:
  assumes "decode_spec i = Some p"
  shows "ii_format p \<noteq> FXCR"
proof
  assume f: "ii_format p = FXCR"
  let ?q = "II 0x8000c000 0xfc00c000 ''xcr'' XCR (H_cr C_xcr) NOFIX"
  let ?P = "\<lambda>p. DECODECACHE_INDEX (ii_opcode p) = DECODECACHE_INDEX i \<and> ii_hit i p"
  have p: "p \<in> set in_tab" "ii_hit i p" and ix: "DECODECACHE_INDEX (ii_opcode p) = DECODECACHE_INDEX i"
    using assms find_SomeD [of ?P "rev in_tab" p] by (auto simp: decode_spec_def)
  have "ii_opcode p = 0x8000c800" "ii_opmask p = 0xfc00f800"
    using fxcr_row_hit p(1) f by (auto simp: list_all_iff)
  then have "i AND 0xfc00f800 = 0x8000c800" and "DECODECACHE_INDEX i = 32"
    using p(2) ix by (simp_all add: ii_hit_def and.commute DECODECACHE_INDEX_def)
  then have "?P ?q"
    using and_submask [of i "0xfc00f800" "0x8000c800" "0xfc00c000"]
    by (simp add: ii_hit_def DECODECACHE_INDEX_def and.commute)
  moreover have "?q \<in> set (rev in_tab_rest)" using xcr_row by simp
  ultimately have "find ?P (rev in_tab_rest) \<noteq> None"
    unfolding find_None_iff by blast
  then obtain r where r: "find ?P (rev in_tab_rest) = Some r" by blast
  then have "decode_spec i = Some r"
    by (simp add: decode_spec_def in_tab_def find_append)
  with assms r have "p \<in> set in_tab_rest"
    using find_SomeD [OF r] by simp
  with in_tab_rest_no_fxcr f show False by (simp add: list_all_iff)
qed

lemma decode_spec_unique:
  assumes "p \<in> set in_tab" and "ii_hit i p" and "ii_format p \<noteq> FXCR"
    and ix: "DECODECACHE_INDEX (ii_opcode p) = DECODECACHE_INDEX i" and "DECODECACHE_INDEX i \<noteq> 0"
  shows "decode_spec i = Some p"
proof -
  let ?l = "initial_list (DECODECACHE_INDEX i)"
  have mem: "p \<in> set ?l" using assms(1) ix by (simp add: initial_list_def)
  then have "find (ii_hit i) ?l \<noteq> None" using assms(2) by (auto simp: find_None_iff)
  then obtain q where q: "find (ii_hit i) ?l = Some q" by blast
  then obtain us vs where l: "?l = us @ q # vs" and us: "\<forall>u \<in> set us. \<not> ii_hit i u" and hq: "ii_hit i q"
    by (rule find_split)
  have "p = q"
  proof (rule ccontr)
    assume "p \<noteq> q"
    with mem l us assms(2) have "p \<in> set vs" by auto
    with initial_list_om_ok [of "DECODECACHE_INDEX i"] l
    have ok: "om_ok (om_of q) (om_of p)" by (simp add: sorted_wrt_append)
    have "ii_opcode p \<noteq> 0x8000c800"
      using fxcr_rows assms(1,3) by (auto simp: list_all_iff)
    moreover have "ii_opcode q \<noteq> 0"
    proof
      assume "ii_opcode q = 0"
      moreover have "q \<in> set ?l" using l by simp
      ultimately show False
        using assms(5) by (auto simp: initial_list_def DECODECACHE_INDEX_def)
    qed
    ultimately have "(ii_opcode q XOR ii_opcode p) AND ii_opmask q AND ii_opmask p \<noteq> 0"
      using ok by (simp add: om_of_def)
    from om_ok_disjoint [OF this hq] assms(2) show False by simp
  qed
  with q show ?thesis by (simp add: decode_spec_alt)
qed

section \<open>Properties\<close>

text \<open>
  Property C26.  What \<open>sim_instruction_lookup\<close> returns for an instruction does not depend on the
  lookups made before, although every lookup reorders the shared list: from the table
  \<open>builddecodetable\<close> makes, after any sequence of lookups, the result is the last matching row of
  \<open>in_tab\<close> whose opcode has the same top six bits.
\<close>

theorem lookup_history_independent:
  "fst (sim_instruction_lookup i
      (lookup_run is (builddecodetable (m\<lparr>g_decode_initialized := False, g_decodecache := (\<lambda>_. [])\<rparr>)))) =
   find (\<lambda>p. DECODECACHE_INDEX (ii_opcode p) = DECODECACHE_INDEX i \<and> ii_hit i p) (rev in_tab)"
proof -
  have "decode_inv (lookup_run is
      (builddecodetable (m\<lparr>g_decode_initialized := False, g_decodecache := (\<lambda>_. [])\<rparr>)))"
    by (intro decode_inv_run decode_inv_build) simp_all
  from lookup_decode_spec [OF this, of i] show ?thesis
    by (simp add: decode_spec_def)
qed

text \<open>The encodings of the table are disjoint: outside group 0 (see below), an instruction
  that matches a row other than \<open>fxcr\<close> is looked up as this row.
\<close>

theorem lookup_finds_row:
  assumes "decode_inv m" and "p \<in> set in_tab" and "ii_hit i p" and "ii_format p \<noteq> FXCR"
    and "DECODECACHE_INDEX (ii_opcode p) = DECODECACHE_INDEX i" and "DECODECACHE_INDEX i \<noteq> 0"
  shows "fst (sim_instruction_lookup i m) = Some p"
  using assms by (simp add: lookup_decode_spec decode_spec_unique)

theorem lookup_finds_row_witness:
  "fst (sim_instruction_lookup 0x70a60007 (builddecodetable cleared_mach)) =
     Some (II 0x70000000 0xfc000000 ''add'' INTRL (H_add A_add) Fix_r0)"
  by (rule lookup_finds_row)
     (simp_all add: decode_inv_build cleared_mach_def in_tab_def in_tab_alu_def ii_hit_def
        DECODECACHE_INDEX_def)

text \<open>
  The rows that are never found.  \<open>fxcr\<close> is always looked up as \<open>xcr\<close>, which comes
  later in the table and matches the same instructions; and every instruction whose top six bits are
  zero, \<open>xmem.bu\<close> with a literal offset among them, is looked up as the pseudo instruction
  \<open>opc_exception\<close>, whose mask is zero.
\<close>

theorem lookup_shadowed:
  assumes "decode_inv m" and "fst (sim_instruction_lookup i m) = Some p"
  shows "ii_format p \<noteq> FXCR \<and>
    (DECODECACHE_INDEX i = 0 \<longrightarrow> p = II 0 0 ''pseudo'' F_0 H_opc_exception NOFIX)"
  using assms decode_spec_not_fxcr [of i p] decode_spec_index_0 [of i] by (simp add: lookup_decode_spec)

theorem lookup_shadowed_witness:
  "ii_format (II 0 0 ''pseudo'' F_0 H_opc_exception NOFIX) \<noteq> FXCR"
  by (rule lookup_shadowed [of "builddecodetable cleared_mach" "0x00a60007", THEN conjunct1])
     (simp_all add: lookup_decode_spec decode_inv_build decode_spec_index_0 cleared_mach_def
        DECODECACHE_INDEX_def)

end
