(* ===== verification/Sim_Decoding.thy ===== *)
theory Sim_Decoding
  imports Sim_Decoder Sim_Lookup
begin

text \<open>
  What \<open>decode\<close> stores for the instructions that compute a result: the handler of the table, operands
  that stand for the fields of the instruction, and a destination that is never \<open>r0\<close>.
\<close>

section \<open>Lemmas\<close>

lemma get_part_of_set_other: "g_litpool (set_part_of q d m) = g_litpool m" "g_lit_next_id (set_part_of q d m) = g_lit_next_id m"
  by (cases q; simp add: put_page_def)+

lemma upd_dec_exec:
  assumes "get_dec m q i = Some d"
  shows "\<exists>m'. upd_dec q i f m = Some m' \<and> get_dec m' q i = Some (f d) \<and>
     g_litpool m' = g_litpool m \<and> g_lit_next_id m' = g_lit_next_id m"
  using assms by (auto simp: upd_dec_def get_dec_def get_part_of_set_other split: if_splits)

lemma get_dec_litpool [simp]: "get_dec (m\<lparr>g_litpool := l\<rparr>) q i = get_dec m q i"
  by (cases q) (simp_all add: get_dec_def)

lemma mkliteral_parts: "g_page_table (snd (mkliteral v m)) = g_page_table m" "g_io_parts (snd (mkliteral v m)) = g_io_parts m"
  by (simp_all add: mkliteral_def put_literal_def new_pool_def Let_def split: list.split)

lemma get_dec_mkliteral [simp]: "get_dec (snd (mkliteral v m)) q i = get_dec m q i"
  by (cases q) (simp_all add: get_dec_def mkliteral_parts)

lemma deref_litE:
  assumes "deref_lit m p = Some v"
  obtains i k where "p = PLit i k" and "lit_lookup (g_litpool m) i k = Some v"
  using assms by (cases p) (auto simp: deref_lit_def)

text \<open>What a fixup makes of the literal operand.\<close>

definition fixup_value :: "fixup \<Rightarrow> u32 \<Rightarrow> u32" where
  "fixup_value f v =
     (case f of NOFIX \<Rightarrow> v | Fix_r0 \<Rightarrow> v | Fix_and_u \<Rightarrow> push_bit 16 v OR 0xffff
        | Fix_and \<Rightarrow> v OR 0xffff0000 | Fix_mask_u \<Rightarrow> push_bit 16 v | Fix_or_u \<Rightarrow> push_bit 16 v)"

definition spare_r0 :: "decoded_i \<Rightarrow> decoded_i" where
  "spare_r0 d = (if d_dest d = PReg 0 then d\<lparr>d_dest := PDummy 0\<rparr> else d)"

lemma fix_r0_exec:
  assumes "get_dec m q i = Some d"
  shows "\<exists>m'. fix_r0 q i m = Some m' \<and> get_dec m' q i = Some (spare_r0 d) \<and> g_litpool m' = g_litpool m"
  using upd_dec_exec [OF assms, of spare_r0] unfolding fix_r0_def spare_r0_def [abs_def] by blast

lemma upd_literal_exec:
  assumes "get_dec m q i = Some d" and "d_s2 d = PLit j k" and "lit_lookup (g_litpool m) j k = Some v"
  shows "\<exists>m'. upd_literal g q i m = Some m' \<and> get_dec m' q i = Some d \<and>
     lit_lookup (g_litpool m') j k = Some (g v)"
  using assms by (simp add: upd_literal_def lit_lookup_update_same)

lemma literal_fixup_exec:
  assumes "get_dec m q i = Some d" and "d_s2 d = PLit j k" and "lit_lookup (g_litpool m) j k = Some v"
  shows "\<exists>m'. do { m \<leftarrow> upd_literal g q i m; fix_r0 q i m } = Some m' \<and> get_dec m' q i = Some (spare_r0 d) \<and>
     lit_lookup (g_litpool m') j k = Some (g v)"
  using upd_literal_exec [OF assms, of g] fix_r0_exec [where d = d] by fastforce

section \<open>The rows that compute a result\<close>

definition reg_format :: "fmt \<Rightarrow> bool" where
  "reg_format f \<longleftrightarrow> f = INTRR \<or> f = INTRR2OP \<or> f = LDRO \<or> f = LDRI \<or> f = INTRR_S1_S2"

definition lit_format :: "fmt \<Rightarrow> bool" where
  "lit_format f \<longleftrightarrow> f = INTRL \<or> f = ROT \<or> f = BITFIELD \<or> f = LDLIT"

definition imm_operand :: "fmt \<Rightarrow> u32 \<Rightarrow> u32" where
  "imm_operand f instr = (if f = ROT then of_nat (O5 instr) else if f = BITFIELD then instr AND 0x3ff else LIT16 instr)"

text \<open>
  The handlers that write through \<open>dest\<close> and do not set \<open>r0\<close> to zero afterwards: the computations, and the
  loads of less than a double word.
\<close>

definition relies_on_fixup :: "handler \<Rightarrow> bool" where
  "relies_on_fixup hd' \<longleftrightarrow>
     writes_dest hd' \<or> (case hd' of H_ld op usr scaled \<Rightarrow> op \<noteq> L_d | _ \<Rightarrow> False)"

definition result_row :: "instr_info \<Rightarrow> bool" where
  "result_row p \<longleftrightarrow>
     (reg_format (ii_format p) \<longrightarrow> ii_fixup p = Fix_r0 \<or> ii_fixup p = NOFIX) \<and>
     (relies_on_fixup (ii_norm_e_addr p) \<longrightarrow>
        (reg_format (ii_format p) \<or> lit_format (ii_format p)) \<and> ii_fixup p \<noteq> NOFIX)"

lemma result_rows: "list_all result_row in_tab"
  by code_simp

lemma lookup_litpool:
  "g_litpool (snd (sim_instruction_lookup i m)) = g_litpool m"
  "g_lit_next_id (snd (sim_instruction_lookup i m)) = g_lit_next_id m"
  by (auto simp: sim_instruction_lookup_def Let_def split: option.splits prod.splits)

lemma lookup_get_dec: "get_dec (snd (sim_instruction_lookup i m)) q j = get_dec m q j"
  by (cases q) (auto simp: get_dec_def sim_instruction_lookup_def Let_def split: option.splits prod.splits)

text \<open>The second operand of such an instruction, and its destination.\<close>

definition spare_row :: "instr_info \<Rightarrow> decoded_i \<Rightarrow> decoded_i" where
  "spare_row p d = (if ii_fixup p = NOFIX then d else spare_r0 d)"

definition operand_ok :: "mach \<Rightarrow> instr_info \<Rightarrow> u32 \<Rightarrow> hostptr \<Rightarrow> bool" where
  "operand_ok m p instr s2 \<longleftrightarrow>
     (if reg_format (ii_format p) then s2 = PReg (S2 instr)
      else read_ptr m s2 = Some (fixup_value (ii_fixup p) (imm_operand (ii_format p) instr)))"

text \<open>The fixups of an instruction with a literal.\<close>

lemma do_fixup_literal:
  assumes "get_dec m q i = Some d" and "d_s2 d = PLit j k"
    and "lit_lookup (g_litpool m) j k = Some v"
  shows "\<exists>m'. do_fixup (ii_fixup p) q i m = Some m' \<and> get_dec m' q i = Some (spare_row p d) \<and>
     lit_lookup (g_litpool m') j k = Some (fixup_value (ii_fixup p) v)"
  using literal_fixup_exec [OF assms] fix_r0_exec [OF assms(1)] assms(1,3)
  by (cases "ii_fixup p")
     (auto simp: do_fixup_def fix_and_u_def fix_and_def fix_mask_u_def fix_or_u_def fixup_value_def spare_row_def)

lemma decode_reg_fixup:
  assumes "result_row p" and "reg_format (ii_format p) \<or> lit_format (ii_format p)" and "lit_inv m" and "get_dec m q i = Some d0"
  shows "\<exists>m1 m2 s2. decode_reg (ii_format p) instr q i m = Some m1 \<and> do_fixup (ii_fixup p) q i m1 = Some m2 \<and>
     get_dec m2 q i = Some (spare_row p (d0\<lparr>d_s1 := PReg (S1 instr), d_s2 := s2, d_dest := PReg (D instr)\<rparr>)) \<and>
     operand_ok m2 p instr s2"
proof -
  consider (reg) "reg_format (ii_format p)" "ii_fixup p = Fix_r0 \<or> ii_fixup p = NOFIX"
    | (lit) "lit_format (ii_format p)"
    using assms(1,2) by (auto simp: result_row_def)
  then show ?thesis
  proof cases
    case reg
    obtain m1 where m1: "set_operands q i (PReg (S1 instr)) (PReg (S2 instr)) (PReg (D instr)) m = Some m1"
      "get_dec m1 q i = Some (d0\<lparr>d_s1 := PReg (S1 instr), d_s2 := PReg (S2 instr), d_dest := PReg (D instr)\<rparr>)"
      using upd_dec_exec [OF assms(4)] unfolding set_operands_def by blast
    moreover have "decode_reg (ii_format p) instr q i m = Some m1"
      using m1(1) reg by (auto simp: decode_reg_def reg_format_def)
    ultimately show ?thesis
      using fix_r0_exec [OF m1(2)] m1(2) reg by (auto simp: operand_ok_def do_fixup_def spare_row_def)
  next
    case lit
    let ?v = "imm_operand (ii_format p) instr"
    obtain l m0 where lm: "mkliteral ?v m = (l, m0)" by (cases "mkliteral ?v m")
    have d0: "get_dec m0 q i = Some d0"
      using get_dec_mkliteral [of ?v m q i] lm assms(4) by simp
    obtain j k where l: "l = PLit j k" "lit_lookup (g_litpool m0) j k = Some ?v"
      using literals.deref_new [OF assms(3), of ?v] lm by (auto elim: deref_litE)
    obtain m1 where m1: "set_operands q i (PReg (S1 instr)) l (PReg (D instr)) m0 = Some m1"
      "get_dec m1 q i = Some (d0\<lparr>d_s1 := PReg (S1 instr), d_s2 := l, d_dest := PReg (D instr)\<rparr>)"
      "g_litpool m1 = g_litpool m0"
      using upd_dec_exec [OF d0] unfolding set_operands_def by blast
    have "decode_reg (ii_format p) instr q i m = Some m1"
      using lit m1(1) lm by (auto simp: decode_reg_def lit_format_def imm_operand_def Let_def)
    moreover obtain m2 where m2: "do_fixup (ii_fixup p) q i m1 = Some m2"
      "get_dec m2 q i = Some (spare_row p (d0\<lparr>d_s1 := PReg (S1 instr), d_s2 := l, d_dest := PReg (D instr)\<rparr>))"
      "lit_lookup (g_litpool m2) j k = Some (fixup_value (ii_fixup p) ?v)"
      using do_fixup_literal [OF m1(2), of j k ?v p] l m1(3) by auto
    moreover have "operand_ok m2 p instr l"
      using m2(3) l lit by (auto simp: operand_ok_def reg_format_def lit_format_def)
    ultimately show ?thesis by blast
  qed
qed

section \<open>Property\<close>

text \<open>
  Property C8.  Decoding an instruction of the formats with a destination and one or two source registers,
  and perhaps an immediate operand: if the specification of the lookup finds the row \<open>p\<close>, decoding succeeds, and the
  decoded instruction has the handler of \<open>p\<close>, the registers the fields of the word name, a second operand that
  reads as the (fixed up) immediate value for the rows with one, and as its destination the register
  of the word, or, unless the row has no fixup, \<open>dummy_r0\<close> in place of \<open>r0\<close>.  Every integer, logical, bit field
  and floating point instruction, \<open>lda\<close>, and every load of less than a double word has a fixup; \<open>tbnd\<close>, which has no destination, and \<open>xmem\<close> and all
  but one form of \<open>ld.d\<close> have none and may keep \<open>r0\<close>, which their handlers set to zero again.
\<close>

theorem decode_result_instruction:
  assumes "decode_inv m" and "lit_inv m" and "get_dec m q i = Some d0"
    and "decode_spec instr = Some p" and "reg_format (ii_format p) \<or> lit_format (ii_format p)"
  shows "\<exists>m' d. decode_word io q i ip usmode instr m = Some (False, m') \<and>
     get_dec m' q i = Some d \<and> d_norm_e_addr d = ii_norm_e_addr p \<and>
     d_s1 d = PReg (S1 instr) \<and> operand_ok m' p instr (d_s2 d) \<and>
     d_dest d = (if D instr = 0 \<and> ii_fixup p \<noteq> NOFIX then PDummy 0 else PReg (D instr)) \<and>
     (relies_on_fixup (d_norm_e_addr d) \<longrightarrow> d_dest d \<noteq> PReg 0)"
proof -
  have row: "result_row p"
    using result_rows find_SomeD [OF assms(4) [unfolded decode_spec_def]] by (simp add: list_all_iff)
  then have fmt: "ii_format p \<noteq> F_0" "decode_format io (ii_format p) = (\<lambda>instr ip us q i. decode_reg (ii_format p) instr q i)"
    using assms(5) by (auto simp: reg_format_def lit_format_def decode_format_def fun_eq_iff)
  obtain m2 where m2: "sim_instruction_lookup instr m = (Some p, m2)"
    using lookup_decode_spec [OF assms(1), of instr] assms(4) by (cases "sim_instruction_lookup instr m") simp
  have lits: "g_litpool m2 = g_litpool m" "g_lit_next_id m2 = g_lit_next_id m" "get_dec m2 q i = Some d0"
    using lookup_litpool [of instr m] lookup_get_dec [of instr m q i] assms(3) by (simp_all add: m2)
  obtain m0 where m0: "set_handler (ii_norm_e_addr p) (Some (q, i)) m2 = Some m0"
    "get_dec m0 q i = Some (d0\<lparr>d_norm_e_addr := ii_norm_e_addr p\<rparr>)" and "lit_inv m0"
    using upd_dec_exec [OF lits(3), of "\<lambda>d. d\<lparr>d_norm_e_addr := ii_norm_e_addr p\<rparr>"] assms(2) lits(1,2)
    by (auto simp: set_handler_def lit_inv_def)
  from decode_reg_fixup [OF row assms(5) \<open>lit_inv m0\<close> m0(2), of instr] obtain m1 m' s2 where
    "decode_reg (ii_format p) instr q i m0 = Some m1" "do_fixup (ii_fixup p) q i m1 = Some m'"
    and d: "get_dec m' q i = Some (spare_row p (d0\<lparr>d_norm_e_addr := ii_norm_e_addr p, d_s1 := PReg (S1 instr),
        d_s2 := s2, d_dest := PReg (D instr)\<rparr>))" "operand_ok m' p instr s2"
    by auto
  then have "decode_word io q i ip usmode instr m = Some (False, m')"
    using fmt m0(1) by (simp add: decode_word_def m2)
  with d row show ?thesis by (auto simp: spare_row_def spare_r0_def result_row_def)
qed

text \<open>\<open>subu r0,r5,7\<close>, on an empty page of IO space.\<close>

theorem decode_result_instruction_witness:
  "\<exists>m' d. decode_word (\<lambda>_ _ _ _ _ _. None) (IoPart 0) 3 0 M_USER 0x64050007
      (builddecodetable (cleared_mach\<lparr>g_io_parts := (\<lambda>_. Some allocate_decoded_part)\<rparr>)) = Some (False, m') \<and>
    get_dec m' (IoPart 0) 3 = Some d \<and> d_norm_e_addr d = H_sub B_subu \<and> d_dest d = PDummy 0 \<and>
    read_ptr m' (d_s2 d) = Some 7"
proof -
  let ?m0 = "cleared_mach\<lparr>g_io_parts := (\<lambda>_. Some allocate_decoded_part)\<rparr>"
  let ?p = "II 0x64000000 0xfc000000 ''subu'' INTRL (H_sub B_subu) Fix_r0"
  have inv: "decode_inv (builddecodetable ?m0)" by (rule decode_inv_build) (simp_all add: cleared_mach_def)
  have lit: "lit_inv (builddecodetable ?m0)" by (simp add: builddecodetable_def cleared_mach_def lit_inv_def)
  have dec: "get_dec (builddecodetable ?m0) (IoPart 0) 3 = Some (allocate_decoded_part 3)"
    by (simp add: builddecodetable_def cleared_mach_def get_dec_def)
  have spec: "decode_spec 0x64050007 = Some ?p"
    by (rule decode_spec_unique) (simp_all add: in_tab_def in_tab_rest_def ii_hit_def DECODECACHE_INDEX_def)
  show ?thesis
    using decode_result_instruction [OF inv lit dec spec, of "\<lambda>_ _ _ _ _ _. None" 0 0]
    by (auto simp: D_def operand_ok_def reg_format_def lit_format_def fixup_value_def imm_operand_def LIT16_def)
qed

end
