(* ===== verification/Sim_Exceptions.thy ===== *)
theory Sim_Exceptions
  imports Sim_Instr
begin

text \<open>
  Control of \<open>sim()\<close>: the bound of \<open>run\<close>, the priority of interrupts, what an exception saves and
  \<open>rte\<close> restores, exceptions that stop the run, and delayed branches.
\<close>

section \<open>The bound\<close>

lemma run_more_fuel:
  "run n h ss pt f m = r \<Longrightarrow> r \<noteq> Out_of_fuel \<Longrightarrow> n \<le> k \<Longrightarrow> run k h ss pt f m = r"
proof (induction n arbitrary: k ss pt f m r)
  case 0
  then show ?case by simp
next
  case (Suc n)
  obtain j where k: "k = Suc j" "n \<le> j" using Suc.prems(3) by (cases k) auto
  have more: "run j h ss' pt' f' m' = run n h ss' pt' f' m'" if "run n h ss' pt' f' m' \<noteq> Out_of_fuel"
    for ss' pt' f' m'
    using Suc.IH [OF refl that k(2)] .
  show ?case
  proof (cases pt)
    case P_sim_1
    show ?thesis
    proof (cases "sim_entry h True m")
      case None
      then show ?thesis using Suc.prems k P_sim_1 by simp
    next
      case (Some x)
      obtain pt' f' m' where x: "x = (pt', f', m')" by (cases x)
      show ?thesis
        using Suc.prems k P_sim_1 Some x more
        by (cases "run n h True pt' f' m'") (auto split: run_result.splits)
    qed
  qed (use Suc.prems k more in \<open>auto split: option.splits prod.splits\<close>)
qed

text \<open>
  The bound on the number of transfers of control does not influence the outcome: a
  simulation that returns, or stops abnormally, within some bound has the same outcome under every
  larger one, nested calls of \<open>sim\<close> included.
\<close>

theorem sim_bound_irrelevant:
  assumes "sim n h ss m = r" and "r \<noteq> Out_of_fuel" and "n \<le> k"
  shows "sim k h ss m = r"
  using assms run_more_fuel [of n h ss _ _ _ r k] by (auto simp: sim_def split: option.splits prod.splits)

text \<open>A machine in which an exception is pending while the shadow registers are frozen and \<open>err\<close> is caught.\<close>

definition frozen_mach :: mach where
  "frozen_mach = (set_cr rPSR 1 cleared_mach)\<lparr>g_sim_catch_exception := (\<lambda>_. True)\<rparr>"

lemma drain_signal_idle: "g_sigtab_cnt m s \<le> 0 \<Longrightarrow> drain_signal call s m = Some m"
  by (simp add: drain_signal.simps)

lemma callhandlers_idle: "\<forall>s \<in> set ss. g_sigtab_cnt m s \<le> 0 \<Longrightarrow> callhandlers call ss m = Some m"
  by (induction ss) (simp_all add: drain_signal_idle)

lemma frozen_mach_returns: "\<exists>m. sim 3 idle_host False frozen_mach = Returned CAUGHT_EXCEPTION m"
  by (simp add: sim_def sim_entry_def set_membrk_def frozen_mach_def cleared_mach_def set_cr_def
      numeral_3_eq_3 gen_exception_without_check_def return_with_exception_def callhandlers_idle)

theorem sim_bound_irrelevant_witness: "\<exists>m. sim 1000 idle_host False frozen_mach = Returned CAUGHT_EXCEPTION m"
proof -
  obtain m where "sim 3 idle_host False frozen_mach = Returned CAUGHT_EXCEPTION m"
    using frozen_mach_returns ..
  from sim_bound_irrelevant [OF this, of 1000] show ?thesis by simp
qed

section \<open>Interrupts\<close>

text \<open>The interrupts in the order in which they are served, and where each leads.\<close>

definition int_order :: "u32 list" where
  "int_order =
     [INT_SINGLESTEP, INT_SIGNAL, INT_FRONT_END, INT_INTERNAL, INT_DEVICE, INT_RESET, INT_MPSWITCH]"

definition served_as :: "u32 \<Rightarrow> mach \<Rightarrow> point" where
  "served_as b m =
     (if b = INT_SINGLESTEP then P_ss_breakpoint
      else if b = INT_FRONT_END \<or> b = INT_INTERNAL then P_return_pt INTERRUPT
      else if b = INT_DEVICE then (if bit (g_sfu0_regs m rPSR) 1 then P_after_br else P_gen_exception E_INT)
      else if b = INT_RESET then P_gen_exception E_RST
      else P_return_pt MPSWITCH)"

lemma and_2_bit: "w AND 2 = 0 \<longleftrightarrow> \<not> bit w 1" for w :: u32
  using and_exp_eq_0_iff_not_bit [of w 1] by simp

lemma clear_flag_sfu0: "g_sfu0_regs (clear_flag b m) = g_sfu0_regs m"
  by (simp add: clear_flag_def)

lemma flag_kept:
  "b \<in> set int_order \<Longrightarrow> b' \<in> set int_order \<Longrightarrow> b' \<noteq> b \<Longrightarrow>
   g_sim_interrupt_flag (clear_flag b m) AND b' = g_sim_interrupt_flag m AND b'"
  by (auto simp: int_order_def clear_flag_def and.assoc)

text \<open>
  Of several pending interrupts other than \<open>INT_SIGNAL\<close> the one that comes first in \<open>int_order\<close> is served, its flag
  is cleared and no other flag is lost; a device interrupt becomes an exception only if the PSR
  enables interrupts.
\<close>

theorem interrupt_priority:
  assumes "find (\<lambda>b. g_sim_interrupt_flag m AND b \<noteq> 0) int_order = Some b" and "b \<noteq> INT_SIGNAL"
  shows "interrupt_label h f m = Some (served_as b m, f, clear_flag b m) \<and>
     (\<forall>b' \<in> set int_order. b' \<noteq> b \<longrightarrow>
        g_sim_interrupt_flag (clear_flag b m) AND b' = g_sim_interrupt_flag m AND b')"
proof
  show "interrupt_label h f m = Some (served_as b m, f, clear_flag b m)"
    using assms
    by (simp_all only: int_order_def find.simps split: if_split_asm)
       (simp_all add: interrupt_label_def served_as_def GEN_EXCEPTION_def PSR_INT_ENABLED_def
          and_2_bit clear_flag_sfu0)
  show "\<forall>b' \<in> set int_order. b' \<noteq> b \<longrightarrow>
        g_sim_interrupt_flag (clear_flag b m) AND b' = g_sim_interrupt_flag m AND b'"
    using flag_kept [of b _ m] find_SomeD [OF assms(1)] by blast
qed

theorem interrupt_priority_witness:
  "interrupt_label idle_host (frame0 1) (cleared_mach\<lparr>g_sim_interrupt_flag := 0xa\<rparr>) =
     Some (P_gen_exception E_INT, frame0 1, clear_flag 2 (cleared_mach\<lparr>g_sim_interrupt_flag := 0xa\<rparr>))"
  using interrupt_priority [of "cleared_mach\<lparr>g_sim_interrupt_flag := 0xa\<rparr>" 2 idle_host "frame0 1"]
  by (simp add: int_order_def served_as_def cleared_mach_def)





section \<open>Exceptions and their return\<close>

lemma aligned_and_not_3:
  fixes a :: u32
  assumes "a AND 3 = 0"
  shows "a AND NOT 3 = a"
proof -
  have "a AND NOT 3 = push_bit 2 (drop_bit 2 a)" by (rule and_not_3)
  also have "\<dots> = a" using assms bits_ident [of 2 a] by (simp add: and_3_take_bit)
  finally show ?thesis .
qed

lemma aligned_or_2:
  assumes "a AND 3 = (0 :: u32)"
  shows "(a OR 2) AND 1 = 0" "(a OR 2) AND 2 \<noteq> 0" "(a OR 2) AND 3 = 2" "(a OR 2) AND NOT 3 = a"
proof -
  have "\<not> bit a 0" "\<not> bit a 1"
    using assms by (auto simp: and_3_take_bit bit_eq_iff bit_take_bit_iff)
  then show "(a OR 2) AND 1 = 0" "(a OR 2) AND 2 \<noteq> 0"
    using and_exp_eq_0_iff_not_bit [of "a OR 2" 0] and_exp_eq_0_iff_not_bit [of "a OR 2" 1]
    by (simp_all add: bit_or_iff bit_numeral_rec)
  show "(a OR 2) AND 3 = 2" using assms by (simp add: bit.conj_disj_distrib2)
  show "(a OR 2) AND NOT 3 = a"
    unfolding bit.conj_disj_distrib2 aligned_and_not_3 [OF assms] by simp
qed

lemma aligned_plus_4: "a AND 3 = 0 \<Longrightarrow> (a + 4) AND 3 = 0" for a :: u32
  using next_word_aligned [of a] by (simp only: aligned_and_not_3)

text \<open>The bits of the PSR that exist.\<close>

definition psr_bits :: "u32 \<Rightarrow> u32" where
  "psr_bits w = (w OR 0x3f0) AND 0xf800e3ff"

lemma psr_bits_idem [simp]: "psr_bits (psr_bits w) = psr_bits w"
  by (rule bit_word_eqI) (auto simp: psr_bits_def bit_and_iff bit_or_iff)

lemma psr_bits_and_1: "psr_bits w AND 1 = w AND 1"
  by (rule bit_word_eqI) (auto simp: psr_bits_def bit_and_iff bit_or_iff bit_1_iff)

lemma set_cr_more [simp]:
  "g_ip (set_cr n v m) = g_ip m" "g_delayed_ip (set_cr n v m) = g_delayed_ip m"
  "g_delayed_p (set_cr n v m) = g_delayed_p m"
  by (simp_all add: set_cr_def)

lemma exception_saves:
  fixes ex :: int
  defines "m1 f m \<equiv> snd (exception_registers ex f m)"
  shows "g_sfu0_regs (m1 f m) rTPSR = psr_bits (g_sfu0_regs m rPSR)"
    "g_sfu0_regs (m1 f m) rSNIP = (if f_r_delayed_p f \<noteq> DNull then g_delayed_ip m else g_ip m + 4) OR 2"
    "g_sfu0_regs (m1 f m) rSFIP = ((if f_r_delayed_p f \<noteq> DNull then g_delayed_ip m else g_ip m + 4) + 4) OR 2"
  by (cases "ex \<noteq> E_DACC \<and> g_sfu0_regs m rPSR AND 1 = 0";
      simp add: m1_def exception_registers_def Let_def psr_bits_def)+

lemma gen_exception_state:
  assumes "gen_exception ex ip f m = Some (pt, f', m')"
  shows "g_sfu0_regs m' rPSR = g_sfu0_regs m rPSR" "g_delayed_ip m' = g_delayed_ip m"
    "g_ip m' = (if ex = E_INT then ip - 4 else ip)"
  using assms by (auto simp: gen_exception_def Let_def set_cr_def set_ip_def split: if_splits)

text \<open>
  Property C6.  Return from exception undoes an exception.  When the handler leaves \<open>TPSR\<close>, \<open>SNIP\<close> and
  \<open>SFIP\<close> as they were set and the registers still are frozen, \<open>rte\<close> restores the PSR and resumes at the
  target of a pending delayed branch, else after the instruction at \<open>ip\<close>, or for an interrupt (which is
  taken before the instruction) at that instruction itself.
\<close>

theorem exception_then_rte:
  assumes "gen_exception ex ip f m = Some (P_gen_exception_without_check ex, f, m0)"
    and "exception_registers ex f m0 = (f1, m1)" and "\<not> bit (g_sfu0_regs m rPSR) 0"
    and target: "target = (if f_r_delayed_p f \<noteq> DNull then g_delayed_ip m else if ex = E_INT then ip else ip + 4)"
    and "target AND 3 = 0"
    and kept: "g_sfu0_regs m2 rTPSR = g_sfu0_regs m1 rTPSR" "g_sfu0_regs m2 rSNIP = g_sfu0_regs m1 rSNIP"
      "g_sfu0_regs m2 rSFIP = g_sfu0_regs m1 rSFIP" "bit (g_sfu0_regs m2 rPSR) 0"
    and "f_usmode f2 \<noteq> M_USER"
  shows "\<exists>m3. exec_rte h ss f2 m2 = rte_resume h ss target (f2\<lparr>f_r_delayed_p := DNull\<rparr>) m3 \<and>
     g_sfu0_regs m3 rPSR = psr_bits (g_sfu0_regs m rPSR) \<and> g_regs m3 = g_regs m2 \<and> g_ip m3 = target"
proof -
  note m0 = gen_exception_state [OF assms(1)]
  have t: "(if f_r_delayed_p f \<noteq> DNull then g_delayed_ip m0 else g_ip m0 + 4) = target"
    by (simp add: target m0)
  have m1: "m1 = snd (exception_registers ex f m0)" using assms(2) by simp
  have saved: "g_sfu0_regs m2 rTPSR = psr_bits (g_sfu0_regs m rPSR)" "g_sfu0_regs m2 rSNIP = target OR 2"
    "g_sfu0_regs m2 rSFIP = (target + 4) OR 2"
    unfolding kept m1 exception_saves t m0(1) by (rule refl)+
  note bits = aligned_or_2 [OF assms(5)] aligned_or_2 [OF aligned_plus_4 [OF assms(5)]]
  have "g_sfu0_regs m2 rPSR AND 1 \<noteq> 0" "psr_bits (g_sfu0_regs m rPSR) AND 1 = 0"
    using assms(3,9) unfolding psr_bits_and_1
    using and_exp_eq_0_iff_not_bit [of _ 0, where ?'a = u32] by simp_all
  then have "exec_rte h ss f2 m2 = (let (f, m) = rte_restore h f2 m2 in rte_continue h ss f m)"
    using assms(10) by (simp add: exec_rte_def saved)
  also have "\<dots> = rte_resume h ss target (f2\<lparr>f_r_delayed_p := DNull\<rparr>) (set_ip target (snd (rte_restore h f2 m2)))"
    using bits by (simp add: rte_restore_def rte_continue_def Let_def saved set_comefrom_def)
  finally show ?thesis
    by (intro exI conjI, assumption)
       (simp_all add: rte_restore_def Let_def set_comefrom_def set_ip_def saved psr_bits_def [symmetric])
qed

theorem exception_then_rte_witness:
  "\<exists>m0 m3. gen_exception E_OPC 0x1000 (frame0 1) cleared_mach = Some (P_gen_exception_without_check E_OPC, frame0 1, m0) \<and>
     exec_rte idle_host False (frame0 1) (snd (exception_registers E_OPC (frame0 1) m0)) =
       rte_resume idle_host False 0x1004 (frame0 1\<lparr>f_r_delayed_p := DNull\<rparr>) m3"
proof -
  obtain m0 where m0: "gen_exception E_OPC 0x1000 (frame0 1) cleared_mach =
      Some (P_gen_exception_without_check E_OPC, frame0 1, m0)"
    by (simp add: gen_exception_def Let_def cleared_mach_def set_cr_def set_ip_def)
  let ?x = "exception_registers E_OPC (frame0 1) m0"
  have "bit (g_sfu0_regs (snd ?x) rPSR) 0"
    by (simp add: exception_registers_def Let_def bit_or_iff)
  then obtain m3 where "exec_rte idle_host False (frame0 1) (snd ?x) =
      rte_resume idle_host False 0x1004 (frame0 1\<lparr>f_r_delayed_p := DNull\<rparr>) m3"
    using exception_then_rte [OF m0, of "fst ?x" "snd ?x" "0x1004" "snd ?x" "frame0 1" idle_host False]
    by (auto simp: frame0_def cleared_mach_def)
  with m0 show ?thesis by blast
qed

section \<open>Delayed branches\<close>

text \<open>
  What a delayed branch does before the instruction in its slot: the target, if it is taken, and the
  machine with the return address and \<open>comefrom\<close> set.
\<close>

definition delayed_transfer :: "host \<Rightarrow> decoded_i \<Rightarrow> frame \<Rightarrow> mach \<Rightarrow> (u32 option \<times> mach) option" where
  "delayed_transfer h d f m =
     (let t = IP h f + ptr_int h (d_dest d); link = set_reg 1 (IP h f + 8); come = set_comefrom (IP h f) m;
          s1 = read_ptr m (d_s1 d); reg = read_ptr m (d_dest d) in
      case d_norm_e_addr d of
        H_br R_br_n \<Rightarrow> Some (Some t, m)
      | H_br R_bsr_n \<Rightarrow> Some (Some t, link m)
      | H_bb R_bb0_n k \<Rightarrow> map_option (\<lambda>w. (if bit w (k mod 32) then None else Some t, m)) s1
      | H_bb R_bb1_n k \<Rightarrow> map_option (\<lambda>w. (if bit w (k mod 32) then Some t else None, m)) s1
      | H_bcnd c True \<Rightarrow> map_option (\<lambda>w. (if bcond_holds c w then Some t else None, m)) s1
      | H_jump J_jmp_n \<Rightarrow> map_option (\<lambda>v. (Some (v AND NOT 3), come)) reg
      | H_jump J_jsr_n \<Rightarrow> map_option (\<lambda>v. (Some (v AND NOT 3), link come)) reg
      | _ \<Rightarrow> None)"

lemma bit_of_mask: "w AND c_shl 1 k \<noteq> 0 \<longleftrightarrow> bit w (k mod 32)" for w :: u32
  using and_exp_eq_0_iff_not_bit [of w "k mod 32"] by (simp add: c_shl_def push_bit_eq_mult)

lemma delayed_handler:
  assumes "delayed_transfer h d f m = Some (t, m')" and "f_p f = Some (q, i)" and "f_r_delayed_p f = DNull"
  shows "exec_handler h ss d f m =
    (case t of None \<Rightarrow> Some (P_dispatch, f\<lparr>f_p := Some (q, Suc i)\<rparr>, m')
     | Some a \<Rightarrow> Some (P_dispatch, f\<lparr>f_p := Some (q, Suc i), f_r_delayed_p := DPart q i\<rparr>, m'\<lparr>g_delayed_ip := a\<rparr>))"
proof -
  have n: "INC_D_IP f = f\<lparr>f_p := Some (q, Suc i)\<rparr>"
    "INC_D_IP (delay f) = f\<lparr>f_p := Some (q, Suc i), f_r_delayed_p := DPart q i\<rparr>"
    using assms(2) by (simp_all add: INC_D_IP_def delay_def)
  show ?thesis
  proof (cases "d_norm_e_addr d")
    case (H_br op)
    then show ?thesis
      using assms(1) by (cases op) (auto simp: delayed_transfer_def exec_handler_def exec_br_def TAKE_DELAYED_BRANCH_def n Let_def)
  next
    case (H_bb op k)
    then obtain w where w: "read_ptr m (d_s1 d) = Some w" "op = R_bb0_n \<or> op = R_bb1_n"
      using assms(1) by (cases op) (auto simp: delayed_transfer_def Let_def)
    show ?thesis
      using assms(1,3) w(2) unfolding delayed_transfer_def exec_handler_def H_bb handler.case exec_bb_def w(1) bit_of_mask
      by (auto simp: branch_def TAKE_DELAYED_BRANCH_def dispatch_next_def n Let_def)
  next
    case (H_bcnd c b)
    then obtain w where w: "read_ptr m (d_s1 d) = Some w" "b"
      using assms(1) by (cases b) (auto simp: delayed_transfer_def Let_def)
    show ?thesis
      using assms(1,3) w(2) unfolding delayed_transfer_def exec_handler_def H_bcnd handler.case exec_bcnd_def w(1)
      by (cases "c = BC_always") (auto simp: branch_def TAKE_DELAYED_BRANCH_def dispatch_next_def n Let_def)
  next
    case (H_jump op)
    then show ?thesis
      using assms(1)
      by (cases op) (auto simp: delayed_transfer_def exec_handler_def exec_jump_def exec_jmp_n_def exec_jsr_n_def n
          set_reg_def Let_def)
  qed (use assms(1) in \<open>simp_all add: delayed_transfer_def\<close>)
qed

text \<open>
  Property C9.  The delayed branches \<open>br.n\<close>, \<open>bsr.n\<close>, \<open>bb0.n\<close>, \<open>bb1.n\<close>, \<open>bcnd.n\<close>, \<open>jmp.n\<close> and \<open>jsr.n\<close>, outside the delay
  slot of another branch.  One that is not taken goes on with the next instruction.  One that is taken
  executes the instruction in its delay slot first, with the return address already in \<open>r1\<close>, and then
  continues at its target: at the entry \<open>(q', j)\<close> the decoder found for a target on its page, else by
  fetching from the target, to \<open>after_br\<close>, where interrupts are looked at again, or to a code access fault with
  the target in \<open>ip\<close>.  The slot may hold any instruction that goes on to the next one and leaves the
  decoded branch and \<open>delayed_ip\<close> as they are, so neither a jump nor a trap that is taken.
\<close>

theorem delayed_branch:
  assumes "f_p f = Some (q, i)" and "f_r_delayed_p f = DNull" and "get_dec m q i = Some d"
    and "delayed_transfer h d f m = Some (t, m')"
    and f': "f' = f\<lparr>f_p := Some (q, Suc i), f_r_delayed_p := DPart q i\<rparr>"
    and slot: "\<forall>a. t = Some a \<longrightarrow> get_dec m' q (Suc i) = Some ds \<and>
      exec_handler h ss ds f' (m'\<lparr>g_delayed_ip := a\<rparr>) = dispatch_next f' m'' \<and>
      get_dec m'' q i = Some d \<and> g_delayed_ip m'' = a"
  shows "(t = None \<longrightarrow> run (Suc n) h ss P_dispatch f m = run n h ss P_dispatch (f\<lparr>f_p := Some (q, Suc i)\<rparr>) m') \<and>
    (\<forall>a q' j. t = Some a \<and> d_s2 d = PDec q' j \<longrightarrow>
       run (Suc (Suc (Suc n))) h ss P_dispatch f m = run n h ss P_after_br (f\<lparr>f_p := Some (q', j)\<rparr>) m'') \<and>
    (\<forall>a. t = Some a \<and> d_s2 d = PNull \<longrightarrow>
       run (Suc (Suc (Suc n))) h ss P_dispatch f m =
         (case fetch h a f m'' of
            None \<Rightarrow> Stuck
          | Some (ok, f2, m2) \<Rightarrow>
              if ok then run n h ss P_after_br f2 m2 else run n h ss P_cacc f2 (m2\<lparr>g_ip := a\<rparr>)))"
proof -
  have first: "step h ss P_dispatch f m = exec_handler h ss d f m"
    using assms(1,3) by (simp add: cur_def)
  note first = first [unfolded delayed_handler [OF assms(4,1,2)]]
  have fetch_p: "fetch h a (f0\<lparr>f_p := p\<rparr>) m0 = fetch h a f0 m0" for a f0 p m0
    by (simp add: fetch_def)
  have slot_over: "f'\<lparr>f_r_delayed_p := DNull\<rparr> = f\<lparr>f_p := Some (q, Suc i)\<rparr>"
    using assms(2) by (cases f) (simp add: f')
  have "run (Suc (Suc (Suc n))) h ss P_dispatch f m =
      (case delayed_br h f' m'' of None \<Rightarrow> Stuck | Some (pt, f2, m2) \<Rightarrow> run n h ss pt f2 m2)" if "t = Some a" for a
  proof -
    have "get_dec (m'\<lparr>g_delayed_ip := a\<rparr>) q (Suc i) = get_dec m' q (Suc i)"
      by (cases q) (simp_all add: get_dec_def)
    then have "step h ss P_dispatch f' (m'\<lparr>g_delayed_ip := a\<rparr>) = Some (P_delayed_br, f', m'')"
      using slot that by (simp add: cur_def f' dispatch_next_def)
    moreover have "step h ss P_dispatch f m = Some (P_dispatch, f', m'\<lparr>g_delayed_ip := a\<rparr>)"
      using first that by (simp add: f')
    ultimately show ?thesis by (simp del: step.simps(1)) 
  qed
  moreover have "delayed_s2 (f_r_delayed_p f') m'' = Some (d_s2 d)" if "t = Some a" for a
    using slot that by (simp add: delayed_s2_def f')
  ultimately have taken: "run (Suc (Suc (Suc n))) h ss P_dispatch f m =
      (case (case d_s2 d of
          PDec q j \<Rightarrow> Some (P_after_br, f\<lparr>f_p := Some (q, j)\<rparr>, m'')
        | PNull \<Rightarrow> goto_address h a P_after_br (f\<lparr>f_p := Some (q, Suc i)\<rparr>) m''
        | _ \<Rightarrow> None) of None \<Rightarrow> Stuck | Some (pt, f2, m2) \<Rightarrow> run n h ss pt f2 m2)" if "t = Some a" for a
    using that slot by (cases "d_s2 d") (simp_all add: delayed_br_def slot_over Let_def del: run.simps)
  show ?thesis
  proof (intro conjI allI impI)
    assume "t = None"
    with first show "run (Suc n) h ss P_dispatch f m = run n h ss P_dispatch (f\<lparr>f_p := Some (q, Suc i)\<rparr>) m'"
      by (simp del: step.simps)
  next
    fix a q' j
    assume "t = Some a \<and> d_s2 d = PDec q' j"
    with taken [of a] show "run (Suc (Suc (Suc n))) h ss P_dispatch f m = run n h ss P_after_br (f\<lparr>f_p := Some (q', j)\<rparr>) m''"
      by (simp only: hostptr.case option.case prod.case)
  next
    fix a
    assume a: "t = Some a \<and> d_s2 d = PNull"
    show "run (Suc (Suc (Suc n))) h ss P_dispatch f m =
         (case fetch h a f m'' of
            None \<Rightarrow> Stuck
          | Some (ok, f2, m2) \<Rightarrow>
              if ok then run n h ss P_after_br f2 m2 else run n h ss P_cacc f2 (m2\<lparr>g_ip := a\<rparr>))"
      unfolding taken [OF conjunct1 [OF a]] conjunct2 [OF a] hostptr.case goto_address_def fetch_p set_ip_def
      by (cases "fetch h a f m''") (auto simp del: run.simps)
  qed
qed

text \<open>A page of IO space that holds \<open>br.n\<close> to entry 7, and \<open>and r3,r4,r5\<close> everywhere else.\<close>

definition br_n :: decoded_i where
  "br_n = \<lparr>d_norm_e_addr = H_br R_br_n, d_dest = PVal 28, d_s1 = PNull, d_s2 = PDec (IoPart 0) 7\<rparr>"

definition branch_mach :: mach where
  "branch_mach =
     (mach2 6 3)\<lparr>g_io_parts := (\<lambda>_. Some (\<lambda>i. if i = 0 then br_n else instr3 (H_log O_and)))\<rparr>"

definition branch_frame :: frame where
  "branch_frame = (frame0 1)\<lparr>f_p := Some (IoPart 0, 0), f_pagep := Some (IoPart 0)\<rparr>"

theorem delayed_branch_witness:
  "\<exists>m. (\<forall>n. run (Suc (Suc (Suc n))) idle_host False P_dispatch branch_frame branch_mach =
      run n idle_host False P_after_br (branch_frame\<lparr>f_p := Some (IoPart 0, 7)\<rparr>) m) \<and> g_regs m 3 = 2"
proof -
  let ?m = "branch_mach\<lparr>g_delayed_ip := IP idle_host branch_frame + ptr_int idle_host (d_dest br_n)\<rparr>"
  let ?f = "branch_frame\<lparr>f_p := Some (IoPart 0, Suc 0), f_r_delayed_p := DPart (IoPart 0) 0\<rparr>"
  have r: "g_regs ?m 4 = 6" "g_regs ?m 5 = 3"
    by (simp_all add: branch_mach_def)
  have "exec_handler idle_host False (instr3 (H_log O_and)) ?f ?m = dispatch_next ?f (set_reg 3 2 ?m)"
    unfolding exec_handler_def instr3_simps handler.case exec_log_def using r by simp
  then have "run (Suc (Suc (Suc n))) idle_host False P_dispatch branch_frame branch_mach =
      run n idle_host False P_after_br (branch_frame\<lparr>f_p := Some (IoPart 0, 7)\<rparr>) (set_reg 3 2 ?m)" for n
    using delayed_branch [of branch_frame "IoPart 0" 0 branch_mach br_n idle_host "Some (IP idle_host branch_frame + ptr_int idle_host (d_dest br_n))"
        branch_mach ?f "instr3 (H_log O_and)" False "set_reg 3 2 ?m" n]
    by (simp add: branch_frame_def branch_mach_def get_dec_def br_n_def set_reg_def frame0_def delayed_transfer_def)
  then show ?thesis by auto
qed

end
