(* ===== verification/Sim_Ram.thy ===== *)
theory Sim_Ram
  imports Sim_Memory
begin

text \<open>
  Properties of the routines of \<open>sim/memory.c\<close> on RAM, stated over the byte array of \<open>Sim_Memory\<close>.
\<close>

lemma be_word_put_word: "be_word (put_word v n f n) (put_word v n f (n + 1)) (put_word v n f (n + 2)) (put_word v n f (n + 3)) = v"
  using be_word_get_byte [of v] by (simp add: put_word_def)

lemma put_word_other: "k < n \<or> n + 4 \<le> k \<Longrightarrow> put_word v n f k = f k"
  by (auto simp: put_word_def)

text \<open>
  Property C34.  A word written to RAM at any alignment is read back, words that do not overlap it keep
  their values, and exactly the decoded instructions of the (one or two) words it touches are
  invalidated, so that a program may store into its own code.
\<close>

theorem write_then_read_word:
  assumes "unat a + 3 < unat (g_memory_size m)" and "unat b + 3 < unat (g_memory_size m)"
  shows "\<exists>m1 m2 w. write_sim_w io m a v = Some (0, m1) \<and> read_sim_w io m1 b = Some (w, m2) \<and>
     (b = a \<longrightarrow> w = v) \<and>
     (unat a + 4 \<le> unat b \<or> unat b + 4 \<le> unat a \<longrightarrow> w = mem_word m (unat b)) \<and>
     (\<forall>n. not_decoded_at m2 n \<longleftrightarrow>
        n div 4 = unat a div 4 \<or> n div 4 = (unat a + 3) div 4 \<or> not_decoded_at m n)"
proof -
  obtain m1 where m1: "write_sim_w io m a v = Some (0, m1)" "g_memory_size m1 = g_memory_size m"
    "mem_byte m1 = put_word v (unat a) (mem_byte m)"
    "\<forall>n. not_decoded_at m1 n \<longleftrightarrow>
        n div 4 = unat a div 4 \<or> n div 4 = (unat a + 3) div 4 \<or> not_decoded_at m n"
    using write_sim_w_ram [OF assms(1)] by blast
  obtain m2 where m2: "read_sim_w io m1 b = Some (mem_word m1 (unat b), m2)"
    "not_decoded_at m2 = not_decoded_at m1"
    using read_sim_w_ram [of b m1] assms(2) m1(2) by auto
  have "mem_word m1 (unat a) = v"
    unfolding mem_word_def m1(3) by (rule be_word_put_word)
  then have "b = a \<longrightarrow> mem_word m1 (unat b) = v" by simp
  moreover have "unat a + 4 \<le> unat b \<or> unat b + 4 \<le> unat a \<longrightarrow> mem_word m1 (unat b) = mem_word m (unat b)"
    by (auto simp: mem_word_def m1(3) put_word_other)
  moreover have "\<forall>n. not_decoded_at m2 n \<longleftrightarrow>
      n div 4 = unat a div 4 \<or> n div 4 = (unat a + 3) div 4 \<or> not_decoded_at m n"
    unfolding m2(2) by (rule m1(4))
  ultimately show ?thesis
    using m1(1) m2(1) by (intro exI conjI)
qed

theorem write_then_read_word_witness:
  "\<exists>m1 m2. write_sim_w (\<lambda>_ _ _ _ _ _. None) (cleared_mach\<lparr>g_memory_size := 0x4000\<rparr>) 0xffe 0x12345678 = Some (0, m1) \<and>
     read_sim_w (\<lambda>_ _ _ _ _ _. None) m1 0xffe = Some (0x12345678, m2)"
  using write_then_read_word [of "0xffe" "cleared_mach\<lparr>g_memory_size := 0x4000\<rparr>" "0xffe"
      "\<lambda>_ _ _ _ _ _. None" "0x12345678"]
  by (auto simp: cleared_mach_def)

text \<open>
  \<open>sim_zeromem\<close> on a range inside RAM succeeds and zeroes exactly the bytes of the range,
  across page boundaries; it leaves every decoded instruction as it is, also those of the words it has
  zeroed (the other writing routines invalidate them).
\<close>

theorem zeromem_exact:
  assumes "unat a + unat len \<le> unat (g_memory_size m)"
  shows "\<exists>m'. sim_zeromem io m a len = Some (0, m') \<and>
     mem_byte m' = (\<lambda>n. if unat a \<le> n \<and> n < unat a + unat len then 0 else mem_byte m n) \<and>
     (\<forall>n. not_decoded_at m' n \<longleftrightarrow> not_decoded_at m n)"
proof -
  obtain m' where m': "sim_zeromem io m a len = Some (0, m')"
     "mem_byte m' = (\<lambda>n. if unat a \<le> n \<and> n < unat a + unat len then 0 else mem_byte m n)"
     "\<forall>k. pg_decoded_part (get_page k m') = pg_decoded_part (get_page k m)"
    using sim_zeromem_ram_aux [OF assms] by blast
  have "not_decoded_at m' n \<longleftrightarrow> not_decoded_at m n" for n
    by (simp add: not_decoded_at_def m'(3))
  with m' show ?thesis by blast
qed

theorem zeromem_exact_witness:
  "\<exists>m'. sim_zeromem (\<lambda>_ _ _ _ _ _. None) (cleared_mach\<lparr>g_memory_size := 0x4000\<rparr>) 0xff0 0x2000 = Some (0, m')"
  using zeromem_exact [of "0xff0" "0x2000" "cleared_mach\<lparr>g_memory_size := 0x4000\<rparr>" "\<lambda>_ _ _ _ _ _. None"]
  by (auto simp: cleared_mach_def)

end
