(* ===== verification/Sim_Duart.thy ===== *)
theory Sim_Duart
  imports Sim_Mvme188
begin

text \<open>
  The serial controller, an SCC68692 (\<open>sim/duart.c\<close>): its registers, the typeahead buffers that characters from the
  host's terminal lines go to, and its interrupt.

  The system calls on the lines are parameters: \<open>devs\<close> says whether the program was built for System V
  (otherwise \<open>init_serial_line\<close> is empty), which lines are named in the environment, which of them can be
  opened, and whether writing a character to a line works.  Its other fields are used by \<open>disk.c\<close>.
\<close>

record devs =
  dv_sysv :: bool
  dv_named :: "nat \<Rightarrow> bool"        \<comment> \<open>\<open>SIMTTYA\<close> or \<open>SIMTTYB\<close> is set\<close>
  dv_opens :: "nat \<Rightarrow> bool"
  dv_writes :: "nat \<Rightarrow> bool"
  dv_junk :: "nat \<Rightarrow> u8"          \<comment> \<open>what \<open>malloc\<close> returns\<close>
  dv_room :: nat                 \<comment> \<open>the bytes that fit on the host's disk\<close>

text \<open>A host without lines and without room.\<close>

definition idle_devs :: devs where
  "idle_devs =
     \<lparr>dv_sysv = False, dv_named = (\<lambda>_. False), dv_opens = (\<lambda>_. False), dv_writes = (\<lambda>_. False),
      dv_junk = (\<lambda>_. 0), dv_room = 0\<rparr>"

abbreviation (input) DUART_WR :: nat where "DUART_WR \<equiv> 0"
abbreviation (input) DUART_RD :: nat where "DUART_RD \<equiv> 1"
abbreviation (input) MR1 :: nat where "MR1 \<equiv> 0"
abbreviation (input) MR2 :: nat where "MR2 \<equiv> 1"
abbreviation (input) DUART_A :: nat where "DUART_A \<equiv> 0"
abbreviation (input) DUART_B :: nat where "DUART_B \<equiv> 1"
abbreviation (input) SIGHUP :: nat where "SIGHUP \<equiv> 1"
abbreviation (input) SIGIO :: nat where "SIGIO \<equiv> 23"
abbreviation (input) check_tty_lines_name :: nat where "check_tty_lines_name \<equiv> 2"
abbreviation (input) SIG_IGN_name :: nat where "SIG_IGN_name \<equiv> 3"

definition IN_BUFFSIZ :: nat where "IN_BUFFSIZ = 20000"

definition PORT_OFFSET :: "nat \<Rightarrow> nat" where
  "PORT_OFFSET ab = (if ab = DUART_A then 0 else 8)"

definition du_reg :: "nat \<Rightarrow> nat \<Rightarrow> (u8 \<Rightarrow> u8) \<Rightarrow> duart_state \<Rightarrow> duart_state" where
  "du_reg dir i f d =
     d\<lparr>du_registers := (du_registers d)(dir := (du_registers d dir)(i := f (du_registers d dir i)))\<rparr>"

definition set_duart :: "(duart_state \<Rightarrow> duart_state) \<Rightarrow> mach \<Rightarrow> mach" where
  "set_duart f m = set_drivers (\<lambda>r. r\<lparr>dr_duart := f (dr_duart r)\<rparr>) m"

abbreviation duart :: "mach \<Rightarrow> duart_state" where
  "duart m \<equiv> dr_duart (g_drivers m)"

section \<open>The typeahead buffers\<close>

definition clear_in_buff :: "nat \<Rightarrow> duart_state \<Rightarrow> duart_state" where
  "clear_in_buff ab d =
     d\<lparr>du_front := (du_front d)(ab := 0), du_rear := (du_rear d)(ab := 0), du_count := (du_count d)(ab := 0)\<rparr>"

definition enqueue :: "nat \<Rightarrow> u8 \<Rightarrow> duart_state \<Rightarrow> duart_state" where
  "enqueue ab c d =
     (if du_count d ab \<ge> IN_BUFFSIZ then d
      else
        let r = Suc (du_rear d ab) in
        d\<lparr>du_count := (du_count d)(ab := Suc (du_count d ab)),
          du_in_buff := (du_in_buff d)(ab := (du_in_buff d ab)(du_rear d ab := c)),
          du_rear := (du_rear d)(ab := (if r \<ge> IN_BUFFSIZ then 0 else r))\<rparr>)"

definition dequeue :: "nat \<Rightarrow> duart_state \<Rightarrow> u8 \<times> duart_state" where
  "dequeue ab d =
     (if du_count d ab = 0 then (0, d)
      else
        let c = du_in_buff d ab (du_front d ab); f = Suc (du_front d ab); n = du_count d ab - 1;
            d = d\<lparr>du_front := (du_front d)(ab := f), du_count := (du_count d)(ab := n)\<rparr>
        in (c, if n \<noteq> 0 then (if f \<ge> IN_BUFFSIZ then d\<lparr>du_front := (du_front d)(ab := 0)\<rparr> else d)
               else clear_in_buff ab d))"

section \<open>The lines of the host\<close>

definition check_for_nmi :: "u8 \<Rightarrow> mach \<Rightarrow> mach" where
  "check_for_nmi c m =
     (if c = 0x81 then
        set_duart (\<lambda>d. d\<lparr>du_reset_cnt := du_reset_cnt d + 1\<rparr>)
          (m\<lparr>g_sim_interrupt_flag := g_sim_interrupt_flag m OR INT_RESET\<rparr>)
      else if c = 0x82 then set_duart (\<lambda>d. d\<lparr>du_nmi_cnt := du_nmi_cnt d + 1\<rparr>) (set_ist 31 m)
      else m)"

text \<open>One character of a line.\<close>

definition take_char :: "nat \<Rightarrow> u8 \<Rightarrow> mach \<Rightarrow> mach" where
  "take_char ab c m =
     (let m = set_duart (\<lambda>d. (enqueue ab c d)\<lparr>du_total_read := (du_total_read d)(ab := du_total_read d ab + 1)\<rparr>) m
      in if ab = DUART_B then check_for_nmi c m else m)"

text \<open>
  The characters that wait are read; without a name, port A reads the terminal of the debugger.  If
  the receiver is not enabled they are thrown away.
\<close>

definition rx_ready :: "nat \<Rightarrow> mach \<Rightarrow> mach" where
  "rx_ready ab m =
     (let i = PORT_OFFSET ab;
          m = set_duart (\<lambda>d. du_reg DUART_RD (i + 3) (\<lambda>_. du_in_buff d ab (du_front d ab))
                              (du_reg DUART_RD (i + 1) (\<lambda>w. w OR 3) d)) m
      in if du_registers (duart m) MR1 i AND 0x40 = 0 then
           let m = set_duart (du_reg DUART_RD 5 (\<lambda>w. w OR (if ab = DUART_A then 2 else 0x20))) m
           in if du_registers (duart m) DUART_RD 5 AND du_registers (duart m) DUART_WR 5 \<noteq> 0 then set_ist 17 m
              else m
         else m)"

definition check_tty_line :: "nat \<Rightarrow> mach \<Rightarrow> mach" where
  "check_tty_line ab m =
     (let cs = du_waiting (duart m) ab in
      if \<not> du_named (duart m) ab \<and> ab \<noteq> DUART_A then m
      else if cs = [] then m
      else
        let m = fold (take_char ab) cs (set_duart (\<lambda>d. d\<lparr>du_waiting := (du_waiting d)(ab := [])\<rparr>) m)
        in if du_enables (duart m) ab AND 1 = 0 then set_duart (clear_in_buff ab) m
           else rx_ready ab m)"

definition check_tty_lines :: "mach \<Rightarrow> mach" where
  "check_tty_lines m = check_tty_line DUART_B (check_tty_line DUART_A m)"

definition hardware_reset :: "duart_state \<Rightarrow> duart_state" where
  "hardware_reset d =
     d\<lparr>du_registers := (\<lambda>_ i. if i = 12 then 0xf else 0), du_reg_pointer := (\<lambda>_. 0), du_enables := (\<lambda>_. 0),
       du_output_reg := 0\<rparr>"

definition csr_to_baud :: "u8 \<Rightarrow> duart_state \<Rightarrow> int" where
  "csr_to_baud code d =
     (let brg_code = unat (drop_bit 3 (du_registers d DUART_WR 4 AND 0x80) OR (code AND 0xf));
          speed = [50, 110, 134, 200, 300, 600, 1200, 1050, 2400, 4800, 7200, 9600, 38400, -1, -1, -1,
                   75, 110, 134, 150, 300, 600, 1200, 2000, 2400, 4800, 1800, 9600, 19200, -1, -1, -1] ! brg_code
      in if speed = -1 then 9600 else speed)"

text \<open>The line is opened and set to the rate of the clock select register; input on it raises \<open>SIGIO\<close>.\<close>

definition init_serial_line :: "devs \<Rightarrow> nat \<Rightarrow> mach \<Rightarrow> mach" where
  "init_serial_line dv ab m =
     (if \<not> dv_sysv dv \<or> \<not> du_named (duart m) ab then m
      else if \<not> du_opened (duart m) ab \<and> \<not> dv_opens dv ab then
        set_duart (\<lambda>d. d\<lparr>du_inited := (du_inited d)(ab := True)\<rparr>) m
      else
        let t = du_registers (duart m) DUART_WR (PORT_OFFSET ab + 1);
            t = (if t = 0 then 0xb else t);
            m = set_duart (\<lambda>d. d\<lparr>du_opened := (du_opened d)(ab := True), du_baud := (du_baud d)(ab := csr_to_baud t d)\<rparr>) m;
            m = simsignal NSIG SIGHUP (Some SIG_IGN_name) (simsignal NSIG SIGIO (Some check_tty_lines_name) m)
        in set_duart (\<lambda>d. d\<lparr>du_inited := (du_inited d)(ab := True)\<rparr>) m)"

definition duart_init_side :: "devs \<Rightarrow> bool \<Rightarrow> nat \<Rightarrow> mach \<Rightarrow> mach" where
  "duart_init_side dv restore ab m =
     (if \<not> restore then
        init_serial_line dv ab
          (set_duart (\<lambda>d. (clear_in_buff ab (d\<lparr>du_named := (du_named d)(ab := dv_named dv ab)\<rparr>))
             \<lparr>du_total_read := (du_total_read d)(ab := 0), du_inited := (du_inited d)(ab := False)\<rparr>) m)
      else if du_inited (duart m) ab then init_serial_line dv ab m
      else m)"

definition duart_init :: "devs \<Rightarrow> bool \<Rightarrow> mach \<Rightarrow> mach" where
  "duart_init dv restore m =
     (let m = duart_init_side dv restore DUART_B (duart_init_side dv restore DUART_A (set_duart hardware_reset m))
      in if restore then m else set_duart (\<lambda>d. d\<lparr>du_reset_cnt := 0, du_nmi_cnt := 0\<rparr>) m)"

section \<open>Operations\<close>

text \<open>
  The resets of a port clear its enable bit with the index \<open>PORT_OFFSET\<close>: for port B that is behind the
  end of the array.
\<close>

definition clear_enable :: "nat \<Rightarrow> u32 \<Rightarrow> duart_state \<Rightarrow> duart_state option" where
  "clear_enable i w d =
     (if i < 2 then Some (d\<lparr>du_enables := (du_enables d)(i := du_enables d i AND NOT w)\<rparr>) else None)"

definition reset_xmit :: "devs \<Rightarrow> nat \<Rightarrow> mach \<Rightarrow> mach option" where
  "reset_xmit dv ab m =
     (let i = PORT_OFFSET ab;
          d = du_reg DUART_RD (i + 1) (\<lambda>w. w AND NOT 0x0c) (duart m);
          d = du_reg DUART_RD 5 (\<lambda>w. w AND (if ab = DUART_A then NOT 1 else NOT 0x10)) d;
          d = du_reg DUART_WR (i + 3) (\<lambda>_. 0) d
      in do { d \<leftarrow> clear_enable i 2 d; Some (init_serial_line dv ab (set_duart (\<lambda>_. d) m)) })"

definition reset_recv :: "devs \<Rightarrow> nat \<Rightarrow> mach \<Rightarrow> mach option" where
  "reset_recv dv ab m =
     (let i = PORT_OFFSET ab;
          d = du_reg DUART_RD (i + 1) (\<lambda>w. w AND NOT 0xf3) (duart m);
          d = du_reg DUART_RD (i + 3) (\<lambda>_. 0) d;
          d = du_reg DUART_RD 5 (\<lambda>w. w AND (if ab = DUART_A then NOT 6 else NOT 0x60)) d
      in do { d \<leftarrow> clear_enable i 1 d; Some (init_serial_line dv ab (set_duart (\<lambda>_. clear_in_buff ab d) m)) })"

text \<open>The command register: a command, then the enabling of transmitter and receiver.\<close>

definition enable_xmit :: "nat \<Rightarrow> u8 \<Rightarrow> duart_state \<Rightarrow> duart_state" where
  "enable_xmit ab b d =
     (let i = PORT_OFFSET ab; k = drop_bit 2 (b AND 0xc) in
      if k = 1 then
        du_reg DUART_RD 5 (\<lambda>w. w OR (if ab = DUART_A then 1 else 0x10)) (du_reg DUART_RD (i + 1) (\<lambda>w. w OR 0x0c)
          (d\<lparr>du_enables := (du_enables d)(ab := du_enables d ab OR 2)\<rparr>))
      else if k = 2 then
        du_reg DUART_RD 5 (\<lambda>w. w AND (if ab = DUART_A then NOT 1 else NOT 0x10)) (du_reg DUART_RD (i + 1) (\<lambda>w. w AND NOT 0x0c)
          (d\<lparr>du_enables := (du_enables d)(ab := du_enables d ab AND NOT 2)\<rparr>))
      else d)"

definition enable_recv :: "nat \<Rightarrow> u8 \<Rightarrow> duart_state \<Rightarrow> duart_state" where
  "enable_recv ab b d =
     (let i = PORT_OFFSET ab; k = b AND 3 in
      if k = 1 then d\<lparr>du_enables := (du_enables d)(ab := du_enables d ab OR 1)\<rparr>
      else if k = 2 then
        clear_in_buff ab
          (du_reg DUART_RD 5 (\<lambda>w. w AND (if ab = DUART_A then NOT 6 else NOT 0x60)) (du_reg DUART_RD (i + 1) (\<lambda>w. w AND NOT 3)
             (d\<lparr>du_enables := (du_enables d)(ab := du_enables d ab AND NOT 1)\<rparr>)))
      else d)"

definition duart_command :: "devs \<Rightarrow> nat \<Rightarrow> u8 \<Rightarrow> mach \<Rightarrow> mach option" where
  "duart_command dv ab b m =
     (let c = drop_bit 4 b AND 0xf in
      do {
        m \<leftarrow> (if c = 1 then Some (set_duart (\<lambda>d. d\<lparr>du_reg_pointer := (du_reg_pointer d)(ab := MR1)\<rparr>) m)
              else if c = 2 then reset_recv dv ab m
              else if c = 3 then reset_xmit dv ab m
              else Some m);
        Some (set_duart (\<lambda>d. enable_recv ab b (enable_xmit ab b d)) m)
      })"

definition cntl_store :: "devs \<Rightarrow> u32 \<Rightarrow> u8 \<Rightarrow> mach \<Rightarrow> mach option" where
  "cntl_store dv o' b m =
     (let ab = (if drop_bit 5 o' = 0 then DUART_A else DUART_B); i = PORT_OFFSET ab;
          m = set_duart (\<lambda>d.
            if o' AND 0x1f \<noteq> 0 then du_reg DUART_WR (unat (drop_bit 2 o')) (\<lambda>_. b) d
            else (du_reg (du_reg_pointer d ab) i (\<lambda>_. b) d)\<lparr>du_reg_pointer := (du_reg_pointer d)(ab := MR2)\<rparr>) m
      in
        if o' = 4 \<or> o' = 0x24 then Some (init_serial_line dv ab m)
        else if o' = 8 \<or> o' = 0x28 then duart_command dv ab b m
        else if o' = 0x18 then Some (set_duart (\<lambda>d. du_reg DUART_RD 6 (\<lambda>_. du_registers d DUART_WR 6) d) m)
        else if o' = 0x1c then Some (set_duart (\<lambda>d. du_reg DUART_RD 7 (\<lambda>_. du_registers d DUART_WR 7) d) m)
        else if o' = 0x38 then
          Some (set_duart (\<lambda>d. d\<lparr>du_output_reg := du_output_reg d OR du_registers d DUART_WR 14\<rparr>) m)
        else if o' = 0x3c then
          Some (set_duart (\<lambda>d. d\<lparr>du_output_reg := du_output_reg d AND NOT (du_registers d DUART_WR 15)\<rparr>) m)
        else Some m)"

definition do_cntl :: "devs \<Rightarrow> u32 \<Rightarrow> hostptr \<Rightarrow> memop \<Rightarrow> mach \<Rightarrow> (int \<times> mach) option" where
  "do_cntl dv o' rp mop m =
     (if mop = ST then
        do { v \<leftarrow> read_ptr m rp; m \<leftarrow> cntl_store dv o' (ucast v) m; Some (E_NONE, m) }
      else if mop = LD \<or> mop = LD_U then
        if o' AND 0x1f \<noteq> 0 then
          do { m \<leftarrow> write_ptr m rp (ucast (du_registers (duart m) DUART_RD (unat (drop_bit 2 o')))); Some (E_NONE, m) }
        else
          let ab = (if drop_bit 5 o' = 0 then DUART_A else DUART_B) in
          do {
            m \<leftarrow> write_ptr m rp (ucast (du_registers (duart m) (du_reg_pointer (duart m) ab) (PORT_OFFSET ab)));
            Some (E_NONE, set_duart (\<lambda>d. d\<lparr>du_reg_pointer := (du_reg_pointer d)(ab := MR2)\<rparr>) m)
          }
      else Some (E_DACC, m))"

definition loopback :: "nat \<Rightarrow> duart_state \<Rightarrow> bool" where
  "loopback ab d \<longleftrightarrow> du_registers d MR2 (PORT_OFFSET ab) AND 0xc0 = 0x80"

text \<open>The receive register is emptied: no character available and, unless interrupts are for a full buffer, no request.\<close>

definition rx_taken :: "nat \<Rightarrow> duart_state \<Rightarrow> duart_state" where
  "rx_taken ab d =
     (let i = PORT_OFFSET ab; d = du_reg DUART_RD (i + 1) (\<lambda>w. w AND NOT 3) d in
      if du_registers d MR1 i AND 0x40 = 0 then
        du_reg DUART_RD 5 (\<lambda>w. w AND (if ab = DUART_A then NOT 2 else NOT 0x20)) d
      else d)"

definition receive_char :: "nat \<Rightarrow> duart_state \<Rightarrow> duart_state" where
  "receive_char ab d =
     (let i = PORT_OFFSET ab in
      if du_enables d ab AND 1 = 0 then d
      else if loopback ab d then
        rx_taken ab (du_reg DUART_RD (i + 3) (\<lambda>_. du_registers d DUART_WR (i + 3)) d)
      else if du_count d ab > 0 then
        let (c, d) = dequeue ab d; d = du_reg DUART_RD (i + 3) (\<lambda>_. c) d
        in if du_count d ab = 0 then rx_taken ab d else d
      else d)"

definition transmit_char :: "nat \<Rightarrow> duart_state \<Rightarrow> duart_state" where
  "transmit_char ab d =
     (let i = PORT_OFFSET ab;
          d = (if du_named d ab then d\<lparr>du_sent := (du_sent d)(ab := du_sent d ab @ [du_registers d DUART_WR (i + 3)])\<rparr> else d);
          d = (if loopback ab d then
                 let d = du_reg DUART_RD (i + 1) (\<lambda>w. w OR 3) d in
                 if du_registers d MR1 i AND 0x40 = 0 then
                   du_reg DUART_RD 5 (\<lambda>w. w OR (if ab = DUART_A then 2 else 0x20)) d
                 else d
               else d)
      in du_reg DUART_RD 5 (\<lambda>w. w OR (if ab = DUART_A then 1 else 0x10)) d)"

definition do_data :: "devs \<Rightarrow> hostptr \<Rightarrow> memop \<Rightarrow> nat \<Rightarrow> mach \<Rightarrow> (int \<times> mach) option" where
  "do_data dv rp mop ab m =
     (let i = PORT_OFFSET ab in
      if mop = LD \<or> mop = LD_U then
        let m = set_duart (receive_char ab) m in
        do { m \<leftarrow> write_ptr m rp (ucast (du_registers (duart m) DUART_RD (i + 3))); Some (E_NONE, m) }
      else if mop = ST then
        do {
          v \<leftarrow> read_ptr m rp;
          let m = set_duart (du_reg DUART_WR (i + 3) (\<lambda>_. ucast v)) m;
          if du_named (duart m) ab \<and> \<not> dv_writes dv ab then Some (E_ERR, m)
          else Some (E_NONE, set_duart (transmit_char ab) m)
        }
      else Some (E_NONE, m))"

definition du_interrupt :: "mach \<Rightarrow> bool" where
  "du_interrupt m \<longleftrightarrow> du_registers (duart m) DUART_WR 5 AND du_registers (duart m) DUART_RD 5 \<noteq> 0"

definition duart_operation ::
  "devs \<Rightarrow> u32 \<Rightarrow> hostptr \<Rightarrow> u32 \<Rightarrow> memop \<Rightarrow> mach \<Rightarrow> (int \<times> mach) option" where
  "duart_operation dv o' rp sz mop m =
     (if sz \<noteq> WORD then Some (E_DACC, m)
      else if mop = XMEM \<or> mop = XMEM_U then Some (E_DACC, m)
      else
        do {
          (status, m') \<leftarrow>
            (if o' \<in> {0, 4, 8, 0x10, 0x14, 0x18, 0x1c, 0x20, 0x24, 0x28, 0x30, 0x34, 0x38, 0x3c} then do_cntl dv o' rp mop m
             else if o' = 0xc then do_data dv rp mop DUART_A m
             else if o' = 0x2c then do_data dv rp mop DUART_B m
             else Some (E_DACC, m));
          Some (status,
            if du_interrupt m \<and> \<not> du_interrupt m' then clear_ist 17 m'
            else if \<not> du_interrupt m \<and> du_interrupt m' then set_ist 17 m' else m')
        })"

end
