(* ===== verification/Sim_Disk.thy ===== *)
theory Sim_Disk
  imports Sim_Duart
begin

text \<open>
  The devices that copy between simulated memory and files of the host (\<open>sim/disk.c\<close>), the console (\<open>sim/console.c\<close>)
  and the clock (\<open>sim/gettime.c\<close>).
\<close>

section \<open>Disks\<close>

text \<open>The fourth disk uses the registers of the third: both are number 2.\<close>

definition disk_index :: "nat \<Rightarrow> nat" where
  "disk_index j = (if j = 4 then 2 else j - 1)"

definition SD_BLKSIZE :: u32 where "SD_BLKSIZE = 512"

definition set_disk :: "nat \<Rightarrow> (disk_regs \<Rightarrow> disk_regs) \<Rightarrow> mach \<Rightarrow> mach" where
  "set_disk n f m = set_drivers (\<lambda>r. r\<lparr>dr_disks := (dr_disks r)(n := f (dr_disks r n))\<rparr>) m"

abbreviation disk :: "mach \<Rightarrow> nat \<Rightarrow> disk_regs" where
  "disk m n \<equiv> dr_disks (g_drivers m) n"

text \<open>Opening works if the file exists.\<close>

definition open_disk :: "nat \<Rightarrow> mach \<Rightarrow> mach" where
  "open_disk n m = set_disk n (\<lambda>p. p\<lparr>dk_open := (dr_files (g_drivers m) n \<noteq> None)\<rparr>) m"

text \<open>A restored disk is opened again only if it was open.\<close>

definition disk_init :: "nat \<Rightarrow> bool \<Rightarrow> mach \<Rightarrow> mach" where
  "disk_init n restore m =
     (if \<not> restore then
        open_disk n (set_disk n (\<lambda>p. p\<lparr>dk_physical_address := 0, dk_block := 0, dk_count := 0, dk_command := 0\<rparr>) m)
      else if dk_open (disk m n) then open_disk n m
      else m)"

text \<open>The bytes of a file with \<open>bs\<close> written at an offset; a gap is filled with zeros.\<close>

definition file_write :: "nat \<Rightarrow> u8 list \<Rightarrow> u8 list \<Rightarrow> u8 list" where
  "file_write off bs file =
     (if bs = [] then file
      else take off file @ replicate (off - length file) 0 @ bs @ drop (off + length bs) file)"

definition set_file :: "nat \<Rightarrow> u8 list \<Rightarrow> mach \<Rightarrow> mach" where
  "set_file n bs m = set_drivers (\<lambda>r. r\<lparr>dr_files := (dr_files r)(n := Some bs)\<rparr>) m"

text \<open>
  A command transfers whole blocks between the file and memory; the file's position is that of \<open>lseek\<close>, which fails
  for an offset that is negative as a file offset.
\<close>

definition do_disk_command :: "devs \<Rightarrow> io_fn \<Rightarrow> nat \<Rightarrow> mach \<Rightarrow> (int \<times> mach) option" where
  "do_disk_command dv io n m =
     (let p = disk m n; offset = dk_block p * SD_BLKSIZE; cnt = dk_count p * SD_BLKSIZE in
      case dr_files (g_drivers m) n of
        None \<Rightarrow> Some (E_DACC, m)
      | Some file \<Rightarrow>
          if offset <s 0 then Some (E_DACC, m)
          else if dk_command p = 1 then
            do {
              (actual, rest, m) \<leftarrow> sim_readfile io (dv_junk dv) (drop (unat offset) file) m (dk_physical_address p) cnt 0;
              Some (if actual \<noteq> cnt then E_DACC else E_NONE, m)
            }
          else if dk_command p = 2 then
            (let (actual, out, m) = sim_writefile (dv_room dv) [] m (dk_physical_address p) cnt 0
             in Some (if actual \<noteq> cnt then E_DACC else E_NONE, set_file n (file_write (unat offset) out file) m))
          else Some (E_DACC, m))"

text \<open>Writing block number 0 closes and opens the file.\<close>

definition disk_operation ::
  "devs \<Rightarrow> io_fn \<Rightarrow> nat \<Rightarrow> u32 \<Rightarrow> hostptr \<Rightarrow> u32 \<Rightarrow> memop \<Rightarrow> mach \<Rightarrow> (int \<times> mach) option" where
  "disk_operation dv io n o' rp sz mop m =
     (if \<not> dk_open (disk m n) \<or> sz \<noteq> WORD \<or> mop \<noteq> ST then Some (E_DACC, m)
      else if o' = 0 then
        do { v \<leftarrow> read_ptr m rp; Some (E_NONE, set_disk n (\<lambda>p. p\<lparr>dk_physical_address := v\<rparr>) m) }
      else if o' = 4 then
        do {
          v \<leftarrow> read_ptr m rp;
          let m = set_disk n (\<lambda>p. p\<lparr>dk_block := v\<rparr>) m;
          Some (E_NONE, if v = 0 then open_disk n m else m)
        }
      else if o' = 8 then
        do { v \<leftarrow> read_ptr m rp; Some (E_NONE, set_disk n (\<lambda>p. p\<lparr>dk_count := v\<rparr>) m) }
      else if o' = 12 then
        do { v \<leftarrow> read_ptr m rp; do_disk_command dv io n (set_disk n (\<lambda>p. p\<lparr>dk_command := v\<rparr>) m) }
      else Some (E_DACC, m))"

section \<open>The console\<close>

text \<open>At the end of its input the console delivers \<open>0xff\<close>.  An exchange is accepted and does nothing.\<close>

definition sim_consgetchar :: "mach \<Rightarrow> u8 \<times> mach" where
  "sim_consgetchar m =
     (case dr_cons_in (g_drivers m) of
        [] \<Rightarrow> (0xff, m)
      | c # cs \<Rightarrow> (c, set_drivers (\<lambda>r. r\<lparr>dr_cons_in := cs\<rparr>) m))"

definition sim_consputchar :: "u8 \<Rightarrow> mach \<Rightarrow> mach" where
  "sim_consputchar c m = set_drivers (\<lambda>r. r\<lparr>dr_cons_out := dr_cons_out r @ [c]\<rparr>) m"

definition console_operation :: "hostptr \<Rightarrow> u32 \<Rightarrow> memop \<Rightarrow> mach \<Rightarrow> (int \<times> mach) option" where
  "console_operation rp sz mop m =
     (if sz \<noteq> BYTE then Some (E_DACC, m)
      else if mop = LD \<or> mop = LD_U then
        let (c, m) = sim_consgetchar m in
        do { m \<leftarrow> write_ptr m rp (if mop = LD then scast c else ucast c); Some (E_NONE, m) }
      else if mop = ST then
        do { v \<leftarrow> read_ptr m rp; Some (E_NONE, sim_consputchar (ucast v) m) }
      else Some (E_NONE, m))"

section \<open>The clock\<close>

definition gettime_operation :: "u32 \<Rightarrow> hostptr \<Rightarrow> u32 \<Rightarrow> memop \<Rightarrow> mach \<Rightarrow> (int \<times> mach) option" where
  "gettime_operation o' rp sz mop m =
     (let m = (if o' = 0 then
                 set_drivers (\<lambda>r. r\<lparr>dr_tu := dr_clock r (dr_clock_calls r), dr_clock_calls := Suc (dr_clock_calls r)\<rparr>) m
               else m)
      in do { m \<leftarrow> do_mem_op rp BTu (unat o') sz mop m; Some (E_NONE, m) })"

end
