(* ===== verification/Sim_Io.thy ===== *)
theory Sim_Io
  imports Sim_Disk
begin

text \<open>
  The simulated IO space (\<open>sim/io.c\<close>): the device table, the cache of table rows, the transaction
  trace, and \<open>io_operation\<close>, which finds the device of an address and calls it.
\<close>

section \<open>Devices\<close>

definition trivial_timer_init :: "mach \<Rightarrow> mach" where
  "trivial_timer_init m = set_board (\<lambda>b. b\<lparr>b_timer_on := 0, b_ticks := 0\<rparr>) m"

definition trivial_timer_operation ::
  "hostptr \<Rightarrow> u32 \<Rightarrow> memop \<Rightarrow> bool \<Rightarrow> mach \<Rightarrow> (int \<times> mach) option" where
  "trivial_timer_operation rp sz mop override m =
     (if sz > WORD then Some (E_DACC, m)
      else do {
        m \<leftarrow> do_mem_op rp BTimer 0 sz mop m;
        let m = set_board (\<lambda>b. b\<lparr>b_timer_count := b_timer_on b\<rparr>) m;
        Some (E_NONE, if override then m else ReleaseOscillator (HoldOscillator m))
      })"

text \<open>
  The device that returns to the front end and that controls execution tracing.  The name of the trace
  file is a constant of the program; \<open>can_open\<close> says that the file can be opened.
\<close>

definition special_init :: "bool \<Rightarrow> bool \<Rightarrow> mach \<Rightarrow> mach" where
  "special_init can_open restore m =
     (if restore then (if g_tracing m \<noteq> 0 then open_trace_file can_open m else m)
      else m\<lparr>g_tracing := 0\<rparr>)"

definition special_operation ::
  "bool \<Rightarrow> u32 \<Rightarrow> hostptr \<Rightarrow> u32 \<Rightarrow> memop \<Rightarrow> mach \<Rightarrow> (int \<times> mach) option" where
  "special_operation can_open o' rp sz mop m =
     (if mop \<noteq> ST \<or> sz \<noteq> WORD then Some (E_DACC, m)
      else if o' = 0 then
        Some (E_NONE, m\<lparr>g_sim_interrupt_flag := g_sim_interrupt_flag m OR INT_INTERNAL\<rparr>)
      else if o' = 4 then
        do {
          v \<leftarrow> read_ptr m rp;
          let m = m\<lparr>g_tracing := v\<rparr>;
          Some (E_NONE, if v \<noteq> 0 then open_trace_file can_open m else close_trace_file m)
        }
      else Some (E_NONE, m))"

definition dev_row :: "u32 \<Rightarrow> u32 \<Rightarrow> bool \<Rightarrow> device \<Rightarrow> io_dev" where
  "dev_row la sz restore d =
     \<lparr>io_l_addr = la, io_size = sz, io_restore = restore, io_cnt = 0, io_device = d\<rparr>"

definition io_dev_tab :: "io_dev list" where
  "io_dev_tab =
     [dev_row 0xfff6f000 PAGESIZE False (Dv_data_cmmu 0),
      dev_row 0xfff5f000 PAGESIZE False (Dv_data_cmmu 1),
      dev_row 0xfff3f000 PAGESIZE False (Dv_data_cmmu 2),
      dev_row 0xfff7f000 PAGESIZE False (Dv_data_cmmu 3),
      dev_row 0xfff7e000 PAGESIZE False (Dv_code_cmmu 0),
      dev_row 0xfff7d000 PAGESIZE False (Dv_code_cmmu 1),
      dev_row 0xfff7b000 PAGESIZE False (Dv_code_cmmu 2),
      dev_row 0xfff77000 PAGESIZE False (Dv_code_cmmu 3),
      dev_row 0xfff82000 0x40 False Dv_duart,
      dev_row 0xfff83000 16 False Dv_cio,
      dev_row 0xfff84004 4 False (Dv_ien_n 0),
      dev_row 0xfff84008 4 False (Dv_ien_n 1),
      dev_row 0xfff84010 4 False (Dv_ien_n 2),
      dev_row 0xfff84020 4 False (Dv_ien_n 3),
      dev_row 0xfff8403c 4 False Dv_ien,
      dev_row 0xfff84040 4 False Dv_ist,
      dev_row 0xfff84080 4 False Dv_setswi,
      dev_row 0xfff84084 4 False Dv_clrswi,
      dev_row 0xfff84088 4 False Dv_istate,
      dev_row 0xfff8408c 4 False Dv_clrint,
      dev_row 0xfff88018 4 False Dv_whoami,
      dev_row 0xffff0000 1 False Dv_console,
      dev_row 0xffff0004 4 False Dv_trivial_timer,
      dev_row 0xffff000c 0x14 False Dv_special,
      dev_row 0xffff0020 0x10 True (Dv_disk 1),
      dev_row 0xffff0030 0x10 True (Dv_disk 2),
      dev_row 0xffff0040 0x10 True (Dv_disk 3),
      dev_row 0xffff0050 0x10 True (Dv_disk 4),
      dev_row 0xffff0060 0x10 False Dv_gettime]"

definition dev_operation ::
  "devs \<Rightarrow> bool \<Rightarrow> io_fn \<Rightarrow> device \<Rightarrow> u32 \<Rightarrow> hostptr \<Rightarrow> u32 \<Rightarrow> memop \<Rightarrow> bool \<Rightarrow> mach \<Rightarrow> (int \<times> mach) option"
where
  "dev_operation dv can_open io d o' rp sz mop override m =
     (case d of
        Dv_data_cmmu n \<Rightarrow> cmmu_operation io o' rp sz mop n override m
      | Dv_code_cmmu n \<Rightarrow> cmmu_operation io o' rp sz mop (n + 4) override m
      | Dv_cio \<Rightarrow> cio_operation o' rp sz mop m
      | Dv_ien_n j \<Rightarrow> ien_n_operation j rp sz mop m
      | Dv_ien \<Rightarrow> ien_operation rp sz mop m
      | Dv_ist \<Rightarrow> ist_operation rp sz mop m
      | Dv_setswi \<Rightarrow> setswi_operation rp sz mop m
      | Dv_clrswi \<Rightarrow> clrswi_operation rp sz mop m
      | Dv_istate \<Rightarrow> istate_operation rp sz mop m
      | Dv_clrint \<Rightarrow> clrint_operation rp sz mop m
      | Dv_whoami \<Rightarrow> whoami_operation rp sz mop m
      | Dv_trivial_timer \<Rightarrow> trivial_timer_operation rp sz mop override m
      | Dv_special \<Rightarrow> special_operation can_open o' rp sz mop m
      | Dv_duart \<Rightarrow> duart_operation dv o' rp sz mop m
      | Dv_console \<Rightarrow> console_operation rp sz mop m
      | Dv_disk j \<Rightarrow> disk_operation dv io (disk_index j) o' rp sz mop m
      | Dv_gettime \<Rightarrow> gettime_operation o' rp sz mop m)"

text \<open>The initialization of a CMMU ignores the result of \<open>cmmu_init\<close>.\<close>

definition dev_init :: "devs \<Rightarrow> bool \<Rightarrow> device \<Rightarrow> bool \<Rightarrow> mach \<Rightarrow> mach option" where
  "dev_init dv can_open d restore m =
     (case d of
        Dv_data_cmmu n \<Rightarrow> map_option snd (cmmu_init n m)
      | Dv_code_cmmu n \<Rightarrow> map_option snd (cmmu_init (n + 4) m)
      | Dv_cio \<Rightarrow> Some (cio_do_reset m)
      | Dv_ien_n j \<Rightarrow> Some (ien_n_init j m)
      | Dv_ist \<Rightarrow> Some (ist_init m)
      | Dv_trivial_timer \<Rightarrow> Some (trivial_timer_init m)
      | Dv_special \<Rightarrow> Some (special_init can_open restore m)
      | Dv_duart \<Rightarrow> Some (duart_init dv restore m)
      | Dv_disk j \<Rightarrow> Some (disk_init (disk_index j) restore m)
      | _ \<Rightarrow> Some m)"

section \<open>The device table\<close>

abbreviation (input) IO_CACHE_SIZE :: nat where "IO_CACHE_SIZE \<equiv> 256"

definition IO_HASH :: "u32 \<Rightarrow> nat" where
  "IO_HASH a = unat (drop_bit 12 a AND 0xff)"

text \<open>The first row of a hash class, row 0 if there is none.\<close>

definition cache_row :: "io_dev list \<Rightarrow> nat \<Rightarrow> nat" where
  "cache_row tab i =
     (case find (\<lambda>k. io_size (tab ! k) > 0 \<and> i = IO_HASH (io_l_addr (tab ! k))) [0..<length tab] of
        None \<Rightarrow> 0 | Some k \<Rightarrow> k)"

definition io_buildcache :: "mach \<Rightarrow> mach" where
  "io_buildcache m =
     m\<lparr>g_io_cache := (\<lambda>i. if i < IO_CACHE_SIZE then cache_row (g_io_dev_tab m) i else g_io_cache m i)\<rparr>"

abbreviation (input) IO_TRACE_BUF_DEFAULT_SIZE :: nat where "IO_TRACE_BUF_DEFAULT_SIZE \<equiv> 20000"

definition alloc_trace :: "mach \<Rightarrow> mach" where
  "alloc_trace m =
     (if g_io_trace_buf_size m \<noteq> 0 then m
      else
        let v = varvalue ''simtrace'' m in
        if v \<noteq> 0 \<and> v \<le> 10000000 then m\<lparr>g_io_trace_buf_size := unat v\<rparr>
        else setvar ''simtrace'' 20000 (m\<lparr>g_io_trace_buf_size := IO_TRACE_BUF_DEFAULT_SIZE\<rparr>))"

fun init_devices :: "devs \<Rightarrow> bool \<Rightarrow> nat list \<Rightarrow> mach \<Rightarrow> mach option" where
  "init_devices dv can_open [] m = Some m"
| "init_devices dv can_open (k # ks) m =
     (let tab = g_io_dev_tab m; m = m\<lparr>g_io_dev_tab := tab[k := (tab ! k)\<lparr>io_cnt := 0\<rparr>]\<rparr> in
      do { m \<leftarrow> dev_init dv can_open (io_device (tab ! k)) False m; init_devices dv can_open ks m })"

definition io_init :: "devs \<Rightarrow> bool \<Rightarrow> mach \<Rightarrow> mach option" where
  "io_init dv can_open m =
     (let m = (alloc_trace m)\<lparr>g_io_trace := 0, g_io_trace_vals := 0\<rparr> in
      do {
        m \<leftarrow> init_devices dv can_open [0..<length (g_io_dev_tab m)] m;
        Some (io_buildcache m)
      })"

fun restore_devices :: "devs \<Rightarrow> bool \<Rightarrow> io_dev list \<Rightarrow> mach \<Rightarrow> mach option" where
  "restore_devices dv can_open [] m = Some m"
| "restore_devices dv can_open (r # rs) m =
     do {
       m \<leftarrow> (if io_restore r then dev_init dv can_open (io_device r) True m else Some m);
       restore_devices dv can_open rs m
     }"

definition sim_io_restore :: "devs \<Rightarrow> bool \<Rightarrow> mach \<Rightarrow> mach option" where
  "sim_io_restore dv can_open m = restore_devices dv can_open (g_io_dev_tab m) m"

text \<open>The result is the code's: 0 if the device was found, -1 otherwise.\<close>

definition io_change_addr :: "device \<Rightarrow> u32 \<Rightarrow> u32 \<Rightarrow> mach \<Rightarrow> int \<times> mach" where
  "io_change_addr d la len m =
     (let tab = g_io_dev_tab m in
      case find (\<lambda>k. io_device (tab ! k) = d) [0..<length tab] of
        None \<Rightarrow> (-1, m)
      | Some k \<Rightarrow>
          let m = m\<lparr>g_io_dev_tab := tab[k := (tab ! k)\<lparr>io_l_addr := la, io_size := len\<rparr>]\<rparr>
          in (0, if len > 0 then io_buildcache m else m))"

section \<open>Operations\<close>

definition responds :: "u32 \<Rightarrow> io_dev \<Rightarrow> bool" where
  "responds pa r \<longleftrightarrow> io_l_addr r \<le> pa \<and> pa < io_l_addr r + io_size r"

text \<open>
  The search starts at the cached row and goes once around the table.  A cached pointer that is not a row
  of the table (before \<open>io_init\<close> the cache holds null pointers) is refused by \<open>io_operation\<close>.
\<close>

definition find_device :: "u32 \<Rightarrow> mach \<Rightarrow> nat option" where
  "find_device pa m =
     (let tab = g_io_dev_tab m; start = g_io_cache m (IO_HASH pa)
      in find (\<lambda>k. responds pa (tab ! k)) (map (\<lambda>c. (start + c) mod length tab) [0..<length tab]))"

text \<open>The record of a transaction before the device is called.\<close>

definition trace_io :: "u32 \<Rightarrow> nat \<Rightarrow> hostptr \<Rightarrow> u32 \<Rightarrow> memop \<Rightarrow> mach \<Rightarrow> mach option" where
  "trace_io pa k rp sz mop m =
     (let i = g_io_trace m;
          m = m\<lparr>g_io_trace := (if Suc i \<ge> g_io_trace_buf_size m then 0 else Suc i),
                g_io_trace_vals := (if g_io_trace_vals m < g_io_trace_buf_size m
                                    then Suc (g_io_trace_vals m) else g_io_trace_vals m)\<rparr>;
          tab = g_io_dev_tab m; cnt = io_cnt (tab ! k) + 1;
          t = (g_io_trace_buf m i)\<lparr>it_addr := pa, it_io_ptr := k, it_ip := g_ip m,
                 it_mem_op_type := mop, it_size := sz, it_cnt := cnt\<rparr>
      in do {
           v \<leftarrow> (if mop = ST then read_ptr m rp else Some (it_value t));
           Some (m\<lparr>g_io_trace_buf := (g_io_trace_buf m)(i := t\<lparr>it_value := v\<rparr>),
                   g_io_dev_tab := tab[k := (tab ! k)\<lparr>io_cnt := cnt\<rparr>]\<rparr>)
         })"

definition trace_io_result :: "nat \<Rightarrow> hostptr \<Rightarrow> memop \<Rightarrow> mach \<Rightarrow> mach option" where
  "trace_io_result i rp mop m =
     (if mop = ST then Some m
      else do {
        v \<leftarrow> read_ptr m rp;
        Some (m\<lparr>g_io_trace_buf := (g_io_trace_buf m)(i := (g_io_trace_buf m i)\<lparr>it_value := v\<rparr>)\<rparr>)
      })"

definition io_operation :: "devs \<Rightarrow> bool \<Rightarrow> io_fn \<Rightarrow> io_fn" where
  "io_operation dv can_open io m pa rp sz mop override =
     (if g_io_cache m (IO_HASH pa) \<ge> length (g_io_dev_tab m) then None
      else case find_device pa m of
        None \<Rightarrow> Some (E_DACC, cmmu_set_bus_error pa m)
      | Some k \<Rightarrow>
          let m = (if rw_of mop = WRITE then flush_io_decoded_list_entry pa m else m);
              i = g_io_trace m; r = g_io_dev_tab m ! k
          in do {
               m \<leftarrow> trace_io pa k rp sz mop m;
               (ex, m) \<leftarrow> dev_operation dv can_open io (io_device r) (pa - io_l_addr r) rp sz mop override m;
               m \<leftarrow> trace_io_result i rp mop m;
               Some (ex, m)
             })"

text \<open>
  A CMMU command translates addresses, and so reads and writes memory, and page tables may lie in IO
  space.  \<open>n\<close> bounds how deep such calls nest; a call beyond the bound is one that overflows the stack
  of the program.
\<close>

fun sim_io :: "devs \<Rightarrow> bool \<Rightarrow> nat \<Rightarrow> io_fn" where
  "sim_io dv can_open 0 = (\<lambda>m pa rp sz mop override. None)"
| "sim_io dv can_open (Suc n) = io_operation dv can_open (sim_io dv can_open n)"

end
