(* ===== verification/Sim_Devices.thy ===== *)
theory Sim_Devices
  imports Sim_Io
begin

text \<open>
  Properties of the IO space: the device an address leads to, errors, the transaction trace, and the
  protocol of the counter/timer's registers.
\<close>

section \<open>Finding the device\<close>

text \<open>Two rows of the table that share no address.\<close>

definition apart :: "io_dev \<Rightarrow> io_dev \<Rightarrow> bool" where
  "apart r s \<longleftrightarrow> io_l_addr r + io_size r \<le> io_l_addr s \<or> io_l_addr s + io_size s \<le> io_l_addr r"

lemma apart_responds: "apart r s \<Longrightarrow> responds pa r \<Longrightarrow> \<not> responds pa s"
  by (auto simp: apart_def responds_def)

lemma rows_apart: "sorted_wrt apart io_dev_tab"
  by (simp add: io_dev_tab_def dev_row_def apart_def)

definition same_rows :: "io_dev list \<Rightarrow> io_dev list \<Rightarrow> bool" where
  "same_rows t u \<longleftrightarrow> map (\<lambda>r. (io_l_addr r, io_size r)) t = map (\<lambda>r. (io_l_addr r, io_size r)) u"

lemma same_rows_nth:
  assumes "same_rows t u" and "k < length t"
  shows "k < length u" and "responds pa (t ! k) = responds pa (u ! k)"
proof -
  let ?f = "\<lambda>r :: io_dev. (io_l_addr r, io_size r)"
  have m: "map ?f t = map ?f u" using assms(1) unfolding same_rows_def .
  then have "length t = length u" by (rule map_eq_imp_length_eq)
  then show k: "k < length u" using assms(2) by simp
  have "?f (t ! k) = map ?f t ! k" using assms(2) by (rule nth_map [symmetric])
  also have "\<dots> = ?f (u ! k)" unfolding m using k by (rule nth_map)
  finally have "?f (t ! k) = ?f (u ! k)" .
  then have e: "io_l_addr (t ! k) = io_l_addr (u ! k)" "io_size (t ! k) = io_size (u ! k)"
    by (simp_all only: prod.inject)
  show "responds pa (t ! k) = responds pa (u ! k)"
    unfolding responds_def e ..
qed

lemma one_row_responds:
  assumes "same_rows t io_dev_tab" and "j < length t" and "k < length t"
    and "responds pa (t ! j)" and "responds pa (t ! k)"
  shows "j = k"
proof -
  have r: "responds pa (io_dev_tab ! j)" "responds pa (io_dev_tab ! k)" "j < length io_dev_tab" "k < length io_dev_tab"
    using assms same_rows_nth by blast+
  have "\<not> j < k" "\<not> k < j"
    using r sorted_wrt_nth_less [OF rows_apart] apart_responds by blast+
  then show ?thesis by simp
qed

lemma once_around: "set (map (\<lambda>c. (start + c) mod n) [0..<n]) = {..<n}" for start n :: nat
proof
  show "set (map (\<lambda>c. (start + c) mod n) [0..<n]) \<subseteq> {..<n}" by auto
  show "{..<n} \<subseteq> set (map (\<lambda>c. (start + c) mod n) [0..<n])"
  proof
    fix k
    assume "k \<in> {..<n}"
    then have k: "k < n" by simp
    have "start mod n \<le> n" using k by (simp add: less_imp_le)
    have "(start + (n - start mod n + k) mod n) mod n = (start + (n - start mod n + k)) mod n"
      by (simp only: mod_add_right_eq)
    also have "\<dots> = (start mod n + (n - start mod n + k)) mod n"
      by (simp only: mod_add_left_eq)
    also have "start mod n + (n - start mod n + k) = n + k" using \<open>start mod n \<le> n\<close> by simp
    also have "(n + k) mod n = k" using k by simp
    finally have e: "k = (start + (n - start mod n + k) mod n) mod n" by (rule sym)
    have "(n - start mod n + k) mod n \<in> set [0..<n]" using k by simp
    then show "k \<in> set (map (\<lambda>c. (start + c) mod n) [0..<n])"
      unfolding set_map by (rule image_eqI [where f = "\<lambda>c. (start + c) mod n", OF e])
  qed
qed

lemma find_device_Some: "find_device pa m = Some k \<Longrightarrow> k < length (g_io_dev_tab m) \<and> responds pa (g_io_dev_tab m ! k)"
proof -
  let ?t = "g_io_dev_tab m" and ?s = "g_io_cache m (IO_HASH pa)"
  assume "find_device pa m = Some k"
  then have f: "find (\<lambda>k. responds pa (?t ! k)) (map (\<lambda>c. (?s + c) mod length ?t) [0..<length ?t]) = Some k"
    by (simp only: find_device_def Let_def)
  have "k \<in> {..<length ?t}"
    using conjunct2 [OF find_SomeD [OF f]] unfolding once_around .
  then show "k < length ?t \<and> responds pa (?t ! k)"
    using conjunct1 [OF find_SomeD [OF f]] unfolding lessThan_iff by (intro conjI)
qed

lemma find_device_None: "find_device pa m = None \<longleftrightarrow> (\<forall>k < length (g_io_dev_tab m). \<not> responds pa (g_io_dev_tab m ! k))"
  unfolding find_device_def Let_def find_None_iff once_around by auto

text \<open>
  Property C30.  With the rows of the device table where the program puts them, the search finds the
  device of an address whatever the cache holds: the one row that covers the address, if there is one.
\<close>

theorem find_device_exact:
  assumes "same_rows (g_io_dev_tab m) io_dev_tab"
  shows "find_device pa m = Some k \<longleftrightarrow> k < length (g_io_dev_tab m) \<and> responds pa (g_io_dev_tab m ! k)"
proof
  show "find_device pa m = Some k \<Longrightarrow> k < length (g_io_dev_tab m) \<and> responds pa (g_io_dev_tab m ! k)"
    by (rule find_device_Some)
next
  assume k: "k < length (g_io_dev_tab m) \<and> responds pa (g_io_dev_tab m ! k)"
  then obtain j where j: "find_device pa m = Some j" using find_device_None [of pa m] by blast
  with k one_row_responds [OF assms, of j k pa] find_device_Some [OF j] show "find_device pa m = Some k" by simp
qed

theorem find_device_exact_witness:
  "find_device 0xfff84040 (cleared_mach\<lparr>g_io_dev_tab := io_dev_tab, g_io_cache := (\<lambda>_. 7)\<rparr>) = Some 15"
  using find_device_exact [of "cleared_mach\<lparr>g_io_dev_tab := io_dev_tab, g_io_cache := (\<lambda>_. 7)\<rparr>" "0xfff84040" 15]
  by (simp add: same_rows_def io_dev_tab_def responds_def dev_row_def)

text \<open>
  An access that no device answers ends in a data access exception; nothing but the fault
  code of a CMMU changes, and the destination register keeps its value.
\<close>

theorem unmapped_io_faults:
  assumes "same_rows (g_io_dev_tab m) io_dev_tab" and "\<forall>r \<in> set io_dev_tab. \<not> responds pa r"
    and "g_io_cache m (IO_HASH pa) < length (g_io_dev_tab m)"
  shows "io_operation dv can_open io m pa rp sz mop override = Some (E_DACC, cmmu_set_bus_error pa m) \<and>
     g_regs (cmmu_set_bus_error pa m) = g_regs m \<and> mem_byte (cmmu_set_bus_error pa m) = mem_byte m \<and>
     g_board (cmmu_set_bus_error pa m) = g_board m"
proof -
  have "find_device pa m = None"
    using assms same_rows_nth unfolding find_device_None by (metis nth_mem)
  then show ?thesis
    using assms(3) by (simp add: io_operation_def cmmu_set_bus_error_def Let_def upd_cmmu_def set_cmmu_def mem_byte_def get_page_def fun_eq_iff)
qed

theorem unmapped_io_faults_witness:
  "io_operation idle_devs False (\<lambda>_ _ _ _ _ _. None) (cleared_mach\<lparr>g_io_dev_tab := io_dev_tab\<rparr>) 0xfff90000 (PReg 3) WORD LD False =
     Some (E_DACC, cmmu_set_bus_error 0xfff90000 (cleared_mach\<lparr>g_io_dev_tab := io_dev_tab\<rparr>))"
  using unmapped_io_faults [of "cleared_mach\<lparr>g_io_dev_tab := io_dev_tab\<rparr>" "0xfff90000"]
  by (simp add: same_rows_def io_dev_tab_def responds_def dev_row_def cleared_mach_def)

section \<open>The registers of the counter/timer\<close>

lemma cio_frame_ist [simp]:
  "g_regs (set_ist n m) = g_regs m" "g_regs (clear_ist n m) = g_regs m"
  "b_cio_regs (g_board (set_ist n m)) = b_cio_regs (g_board m)" "b_cio_regs (g_board (clear_ist n m)) = b_cio_regs (g_board m)"
  "b_cio_state (g_board (set_ist n m)) = b_cio_state (g_board m)" "b_cio_state (g_board (clear_ist n m)) = b_cio_state (g_board m)"
  "b_cio_reg_pointer (g_board (set_ist n m)) = b_cio_reg_pointer (g_board m)"
  "b_cio_reg_pointer (g_board (clear_ist n m)) = b_cio_reg_pointer (g_board m)"
  by (simp_all add: set_ist_def clear_ist_def check_for_interrupt_def upd_ist_def set_board_def)

lemma cio_frame_search [simp]:
  "g_regs (cio_search rs m) = g_regs m" "b_cio_regs (g_board (cio_search rs m)) = b_cio_regs (g_board m)"
  "b_cio_state (g_board (cio_search rs m)) = b_cio_state (g_board m)"
  "b_cio_reg_pointer (g_board (cio_search rs m)) = b_cio_reg_pointer (g_board m)"
  by (induction rs) simp_all

lemma cio_frame_check [simp]:
  "g_regs (check_for_cio_interrupt m) = g_regs m"
  "b_cio_regs (g_board (check_for_cio_interrupt m)) = b_cio_regs (g_board m)"
  "b_cio_state (g_board (check_for_cio_interrupt m)) = b_cio_state (g_board m)"
  "b_cio_reg_pointer (g_board (check_for_cio_interrupt m)) = b_cio_reg_pointer (g_board m)"
  by (simp_all add: check_for_cio_interrupt_def)

lemma mem_load_cio:
  "b_cio_regs (g_board m') = b_cio_regs (g_board m) \<Longrightarrow> mem_load m' BCio off sz sx = mem_load m BCio off sz sx"
  by (simp add: mem_load_def)

definition command_reg :: "nat \<Rightarrow> bool" where
  "command_reg r \<longleftrightarrow> r \<in> {c_porta_com, c_portb_com, c_ctim1_com, c_ctim2_com, c_ctim3_com}"

lemma cio_select:
  assumes "b_cio_state (g_board m) = cio_state0" and "a < 32"
  shows "\<exists>m'. cio_operation 12 (PReg a) WORD ST m = Some (E_NONE, m') \<and> b_cio_state (g_board m') = cio_state1 \<and>
     b_cio_reg_pointer (g_board m') = unat (g_regs m a AND 0x3f) \<and> g_regs m' = g_regs m \<and>
     b_cio_regs (g_board m') = b_cio_regs (g_board m)"
  using assms by (simp add: cio_operation_def cio_register_access_def set_cio_state_def set_board_def Let_def)

lemma cio_mem_store:
  "r < 64 \<Longrightarrow> \<exists>m'. mem_store m BCio r BYTE v = Some m' \<and> g_regs m' = g_regs m"
  by (auto simp: mem_store_def aligned_to_def set_board_def)

lemma cio_write:
  assumes "b_cio_state (g_board m) = cio_state1" and "b_cio_reg_pointer (g_board m) = r" and "r < 64"
    and "\<not> command_reg r" and "b < 32"
  shows "\<exists>m'. cio_operation 12 (PReg b) WORD ST m = Some (E_NONE, m') \<and> b_cio_state (g_board m') = cio_state0 \<and>
     g_regs m' = (g_regs m)(0 := 0, 32 := 0) \<and> mem_load m' BCio r BYTE sx = Some (Sim_Memop.extend BYTE sx (g_regs m b))"
proof -
  obtain m1 where st: "mem_store m BCio r BYTE (g_regs m b) = Some m1" and g: "g_regs m1 = g_regs m"
    using cio_mem_store [OF assms(3)] by blast
  have op: "do_mem_op (PReg b) BCio r BYTE ST m = Some (zero_r0 m1)"
    using st assms(5) by (simp add: do_mem_op_def)
  let ?m = "check_for_cio_interrupt (set_cio_state cio_state0 (zero_r0 m1))"
  have "cio_operation 12 (PReg b) WORD ST m = Some (E_NONE, ?m)"
    using assms(1,2,4) op by (simp add: cio_operation_def cio_register_access_def command_reg_def)
  moreover have "mem_load ?m BCio r BYTE sx = mem_load (zero_r0 m1) BCio r BYTE sx"
    by (rule mem_load_cio) (simp add: set_cio_state_def set_board_def)
  ultimately show ?thesis
    using load_after_store [OF st, of sx] g by (simp add: set_cio_state_def set_board_def)
qed

lemma cio_read:
  assumes "b_cio_state (g_board m) = cio_state1" and "b_cio_reg_pointer (g_board m) = r"
    and "mem_load m BCio r BYTE (mop = LD) = Some v" and "mop = LD \<or> mop = LD_U" and "0 < c" and "c < 32"
  shows "\<exists>m'. cio_operation 12 (PReg c) WORD mop m = Some (E_NONE, m') \<and> g_regs m' c = v"
  using assms by (auto simp: cio_operation_def cio_register_access_def do_mem_op_def is_load_def set_cio_state_def
      set_board_def)

text \<open>
  Property C39.  The protocol of the counter/timer, with word accesses to its command port in state
  \<open>cio_state0\<close>: the program stores the number of a register, then a value, then the number again; the load that
  follows returns the low byte of the value, sign-extended by \<open>ld\<close> and zero-extended by \<open>ld.u\<close>.  This holds for every
  register number below 64 but the five command registers (\<open>command_reg\<close>), whose contents are
  not what was stored into them.
\<close>

theorem cio_register_roundtrip:
  assumes "b_cio_state (g_board m) = cio_state0" and "r < 64" and "\<not> command_reg r" and "g_regs m a = of_nat r"
    and "0 < a" and "a < 32" and "b < 32" and "0 < c" and "c < 32" and "mop = LD \<or> mop = LD_U"
  shows "\<exists>m1 m2 m3 m4. cio_operation 12 (PReg a) WORD ST m = Some (E_NONE, m1) \<and>
     cio_operation 12 (PReg b) WORD ST m1 = Some (E_NONE, m2) \<and>
     cio_operation 12 (PReg a) WORD ST m2 = Some (E_NONE, m3) \<and>
     cio_operation 12 (PReg c) WORD mop m3 = Some (E_NONE, m4) \<and>
     g_regs m4 c = Sim_Memop.extend BYTE (mop = LD) (g_regs m b)"
proof -
  have "(of_nat r :: u32) AND 0x3f = of_nat r mod 64"
    by (simp add: take_bit_eq_mask mask_eq_exp_minus_1 flip: take_bit_eq_mod [of 6, simplified])
  moreover have "unat ((of_nat r :: u32) mod 64) = r"
    using assms(2) by (simp add: unat_mod unat_of_nat)
  ultimately have r: "unat ((of_nat r :: u32) AND 0x3f) = r" by (simp only:)
  obtain m1 where m1: "cio_operation 12 (PReg a) WORD ST m = Some (E_NONE, m1)" "b_cio_state (g_board m1) = cio_state1"
    "b_cio_reg_pointer (g_board m1) = r" "g_regs m1 = g_regs m"
    using cio_select [OF assms(1,6)] r assms(4) by auto
  obtain m2 where m2: "cio_operation 12 (PReg b) WORD ST m1 = Some (E_NONE, m2)" "b_cio_state (g_board m2) = cio_state0"
    "g_regs m2 = (g_regs m1)(0 := 0, 32 := 0)"
    "mem_load m2 BCio r BYTE (mop = LD) = Some (Sim_Memop.extend BYTE (mop = LD) (g_regs m1 b))"
    using cio_write [OF m1(2,3) assms(2,3,7)] by blast
  have ga: "g_regs m2 a = of_nat r" using m2(3) m1(4) assms(4-6) by simp
  obtain m3 where m3: "cio_operation 12 (PReg a) WORD ST m2 = Some (E_NONE, m3)" "b_cio_state (g_board m3) = cio_state1"
    "b_cio_reg_pointer (g_board m3) = r" "b_cio_regs (g_board m3) = b_cio_regs (g_board m2)"
    using cio_select [OF m2(2) assms(6)] r ga by auto
  have "mem_load m3 BCio r BYTE (mop = LD) = Some (Sim_Memop.extend BYTE (mop = LD) (g_regs m b))"
    using mem_load_cio [OF m3(4)] m2(4) m1(4) by simp
  from cio_read [OF m3(2,3) this assms(10,8,9)] m1(1) m2(1) m3(1) show ?thesis by blast
qed

theorem cio_register_roundtrip_witness:
  "\<exists>m1 m2 m3 m4. cio_operation 12 (PReg 1) WORD ST (set_reg 1 0x1a (set_reg 2 0x99 (set_cio_state cio_state0 cleared_mach))) =
       Some (E_NONE, m1) \<and> cio_operation 12 (PReg 2) WORD ST m1 = Some (E_NONE, m2) \<and>
     cio_operation 12 (PReg 1) WORD ST m2 = Some (E_NONE, m3) \<and>
     cio_operation 12 (PReg 3) WORD LD_U m3 = Some (E_NONE, m4) \<and> g_regs m4 3 = 0x99"
proof -
  let ?m = "set_reg 1 0x1a (set_reg 2 0x99 (set_cio_state cio_state0 cleared_mach))"
  have "b_cio_state (g_board ?m) = cio_state0" by (simp add: set_reg_def set_cio_state_def set_board_def)
  from cio_register_roundtrip [OF this, of 26 1 2 3 LD_U] show ?thesis
    by (simp add: command_reg_def Sim_Memop.extend_def)
qed

end
