(* ===== verification/Sim_Gdb.thy ===== *)
theory Sim_Gdb
  imports Sim_Run Sim_Io
begin

text \<open>
  The interface between the debugger and the simulator (\<open>sim/simgdb.c\<close>) and the initialization of the
  simulator (\<open>sim_init\<close> of \<open>sim/siminit.c\<close>): registers by number, memory copies and searches, the
  exceptions that stop a run, and the processors, one of which is selected at any time.
\<close>

section \<open>Registers by number\<close>

abbreviation (input) SP_REGNUM :: nat where "SP_REGNUM \<equiv> 31"
abbreviation (input) SYNTH_PC_REGNUM :: nat where "SYNTH_PC_REGNUM \<equiv> 32"
abbreviation (input) PID_REGNUM :: nat where "PID_REGNUM \<equiv> 33"
abbreviation (input) PSR_REGNUM :: nat where "PSR_REGNUM \<equiv> 34"
abbreviation (input) SNIP_REGNUM :: nat where "SNIP_REGNUM \<equiv> 38"
abbreviation (input) SFIP_REGNUM :: nat where "SFIP_REGNUM \<equiv> 39"
abbreviation (input) SR3_REGNUM :: nat where "SR3_REGNUM \<equiv> 53"
abbreviation (input) FPECR_REGNUM :: nat where "FPECR_REGNUM \<equiv> 54"
abbreviation (input) FPSR_REGNUM :: nat where "FPSR_REGNUM \<equiv> 63"
abbreviation (input) FPCR_REGNUM :: nat where "FPCR_REGNUM \<equiv> 64"
abbreviation (input) COMEFROM_REGNUM :: nat where "COMEFROM_REGNUM \<equiv> 66"
abbreviation (input) MEMBRK_REGNUM :: nat where "MEMBRK_REGNUM \<equiv> 67"
abbreviation (input) STACKBASE_REGNUM :: nat where "STACKBASE_REGNUM \<equiv> 68"
abbreviation (input) RAMSIZE_REGNUM :: nat where "RAMSIZE_REGNUM \<equiv> 69"

definition reg_sim :: "nat \<Rightarrow> mach \<Rightarrow> u32" where
  "reg_sim n m =
     (if n \<le> SP_REGNUM then g_regs m n
      else if n = SYNTH_PC_REGNUM then g_ip m
      else if n \<le> SR3_REGNUM then g_sfu0_regs m (n - PID_REGNUM)
      else if n \<le> FPCR_REGNUM then g_sfu1_regs m (n - FPECR_REGNUM)
      else if n = COMEFROM_REGNUM then g_comefrom m
      else if n = MEMBRK_REGNUM then g_membrk m
      else if n = STACKBASE_REGNUM then g_sfu1_regs m 9
      else if n = RAMSIZE_REGNUM then g_sfu1_regs m 10
      else 0)"

definition set_sfu1 :: "nat \<Rightarrow> u32 \<Rightarrow> mach \<Rightarrow> mach" where
  "set_sfu1 n w m = m\<lparr>g_sfu1_regs := (g_sfu1_regs m)(n := w)\<rparr>"

definition setreg_sim :: "nat \<Rightarrow> u32 \<Rightarrow> mach \<Rightarrow> mach" where
  "setreg_sim n w m =
     (if n = 0 \<and> w \<noteq> 0 then m
      else if n \<le> SP_REGNUM then set_reg n w m
      else if n = SYNTH_PC_REGNUM then set_ip w m
      else if n \<le> SR3_REGNUM then set_cr (n - PID_REGNUM) w m
      else if n \<le> FPCR_REGNUM then set_sfu1 (n - FPECR_REGNUM) w m
      else if n = COMEFROM_REGNUM then set_comefrom w m
      else if n = MEMBRK_REGNUM then m\<lparr>g_membrk := w\<rparr>
      else if n = STACKBASE_REGNUM then set_sfu1 9 w m
      else m)"

section \<open>Simulated memory\<close>

text \<open>The mode \<open>M_CURMODE\<close> stands for the mode of the processor.\<close>

abbreviation (input) M_CURMODE :: nat where "M_CURMODE \<equiv> 2"

definition sim_v_to_p :: "io_fn \<Rightarrow> u32 \<Rightarrow> nat \<Rightarrow> mach \<Rightarrow> (int \<times> u32 \<times> mach) option" where
  "sim_v_to_p io la usmode m =
     l_to_p io (if usmode = M_CURMODE then PSR_US_MODE m else usmode) la (g_selected_processor m) READ m"

text \<open>
  \<open>sim_copymem\<close>: the loop over the bytes.  \<open>last\<close> is the offset at which an address was translated last,
  \<open>pa\<close> the physical address, \<open>None\<close> as long as the local variable is not set.  The result says whether
  the copy was completed.
\<close>

definition retranslate ::
  "io_fn \<Rightarrow> u32 \<Rightarrow> u32 \<Rightarrow> u32 option \<Rightarrow> mach \<Rightarrow> (bool \<times> u32 \<times> u32 option \<times> mach) option" where
  "retranslate io a lst pa m =
     (if a AND (PAGESIZE - 1) \<noteq> lst then
        do {
          (ex, pa, m) \<leftarrow> sim_v_to_p io a M_SUPERVISOR m;
          Some (ex = E_NONE, a AND (PAGESIZE - 1), Some pa, m)
        }
      else Some (True, lst, pa, m))"

fun copy_loop ::
  "io_fn \<Rightarrow> nat \<Rightarrow> u32 \<times> u32 \<times> u32 option \<Rightarrow> u32 \<times> u32 \<times> u32 option \<Rightarrow> mach \<Rightarrow> (bool \<times> mach) option" where
  "copy_loop io 0 s d m = Some (True, m)"
| "copy_loop io (Suc n) (src, src_last, src_pa) (dst, dst_last, dst_pa) m =
     do {
       (ok, src_last, src_pa, m) \<leftarrow> retranslate io src src_last src_pa m;
       if \<not> ok then Some (False, m)
       else do {
         (ok, dst_last, dst_pa, m) \<leftarrow> retranslate io dst dst_last dst_pa m;
         if \<not> ok then Some (False, m)
         else do {
           spa \<leftarrow> src_pa;
           dpa \<leftarrow> dst_pa;
           (b, m) \<leftarrow> read_sim_b io m spa;
           (r, m) \<leftarrow> write_sim_b io m dpa (ucast b);
           copy_loop io n (src + 1, src_last, Some (spa + 1)) (dst + 1, dst_last, Some (dpa + 1)) m
         }
       }
     }"

definition sim_copymem :: "io_fn \<Rightarrow> u32 \<Rightarrow> u32 \<Rightarrow> int \<Rightarrow> mach \<Rightarrow> (bool \<times> mach) option" where
  "sim_copymem io src_addr dst_addr len m =
     copy_loop io (nat len) (src_addr, 1, None) (dst_addr, 1, None) m"

text \<open>
  \<open>sim_searchmem\<close>; a search with a stride of 0 does not end.  The errors are those the debugger reports.
\<close>

datatype search_result = Found u32 | Not_found | Alignment_error u32 | Translation_error u32

partial_function (option) sim_searchmem ::
  "io_fn \<Rightarrow> u32 \<Rightarrow> int \<Rightarrow> u32 \<Rightarrow> u32 \<Rightarrow> int \<Rightarrow> mach \<Rightarrow> (search_result \<times> mach) option" where
  "sim_searchmem io addr len pattern msk stride m =
     (if len \<le> 0 then Some (Not_found, m)
      else if (addr AND (PAGESIZE - 1)) + 4 > PAGESIZE then Some (Alignment_error addr, m)
      else
        (case sim_v_to_p io addr M_SUPERVISOR m of
           None \<Rightarrow> None
         | Some (ex, pa, m) \<Rightarrow>
             if ex \<noteq> E_NONE then Some (Translation_error addr, m)
             else
               (case read_sim_w io m pa of
                  None \<Rightarrow> None
                | Some (w, m) \<Rightarrow>
                    if w AND msk = pattern then Some (Found addr, m)
                    else sim_searchmem io (addr + word_of_int stride) (len - stride) pattern msk stride m)))"

section \<open>Catching exceptions\<close>

definition ex_names :: "string list" where
  "ex_names = [''reset'', ''int'', ''cacc'', ''dacc'', ''ma'', ''opc'', ''prv'', ''bnd'', ''idiv'', ''ovf'', ''err'']"

fun find_name :: "string \<Rightarrow> string list \<Rightarrow> nat option" where
  "find_name x [] = None"
| "find_name x (y # ys) = (if x = y then Some 0 else map_option Suc (find_name x ys))"

definition set_catch :: "(nat \<Rightarrow> bool) \<Rightarrow> bool \<Rightarrow> mach \<Rightarrow> mach" where
  "set_catch P flag m =
     m\<lparr>g_sim_catch_exception := (\<lambda>i. if P i then flag else g_sim_catch_exception m i)\<rparr>"

text \<open>
  The commands \<open>ecatch\<close> and \<open>eignore\<close> with an argument; \<open>eval\<close> is the debugger's evaluation of an
  expression.  \<open>Inl\<close> is an error reported to the user.  Without an argument the commands only print.
\<close>

definition do_ecatch_eignore ::
  "(string \<Rightarrow> int) \<Rightarrow> string option \<Rightarrow> bool \<Rightarrow> mach \<Rightarrow> string + mach" where
  "do_ecatch_eignore eval arg flag m =
     (case arg of
        None \<Rightarrow> Inr m
      | Some e \<Rightarrow>
          if e = ''all'' then Inr (set_catch (\<lambda>i. i < 512) flag m)
          else if e = ''uall'' then Inr (set_catch (\<lambda>i. i < 512) flag m)
          else
            let (mode, e) = (case e of [] \<Rightarrow> (0, e) | c # cs \<Rightarrow> if c = CHR ''u'' then (512, cs) else (0, e))
            in case find_name e ex_names of
                 Some i \<Rightarrow> Inr (set_catch (\<lambda>j. j = mode + i) flag m)
               | None \<Rightarrow>
                   if eval e < 0 \<or> eval e > 511 then Inl ''Exception code out of range''
                   else Inr (set_catch (\<lambda>j. j = mode + nat (eval e)) flag m))"

section \<open>Processors\<close>

abbreviation (input) MAX_PROCESSORS :: nat where "MAX_PROCESSORS \<equiv> 4"

definition number_of_enabled_processors :: "mach \<Rightarrow> nat" where
  "number_of_enabled_processors m = sum_list (map (g_cpu_enabled m) [0..<MAX_PROCESSORS])"

text \<open>Copying registers 0..31 and all control registers to and from the slot of a processor.\<close>

definition copy_upto :: "nat \<Rightarrow> (nat \<Rightarrow> u32) \<Rightarrow> (nat \<Rightarrow> u32) \<Rightarrow> nat \<Rightarrow> u32" where
  "copy_upto n src dst = (\<lambda>i. if i < n then src i else dst i)"

definition set_regs :: "nat \<Rightarrow> mach \<Rightarrow> mach" where
  "set_regs n m =
     (let q = g_processors m n in
      m\<lparr>g_regs := copy_upto 32 (pr_general_registers q) (g_regs m),
        g_sfu0_regs := copy_upto 64 (pr_sfu0_registers q) (g_sfu0_regs m),
        g_sfu1_regs := copy_upto 64 (pr_sfu1_registers q) (g_sfu1_regs m),
        g_delayed_p := pr_delayed_p q,
        g_delayed_ip := pr_delayed_ip q\<rparr>)"

definition read_regs :: "nat \<Rightarrow> mach \<Rightarrow> mach" where
  "read_regs n m =
     (let q = g_processors m n in
      m\<lparr>g_processors := (g_processors m)(n :=
          \<lparr>pr_general_registers = copy_upto 32 (g_regs m) (pr_general_registers q),
           pr_sfu0_registers = copy_upto 64 (g_sfu0_regs m) (pr_sfu0_registers q),
           pr_sfu1_registers = copy_upto 64 (g_sfu1_regs m) (pr_sfu1_registers q),
           pr_delayed_p = g_delayed_p m,
           pr_delayed_ip = g_delayed_ip m\<rparr>)\<rparr>)"

text \<open>
  The table has \<open>MAX_PROCESSORS\<close> slots, and no caller passes a number outside: \<open>pselect_command\<close> checks it,
  and \<open>next_processor\<close> computes a remainder.
\<close>

definition sim_select_processor :: "nat \<Rightarrow> mach \<Rightarrow> mach option" where
  "sim_select_processor n m =
     (let m = read_regs (g_selected_processor m) m;
          m = set_regs n (m\<lparr>g_selected_processor := n\<rparr>)
      in do {
        m \<leftarrow> flush_user_tlb_all m;
        m \<leftarrow> flush_supervisor_tlb_all m;
        Some (flush_deccache M_USER (flush_deccache M_SUPERVISOR m))
      })"

text \<open>The command that selects a processor, the number being the value of its argument.\<close>

definition pselect_command :: "int \<Rightarrow> mach \<Rightarrow> mach option" where
  "pselect_command i m =
     (if 0 \<le> i \<and> i < int MAX_PROCESSORS then sim_select_processor (nat i) m else Some m)"

text \<open>The next enabled processor, the last one looked at if none is enabled.\<close>

definition next_processor :: "mach \<Rightarrow> nat" where
  "next_processor m =
     (case find (\<lambda>p. g_cpu_enabled m p \<noteq> 0)
        (map (\<lambda>i. (g_selected_processor m + i + 1) mod MAX_PROCESSORS) [0..<MAX_PROCESSORS]) of
        Some p \<Rightarrow> p
      | None \<Rightarrow> (g_selected_processor m + MAX_PROCESSORS) mod MAX_PROCESSORS)"

definition select_next_processor :: "mach \<Rightarrow> mach option" where
  "select_next_processor m = sim_select_processor (next_processor m) m"

definition multiprocessor_switch :: "mach \<Rightarrow> mach" where
  "multiprocessor_switch m =
     (let m = m\<lparr>g_mp_slice := g_mp_slice m - 1\<rparr> in
      if g_mp_slice m = 0 then
        m\<lparr>g_mp_slice := varvalue ''simslice'' m, g_sim_interrupt_flag := g_sim_interrupt_flag m OR INT_MPSWITCH\<rparr>
      else m)"

text \<open>The handler of the host's timer signal.\<close>

definition Oscillator :: "mach \<Rightarrow> mach" where
  "Oscillator m =
     (let b = g_board m;
          m = (if b_timer_on b \<noteq> 0 then
                 (let m = set_board (\<lambda>b. b\<lparr>b_ticks := b_ticks b + 1, b_timer_count := b_timer_count b - 1\<rparr>) m
                  in if b_timer_count (g_board m) = 0 then
                       set_cio_interrupt (set_board (\<lambda>b. b\<lparr>b_timer_count := b_timer_on b\<rparr>) m)
                     else m)
               else m)
      in if g_waiting_for_mpswitch m then multiprocessor_switch m else m)"

text \<open>The signal handlers of the simulator, by name.\<close>

definition sim_handlers :: "nat \<Rightarrow> mach \<Rightarrow> mach" where
  "sim_handlers f m = (if f = Oscillator_name then Oscillator m else m)"

definition multiprocessor_initialization :: "mach \<Rightarrow> mach" where
  "multiprocessor_initialization m = (fold read_regs [0..<MAX_PROCESSORS] m)\<lparr>g_selected_processor := 0\<rparr>"

definition sim_interrupt :: "mach \<Rightarrow> mach" where
  "sim_interrupt m = m\<lparr>g_sim_interrupt_flag := g_sim_interrupt_flag m OR INT_FRONT_END\<rparr>"

section \<open>Resuming\<close>

text \<open>
  The two ways of running several processors: instruction by instruction, or until the time slice of a
  processor ends.  \<open>call\<close> is \<open>sim\<close>; \<open>k\<close> bounds the number of its calls.
\<close>

fun mp_loop :: "(mach \<Rightarrow> run_result) \<Rightarrow> cause \<Rightarrow> nat \<Rightarrow> mach \<Rightarrow> run_result" where
  "mp_loop call c 0 m = Out_of_fuel"
| "mp_loop call c (Suc k) m =
     (case call m of
        Returned c' m' \<Rightarrow>
          if c' = c then
            (case select_next_processor m' of None \<Rightarrow> Stuck | Some m'' \<Rightarrow> mp_loop call c k m'')
          else Returned c' m'
      | r \<Rightarrow> r)"

definition resume_processors :: "(bool \<Rightarrow> mach \<Rightarrow> run_result) \<Rightarrow> nat \<Rightarrow> bool \<Rightarrow> mach \<Rightarrow> run_result" where
  "resume_processors call k st m =
     (if st then call True m
      else if number_of_enabled_processors m = 1 then call False m
      else if varvalue ''simslice'' m = 0 \<or> varvalue ''simtick'' m = 0 then mp_loop (call True) NONE k m
      else
        let m = m\<lparr>g_waiting_for_mpswitch := True, g_mp_slice := varvalue ''simslice'' m\<rparr> in
        case mp_loop (call False) MPSWITCH k m of
          Returned c m' \<Rightarrow> Returned c (m'\<lparr>g_waiting_for_mpswitch := False\<rparr>)
        | r \<Rightarrow> r)"

abbreviation (input) SIGINT_bit :: u32 where "SIGINT_bit \<equiv> 4"
abbreviation (input) SIGTRAP_bit :: u32 where "SIGTRAP_bit \<equiv> 32"

definition stop_with :: "u32 \<Rightarrow> mach \<Rightarrow> mach" where
  "stop_with b m = m\<lparr>g_stop_cause := g_stop_cause m OR b\<rparr>"

text \<open>\<open>sim_resume\<close>; the switch on the result of \<open>sim\<close> has no case for \<open>MPSWITCH\<close> and calls \<open>err\<close>.\<close>

definition sim_resume :: "(bool \<Rightarrow> mach \<Rightarrow> run_result) \<Rightarrow> nat \<Rightarrow> bool \<Rightarrow> mach \<Rightarrow> run_result" where
  "sim_resume call k st m =
     (let m = clear_flag INT_FRONT_END m in
      if number_of_enabled_processors m = 0 \<or> g_cpu_enabled m (g_selected_processor m) = 0 then
        Returned NONE (stop_with SIGINT_bit m)
      else
        case resume_processors call k st (check_for_interrupt m) of
          Returned c m' \<Rightarrow>
            (case c of
               NONE \<Rightarrow> Returned c (stop_with SIGTRAP_bit m')
             | BREAKPOINT \<Rightarrow> Returned c (stop_with SIGTRAP_bit m')
             | INTERRUPT \<Rightarrow> Returned c (stop_with SIGINT_bit m')
             | HOSED \<Rightarrow> Returned c (stop_with SIGINT_bit m')
             | CAUGHT_EXCEPTION \<Rightarrow> Returned c (stop_with SIGINT_bit m')
             | MPSWITCH \<Rightarrow> Stuck)
        | r \<Rightarrow> r)"

section \<open>Initialization\<close>

definition clear_registers :: "mach \<Rightarrow> mach" where
  "clear_registers m =
     m\<lparr>g_regs := copy_upto 32 (\<lambda>_. 0) (g_regs m), g_sfu0_regs := copy_upto 64 (\<lambda>_. 0) (g_sfu0_regs m),
       g_sfu1_regs := copy_upto 64 (\<lambda>_. 0) (g_sfu1_regs m)\<rparr>"

definition do_sim_reset :: "devs \<Rightarrow> bool \<Rightarrow> mach \<Rightarrow> mach option" where
  "do_sim_reset dv can_open m =
     (let m = setreg_sim PSR_REGNUM 0x800003ff (setreg_sim PID_REGNUM 0xfe (clear_registers m));
          m = setreg_sim SFIP_REGNUM 0 (setreg_sim SNIP_REGNUM 0 m)
      in do {
        m \<leftarrow> io_init dv can_open (m\<lparr>g_delayed_p := DNull, g_delayed_ip := 0\<rparr>);
        m \<leftarrow> sim_flush_all_translations m;
        Some (m\<lparr>g_sim_exception := E_NONE, g_selected_processor := 0\<rparr>)
      })"

abbreviation (input) DEF_MEM_SIZE :: u32 where "DEF_MEM_SIZE \<equiv> 0x800000"
abbreviation (input) MAX_MEM_SIZE :: u32 where "MAX_MEM_SIZE \<equiv> 0x10000000"

definition set_memory_size :: "mach \<Rightarrow> mach" where
  "set_memory_size m =
     (let sz = varvalue ''simmem'' m * PAGESIZE in
      if sz \<noteq> 0 \<and> sz \<le> MAX_MEM_SIZE then m\<lparr>g_memory_size := sz\<rparr>
      else setvar ''simmem'' (DEF_MEM_SIZE div PAGESIZE) (m\<lparr>g_memory_size := DEF_MEM_SIZE\<rparr>))"

text \<open>The page table is allocated once; \<open>g_page_table_size\<close> is 0 before that.\<close>

definition alloc_page_table :: "mach \<Rightarrow> mach" where
  "alloc_page_table m =
     (if g_page_table_size m \<noteq> 0 then m
      else
        let m = set_memory_size m in
        m\<lparr>g_page_table_size := g_memory_size m div PAGESIZE, g_page_table := (\<lambda>_. None)\<rparr>)"

definition clean_pages :: "mach \<Rightarrow> mach" where
  "clean_pages m =
     m\<lparr>g_page_table := (\<lambda>n. if n < unat (g_page_table_size m) then map_option clean_page (g_page_table m n)
                             else g_page_table m n)\<rparr>"

text \<open>\<open>init_globals\<close> and the rest of \<open>gdb_sim_init\<close>, as far as they concern the simulator.\<close>

definition gdb_sim_init :: "mach \<Rightarrow> mach" where
  "gdb_sim_init m =
     (let m = m\<lparr>g_cpu_enabled := (\<lambda>i. if i = 0 then 1 else if i < MAX_PROCESSORS then 0 else g_cpu_enabled m i),
                g_selected_processor := 0, g_stop_cause := SIGTRAP_bit\<rparr>
      in multiprocessor_initialization m)"

definition sim_init :: "devs \<Rightarrow> bool \<Rightarrow> mach \<Rightarrow> mach option" where
  "sim_init dv can_open m =
     (let m = m\<lparr>g_sim_in_execution := False, g_sim_exception := E_NONE, g_sim_errno := False,
                g_sim_interrupt_flag := 0, g_fp_exception := False\<rparr>;
          m = clear_registers (flush_io_decoded_list (clean_pages (alloc_page_table m)));
          m = set_cr rRAMSIZE (g_memory_size m) (set_cr rPSR 0x800003ff (set_cr rPID 0xfe m));
          m = m\<lparr>g_ip := 0, g_delayed_p := DNull, g_delayed_ip := 0\<rparr>
      in do {
        m \<leftarrow> flush_user_tlb_all m;
        m \<leftarrow> flush_supervisor_tlb_all m;
        m \<leftarrow> io_init dv can_open (builddecodetable m);
        let m = free_literals (flush_deccache M_USER (flush_deccache M_SUPERVISOR m));
        Some (gdb_sim_init m)
      })"

end
