(* ===== verification/Sim_Front.thy ===== *)
theory Sim_Front
  imports Sim_Gdb
begin

text \<open>
  Properties of the interface to the debugger: registers by number, the exceptions that stop a run, and
  the selection of processors.
\<close>

section \<open>Registers\<close>

lemma reg_sim_set:
  "n \<le> 31 \<Longrightarrow> reg_sim k (set_reg n w m) = (if k = n then w else reg_sim k m)"
  "reg_sim k (set_ip w m) = (if k = 32 then w else reg_sim k m)"
  "33 \<le> n \<Longrightarrow> n \<le> 53 \<Longrightarrow> reg_sim k (set_cr (n - 33) w m) = (if k = n then w else reg_sim k m)"
  "54 \<le> n \<Longrightarrow> n \<le> 64 \<Longrightarrow> k \<le> 69 \<Longrightarrow> reg_sim k (set_sfu1 (n - 54) w m) =
     (if k = n \<or> (n, k) \<in> {(63, 68), (64, 69)} then w else reg_sim k m)"
  "reg_sim k (set_comefrom w m) = (if k = 66 then w else reg_sim k m)"
  "reg_sim k (m\<lparr>g_membrk := w\<rparr>) = (if k = 67 then w else reg_sim k m)"
  "reg_sim k (set_sfu1 9 w m) = (if k = 63 \<or> k = 68 then w else reg_sim k m)"
  by (auto simp: reg_sim_def set_reg_def set_ip_def set_cr_def set_sfu1_def set_comefrom_def)

lemma stack_bad_set_sfu1: "stack_bad (set_sfu1 n w m) = stack_bad m"
  by (simp add: stack_bad_def set_sfu1_def)

text \<open>
  \<open>reg_sim\<close> after \<open>setreg_sim\<close>: the register set reads as the value, all others are
  unchanged, except that the numbers of \<open>$stackbase\<close> and of the floating point status register name the
  same place, and likewise \<open>$ramsize\<close> and the floating point control register.  Setting \<open>$stackbase\<close>
  does not change what the simulator checks the stack pointer against.
\<close>

theorem register_numbers:
  assumes "n \<le> STACKBASE_REGNUM" and "n \<noteq> 65" and "n = 0 \<longrightarrow> w = 0" and "k \<le> RAMSIZE_REGNUM"
  shows "reg_sim k (setreg_sim n w m) =
      (if k = n \<or> (n, k) \<in> {(FPSR_REGNUM, STACKBASE_REGNUM), (STACKBASE_REGNUM, FPSR_REGNUM),
          (FPCR_REGNUM, RAMSIZE_REGNUM)} then w else reg_sim k m) \<and>
    (n = STACKBASE_REGNUM \<longrightarrow> stack_bad (setreg_sim n w m) = stack_bad m)"
proof -
  consider "n \<le> 31" | "n = 32" | "33 \<le> n" "n \<le> 53" | "54 \<le> n" "n \<le> 64" | "n = 66" | "n = 67" | "n = 68"
    using assms(1,2) by linarith
  then show ?thesis
    by cases (use assms(3,4) in \<open>auto simp: setreg_sim_def reg_sim_set stack_bad_set_sfu1\<close>)
qed

theorem register_numbers_witness:
  "reg_sim FPSR_REGNUM (setreg_sim STACKBASE_REGNUM 0x4000 cleared_mach) = 0x4000 \<and>
   reg_sim PSR_REGNUM (setreg_sim STACKBASE_REGNUM 0x4000 cleared_mach) = reg_sim PSR_REGNUM cleared_mach"
  using register_numbers [of STACKBASE_REGNUM "0x4000" FPSR_REGNUM cleared_mach]
    register_numbers [of STACKBASE_REGNUM "0x4000" PSR_REGNUM cleared_mach] by simp

section \<open>Caught exceptions\<close>

lemma find_name_nth: "i < length ex_names \<Longrightarrow> find_name (ex_names ! i) ex_names = Some i"
  by (auto simp: ex_names_def less_Suc_eq)

lemma ex_names_no_u: "i < length ex_names \<Longrightarrow> \<exists>c cs. ex_names ! i = c # cs \<and> c \<noteq> CHR ''u''"
  by (auto simp: ex_names_def less_Suc_eq)

lemma ex_names_not_all: "i < length ex_names \<Longrightarrow> ex_names ! i \<noteq> ''all''"
  by (auto simp: ex_names_def less_Suc_eq)

lemma ecatch_name:
  assumes "i < length ex_names"
  shows "do_ecatch_eignore eval (Some (ex_names ! i)) flag m = Inr (set_catch (\<lambda>j. j = i) flag m)"
    and "do_ecatch_eignore eval (Some (CHR ''u'' # ex_names ! i)) flag m = Inr (set_catch (\<lambda>j. j = 512 + i) flag m)"
proof -
  obtain c cs where c: "ex_names ! i = c # cs" "c \<noteq> CHR ''u''" using ex_names_no_u [OF assms] by blast
  then show "do_ecatch_eignore eval (Some (ex_names ! i)) flag m = Inr (set_catch (\<lambda>j. j = i) flag m)"
    using find_name_nth [OF assms] ex_names_not_all [OF assms] by (auto simp: do_ecatch_eignore_def)
  show "do_ecatch_eignore eval (Some (CHR ''u'' # ex_names ! i)) flag m = Inr (set_catch (\<lambda>j. j = 512 + i) flag m)"
    using c find_name_nth [OF assms] ex_names_not_all [OF assms] by (auto simp: do_ecatch_eignore_def)
qed

lemma gen_exception_catch:
  "\<exists>m'. gen_exception ex ip f m =
      Some (if g_sim_catch_exception m (catch_index ex (f_usmode f)) then P_return_with_exception CAUGHT_EXCEPTION
            else P_gen_exception_without_check ex, f, m') \<and>
     g_sim_exception m' =
       (if g_sim_catch_exception m (catch_index ex (f_usmode f)) then ex else g_sim_exception m)"
  by (simp add: gen_exception_def Let_def set_ip_def set_cr_def)

text \<open>
  Property C40.  \<open>ecatch\<close> with the name of an exception, or with \<open>u\<close> and the name, makes exactly this
  exception, in supervisor or in user mode, stop the simulation with the exception in \<open>sim_exception\<close>, where
  the debugger finds it (\<open>eignore\<close>, the flag being false, makes it go to its vector); all other exceptions
  go where they went before, and one that goes to its vector leaves \<open>sim_exception\<close> as it was.
\<close>

theorem ecatch_stops:
  assumes "i < length ex_names" and "k < 512" and "f_usmode f \<le> 1"
    and "do_ecatch_eignore eval (Some ((if user then ''u'' else []) @ ex_names ! i)) flag m = Inr m'"
  shows "\<exists>pt m''. gen_exception (int k) ip f m' = Some (pt, f, m'') \<and>
    (if (if k = i \<and> (f_usmode f = M_USER \<longleftrightarrow> user) then flag
         else g_sim_catch_exception m (catch_index (int k) (f_usmode f)))
     then pt = P_return_with_exception CAUGHT_EXCEPTION \<and> g_sim_exception m'' = int k
     else pt = P_gen_exception_without_check (int k) \<and> g_sim_exception m'' = g_sim_exception m)"
proof -
  have len: "i < 512" using assms(1) by (simp add: ex_names_def)
  have m': "m' = set_catch (\<lambda>j. j = (if user then 512 + i else i)) flag m"
    using assms(4) ecatch_name [OF assms(1), of eval flag m] by (cases user) simp_all
  have "g_sim_catch_exception m' (catch_index (int k) (f_usmode f)) \<longleftrightarrow>
      (if k = i \<and> (f_usmode f = M_USER \<longleftrightarrow> user) then flag
       else g_sim_catch_exception m (catch_index (int k) (f_usmode f)))"
    using assms(2,3) len by (auto simp: m' set_catch_def catch_index_def)
  moreover have "g_sim_exception m' = g_sim_exception m" by (simp add: m' set_catch_def)
  moreover obtain m'' where "gen_exception (int k) ip f m' =
      Some (if g_sim_catch_exception m' (catch_index (int k) (f_usmode f)) then P_return_with_exception CAUGHT_EXCEPTION
            else P_gen_exception_without_check (int k), f, m'')"
     "g_sim_exception m'' =
       (if g_sim_catch_exception m' (catch_index (int k) (f_usmode f)) then int k else g_sim_exception m')"
    using gen_exception_catch [of "int k" ip f m'] by blast
  ultimately show ?thesis
    by (cases "g_sim_catch_exception m' (catch_index (int k) (f_usmode f))") (simp_all only: if_True if_False, blast+)
qed

theorem ecatch_stops_witness:
  "\<exists>m' f' m''. do_ecatch_eignore (\<lambda>_. 0) (Some ''uint'') True cleared_mach = Inr m' \<and>
     gen_exception E_INT 0 \<lparr>f_p = None, f_pagep = None, f_pagela = 0, f_usmode = M_USER, f_r_delayed_p = DNull,
         f_membrkphys = None\<rparr> m' = Some (P_return_with_exception CAUGHT_EXCEPTION, f', m'') \<and>
     g_sim_exception m'' = E_INT"
proof -
  let ?f = "\<lparr>f_p = None, f_pagep = None, f_pagela = 0, f_usmode = M_USER, f_r_delayed_p = DNull, f_membrkphys = None\<rparr>"
  obtain m' where m': "do_ecatch_eignore (\<lambda>_. 0) (Some ''uint'') True cleared_mach = Inr m'"
    using ecatch_name(2) [of 1 "\<lambda>_. 0" True cleared_mach] by (simp add: ex_names_def)
  then show ?thesis
    using ecatch_stops [of 1 1 ?f "\<lambda>_. 0" True True cleared_mach m' 0] by (auto simp: ex_names_def)
qed

section \<open>Processors\<close>

text \<open>What flushing leaves alone.\<close>

definition but_tlbs :: "mach \<Rightarrow> mach" where
  "but_tlbs m = m\<lparr>g_u_load_tlb := (\<lambda>_. None), g_s_load_tlb := (\<lambda>_. None), g_u_store_tlb := (\<lambda>_. None),
     g_s_store_tlb := (\<lambda>_. None)\<rparr>"

lemma each_segment_but_tlbs:
  assumes "\<And>s m m'. fl s m = Some m' \<Longrightarrow> but_tlbs m' = but_tlbs m"
  shows "each_segment fl is m = Some m' \<Longrightarrow> but_tlbs m' = but_tlbs m"
  by (induction "is" arbitrary: m) (auto dest!: bind_SomeD assms)

lemma flush_user_but_tlbs: "flush_user_tlb_all m = Some m' \<Longrightarrow> but_tlbs m' = but_tlbs m"
  unfolding flush_user_tlb_all_def
  by (rule each_segment_but_tlbs [of flush_user_tlb_segment])
     (auto simp: flush_user_tlb_segment_def but_tlbs_def split: if_splits)

lemma flush_supervisor_but_tlbs: "flush_supervisor_tlb_all m = Some m' \<Longrightarrow> but_tlbs m' = but_tlbs m"
  unfolding flush_supervisor_tlb_all_def
  by (rule each_segment_but_tlbs [of flush_supervisor_tlb_segment])
     (auto simp: flush_supervisor_tlb_segment_def but_tlbs_def split: if_splits)

text \<open>The registers that belong to a processor.\<close>

definition cpu_state :: "mach \<Rightarrow> processor" where
  "cpu_state m =
     \<lparr>pr_general_registers = copy_upto 32 (g_regs m) (\<lambda>_. 0), pr_sfu0_registers = copy_upto 64 (g_sfu0_regs m) (\<lambda>_. 0),
      pr_sfu1_registers = copy_upto 64 (g_sfu1_regs m) (\<lambda>_. 0), pr_delayed_p = g_delayed_p m,
      pr_delayed_ip = g_delayed_ip m\<rparr>"

text \<open>The part of a slot that is ever read.\<close>

definition slot_state :: "processor \<Rightarrow> processor" where
  "slot_state q =
     q\<lparr>pr_general_registers := copy_upto 32 (pr_general_registers q) (\<lambda>_. 0),
       pr_sfu0_registers := copy_upto 64 (pr_sfu0_registers q) (\<lambda>_. 0),
       pr_sfu1_registers := copy_upto 64 (pr_sfu1_registers q) (\<lambda>_. 0)\<rparr>"

lemma copy_upto_idem [simp]: "copy_upto n (copy_upto n f g) h = copy_upto n f h"
  by (auto simp: copy_upto_def)

lemma set_regs_state: "cpu_state (set_regs n m) = slot_state (g_processors m n)"
  by (simp add: cpu_state_def set_regs_def slot_state_def Let_def)

lemma read_regs_slots:
  "slot_state (g_processors (read_regs n m) k) = (if k = n then cpu_state m else slot_state (g_processors m k))"
  by (simp add: read_regs_def slot_state_def cpu_state_def Let_def)

lemma cpu_state_but_tlbs: "but_tlbs m = but_tlbs m' \<Longrightarrow> cpu_state m = cpu_state m'"
  unfolding but_tlbs_def cpu_state_def by (cases m; cases m') simp

lemma but_tlbs_fields:
  assumes "but_tlbs m = but_tlbs m'"
  shows "g_processors m = g_processors m'" "g_selected_processor m = g_selected_processor m'" "g_ip m = g_ip m'"
  using assms unfolding but_tlbs_def by (cases m; cases m'; simp)+

lemma sim_select_processor_effect:
  "\<exists>m'. sim_select_processor n m = Some m' \<and>
     cpu_state m' = (if n = g_selected_processor m then cpu_state m else slot_state (g_processors m n)) \<and>
     (\<forall>k. slot_state (g_processors m' k) =
        (if k = g_selected_processor m then cpu_state m else slot_state (g_processors m k))) \<and>
     g_selected_processor m' = n \<and> g_ip m' = g_ip m \<and>
     (\<forall>us s p. s < 1024 \<longrightarrow> tlb_entry (load_tlb us m') s p = None \<and> tlb_entry (store_tlb us m') s p = None)"
proof -
  define m0 where "m0 = set_regs n ((read_regs (g_selected_processor m) m)\<lparr>g_selected_processor := n\<rparr>)"
  obtain m1 where m1: "flush_user_tlb_all m0 = Some m1"
    "\<And>s p. s < 1024 \<Longrightarrow> tlb_entry (g_u_load_tlb m1) s p = None \<and> tlb_entry (g_u_store_tlb m1) s p = None"
    using flush_user_complete [of m0] by blast
  obtain m2 where m2: "flush_supervisor_tlb_all m1 = Some m2"
    "\<And>s p. s < 1024 \<Longrightarrow> tlb_entry (g_s_load_tlb m2) s p = None \<and> tlb_entry (g_s_store_tlb m2) s p = None"
    "\<And>s p. tlb_entry (g_u_load_tlb m2) s p = tlb_entry (g_u_load_tlb m1) s p \<and>
            tlb_entry (g_u_store_tlb m2) s p = tlb_entry (g_u_store_tlb m1) s p"
    using flush_supervisor_complete [of m1] by blast
  let ?m = "flush_deccache M_USER (flush_deccache M_SUPERVISOR m2)"
  have same: "but_tlbs m2 = but_tlbs m0"
    using flush_user_but_tlbs [OF m1(1)] flush_supervisor_but_tlbs [OF m2(1)] by simp
  have "sim_select_processor n m = Some ?m"
    using m1(1) m2(1) by (simp add: sim_select_processor_def Let_def m0_def)
  moreover have "cpu_state ?m = cpu_state m2"
    by (simp add: cpu_state_def flush_deccache_def)
  then have "cpu_state ?m = slot_state (g_processors (read_regs (g_selected_processor m) m) n)"
    using cpu_state_but_tlbs [OF same] set_regs_state unfolding m0_def by (simp add: Let_def)
  moreover have "g_processors ?m = g_processors (read_regs (g_selected_processor m) m)"
    "g_selected_processor ?m = n" "g_ip ?m = g_ip m"
    using but_tlbs_fields [OF same] by (simp_all add: flush_deccache_def m0_def set_regs_def read_regs_def Let_def)
  moreover have "tlb_entry (load_tlb us ?m) s p = None \<and> tlb_entry (store_tlb us ?m) s p = None" if "s < 1024" for us s p
    using m1(2) [OF that, of p] m2(2) [OF that, of p] m2(3) [of s p]
    by (auto simp: load_tlb_def store_tlb_def flush_deccache_def)
  ultimately show ?thesis by (simp add: read_regs_slots)
qed

text \<open>
  Property C37.  Selecting another processor and then the first one again restores its registers, and a
  switch leaves no entry in the TLBs; the program counter \<open>ip\<close> is not part of what is switched.
\<close>

theorem select_processor_roundtrip:
  assumes "n \<noteq> g_selected_processor m"
  shows "\<exists>m1 m2. sim_select_processor n m = Some m1 \<and> sim_select_processor (g_selected_processor m) m1 = Some m2 \<and>
     cpu_state m1 = slot_state (g_processors m n) \<and> cpu_state m2 = cpu_state m \<and>
     g_ip m1 = g_ip m \<and> g_selected_processor m2 = g_selected_processor m \<and>
     (\<forall>us s p. s < 1024 \<longrightarrow> tlb_entry (load_tlb us m1) s p = None \<and> tlb_entry (store_tlb us m1) s p = None)"
proof -
  let ?s = "g_selected_processor m"
  obtain m1 where m1: "sim_select_processor n m = Some m1"
    "cpu_state m1 = (if n = ?s then cpu_state m else slot_state (g_processors m n))"
    "\<forall>k. slot_state (g_processors m1 k) = (if k = ?s then cpu_state m else slot_state (g_processors m k))"
    "g_selected_processor m1 = n" "g_ip m1 = g_ip m"
    "\<forall>us s p. s < 1024 \<longrightarrow> tlb_entry (load_tlb us m1) s p = None \<and> tlb_entry (store_tlb us m1) s p = None"
    using sim_select_processor_effect [of n m] by (elim exE conjE) (rule that)
  obtain m2 where m2: "sim_select_processor ?s m1 = Some m2"
    "cpu_state m2 = (if ?s = n then cpu_state m1 else slot_state (g_processors m1 ?s))"
    "g_selected_processor m2 = ?s"
    using sim_select_processor_effect [of ?s m1] unfolding m1(4) by (elim exE conjE) (rule that)
  have "cpu_state m2 = cpu_state m" using m2(2) m1(3) assms by simp
  moreover have "cpu_state m1 = slot_state (g_processors m n)" using m1(2) assms by simp
  ultimately show ?thesis using m1(1,5,6) m2(1,3) by (intro exI conjI)
qed

theorem select_processor_roundtrip_witness:
  "\<exists>m1 m2. sim_select_processor 2 (set_reg 5 7 cleared_mach) = Some m1 \<and> sim_select_processor 0 m1 = Some m2 \<and>
     cpu_state m2 = cpu_state (set_reg 5 7 cleared_mach)"
proof -
  have z: "g_selected_processor (set_reg 5 7 cleared_mach) = 0" by (simp add: cleared_mach_def set_reg_def)
  have "(2 :: nat) \<noteq> 0" by simp
  from select_processor_roundtrip [of 2 "set_reg 5 7 cleared_mach", unfolded z, OF this] show ?thesis by blast
qed

text \<open>The processors that \<open>select_next_processor\<close> selects one after the other.\<close>

fun rotation :: "mach \<Rightarrow> nat \<Rightarrow> nat" where
  "rotation m 0 = g_selected_processor m"
| "rotation m (Suc k) = next_processor (m\<lparr>g_selected_processor := rotation m k\<rparr>)"

lemma round_0: "map (\<lambda>i. (0 + i + 1) mod MAX_PROCESSORS) [0..<MAX_PROCESSORS] = [1, 2, 3, 0]" by code_simp
lemma round_1: "map (\<lambda>i. (1 + i + 1) mod MAX_PROCESSORS) [0..<MAX_PROCESSORS] = [2, 3, 0, 1]" by code_simp
lemma round_2: "map (\<lambda>i. (2 + i + 1) mod MAX_PROCESSORS) [0..<MAX_PROCESSORS] = [3, 0, 1, 2]" by code_simp
lemma round_3: "map (\<lambda>i. (3 + i + 1) mod MAX_PROCESSORS) [0..<MAX_PROCESSORS] = [0, 1, 2, 3]" by code_simp

text \<open>The first of four processors that is enabled, the last one if none is.\<close>

definition first_of :: "(nat \<Rightarrow> bool) \<Rightarrow> nat \<Rightarrow> nat \<Rightarrow> nat \<Rightarrow> nat \<Rightarrow> nat" where
  "first_of en a b c d = (if en a then a else if en b then b else if en c then c else d)"

lemma next_processor_order:
  assumes "map (\<lambda>i. (g_selected_processor m + i + 1) mod MAX_PROCESSORS) [0..<MAX_PROCESSORS] = [a, b, c, d]"
    and "(g_selected_processor m + MAX_PROCESSORS) mod MAX_PROCESSORS = d"
  shows "next_processor m = first_of (\<lambda>p. g_cpu_enabled m p \<noteq> 0) a b c d"
  unfolding next_processor_def assms by (simp add: first_of_def)

lemma next_processor_0: "g_selected_processor m = 0 \<Longrightarrow> next_processor m = first_of (\<lambda>p. g_cpu_enabled m p \<noteq> 0) 1 2 3 0"
  by (rule next_processor_order) (simp_all only: round_0, simp)

lemma next_processor_1: "g_selected_processor m = 1 \<Longrightarrow> next_processor m = first_of (\<lambda>p. g_cpu_enabled m p \<noteq> 0) 2 3 0 1"
  by (rule next_processor_order) (simp_all only: round_1, simp)

lemma next_processor_2: "g_selected_processor m = 2 \<Longrightarrow> next_processor m = first_of (\<lambda>p. g_cpu_enabled m p \<noteq> 0) 3 0 1 2"
  by (rule next_processor_order) (simp_all only: round_2, simp)

lemma next_processor_3: "g_selected_processor m = 3 \<Longrightarrow> next_processor m = first_of (\<lambda>p. g_cpu_enabled m p \<noteq> 0) 0 1 2 3"
  by (rule next_processor_order) (simp_all only: round_3, simp)

lemmas next_processor_cases = next_processor_0 next_processor_1 next_processor_2 next_processor_3

lemma rotation_numeral:
  "rotation m 1 = next_processor (m\<lparr>g_selected_processor := g_selected_processor m\<rparr>)"
  "rotation m 2 = next_processor (m\<lparr>g_selected_processor := rotation m 1\<rparr>)"
  "rotation m 3 = next_processor (m\<lparr>g_selected_processor := rotation m 2\<rparr>)"
  "rotation m 4 = next_processor (m\<lparr>g_selected_processor := rotation m 3\<rparr>)"
  by (simp_all add: eval_nat_numeral)

text \<open>
  Property C38.  The rotation is fair: starting anywhere, every enabled processor is selected within four
  switches, and while one is enabled only enabled processors are selected.
\<close>

theorem rotation_fair:
  assumes "g_selected_processor m < MAX_PROCESSORS" and "p < MAX_PROCESSORS" and "g_cpu_enabled m p \<noteq> 0"
  shows "(\<exists>k \<in> {1, 2, 3, 4}. rotation m k = p) \<and> g_cpu_enabled m (next_processor m) \<noteq> 0"
proof -
  have sel: "g_selected_processor m \<in> {0, 1, 2, 3}" and p: "p \<in> {0, 1, 2, 3}"
    using assms(1,2) by auto
  have reach: "rotation m 1 = p \<or> rotation m 2 = p \<or> rotation m 3 = p \<or> rotation m 4 = p"
    if "g_selected_processor m = s" "s \<in> {0, 1, 2, 3}" for s
  proof -
    let ?e = "\<lambda>p. g_cpu_enabled m p \<noteq> 0"
    show ?thesis
      using that p assms(3)
      by (cases "?e 0"; cases "?e 1"; cases "?e 2"; cases "?e 3"; simp only: insert_iff empty_iff simp_thms;
          elim disjE; simp add: rotation_numeral next_processor_cases first_of_def del: One_nat_def)+
  qed
  have "g_cpu_enabled m (next_processor m) \<noteq> 0"
    using sel p assms(3)
    by (simp only: insert_iff empty_iff simp_thms; elim disjE;
        simp add: next_processor_cases first_of_def del: One_nat_def)+
  with reach [OF refl sel] show ?thesis by blast
qed

theorem rotation_fair_witness:
  "\<exists>k \<in> {1, 2, 3, 4}. rotation (cleared_mach\<lparr>g_cpu_enabled := (\<lambda>i. if i = 2 then 1 else 0)\<rparr>) k = 2"
  using rotation_fair [of "cleared_mach\<lparr>g_cpu_enabled := (\<lambda>i. if i = 2 then 1 else 0)\<rparr>" 2]
  by (simp add: cleared_mach_def)

end
