(* ===== verification/Sim_Serial.thy ===== *)
theory Sim_Serial
  imports Sim_Duart
begin

text \<open>
  Properties of the serial controller: the typeahead buffers are bounded queues, a driver that polls
  reads what was typed, and the interrupt request follows the registers.
\<close>

section \<open>Bounded queues\<close>

text \<open>
  The contract of a buffer: its contents are a list, characters are added at the end while there is room,
  and taken from the front.
\<close>

locale bounded_queue =
  fixes enq :: "'c \<Rightarrow> 'd \<Rightarrow> 'd" and deq :: "'d \<Rightarrow> 'c \<times> 'd" and content :: "'d \<Rightarrow> 'c list"
    and inv :: "'d \<Rightarrow> bool" and cap :: nat
  assumes enq_inv: "inv d \<Longrightarrow> inv (enq c d)"
    and enq_content: "inv d \<Longrightarrow> content (enq c d) = (if length (content d) < cap then content d @ [c] else content d)"
    and deq_inv: "inv d \<Longrightarrow> content d \<noteq> [] \<Longrightarrow> inv (snd (deq d))"
    and deq_content: "inv d \<Longrightarrow> content d \<noteq> [] \<Longrightarrow> content d = fst (deq d) # content (snd (deq d))"
    and within: "inv d \<Longrightarrow> length (content d) \<le> cap"
begin

lemma enq_all: "inv d \<Longrightarrow> inv (fold enq cs d) \<and> content (fold enq cs d) = take cap (content d @ cs)"
proof (induction cs arbitrary: d)
  case Nil
  then show ?case using within [of d] by simp
next
  case (Cons c cs)
  have "take cap (content (enq c d) @ cs) = take cap (content d @ c # cs)"
    using within [OF Cons.prems]
    by (auto simp: enq_content [OF Cons.prems] take_Cons' Suc_diff_Suc)
  with Cons.IH [OF enq_inv [OF Cons.prems]] show ?case by simp
qed

end

text \<open>The contents of a typeahead buffer, a ring of \<open>IN_BUFFSIZ\<close> characters.\<close>

definition du_queue :: "nat \<Rightarrow> duart_state \<Rightarrow> u8 list" where
  "du_queue ab d = map (\<lambda>i. du_in_buff d ab ((du_front d ab + i) mod IN_BUFFSIZ)) [0..<du_count d ab]"

definition du_inv :: "nat \<Rightarrow> duart_state \<Rightarrow> bool" where
  "du_inv ab d \<longleftrightarrow> du_front d ab < IN_BUFFSIZ \<and> du_count d ab \<le> IN_BUFFSIZ \<and>
     du_rear d ab = (du_front d ab + du_count d ab) mod IN_BUFFSIZ"

lemma IN_BUFFSIZ_pos: "0 < IN_BUFFSIZ" by (simp add: IN_BUFFSIZ_def)

lemma ring_next: "r < n \<Longrightarrow> (if n \<le> Suc r then 0 else Suc r) = Suc r mod n"
  by (auto simp: mod_Suc not_le Suc_le_eq)

lemma ring_other: "i < k \<Longrightarrow> k < n \<Longrightarrow> (f + i) mod n \<noteq> (f + k) mod n" for f i k n :: nat
proof
  assume "i < k" and "k < n" and "(f + i) mod n = (f + k) mod n"
  then have "n dvd (f + k) - (f + i)" by (metis mod_eq_dvd_iff_nat add_le_cancel_left less_or_eq_imp_le)
  then have "n dvd k - i" by simp
  then show False using \<open>i < k\<close> \<open>k < n\<close> by (auto dest: dvd_imp_le)
qed

lemma enqueue_inv: "du_inv ab d \<Longrightarrow> du_inv ab (enqueue ab c d)"
proof -
  assume inv: "du_inv ab d"
  then have r: "du_rear d ab < IN_BUFFSIZ" using IN_BUFFSIZ_pos by (simp add: du_inv_def)
  show ?thesis
    using inv ring_next [OF r] by (auto simp: du_inv_def enqueue_def Let_def mod_Suc_eq)
qed

lemma enqueue_queue:
  assumes "du_inv ab d"
  shows "du_queue ab (enqueue ab c d) = (if length (du_queue ab d) < IN_BUFFSIZ then du_queue ab d @ [c] else du_queue ab d)"
proof (cases "du_count d ab < IN_BUFFSIZ")
  case True
  have "(du_front d ab + i) mod IN_BUFFSIZ \<noteq> du_rear d ab" if "i < du_count d ab" for i
    using ring_other [OF that True] assms by (simp add: du_inv_def)
  then show ?thesis using True assms by (auto simp: du_queue_def enqueue_def Let_def du_inv_def)
qed (simp add: du_queue_def enqueue_def)

lemma dequeue_queue:
  assumes "du_inv ab d" and "du_queue ab d \<noteq> []"
  shows "du_queue ab d = fst (dequeue ab d) # du_queue ab (snd (dequeue ab d))" and "du_inv ab (snd (dequeue ab d))"
proof -
  have n: "0 < du_count d ab" using assms(2) by (simp add: du_queue_def)
  have f: "du_front d ab < IN_BUFFSIZ" "du_count d ab \<le> IN_BUFFSIZ" using assms(1) by (simp_all add: du_inv_def)
  note nx = ring_next [OF f(1)]
  have "du_queue ab d = du_in_buff d ab (du_front d ab) #
      map (\<lambda>i. du_in_buff d ab ((Suc (du_front d ab) mod IN_BUFFSIZ + i) mod IN_BUFFSIZ)) [0..<du_count d ab - 1]"
    using n f(1) by (cases "du_count d ab")
      (simp_all add: du_queue_def upt_conv_Cons map_Suc_upt [symmetric] mod_add_left_eq o_def del: upt_Suc)
  moreover have "du_queue ab (snd (dequeue ab d)) =
      map (\<lambda>i. du_in_buff d ab ((Suc (du_front d ab) mod IN_BUFFSIZ + i) mod IN_BUFFSIZ)) [0..<du_count d ab - 1]"
    using n nx by (auto simp: du_queue_def dequeue_def Let_def clear_in_buff_def)
  moreover have "fst (dequeue ab d) = du_in_buff d ab (du_front d ab)" using n by (simp add: dequeue_def Let_def)
  ultimately show "du_queue ab d = fst (dequeue ab d) # du_queue ab (snd (dequeue ab d))" by simp
  have "Suc (du_front d ab) mod IN_BUFFSIZ < IN_BUFFSIZ" using IN_BUFFSIZ_pos by simp
  moreover have "(du_front d ab + du_count d ab) mod IN_BUFFSIZ = (Suc (du_front d ab) mod IN_BUFFSIZ + (du_count d ab - 1)) mod IN_BUFFSIZ"
    using n by (cases "du_count d ab") (simp_all add: mod_add_left_eq)
  moreover have "du_count d ab \<noteq> 1 \<Longrightarrow> du_front (snd (dequeue ab d)) ab = Suc (du_front d ab) mod IN_BUFFSIZ \<and>
      du_count (snd (dequeue ab d)) ab = du_count d ab - 1 \<and> du_rear (snd (dequeue ab d)) ab = du_rear d ab"
    using n nx by (cases "IN_BUFFSIZ \<le> Suc (du_front d ab)") (auto simp: dequeue_def Let_def)
  moreover have "du_count d ab = 1 \<Longrightarrow> du_inv ab (snd (dequeue ab d))"
    using IN_BUFFSIZ_pos by (simp add: du_inv_def dequeue_def Let_def clear_in_buff_def)
  moreover have "du_count d ab - 1 \<le> IN_BUFFSIZ" "du_rear d ab = (du_front d ab + du_count d ab) mod IN_BUFFSIZ"
    using assms(1) by (auto simp: du_inv_def)
  ultimately show "du_inv ab (snd (dequeue ab d))"
    unfolding du_inv_def by (cases "du_count d ab = 1") simp_all
qed

interpretation ta: bounded_queue "enqueue ab" "dequeue ab" "du_queue ab" "du_inv ab" IN_BUFFSIZ for ab
proof
  show "length (du_queue ab d) \<le> IN_BUFFSIZ" if "du_inv ab d" for d using that by (simp add: du_inv_def du_queue_def)
qed (fact enqueue_inv enqueue_queue dequeue_queue)+

section \<open>Registers\<close>

lemma du_reg_registers [simp]:
  "du_registers (du_reg dir i f d) dir' j = (if dir' = dir \<and> j = i then f (du_registers d dir i) else du_registers d dir' j)"
  by (simp add: du_reg_def)

lemma du_reg_frame [simp]:
  "du_enables (du_reg dir i f d) = du_enables d" "du_reg_pointer (du_reg dir i f d) = du_reg_pointer d"
  "du_queue ab (du_reg dir i f d) = du_queue ab d" "du_inv ab (du_reg dir i f d) = du_inv ab d"
  "du_named (du_reg dir i f d) = du_named d" "du_count (du_reg dir i f d) = du_count d"
  "du_waiting (du_reg dir i f d) = du_waiting d"
  by (simp_all add: du_reg_def du_queue_def du_inv_def)

lemma duart_set [simp]:
  "duart (set_duart f m) = f (duart m)" "g_regs (set_duart f m) = g_regs m" "g_board (set_duart f m) = g_board m"
  by (simp_all add: set_duart_def set_drivers_def)

lemma duart_ist [simp]:
  "duart (set_ist n m) = duart m" "duart (clear_ist n m) = duart m"
  "g_regs (set_ist n m) = g_regs m" "g_regs (clear_ist n m) = g_regs m"
  by (simp_all add: set_ist_def clear_ist_def check_for_interrupt_def upd_ist_def set_board_def)

lemma duart_set_reg [simp]:
  "duart (set_reg n v m) = duart m" "g_regs (set_reg n v m) n = v" "g_board (set_reg n v m) = g_board m"
  by (simp_all add: set_reg_def)

lemma dequeue_frame [simp]:
  "du_registers (snd (dequeue ab d)) = du_registers d" "du_enables (snd (dequeue ab d)) = du_enables d"
  by (simp_all add: dequeue_def clear_in_buff_def Let_def)

lemma queue_count: "du_count d ab = length (du_queue ab d)"
  by (simp add: du_queue_def)

section \<open>Typed characters\<close>

text \<open>The receiver-ready bit of the status register says whether characters are waiting.\<close>

definition rx_ok :: "nat \<Rightarrow> duart_state \<Rightarrow> bool" where
  "rx_ok ab d \<longleftrightarrow> du_inv ab d \<and> (du_registers d DUART_RD (PORT_OFFSET ab + 1) AND 1 \<noteq> 0) = (du_queue ab d \<noteq> [])"

definition listening :: "nat \<Rightarrow> duart_state \<Rightarrow> bool" where
  "listening ab d \<longleftrightarrow> du_enables d ab AND 1 \<noteq> 0 \<and> \<not> loopback ab d"

text \<open>A driver that polls: if the status says so it reads a character.\<close>

definition status_offset :: "nat \<Rightarrow> u32" where
  "status_offset ab = (if ab = DUART_A then 4 else 0x24)"

definition data_offset :: "nat \<Rightarrow> u32" where
  "data_offset ab = (if ab = DUART_A then 0xc else 0x2c)"

primrec poll :: "devs \<Rightarrow> nat \<Rightarrow> nat \<Rightarrow> mach \<Rightarrow> (u8 list \<times> mach) option" where
  "poll dv ab 0 m = Some ([], m)"
| "poll dv ab (Suc n) m =
     do {
       (_, m) \<leftarrow> duart_operation dv (status_offset ab) (PReg 2) WORD LD_U m;
       if g_regs m 2 AND 1 = 0 then poll dv ab n m
       else
         do {
           (_, m) \<leftarrow> duart_operation dv (data_offset ab) (PReg 2) WORD LD_U m;
           (cs, m') \<leftarrow> poll dv ab n m;
           Some (ucast (g_regs m 2) # cs, m')
         }
     }"

lemma not_3_and_1: "(w AND - 4) AND 1 = (0 :: u8)"
  by (simp add: and.assoc)

lemma receive_next:
  assumes "ab \<in> {DUART_A, DUART_B}" and "rx_ok ab d" and "listening ab d" and "du_queue ab d = c # cs"
  shows "du_registers (receive_char ab d) DUART_RD (PORT_OFFSET ab + 3) = c" and "du_queue ab (receive_char ab d) = cs"
    and "rx_ok ab (receive_char ab d)" and "listening ab (receive_char ab d)"
proof -
  let ?d = "snd (dequeue ab d)"
  have q: "fst (dequeue ab d) = c" "du_queue ab ?d = cs" "du_inv ab ?d" "du_count d ab > 0"
    using dequeue_queue [of ab d] assms(2,4) by (auto simp: rx_ok_def queue_count)
  have bit: "du_registers d DUART_RD (PORT_OFFSET ab + 1) AND 1 \<noteq> 0" using assms(2,4) by (simp add: rx_ok_def)
  have eq: "receive_char ab d = (let d' = du_reg DUART_RD (PORT_OFFSET ab + 3) (\<lambda>_. c) ?d in if cs = [] then rx_taken ab d' else d')"
    using assms(3) q(1,2,4) by (simp add: receive_char_def listening_def Let_def case_prod_unfold queue_count)
  note defs = rx_taken_def rx_ok_def listening_def loopback_def PORT_OFFSET_def Let_def
  show "du_registers (receive_char ab d) DUART_RD (PORT_OFFSET ab + 3) = c"
    using assms(1) unfolding eq by (auto simp: defs)
  show "du_queue ab (receive_char ab d) = cs"
    using q(2) unfolding eq by (simp add: defs)
  show "rx_ok ab (receive_char ab d)"
    using assms(1) bit q(2,3) unfolding eq by (auto simp: defs not_3_and_1)
  show "listening ab (receive_char ab d)"
    using assms(1,3) unfolding eq by (auto simp: defs)
qed

lemma and_twice: "(w AND v) AND v = (w AND v :: 'a::len word)"
  by (simp add: and.assoc)

text \<open>The two accesses of the driver.\<close>

lemma du_interrupt_frame [simp]:
  "du_interrupt (set_reg n v m) = du_interrupt m"
  by (simp add: du_interrupt_def)

lemma status_read:
  assumes "ab \<in> {DUART_A, DUART_B}"
  shows "duart_operation dv (status_offset ab) (PReg 2) WORD LD_U m =
    Some (E_NONE, set_reg 2 (ucast (du_registers (duart m) DUART_RD (PORT_OFFSET ab + 1))) m)"
  using assms by (auto simp: duart_operation_def do_cntl_def status_offset_def PORT_OFFSET_def)

lemma data_read:
  assumes "ab \<in> {DUART_A, DUART_B}"
  shows "\<exists>m'. duart_operation dv (data_offset ab) (PReg 2) WORD LD_U m = Some (E_NONE, m') \<and>
    duart m' = receive_char ab (duart m) \<and>
    g_regs m' 2 = ucast (du_registers (receive_char ab (duart m)) DUART_RD (PORT_OFFSET ab + 3))"
proof -
  let ?m = "set_reg 2 (ucast (du_registers (receive_char ab (duart m)) DUART_RD (PORT_OFFSET ab + 3))) (set_duart (receive_char ab) m)"
  have "do_data dv (PReg 2) LD_U ab m = Some (E_NONE, ?m)" by (simp add: do_data_def Let_def)
  then have "duart_operation dv (data_offset ab) (PReg 2) WORD LD_U m = Some (E_NONE,
      if du_interrupt m \<and> \<not> du_interrupt ?m then clear_ist 17 ?m
      else if \<not> du_interrupt m \<and> du_interrupt ?m then set_ist 17 ?m else ?m)"
    using assms by (elim insertE) (simp_all add: duart_operation_def data_offset_def)
  then show ?thesis by simp
qed

lemma ucast_and_1: "ucast (b :: u8) AND 1 = (0 :: u32) \<longleftrightarrow> b AND 1 = 0"
proof -
  have 1: "(w AND 1 = 0) = (\<not> bit w 0)" for w :: "'a::len word" by (simp add: and_one_eq bit_0 even_iff_mod_2_eq_zero)
  show ?thesis unfolding 1 by (simp add: bit_ucast_iff del: bit_0)
qed

lemma poll_reads:
  assumes "ab \<in> {DUART_A, DUART_B}"
  shows "rx_ok ab (duart m) \<Longrightarrow> listening ab (duart m) \<Longrightarrow> du_queue ab (duart m) = cs \<Longrightarrow>
    \<exists>m'. poll dv ab (length cs + k) m = Some (cs, m') \<and> rx_ok ab (duart m') \<and> du_queue ab (duart m') = []"
proof (induction cs arbitrary: m)
  case Nil
  then show ?case
  proof (induction k arbitrary: m)
    case (Suc k)
    let ?m = "set_reg 2 (ucast (du_registers (duart m) DUART_RD (PORT_OFFSET ab + 1))) m"
    have "g_regs ?m 2 AND 1 = 0" using Suc.prems by (simp add: rx_ok_def ucast_and_1)
    then show ?case using Suc.IH [of ?m] Suc.prems by (simp add: status_read [OF assms])
  qed simp
next
  case (Cons c cs)
  let ?m = "set_reg 2 (ucast (du_registers (duart m) DUART_RD (PORT_OFFSET ab + 1))) m"
  obtain m2 where m2: "duart_operation dv (data_offset ab) (PReg 2) WORD LD_U ?m = Some (E_NONE, m2)"
    "duart m2 = receive_char ab (duart m)"
    "g_regs m2 2 = ucast (du_registers (receive_char ab (duart m)) DUART_RD (PORT_OFFSET ab + 3))"
    using data_read [OF assms, of dv ?m] by auto
  have "g_regs ?m 2 AND 1 \<noteq> 0" using Cons.prems by (simp add: rx_ok_def ucast_and_1)
  moreover note receive_next [OF assms Cons.prems]
  moreover have "ucast (ucast c :: u32) = c" by (simp add: ucast_up_ucast_id is_up_def)
  ultimately show ?case using Cons.IH [of m2] m2 by (auto simp: status_read [OF assms])
qed

text \<open>What arrives on a line.\<close>

lemma take_char_duart:
  "du_queue ab (duart (take_char ab c m)) = du_queue ab (enqueue ab c (duart m))"
  "du_inv ab (duart (take_char ab c m)) = du_inv ab (enqueue ab c (duart m))"
  "du_registers (duart (take_char ab c m)) = du_registers (duart m)"
  "du_enables (duart (take_char ab c m)) = du_enables (duart m)"
  by (simp_all add: take_char_def check_for_nmi_def Let_def enqueue_def du_queue_def du_inv_def)

interpretation line: bounded_queue "take_char ab" "\<lambda>m. (fst (dequeue ab (duart m)), set_duart (snd \<circ> dequeue ab) m)"
  "\<lambda>m. du_queue ab (duart m)" "\<lambda>m. du_inv ab (duart m)" IN_BUFFSIZ for ab
  by unfold_locales (simp_all add: take_char_duart ta.enq_inv ta.enq_content ta.deq_inv ta.within ta.deq_content [symmetric])

lemma take_chars_frame:
  "du_registers (duart (fold (take_char ab) cs m)) = du_registers (duart m)"
  "du_enables (duart (fold (take_char ab) cs m)) = du_enables (duart m)"
  by (induction cs arbitrary: m) (simp_all add: take_char_duart)

lemma rx_ready_duart:
  assumes "ab \<in> {DUART_A, DUART_B}"
  shows "du_queue ab (duart (rx_ready ab m)) = du_queue ab (duart m)" "du_inv ab (duart (rx_ready ab m)) = du_inv ab (duart m)"
    "du_registers (duart (rx_ready ab m)) DUART_RD (PORT_OFFSET ab + 1) = du_registers (duart m) DUART_RD (PORT_OFFSET ab + 1) OR 3"
    "listening ab (duart (rx_ready ab m)) = listening ab (duart m)"
  using assms by (auto simp: rx_ready_def Let_def listening_def loopback_def PORT_OFFSET_def)

lemma or_3_and_1: "(w OR 3) AND 1 \<noteq> (0 :: u8)"
proof -
  have "bit ((w OR 3) AND 1) 0" by (simp add: bit_simps)
  then show ?thesis by (metis bit_0_eq bot_apply bot_bool_def)
qed

lemma check_tty_line_ok:
  assumes "ab \<in> {DUART_A, DUART_B}" and "rx_ok ab (duart m)" and "listening ab (duart m)"
    and "du_named (duart m) ab \<or> ab = DUART_A"
  shows "rx_ok ab (duart (check_tty_line ab m))" and "listening ab (duart (check_tty_line ab m))"
    and "du_queue ab (duart (check_tty_line ab m)) = take IN_BUFFSIZ (du_queue ab (duart m) @ du_waiting (duart m) ab)"
proof -
  have inv: "du_inv ab (duart m)" using assms(2) by (simp add: rx_ok_def)
  let ?goal = "\<lambda>m'. rx_ok ab (duart m') \<and> listening ab (duart m') \<and>
    du_queue ab (duart m') = take IN_BUFFSIZ (du_queue ab (duart m) @ du_waiting (duart m) ab)"
  have "?goal (check_tty_line ab m)"
  proof (cases "du_waiting (duart m) ab")
    case Nil
    then show ?thesis using assms line.within [of ab m] inv by (simp add: check_tty_line_def)
  next
    case (Cons c cs)
    let ?m0 = "set_duart (\<lambda>d. d\<lparr>du_waiting := (du_waiting d)(ab := [])\<rparr>) m"
    let ?m1 = "fold (take_char ab) (c # cs) ?m0"
    have 0: "du_inv ab (duart ?m0)" "du_queue ab (duart ?m0) = du_queue ab (duart m)"
      using inv by (simp_all add: du_inv_def du_queue_def)
    note 1 = line.enq_all [OF 0(1), of "c # cs"]
    have "du_queue ab (duart ?m1) \<noteq> []" using 1 0(2) IN_BUFFSIZ_pos by simp
    moreover have "listening ab (duart ?m1)" using assms(3) take_chars_frame [of ab "c # cs" ?m0]
      by (simp add: listening_def loopback_def)
    moreover have "check_tty_line ab m = rx_ready ab ?m1"
      using assms(3,4) Cons take_chars_frame(2) [of ab "c # cs" ?m0]
      by (auto simp: check_tty_line_def Let_def listening_def)
    ultimately show ?thesis using 1 0(2) Cons rx_ready_duart [OF assms(1), of ?m1]
      by (simp add: rx_ok_def or_3_and_1)
  qed
  then show "rx_ok ab (duart (check_tty_line ab m))" and "listening ab (duart (check_tty_line ab m))"
    and "du_queue ab (duart (check_tty_line ab m)) = take IN_BUFFSIZ (du_queue ab (duart m) @ du_waiting (duart m) ab)"
    by simp_all
qed

text \<open>
  Property C11.  Typing ahead.  Whatever is waiting on a line when the signal of the line is handled, a
  program that polls the status register and reads the data register gets first the characters that
  were already in the buffer, then the new ones, in order, each once, up to the 20000 that fit; then the
  status says that there are no more, however often it polls.
\<close>

theorem typed_characters_read:
  assumes "ab \<in> {DUART_A, DUART_B}" and "rx_ok ab (duart m)" and "listening ab (duart m)"
    and "du_named (duart m) ab \<or> ab = DUART_A"
    and "cs = take IN_BUFFSIZ (du_queue ab (duart m) @ du_waiting (duart m) ab)"
  shows "\<exists>m'. poll dv ab (length cs + k) (check_tty_line ab m) = Some (cs, m') \<and>
    rx_ok ab (duart m') \<and> du_queue ab (duart m') = []"
  unfolding assms(5) by (rule poll_reads [OF assms(1) check_tty_line_ok [OF assms(1-4)]])

definition demo_line :: "nat \<Rightarrow> u8 list \<Rightarrow> mach" where
  "demo_line ab cs =
     set_duart (\<lambda>d. (hardware_reset d)\<lparr>du_enables := (\<lambda>_. 3), du_waiting := (\<lambda>i. if i = ab then cs else []),
       du_named := (\<lambda>_. True)\<rparr>) cleared_mach"

theorem typed_characters_read_witness:
  "\<exists>m'. poll idle_devs DUART_B 5 (check_tty_line DUART_B (demo_line DUART_B [0x67, 0x38, 0x38])) = Some ([0x67, 0x38, 0x38], m')"
proof -
  let ?m = "demo_line DUART_B [0x67, 0x38, 0x38]"
  have "rx_ok DUART_B (duart ?m)" "listening DUART_B (duart ?m)" "du_named (duart ?m) DUART_B"
    "[0x67, 0x38, 0x38] = take IN_BUFFSIZ (du_queue DUART_B (duart ?m) @ du_waiting (duart ?m) DUART_B)"
    by (simp_all add: demo_line_def rx_ok_def listening_def loopback_def du_inv_def du_queue_def hardware_reset_def
        cleared_mach_def cleared_drivers_def cleared_duart_def PORT_OFFSET_def IN_BUFFSIZ_def)
  then have "\<exists>m'. poll idle_devs DUART_B (length [0x67 :: u8, 0x38, 0x38] + 2) (check_tty_line DUART_B ?m) = Some ([0x67, 0x38, 0x38], m') \<and>
      rx_ok DUART_B (duart m') \<and> du_queue DUART_B (duart m') = []"
    by (intro typed_characters_read) simp_all
  moreover have "length [0x67 :: u8, 0x38, 0x38] + 2 = 5" by simp
  ultimately show ?thesis by (metis (no_types))
qed

end
