(* ===== verification/Sim_Serial_Int.thy ===== *)
theory Sim_Serial_Int
  imports Sim_Serial
begin

text \<open>
  Invariants of the serial controller over any sequence of accesses and arriving characters, the local loopback,
  and the resets of the two ports.
\<close>

section \<open>The interrupt request\<close>

text \<open>Bit 17 of the interrupt status is the request of the controller.\<close>

definition irq_ok :: "mach \<Rightarrow> bool" where
  "irq_ok m \<longleftrightarrow> bit (b_ist (g_board m)) 17 = du_interrupt m"

lemma bit_ist:
  "n < 32 \<Longrightarrow> k < 32 \<Longrightarrow> bit (b_ist (g_board (set_ist n m))) k = (bit (b_ist (g_board m)) k \<or> k = n)"
  "n < 32 \<Longrightarrow> k < 32 \<Longrightarrow> bit (b_ist (g_board (clear_ist n m))) k = (bit (b_ist (g_board m)) k \<and> k \<noteq> n)"
  by (auto simp: set_ist_def clear_ist_def check_for_interrupt_def upd_ist_def set_board_def c_shl_small bit_simps)

lemma du_interrupt_duart: "duart m' = duart m \<Longrightarrow> du_interrupt m' = du_interrupt m"
  by (simp add: du_interrupt_def)

lemma write_ptr_frame: "write_ptr m p v = Some m' \<Longrightarrow> g_board m' = g_board m \<and> duart m' = duart m"
  by (cases p) (auto simp: set_reg_def set_cr_def split: if_splits)

lemma simsignal_frame [simp]: "g_board (simsignal n s f m) = g_board m" "duart (simsignal n s f m) = duart m"
  by (simp_all add: simsignal_def)

lemma init_line_frame: "g_board (init_serial_line dv ab m) = g_board m"
  by (simp add: init_serial_line_def Let_def)

lemma cntl_store_board: "cntl_store dv o' b m = Some m' \<Longrightarrow> g_board m' = g_board m"
  by (auto simp: cntl_store_def duart_command_def reset_recv_def reset_xmit_def Let_def init_line_frame
      split: if_splits bind_splits)

lemma do_cntl_board: "do_cntl dv o' rp mop m = Some (s, m') \<Longrightarrow> g_board m' = g_board m"
  by (auto simp: do_cntl_def Let_def dest: write_ptr_frame cntl_store_board split: if_splits bind_splits)

lemma do_data_board: "do_data dv rp mop ab m = Some (s, m') \<Longrightarrow> g_board m' = g_board m"
  by (auto simp: do_data_def Let_def dest!: write_ptr_frame split: if_splits bind_splits)

lemma operation_parts:
  assumes "duart_operation dv o' rp sz mop m = Some (s, m')"
  obtains "m' = m"
  | s1 m1 where "do_cntl dv o' rp mop m = Some (s1, m1) \<or> (\<exists>ab. do_data dv rp mop ab m = Some (s1, m1)) \<or> m1 = m"
      and "m' = (if du_interrupt m \<and> \<not> du_interrupt m1 then clear_ist 17 m1
                 else if \<not> du_interrupt m \<and> du_interrupt m1 then set_ist 17 m1 else m1)"
proof (cases "sz \<noteq> WORD \<or> mop = XMEM \<or> mop = XMEM_U")
  case True
  then have "m' = m" using assms by (elim disjE) (simp_all add: duart_operation_def split: if_splits)
  then show ?thesis by (rule that(1))
next
  case False
  let ?in = "if o' \<in> {0, 4, 8, 0x10, 0x14, 0x18, 0x1c, 0x20, 0x24, 0x28, 0x30, 0x34, 0x38, 0x3c} then do_cntl dv o' rp mop m
             else if o' = 0xc then do_data dv rp mop DUART_A m
             else if o' = 0x2c then do_data dv rp mop DUART_B m
             else Some (E_DACC, m)"
  obtain s1 m1 where 1: "?in = Some (s1, m1)"
    "m' = (if du_interrupt m \<and> \<not> du_interrupt m1 then clear_ist 17 m1
           else if \<not> du_interrupt m \<and> du_interrupt m1 then set_ist 17 m1 else m1)"
  proof (cases ?in)
    case None
    then show ?thesis using assms False unfolding duart_operation_def by (simp only: None) simp
  next
    case (Some r)
    then show ?thesis using assms False that [of "fst r" "snd r"] unfolding duart_operation_def
      by (simp only: Some) (simp add: case_prod_unfold)
  qed
  have "do_cntl dv o' rp mop m = Some (s1, m1) \<or> (\<exists>ab. do_data dv rp mop ab m = Some (s1, m1)) \<or> m1 = m"
    using 1(1) by (cases "o' \<in> {0, 4, 8, 0x10, 0x14, 0x18, 0x1c, 0x20, 0x24, 0x28, 0x30, 0x34, 0x38, 0x3c}")
      (simp_all only: if_True if_False split: if_split_asm, blast+)
  then show ?thesis using 1(2) by (rule that(2))
qed

lemma irq_operation:
  assumes "irq_ok m" and "duart_operation dv o' rp sz mop m = Some (s, m')"
  shows "irq_ok m'"
  using assms(2)
proof (cases rule: operation_parts)
  case (2 s1 m1)
  then have "g_board m1 = g_board m" using do_cntl_board do_data_board by metis
  then show ?thesis using assms(1) unfolding 2(2)
    by (auto simp: irq_ok_def bit_ist du_interrupt_duart [of "clear_ist 17 m1" m1] du_interrupt_duart [of "set_ist 17 m1" m1])
qed (use assms(1) in simp)

lemma irq_take_char: "irq_ok m \<Longrightarrow> irq_ok (take_char ab c m)"
  by (auto simp: irq_ok_def take_char_def check_for_nmi_def Let_def bit_ist du_interrupt_def enqueue_def)

lemma irq_take_chars: "irq_ok m \<Longrightarrow> irq_ok (fold (take_char ab) cs m)"
  by (induction cs arbitrary: m) (simp_all add: irq_take_char)

lemma irq_rx_ready:
  assumes "ab \<in> {DUART_A, DUART_B}" and "irq_ok m"
  shows "irq_ok (rx_ready ab m)"
  using assms
  by (auto simp: rx_ready_def Let_def irq_ok_def bit_ist du_interrupt_def PORT_OFFSET_def bit.conj_disj_distrib
      bit.conj_disj_distrib2 or_eq_0_iff and.commute [of "du_registers d 0 5" "w :: u8" for d w])

lemma irq_check:
  assumes "ab \<in> {DUART_A, DUART_B}" and "irq_ok m"
  shows "irq_ok (check_tty_line ab m)"
proof -
  have set: "irq_ok (set_duart f m') = irq_ok m'" if "du_registers (f (duart m')) = du_registers (duart m')" for f m'
    using that by (simp add: irq_ok_def du_interrupt_def)
  let ?m = "set_duart (\<lambda>d. d\<lparr>du_waiting := (du_waiting d)(ab := [])\<rparr>) m"
  have 1: "irq_ok (fold (take_char ab) (du_waiting (duart m) ab) ?m)"
    by (rule irq_take_chars) (simp add: set assms(2))
  have "irq_ok (set_duart (clear_in_buff ab) m')" if "irq_ok m'" for m'
    using that by (simp add: set clear_in_buff_def)
  then show ?thesis using 1 irq_rx_ready [OF assms(1) 1] assms(2) by (auto simp: check_tty_line_def Let_def)
qed

section \<open>The buffers\<close>

lemma inv_cong:
  "du_front d ab = du_front d' ab \<Longrightarrow> du_count d ab = du_count d' ab \<Longrightarrow> du_rear d ab = du_rear d' ab \<Longrightarrow>
     du_inv ab d = du_inv ab d'"
  by (simp add: du_inv_def)

lemma inv_clear [simp]: "du_inv ab d \<Longrightarrow> du_inv ab (clear_in_buff ab' d)"
  using IN_BUFFSIZ_pos by (auto simp: du_inv_def clear_in_buff_def)

lemma inv_enqueue: "du_inv ab d \<Longrightarrow> du_inv ab (enqueue ab' c d)"
  by (cases "ab' = ab") (auto simp: ta.enq_inv, auto simp: du_inv_def enqueue_def Let_def)

lemma inv_dequeue: "du_inv ab d \<Longrightarrow> du_inv ab (snd (dequeue ab' d))"
proof (cases "ab' = ab")
  case True
  assume "du_inv ab d"
  then show ?thesis using True ta.deq_inv [of ab d] by (cases "du_queue ab d = []") (auto simp: dequeue_def du_queue_def)
next
  case False
  assume "du_inv ab d"
  then show ?thesis using False by (auto simp: dequeue_def du_inv_def clear_in_buff_def Let_def)
qed

lemma inv_updates [simp]:
  "du_inv ab (d\<lparr>du_enables := e\<rparr>) = du_inv ab d" "du_inv ab (d\<lparr>du_reg_pointer := p\<rparr>) = du_inv ab d"
  "du_inv ab (d\<lparr>du_output_reg := r\<rparr>) = du_inv ab d" "du_inv ab (d\<lparr>du_sent := x\<rparr>) = du_inv ab d"
  "du_inv ab (d\<lparr>du_inited := b\<rparr>) = du_inv ab d" "du_inv ab (d\<lparr>du_opened := b, du_baud := q\<rparr>) = du_inv ab d"
  "du_inv ab (d\<lparr>du_total_read := t\<rparr>) = du_inv ab d" "du_inv ab (d\<lparr>du_waiting := w\<rparr>) = du_inv ab d"
  "du_inv ab (d\<lparr>du_reset_cnt := n\<rparr>) = du_inv ab d" "du_inv ab (d\<lparr>du_nmi_cnt := n\<rparr>) = du_inv ab d"
  by (simp_all add: du_inv_def)

lemma inv_init_line [simp]: "du_inv ab (duart (init_serial_line dv ab' m)) = du_inv ab (duart m)"
  by (simp add: init_serial_line_def Let_def)

lemma inv_enable [simp]: "du_inv ab d \<Longrightarrow> du_inv ab (enable_recv ab' b (enable_xmit ab' b d))"
  by (auto simp: enable_recv_def enable_xmit_def Let_def)

lemma inv_clear_enable: "clear_enable i w d = Some d' \<Longrightarrow> du_inv ab d' = du_inv ab d"
  by (auto simp: clear_enable_def split: if_splits)

lemma inv_cntl_store: "cntl_store dv o' b m = Some m' \<Longrightarrow> du_inv ab (duart m) \<Longrightarrow> du_inv ab (duart m')"
  by (auto simp: cntl_store_def duart_command_def reset_recv_def reset_xmit_def Let_def inv_clear_enable
      split: if_splits bind_splits)

lemma inv_receive: "du_inv ab d \<Longrightarrow> du_inv ab (receive_char ab' d)"
  using inv_dequeue [of ab d ab'] by (auto simp: receive_char_def rx_taken_def Let_def split: prod.splits)

lemma inv_transmit: "du_inv ab d \<Longrightarrow> du_inv ab (transmit_char ab' d)"
  by (simp add: transmit_char_def Let_def)

lemma inv_operation:
  assumes "du_inv ab (duart m)" and "duart_operation dv o' rp sz mop m = Some (s, m')"
  shows "du_inv ab (duart m')"
proof -
  have cntl: "du_inv ab (duart m1)" if "do_cntl dv o' rp mop m = Some (s1, m1)" for s1 m1
    using that assms(1) by (auto simp: do_cntl_def Let_def dest: write_ptr_frame inv_cntl_store split: if_splits bind_splits)
  have data: "du_inv ab (duart m1)" if "do_data dv rp mop ab' m = Some (s1, m1)" for s1 m1 ab'
    using that assms(1) inv_receive [OF assms(1)] inv_transmit
    by (auto simp: do_data_def Let_def dest!: write_ptr_frame split: if_splits bind_splits)
  show ?thesis
    using assms(2)
  proof (cases rule: operation_parts)
    case (2 s1 m1)
    then have "du_inv ab (duart m1)" using cntl data assms(1) by blast
    then show ?thesis unfolding 2(2) by simp
  qed (use assms(1) in simp)
qed

lemma inv_rx_ready [simp]: "du_inv ab (duart (rx_ready ab' m)) = du_inv ab (duart m)"
  by (simp add: rx_ready_def Let_def)

lemma inv_check: "du_inv ab (duart m) \<Longrightarrow> du_inv ab (duart (check_tty_line ab' m))"
proof -
  assume inv: "du_inv ab (duart m)"
  have take: "du_inv ab (duart (take_char ab' c m))" if "du_inv ab (duart m)" for c m
    using inv_enqueue [OF that] by (simp add: take_char_def check_for_nmi_def Let_def)
  have fold: "du_inv ab (duart (fold (take_char ab') cs m))" if "du_inv ab (duart m)" for cs m
    using that by (induction cs arbitrary: m) (simp_all add: take)
  have "du_inv ab (duart (fold (take_char ab') cs (set_duart (\<lambda>d. d\<lparr>du_waiting := (du_waiting d)(ab' := [])\<rparr>) m)))" for cs
    using inv by (intro fold) simp
  then show ?thesis using inv by (cases "ab' = DUART_A") (auto simp: check_tty_line_def Let_def)
qed

section \<open>Sequences of accesses and arriving characters\<close>

inductive serial_step :: "devs \<Rightarrow> mach \<Rightarrow> mach \<Rightarrow> bool" for dv :: devs where
  program: "duart_operation dv o' rp sz mop m = Some (s, m') \<Longrightarrow> serial_step dv m m'"
| arrives: "serial_step dv m (check_tty_lines (set_duart (\<lambda>d. d\<lparr>du_waiting := w\<rparr>) m))"

text \<open>
  Property C14.  Over any sequence of accesses of the program and of characters arriving on the lines, both
  typeahead buffers remain well-formed rings and the interrupt request in the status register of
  the board is set exactly when an enabled condition of the controller is.
\<close>

theorem serial_invariant:
  assumes "(serial_step dv)\<^sup>*\<^sup>* m m'" and "irq_ok m" and "\<And>ab. du_inv ab (duart m)"
  shows "irq_ok m' \<and> du_inv ab (duart m')"
proof -
  have "irq_ok m' \<and> (\<forall>ab. du_inv ab (duart m'))"
    using assms(1)
  proof (induction rule: rtranclp_induct)
    case (step m1 m2)
    from step.hyps(2) show ?case
    proof cases
      case (program o' rp sz mop s)
      then show ?thesis using step.IH irq_operation inv_operation by blast
    next
      case (arrives w)
      have "irq_ok (set_duart (\<lambda>d. d\<lparr>du_waiting := w\<rparr>) m1)" using step.IH by (simp add: irq_ok_def du_interrupt_def)
      then show ?thesis using step.IH unfolding arrives by (simp add: check_tty_lines_def irq_check inv_check)
    qed
  qed (use assms in simp)
  then show ?thesis by simp
qed

theorem serial_invariant_witness:
  "irq_ok (check_tty_lines (demo_line DUART_A [0x21])) \<and> du_inv DUART_A (duart (check_tty_lines (demo_line DUART_A [0x21])))"
proof -
  let ?m = "demo_line DUART_A [0x21]"
  have "irq_ok ?m" "du_inv ab (duart ?m)" "set_duart (\<lambda>d. d\<lparr>du_waiting := \<lambda>i. if i = DUART_A then [0x21] else []\<rparr>) ?m = ?m" for ab
    by (simp_all add: irq_ok_def du_interrupt_def demo_line_def du_inv_def hardware_reset_def set_duart_def set_drivers_def
        cleared_mach_def cleared_drivers_def cleared_duart_def cleared_board_def IN_BUFFSIZ_def)
  moreover have "(serial_step idle_devs)\<^sup>*\<^sup>* ?m
      (check_tty_lines (set_duart (\<lambda>d. d\<lparr>du_waiting := \<lambda>i. if i = DUART_A then [0x21] else []\<rparr>) ?m))"
    by (rule r_into_rtranclp, rule arrives)
  ultimately show ?thesis
    using serial_invariant [of idle_devs ?m "check_tty_lines ?m" DUART_A] by simp
qed

section \<open>Loopback\<close>

lemma low_byte: "ucast (ucast v :: u8) = v AND (0xff :: u32)"
proof -
  have "ucast (ucast v :: u8) = v AND (mask 8 :: u32)" by (rule bit_word_eqI) (auto simp: bit_simps)
  then show ?thesis by (simp add: mask_eq_exp_minus_1)
qed

text \<open>
  In local loopback a byte that the program stores in the data register of a port with its
  receiver enabled is announced by the receiver-ready bit and is what the next load of the data
  register returns.
\<close>

theorem loopback_roundtrip:
  assumes "ab \<in> {DUART_A, DUART_B}" and "loopback ab (duart m)" and "du_enables (duart m) ab AND 1 \<noteq> 0"
    and "du_named (duart m) ab \<longrightarrow> dv_writes dv ab"
  shows "\<exists>m1 m2 m3. duart_operation dv (data_offset ab) (PReg 3) WORD ST m = Some (E_NONE, m1) \<and>
    duart_operation dv (status_offset ab) (PReg 2) WORD LD_U m1 = Some (E_NONE, m2) \<and> g_regs m2 2 AND 1 \<noteq> 0 \<and>
    duart_operation dv (data_offset ab) (PReg 2) WORD LD_U m2 = Some (E_NONE, m3) \<and> g_regs m3 2 = g_regs m 3 AND 0xff"
proof -
  let ?d = "transmit_char ab (du_reg DUART_WR (PORT_OFFSET ab + 3) (\<lambda>_. ucast (g_regs m 3)) (duart m))"
  have "do_data dv (PReg 3) ST ab m = Some (E_NONE, set_duart (transmit_char ab)
      (set_duart (du_reg DUART_WR (PORT_OFFSET ab + 3) (\<lambda>_. ucast (g_regs m 3))) m))"
    using assms(4) by (simp add: do_data_def Let_def)
  then obtain m1 where 1: "duart_operation dv (data_offset ab) (PReg 3) WORD ST m = Some (E_NONE, m1)" "duart m1 = ?d"
    using assms(1) by (elim insertE) (simp_all add: duart_operation_def data_offset_def)
  let ?m2 = "set_reg 2 (ucast (du_registers (duart m1) DUART_RD (PORT_OFFSET ab + 1))) m1"
  have "du_registers ?d DUART_RD (PORT_OFFSET ab + 1) AND 1 \<noteq> 0"
    using assms(1,2) by (auto simp: transmit_char_def Let_def loopback_def PORT_OFFSET_def or_3_and_1)
  then have "g_regs ?m2 2 AND 1 \<noteq> 0" by (simp add: 1(2) ucast_and_1)
  moreover have "du_registers (receive_char ab ?d) DUART_RD (PORT_OFFSET ab + 3) = ucast (g_regs m 3)"
    using assms(1-3)
    by (auto simp: receive_char_def rx_taken_def transmit_char_def Let_def loopback_def PORT_OFFSET_def)
  ultimately show ?thesis
    using low_byte [of "g_regs m 3"] 1 status_read [OF assms(1), of dv m1] data_read [OF assms(1), of dv ?m2] by auto
qed

lemma init_line_enables:
  "du_enables (duart (init_serial_line dv ab m)) = du_enables (duart m)"
  "du_count (duart (init_serial_line dv ab m)) = du_count (duart m)"
  by (simp_all add: init_serial_line_def Let_def)

text \<open>Mode register 2 with local loopback.\<close>

definition demo_loop :: mach where
  "demo_loop = set_reg 3 0x58 (set_duart (du_reg MR2 8 (\<lambda>_. 0x80)) (demo_line DUART_B []))"

theorem loopback_roundtrip_witness:
  "\<exists>m1 m2 m3. duart_operation (idle_devs\<lparr>dv_writes := (\<lambda>_. True)\<rparr>) 0x2c (PReg 3) WORD ST demo_loop = Some (E_NONE, m1) \<and>
    duart_operation (idle_devs\<lparr>dv_writes := (\<lambda>_. True)\<rparr>) 0x24 (PReg 2) WORD LD_U m1 = Some (E_NONE, m2) \<and> g_regs m2 2 AND 1 \<noteq> 0 \<and>
    duart_operation (idle_devs\<lparr>dv_writes := (\<lambda>_. True)\<rparr>) 0x2c (PReg 2) WORD LD_U m2 = Some (E_NONE, m3) \<and> g_regs m3 2 = 0x58"
proof -
  have "loopback DUART_B (duart demo_loop)" "du_enables (duart demo_loop) DUART_B AND 1 \<noteq> 0" "g_regs demo_loop 3 = 0x58"
    by (simp_all add: demo_loop_def demo_line_def loopback_def PORT_OFFSET_def)
  then show ?thesis
    using loopback_roundtrip [of DUART_B demo_loop "idle_devs\<lparr>dv_writes := (\<lambda>_. True)\<rparr>"]
    by (simp add: data_offset_def status_offset_def)
qed

text \<open>
  Property C28.  The reset commands of port A clear its enable bit and empty its buffer; the same
  commands on port B write behind the end of the array of enable bits.
\<close>

theorem port_resets:
  assumes "g_regs m 3 AND 0xff \<in> {0x20, 0x30}"
  shows "duart_operation dv 0x28 (PReg 3) WORD ST m = None \<and>
    (\<exists>m'. duart_operation dv 8 (PReg 3) WORD ST m = Some (E_NONE, m') \<and>
      du_enables (duart m') DUART_A = du_enables (duart m) DUART_A AND NOT (if g_regs m 3 AND 0xff = 0x20 then 1 else 2) \<and>
      (g_regs m 3 AND 0xff = 0x20 \<longrightarrow> du_queue DUART_A (duart m') = []))"
proof -
  let ?b = "ucast (g_regs m 3) :: u8"
  have "ucast ?b = (0x20 :: u32) \<or> ucast ?b = (0x30 :: u32)" using assms by (simp add: low_byte)
  then have b: "?b = 0x20 \<or> ?b = 0x30"
  proof (elim disjE)
    assume "ucast ?b = (0x20 :: u32)"
    then have "(ucast (ucast ?b :: u32) :: u8) = ucast (0x20 :: u32)" by simp
    then show ?thesis by (simp add: ucast_up_ucast_id is_up_def)
  next
    assume "ucast ?b = (0x30 :: u32)"
    then have "(ucast (ucast ?b :: u32) :: u8) = ucast (0x30 :: u32)" by simp
    then show ?thesis by (simp add: ucast_up_ucast_id is_up_def)
  qed
  have v: "(g_regs m 3 AND 0xff = 0x20) = (?b = 0x20)"
    using b low_byte [of "g_regs m 3"] by auto
  have "cntl_store dv 0x28 ?b m = None"
    using b by (elim disjE) (simp_all only:, simp_all add: cntl_store_def duart_command_def reset_recv_def reset_xmit_def
        clear_enable_def PORT_OFFSET_def Let_def)
  then have b_port: "duart_operation dv 0x28 (PReg 3) WORD ST m = None"
    by (simp add: duart_operation_def do_cntl_def)
  have "\<exists>m'. cntl_store dv 8 ?b m = Some m' \<and>
      du_enables (duart m') DUART_A = du_enables (duart m) DUART_A AND NOT (if ?b = 0x20 then 1 else 2) \<and>
      (?b = 0x20 \<longrightarrow> du_queue DUART_A (duart m') = [])"
    using b by (elim disjE) (simp_all only:, simp_all add: cntl_store_def duart_command_def reset_recv_def reset_xmit_def
        clear_enable_def PORT_OFFSET_def Let_def enable_xmit_def enable_recv_def init_line_enables du_queue_def clear_in_buff_def)
  then obtain m' where m': "cntl_store dv 8 ?b m = Some m'"
      "du_enables (duart m') DUART_A = du_enables (duart m) DUART_A AND NOT (if ?b = 0x20 then 1 else 2)"
      "?b = 0x20 \<longrightarrow> du_queue DUART_A (duart m') = []" by blast
  then have "do_cntl dv 8 (PReg 3) ST m = Some (E_NONE, m')" by (simp add: do_cntl_def)
  then have "\<exists>m''. duart_operation dv 8 (PReg 3) WORD ST m = Some (E_NONE, m'') \<and> duart m'' = duart m'"
    by (simp add: duart_operation_def)
  then have "\<exists>m'. duart_operation dv 8 (PReg 3) WORD ST m = Some (E_NONE, m') \<and>
      du_enables (duart m') DUART_A = du_enables (duart m) DUART_A AND NOT (if g_regs m 3 AND 0xff = 0x20 then 1 else 2) \<and>
      (g_regs m 3 AND 0xff = 0x20 \<longrightarrow> du_queue DUART_A (duart m') = [])"
    using m'(2,3) unfolding v by auto
  with b_port show ?thesis by simp
qed

theorem port_resets_witness:
  "duart_operation idle_devs 0x28 (PReg 3) WORD ST (set_reg 3 0x20 (demo_line DUART_B [])) = None"
  using port_resets [of "set_reg 3 0x20 (demo_line DUART_B [])" idle_devs] by simp

end
