(* ===== verification/Sim_Disks.thy ===== *)
theory Sim_Disks
  imports Sim_Disk
begin

text \<open>
  Properties of the disks: what a command transfers between a file and memory, and that blocks that were
  written are read back.
\<close>

section \<open>Bytes of a page\<close>

lemma mem_byte_put_byte:
  "off < 4096 \<Longrightarrow> mem_byte (put_byte_at pg off b m) n = (if n = 4096 * pg + off then b else mem_byte m n)"
  using mem_byte_store_byte [of "4096 * pg + off" b m n]
  by (simp add: put_byte_at_def mod_add_eq [symmetric] mod_mult_left_eq [symmetric])

lemma put_byte_frame [simp]:
  "g_memory_size (put_byte_at pg off b m) = g_memory_size m" "g_drivers (put_byte_at pg off b m) = g_drivers m"
  "pg_decoded_part (get_page k (put_byte_at pg off b m)) = pg_decoded_part (get_page k m)"
  by (simp_all add: put_byte_at_def store_word_def put_page_def Let_def get_page_def split: option.splits)

lemma put_bytes_frame [simp]:
  "g_memory_size (put_bytes pg off bs m) = g_memory_size m" "g_drivers (put_bytes pg off bs m) = g_drivers m"
  "pg_decoded_part (get_page k (put_bytes pg off bs m)) = pg_decoded_part (get_page k m)"
  by (induction pg off bs m rule: put_bytes.induct) simp_all

lemma touch_frame [simp]: "g_drivers (touch_page n m) = g_drivers m" "g_memory_size (touch_page n m) = g_memory_size m"
  by (simp_all add: touch_page_def put_page_def)

text \<open>Memory with bytes stored at an address.\<close>

definition stored :: "nat \<Rightarrow> u8 list \<Rightarrow> (nat \<Rightarrow> u8) \<Rightarrow> nat \<Rightarrow> u8" where
  "stored a bs f n = (if a \<le> n \<and> n < a + length bs then bs ! (n - a) else f n)"

lemma stored_Nil [simp]: "stored a [] f = f"
  by (auto simp: stored_def fun_eq_iff)

lemma stored_append: "stored (a + length bs) cs (stored a bs f) = stored a (bs @ cs) f"
  by (auto simp: stored_def fun_eq_iff nth_append diff_diff_left)

lemma mem_byte_put_bytes:
  "off + length bs \<le> 4096 \<Longrightarrow> mem_byte (put_bytes pg off bs m) = stored (4096 * pg + off) bs (mem_byte m)"
proof (induction bs arbitrary: off m)
  case (Cons b bs)
  have "mem_byte (put_byte_at pg off b m) = stored (4096 * pg + off) [b] (mem_byte m)"
    using Cons.prems by (auto simp: mem_byte_put_byte stored_def fun_eq_iff)
  then show ?case
    using Cons.IH [of "off + 1" "put_byte_at pg off b m"] Cons.prems stored_append [of "4096 * pg + off" "[b]" bs "mem_byte m"]
    by simp
qed simp

lemma get_bytes_mem: "off + n \<le> 4096 \<Longrightarrow> get_bytes pg off n m = map (\<lambda>i. mem_byte m (4096 * pg + off + i)) [0..<n]"
proof -
  assume fits: "off + n \<le> 4096"
  have "mem_byte m (4096 * pg + off + i) = get_byte ((off + i) mod 4) (pg_values (get_page pg m) ((off + i) div 4))" if "i < n" for i
  proof -
    have "off + i < 4096" using fits that by simp
    then have "(4096 * pg + (off + i)) div 4096 = pg" "(4096 * pg + (off + i)) mod 4096 = off + i" by simp_all
    moreover have "(4096 * pg + (off + i)) mod 4 = (off + i) mod 4"
      using mod_mult_self3 [of "1024 * pg" 4 "off + i"] by (simp add: mult.assoc)
    ultimately show ?thesis by (simp add: mem_byte_def add.assoc)
  qed
  then show ?thesis by (simp add: get_bytes_def)
qed

section \<open>Files and memory\<close>

lemma block_place:
  assumes "a < g_memory_size m"
  shows "4096 * page_of a + unat (poff a) = unat a" and "unat (poff a) + unat (block_len a len) \<le> 4096"
proof -
  have "unat a mod 4096 < 4096" by simp
  then show "unat (poff a) + unat (block_len a len) \<le> 4096" by (simp add: unat_poff unat_block_len)
qed (simp add: page_of_nat unat_poff)

lemma block_step:
  assumes "len \<noteq> 0" and "unat a + unat len \<le> unat (g_memory_size (m :: mach))"
  shows "a < g_memory_size m" and "unat (block_len a len) \<le> unat len"
    and "unat (a + block_len a len) = unat a + unat (block_len a len)"
    and "unat (len - block_len a len) = unat len - unat (block_len a len)"
proof -
  have "0 < unat len" using assms(1) by (simp add: unat_gt_0)
  then show "a < g_memory_size m" using assms(2) by (simp add: word_less_nat_alt)
  show n: "unat (block_len a len) \<le> unat len" by (simp add: unat_block_len)
  have "unat a + unat len < 2 ^ 32" using assms(2) unat_u32 [of "g_memory_size m"] by linarith
  then show "unat (a + block_len a len) = unat a + unat (block_len a len)" using n by (simp add: unat_word_ariths)
  show "unat (len - block_len a len) = unat len - unat (block_len a len)" using n by (simp add: unat_sub word_le_nat_alt)
qed

lemma readfile_ram:
  "unat a + unat len \<le> unat (g_memory_size m) \<Longrightarrow> unat len \<le> length fl \<Longrightarrow>
   \<exists>m'. sim_readfile io junk fl m a len act = Some (act + len, drop (unat len) fl, m') \<and>
     mem_byte m' = stored (unat a) (take (unat len) fl) (mem_byte m) \<and> g_drivers m' = g_drivers m \<and>
     (\<forall>k. pg_decoded_part (get_page k m') = pg_decoded_part (get_page k m)) \<and> g_memory_size m' = g_memory_size m"
proof (induction "unat len" arbitrary: m a len fl act rule: less_induct)
  case less
  show ?case
  proof (cases "len = 0")
    case True
    then show ?thesis by (simp add: sim_readfile.simps)
  next
    case False
    let ?n = "block_len a len"
    let ?bs = "take (unat ?n) fl"
    let ?m = "put_bytes (page_of a) (unat (poff a)) ?bs (touch_page (page_of a) m)"
    note st = block_step [OF False less.prems(1)]
    have len: "length ?bs = unat ?n" using st(2) less.prems(2) by simp
    then have mn: "min (length fl) (unat ?n) = unat ?n" by simp
    have mem: "mem_byte ?m = stored (unat a) ?bs (mem_byte m)"
      using mem_byte_put_bytes [of "unat (poff a)" ?bs "page_of a"] block_place(1) [OF st(1)] block_place(2) [OF st(1), of len] by (simp add: len)
    have pre: "unat (a + ?n) + unat (len - ?n) \<le> unat (g_memory_size ?m)" "unat (len - ?n) \<le> length (drop (unat ?n) fl)"
      using less.prems st(2) by (simp_all add: st(3,4))
    obtain m' where m': "sim_readfile io junk (drop (unat ?n) fl) ?m (a + ?n) (len - ?n) (act + ?n) =
        Some (act + ?n + (len - ?n), drop (unat (len - ?n)) (drop (unat ?n) fl), m')"
      "mem_byte m' = stored (unat (a + ?n)) (take (unat (len - ?n)) (drop (unat ?n) fl)) (mem_byte ?m)"
      "g_drivers m' = g_drivers ?m" "\<forall>k. pg_decoded_part (get_page k m') = pg_decoded_part (get_page k ?m)"
      "g_memory_size m' = g_memory_size ?m"
      using less.hyps [OF block_len_bounds(3) [OF False] pre, of "act + ?n"] by blast
    have "sim_readfile io junk fl m a len act = Some (act + len, drop (unat len) fl, m')"
      using m'(1) st(2) by (subst sim_readfile.simps) (simp add: False Let_def sim_ptr_block [OF st(1)] mn st(4))
    moreover have "mem_byte m' = stored (unat a) (take (unat len) fl) (mem_byte m)"
      using stored_append [of "unat a" ?bs "take (unat (len - ?n)) (drop (unat ?n) fl)" "mem_byte m"] st(2)
      unfolding m'(2) mem st(3) len by (simp add: st(4) take_add [symmetric])
    ultimately show ?thesis using m'(3-5) by simp
  qed
qed

lemma range_shift: "[x..<x + k] = map (\<lambda>i. i + x) [0..<k]" for x k :: nat
  by (simp add: map_add_upt add.commute)

lemma writefile_ram:
  "unat a + unat len \<le> unat (g_memory_size m) \<Longrightarrow> unat len \<le> room \<Longrightarrow>
   \<exists>m'. sim_writefile room out m a len act = (act + len, out @ map (mem_byte m) [unat a..<unat a + unat len], m') \<and>
     mem_byte m' = mem_byte m \<and> g_drivers m' = g_drivers m \<and> g_memory_size m' = g_memory_size m"
proof (induction "unat len" arbitrary: m a len room out act rule: less_induct)
  case less
  show ?case
  proof (cases "len = 0")
    case True
    then show ?thesis by (simp add: sim_writefile.simps)
  next
    case False
    let ?n = "block_len a len"
    let ?m = "touch_page (page_of a) m"
    let ?bs = "map (mem_byte m) [unat a..<unat a + unat ?n]"
    note st = block_step [OF False less.prems(1)]
    have bs: "get_bytes (page_of a) (unat (poff a)) (unat ?n) ?m = ?bs"
      using get_bytes_mem [of "unat (poff a)" "unat ?n" "page_of a" ?m] block_place(1) [OF st(1)] block_place(2) [OF st(1), of len]
      unfolding range_shift by (simp add: o_def add.commute)
    have pre: "unat (a + ?n) + unat (len - ?n) \<le> unat (g_memory_size ?m)" "unat (len - ?n) \<le> room - unat ?n"
      using less.prems st(2) by (simp_all add: st(3,4))
    obtain m' where m': "sim_writefile (room - unat ?n) (out @ ?bs) ?m (a + ?n) (len - ?n) (act + ?n) =
        (act + ?n + (len - ?n), (out @ ?bs) @ map (mem_byte ?m) [unat (a + ?n)..<unat (a + ?n) + unat (len - ?n)], m')"
      "mem_byte m' = mem_byte ?m" "g_drivers m' = g_drivers ?m" "g_memory_size m' = g_memory_size ?m"
      using less.hyps [OF block_len_bounds(3) [OF False] pre, of "out @ ?bs" "act + ?n"] by blast
    have split: "[unat a..<unat a + unat len] = [unat a..<unat a + unat ?n] @ [unat a + unat ?n..<unat a + unat len]"
      using st(2) upt_add_eq_append [of "unat a" "unat a + unat ?n" "unat len - unat ?n"] by simp
    have room: "unat ?n \<le> room" using st(2) less.prems(2) by simp
    have "sim_writefile room out m a len act = (act + len, out @ map (mem_byte m) [unat a..<unat a + unat len], m')"
      using m'(1) room st(2)
      by (subst sim_writefile.simps) (simp add: False Let_def sim_ptr_block [OF st(1)] bs split st(3,4))
    then show ?thesis using m'(2-4) by simp
  qed
qed

section \<open>Blocks\<close>

text \<open>The four stores of a program that uses a disk, the command last.\<close>

definition disk_store :: "devs \<Rightarrow> io_fn \<Rightarrow> nat \<Rightarrow> u32 \<Rightarrow> u32 \<Rightarrow> mach \<Rightarrow> (int \<times> mach) option" where
  "disk_store dv io n o' v m = disk_operation dv io n o' (PReg 2) WORD ST (set_reg 2 v m)"

definition disk_request :: "devs \<Rightarrow> io_fn \<Rightarrow> nat \<Rightarrow> u32 \<Rightarrow> u32 \<Rightarrow> u32 \<Rightarrow> u32 \<Rightarrow> mach \<Rightarrow> (int \<times> mach) option" where
  "disk_request dv io n pa blk cnt cmd m =
     do {
       (_, m) \<leftarrow> disk_store dv io n 0 pa m;
       (_, m) \<leftarrow> disk_store dv io n 4 blk m;
       (_, m) \<leftarrow> disk_store dv io n 8 cnt m;
       disk_store dv io n 12 cmd m
     }"

definition request_set :: "u32 \<Rightarrow> u32 \<Rightarrow> u32 \<Rightarrow> u32 \<Rightarrow> disk_regs" where
  "request_set pa blk cnt cmd =
     \<lparr>dk_physical_address = pa, dk_block = blk, dk_count = cnt, dk_command = cmd, dk_open = True\<rparr>"

lemma disk_frame [simp]:
  "mem_byte (set_disk n f m) = mem_byte m" "g_memory_size (set_disk n f m) = g_memory_size m"
  "dr_files (g_drivers (set_disk n f m)) = dr_files (g_drivers m)" "disk (set_disk n f m) n = f (disk m n)"
  "g_regs (set_disk n f m) = g_regs m"
  "mem_byte (set_reg k v m) = mem_byte m" "g_memory_size (set_reg k v m) = g_memory_size m"
  "g_drivers (set_reg k v m) = g_drivers m" "g_regs (set_reg k v m) k = v"
  by (simp_all add: set_disk_def set_drivers_def set_reg_def mem_byte_def get_page_def fun_eq_iff)

lemma disk_request_command:
  assumes "dk_open (disk m n)" and "dr_files (g_drivers m) n = Some fl"
  shows "\<exists>m'. disk_request dv io n pa blk cnt cmd m = do_disk_command dv io n m' \<and>
    disk m' n = request_set pa blk cnt cmd \<and> mem_byte m' = mem_byte m \<and>
    g_memory_size m' = g_memory_size m \<and> dr_files (g_drivers m') = dr_files (g_drivers m)"
  using assms
  by (cases "disk m n"; cases "blk = 0")
    (simp_all add: disk_request_def disk_store_def disk_operation_def open_disk_def request_set_def Let_def,
      (intro exI conjI, rule refl, simp_all)+)

lemma drop_file_write: "take (length bs) (drop off (file_write off bs fl)) = bs"
  by (cases "off \<le> length fl") (simp_all add: file_write_def)

lemma length_file_write: "bs \<noteq> [] \<Longrightarrow> off + length bs \<le> length (file_write off bs fl)"
  by (simp add: file_write_def)

lemma not_negative: "unat w < 2 ^ 31 \<Longrightarrow> \<not> w <s 0" for w :: u32
proof -
  assume "unat w < 2 ^ 31"
  then have small: "uint w < 2 ^ 31" unfolding uint_nat by (metis of_nat_less_iff of_nat_numeral of_nat_power)
  have "- (2 ^ 31) \<le> uint w" by (rule order_trans [OF _ uint_ge_0]) simp
  then have "signed_take_bit 31 (uint w) = uint w" using small by (rule signed_take_bit_int_eq_self)
  then have "sint w = uint w" by (simp add: sint_uint)
  then show ?thesis using uint_ge_0 [of w] by (simp add: word_sless_alt)
qed

text \<open>
  Property C17.  Blocks on a disk.  A program that has blocks of its memory written to a disk and then reads
  these blocks to another place gets them there byte for byte; memory outside of that place
  and the rest of the file are not changed.
\<close>

theorem disk_blocks_roundtrip:
  assumes "dk_open (disk m n)" and "dr_files (g_drivers m) n = Some fl"
    and "unat blk * 512 < 2 ^ 31" and "len = unat cnt * 512" and "len \<le> dv_room dv"
    and "unat src + len \<le> unat (g_memory_size m)" and "unat dst + len \<le> unat (g_memory_size m)"
    and "data = map (mem_byte m) [unat src..<unat src + len]"
  shows "\<exists>m1 m2. disk_request dv io n src blk cnt 2 m = Some (E_NONE, m1) \<and>
    disk_request dv io n dst blk cnt 1 m1 = Some (E_NONE, m2) \<and> mem_byte m2 = stored (unat dst) data (mem_byte m) \<and>
    dr_files (g_drivers m2) n = Some (file_write (unat blk * 512) data fl)"
proof -
  have "len < 2 ^ 32" using assms(6) unat_u32 [of "g_memory_size m"] by linarith
  then have cnt: "unat (cnt * SD_BLKSIZE) = len" using assms(4) by (simp add: SD_BLKSIZE_def unat_word_ariths)
  have off: "unat (blk * SD_BLKSIZE) = unat blk * 512" using assms(3) by (simp add: SD_BLKSIZE_def unat_word_ariths)
  then have "unat (blk * SD_BLKSIZE) < 2 ^ 31" using assms(3) by (simp only:)
  then have pos: "\<not> blk * SD_BLKSIZE <s 0"
    by (rule not_negative)
  let ?fl = "file_write (unat blk * 512) data fl"
  have data: "length data = len" using assms(8) by simp
  obtain m0 where 0: "disk_request dv io n src blk cnt 2 m = do_disk_command dv io n m0" "disk m0 n = request_set src blk cnt 2"
    "mem_byte m0 = mem_byte m" "g_memory_size m0 = g_memory_size m" "dr_files (g_drivers m0) = dr_files (g_drivers m)"
    using disk_request_command [OF assms(1,2)] by blast
  obtain m1 where 1: "sim_writefile (dv_room dv) [] m0 src (cnt * SD_BLKSIZE) 0 = (cnt * SD_BLKSIZE, data, m1)"
    "mem_byte m1 = mem_byte m" "g_drivers m1 = g_drivers m0" "g_memory_size m1 = g_memory_size m"
    using writefile_ram [of src "cnt * SD_BLKSIZE" m0 "dv_room dv" "[]" 0] assms(5,6,8) 0(3,4) by (auto simp: cnt)
  let ?m1 = "set_file n ?fl m1"
  have step1: "disk_request dv io n src blk cnt 2 m = Some (E_NONE, ?m1)"
    using 0 1 assms(2) pos by (simp add: do_disk_command_def request_set_def off)
  have file1: "dk_open (disk ?m1 n)" "dr_files (g_drivers ?m1) n = Some ?fl" "mem_byte ?m1 = mem_byte m" "g_memory_size ?m1 = g_memory_size m"
    using 0(2) 1 by (simp_all add: set_file_def set_drivers_def request_set_def mem_byte_def get_page_def fun_eq_iff)
  obtain m2 where 2: "disk_request dv io n dst blk cnt 1 ?m1 = do_disk_command dv io n m2" "disk m2 n = request_set dst blk cnt 1"
    "mem_byte m2 = mem_byte m" "g_memory_size m2 = g_memory_size m" "dr_files (g_drivers m2) = dr_files (g_drivers ?m1)"
    using disk_request_command [OF file1(1,2), of dv io dst blk cnt 1] file1(3,4) by auto
  have fits: "len \<le> length (drop (unat blk * 512) ?fl)"
    using length_file_write [of data "unat blk * 512" fl] data by (cases "data = []") auto
  obtain m3 rest where 3: "sim_readfile io (dv_junk dv) (drop (unat blk * 512) ?fl) m2 dst (cnt * SD_BLKSIZE) 0 =
      Some (cnt * SD_BLKSIZE, rest, m3)" "mem_byte m3 = stored (unat dst) data (mem_byte m)" "g_drivers m3 = g_drivers m2"
    using readfile_ram [of dst "cnt * SD_BLKSIZE" m2 "drop (unat blk * 512) ?fl" io "dv_junk dv" 0] fits assms(7) 2(3,4)
      drop_file_write [of data "unat blk * 512" fl] data by (auto simp: cnt)
  have "disk_request dv io n dst blk cnt 1 ?m1 = Some (E_NONE, m3)"
    using 2 3(1) file1(2) pos by (simp add: do_disk_command_def request_set_def off)
  then show ?thesis using step1 3(2,3) 2(5) file1(2) by auto
qed

definition demo_disk :: mach where
  "demo_disk = set_disk 0 (\<lambda>p. p\<lparr>dk_open := True\<rparr>) (set_file 0 [] (cleared_mach\<lparr>g_memory_size := 0x10000\<rparr>))"

theorem disk_blocks_roundtrip_witness:
  "\<exists>m1 m2. disk_request (idle_devs\<lparr>dv_room := 1000\<rparr>) (\<lambda>_ _ _ _ _ _. None) 0 0x1000 1 1 2 demo_disk = Some (E_NONE, m1) \<and>
    disk_request (idle_devs\<lparr>dv_room := 1000\<rparr>) (\<lambda>_ _ _ _ _ _. None) 0 0x2000 1 1 1 m1 = Some (E_NONE, m2) \<and>
    mem_byte m2 0x2003 = mem_byte demo_disk 0x1003 \<and> length (the (dr_files (g_drivers m2) 0)) = 1024"
proof -
  let ?data = "map (mem_byte demo_disk) [unat (0x1000 :: u32)..<unat (0x1000 :: u32) + 512]"
  have "\<exists>m1 m2. disk_request (idle_devs\<lparr>dv_room := 1000\<rparr>) (\<lambda>_ _ _ _ _ _. None) 0 0x1000 1 1 2 demo_disk = Some (E_NONE, m1) \<and>
    disk_request (idle_devs\<lparr>dv_room := 1000\<rparr>) (\<lambda>_ _ _ _ _ _. None) 0 0x2000 1 1 1 m1 = Some (E_NONE, m2) \<and>
    mem_byte m2 = stored (unat (0x2000 :: u32)) ?data (mem_byte demo_disk) \<and>
    dr_files (g_drivers m2) 0 = Some (file_write (unat (1 :: u32) * 512) ?data [])"
  proof (rule disk_blocks_roundtrip [where len = 512 and data = ?data])
    show "dk_open (disk demo_disk 0)" "dr_files (g_drivers demo_disk) 0 = Some []"
      "unat (0x1000 :: u32) + 512 \<le> unat (g_memory_size demo_disk)" "unat (0x2000 :: u32) + 512 \<le> unat (g_memory_size demo_disk)"
      by (simp_all add: demo_disk_def set_file_def set_drivers_def)
  qed simp_all
  moreover have "length ?data = 512" "?data ! 3 = mem_byte demo_disk 0x1003" by (simp_all del: upt_rec_numeral)
  moreover define data where "data = ?data"
  ultimately show ?thesis unfolding data_def [symmetric] by (auto simp: stored_def file_write_def)
qed

end
