(* ===== verification/Rem_Codec.thy ===== *)
theory Rem_Codec
  imports G88_Prelude
begin

text \<open>
  The encoding of the serial line between the debugger and the monitor on the target (\<open>remote.c\<close>,
  \<open>hmon/mon.c\<close>, \<open>compress.h\<close>, which both sides include): constants, the compression table, how words,
  shorts and bytes become characters, and the running checksum.

  The two programs contain the same encoder twice; the parts of it that do not touch the state of
  either side are here.  A \<^emph>\<open>token\<close> is the sequence of one or two characters that stands for one, two or
  four bytes.

  Runs of both programs can end before they return: \<open>mbind\<close> sequences steps whose result is
  \<open>Inr\<close>, and the first \<open>Inl\<close> is the result of the whole.
\<close>

definition mbind :: "'e + 'a \<Rightarrow> ('a \<Rightarrow> 'e + 'b) \<Rightarrow> 'e + 'b" where
  "mbind x f = (case x of Inl e \<Rightarrow> Inl e | Inr a \<Rightarrow> f a)"

lemma mbind_cong [fundef_cong]: "x = y \<Longrightarrow> (\<And>a. y = Inr a \<Longrightarrow> f a = g a) \<Longrightarrow> mbind x f = mbind y g"
  by (cases y) (simp_all add: mbind_def)

lemma mbind_simps [simp]: "mbind (Inr a) f = f a" "mbind (Inl e) f = Inl e"
  by (simp_all add: mbind_def)

type_synonym u16 = "16 word"

section \<open>Constants\<close>

abbreviation (input) COMMAND_PREFIX1 :: u8 where "COMMAND_PREFIX1 \<equiv> 0x83"
abbreviation (input) COMMAND_PREFIX2 :: u8 where "COMMAND_PREFIX2 \<equiv> 0x84"
abbreviation (input) VSTART :: u8 where "VSTART \<equiv> 0x81"
abbreviation (input) VSTOP :: u8 where "VSTOP \<equiv> 0x82"

abbreviation (input) C_DOWNLOAD :: u8 where "C_DOWNLOAD \<equiv> 0x91"
abbreviation (input) C_UPLOAD :: u8 where "C_UPLOAD \<equiv> 0x92"
abbreviation (input) C_CHECKSUM :: u8 where "C_CHECKSUM \<equiv> 0x93"
abbreviation (input) C_END :: u8 where "C_END \<equiv> 0x94"
abbreviation (input) C_GO :: u8 where "C_GO \<equiv> 0x95"
abbreviation (input) C_DATASTART :: u8 where "C_DATASTART \<equiv> 0x96"
abbreviation (input) C_CHECKSUMERR :: u8 where "C_CHECKSUMERR \<equiv> 0x97"
abbreviation (input) C_ACK :: u8 where "C_ACK \<equiv> 0x98"
abbreviation (input) C_DATAEND :: u8 where "C_DATAEND \<equiv> 0x99"
abbreviation (input) C_FILL :: u8 where "C_FILL \<equiv> 0x9a"
abbreviation (input) C_RETPTRS :: u8 where "C_RETPTRS \<equiv> 0x9b"
abbreviation (input) C_EXCEPTION :: u8 where "C_EXCEPTION \<equiv> 0x9c"
abbreviation (input) C_SYNC :: u8 where "C_SYNC \<equiv> 0x9f"
abbreviation (input) C_DATAERROR :: u8 where "C_DATAERROR \<equiv> 0xa0"
abbreviation (input) C_UPLOADNOINIT :: u8 where "C_UPLOADNOINIT \<equiv> 0xa1"
abbreviation (input) C_CHECKSUMNOINIT :: u8 where "C_CHECKSUMNOINIT \<equiv> 0xa2"
abbreviation (input) C_SEARCH :: u8 where "C_SEARCH \<equiv> 0xa3"
abbreviation (input) C_COPYMEM :: u8 where "C_COPYMEM \<equiv> 0xa4"
abbreviation (input) C_UPLOADUSER :: u8 where "C_UPLOADUSER \<equiv> 0xa5"
abbreviation (input) C_UPLOADNOINITUSER :: u8 where "C_UPLOADNOINITUSER \<equiv> 0xa6"
abbreviation (input) C_DOWNLOADUSER :: u8 where "C_DOWNLOADUSER \<equiv> 0xa7"
abbreviation (input) C_EXPECTEDTOKEN :: u8 where "C_EXPECTEDTOKEN \<equiv> 0xa8"
abbreviation (input) C_COMMERR :: u8 where "C_COMMERR \<equiv> 0xa9"
abbreviation (input) C_COMPRESSERR :: u8 where "C_COMPRESSERR \<equiv> 0xaa"
abbreviation (input) C_BADCOMMAND :: u8 where "C_BADCOMMAND \<equiv> 0xab"
abbreviation (input) C_188SYSCALL :: u8 where "C_188SYSCALL \<equiv> 0xac"

section \<open>The compression table\<close>

text \<open>
  Pattern and length of the 256 entries.  The entries 129 to 132 are avoided: these characters control
  the flow or begin commands and quoted bytes.
\<close>

definition compress_table :: "(u32 \<times> nat) list" where
  "compress_table =
    [(0xf000d9ff, 4), (0x0, 4), (0x5da00100, 4), (0x5da00000, 4), (0x5da00008, 4), (0xf400c001, 4),
     (0xf4405819, 4), (0xc0000001, 4), (0xf5427d00, 4), (0x2d4d0209, 4), (0x5c400008, 4),
     (0xf4405818, 4), (0x80018241, 4), (0xc0000002, 4), (0xf5497d00, 4), (0xf4405817, 4),
     (0x58400000, 4), (0x5c600008, 4), (0xf7205802, 4), (0xd84a0003, 4), (0x0, 2), (0xc000, 2),
     (0x4, 2), (0x8, 2), (0x1, 2), (0xcbff, 2), (0xc, 2), (0x7d00, 2), (0xd86a, 2), (0x2, 2),
     (0x10, 2), (0xc800, 2), (0xd84a, 2), (0x14, 2), (0x5940, 2), (0x3, 2), (0x5, 2), (0x18, 2),
     (0x6, 2), (0xcbfe, 2), (0xf460, 2), (0x20, 2), (0x5842, 2), (0x5802, 2), (0x1c, 2), (0x24, 2),
     (0x67ff, 2), (0x5880, 2), (0x63ff, 2), (0x243f, 2), (0x143f, 2), (0x273f, 2), (0x173f, 2),
     (0xf440, 2), (0x7, 2), (0x5860, 2), (0xe, 2), (0x271f, 2), (0x171f, 2), (0x5816, 2),
     (0xf129, 2), (0xa, 2), (0x5818, 2), (0x152d, 2), (0x5817, 2), (0x28, 2), (0xf400, 2),
     (0xf, 2), (0x5863, 2), (0x5819, 2), (0x9, 2), (0xd88a, 2), (0xf548, 2), (0xf480, 2),
     (0x26ff, 2), (0x6059, 2), (0x9a00, 2), (0x16ff, 2), (0x5840, 2), (0xf700, 2), (0xd8aa, 2),
     (0x2c, 2), (0x150d, 2), (0xf547, 2), (0x9200, 2), (0x144d, 2), (0xb, 2), (0x5929, 2),
     (0x7d49, 2), (0x34, 2), (0x148d, 2), (0x38, 2), (0x5803, 2), (0x100, 2), (0x48, 2), (0x30, 2),
     (0x1539, 2), (0xf520, 2), (0xf544, 2), (0xf6e0, 2), (0x40, 2), (0xf546, 2), (0xf545, 2),
     (0x26df, 2), (0x16df, 2), (0x16, 2), (0xd, 2), (0x1459, 2), (0x214, 2), (0x5908, 2),
     (0x14cd, 2), (0xf4a0, 2), (0x5815, 2), (0x5d20, 2), (0xa00, 2), (0x6079, 2), (0x14ed, 2),
     (0xcc00, 2), (0xd8ea, 2), (0x7265, 2), (0x0, 1), (0x20, 1), (0x14, 1), (0xf5, 1), (0x58, 1),
     (0x2, 1), (0x60, 1), (0x64, 1), (0x24, 1), (0x0, 129), (0x0, 130), (0x0, 131), (0x0, 132),
     (0x8, 1), (0xff, 1), (0x9, 1), (0x18, 1), (0x7d, 1), (0x25, 1), (0x65, 1), (0x63, 1),
     (0x28, 1), (0x15, 1), (0x19, 1), (0xf4, 1), (0x80, 1), (0xf0, 1), (0x73, 1), (0x61, 1),
     (0x1, 1), (0x29, 1), (0x74, 1), (0x16, 1), (0xa0, 1), (0x40, 1), (0x69, 1), (0x4, 1),
     (0x72, 1), (0x6c, 1), (0x6d, 1), (0x2d, 1), (0x59, 1), (0x70, 1), (0x26, 1), (0xc0, 1),
     (0x78, 1), (0x17, 1), (0x6f, 1), (0x5f, 1), (0x6e, 1), (0x49, 1), (0xa, 1), (0x2c, 1),
     (0x79, 1), (0x3, 1), (0xc, 1), (0x5c, 1), (0xd8, 1), (0xd0, 1), (0x39, 1), (0x1c, 1),
     (0xf1, 1), (0xd9, 1), (0xf6, 1), (0x42, 1), (0x98, 1), (0xd, 1), (0x7, 1), (0x90, 1),
     (0x84, 1), (0x62, 1), (0x5, 1), (0x43, 1), (0x75, 1), (0x6, 1), (0x3e, 1), (0x99, 1),
     (0xf7, 1), (0x38, 1), (0xf9, 1), (0x67, 1), (0xe7, 1), (0x48, 1), (0x7f, 1), (0xe8, 1),
     (0x44, 1), (0x1f, 1), (0xe0, 1), (0xc6, 1), (0xa5, 1), (0x66, 1), (0x22, 1), (0xbf, 1),
     (0xf8, 1), (0x2e, 1), (0x27, 1), (0xad, 1), (0xb9, 1), (0x57, 1), (0x41, 1), (0x3d, 1),
     (0x4a, 1), (0x5d, 1), (0x4d, 1), (0x68, 1), (0x5b, 1), (0x9f, 1), (0x2a, 1), (0x56, 1),
     (0x21, 1), (0x36, 1), (0xc4, 1), (0x30, 1), (0x3a, 1), (0xc8, 1), (0x5a, 1), (0x4c, 1),
     (0x88, 1), (0x55, 1), (0x1a, 1), (0x50, 1), (0x13, 1), (0x54, 1), (0x76, 1), (0x1d, 1),
     (0x3f, 1), (0x45, 1), (0xb8, 1), (0x77, 1), (0xca, 1), (0x6b, 1), (0x12, 1), (0x3c, 1),
     (0xa4, 1), (0x10, 1), (0xed, 1)]"

abbreviation (input) SHORT_OFFSET :: nat where "SHORT_OFFSET \<equiv> 20"
abbreviation (input) BYTE_OFFSET :: nat where "BYTE_OFFSET \<equiv> 120"

text \<open>The search loops of \<open>send_word\<close> and \<open>send_short\<close>, and the one of \<open>send_byte\<close>; \<open>i\<close> is the index of \<open>ct\<close>.\<close>

fun table_search :: "nat \<Rightarrow> u32 \<Rightarrow> nat \<Rightarrow> (u32 \<times> nat) list \<Rightarrow> nat option" where
  "table_search len v i [] = None"
| "table_search len v i ((pat, l) # ct) =
     (if l = len \<or> l = 0 then
        if pat = v \<and> l = len then Some i else table_search len v (Suc i) ct
      else None)"

fun byte_search :: "u32 \<Rightarrow> nat \<Rightarrow> (u32 \<times> nat) list \<Rightarrow> nat option" where
  "byte_search v i [] = None"
| "byte_search v i ((pat, l) # ct) = (if pat = v \<and> l = 1 then Some i else byte_search v (Suc i) ct)"

definition word_code :: "u32 \<Rightarrow> nat option" where
  "word_code w = table_search 4 w 0 compress_table"

definition short_code :: "u16 \<Rightarrow> nat option" where
  "short_code s = table_search 2 (ucast s) SHORT_OFFSET (drop SHORT_OFFSET compress_table)"

definition byte_code :: "u8 \<Rightarrow> nat option" where
  "byte_code b = byte_search (ucast b) BYTE_OFFSET (drop BYTE_OFFSET compress_table)"

section \<open>The checksum\<close>

definition add_to_checksum :: "u32 \<Rightarrow> u32 \<Rightarrow> u32" where
  "add_to_checksum cs b =
     (let cs = cs + b; msb = drop_bit 31 cs in push_bit 1 cs OR msb)"

text \<open>The checksum of a sequence of characters.\<close>

definition checksum_of :: "u8 list \<Rightarrow> u32 \<Rightarrow> u32" where
  "checksum_of cs s = fold (\<lambda>c s. add_to_checksum s (ucast c)) cs s"

lemma bit_rotate_left: "bit (push_bit 1 x OR drop_bit 31 x) n \<longleftrightarrow> n < 32 \<and> bit x (if n = 0 then 31 else n - 1)" for x :: u32
  unfolding bit_or_iff bit_push_bit_iff bit_drop_bit_eq o_def
  by (cases n) (auto dest: bit_imp_le_length)

lemma bit_add_to_checksum:
  "bit (add_to_checksum cs b) n \<longleftrightarrow> n < 32 \<and> bit (cs + b) (if n = 0 then 31 else n - 1)"
  unfolding add_to_checksum_def Let_def by (rule bit_rotate_left)

lemma ucast_u8_eq [simp]: "(ucast b :: u32) = ucast b' \<longleftrightarrow> b = b'" for b b' :: u8
proof
  assume "(ucast b :: u32) = ucast b'"
  then have "unat (ucast b :: u32) = unat (ucast b' :: u32)" by (rule arg_cong)
  moreover have "unat (ucast c :: u32) = unat c" for c :: u8
  proof -
    have "unat c < 256" using unsigned_less [of c] by simp
    then show ?thesis by (simp add: unsigned_ucast_eq take_bit_nat_eq_self)
  qed
  ultimately show "b = b'" by (simp add: word_unat_eq_iff)
qed simp

lemma add_to_checksum_inj: "add_to_checksum cs b = add_to_checksum cs' b' \<longleftrightarrow> cs + b = cs' + b'"
proof
  assume e: "add_to_checksum cs b = add_to_checksum cs' b'"
  show "cs + b = cs' + b'"
  proof (rule bit_word_eqI)
    fix n :: nat
    assume "n < LENGTH(32)"
    then show "bit (cs + b) n = bit (cs' + b') n"
      using e bit_add_to_checksum [of cs b "if n = 31 then 0 else Suc n"]
        bit_add_to_checksum [of cs' b' "if n = 31 then 0 else Suc n"]
      by (auto split: if_splits)
  qed
qed (simp add: add_to_checksum_def)

lemma checksum_of_simps [simp]:
  "checksum_of [] s = s" "checksum_of (c # cs) s = checksum_of cs (add_to_checksum s (ucast c))"
  "checksum_of (us @ vs) s = checksum_of vs (checksum_of us s)"
  by (simp_all add: checksum_of_def)

lemma checksum_of_inj: "checksum_of cs s = checksum_of cs s' \<longleftrightarrow> s = s'"
  by (induction cs arbitrary: s s') (simp_all add: add_to_checksum_inj)

text \<open>A single wrong character changes the checksum.\<close>

lemma checksum_of_other: "checksum_of (us @ c # vs) s = checksum_of (us @ c' # vs) s \<longleftrightarrow> c = c'"
  by (auto simp: checksum_of_inj add_to_checksum_inj)

section \<open>What is sent\<close>

text \<open>The characters that stand for a byte, a short and a word.\<close>

definition enc_byte :: "u8 \<Rightarrow> u8 list" where
  "enc_byte b =
     (case byte_code b of
        Some i \<Rightarrow> [of_nat i]
      | None \<Rightarrow> [if b AND 0x80 \<noteq> 0 then COMMAND_PREFIX2 else COMMAND_PREFIX1, b AND 0x7f])"

definition enc_short :: "u16 \<Rightarrow> u8 list" where
  "enc_short s =
     (case short_code s of
        Some i \<Rightarrow> [of_nat i]
      | None \<Rightarrow> enc_byte (ucast (drop_bit 8 s)) @ enc_byte (ucast s))"

definition enc_word :: "u32 \<Rightarrow> u8 list" where
  "enc_word w =
     (case word_code w of
        Some i \<Rightarrow> [of_nat i]
      | None \<Rightarrow> enc_short (ucast (drop_bit 16 w)) @ enc_short (ucast w))"

section \<open>Tokens\<close>

definition short_bytes :: "u16 \<Rightarrow> u8 list" where
  "short_bytes s = [ucast (drop_bit 8 s), ucast s]"

definition word_bytes :: "u32 \<Rightarrow> u8 list" where
  "word_bytes w = [ucast (drop_bit 24 w), ucast (drop_bit 16 w), ucast (drop_bit 8 w), ucast w]"

text \<open>The bytes a token stands for, in the order in which the receiver returns them.\<close>

fun tok_bytes :: "u8 list \<Rightarrow> u8 list option" where
  "tok_bytes [c] =
     (case compress_table ! unat c of (p, l) \<Rightarrow>
        if l = 1 then Some [ucast p]
        else if l = 2 then Some [ucast (drop_bit 8 p), ucast p]
        else if l = 4 then Some (word_bytes p) else None)"
| "tok_bytes [c, b] =
     (if c = COMMAND_PREFIX1 \<and> b < 0x80 then Some [b]
      else if c = COMMAND_PREFIX2 \<and> b < 0x80 then Some [b + 0x80] else None)"
| "tok_bytes _ = None"

text \<open>\<open>encodes cs bs\<close>: the characters \<open>cs\<close> are a sequence of tokens for the bytes \<open>bs\<close>.\<close>

inductive encodes :: "u8 list \<Rightarrow> u8 list \<Rightarrow> bool" where
  encodes_Nil: "encodes [] []"
| encodes_tok: "tok_bytes t = Some bs \<Longrightarrow> encodes cs bs' \<Longrightarrow> encodes (t @ cs) (bs @ bs')"

lemma encodes_append: "encodes us bs \<Longrightarrow> encodes vs bs' \<Longrightarrow> encodes (us @ vs) (bs @ bs')"
  by (induction rule: encodes.induct) (auto intro: encodes.intros)

lemma encodes_single: "tok_bytes t = Some bs \<Longrightarrow> encodes t bs"
  using encodes_tok [OF _ encodes_Nil] by fastforce

lemma table_search_Some:
  "table_search len v i ct = Some k \<Longrightarrow> i \<le> k \<and> k < i + length ct \<and> ct ! (k - i) = (v, len)"
proof (induction len v i ct rule: table_search.induct)
  case (2 len v i pat l ct)
  then show ?case by (auto split: if_splits simp: nth_Cons' Suc_diff_le)
qed simp

lemma byte_search_Some:
  "byte_search v i ct = Some k \<Longrightarrow> i \<le> k \<and> k < i + length ct \<and> ct ! (k - i) = (v, 1)"
proof (induction v i ct rule: byte_search.induct)
  case (2 v i pat l ct)
  then show ?case by (auto split: if_splits simp: nth_Cons' Suc_diff_le)
qed simp

lemma length_compress_table: "length compress_table = 256"
  by (simp add: compress_table_def)

lemma code_entry:
  "word_code w = Some k \<Longrightarrow> k < 256 \<and> compress_table ! k = (w, 4)"
  "short_code s = Some k \<Longrightarrow> k < 256 \<and> compress_table ! k = (ucast s, 2)"
  "byte_code b = Some k \<Longrightarrow> k < 256 \<and> compress_table ! k = (ucast b, 1)"
  using table_search_Some [of 4 w 0 compress_table k]
    table_search_Some [of 2 "ucast s" SHORT_OFFSET "drop SHORT_OFFSET compress_table" k]
    byte_search_Some [of "ucast b" BYTE_OFFSET "drop BYTE_OFFSET compress_table" k]
  by (auto simp: word_code_def short_code_def byte_code_def length_compress_table nth_drop)

lemma unat_code: "k < 256 \<Longrightarrow> unat (of_nat k :: u8) = k"
  by (simp add: unat_of_nat)

lemma byte_msb: "b AND 0x80 \<noteq> 0 \<longleftrightarrow> \<not> b < 0x80" for b :: u8
proof -
  have "b AND 0x80 \<noteq> 0 \<longleftrightarrow> bit b 7"
    using and_exp_eq_0_iff_not_bit [of b 7] by simp
  also have "bit b 7 \<longleftrightarrow> odd (unat b div 128)"
    using bit_unsigned_iff [of b 7, where ?'a = nat] by (simp add: bit_iff_odd [of "unat b"])
  also have "\<dots> \<longleftrightarrow> \<not> b < 0x80"
  proof (cases "unat b < 128")
    case False
    moreover have "unat b < 256" using unsigned_less [of b] by simp
    ultimately have "unat b div 128 = 1" by simp
    with False show ?thesis by (simp add: word_less_nat_alt)
  qed (simp add: word_less_nat_alt)
  finally show ?thesis .
qed

lemma quoted_value: "b AND 0x7f < 0x80" "b AND 0x80 \<noteq> 0 \<Longrightarrow> (b AND 0x7f) + 0x80 = b" "b AND 0x80 = 0 \<Longrightarrow> b AND 0x7f = b"
  for b :: u8
proof -
  have m: "b AND 0x7f = take_bit 7 b" by (simp add: take_bit_eq_mask mask_eq_exp_minus_1)
  have "unat (take_bit 7 b) < 128" using take_bit_nat_less_exp [of 7 "unat b"] by (simp add: unsigned_take_bit_eq)
  then show "b AND 0x7f < 0x80" by (simp add: m word_less_nat_alt)
  have bit7: "b AND 0x80 \<noteq> 0 \<longleftrightarrow> bit b 7" using and_exp_eq_0_iff_not_bit [of b 7] by simp
  show "b AND 0x7f = b" if "b AND 0x80 = 0"
    unfolding m using that bit7
    by (intro bit_word_eqI) (auto simp: bit_take_bit_iff less_Suc_eq numeral_eq_Suc)
  show "(b AND 0x7f) + 0x80 = b" if "b AND 0x80 \<noteq> 0"
  proof -
    have h: "bit (0x80 :: u8) n \<longleftrightarrow> n = 7" for n
      using bit_exp_iff [where ?'a = u8, of 7 n] by auto
    have "b = take_bit 7 b OR 0x80"
      using that bit7 by (intro bit_word_eqI) (auto simp: bit_take_bit_iff bit_or_iff h less_Suc_eq numeral_eq_Suc)
    moreover have "take_bit 7 b + 0x80 = take_bit 7 b OR 0x80"
      by (rule disjunctive_add) (use h in \<open>auto simp: bit_take_bit_iff\<close>)
    ultimately show ?thesis by (simp add: m)
  qed
qed

lemma ucast_code [simp]: "ucast (ucast b :: u32) = b" "ucast (ucast s :: u32) = s"
    "(ucast (drop_bit 8 (ucast s :: u32)) :: u8) = ucast (drop_bit 8 s)" "(ucast (ucast s :: u32) :: u8) = ucast s"
  for b :: u8 and s :: u16
  by (rule bit_word_eqI, auto simp: bit_simps)+

lemma encodes_byte: "encodes (enc_byte b) [b]"
proof (cases "byte_code b")
  case None
  show ?thesis
    by (rule encodes_single) (use quoted_value [of b] in \<open>simp add: enc_byte_def None\<close>)
next
  case (Some k)
  with code_entry(3) [OF this] show ?thesis
    by (intro encodes_single) (simp add: enc_byte_def unat_code)
qed

lemma encodes_short: "encodes (enc_short s) (short_bytes s)"
proof (cases "short_code s")
  case None
  then show ?thesis
    using encodes_append [OF encodes_byte encodes_byte, of "ucast (drop_bit 8 s)" "ucast s"]
    by (simp add: enc_short_def short_bytes_def)
next
  case (Some k)
  with code_entry(2) [OF this] show ?thesis
    by (intro encodes_single) (simp add: enc_short_def short_bytes_def unat_code)
qed

lemma word_bytes_shorts: "word_bytes w = short_bytes (ucast (drop_bit 16 w)) @ short_bytes (ucast w)"
  by (simp add: word_bytes_def short_bytes_def) (intro conjI; rule bit_word_eqI; auto simp: bit_simps)

lemma encodes_word: "encodes (enc_word w) (word_bytes w)"
proof (cases "word_code w")
  case None
  then show ?thesis
    using encodes_append [OF encodes_short encodes_short, of "ucast (drop_bit 16 w)" "ucast w"]
    by (simp add: enc_word_def word_bytes_shorts)
next
  case (Some k)
  with code_entry(1) [OF this] show ?thesis
    by (intro encodes_single) (simp add: enc_word_def unat_code)
qed

end
