(* ===== verification/Rem_Host.thy ===== *)
theory Rem_Host
  imports Rem_Codec
begin

text \<open>
  The debugger's end of the serial line (\<open>remote.c\<close>), its access to the memory of a target that is not
  the simulator, with the cache of memory lines (\<open>remmem.c\<close>), and the commands that work on blocks of
  memory (\<open>remcmd.c\<close>).

  The other end is a parameter: \<open>target\<close> takes the state of the target and the characters that were
  sent, and gives the characters that come back.  It runs when the debugger reads and has no input,
  which is when the program flushes its output buffer; the earlier flush of a full buffer makes no
  difference to what the target receives.  The target is stopped in its monitor during all these
  operations.  Statistics, trace buffers and messages are not modelled; neither are the arguments of
  error packets, which are only printed.
\<close>

section \<open>The state\<close>

text \<open>\<open>struct mem_cache\<close>.\<close>

record mem_cache =
  mc_usmode :: nat
  mc_addr :: u32
  mc_values :: "nat \<Rightarrow> u8"

record 't link =
  l_checksum :: u32
  l_checksumming :: bool
  l_partial :: u32
  l_partial_length :: nat
  l_output :: "u8 list"             \<comment> \<open>sent and not yet taken by the target\<close>
  l_input :: "u8 list"              \<comment> \<open>received and not yet read\<close>
  l_target :: 't
  l_remote_errno :: bool
  l_mem_cache :: "mem_cache list"
  l_selected_processor :: nat
  l_register_area :: "nat \<Rightarrow> u32"   \<comment> \<open>\<open>mon_register_area_addr\<close>\<close>
  l_ignore_errors :: bool
  l_vars :: "string \<Rightarrow> u32"
  l_big_endian :: bool              \<comment> \<open>the byte order of the debugger's host\<close>

datatype link_stop =
    Rerr       \<comment> \<open>\<open>rerr\<close>: the command is given up\<close>
  | Hangs      \<comment> \<open>the target does not answer\<close>
  | Undefined  \<comment> \<open>an access outside an array\<close>

type_synonym 't target = "'t \<Rightarrow> u8 list \<Rightarrow> u8 list \<times> 't"
type_synonym ('a, 't) lres = "(link_stop \<times> 't link) + ('a \<times> 't link)"

abbreviation (input) CACHELINESIZE :: nat where "CACHELINESIZE \<equiv> 128"
abbreviation (input) CACHELINEMASK :: u32 where "CACHELINEMASK \<equiv> 127"
abbreviation (input) US_USER :: nat where "US_USER \<equiv> 0"
abbreviation (input) US_SUPERVISOR :: nat where "US_SUPERVISOR \<equiv> 1"
abbreviation (input) US_CURMODE :: nat where "US_CURMODE \<equiv> 2"

section \<open>Sending\<close>

definition put_remote_char :: "'t link \<Rightarrow> u8 \<Rightarrow> 't link" where
  "put_remote_char h c =
     h\<lparr>l_checksum := (if l_checksumming h then add_to_checksum (l_checksum h) (ucast c) else l_checksum h),
       l_output := l_output h @ [c]\<rparr>"

definition send_command :: "'t link \<Rightarrow> u8 \<Rightarrow> 't link" where
  "send_command h command = put_remote_char (put_remote_char h COMMAND_PREFIX1) command"

definition init_checksum :: "'t link \<Rightarrow> 't link" where
  "init_checksum h = h\<lparr>l_checksum := 0, l_checksumming := True\<rparr>"

definition send_byte :: "'t link \<Rightarrow> u8 \<Rightarrow> 't link" where
  "send_byte h b =
     (case byte_code b of
        Some i \<Rightarrow> put_remote_char h (of_nat i)
      | None \<Rightarrow>
          put_remote_char (put_remote_char h (if b AND 0x80 \<noteq> 0 then COMMAND_PREFIX2 else COMMAND_PREFIX1))
            (b AND 0x7f))"

definition send_short :: "'t link \<Rightarrow> u16 \<Rightarrow> 't link" where
  "send_short h s =
     (case short_code s of
        Some i \<Rightarrow> put_remote_char h (of_nat i)
      | None \<Rightarrow> send_byte (send_byte h (ucast (drop_bit 8 s))) (ucast s))"

definition send_word :: "'t link \<Rightarrow> u32 \<Rightarrow> 't link" where
  "send_word h w =
     (case word_code w of
        Some i \<Rightarrow> put_remote_char h (of_nat i)
      | None \<Rightarrow> send_short (send_short h (ucast (drop_bit 16 w))) (ucast w))"

definition send_checksum :: "'t link \<Rightarrow> 't link" where
  "send_checksum h = (let h = h\<lparr>l_checksumming := False\<rparr> in send_word h (l_checksum h))"

section \<open>Receiving\<close>

definition char_from_input_buffer :: "'t link \<Rightarrow> u8 \<Rightarrow> u8 list \<Rightarrow> (u8, 't) lres" where
  "char_from_input_buffer h c cs =
     Inr (c, h\<lparr>l_input := cs,
       l_checksum := (if l_checksumming h then add_to_checksum (l_checksum h) (ucast c) else l_checksum h)\<rparr>)"

definition get_remote_char :: "'t target \<Rightarrow> 't link \<Rightarrow> (u8, 't) lres" where
  "get_remote_char target h =
     (case l_input h of
        c # cs \<Rightarrow> char_from_input_buffer h c cs
      | [] \<Rightarrow>
          let (inp, t) = target (l_target h) (l_output h); h = h\<lparr>l_output := [], l_target := t\<rparr>
          in (case inp of [] \<Rightarrow> Inl (Hangs, h) | c # cs \<Rightarrow> char_from_input_buffer h c cs))"

text \<open>In a quoted byte, a value above \<open>0x7f\<close> is an error message from the target: the command ends.\<close>

definition get_byte :: "'t target \<Rightarrow> 't link \<Rightarrow> (u8, 't) lres" where
  "get_byte target h =
     (if l_partial_length h \<noteq> 0 then
        Inr (ucast (drop_bit 24 (l_partial h)),
          h\<lparr>l_partial_length := l_partial_length h - 1, l_partial := push_bit 8 (l_partial h)\<rparr>)
      else
        mbind (get_remote_char target h) (\<lambda>(c, h).
        let (pat, l) = compress_table ! unat c in
        if l = 131 then
          mbind (get_remote_char target h) (\<lambda>(c, h). if c > 0x7f then Inl (Rerr, h) else Inr (c, h))
        else if l = 132 then
          mbind (get_remote_char target h) (\<lambda>(c, h). if c > 0x7f then Inl (Rerr, h) else Inr (c + 0x80, h))
        else if l = 1 then Inr (ucast pat, h)
        else if l = 2 then
          Inr (ucast (drop_bit 8 pat), h\<lparr>l_partial_length := 1, l_partial := push_bit 24 pat\<rparr>)
        else if l = 4 then
          Inr (ucast (drop_bit 24 pat), h\<lparr>l_partial_length := 3, l_partial := push_bit 8 pat\<rparr>)
        else Inl (Rerr, h)))"

primrec get_bytes :: "'t target \<Rightarrow> nat \<Rightarrow> u32 \<Rightarrow> 't link \<Rightarrow> (u32, 't) lres" where
  "get_bytes target 0 t h = Inr (t, h)"
| "get_bytes target (Suc n) t h =
     mbind (get_byte target h) (\<lambda>(b, h). get_bytes target n (push_bit 8 t OR ucast b) h)"

definition get_word :: "'t target \<Rightarrow> 't link \<Rightarrow> (u32, 't) lres" where
  "get_word target h = get_bytes target 4 0 h"

definition get_short :: "'t target \<Rightarrow> 't link \<Rightarrow> (u32, 't) lres" where
  "get_short target h =
     mbind (get_byte target h) (\<lambda>(w, h). mbind (get_byte target h) (\<lambda>(b, h).
     Inr (push_bit 8 (ucast w) OR ucast b, h)))"

definition verify_checksum :: "'t target \<Rightarrow> 't link \<Rightarrow> (link_stop \<times> 't link) + 't link" where
  "verify_checksum target h =
     (let h = h\<lparr>l_checksumming := False\<rparr> in
      mbind (get_word target h) (\<lambda>(received, h).
      if l_checksum h \<noteq> received then Inl (Rerr, h) else Inr h))"

definition invalidate_mem_cache :: "'t link \<Rightarrow> 't link" where
  "invalidate_mem_cache h = h\<lparr>l_mem_cache := []\<rparr>"

text \<open>
  \<open>wait_for_token\<close>: \<open>None\<close> if another token arrives and the call returns.  Answers to synchronisation
  requests are skipped, at most \<open>n\<close> of them.
\<close>

definition other_token :: "'t target \<Rightarrow> u8 \<Rightarrow> 't link \<Rightarrow> (u8 option, 't) lres" where
  "other_token target c h =
     (if c = C_EXCEPTION then
        mbind (get_word target (invalidate_mem_cache h)) (\<lambda>(new_processor, h).
        mbind (get_word target h) (\<lambda>(exception_code, h).
        Inr (None, h\<lparr>l_selected_processor := unat new_processor\<rparr>)))
      else Inl (Rerr, h))"

primrec wait_loop :: "'t target \<Rightarrow> nat \<Rightarrow> u8 \<Rightarrow> u8 \<Rightarrow> 't link \<Rightarrow> (u8 option, 't) lres" where
  "wait_loop target 0 token1 token2 h = Inl (Hangs, h)"
| "wait_loop target (Suc n) token1 token2 h =
     mbind (get_remote_char target h) (\<lambda>(c, h).
     if c \<noteq> COMMAND_PREFIX1 then (if l_ignore_errors h then Inr (None, h) else Inl (Rerr, h))
     else
       mbind (get_remote_char target h) (\<lambda>(c, h).
       if c = C_SYNC \<and> token1 \<noteq> C_SYNC \<and> token2 \<noteq> C_SYNC then wait_loop target n token1 token2 h
       else if c \<noteq> token1 \<and> c \<noteq> token2 then other_token target c h
       else Inr (Some c, h)))"

abbreviation (input) SYNC_LIMIT :: nat where "SYNC_LIMIT \<equiv> 1000"
abbreviation (input) C_NONE :: u8 where "C_NONE \<equiv> 0xff"

definition wait_for_token :: "'t target \<Rightarrow> u8 \<Rightarrow> u8 \<Rightarrow> 't link \<Rightarrow> (u8 option, 't) lres" where
  "wait_for_token target token1 token2 h = wait_loop target SYNC_LIMIT token1 token2 h"

text \<open>The callers that give up unless they get the first of the two tokens.\<close>

definition expect_token :: "'t target \<Rightarrow> u8 \<Rightarrow> u8 \<Rightarrow> 't link \<Rightarrow> (link_stop \<times> 't link) + 't link" where
  "expect_token target token1 token2 h =
     mbind (wait_for_token target token1 token2 h) (\<lambda>(r, h). if r = Some token1 then Inr h else Inl (Rerr, h))"

section \<open>Reading target memory\<close>

definition upload_command :: "nat \<Rightarrow> 't link \<Rightarrow> u8" where
  "upload_command usmode h =
     (if l_vars h ''noparityinit'' \<noteq> 0 then (if usmode = US_USER then C_UPLOADNOINITUSER else C_UPLOADNOINIT)
      else (if usmode = US_USER then C_UPLOADUSER else C_UPLOAD))"

definition send_upload :: "u32 \<Rightarrow> u32 \<Rightarrow> nat \<Rightarrow> 't link \<Rightarrow> 't link" where
  "send_upload addr len usmode h =
     send_checksum (send_command (send_word (send_word
       (send_command (init_checksum h) (upload_command usmode h)) addr) len) C_END)"

definition end_of_data :: "'t target \<Rightarrow> 't link \<Rightarrow> (link_stop \<times> 't link) + 't link" where
  "end_of_data target h =
     mbind (expect_token target C_DATAEND C_NONE h) (\<lambda>h. verify_checksum target h)"

definition forced_read_remote :: "'t target \<Rightarrow> u32 \<Rightarrow> nat \<Rightarrow> nat \<Rightarrow> 't link \<Rightarrow> (u32, 't) lres" where
  "forced_read_remote target addr sz usmode h =
     (let h = h\<lparr>l_remote_errno := False\<rparr> in
      if addr AND (of_nat sz - 1) \<noteq> 0 then Inl (Rerr, h)
      else
        let h = init_checksum (send_upload addr (of_nat sz) usmode h) in
        mbind (wait_for_token target C_DATASTART C_DATAERROR h) (\<lambda>(r, h).
        if r = Some C_DATASTART then
          mbind (if sz = 1 then mbind (get_byte target h) (\<lambda>(b, h). Inr (ucast b, h))
                 else if sz = 2 then get_short target h
                 else if sz = 4 then get_word target h
                 else Inl (Rerr, h)) (\<lambda>(w, h).
          mbind (end_of_data target h) (\<lambda>h. Inr (w, h)))
        else if r = Some C_DATAERROR then Inr (0, h\<lparr>l_remote_errno := True\<rparr>)
        else Inr (0, h)))"

definition in_rom :: "'t link \<Rightarrow> u32 \<Rightarrow> bool" where
  "in_rom h addr =
     (if l_vars h ''motomode'' \<noteq> 0 then 0xffc00000 \<le> addr \<and> addr \<le> 0xffc7ffff
      else 0xfe000000 \<le> addr \<and> addr \<le> 0xfe03ffff)"

definition in_sram :: "'t link \<Rightarrow> u32 \<Rightarrow> bool" where
  "in_sram h addr = (if l_vars h ''motomode'' \<noteq> 0 then 0xffe00000 \<le> addr \<and> addr \<le> 0xffe1ffff else False)"

primrec get_line :: "'t target \<Rightarrow> nat \<Rightarrow> nat \<Rightarrow> (nat \<Rightarrow> u8) \<Rightarrow> 't link \<Rightarrow> (nat \<Rightarrow> u8, 't) lres" where
  "get_line target 0 i vals h = Inr (vals, h)"
| "get_line target (Suc n) i vals h =
     mbind (get_byte target h) (\<lambda>(b, h). get_line target n (Suc i) (vals(i := b)) h)"

definition line_addr :: "u32 \<Rightarrow> u32" where
  "line_addr addr = addr AND NOT CACHELINEMASK"

definition mc_hit :: "u32 \<Rightarrow> nat \<Rightarrow> mem_cache \<Rightarrow> bool" where
  "mc_hit addr usmode m \<longleftrightarrow> mc_addr m = line_addr addr \<and> mc_usmode m = usmode"

text \<open>Filling a line; \<open>None\<close> if the target could not read it.\<close>

definition fill_line :: "'t target \<Rightarrow> u32 \<Rightarrow> nat \<Rightarrow> 't link \<Rightarrow> (mem_cache option, 't) lres" where
  "fill_line target addr usmode h =
     (let h = init_checksum (send_upload (line_addr addr) (of_nat CACHELINESIZE) usmode h) in
      mbind (wait_for_token target C_DATASTART C_DATAERROR h) (\<lambda>(r, h).
      if r = Some C_DATASTART then
        mbind (get_line target CACHELINESIZE 0 (\<lambda>_. 0) h) (\<lambda>(vals, h).
        mbind (end_of_data target h) (\<lambda>h.
        let m = \<lparr>mc_usmode = usmode, mc_addr = line_addr addr, mc_values = vals\<rparr>
        in Inr (Some m, h\<lparr>l_mem_cache := m # l_mem_cache h\<rparr>)))
      else if r = Some C_DATAERROR then Inr (None, h\<lparr>l_remote_errno := True\<rparr>)
      else Inl (Rerr, h)))"

text \<open>The bytes of a line; an access that leaves the line reads behind the array.\<close>

definition line_value :: "mem_cache \<Rightarrow> nat \<Rightarrow> nat \<Rightarrow> 't link \<Rightarrow> (u32, 't) lres" where
  "line_value m offset sz h =
     (if sz \<notin> {1, 2, 4} then Inl (Rerr, h)
      else if offset + sz > CACHELINESIZE then Inl (Undefined, h)
      else
        Inr (fold (\<lambda>i w. push_bit 8 w OR ucast (mc_values m (offset + i))) [0..<sz] 0, h))"

definition read_remote :: "'t target \<Rightarrow> u32 \<Rightarrow> nat \<Rightarrow> nat \<Rightarrow> 't link \<Rightarrow> (u32, 't) lres" where
  "read_remote target addr sz usmode h =
     (let h = h\<lparr>l_remote_errno := False\<rparr> in
      if addr \<ge> 0x80000000 \<and> \<not> in_rom h addr \<and> \<not> in_sram h addr then
        forced_read_remote target addr sz usmode h
      else
        mbind (case find (mc_hit addr usmode) (l_mem_cache h) of
                 Some m \<Rightarrow> Inr (Some m, h)
               | None \<Rightarrow> fill_line target addr usmode h) (\<lambda>(m, h).
        case m of
          None \<Rightarrow> forced_read_remote target addr sz usmode h
        | Some m \<Rightarrow> line_value m (unat (addr AND CACHELINEMASK)) sz h))"

text \<open>\<open>regmap\<close>: the word of the monitor's register area that holds a register of the debugger.\<close>

definition regmap :: "nat \<Rightarrow> int" where
  "regmap n =
     (if n < 32 then int n else if n = 32 then 38 else if n = 33 then 33 else if n = 34 then 35
      else if n \<le> 65 then int n else if n = 67 then 67 else -1)"

abbreviation (input) H_PSR_REGNUM :: nat where "H_PSR_REGNUM \<equiv> 34"
abbreviation (input) H_MEMBRK_REGNUM :: nat where "H_MEMBRK_REGNUM \<equiv> 67"

definition register_address :: "nat \<Rightarrow> 't link \<Rightarrow> u32" where
  "register_address n h =
     l_register_area h (if n = H_MEMBRK_REGNUM then 3 else l_selected_processor h) + 4 * word_of_int (regmap n)"

definition remote_read_register :: "'t target \<Rightarrow> nat \<Rightarrow> 't link \<Rightarrow> (u32, 't) lres" where
  "remote_read_register target n h = read_remote target (register_address n h) 4 US_SUPERVISOR h"

text \<open>\<open>M_CURMODE\<close> is the mode in the PSR of the program that is debugged.\<close>

definition resolve_usmode :: "'t target \<Rightarrow> nat \<Rightarrow> 't link \<Rightarrow> (nat, 't) lres" where
  "resolve_usmode target usmode h =
     (if usmode \<noteq> US_USER \<and> usmode \<noteq> US_SUPERVISOR then
        mbind (remote_read_register target H_PSR_REGNUM h) (\<lambda>(psr, h).
        Inr (if drop_bit 31 psr AND 1 = 0 then US_USER else US_SUPERVISOR, h))
      else Inr (usmode, h))"

section \<open>Writing target memory\<close>

text \<open>
  The cache line is changed with a store of the size of the access, in the byte order of the host.
\<close>

definition host_bytes :: "bool \<Rightarrow> nat \<Rightarrow> u32 \<Rightarrow> u8 list" where
  "host_bytes big sz w =
     (let bs = drop (4 - sz) (word_bytes w) in if big then bs else rev bs)"

definition put_values :: "nat \<Rightarrow> u8 list \<Rightarrow> (nat \<Rightarrow> u8) \<Rightarrow> nat \<Rightarrow> u8" where
  "put_values off bs vals = (\<lambda>i. if off \<le> i \<and> i < off + length bs then bs ! (i - off) else vals i)"

fun update_line :: "u32 \<Rightarrow> nat \<Rightarrow> (mem_cache \<Rightarrow> mem_cache) \<Rightarrow> mem_cache list \<Rightarrow> mem_cache list" where
  "update_line addr usmode f [] = []"
| "update_line addr usmode f (m # ms) =
     (if mc_hit addr usmode m then f m # ms else m # update_line addr usmode f ms)"

definition write_thru_mem_cache :: "u32 \<Rightarrow> u32 \<Rightarrow> nat \<Rightarrow> nat \<Rightarrow> 't link \<Rightarrow> (link_stop \<times> 't link) + 't link" where
  "write_thru_mem_cache addr w sz usmode h =
     (let offset = unat (addr AND CACHELINEMASK) in
      if find (mc_hit addr usmode) (l_mem_cache h) = None then Inr h
      else if offset + sz > CACHELINESIZE then Inl (Undefined, h)
      else Inr (h\<lparr>l_mem_cache := update_line addr usmode
             (\<lambda>m. m\<lparr>mc_values := put_values offset (host_bytes (l_big_endian h) sz w) (mc_values m)\<rparr>)
             (l_mem_cache h)\<rparr>))"

text \<open>The target acknowledges a write, or reports that it could not make it.\<close>

definition expect_ack :: "'t target \<Rightarrow> 't link \<Rightarrow> (link_stop \<times> 't link) + 't link" where
  "expect_ack target h =
     mbind (wait_for_token target C_ACK C_DATAERROR h) (\<lambda>(r, h).
     if r = Some C_ACK then Inr h
     else if r = Some C_DATAERROR then Inl (Rerr, h\<lparr>l_remote_errno := True\<rparr>)
     else Inl (Rerr, h))"

definition write_remote :: "'t target \<Rightarrow> u32 \<Rightarrow> u32 \<Rightarrow> nat \<Rightarrow> nat \<Rightarrow> 't link \<Rightarrow> (link_stop \<times> 't link) + 't link" where
  "write_remote target addr w sz usmode h =
     (let h = h\<lparr>l_remote_errno := False\<rparr> in
      if sz \<notin> {1, 2, 4} then Inl (Rerr, h)
      else
        mbind (resolve_usmode target usmode h) (\<lambda>(usmode, h).
        mbind (write_thru_mem_cache addr w sz usmode h) (\<lambda>h.
        let h = send_word (send_word (send_command (init_checksum h)
                  (if usmode = US_USER then C_DOWNLOADUSER else C_DOWNLOAD)) addr) (of_nat sz);
            h = (if sz = 1 then send_byte h (ucast w) else if sz = 2 then send_short h (ucast w)
                 else send_word h w);
            h = send_checksum (send_command h C_END)
        in expect_ack target h)))"

definition remote_write_register :: "'t target \<Rightarrow> nat \<Rightarrow> u32 \<Rightarrow> 't link \<Rightarrow> (link_stop \<times> 't link) + 't link" where
  "remote_write_register target n w h = write_remote target (register_address n h) w 4 US_SUPERVISOR h"

end
