(* ===== verification/Rem_Monitor.thy ===== *)
theory Rem_Monitor
  imports Rem_Codec
begin

text \<open>
  The debug monitor that runs on the target (\<open>hmon/mon.c\<close>): characters, words and commands on the
  serial line, and the commands the debugger sends.

  The state is \<open>struct all_vars\<close> as far as the C code uses it, the two directions of the serial line,
  and the target's memory.  \<open>mn_rx\<close> are the characters the UART will deliver and \<open>mn_tx\<close> those sent.
  Memory is a function from addresses to bytes; \<open>mn_mapped\<close> are the addresses that answer, and a load
  or store of any other address ends the command with a data access exception.  The user address space
  is reached by two assembly routines; \<open>mn_user\<close> is the translation they make.

  What ends a command early is a \<open>mon_stop\<close>: the line has no more characters, the monitor restarts
  itself, resets the machine, traps, or has been told to run the program under test.  Line errors of
  the UART, the abort interrupt and the caches are not modelled.
\<close>

section \<open>The state\<close>

record mon =
  dm_checksum :: u32
  dm_checksumming :: bool
  dm_partial :: u32
  dm_partial_length :: nat
  dm_in_mon :: "nat \<Rightarrow> u32"         \<comment> \<open>of \<open>regs0\<close> .. \<open>regs3\<close>\<close>
  dm_exception_code :: u32
  dm_restart_count :: u32
  mn_cpu :: nat                    \<comment> \<open>\<open>mycpunumber()\<close>\<close>
  mn_rx :: "u8 list"
  mn_tx :: "u8 list"
  mn_mem :: "u32 \<Rightarrow> u8"
  mn_mapped :: "u32 \<Rightarrow> bool"
  mn_user :: "u32 \<Rightarrow> u32 option"
  mn_report :: bool                \<comment> \<open>\<open>report_comm_errors\<close>\<close>
  mn_pointers :: "u32 list"        \<comment> \<open>the eight addresses that \<open>retptrs_cmd\<close> sends\<close>

datatype mon_stop = Waits | Restarts | Resets | Traps | Runs | Quiet

type_synonym 'a mres = "(mon_stop \<times> mon) + ('a \<times> mon)"
type_synonym mstep = "(mon_stop \<times> mon) + mon"

abbreviation (input) IN_MON_MAGIC :: u32 where "IN_MON_MAGIC \<equiv> 0x31415926"
abbreviation (input) TR_DACC :: u32 where "TR_DACC \<equiv> 3"

definition xrestart :: "mon \<Rightarrow> mon_stop \<times> mon" where
  "xrestart p =
     (if dm_restart_count p > 10 then Resets else Restarts,
      p\<lparr>dm_restart_count := dm_restart_count p + 1\<rparr>)"

section \<open>Characters\<close>

definition mon_add_to_checksum :: "mon \<Rightarrow> u32 \<Rightarrow> mon" where
  "mon_add_to_checksum p b = p\<lparr>dm_checksum := add_to_checksum (dm_checksum p) b\<rparr>"

definition mon_transmit :: "mon \<Rightarrow> u8 \<Rightarrow> mon" where
  "mon_transmit p c =
     (let p = (if dm_checksumming p then mon_add_to_checksum p (ucast c) else p)
      in p\<lparr>mn_tx := mn_tx p @ [c]\<rparr>)"

text \<open>
  A character that arrives while the monitor sends should be flow control.  Another one is lost, and
  \<open>handle_duart_error\<close> reports it if \<open>report_comm_errors\<close> is set, with the status 1; every character of
  the report is again preceded by a look at the line.  One character at least is taken before the
  look is repeated, so that the number of characters on the line is enough for \<open>n\<close>.
\<close>

primrec check_stop :: "nat \<Rightarrow> mon \<Rightarrow> mstep" where
  "check_stop 0 p = Inr p"
| "check_stop (Suc n) p =
     (let put = (\<lambda>c r. mbind r (\<lambda>p. mbind (check_stop n p) (\<lambda>p. Inr (mon_transmit p c))));
          duart_error = (\<lambda>p. if mn_report p
            then fold put ([COMMAND_PREFIX1, C_COMMERR] @ enc_byte 1) (Inr p) else Inr p)
      in
      case mn_rx p of
        [] \<Rightarrow> Inr p
      | c # cs \<Rightarrow>
          if c = VSTART then Inr (p\<lparr>mn_rx := cs\<rparr>)
          else if c = VSTOP then
            (case cs of
               [] \<Rightarrow> Inl (Waits, p)
             | c' # cs' \<Rightarrow> if c' = VSTART then Inr (p\<lparr>mn_rx := cs'\<rparr>) else duart_error (p\<lparr>mn_rx := cs'\<rparr>))
          else duart_error (p\<lparr>mn_rx := cs\<rparr>))"

definition check_for_stop :: "mon \<Rightarrow> mstep" where
  "check_for_stop p = check_stop (length (mn_rx p)) p"

definition mon_put_char :: "mon \<Rightarrow> u8 \<Rightarrow> mstep" where
  "mon_put_char p c = mbind (check_for_stop p) (\<lambda>p. Inr (mon_transmit p c))"

definition mon_send_command :: "mon \<Rightarrow> u8 \<Rightarrow> mstep" where
  "mon_send_command p command = mbind (mon_put_char p COMMAND_PREFIX1) (\<lambda>p. mon_put_char p command)"

definition mon_get_char :: "mon \<Rightarrow> u8 mres" where
  "mon_get_char p =
     (case dropWhile (\<lambda>c. c = VSTART \<or> c = VSTOP) (mn_rx p) of
        [] \<Rightarrow> Inl (Waits, p\<lparr>mn_rx := []\<rparr>)
      | c # cs \<Rightarrow>
          let p = p\<lparr>mn_rx := cs\<rparr>
          in Inr (c, if dm_checksumming p then mon_add_to_checksum p (ucast c) else p))"

section \<open>Sending\<close>

definition mon_send_byte :: "mon \<Rightarrow> u8 \<Rightarrow> mstep" where
  "mon_send_byte p b =
     (case byte_code b of
        Some i \<Rightarrow> mon_put_char p (of_nat i)
      | None \<Rightarrow>
          mbind (mon_put_char p (if b AND 0x80 \<noteq> 0 then COMMAND_PREFIX2 else COMMAND_PREFIX1)) (\<lambda>p.
          mon_put_char p (b AND 0x7f)))"

definition mon_send_short :: "mon \<Rightarrow> u16 \<Rightarrow> mstep" where
  "mon_send_short p s =
     (case short_code s of
        Some i \<Rightarrow> mon_put_char p (of_nat i)
      | None \<Rightarrow> mbind (mon_send_byte p (ucast (drop_bit 8 s))) (\<lambda>p. mon_send_byte p (ucast s)))"

definition mon_send_word :: "mon \<Rightarrow> u32 \<Rightarrow> mstep" where
  "mon_send_word p w =
     (case word_code w of
        Some i \<Rightarrow> mon_put_char p (of_nat i)
      | None \<Rightarrow> mbind (mon_send_short p (ucast (drop_bit 16 w))) (\<lambda>p. mon_send_short p (ucast w)))"

definition mon_init_checksum :: "mon \<Rightarrow> mon" where
  "mon_init_checksum p = p\<lparr>dm_checksum := 0, dm_checksumming := True\<rparr>"

definition mon_send_checksum :: "mon \<Rightarrow> mstep" where
  "mon_send_checksum p = (let p = p\<lparr>dm_checksumming := False\<rparr> in mon_send_word p (dm_checksum p))"

section \<open>Receiving\<close>

definition mon_get_byte :: "mon \<Rightarrow> u8 mres" where
  "mon_get_byte p =
     (if dm_partial_length p \<noteq> 0 then
        Inr (ucast (drop_bit 24 (dm_partial p)),
          p\<lparr>dm_partial_length := dm_partial_length p - 1, dm_partial := push_bit 8 (dm_partial p)\<rparr>)
      else
        mbind (mon_get_char p) (\<lambda>(c, p).
        if c = 0x81 then Inr (c, p)
        else
          let (pat, l) = compress_table ! unat c in
          if l = 131 then mon_get_char p
          else if l = 132 then mbind (mon_get_char p) (\<lambda>(c, p). Inr (c + 0x80, p))
          else if l = 1 then Inr (ucast pat, p)
          else if l = 2 then
            Inr (ucast (drop_bit 8 pat), p\<lparr>dm_partial_length := 1, dm_partial := push_bit 24 pat\<rparr>)
          else if l = 4 then
            Inr (ucast (drop_bit 24 pat), p\<lparr>dm_partial_length := 3, dm_partial := push_bit 8 pat\<rparr>)
          else mbind (mon_send_command p C_COMPRESSERR) (\<lambda>p. Inl (xrestart p))))"

definition mon_get_short :: "mon \<Rightarrow> u16 mres" where
  "mon_get_short p =
     mbind (mon_get_byte p) (\<lambda>(a, p). mbind (mon_get_byte p) (\<lambda>(b, p).
     Inr (push_bit 8 (ucast a) OR ucast b, p)))"

primrec mon_get_bytes :: "nat \<Rightarrow> u32 \<Rightarrow> mon \<Rightarrow> u32 mres" where
  "mon_get_bytes 0 t p = Inr (t, p)"
| "mon_get_bytes (Suc n) t p =
     mbind (mon_get_byte p) (\<lambda>(b, p). mon_get_bytes n (push_bit 8 t OR ucast b) p)"

definition mon_get_word :: "mon \<Rightarrow> u32 mres" where
  "mon_get_word p = mon_get_bytes 4 0 p"

definition mon_verify_checksum :: "mon \<Rightarrow> mstep" where
  "mon_verify_checksum p =
     (let p = p\<lparr>dm_checksumming := False\<rparr> in
      mbind (mon_get_word p) (\<lambda>(received, p).
      if dm_checksum p \<noteq> received then
        mbind (mon_send_command p C_CHECKSUMERR) (\<lambda>p.
        mbind (mon_send_word p (dm_checksum p)) (\<lambda>p.
        mbind (mon_send_word p received) (\<lambda>p.
        Inl (xrestart p))))
      else Inr p))"

definition mon_expected :: "mon \<Rightarrow> u8 \<Rightarrow> u8 \<Rightarrow> mstep" where
  "mon_expected p token c =
     mbind (mon_send_command p C_EXPECTEDTOKEN) (\<lambda>p.
     mbind (mon_send_byte p token) (\<lambda>p.
     mbind (mon_send_byte p c) (\<lambda>p.
     Inl (xrestart p))))"

definition mon_wait_for_token :: "mon \<Rightarrow> u8 \<Rightarrow> mstep" where
  "mon_wait_for_token p token =
     mbind (mon_get_char p) (\<lambda>(c, p).
     mbind (if c \<noteq> COMMAND_PREFIX1 then mon_expected p COMMAND_PREFIX1 c else Inr p) (\<lambda>p.
     mbind (mon_get_char p) (\<lambda>(c, p).
     if c \<noteq> token then mon_expected p token c else Inr p)))"

section \<open>Memory\<close>

definition mon_load :: "mon \<Rightarrow> u32 \<Rightarrow> u8 mres" where
  "mon_load p a = (if mn_mapped p a then Inr (mn_mem p a, p) else Inl (Traps, p))"

definition mon_store :: "mon \<Rightarrow> u32 \<Rightarrow> u8 \<Rightarrow> mstep" where
  "mon_store p a b = (if mn_mapped p a then Inr (p\<lparr>mn_mem := (mn_mem p)(a := b)\<rparr>) else Inl (Traps, p))"

definition mon_load_short :: "mon \<Rightarrow> u32 \<Rightarrow> u16 mres" where
  "mon_load_short p a =
     (if mn_mapped p a \<and> mn_mapped p (a + 1)
      then Inr (push_bit 8 (ucast (mn_mem p a)) OR ucast (mn_mem p (a + 1)), p) else Inl (Traps, p))"

definition bytes_word :: "u8 \<Rightarrow> u8 \<Rightarrow> u8 \<Rightarrow> u8 \<Rightarrow> u32" where
  "bytes_word a b c d =
     push_bit 8 (push_bit 8 (push_bit 8 (ucast a) OR ucast b) OR ucast c) OR ucast d"

definition mon_load_word :: "mon \<Rightarrow> u32 \<Rightarrow> u32 mres" where
  "mon_load_word p a =
     (if mn_mapped p a \<and> mn_mapped p (a + 1) \<and> mn_mapped p (a + 2) \<and> mn_mapped p (a + 3)
      then Inr (bytes_word (mn_mem p a) (mn_mem p (a + 1)) (mn_mem p (a + 2)) (mn_mem p (a + 3)), p)
      else Inl (Traps, p))"

text \<open>A store of consecutive bytes, the most significant one first; it is made entirely or traps.\<close>

fun put_mem :: "u32 \<Rightarrow> u8 list \<Rightarrow> (u32 \<Rightarrow> u8) \<Rightarrow> (u32 \<Rightarrow> u8)" where
  "put_mem a [] f = f"
| "put_mem a (b # bs) f = put_mem (a + 1) bs (f(a := b))"

definition mon_store_short :: "mon \<Rightarrow> u32 \<Rightarrow> u16 \<Rightarrow> mstep" where
  "mon_store_short p a s =
     (if mn_mapped p a \<and> mn_mapped p (a + 1)
      then Inr (p\<lparr>mn_mem := put_mem a (short_bytes s) (mn_mem p)\<rparr>) else Inl (Traps, p))"

definition mon_store_word :: "mon \<Rightarrow> u32 \<Rightarrow> u32 \<Rightarrow> mstep" where
  "mon_store_word p a w =
     (if mn_mapped p a \<and> mn_mapped p (a + 1) \<and> mn_mapped p (a + 2) \<and> mn_mapped p (a + 3)
      then Inr (p\<lparr>mn_mem := put_mem a (word_bytes w) (mn_mem p)\<rparr>) else Inl (Traps, p))"

text \<open>\<open>fubyte\<close> and \<open>subyte\<close>.\<close>

definition fubyte :: "mon \<Rightarrow> u32 \<Rightarrow> u8 mres" where
  "fubyte p a = (case mn_user p a of None \<Rightarrow> Inl (Traps, p) | Some a \<Rightarrow> mon_load p a)"

definition subyte :: "mon \<Rightarrow> u32 \<Rightarrow> u8 \<Rightarrow> mstep" where
  "subyte p a b = (case mn_user p a of None \<Rightarrow> Inl (Traps, p) | Some a \<Rightarrow> mon_store p a b)"

section \<open>Commands\<close>

text \<open>
  The loops \<open>for ( ; length >= 4 ; length -= 4)\<close> and so on: \<open>n\<close> is the number of their iterations.
\<close>

primrec dl_words :: "nat \<Rightarrow> u32 \<Rightarrow> mon \<Rightarrow> mstep" where
  "dl_words 0 a p = Inr p"
| "dl_words (Suc n) a p =
     mbind (mon_get_word p) (\<lambda>(w, p). mbind (mon_store_word p a w) (\<lambda>p. dl_words n (a + 4) p))"

primrec dl_shorts :: "nat \<Rightarrow> u32 \<Rightarrow> mon \<Rightarrow> mstep" where
  "dl_shorts 0 a p = Inr p"
| "dl_shorts (Suc n) a p =
     mbind (mon_get_short p) (\<lambda>(s, p). mbind (mon_store_short p a s) (\<lambda>p. dl_shorts n (a + 2) p))"

primrec dl_bytes :: "bool \<Rightarrow> nat \<Rightarrow> u32 \<Rightarrow> mon \<Rightarrow> mstep" where
  "dl_bytes user 0 a p = Inr p"
| "dl_bytes user (Suc n) a p =
     mbind (mon_get_byte p) (\<lambda>(b, p).
     mbind (if user then subyte p a b else mon_store p a b) (\<lambda>p. dl_bytes user n (a + 1) p))"

definition download_cmd :: "mon \<Rightarrow> bool \<Rightarrow> mstep" where
  "download_cmd p user =
     mbind (mon_get_word p) (\<lambda>(addr, p).
     mbind (mon_get_word p) (\<lambda>(len, p).
     let words = (if addr AND 3 = 0 \<and> \<not> user then unat len div 4 else 0);
         addr' = addr + of_nat (4 * words); len' = unat len - 4 * words;
         shorts = (if addr' AND 1 = 0 \<and> \<not> user then len' div 2 else 0);
         addr'' = addr' + of_nat (2 * shorts); len'' = len' - 2 * shorts
     in
     mbind (dl_words words addr p) (\<lambda>p.
     mbind (dl_shorts shorts addr' p) (\<lambda>p.
     mbind (dl_bytes user len'' addr'' p) (\<lambda>p.
     mbind (mon_wait_for_token p C_END) (\<lambda>p.
     mbind (mon_verify_checksum p) (\<lambda>p.
     mon_send_command p C_ACK)))))))"

primrec ul_words :: "nat \<Rightarrow> u32 \<Rightarrow> mon \<Rightarrow> mstep" where
  "ul_words 0 a p = Inr p"
| "ul_words (Suc n) a p =
     mbind (mon_load_word p a) (\<lambda>(w, p). mbind (mon_send_word p w) (\<lambda>p. ul_words n (a + 4) p))"

primrec ul_shorts :: "nat \<Rightarrow> u32 \<Rightarrow> mon \<Rightarrow> mstep" where
  "ul_shorts 0 a p = Inr p"
| "ul_shorts (Suc n) a p =
     mbind (mon_load_short p a) (\<lambda>(s, p). mbind (mon_send_short p s) (\<lambda>p. ul_shorts n (a + 2) p))"

primrec ul_bytes :: "bool \<Rightarrow> nat \<Rightarrow> u32 \<Rightarrow> mon \<Rightarrow> mstep" where
  "ul_bytes user 0 a p = Inr p"
| "ul_bytes user (Suc n) a p =
     mbind (if user then fubyte p a else mon_load p a) (\<lambda>(b, p).
     mbind (mon_send_byte p b) (\<lambda>p. ul_bytes user n (a + 1) p))"

text \<open>The length of an upload is a \<open>long\<close>: nothing is sent for a negative one.\<close>

definition signed_len :: "u32 \<Rightarrow> nat" where
  "signed_len len = nat (sint len)"

definition upload_cmd :: "mon \<Rightarrow> bool \<Rightarrow> mstep" where
  "upload_cmd p user =
     mbind (mon_get_word p) (\<lambda>(addr, p).
     mbind (mon_get_word p) (\<lambda>(len, p).
     mbind (mon_wait_for_token p C_END) (\<lambda>p.
     mbind (mon_verify_checksum p) (\<lambda>p.
     mbind (mon_send_command (mon_init_checksum p) C_DATASTART) (\<lambda>p.
     let words = (if addr AND 3 = 0 \<and> \<not> user then signed_len len div 4 else 0);
         addr' = addr + of_nat (4 * words); len' = signed_len len - 4 * words;
         shorts = (if addr' AND 1 = 0 \<and> \<not> user then len' div 2 else 0);
         addr'' = addr' + of_nat (2 * shorts); len'' = len' - 2 * shorts
     in
     mbind (ul_words words addr p) (\<lambda>p.
     mbind (ul_shorts shorts addr' p) (\<lambda>p.
     mbind (ul_bytes user len'' addr'' p) (\<lambda>p.
     mbind (mon_send_command p C_DATAEND) (\<lambda>p.
     mon_send_checksum p)))))))))"

text \<open>
  \<open>checksum_cmd\<close>: words while the address is aligned, then bytes, and a checksum after every 4096 bytes.
\<close>

definition block_done :: "u32 \<Rightarrow> mon \<Rightarrow> u32 mres" where
  "block_done count p =
     (if count = 4096 then mbind (mon_send_checksum p) (\<lambda>p. Inr (0, mon_init_checksum p))
      else Inr (count, p))"

primrec cs_words :: "nat \<Rightarrow> u32 \<Rightarrow> u32 \<Rightarrow> mon \<Rightarrow> u32 mres" where
  "cs_words 0 a count p = Inr (count, p)"
| "cs_words (Suc n) a count p =
     mbind (mon_load_word p a) (\<lambda>(w, p).
     mbind (block_done (count + 4) (mon_add_to_checksum p w)) (\<lambda>(count, p).
     cs_words n (a + 4) count p))"

primrec cs_bytes :: "nat \<Rightarrow> u32 \<Rightarrow> u32 \<Rightarrow> mon \<Rightarrow> u32 mres" where
  "cs_bytes 0 a count p = Inr (count, p)"
| "cs_bytes (Suc n) a count p =
     mbind (mon_load p a) (\<lambda>(b, p).
     mbind (block_done (count + 1) (mon_add_to_checksum p (ucast b))) (\<lambda>(count, p).
     cs_bytes n (a + 1) count p))"

definition checksum_cmd :: "mon \<Rightarrow> mstep" where
  "checksum_cmd p =
     mbind (mon_get_word p) (\<lambda>(addr, p).
     mbind (mon_get_word p) (\<lambda>(len, p).
     mbind (mon_wait_for_token p C_END) (\<lambda>p.
     mbind (mon_verify_checksum p) (\<lambda>p.
     mbind (mon_send_command p C_DATASTART) (\<lambda>p.
     let words = (if addr AND 3 = 0 then signed_len len div 4 else 0) in
     mbind (cs_words words addr 0 (mon_init_checksum p)) (\<lambda>(count, p).
     mbind (cs_bytes (signed_len len - 4 * words) (addr + of_nat (4 * words)) count p) (\<lambda>(count, p).
     mbind (if count \<noteq> 0 then mon_send_checksum p else Inr p) (\<lambda>p.
     mon_send_command p C_DATAEND))))))))"

text \<open>\<open>go_cmd\<close>: the host names the processors to release.\<close>

definition release_cpu :: "nat \<Rightarrow> u8 \<Rightarrow> mon \<Rightarrow> mon" where
  "release_cpu i b p = (if b \<noteq> 0 then p\<lparr>dm_in_mon := (dm_in_mon p)(i := 0)\<rparr> else p)"

definition go_cmd :: "mon \<Rightarrow> mstep" where
  "go_cmd p =
     mbind (mon_get_byte p) (\<lambda>(b0, p).
     mbind (mon_get_byte p) (\<lambda>(b1, p).
     mbind (mon_get_byte p) (\<lambda>(b2, p).
     mbind (mon_get_byte p) (\<lambda>(b3, p).
     mbind (mon_wait_for_token p C_END) (\<lambda>p.
     mbind (mon_verify_checksum p) (\<lambda>p.
     mbind (mon_send_command p C_ACK) (\<lambda>p.
     Inr (release_cpu 3 b3 (release_cpu 2 b2 (release_cpu 1 b1 (release_cpu 0 b0 p)))))))))))"

primrec fill_words :: "nat \<Rightarrow> u32 \<Rightarrow> mon \<Rightarrow> mstep" where
  "fill_words 0 a p = Inr p"
| "fill_words (Suc n) a p = mbind (mon_store_word p a 0) (\<lambda>p. fill_words n (a + 4) p)"

primrec fill_bytes :: "nat \<Rightarrow> u32 \<Rightarrow> mon \<Rightarrow> mstep" where
  "fill_bytes 0 a p = Inr p"
| "fill_bytes (Suc n) a p = mbind (mon_store p a 0) (\<lambda>p. fill_bytes n (a + 1) p)"

definition fill_cmd :: "mon \<Rightarrow> mstep" where
  "fill_cmd p =
     mbind (mon_get_word p) (\<lambda>(addr, p).
     mbind (mon_get_word p) (\<lambda>(len, p).
     mbind (mon_wait_for_token p C_END) (\<lambda>p.
     mbind (mon_verify_checksum p) (\<lambda>p.
     let words = (if addr AND 3 = 0 then unat len div 4 else 0) in
     mbind (fill_words words addr p) (\<lambda>p.
     mbind (fill_bytes (unat len - 4 * words) (addr + of_nat (4 * words)) p) (\<lambda>p.
     mon_send_command p C_ACK))))))"

primrec mon_send_all :: "u32 list \<Rightarrow> mon \<Rightarrow> mstep" where
  "mon_send_all [] p = Inr p"
| "mon_send_all (w # ws) p = mbind (mon_send_word p w) (\<lambda>p. mon_send_all ws p)"

definition send_packet :: "u32 list \<Rightarrow> mon \<Rightarrow> mstep" where
  "send_packet ws p =
     mbind (mon_send_command (mon_init_checksum p) C_DATASTART) (\<lambda>p.
     mbind (mon_send_all ws p) (\<lambda>p.
     mbind (mon_send_command p C_DATAEND) (\<lambda>p.
     mon_send_checksum p)))"

definition retptrs_cmd :: "mon \<Rightarrow> mstep" where
  "retptrs_cmd p =
     mbind (mon_wait_for_token p C_END) (\<lambda>p.
     mbind (mon_verify_checksum p) (\<lambda>p.
     send_packet (mn_pointers p) p))"

definition sync_cmd :: "mon \<Rightarrow> mstep" where
  "sync_cmd p = mon_send_command (p\<lparr>dm_partial := 0, dm_partial_length := 0\<rparr>) C_SYNC"

definition send_word_in_packet :: "mon \<Rightarrow> u32 \<Rightarrow> mstep" where
  "send_word_in_packet p w = send_packet [w] p"

text \<open>
  The search loop: \<open>length -= stride\<close> is made before the test, so that \<open>length div stride\<close> places are
  looked at (for a length that is not negative).  If the address and the stride are aligned, the second
  word is loaded only when the first one matches.
\<close>

primrec search_loop :: "bool \<Rightarrow> nat \<Rightarrow> u32 \<Rightarrow> u32 \<Rightarrow> u32 \<Rightarrow> u32 \<Rightarrow> u32 \<Rightarrow> u32 \<Rightarrow> mon \<Rightarrow> u32 mres" where
  "search_loop al 0 a stride p1 p2 m1 m2 p = Inr (-1, p)"
| "search_loop al (Suc n) a stride p1 p2 m1 m2 p =
     mbind (mon_load_word p a) (\<lambda>(w1, p).
     mbind (if \<not> al \<or> p1 = w1 AND m1 then
              mbind (mon_load_word p (a + 4)) (\<lambda>(w2, p). Inr (p1 = w1 AND m1 \<and> p2 = w2 AND m2, p))
            else Inr (False, p)) (\<lambda>(found, p).
     if found then Inr (a, p) else search_loop al n (a + stride) stride p1 p2 m1 m2 p))"

definition search_cmd :: "mon \<Rightarrow> mstep" where
  "search_cmd p =
     mbind (mon_get_word p) (\<lambda>(addr, p).
     mbind (mon_get_word p) (\<lambda>(len, p).
     mbind (mon_get_word p) (\<lambda>(stride, p).
     mbind (mon_get_word p) (\<lambda>(pattern1, p).
     mbind (mon_get_word p) (\<lambda>(pattern2, p).
     mbind (mon_get_word p) (\<lambda>(mask1, p).
     mbind (mon_get_word p) (\<lambda>(mask2, p).
     mbind (mon_get_word p) (\<lambda>(parity_flag, p).
     mbind (mon_wait_for_token p C_END) (\<lambda>p.
     mbind (mon_verify_checksum p) (\<lambda>p.
     let stride = (if sint stride \<le> 0 then 1 else stride) in
     mbind (search_loop (addr AND 3 = 0 \<and> stride AND 3 = 0)
         (signed_len len div unat stride) addr stride pattern1 pattern2 mask1 mask2 p) (\<lambda>(r, p).
     send_word_in_packet p r)))))))))))"

primrec move_bytes :: "nat \<Rightarrow> u32 \<Rightarrow> u32 \<Rightarrow> mon \<Rightarrow> mstep" where
  "move_bytes 0 src dst p = Inr p"
| "move_bytes (Suc n) src dst p =
     mbind (mon_load p src) (\<lambda>(b, p).
     mbind (mon_store p dst b) (\<lambda>p. move_bytes n (src + 1) (dst + 1) p))"

definition move_cmd :: "mon \<Rightarrow> mstep" where
  "move_cmd p =
     mbind (mon_get_word p) (\<lambda>(src, p).
     mbind (mon_get_word p) (\<lambda>(dst, p).
     mbind (mon_get_word p) (\<lambda>(len, p).
     mbind (mon_get_word p) (\<lambda>(parity_flag, p).
     mbind (mon_wait_for_token p C_END) (\<lambda>p.
     mbind (mon_verify_checksum p) (\<lambda>p.
     mbind (move_bytes (signed_len len) src dst p) (\<lambda>p.
     mon_send_command p C_ACK)))))))"

text \<open>\<open>rom\<close> is the system call of the boot ROM.\<close>

type_synonym rom_call = "u32 list \<Rightarrow> mon \<Rightarrow> u32 \<times> mon"

definition syscall188_cmd :: "rom_call \<Rightarrow> mon \<Rightarrow> mstep" where
  "syscall188_cmd rom p =
     mbind (mon_get_word p) (\<lambda>(code, p).
     mbind (mon_get_word p) (\<lambda>(arg1, p).
     mbind (mon_get_word p) (\<lambda>(arg2, p).
     mbind (mon_get_word p) (\<lambda>(arg3, p).
     mbind (mon_get_word p) (\<lambda>(arg4, p).
     mbind (mon_wait_for_token p C_END) (\<lambda>p.
     mbind (mon_verify_checksum p) (\<lambda>p.
     mbind (mon_send_command p C_ACK) (\<lambda>p.
     let (r, p) = rom [code, arg1, arg2, arg3, arg4] p in send_packet [r] p))))))))"

section \<open>The main loop\<close>

definition talk_to_host :: "mon \<Rightarrow> mstep" where
  "talk_to_host p =
     (let p = p\<lparr>dm_partial := 0, dm_partial_length := 0, dm_checksumming := False, dm_checksum := 0\<rparr> in
      if dm_in_mon p (mn_cpu p) = IN_MON_MAGIC \<and> dm_exception_code p = TR_DACC then
        mon_send_command p C_DATAERROR
      else
        mbind (mon_send_command (p\<lparr>dm_in_mon := (dm_in_mon p)(mn_cpu p := IN_MON_MAGIC)\<rparr>) C_EXCEPTION) (\<lambda>p.
        mbind (mon_send_word p (of_nat (mn_cpu p))) (\<lambda>p.
        mon_send_word p (dm_exception_code p))))"

text \<open>The switch on the character after \<open>COMMAND_PREFIX1\<close>.  There is no case for \<open>C_DOWNLOADUSER\<close>.\<close>

definition mon_command :: "rom_call \<Rightarrow> u8 \<Rightarrow> mon \<Rightarrow> mstep" where
  "mon_command rom c p =
     (if c = C_DOWNLOAD then download_cmd p False
      else if c = C_UPLOAD then upload_cmd p False
      else if c = C_CHECKSUM then checksum_cmd p
      else if c = C_GO then
        mbind (go_cmd p) (\<lambda>p. Inl (if dm_in_mon p (mn_cpu p) = 0 then Runs else Quiet, p))
      else if c = C_FILL then fill_cmd p
      else if c = C_RETPTRS then retptrs_cmd p
      else if c = C_SYNC then sync_cmd p
      else if c = C_UPLOADNOINIT then upload_cmd p False
      else if c = C_CHECKSUMNOINIT then checksum_cmd p
      else if c = C_SEARCH then search_cmd p
      else if c = C_COPYMEM then move_cmd p
      else if c = C_UPLOADNOINITUSER then upload_cmd p True
      else if c = C_UPLOADUSER then upload_cmd p True
      else if c = C_188SYSCALL then syscall188_cmd rom p
      else mbind (mon_send_command p C_BADCOMMAND) (\<lambda>p. mon_send_byte p c))"

text \<open>One iteration of the loop, and the loop for at most \<open>n\<close> iterations.\<close>

definition mon_iteration :: "rom_call \<Rightarrow> mon \<Rightarrow> mstep" where
  "mon_iteration rom p =
     mbind (mon_get_char (mon_init_checksum p)) (\<lambda>(c, p).
     if c = COMMAND_PREFIX1 then mbind (mon_get_char p) (\<lambda>(c, p). mon_command rom c p) else Inr p)"

primrec mon_loop :: "nat \<Rightarrow> rom_call \<Rightarrow> mon \<Rightarrow> mon_stop \<times> mon" where
  "mon_loop 0 rom p = (Waits, p)"
| "mon_loop (Suc n) rom p =
     (case mon_iteration rom p of Inl r \<Rightarrow> r | Inr p \<Rightarrow> mon_loop n rom p)"

text \<open>
  The monitor as the other end of the line: it works on the characters it is sent until it needs more.
  Every iteration takes at least one character, so the bound is enough.
\<close>

definition monitor :: "rom_call \<Rightarrow> mon \<Rightarrow> u8 list \<Rightarrow> u8 list \<times> mon" where
  "monitor rom p cs =
     (let (r, p) = mon_loop (Suc (length (mn_rx p) + length cs)) rom (p\<lparr>mn_rx := mn_rx p @ cs, mn_tx := []\<rparr>)
      in (mn_tx p, p))"

end
