(* ===== verification/Rem_Line.thy ===== *)
theory Rem_Line
  imports Rem_Host Rem_Monitor
begin

text \<open>
  The two ends of the serial line.  The interface \<open>receiver\<close> states what taking characters and bytes from
  the line does to the state of a program; it is interpreted on the debugger and on the monitor, which
  have different states and treat errors differently.  The lemmas on sending are equations: what the
  routines of both sides append to the line is the encoding of \<open>Rem_Codec\<close>.
\<close>

section \<open>Words\<close>

lemma bytes_word_bytes: "bytes_word (ucast (drop_bit 24 w)) (ucast (drop_bit 16 w)) (ucast (drop_bit 8 w)) (ucast w) = w"
proof (rule bit_word_eqI)
  fix n :: nat
  assume "n < LENGTH(32)"
  then consider "n < 8" | "8 \<le> n" "n < 16" | "16 \<le> n" "n < 24" | "24 \<le> n" "n < 32"
    by fastforce
  then show "bit (bytes_word (ucast (drop_bit 24 w)) (ucast (drop_bit 16 w)) (ucast (drop_bit 8 w)) (ucast w)) n = bit w n"
    unfolding bytes_word_def by cases (auto simp: bit_simps)
qed

lemma word_bytes_word: "word_bytes (bytes_word a b c d) = [a, b, c, d]"
  unfolding bytes_word_def word_bytes_def list.inject
  by (intro conjI refl; rule bit_word_eqI; auto simp: bit_simps dest: bit_imp_le_length)

section \<open>The interface: receiving encoded bytes\<close>

lemma tok_bytes_nonempty: "tok_bytes t = Some bs \<Longrightarrow> bs \<noteq> []"
  by (induction t rule: tok_bytes.induct) (auto simp: word_bytes_def split: if_splits prod.splits)

lemma encodes_empty: "encodes us [] \<Longrightarrow> us = []"
  by (erule encodes.cases) (auto dest: tok_bytes_nonempty)

inductive_cases encodes_ConsE: "encodes us (b # bs)"

locale receiver =
  fixes get_char :: "'s \<Rightarrow> 'e + (u8 \<times> 's)"
    and get_one :: "'s \<Rightarrow> 'e + (u8 \<times> 's)"
    and chars :: "'s \<Rightarrow> u8 list"          \<comment> \<open>on the line\<close>
    and pending :: "'s \<Rightarrow> u8 list"        \<comment> \<open>bytes of the last token that were not returned yet\<close>
    and summing :: "'s \<Rightarrow> bool"
    and total :: "'s \<Rightarrow> u32"
    and core :: "'s \<Rightarrow> 'c"
  assumes get_char: "chars s = c # cs \<Longrightarrow> c \<noteq> VSTART \<Longrightarrow> c \<noteq> VSTOP \<Longrightarrow>
      \<exists>s'. get_char s = Inr (c, s') \<and> chars s' = cs \<and> pending s' = pending s \<and> summing s' = summing s \<and>
        total s' = (if summing s then checksum_of [c] (total s) else total s) \<and> core s' = core s"
    and get_pending: "pending s = b # bs \<Longrightarrow>
      \<exists>s'. get_one s = Inr (b, s') \<and> chars s' = chars s \<and> pending s' = bs \<and> summing s' = summing s \<and>
        total s' = total s \<and> core s' = core s"
    and get_token: "pending s = [] \<Longrightarrow> chars s = t @ cs \<Longrightarrow> tok_bytes t = Some (b # bs) \<Longrightarrow>
      \<exists>s'. get_one s = Inr (b, s') \<and> chars s' = cs \<and> pending s' = bs \<and> summing s' = summing s \<and>
        total s' = (if summing s then checksum_of t (total s) else total s) \<and> core s' = core s"
begin

text \<open>\<open>taken us s s'\<close>: between the two states the characters \<open>us\<close> were taken.\<close>

definition taken :: "u8 list \<Rightarrow> 's \<Rightarrow> 's \<Rightarrow> bool" where
  "taken us s s' \<longleftrightarrow> chars s = us @ chars s' \<and> summing s' = summing s \<and> core s' = core s \<and>
     total s' = (if summing s then checksum_of us (total s) else total s)"

lemma taken_refl: "taken [] s s"
  by (simp add: taken_def)

lemma taken_trans: "taken us s s' \<Longrightarrow> taken vs s' s'' \<Longrightarrow> taken (us @ vs) s s''"
  by (auto simp: taken_def)

text \<open>\<open>holds bs us s\<close>: the pending bytes and the characters \<open>us\<close>, the next on the line, stand for \<open>bs\<close>.\<close>

definition holds :: "u8 list \<Rightarrow> u8 list \<Rightarrow> 's \<Rightarrow> bool" where
  "holds bs us s \<longleftrightarrow> (\<exists>bs' cs. bs = pending s @ bs' \<and> encodes us bs' \<and> chars s = us @ cs)"

lemma holds_start: "pending s = [] \<Longrightarrow> encodes us bs \<Longrightarrow> chars s = us @ cs \<Longrightarrow> holds bs us s"
  by (simp add: holds_def)

lemma holds_empty: "holds [] us s \<Longrightarrow> us = [] \<and> pending s = []"
  by (auto simp: holds_def dest: encodes_empty)

lemma get_one_holds:
  assumes "holds (b # bs) us s"
  shows "\<exists>s' us1 us2. get_one s = Inr (b, s') \<and> us = us1 @ us2 \<and> taken us1 s s' \<and> holds bs us2 s'"
proof -
  obtain bs' cs where bs: "b # bs = pending s @ bs'" and enc: "encodes us bs'" and cs: "chars s = us @ cs"
    using assms unfolding holds_def by blast
  show ?thesis
  proof (cases "pending s")
    case (Cons b' pend)
    with bs have "pending s = b # pend" "bs = pend @ bs'" by simp_all
    moreover obtain s' where "get_one s = Inr (b, s')" "chars s' = chars s" "pending s' = pend"
      "summing s' = summing s" "total s' = total s" "core s' = core s"
      using get_pending [OF \<open>pending s = b # pend\<close>] by blast
    ultimately show ?thesis
      using enc cs by (intro exI [of _ s'] exI [of _ "[]"] exI [of _ us]) (auto simp: taken_def holds_def)
  next
    case Nil
    with bs enc have "encodes us (b # bs)" by simp
    then obtain t tbs us2 bs2 where t: "us = t @ us2" "b # bs = tbs @ bs2" "tok_bytes t = Some tbs" "encodes us2 bs2"
      by (rule encodes_ConsE)
    with tok_bytes_nonempty [OF t(3)] obtain pend where p: "tbs = b # pend" "bs = pend @ bs2"
      by (cases tbs) auto
    obtain s' where "get_one s = Inr (b, s')" "chars s' = us2 @ cs" "pending s' = pend" "summing s' = summing s"
      "total s' = (if summing s then checksum_of t (total s) else total s)" "core s' = core s"
      using get_token [OF Nil, of t "us2 @ cs" b pend] cs t(1,3) p(1) by auto
    with t p cs show ?thesis
      by (intro exI [of _ s'] exI [of _ t] exI [of _ us2]) (auto simp: taken_def holds_def)
  qed
qed

primrec receive :: "nat \<Rightarrow> 's \<Rightarrow> 'e + (u8 list \<times> 's)" where
  "receive 0 s = Inr ([], s)"
| "receive (Suc n) s =
     mbind (get_one s) (\<lambda>(b, s). mbind (receive n s) (\<lambda>(bs, s). Inr (b # bs, s)))"

lemma receive_holds:
  "holds (bs @ bs') us s \<Longrightarrow>
     \<exists>s' us1 us2. receive (length bs) s = Inr (bs, s') \<and> us = us1 @ us2 \<and> taken us1 s s' \<and> holds bs' us2 s'"
proof (induction bs arbitrary: us s)
  case Nil
  then show ?case by (intro exI [of _ s] exI [of _ "[]"] exI [of _ us]) (simp add: taken_refl)
next
  case (Cons b bs)
  then obtain s1 us1 us2 where 1: "get_one s = Inr (b, s1)" "us = us1 @ us2" "taken us1 s s1" "holds (bs @ bs') us2 s1"
    using get_one_holds [of b "bs @ bs'" us s] by auto
  from Cons.IH [OF 1(4)] obtain s2 us3 us4 where
    2: "receive (length bs) s1 = Inr (bs, s2)" "us2 = us3 @ us4" "taken us3 s1 s2" "holds bs' us4 s2"
    by blast
  have "receive (length (b # bs)) s = Inr (b # bs, s2)" using 1(1) 2(1) by simp
  then show ?case using 1(2) 2(2,4) taken_trans [OF 1(3) 2(3)] by (metis append_assoc)
qed

text \<open>Bytes put together to a word, the most significant one first.\<close>

primrec collect :: "nat \<Rightarrow> u32 \<Rightarrow> 's \<Rightarrow> 'e + (u32 \<times> 's)" where
  "collect 0 t s = Inr (t, s)"
| "collect (Suc n) t s = mbind (get_one s) (\<lambda>(b, s). collect n (push_bit 8 t OR ucast b) s)"

lemma collect_receive:
  "collect n t s = mbind (receive n s) (\<lambda>(bs, s). Inr (fold (\<lambda>b t. push_bit 8 t OR ucast b) bs t, s))"
proof (induction n arbitrary: t s)
  case (Suc n)
  show ?case
    by (cases "get_one s") (auto simp: Suc.IH mbind_def split: sum.splits)
qed simp

lemma collect_word:
  assumes "holds (word_bytes w @ bs) us s"
  shows "\<exists>s' us1 us2. collect 4 0 s = Inr (w, s') \<and> us = us1 @ us2 \<and> taken us1 s s' \<and> holds bs us2 s'"
proof -
  have four: "length (word_bytes w) = 4" by (simp add: word_bytes_def)
  have "fold (\<lambda>b t. push_bit 8 t OR ucast b) (word_bytes w) 0 = w"
    using bytes_word_bytes [of w] by (simp add: word_bytes_def bytes_word_def)
  then have "collect 4 0 s = Inr (w, s')" if "receive 4 s = Inr (word_bytes w, s')" for s'
    using that by (simp add: collect_receive)
  with receive_holds [OF assms] show ?thesis unfolding four by blast
qed

lemma collect_short:
  assumes "holds (short_bytes x @ bs) us s"
  shows "\<exists>s' us1 us2. collect 2 0 s = Inr (ucast x, s') \<and> us = us1 @ us2 \<and> taken us1 s s' \<and> holds bs us2 s'"
proof -
  have two: "length (short_bytes x) = 2" by (simp add: short_bytes_def)
  have "fold (\<lambda>b t. push_bit 8 t OR ucast b) (short_bytes x) (0 :: u32) = ucast x"
    unfolding short_bytes_def
  proof (rule bit_word_eqI)
    fix n :: nat
    have "bit x n \<Longrightarrow> n < 16" using bit_imp_le_length [of x n] by simp
    then show "bit (fold (\<lambda>b t. push_bit 8 t OR ucast b) [ucast (drop_bit 8 x), ucast x :: u8] (0 :: u32)) n =
        bit (ucast x :: u32) n"
      by (auto simp: bit_simps)
  qed
  then have "collect 2 0 s = Inr (ucast x, s')" if "receive 2 s = Inr (short_bytes x, s')" for s'
    using that by (simp add: collect_receive)
  with receive_holds [OF assms] show ?thesis unfolding two by blast
qed

text \<open>A packet of bytes is received entirely.\<close>

lemma receive_all:
  assumes "pending s = []" and "encodes us bs" and "chars s = us @ cs"
  shows "\<exists>s'. receive (length bs) s = Inr (bs, s') \<and> taken us s s' \<and> pending s' = []"
proof -
  have "holds (bs @ []) us s" using holds_start [OF assms] by simp
  from receive_holds [OF this] holds_empty show ?thesis by fastforce
qed

end

section \<open>The bytes left of a token\<close>

primrec left_bytes :: "nat \<Rightarrow> u32 \<Rightarrow> u8 list" where
  "left_bytes 0 w = []"
| "left_bytes (Suc n) w = ucast (drop_bit 24 w) # left_bytes n (push_bit 8 w)"

lemma left_bytes_eq:
  "left_bytes 3 (push_bit 8 w) = [ucast (drop_bit 16 w), ucast (drop_bit 8 w), ucast w]"
  "left_bytes (Suc 0) (push_bit 24 w) = [ucast w]"
  "(ucast (drop_bit 24 (push_bit 24 w)) :: u8) = ucast w"
proof -
  have "(ucast (drop_bit 24 (push_bit n w)) :: u8) = ucast (drop_bit (24 - n) w)" if "n \<le> 24" for n
    using that by (intro bit_word_eqI) (auto simp: bit_simps)
  from this [of 8] this [of 16] this [of 24]
  show "left_bytes 3 (push_bit 8 w) = [ucast (drop_bit 16 w), ucast (drop_bit 8 w), ucast w]"
    "left_bytes (Suc 0) (push_bit 24 w) = [ucast w]" "(ucast (drop_bit 24 (push_bit 24 w)) :: u8) = ucast w"
    by (simp_all add: numeral_3_eq_3)
qed

lemma left_bytes_empty: "left_bytes n w = [] \<longleftrightarrow> n = 0"
  by (cases n) simp_all

text \<open>The three kinds of tokens.\<close>

lemma tok_cases:
  assumes "tok_bytes t = Some bs"
  obtains (coded) c p l where "t = [c]" "compress_table ! unat c = (p, l)" "l \<in> {1, 2, 4}"
      "bs = (if l = 1 then [ucast p] else if l = 2 then [ucast (drop_bit 8 p), ucast p] else word_bytes p)"
    | (low) b where "t = [COMMAND_PREFIX1, b]" "b < 0x80" "bs = [b]"
    | (high) b where "t = [COMMAND_PREFIX2, b]" "b < 0x80" "bs = [b + 0x80]"
  using assms by (cases t rule: tok_bytes.cases) (auto split: if_splits prod.splits)

lemma avoided_entries:
  "compress_table ! 129 = (0, 129)" "compress_table ! 130 = (0, 130)"
  "compress_table ! 131 = (0, 131)" "compress_table ! 132 = (0, 132)"
  by (simp_all add: compress_table_def)

lemma unat_prefix: "unat (0x81 :: u8) = 129" "unat (0x82 :: u8) = 130" "unat (0x83 :: u8) = 131" "unat (0x84 :: u8) = 132"
  by simp_all

lemma coded_not_avoided:
  assumes "compress_table ! unat c = (p, l)" and "l \<in> {1, 2, 4}"
  shows "c \<noteq> VSTART" "c \<noteq> VSTOP" "c \<noteq> COMMAND_PREFIX1" "c \<noteq> COMMAND_PREFIX2"
  using assms avoided_entries by auto

lemma low_not_flow: "b < 0x80 \<Longrightarrow> b \<noteq> VSTART \<and> b \<noteq> VSTOP" for b :: u8
  by auto

lemma low_le: "b < 0x80 \<Longrightarrow> b \<le> 0x7f" for b :: u8
  by (simp add: word_less_nat_alt word_le_nat_alt)

section \<open>The debugger as a receiver\<close>

definition link_pending :: "'t link \<Rightarrow> u8 list" where
  "link_pending h = left_bytes (l_partial_length h) (l_partial h)"

definition link_core :: "'t link \<Rightarrow> 't link" where
  "link_core h = h\<lparr>l_checksum := 0, l_partial := 0, l_partial_length := 0, l_input := []\<rparr>"

interpretation hline: receiver "get_remote_char tgt" "get_byte tgt" l_input link_pending l_checksumming l_checksum link_core
  for tgt :: "'t target"
proof unfold_locales
  fix s :: "'t link" and c cs
  assume "l_input s = c # cs" and "c \<noteq> VSTART" and "c \<noteq> VSTOP"
  then show "\<exists>s'. get_remote_char tgt s = Inr (c, s') \<and> l_input s' = cs \<and> link_pending s' = link_pending s \<and>
      l_checksumming s' = l_checksumming s \<and>
      l_checksum s' = (if l_checksumming s then checksum_of [c] (l_checksum s) else l_checksum s) \<and>
      link_core s' = link_core s"
    by (simp add: get_remote_char_def char_from_input_buffer_def link_pending_def link_core_def)
next
  fix s :: "'t link" and b bs
  assume p: "link_pending s = b # bs"
  then obtain n where n: "l_partial_length s = Suc n" by (cases "l_partial_length s") (auto simp: link_pending_def)
  with p show "\<exists>s'. get_byte tgt s = Inr (b, s') \<and> l_input s' = l_input s \<and> link_pending s' = bs \<and>
      l_checksumming s' = l_checksumming s \<and> l_checksum s' = l_checksum s \<and> link_core s' = link_core s"
    by (simp add: get_byte_def link_pending_def link_core_def)
next
  fix s :: "'t link" and t cs b bs
  assume "link_pending s = []" and i: "l_input s = t @ cs" and t: "tok_bytes t = Some (b # bs)"
  then have n: "l_partial_length s = 0" by (cases "l_partial_length s") (auto simp: link_pending_def)
  from t show "\<exists>s'. get_byte tgt s = Inr (b, s') \<and> l_input s' = cs \<and> link_pending s' = bs \<and>
      l_checksumming s' = l_checksumming s \<and>
      l_checksum s' = (if l_checksumming s then checksum_of t (l_checksum s) else l_checksum s) \<and>
      link_core s' = link_core s"
  proof (cases rule: tok_cases)
    case (coded c p l)
    then show ?thesis
      using i n by (auto simp: get_byte_def get_remote_char_def char_from_input_buffer_def link_pending_def link_core_def
          word_bytes_def left_bytes_eq)
  next
    case (low b')
    then show ?thesis
      using i n avoided_entries unat_prefix low_le [OF low(2)]
      by (simp add: get_byte_def get_remote_char_def char_from_input_buffer_def link_pending_def link_core_def)
  next
    case (high b')
    then show ?thesis
      using i n avoided_entries unat_prefix low_le [OF high(2)]
      by (simp add: get_byte_def get_remote_char_def char_from_input_buffer_def link_pending_def link_core_def)
  qed
qed

section \<open>The monitor as a receiver\<close>

definition mon_pending :: "mon \<Rightarrow> u8 list" where
  "mon_pending p = left_bytes (dm_partial_length p) (dm_partial p)"

definition mon_core :: "mon \<Rightarrow> mon" where
  "mon_core p = p\<lparr>dm_checksum := 0, dm_partial := 0, dm_partial_length := 0, mn_rx := []\<rparr>"

interpretation mline: receiver mon_get_char mon_get_byte mn_rx mon_pending dm_checksumming dm_checksum mon_core
proof unfold_locales
  fix s :: mon and c cs
  assume "mn_rx s = c # cs" and "c \<noteq> VSTART" and "c \<noteq> VSTOP"
  then show "\<exists>s'. mon_get_char s = Inr (c, s') \<and> mn_rx s' = cs \<and> mon_pending s' = mon_pending s \<and>
      dm_checksumming s' = dm_checksumming s \<and>
      dm_checksum s' = (if dm_checksumming s then checksum_of [c] (dm_checksum s) else dm_checksum s) \<and>
      mon_core s' = mon_core s"
    by (simp add: mon_get_char_def mon_add_to_checksum_def mon_pending_def mon_core_def)
next
  fix s :: mon and b bs
  assume p: "mon_pending s = b # bs"
  then obtain n where n: "dm_partial_length s = Suc n" by (cases "dm_partial_length s") (auto simp: mon_pending_def)
  with p show "\<exists>s'. mon_get_byte s = Inr (b, s') \<and> mn_rx s' = mn_rx s \<and> mon_pending s' = bs \<and>
      dm_checksumming s' = dm_checksumming s \<and> dm_checksum s' = dm_checksum s \<and> mon_core s' = mon_core s"
    by (simp add: mon_get_byte_def mon_pending_def mon_core_def)
next
  fix s :: mon and t cs b bs
  assume "mon_pending s = []" and i: "mn_rx s = t @ cs" and t: "tok_bytes t = Some (b # bs)"
  then have n: "dm_partial_length s = 0" by (cases "dm_partial_length s") (auto simp: mon_pending_def)
  from t show "\<exists>s'. mon_get_byte s = Inr (b, s') \<and> mn_rx s' = cs \<and> mon_pending s' = bs \<and>
      dm_checksumming s' = dm_checksumming s \<and>
      dm_checksum s' = (if dm_checksumming s then checksum_of t (dm_checksum s) else dm_checksum s) \<and>
      mon_core s' = mon_core s"
  proof (cases rule: tok_cases)
    case (coded c p l)
    then show ?thesis
      using i n coded_not_avoided [OF coded(2,3)]
      by (auto simp: mon_get_byte_def mon_get_char_def mon_add_to_checksum_def mon_pending_def mon_core_def
          word_bytes_def left_bytes_eq)
  next
    case (low b')
    then show ?thesis
      using i n avoided_entries unat_prefix low_not_flow [OF low(2)]
      by (simp add: mon_get_byte_def mon_get_char_def mon_add_to_checksum_def mon_pending_def mon_core_def)
  next
    case (high b')
    then show ?thesis
      using i n avoided_entries unat_prefix low_not_flow [OF high(2)]
      by (simp add: mon_get_byte_def mon_get_char_def mon_add_to_checksum_def mon_pending_def mon_core_def)
  qed
qed

section \<open>Words from the line\<close>

lemma mon_get_word_collect: "mon_get_word p = mline.collect 4 0 p"
proof -
  have "mon_get_bytes n t p = mline.collect n t p" for n t p
    by (induction n arbitrary: t p) simp_all
  then show ?thesis by (simp add: mon_get_word_def)
qed

lemma get_word_collect: "get_word tgt h = hline.collect tgt 4 0 h"
proof -
  have "get_bytes tgt n t h = hline.collect tgt n t h" for n t h
    by (induction n arbitrary: t h) simp_all
  then show ?thesis by (simp add: get_word_def)
qed

lemma get_short_collect: "get_short tgt h = hline.collect tgt 2 0 h"
  by (auto simp: get_short_def numeral_2_eq_2 mbind_def split: sum.splits)

lemmas mon_get_word_holds = mline.collect_word [folded mon_get_word_collect]
lemmas get_word_holds = hline.collect_word [folded get_word_collect]
lemmas get_short_holds = hline.collect_short [folded get_short_collect]

text \<open>The encoding of a word is decoded by both sides.\<close>

lemma word_decoded:
  assumes "l_partial_length h = 0" and "l_input h = enc_word w @ cs" and "dm_partial_length p = 0" and "mn_rx p = enc_word w @ cs"
  shows "\<exists>h' p'. get_word tgt h = Inr (w, h') \<and> l_input h' = cs \<and> l_partial_length h' = 0 \<and>
    mon_get_word p = Inr (w, p') \<and> mn_rx p' = cs \<and> dm_partial_length p' = 0"
proof -
  have "hline.holds (word_bytes w @ []) (enc_word w) h" "mline.holds (word_bytes w @ []) (enc_word w) p"
    using assms encodes_word [of w] by (simp_all add: hline.holds_def mline.holds_def link_pending_def mon_pending_def)
  from get_word_holds [OF this(1), of tgt] mon_get_word_holds [OF this(2)] obtain h' us1 us2 p' vs1 vs2 where
    h: "get_word tgt h = Inr (w, h')" "enc_word w = us1 @ us2" "hline.taken us1 h h'" "hline.holds [] us2 h'" and
    p: "mon_get_word p = Inr (w, p')" "enc_word w = vs1 @ vs2" "mline.taken vs1 p p'" "mline.holds [] vs2 p'"
    by blast
  have "us2 = []" "link_pending h' = []" "vs2 = []" "mon_pending p' = []"
    using hline.holds_empty [OF h(4)] mline.holds_empty [OF p(4)] by simp_all
  then have "l_input h' = cs" "mn_rx p' = cs" "l_partial_length h' = 0" "dm_partial_length p' = 0"
    using h(2,3) p(2,3) assms(2,4) left_bytes_empty [of "l_partial_length h'"] left_bytes_empty [of "dm_partial_length p'"]
    by (auto simp: hline.taken_def mline.taken_def link_pending_def mon_pending_def)
  then show ?thesis using h(1) p(1) by blast
qed

section \<open>Sending\<close>

text \<open>What the debugger appends to the line.\<close>

definition sent :: "u8 list \<Rightarrow> 't link \<Rightarrow> 't link" where
  "sent cs h =
     h\<lparr>l_checksum := (if l_checksumming h then checksum_of cs (l_checksum h) else l_checksum h),
       l_output := l_output h @ cs\<rparr>"

lemma sent_sent [simp]: "sent b (sent a h) = sent (a @ b) h"
  by (simp add: sent_def)

lemma sent_Nil [simp]: "sent [] h = h"
  by (simp add: sent_def)

lemma put_remote_char_sent: "put_remote_char h c = sent [c] h"
  by (simp add: put_remote_char_def sent_def)

lemma send_sent:
  "send_command h c = sent [COMMAND_PREFIX1, c] h" "send_byte h b = sent (enc_byte b) h"
  "send_short h s = sent (enc_short s) h" "send_word h w = sent (enc_word w) h"
proof -
  show "send_command h c = sent [COMMAND_PREFIX1, c] h"
    by (simp add: send_command_def put_remote_char_sent)
  have b: "send_byte h b = sent (enc_byte b) h" for h :: "'t link" and b
    by (simp add: send_byte_def enc_byte_def put_remote_char_sent split: option.splits)
  then show "send_byte h b = sent (enc_byte b) h" .
  have s: "send_short h s = sent (enc_short s) h" for h :: "'t link" and s
    by (simp add: send_short_def enc_short_def put_remote_char_sent b split: option.splits)
  then show "send_short h s = sent (enc_short s) h" .
  show "send_word h w = sent (enc_word w) h"
    by (simp add: send_word_def enc_word_def put_remote_char_sent s split: option.splits)
qed

lemma send_checksum_sent: "send_checksum h = sent (enc_word (l_checksum h)) (h\<lparr>l_checksumming := False\<rparr>)"
  by (simp add: send_checksum_def send_sent)

text \<open>What the monitor appends, when no character is waiting.\<close>

definition mon_sent :: "u8 list \<Rightarrow> mon \<Rightarrow> mon" where
  "mon_sent cs p =
     p\<lparr>dm_checksum := (if dm_checksumming p then checksum_of cs (dm_checksum p) else dm_checksum p),
       mn_tx := mn_tx p @ cs\<rparr>"

lemma mon_sent_sent [simp]: "mon_sent b (mon_sent a p) = mon_sent (a @ b) p"
  by (simp add: mon_sent_def)

lemma mon_sent_rx [simp]: "mn_rx (mon_sent cs p) = mn_rx p"
  by (simp add: mon_sent_def)

lemma mon_put_char_sent: "mn_rx p = [] \<Longrightarrow> mon_put_char p c = Inr (mon_sent [c] p)"
  by (simp add: mon_put_char_def check_for_stop_def mon_transmit_def mon_add_to_checksum_def mon_sent_def)

lemma mon_send_sent:
  assumes "mn_rx p = []"
  shows "mon_send_command p c = Inr (mon_sent [COMMAND_PREFIX1, c] p)" "mon_send_byte p b = Inr (mon_sent (enc_byte b) p)"
    "mon_send_short p s = Inr (mon_sent (enc_short s) p)" "mon_send_word p w = Inr (mon_sent (enc_word w) p)"
proof -
  show "mon_send_command p c = Inr (mon_sent [COMMAND_PREFIX1, c] p)"
    using assms by (simp add: mon_send_command_def mon_put_char_sent)
  have b: "mon_send_byte p b = Inr (mon_sent (enc_byte b) p)" if "mn_rx p = []" for p b
    using that by (simp add: mon_send_byte_def enc_byte_def mon_put_char_sent split: option.splits)
  with assms show "mon_send_byte p b = Inr (mon_sent (enc_byte b) p)" by blast
  have s: "mon_send_short p s = Inr (mon_sent (enc_short s) p)" if "mn_rx p = []" for p s
    using that by (simp add: mon_send_short_def enc_short_def mon_put_char_sent b split: option.splits)
  with assms show "mon_send_short p s = Inr (mon_sent (enc_short s) p)" by blast
  show "mon_send_word p w = Inr (mon_sent (enc_word w) p)"
    using assms by (simp add: mon_send_word_def enc_word_def mon_put_char_sent s split: option.splits)
qed

text \<open>
  Property C35.  What either side sends as a word, compressed or not, the other side reads as this word.  The
  debugger's \<open>send_word\<close> appends characters to the line from which the monitor's \<open>get_word\<close>, before
  whatever follows, reads the word and takes exactly these characters, and the monitor's \<open>send_word\<close>, with no
  character waiting that would stop it, appends characters from which the debugger's \<open>get_word\<close> does.  Both
  start between bytes, as they are between commands, and end so.
\<close>

theorem word_codec_roundtrip:
  assumes "mn_rx p0 = []"
  shows "(\<exists>us. l_output (send_word h0 w) = l_output h0 @ us \<and>
      (\<forall>p cs. mn_rx p = us @ cs \<and> dm_partial_length p = 0 \<longrightarrow>
        (\<exists>p'. mon_get_word p = Inr (w, p') \<and> mn_rx p' = cs \<and> dm_partial_length p' = 0))) \<and>
    (\<exists>vs p1. mon_send_word p0 w = Inr p1 \<and> mn_tx p1 = mn_tx p0 @ vs \<and> mn_rx p1 = [] \<and>
      (\<forall>h cs. l_input h = vs @ cs \<and> l_partial_length h = 0 \<longrightarrow>
        (\<exists>h'. get_word tgt h = Inr (w, h') \<and> l_input h' = cs \<and> l_partial_length h' = 0)))"
proof (intro conjI)
  have mon: "\<exists>p'. mon_get_word p = Inr (w, p') \<and> mn_rx p' = cs \<and> dm_partial_length p' = 0"
    if "mn_rx p = enc_word w @ cs \<and> dm_partial_length p = 0" for p cs
  proof -
    have "l_partial_length (h0\<lparr>l_partial_length := 0, l_input := enc_word w @ cs\<rparr>) = 0"
      "l_input (h0\<lparr>l_partial_length := 0, l_input := enc_word w @ cs\<rparr>) = enc_word w @ cs" by simp_all
    from word_decoded [OF this conjunct2 [OF that] conjunct1 [OF that], of "\<lambda>t _. ([], t)"] show ?thesis by (elim exE conjE) (intro exI conjI)
  qed
  show "\<exists>us. l_output (send_word h0 w) = l_output h0 @ us \<and>
      (\<forall>p cs. mn_rx p = us @ cs \<and> dm_partial_length p = 0 \<longrightarrow>
        (\<exists>p'. mon_get_word p = Inr (w, p') \<and> mn_rx p' = cs \<and> dm_partial_length p' = 0))"
    using mon by (intro exI [of _ "enc_word w"]) (simp add: send_sent sent_def)
  have dbg: "\<exists>h'. get_word tgt h = Inr (w, h') \<and> l_input h' = cs \<and> l_partial_length h' = 0"
    if "l_input h = enc_word w @ cs \<and> l_partial_length h = 0" for h cs
  proof -
    have "dm_partial_length (p0\<lparr>dm_partial_length := 0, mn_rx := enc_word w @ cs\<rparr>) = 0"
      "mn_rx (p0\<lparr>dm_partial_length := 0, mn_rx := enc_word w @ cs\<rparr>) = enc_word w @ cs" by simp_all
    from word_decoded [OF conjunct2 [OF that] conjunct1 [OF that] this, of tgt] show ?thesis by (elim exE conjE) (intro exI conjI)
  qed
  show "\<exists>vs p1. mon_send_word p0 w = Inr p1 \<and> mn_tx p1 = mn_tx p0 @ vs \<and> mn_rx p1 = [] \<and>
      (\<forall>h cs. l_input h = vs @ cs \<and> l_partial_length h = 0 \<longrightarrow>
        (\<exists>h'. get_word tgt h = Inr (w, h') \<and> l_input h' = cs \<and> l_partial_length h' = 0))"
    using dbg assms
    by (intro exI [of _ "enc_word w"] exI [of _ "mon_sent (enc_word w) p0"]) (simp add: mon_send_sent mon_sent_def)
qed

end
