(* ===== verification/Rem_Cmd.thy ===== *)
theory Rem_Cmd
  imports Rem_Host
begin

text \<open>
  The debugger's commands on blocks of target memory: reading and writing (\<open>dread_remote\<close>, \<open>dwrite_remote\<close> of \<open>remmem.c\<close>), copying,
  searching, zeroing, and the download that sends only the pages whose checksums differ (\<open>remcmd.c\<close>).
  These are the branches for a target that is not the simulator.
\<close>

section \<open>Reading blocks\<close>

text \<open>
  The three loops: words while four bytes are left, a halfword, a byte.  The result is the bytes read and
  whether the target reported an error, which ends the reading.  The bounds of the first two loops are
  computed with \<open>(int)nbytes\<close>: from 2 to the 31 on it is negative and everything goes byte by byte.
\<close>

definition full_words :: "nat \<Rightarrow> nat" where
  "full_words nbytes = (if nbytes < 2 ^ 31 then nbytes div 4 else 0)"

definition full_shorts :: "nat \<Rightarrow> nat" where
  "full_shorts nbytes = (if nbytes < 2 ^ 31 then nbytes mod 4 div 2 else 0)"

definition single_bytes :: "nat \<Rightarrow> nat" where
  "single_bytes nbytes = nbytes - 4 * full_words nbytes - 2 * full_shorts nbytes"

lemma bytes_split: "nbytes = 4 * full_words nbytes + (2 * full_shorts nbytes + 1 * single_bytes nbytes)"
proof (cases "nbytes < 2 ^ 31")
  case True
  have "4 * (nbytes div 4) + 2 * (nbytes mod 4 div 2) \<le> nbytes" by presburger
  with True show ?thesis by (simp add: full_words_def full_shorts_def single_bytes_def)
qed (simp add: full_words_def full_shorts_def single_bytes_def)

primrec dread_loop :: "'t target \<Rightarrow> nat \<Rightarrow> nat \<Rightarrow> u32 \<Rightarrow> nat \<Rightarrow> 't link \<Rightarrow> (u8 list \<times> bool, 't) lres" where
  "dread_loop target 0 sz addr usmode h = Inr (([], False), h)"
| "dread_loop target (Suc n) sz addr usmode h =
     mbind (read_remote target addr sz usmode h) (\<lambda>(w, h).
     if l_remote_errno h then Inr (([], True), h)
     else
       mbind (dread_loop target n sz (addr + of_nat sz) usmode h) (\<lambda>((bs, err), h).
       Inr ((drop (4 - sz) (word_bytes w) @ bs, err), h)))"

definition dread_remote :: "'t target \<Rightarrow> u32 \<Rightarrow> nat \<Rightarrow> nat \<Rightarrow> 't link \<Rightarrow> (u8 list \<times> bool, 't) lres" where
  "dread_remote target addr nbytes usmode h =
     mbind (resolve_usmode target usmode h) (\<lambda>(usmode, h).
     let words = full_words nbytes; shorts = full_shorts nbytes; bytes = single_bytes nbytes;
         addr' = addr + of_nat (4 * words); addr'' = addr' + of_nat (2 * shorts)
     in
     mbind (dread_loop target words 4 addr usmode h) (\<lambda>((bs, err), h).
     if err then Inr ((bs, True), h)
     else
       mbind (dread_loop target shorts 2 addr' usmode h) (\<lambda>((bs', err), h).
       if err then Inr ((bs @ bs', True), h)
       else
         mbind (dread_loop target bytes 1 addr'' usmode h) (\<lambda>((bs'', err), h).
         Inr ((bs @ bs' @ bs'', err), h)))))"

section \<open>Writing blocks\<close>

text \<open>The number that is made of bytes, the most significant one first.\<close>

definition value_of :: "u8 list \<Rightarrow> u32" where
  "value_of bs = fold (\<lambda>b w. push_bit 8 w OR ucast b) bs 0"

primrec dwrite_loop :: "'t target \<Rightarrow> nat \<Rightarrow> nat \<Rightarrow> u32 \<Rightarrow> u8 list \<Rightarrow> nat \<Rightarrow> 't link \<Rightarrow> (link_stop \<times> 't link) + 't link" where
  "dwrite_loop target 0 sz addr bs usmode h = Inr h"
| "dwrite_loop target (Suc n) sz addr bs usmode h =
     mbind (write_remote target addr (value_of (take sz bs)) sz usmode h) (\<lambda>h.
     if l_remote_errno h then Inl (Rerr, h)
     else dwrite_loop target n sz (addr + of_nat sz) (drop sz bs) usmode h)"

text \<open>\<open>remmem.c\<close> compiles \<open>dwrite_remote\<close> only if \<open>DWRITE_NEEDED\<close> is defined, which nothing in the repository does.\<close>

definition dwrite_remote :: "'t target \<Rightarrow> u32 \<Rightarrow> u8 list \<Rightarrow> nat \<Rightarrow> 't link \<Rightarrow> (link_stop \<times> 't link) + 't link" where
  "dwrite_remote target addr bs usmode h =
     mbind (resolve_usmode target usmode h) (\<lambda>(usmode, h).
     let nbytes = length bs; words = full_words nbytes; shorts = full_shorts nbytes; bytes = single_bytes nbytes;
         addr' = addr + of_nat (4 * words); addr'' = addr' + of_nat (2 * shorts)
     in
     mbind (dwrite_loop target words 4 addr bs usmode h) (\<lambda>h.
     mbind (dwrite_loop target shorts 2 addr' (drop (4 * words) bs) usmode h) (\<lambda>h.
     dwrite_loop target bytes 1 addr'' (drop (2 * shorts) (drop (4 * words) bs)) usmode h)))"

section \<open>Copying, searching, zeroing\<close>

definition send_words :: "u32 list \<Rightarrow> 't link \<Rightarrow> 't link" where
  "send_words ws h = fold (\<lambda>w h. send_word h w) ws h"

definition parity_flag :: "'t link \<Rightarrow> u32" where
  "parity_flag h = (if l_vars h ''noparityinit'' = 0 then 1 else 0)"

definition remote_copymem :: "'t target \<Rightarrow> u32 \<Rightarrow> u32 \<Rightarrow> u32 \<Rightarrow> 't link \<Rightarrow> (link_stop \<times> 't link) + 't link" where
  "remote_copymem target src dst len h =
     (let h = send_command (init_checksum (invalidate_mem_cache h)) C_COPYMEM;
          h = send_words [src, dst, len, parity_flag h] h;
          h = send_checksum (send_command h C_END)
      in expect_token target C_ACK C_NONE h)"

definition remote_zeromem :: "'t target \<Rightarrow> u32 \<Rightarrow> u32 \<Rightarrow> 't link \<Rightarrow> (link_stop \<times> 't link) + 't link" where
  "remote_zeromem target addr len h =
     (let h = send_words [addr, len] (send_command (init_checksum (invalidate_mem_cache h)) C_FILL);
          h = send_checksum (send_command h C_END)
      in expect_token target C_ACK C_NONE h)"

definition remote_searchmem ::
  "'t target \<Rightarrow> u32 \<Rightarrow> u32 \<Rightarrow> u32 \<Rightarrow> u32 \<Rightarrow> u32 \<Rightarrow> u32 \<Rightarrow> u32 \<Rightarrow> 't link \<Rightarrow> (u32, 't) lres" where
  "remote_searchmem target addr len pattern1 pattern2 mask1 mask2 stride h =
     (if mask1 AND pattern1 \<noteq> pattern1 \<or> mask2 AND pattern2 \<noteq> pattern2 then Inl (Rerr, h)
      else
        let h = send_command (init_checksum h) C_SEARCH;
            h = send_words [addr, len, stride, pattern1, pattern2, mask1, mask2, parity_flag h] h;
            h = init_checksum (send_checksum (send_command h C_END))
        in
        mbind (expect_token target C_DATASTART C_DATAERROR h) (\<lambda>h.
        mbind (get_word target h) (\<lambda>(search_addr, h).
        mbind (end_of_data target h) (\<lambda>h.
        Inr (search_addr, h)))))"

section \<open>Downloading\<close>

abbreviation (input) DL_PAGESIZE :: nat where "DL_PAGESIZE \<equiv> 4096"

text \<open>The words of a buffer that was read from a file, as the host sees them.\<close>

fun file_words :: "bool \<Rightarrow> u8 list \<Rightarrow> u32 list" where
  "file_words big (a # b # c # d # bs) =
     (let cat = \<lambda>a b c d. push_bit 24 (ucast a) OR push_bit 16 (ucast b) OR push_bit 8 (ucast c) OR ucast d
      in (if big then cat a b c d else cat d c b a) # file_words big bs)"
| "file_words big _ = []"

text \<open>\<open>checksum_of\<close>: the checksum of whole words.\<close>

definition block_checksum :: "u32 list \<Rightarrow> u32" where
  "block_checksum ws = fold (\<lambda>w cs. add_to_checksum cs w) ws 0"

definition block_size :: "nat \<Rightarrow> nat \<Rightarrow> nat \<Rightarrow> nat" where
  "block_size i blocks len =
     (let b = (if i = blocks - 1 then len mod DL_PAGESIZE else DL_PAGESIZE)
      in if b = 0 then DL_PAGESIZE else b)"

primrec get_words :: "'t target \<Rightarrow> nat \<Rightarrow> 't link \<Rightarrow> (u32 list, 't) lres" where
  "get_words target 0 h = Inr ([], h)"
| "get_words target (Suc n) h =
     mbind (get_word target h) (\<lambda>(w, h). mbind (get_words target n h) (\<lambda>(ws, h). Inr (w # ws, h)))"

text \<open>One page: it is sent if the target's checksum differs.\<close>

definition download_block :: "'t target \<Rightarrow> u32 \<Rightarrow> u32 \<Rightarrow> u8 list \<Rightarrow> 't link \<Rightarrow> (link_stop \<times> 't link) + 't link" where
  "download_block target cs addr data h =
     (let ws = file_words (l_big_endian h) data;
          h = h\<lparr>l_checksum := block_checksum ws, l_checksumming := True\<rparr>
      in
      if cs \<noteq> block_checksum ws then
        let h = send_words [addr, of_nat (length data)] (send_command (init_checksum h) C_DOWNLOAD);
            h = send_checksum (send_command (send_words ws h) C_END)
        in expect_token target C_ACK C_DATAERROR h
      else Inr h)"

fun download_blocks ::
  "'t target \<Rightarrow> nat \<Rightarrow> nat \<Rightarrow> nat \<Rightarrow> u32 \<Rightarrow> u8 list \<Rightarrow> u32 list \<Rightarrow> 't link \<Rightarrow> (u8 list, 't) lres" where
  "download_blocks target i blocks len addr file [] h = Inr (file, h)"
| "download_blocks target i blocks len addr file (cs # css) h =
     (let n = block_size i blocks len in
      if length file < n then Inl (Rerr, h)
      else
        mbind (download_block target cs addr (take n file) h) (\<lambda>h.
        download_blocks target (Suc i) blocks len (addr + of_nat n) (drop n file) css h))"

text \<open>\<open>file\<close> are the bytes that \<open>read\<close> delivers; the result is what is left of them.\<close>

definition download :: "'t target \<Rightarrow> u8 list \<Rightarrow> u32 \<Rightarrow> u32 \<Rightarrow> 't link \<Rightarrow> (u8 list, 't) lres" where
  "download target file start_addr len h =
     (if len AND 3 \<noteq> 0 then Inl (Undefined, h)
      else
        let blocks = unat (drop_bit 12 (len + 4095));
            h = send_command (init_checksum h)
                  (if l_vars h ''noparityinit'' \<noteq> 0 then C_CHECKSUMNOINIT else C_CHECKSUM);
            h = send_checksum (send_command (send_words [start_addr, len] h) C_END)
        in
        mbind (expect_token target C_DATASTART C_DATAERROR h) (\<lambda>h.
        mbind (get_words target blocks h) (\<lambda>(css, h).
        mbind (expect_token target C_DATAEND C_NONE h) (\<lambda>h.
        download_blocks target 0 blocks (unat len) start_addr file css (invalidate_mem_cache h)))))"

end
