(* ===== verification/Rem_Protocol.thy ===== *)
theory Rem_Protocol
  imports Rem_Line Rem_Cmd
begin

text \<open>
  The debugger and the monitor together: what a command that the debugger sends does to the memory of
  the target, and what the debugger gets back.  In these theorems the target at the other end of the
  line is the model of the monitor.
\<close>

section \<open>The monitor's memory while it receives\<close>

lemma put_mem_append: "put_mem a (bs @ cs) f = put_mem (a + of_nat (length bs)) cs (put_mem a bs f)"
  by (induction bs arbitrary: a f) (simp_all add: algebra_simps)

definition mapped_range :: "mon \<Rightarrow> u32 \<Rightarrow> nat \<Rightarrow> bool" where
  "mapped_range p a n \<longleftrightarrow> (\<forall>i < n. mn_mapped p (a + of_nat i))"

lemma mapped_range_split:
  "mapped_range p a (m + n) \<longleftrightarrow> mapped_range p a m \<and> mapped_range p (a + of_nat m) n"
proof
  assume all: "mapped_range p a (m + n)"
  have "mn_mapped p (a + of_nat m + of_nat j)" if "j < n" for j
    using all that unfolding mapped_range_def by (metis add.assoc add_strict_left_mono of_nat_add)
  with all show "mapped_range p a m \<and> mapped_range p (a + of_nat m) n"
    unfolding mapped_range_def by simp
next
  assume both: "mapped_range p a m \<and> mapped_range p (a + of_nat m) n"
  have "mn_mapped p (a + of_nat i)" if "i < m + n" for i
  proof (cases "i < m")
    case False
    then have "i = m + (i - m)" "i - m < n" using that by simp_all
    moreover have "mn_mapped p (a + of_nat m + of_nat (i - m))"
      using both \<open>i - m < n\<close> unfolding mapped_range_def by blast
    ultimately show ?thesis by (metis add.assoc of_nat_add)
  qed (use both in \<open>simp add: mapped_range_def\<close>)
  then show "mapped_range p a (m + n)" unfolding mapped_range_def by blast
qed

text \<open>\<open>stores us f p p'\<close>: the characters \<open>us\<close> were taken and memory became \<open>f\<close>.\<close>

definition stores :: "u8 list \<Rightarrow> (u32 \<Rightarrow> u8) \<Rightarrow> mon \<Rightarrow> mon \<Rightarrow> bool" where
  "stores us f p p' \<longleftrightarrow> mn_rx p = us @ mn_rx p' \<and> dm_checksumming p' = dm_checksumming p \<and>
     dm_checksum p' = (if dm_checksumming p then checksum_of us (dm_checksum p) else dm_checksum p) \<and>
     mon_core p' = (mon_core p)\<lparr>mn_mem := f\<rparr>"

lemma core_fields:
  "mn_mem (mon_core p) = mn_mem p" "mn_mapped (mon_core p) = mn_mapped p" "mn_tx (mon_core p) = mn_tx p"
  "dm_in_mon (mon_core p) = dm_in_mon p" "mn_user (mon_core p) = mn_user p"
  by (simp_all add: mon_core_def)

lemma stores_mapped: "stores us f p p' \<Longrightarrow> mapped_range p' = mapped_range p"
proof -
  assume "stores us f p p'"
  then have "mn_mapped (mon_core p') = mn_mapped ((mon_core p)\<lparr>mn_mem := f\<rparr>)" by (simp add: stores_def)
  then show ?thesis by (simp add: core_fields mapped_range_def fun_eq_iff)
qed

lemma stores_mem: "stores us f p p' \<Longrightarrow> mn_mem p' = f"
proof -
  assume "stores us f p p'"
  then have "mn_mem (mon_core p') = mn_mem ((mon_core p)\<lparr>mn_mem := f\<rparr>)" by (simp add: stores_def)
  then show ?thesis by (simp add: core_fields)
qed

lemma taken_stores: "mline.taken us p p' \<Longrightarrow> stores us (mn_mem p) p p'"
  by (simp add: mline.taken_def stores_def mon_core_def)

lemma stores_trans: "stores us f p p' \<Longrightarrow> stores vs g p' p'' \<Longrightarrow> stores (us @ vs) g p p''"
  by (auto simp: stores_def mon_core_def)

lemma holds_store:
  assumes "mline.holds bs us p" and "p' = p\<lparr>mn_mem := f\<rparr>"
  shows "mline.holds bs us p'"
  using assms by (simp add: mline.holds_def mon_pending_def)

lemma stores_now: "stores [] f p (p\<lparr>mn_mem := f\<rparr>)"
  by (simp add: stores_def mon_core_def)

section \<open>The loops of a download\<close>

lemma split_word:
  assumes "length data = 4 + n"
  obtains w rest where "data = word_bytes w @ rest" and "length rest = n"
proof -
  obtain a b c d rest where "data = a # b # c # d # rest" "length rest = n"
    using assms by (auto simp: numeral_eq_Suc length_Suc_conv)
  then have "data = word_bytes (bytes_word a b c d) @ rest" by (simp add: word_bytes_word)
  then show ?thesis using \<open>length rest = n\<close> by (rule that)
qed

lemma split_short:
  assumes "length data = 2 + n"
  obtains s rest where "data = short_bytes s @ rest" and "length rest = n"
proof -
  obtain a b rest where d: "data = a # b # rest" "length rest = n"
    using assms by (auto simp: numeral_eq_Suc length_Suc_conv)
  let ?s = "push_bit 8 (ucast a) OR ucast b :: u16"
  have "(ucast (drop_bit 8 ?s) :: u8) = a" "(ucast ?s :: u8) = b"
    by (rule bit_word_eqI, auto simp: bit_simps dest: bit_imp_le_length)+
  then have "data = short_bytes ?s @ rest" by (simp add: d short_bytes_def)
  then show ?thesis using d(2) by (rule that)
qed

lemma mapped_word: "mapped_range p a (4 + n) \<Longrightarrow>
    mn_mapped p a \<and> mn_mapped p (a + 1) \<and> mn_mapped p (a + 2) \<and> mn_mapped p (a + 3)"
proof -
  assume r: "mapped_range p a (4 + n)"
  have m: "mn_mapped p (a + of_nat i)" if "i < 4 + n" for i
    using r that unfolding mapped_range_def by blast
  show ?thesis using m [of 0] m [of 1] m [of 2] m [of 3] by simp
qed

lemma mon_get_short_holds:
  assumes "mline.holds (short_bytes s @ bs) us p"
  shows "\<exists>p' us1 us2. mon_get_short p = Inr (s, p') \<and> us = us1 @ us2 \<and> mline.taken us1 p p' \<and> mline.holds bs us2 p'"
proof -
  have "push_bit 8 (ucast (ucast (drop_bit 8 s) :: u8)) OR ucast (ucast s :: u8) = s"
  proof (rule bit_word_eqI)
    fix n :: nat
    assume "n < LENGTH(16)"
    then show "bit (push_bit 8 (ucast (ucast (drop_bit 8 s) :: u8)) OR ucast (ucast s :: u8) :: u16) n = bit s n"
      by (cases "n < 8") (auto simp: bit_simps)
  qed
  moreover have "mon_get_short p = mbind (mline.receive 2 p) (\<lambda>(bs, p). Inr (push_bit 8 (ucast (bs ! 0)) OR ucast (bs ! 1), p))"
    by (auto simp: mon_get_short_def numeral_2_eq_2 mbind_def split: sum.splits)
  moreover have "length (short_bytes s) = 2" by (simp add: short_bytes_def)
  ultimately have "mon_get_short p = Inr (s, p')" if "mline.receive 2 p = Inr (short_bytes s, p')" for p'
    using that by (simp add: short_bytes_def)
  with mline.receive_holds [OF assms] show ?thesis
    unfolding \<open>length (short_bytes s) = 2\<close> by blast
qed

text \<open>What each of the loops does: it takes the characters of its bytes and stores them.\<close>

lemma dl_words_stores:
  "mline.holds (data @ bs) us p \<Longrightarrow> length data = 4 * n \<Longrightarrow> mapped_range p a (4 * n) \<Longrightarrow>
     \<exists>p' us1 us2. dl_words n a p = Inr p' \<and> us = us1 @ us2 \<and> stores us1 (put_mem a data (mn_mem p)) p p' \<and>
       mline.holds bs us2 p'"
proof (induction n arbitrary: data us p a)
  case 0
  then show ?case
    by (intro exI [of _ p] exI [of _ "[]"] exI [of _ us]) (simp add: taken_stores mline.taken_refl)
next
  case (Suc n)
  obtain w rest where d: "data = word_bytes w @ rest" "length rest = 4 * n"
    using split_word [of data "4 * n"] Suc.prems(2) by auto
  have len: "length (word_bytes w) = 4" by (simp add: word_bytes_def)
  obtain p1 us1 us2 where 1: "mon_get_word p = Inr (w, p1)" "us = us1 @ us2" "mline.taken us1 p p1"
    "mline.holds (rest @ bs) us2 p1"
    using mon_get_word_holds [of w "rest @ bs" us p] Suc.prems(1) d(1) by auto
  note s1 = taken_stores [OF 1(3)]
  have r1: "mapped_range p1 a (4 + 4 * n)" using Suc.prems(3) stores_mapped [OF s1] by simp
  let ?f = "put_mem a (word_bytes w) (mn_mem p1)"
  let ?p2 = "p1\<lparr>mn_mem := ?f\<rparr>"
  have st: "mon_store_word p1 a w = Inr ?p2"
    using mapped_word [OF r1] by (simp add: mon_store_word_def)
  have r2: "mapped_range ?p2 (a + 4) (4 * n)"
    using r1 mapped_range_split [of p1 a 4 "4 * n"] by (simp add: mapped_range_def)
  obtain p3 us3 us4 where 3: "dl_words n (a + 4) ?p2 = Inr p3" "us2 = us3 @ us4"
    "stores us3 (put_mem (a + 4) rest (mn_mem ?p2)) ?p2 p3" "mline.holds bs us4 p3"
    using Suc.IH [OF holds_store [OF 1(4) refl] d(2) r2] by blast
  have "put_mem (a + 4) rest (mn_mem ?p2) = put_mem a data (mn_mem p)"
    using stores_mem [OF s1] by (simp add: d(1) put_mem_append len)
  then have "stores (us1 @ us3) (put_mem a data (mn_mem p)) p p3"
    using stores_trans [OF s1 stores_trans [OF stores_now 3(3)]] by simp
  moreover have "dl_words (Suc n) a p = Inr p3" using 1(1) st 3(1) by simp
  ultimately show ?case using 1(2) 3(2,4) by (metis append_assoc)
qed

lemma dl_shorts_stores:
  "mline.holds (data @ bs) us p \<Longrightarrow> length data = 2 * n \<Longrightarrow> mapped_range p a (2 * n) \<Longrightarrow>
     \<exists>p' us1 us2. dl_shorts n a p = Inr p' \<and> us = us1 @ us2 \<and> stores us1 (put_mem a data (mn_mem p)) p p' \<and>
       mline.holds bs us2 p'"
proof (induction n arbitrary: data us p a)
  case 0
  then show ?case
    by (intro exI [of _ p] exI [of _ "[]"] exI [of _ us]) (simp add: taken_stores mline.taken_refl)
next
  case (Suc n)
  obtain w rest where d: "data = short_bytes w @ rest" "length rest = 2 * n"
    using split_short [of data "2 * n"] Suc.prems(2) by auto
  have len: "length (short_bytes w) = 2" by (simp add: short_bytes_def)
  obtain p1 us1 us2 where 1: "mon_get_short p = Inr (w, p1)" "us = us1 @ us2" "mline.taken us1 p p1"
    "mline.holds (rest @ bs) us2 p1"
    using mon_get_short_holds [of w "rest @ bs" us p] Suc.prems(1) d(1) by auto
  note s1 = taken_stores [OF 1(3)]
  have r1: "mapped_range p1 a (2 + 2 * n)" using Suc.prems(3) stores_mapped [OF s1] by simp
  let ?f = "put_mem a (short_bytes w) (mn_mem p1)"
  let ?p2 = "p1\<lparr>mn_mem := ?f\<rparr>"
  have m: "mn_mapped p1 (a + of_nat i)" if "i < 2 + 2 * n" for i
    using r1 that unfolding mapped_range_def by blast
  have st: "mon_store_short p1 a w = Inr ?p2"
    using m [of 0] m [of 1] by (simp add: mon_store_short_def)
  have r2: "mapped_range ?p2 (a + 2) (2 * n)"
    using r1 mapped_range_split [of p1 a 2 "2 * n"] by (simp add: mapped_range_def)
  obtain p3 us3 us4 where 3: "dl_shorts n (a + 2) ?p2 = Inr p3" "us2 = us3 @ us4"
    "stores us3 (put_mem (a + 2) rest (mn_mem ?p2)) ?p2 p3" "mline.holds bs us4 p3"
    using Suc.IH [OF holds_store [OF 1(4) refl] d(2) r2] by blast
  have "put_mem (a + 2) rest (mn_mem ?p2) = put_mem a data (mn_mem p)"
    using stores_mem [OF s1] by (simp add: d(1) put_mem_append len)
  then have "stores (us1 @ us3) (put_mem a data (mn_mem p)) p p3"
    using stores_trans [OF s1 stores_trans [OF stores_now 3(3)]] by simp
  moreover have "dl_shorts (Suc n) a p = Inr p3" using 1(1) st 3(1) by simp
  ultimately show ?case using 1(2) 3(2,4) by (metis append_assoc)
qed

lemma dl_bytes_stores:
  "mline.holds (data @ bs) us p \<Longrightarrow> mapped_range p a (length data) \<Longrightarrow>
     \<exists>p' us1 us2. dl_bytes False (length data) a p = Inr p' \<and> us = us1 @ us2 \<and>
       stores us1 (put_mem a data (mn_mem p)) p p' \<and> mline.holds bs us2 p'"
proof (induction data arbitrary: us p a)
  case Nil
  then show ?case
    by (intro exI [of _ p] exI [of _ "[]"] exI [of _ us]) (simp add: taken_stores mline.taken_refl)
next
  case (Cons b data)
  obtain p1 us1 us2 where 1: "mon_get_byte p = Inr (b, p1)" "us = us1 @ us2" "mline.taken us1 p p1"
    "mline.holds (data @ bs) us2 p1"
    using mline.get_one_holds [of b "data @ bs" us p] Cons.prems(1) by auto
  note s1 = taken_stores [OF 1(3)]
  have r1: "mapped_range p1 a (1 + length data)" using Cons.prems(2) stores_mapped [OF s1] by simp
  let ?p2 = "p1\<lparr>mn_mem := (mn_mem p1)(a := b)\<rparr>"
  have "mn_mapped p1 (a + of_nat 0)" using r1 unfolding mapped_range_def by blast
  then have st: "mon_store p1 a b = Inr ?p2" by (simp add: mon_store_def)
  have r2: "mapped_range ?p2 (a + 1) (length data)"
    using r1 mapped_range_split [of p1 a 1 "length data"] by (simp add: mapped_range_def)
  obtain p3 us3 us4 where 3: "dl_bytes False (length data) (a + 1) ?p2 = Inr p3" "us2 = us3 @ us4"
    "stores us3 (put_mem (a + 1) data (mn_mem ?p2)) ?p2 p3" "mline.holds bs us4 p3"
    using Cons.IH [OF holds_store [OF 1(4) refl] r2] by blast
  have "put_mem (a + 1) data (mn_mem ?p2) = put_mem a (b # data) (mn_mem p)"
    using stores_mem [OF s1] by simp
  then have "stores (us1 @ us3) (put_mem a (b # data) (mn_mem p)) p p3"
    using stores_trans [OF s1 stores_trans [OF stores_now 3(3)]] by simp
  moreover have "dl_bytes False (length (b # data)) a p = Inr p3" using 1(1) st 3(1) by simp
  ultimately show ?case using 1(2) 3(2,4) by (metis append_assoc)
qed


section \<open>The end of a packet\<close>

text \<open>
  \<open>C_END\<close> and the checksum of everything that the debugger sent since \<open>init_checksum\<close>: the monitor goes
  on, no longer summing.
\<close>

lemma packet_end:
  assumes "mon_pending p = []" and "mn_rx p = [COMMAND_PREFIX1, C_END] @ enc_word ck @ cs" and "dm_checksumming p"
    and "ck = checksum_of [COMMAND_PREFIX1, C_END] (dm_checksum p)"
  shows "\<exists>p1 p'. mon_wait_for_token p C_END = Inr p1 \<and> mon_verify_checksum p1 = Inr p' \<and>
    mn_rx p' = cs \<and> mon_pending p' = [] \<and> mon_core p' = (mon_core p)\<lparr>dm_checksumming := False\<rparr>"
proof -
  let ?p1 = "p\<lparr>mn_rx := enc_word ck @ cs, dm_checksum := ck\<rparr>"
  let ?p2 = "?p1\<lparr>dm_checksumming := False\<rparr>"
  have 1: "mon_wait_for_token p C_END = Inr ?p1"
    using assms by (simp add: mon_wait_for_token_def mon_get_char_def mon_add_to_checksum_def)
  have "mline.holds (word_bytes ck @ []) (enc_word ck) ?p2"
    using assms(1) encodes_word [of ck] by (simp add: mline.holds_def mon_pending_def)
  from mon_get_word_holds [OF this] obtain p' us1 us2 where 2: "mon_get_word ?p2 = Inr (ck, p')"
    "enc_word ck = us1 @ us2" "mline.taken us1 ?p2 p'" "mline.holds [] us2 p'" by blast
  have e: "us2 = []" "mon_pending p' = []" using mline.holds_empty [OF 2(4)] by simp_all
  with 2(2,3) have t: "mn_rx p' = cs" "mon_core p' = mon_core ?p2" "dm_checksum p' = ck"
    by (auto simp: mline.taken_def)
  then have "mon_verify_checksum ?p1 = Inr p'" using 2(1) by (simp add: mon_verify_checksum_def)
  moreover have "mon_core ?p2 = (mon_core p)\<lparr>dm_checksumming := False\<rparr>" by (simp add: mon_core_def)
  ultimately show ?thesis using 1 t e by metis
qed

text \<open>A wrong checksum: the monitor reports it and starts again.\<close>

lemma packet_bad_checksum:
  assumes "mon_pending p = []" and "mn_rx p = enc_word ck" and "dm_checksum p \<noteq> ck"
  shows "\<exists>r p'. mon_verify_checksum p = Inl (r, p') \<and> r \<in> {Restarts, Resets} \<and> mn_mem p' = mn_mem p \<and>
    mn_tx p' = mn_tx p @ [COMMAND_PREFIX1, C_CHECKSUMERR] @ enc_word (dm_checksum p) @ enc_word ck"
proof -
  let ?p = "p\<lparr>dm_checksumming := False\<rparr>"
  have "mline.holds (word_bytes ck @ []) (enc_word ck) ?p"
    using assms(1,2) encodes_word [of ck] by (simp add: mline.holds_def mon_pending_def)
  from mon_get_word_holds [OF this] obtain p' us1 us2 where 2: "mon_get_word ?p = Inr (ck, p')"
    "enc_word ck = us1 @ us2" "mline.taken us1 ?p p'" "mline.holds [] us2 p'" by blast
  have "us2 = []" using mline.holds_empty [OF 2(4)] by simp
  with 2(2,3) assms(2) have rx: "mn_rx p' = []" and c: "mon_core p' = mon_core ?p"
    and ck: "dm_checksum p' = dm_checksum p" "\<not> dm_checksumming p'"
    by (auto simp: mline.taken_def)
  from c have "mn_tx (mon_core p') = mn_tx (mon_core ?p)" "mn_mem (mon_core p') = mn_mem (mon_core ?p)" by simp_all
  then have tx: "mn_tx p' = mn_tx p" "mn_mem p' = mn_mem p" by (simp_all add: mon_core_def)
  have "mon_verify_checksum p = Inl (xrestart (mon_sent ([COMMAND_PREFIX1, C_CHECKSUMERR] @ enc_word (dm_checksum p) @ enc_word ck) p'))"
    using 2(1) assms(3) ck rx by (simp add: mon_verify_checksum_def mon_send_sent mon_sent_def)
  then show ?thesis using tx by (simp add: xrestart_def mon_sent_def)
qed


section \<open>Download packets\<close>

text \<open>Everything that receiving and answering leaves alone.\<close>

definition mon_rest :: "mon \<Rightarrow> mon" where
  "mon_rest p = (mon_core p)\<lparr>dm_checksumming := False, mn_tx := [], mn_mem := (\<lambda>_. 0)\<rparr>"

lemma rest_fields:
  "mn_mapped (mon_rest p) = mn_mapped p" "mn_user (mon_rest p) = mn_user p" "dm_in_mon (mon_rest p) = dm_in_mon p"
  "mn_cpu (mon_rest p) = mn_cpu p"
  by (simp_all add: mon_rest_def mon_core_def)

lemma split_data:
  assumes "m \<le> length data"
  obtains d1 d2 where "data = d1 @ d2" "length d1 = m" "length d2 = length data - m"
  using that [of "take m data" "drop m data"] assms by simp

text \<open>The three loops together store all the bytes of the packet.\<close>

lemma dl_loops_store:
  assumes "mline.holds (data @ bs) us p" and "mapped_range p a (length data)"
    and "4 * m \<le> length data" and "4 * m + 2 * k \<le> length data"
  shows "\<exists>p1 p2 p3 us1 us2. dl_words m a p = Inr p1 \<and> dl_shorts k (a + of_nat (4 * m)) p1 = Inr p2 \<and>
    dl_bytes False (length data - 4 * m - 2 * k) (a + of_nat (4 * m) + of_nat (2 * k)) p2 = Inr p3 \<and> us = us1 @ us2 \<and>
    stores us1 (put_mem a data (mn_mem p)) p p3 \<and> mline.holds bs us2 p3"
proof -
  obtain d1 d' where d1: "data = d1 @ d'" "length d1 = 4 * m" "length d' = length data - 4 * m"
    using assms(3) by (rule split_data)
  have "2 * k \<le> length d'" using assms(4) d1(3) by linarith
  then obtain d2 d3 where d2: "d' = d2 @ d3" "length d2 = 2 * k" "length d3 = length d' - 2 * k"
    by (rule split_data)
  have "length data = 4 * m + (2 * k + length d3)" using assms(3,4) d1(2,3) d2(2,3) by simp
  with assms(2) have mapped: "mapped_range p a (4 * m)" "mapped_range p (a + of_nat (4 * m)) (2 * k)"
    "mapped_range p (a + of_nat (4 * m) + of_nat (2 * k)) (length d3)"
    by (simp_all only: mapped_range_split)
  have "mline.holds (d1 @ d2 @ d3 @ bs) us p" using assms(1) by (simp add: d1(1) d2(1))
  from dl_words_stores [OF this d1(2) mapped(1)] obtain p1 us1 us' where
    1: "dl_words m a p = Inr p1" "us = us1 @ us'" "stores us1 (put_mem a d1 (mn_mem p)) p p1"
    "mline.holds (d2 @ d3 @ bs) us' p1" by blast
  from dl_shorts_stores [OF 1(4) d2(2)] mapped(2) stores_mapped [OF 1(3)] obtain p2 us2 us'' where
    2: "dl_shorts k (a + of_nat (4 * m)) p1 = Inr p2" "us' = us2 @ us''"
    "stores us2 (put_mem (a + of_nat (4 * m)) d2 (mn_mem p1)) p1 p2" "mline.holds (d3 @ bs) us'' p2" by metis
  have "mapped_range p2 (a + of_nat (4 * m) + of_nat (2 * k)) (length d3)"
    using mapped(3) stores_mapped [OF 1(3)] stores_mapped [OF 2(3)] by simp
  from dl_bytes_stores [OF 2(4) this] obtain p3 us3 us4 where
    3: "dl_bytes False (length d3) (a + of_nat (4 * m) + of_nat (2 * k)) p2 = Inr p3" "us'' = us3 @ us4"
    "stores us3 (put_mem (a + of_nat (4 * m) + of_nat (2 * k)) d3 (mn_mem p2)) p2 p3" "mline.holds bs us4 p3" by blast
  have "stores (us1 @ us2 @ us3) (put_mem a data (mn_mem p)) p p3"
    using stores_trans [OF 1(3) stores_trans [OF 2(3) 3(3)]] stores_mem [OF 1(3)] stores_mem [OF 2(3)]
    by (simp add: put_mem_append d1(1,2) d2(1,2))
  moreover have "length d3 = length data - 4 * m - 2 * k" using d1(3) d2(3) by simp
  ultimately show ?thesis using 1(1,2) 2(1,2) 3(1,2,4) by (metis append_assoc)
qed

text \<open>A download up to the end of its packet: all the bytes are stored before the checksum is looked at.\<close>

lemma download_cmd_data:
  assumes "mon_pending p = []" and "mn_rx p = us @ vs" and "dm_checksumming p"
    and "encodes us (word_bytes a @ word_bytes (of_nat (length data)) @ data)" and "length data < 2 ^ 32"
    and "mapped_range p a (length data)"
  shows "\<exists>p'. download_cmd p False =
      mbind (mon_wait_for_token p' C_END) (\<lambda>p. mbind (mon_verify_checksum p) (\<lambda>p. mon_send_command p C_ACK)) \<and>
    mn_rx p' = vs \<and> dm_checksumming p' \<and> mon_pending p' = [] \<and> dm_checksum p' = checksum_of us (dm_checksum p) \<and>
    mon_core p' = (mon_core p)\<lparr>mn_mem := put_mem a data (mn_mem p)\<rparr>"
proof -
  let ?len = "of_nat (length data) :: u32"
  have len: "unat ?len = length data" using assms(5) by (simp add: unat_of_nat)
  have "mline.holds (word_bytes a @ word_bytes ?len @ data @ []) us p"
    using assms(1,2,4) by (simp add: mline.holds_def)
  from mon_get_word_holds [OF this] obtain p1 us1 us' where
    1: "mon_get_word p = Inr (a, p1)" "us = us1 @ us'" "mline.taken us1 p p1"
    "mline.holds (word_bytes ?len @ data @ []) us' p1" by blast
  from mon_get_word_holds [OF 1(4)] obtain p2 us2 us'' where
    2: "mon_get_word p1 = Inr (?len, p2)" "us' = us2 @ us''" "mline.taken us2 p1 p2" "mline.holds (data @ []) us'' p2"
    by blast
  note s2 = taken_stores [OF mline.taken_trans [OF 1(3) 2(3)]]
  have m2: "mapped_range p2 a (length data)" using assms(6) stores_mapped [OF s2] by simp
  define m where "m = (if a AND 3 = 0 \<and> \<not> False then length data div 4 else 0)"
  define k where "k = (if (a + of_nat (4 * m)) AND 1 = 0 \<and> \<not> False then (length data - 4 * m) div 2 else 0)"
  have mk1: "4 * m \<le> length data" by (simp add: m_def)
  moreover have "2 * k \<le> length data - 4 * m" by (simp add: k_def)
  ultimately have mk2: "4 * m + 2 * k \<le> length data" by linarith
  obtain p3 p4 p5 us3 us4 where 3: "dl_words m a p2 = Inr p3" "dl_shorts k (a + of_nat (4 * m)) p3 = Inr p4"
    "dl_bytes False (length data - 4 * m - 2 * k) (a + of_nat (4 * m) + of_nat (2 * k)) p4 = Inr p5" "us'' = us3 @ us4"
    "stores us3 (put_mem a data (mn_mem p2)) p2 p5" "mline.holds [] us4 p5"
    using dl_loops_store [OF 2(4) m2 mk1 mk2] by blast
  have e: "us4 = []" "mon_pending p5 = []" using mline.holds_empty [OF 3(6)] by simp_all
  have "stores us (put_mem a data (mn_mem p)) p p5"
    using stores_trans [OF s2 3(5)] stores_mem [OF s2] e(1) 1(2) 2(2) 3(4) by simp
  then have "mn_rx p5 = vs" "dm_checksumming p5" "dm_checksum p5 = checksum_of us (dm_checksum p)"
    "mon_core p5 = (mon_core p)\<lparr>mn_mem := put_mem a data (mn_mem p)\<rparr>"
    using assms(2,3) by (auto simp: stores_def)
  moreover have "download_cmd p False =
      mbind (mon_wait_for_token p5 C_END) (\<lambda>p. mbind (mon_verify_checksum p) (\<lambda>p. mon_send_command p C_ACK))"
    by (simp only: download_cmd_def Let_def 1(1) 2(1) mbind_simps prod.case len m_def [symmetric] k_def [symmetric] 3(1-3))
  ultimately show ?thesis using e(2) by blast
qed

lemma download_cmd_stores:
  assumes "mon_pending p = []" and "mn_rx p = us @ [COMMAND_PREFIX1, C_END] @ enc_word ck" and "dm_checksumming p"
    and "encodes us (word_bytes a @ word_bytes (of_nat (length data)) @ data)" and "length data < 2 ^ 32"
    and "ck = checksum_of (us @ [COMMAND_PREFIX1, C_END]) (dm_checksum p)" and "mapped_range p a (length data)"
  shows "\<exists>p'. download_cmd p False = Inr p' \<and> mn_rx p' = [] \<and> mon_pending p' = [] \<and>
    mn_tx p' = mn_tx p @ [COMMAND_PREFIX1, C_ACK] \<and> mn_mem p' = put_mem a data (mn_mem p) \<and> mon_rest p' = mon_rest p"
proof -
  obtain p5 where 5: "download_cmd p False =
      mbind (mon_wait_for_token p5 C_END) (\<lambda>p. mbind (mon_verify_checksum p) (\<lambda>p. mon_send_command p C_ACK))"
    "mn_rx p5 = [COMMAND_PREFIX1, C_END] @ enc_word ck" "dm_checksumming p5" "mon_pending p5 = []"
    "dm_checksum p5 = checksum_of us (dm_checksum p)" "mon_core p5 = (mon_core p)\<lparr>mn_mem := put_mem a data (mn_mem p)\<rparr>"
    using download_cmd_data [OF assms(1-5,7)] by blast
  have rx: "mn_rx p5 = [COMMAND_PREFIX1, C_END] @ enc_word ck @ []"
    and ck: "ck = checksum_of [COMMAND_PREFIX1, C_END] (dm_checksum p5)"
    using assms(6) 5(2,5) by auto
  obtain p6 p7 where 6: "mon_wait_for_token p5 C_END = Inr p6" "mon_verify_checksum p6 = Inr p7" "mn_rx p7 = []"
    "mon_pending p7 = []" "mon_core p7 = (mon_core p5)\<lparr>dm_checksumming := False\<rparr>"
    using packet_end [OF 5(4) rx 5(3) ck] by blast
  let ?p8 = "mon_sent [COMMAND_PREFIX1, C_ACK] p7"
  have "download_cmd p False = Inr ?p8"
    by (simp only: 5(1) 6(1,2) mbind_simps mon_send_sent(1) [OF 6(3)])
  moreover have core: "mon_core p7 = (mon_core p)\<lparr>dm_checksumming := False, mn_mem := put_mem a data (mn_mem p)\<rparr>"
    using 6(5) 5(6) by (simp add: mon_core_def)
  then have "mn_mem (mon_core p7) = put_mem a data (mn_mem p)" "mn_tx (mon_core p7) = mn_tx (mon_core p)" by simp_all
  then have "mn_mem p7 = put_mem a data (mn_mem p)" "mn_tx p7 = mn_tx p" by (simp_all add: core_fields)
  moreover have "mon_rest p7 = mon_rest p" unfolding mon_rest_def core by simp
  ultimately show ?thesis
    using 6(3,4) by (intro exI [of _ ?p8]) (simp add: mon_sent_def mon_pending_def mon_rest_def mon_core_def)
qed

end
