(* ===== verification/Rem_Upload.thy ===== *)
theory Rem_Upload
  imports Rem_Protocol
begin

text \<open>
  The packets that the monitor sends back, and its main loop on one packet: from the characters of a
  download or upload packet to the characters of the answer and the state in which the monitor waits
  for the next one.
\<close>

section \<open>The loops of an upload\<close>

definition mem_bytes :: "(u32 \<Rightarrow> u8) \<Rightarrow> u32 \<Rightarrow> nat \<Rightarrow> u8 list" where
  "mem_bytes f a n = map (\<lambda>i. f (a + of_nat i)) [0..<n]"

lemma mem_bytes_length [simp]: "length (mem_bytes f a n) = n"
  by (simp add: mem_bytes_def)

lemma mem_bytes_add: "mem_bytes f a (m + n) = mem_bytes f a m @ mem_bytes f (a + of_nat m) n"
proof -
  have "[0..<m + n] = [0..<m] @ map (\<lambda>i. m + i) [0..<n]"
    using upt_add_eq_append [of 0 m n] map_add_upt [of m n] by (simp add: add.commute)
  then show ?thesis by (simp add: mem_bytes_def o_def algebra_simps)
qed

lemma mem_bytes_small:
  "mem_bytes f a 0 = []" "mem_bytes f a (Suc 0) = [f a]" "mem_bytes f a 2 = [f a, f (a + 1)]"
  "mem_bytes f a 4 = [f a, f (a + 1), f (a + 2), f (a + 3)]"
  by (simp_all add: mem_bytes_def numeral_eq_Suc)

lemma short_bytes_short: "short_bytes (push_bit 8 (ucast a) OR ucast b) = [a, b]"
  unfolding short_bytes_def list.inject
  by (intro conjI refl; rule bit_word_eqI; auto simp: bit_simps dest: bit_imp_le_length)

lemma mon_sent_mem [simp]: "mn_mem (mon_sent cs p) = mn_mem p" "mn_mapped (mon_sent cs p) = mn_mapped p"
  by (simp_all add: mon_sent_def)

lemma mapped_range_sent [simp]: "mapped_range (mon_sent cs p) = mapped_range p"
  by (simp add: mapped_range_def fun_eq_iff)

lemma ul_words_sends:
  "mn_rx p = [] \<Longrightarrow> mapped_range p a (4 * n) \<Longrightarrow>
     \<exists>cs. ul_words n a p = Inr (mon_sent cs p) \<and> encodes cs (mem_bytes (mn_mem p) a (4 * n))"
proof (induction n arbitrary: a p)
  case 0
  have "p = mon_sent [] p" by (simp add: mon_sent_def)
  then show ?case using encodes_Nil by (auto simp: mem_bytes_small)
next
  case (Suc n)
  let ?w = "bytes_word (mn_mem p a) (mn_mem p (a + 1)) (mn_mem p (a + 2)) (mn_mem p (a + 3))"
  have r: "mapped_range p a (4 + 4 * n)" using Suc.prems(2) by simp
  let ?p = "mon_sent (enc_word ?w) p"
  have rx: "mn_rx ?p = []" using Suc.prems(1) by simp
  have m: "mapped_range ?p (a + 4) (4 * n)" using r mapped_range_split [of p a 4 "4 * n"] by simp
  obtain cs where cs: "ul_words n (a + 4) ?p = Inr (mon_sent cs ?p)" "encodes cs (mem_bytes (mn_mem p) (a + 4) (4 * n))"
    using Suc.IH [OF rx m] by auto
  have "ul_words (Suc n) a p = Inr (mon_sent (enc_word ?w @ cs) p)"
    using mapped_word [OF r] cs(1) Suc.prems(1) by (simp add: mon_load_word_def mon_send_sent)
  moreover have "encodes (enc_word ?w @ cs) (mem_bytes (mn_mem p) a (4 * Suc n))"
    using encodes_append [OF encodes_word [of ?w] cs(2)] mem_bytes_add [of "mn_mem p" a 4 "4 * n"]
    by (simp add: word_bytes_word mem_bytes_small)
  ultimately show ?case by blast
qed

lemma ul_shorts_sends:
  "mn_rx p = [] \<Longrightarrow> mapped_range p a (2 * n) \<Longrightarrow>
     \<exists>cs. ul_shorts n a p = Inr (mon_sent cs p) \<and> encodes cs (mem_bytes (mn_mem p) a (2 * n))"
proof (induction n arbitrary: a p)
  case 0
  have "p = mon_sent [] p" by (simp add: mon_sent_def)
  then show ?case using encodes_Nil by (auto simp: mem_bytes_small)
next
  case (Suc n)
  let ?s = "push_bit 8 (ucast (mn_mem p a)) OR ucast (mn_mem p (a + 1)) :: u16"
  have r: "mapped_range p a (2 + 2 * n)" using Suc.prems(2) by simp
  have "mn_mapped p (a + of_nat i)" if "i < 2 + 2 * n" for i
    using r that unfolding mapped_range_def by blast
  from this [of 0] this [of 1] have now: "mn_mapped p a" "mn_mapped p (a + 1)" by simp_all
  let ?p = "mon_sent (enc_short ?s) p"
  have rx: "mn_rx ?p = []" using Suc.prems(1) by simp
  have m: "mapped_range ?p (a + 2) (2 * n)" using r mapped_range_split [of p a 2 "2 * n"] by simp
  obtain cs where cs: "ul_shorts n (a + 2) ?p = Inr (mon_sent cs ?p)" "encodes cs (mem_bytes (mn_mem p) (a + 2) (2 * n))"
    using Suc.IH [OF rx m] by auto
  have "ul_shorts (Suc n) a p = Inr (mon_sent (enc_short ?s @ cs) p)"
    using now cs(1) Suc.prems(1) by (simp add: mon_load_short_def mon_send_sent)
  moreover have "encodes (enc_short ?s @ cs) (mem_bytes (mn_mem p) a (2 * Suc n))"
    using encodes_append [OF encodes_short [of ?s] cs(2)] mem_bytes_add [of "mn_mem p" a 2 "2 * n"]
    by (simp add: short_bytes_short mem_bytes_small)
  ultimately show ?case by blast
qed

lemma ul_bytes_sends:
  "mn_rx p = [] \<Longrightarrow> mapped_range p a n \<Longrightarrow>
     \<exists>cs. ul_bytes False n a p = Inr (mon_sent cs p) \<and> encodes cs (mem_bytes (mn_mem p) a n)"
proof (induction n arbitrary: a p)
  case 0
  have "p = mon_sent [] p" by (simp add: mon_sent_def)
  then show ?case using encodes_Nil by (auto simp: mem_bytes_small)
next
  case (Suc n)
  have r: "mapped_range p a (1 + n)" using Suc.prems(2) by simp
  then have "mn_mapped p (a + of_nat 0)" unfolding mapped_range_def by blast
  then have now: "mn_mapped p a" by simp
  let ?p = "mon_sent (enc_byte (mn_mem p a)) p"
  have rx: "mn_rx ?p = []" using Suc.prems(1) by simp
  have m: "mapped_range ?p (a + 1) n" using r mapped_range_split [of p a 1 n] by simp
  obtain cs where cs: "ul_bytes False n (a + 1) ?p = Inr (mon_sent cs ?p)" "encodes cs (mem_bytes (mn_mem p) (a + 1) n)"
    using Suc.IH [OF rx m] by auto
  have "ul_bytes False (Suc n) a p = Inr (mon_sent (enc_byte (mn_mem p a) @ cs) p)"
    using now cs(1) Suc.prems(1) by (simp add: mon_load_def mon_send_sent)
  moreover have "encodes (enc_byte (mn_mem p a) @ cs) (mem_bytes (mn_mem p) a (Suc n))"
    using encodes_append [OF encodes_byte [of "mn_mem p a"] cs(2)] mem_bytes_add [of "mn_mem p" a 1 n]
    by (simp add: mem_bytes_small)
  ultimately show ?case by blast
qed

text \<open>The three loops together send the whole range.\<close>

lemma ul_loops_send:
  assumes "mn_rx p = []" and "mapped_range p a n" and "4 * m \<le> n" and "2 * k \<le> n - 4 * m"
  shows "\<exists>p1 p2 cs. ul_words m a p = Inr p1 \<and> ul_shorts k (a + of_nat (4 * m)) p1 = Inr p2 \<and>
    ul_bytes False (n - 4 * m - 2 * k) (a + of_nat (4 * m) + of_nat (2 * k)) p2 = Inr (mon_sent cs p) \<and>
    encodes cs (mem_bytes (mn_mem p) a n)"
proof -
  define l where "l = n - 4 * m - 2 * k"
  have n: "n = 4 * m + (2 * k + l)" using assms(3,4) by (simp add: l_def)
  note mapped = assms(2) [unfolded n mapped_range_split]
  obtain cs1 where 1: "ul_words m a p = Inr (mon_sent cs1 p)" "encodes cs1 (mem_bytes (mn_mem p) a (4 * m))"
    using ul_words_sends [OF assms(1)] mapped by blast
  obtain cs2 where 2: "ul_shorts k (a + of_nat (4 * m)) (mon_sent cs1 p) = Inr (mon_sent cs2 (mon_sent cs1 p))"
    "encodes cs2 (mem_bytes (mn_mem p) (a + of_nat (4 * m)) (2 * k))"
    using ul_shorts_sends [of "mon_sent cs1 p" "a + of_nat (4 * m)" k] mapped assms(1) by auto
  obtain cs3 where 3: "ul_bytes False l (a + of_nat (4 * m) + of_nat (2 * k)) (mon_sent cs2 (mon_sent cs1 p)) =
      Inr (mon_sent cs3 (mon_sent cs2 (mon_sent cs1 p)))"
    "encodes cs3 (mem_bytes (mn_mem p) (a + of_nat (4 * m) + of_nat (2 * k)) l)"
    using ul_bytes_sends [of "mon_sent cs2 (mon_sent cs1 p)" "a + of_nat (4 * m) + of_nat (2 * k)" l] mapped assms(1) by auto
  have "encodes (cs1 @ cs2 @ cs3) (mem_bytes (mn_mem p) a n)"
    using encodes_append [OF 1(2) encodes_append [OF 2(2) 3(2)]] unfolding n mem_bytes_add by simp
  then show ?thesis using 1(1) 2(1) 3(1) unfolding l_def by (metis mon_sent_sent append_assoc)
qed


section \<open>Upload packets\<close>

lemma mon_sent_rest [simp]: "mon_rest (mon_sent cs p) = mon_rest p"
  by (simp add: mon_sent_def mon_rest_def mon_core_def)

lemma mon_sent_pending [simp]: "mon_pending (mon_sent cs p) = mon_pending p"
  by (simp add: mon_sent_def mon_pending_def)

lemma core_summing:
  "mon_core p' = (mon_core p)\<lparr>dm_checksumming := b\<rparr> \<Longrightarrow>
     mn_mem p' = mn_mem p \<and> mn_mapped p' = mn_mapped p \<and> mn_tx p' = mn_tx p \<and> mon_rest p' = mon_rest p"
  by (cases p; cases p') (simp add: mon_core_def mon_rest_def)

lemma init_checksum_fields [simp]:
  "mn_mem (mon_init_checksum p) = mn_mem p" "mon_rest (mon_init_checksum p) = mon_rest p"
  "mn_rx (mon_init_checksum p) = mn_rx p" "mon_pending (mon_init_checksum p) = mon_pending p"
  "mapped_range (mon_init_checksum p) = mapped_range p"
  by (simp_all add: mon_init_checksum_def mon_rest_def mon_core_def mon_pending_def mapped_range_def fun_eq_iff)

lemma upload_cmd_sends:
  assumes "mon_pending p = []" and "mn_rx p = us @ [COMMAND_PREFIX1, C_END] @ enc_word ck" and "dm_checksumming p"
    and "encodes us (word_bytes a @ word_bytes (of_nat n))" and "n < 2 ^ 31"
    and "ck = checksum_of (us @ [COMMAND_PREFIX1, C_END]) (dm_checksum p)" and "mapped_range p a n"
  shows "\<exists>p' cs. upload_cmd p False = Inr p' \<and> mn_rx p' = [] \<and> mon_pending p' = [] \<and>
    mn_tx p' = mn_tx p @ [COMMAND_PREFIX1, C_DATASTART] @ cs @ [COMMAND_PREFIX1, C_DATAEND] @
      enc_word (checksum_of ([COMMAND_PREFIX1, C_DATASTART] @ cs @ [COMMAND_PREFIX1, C_DATAEND]) 0) \<and>
    encodes cs (mem_bytes (mn_mem p) a n) \<and> mn_mem p' = mn_mem p \<and> mon_rest p' = mon_rest p"
proof -
  let ?len = "of_nat n :: u32"
  have "sint ?len = int n" using assms(5) by (simp add: signed_of_nat signed_take_bit_int_eq_self)
  then have len: "signed_len ?len = n" by (simp add: signed_len_def)
  have "mline.holds (word_bytes a @ word_bytes ?len @ []) us p"
    using assms(1,2,4) by (simp add: mline.holds_def)
  from mon_get_word_holds [OF this] obtain p1 us1 us' where
    1: "mon_get_word p = Inr (a, p1)" "us = us1 @ us'" "mline.taken us1 p p1" "mline.holds (word_bytes ?len @ []) us' p1"
    by blast
  from mon_get_word_holds [OF 1(4)] obtain p2 us2 us'' where
    2: "mon_get_word p1 = Inr (?len, p2)" "us' = us2 @ us''" "mline.taken us2 p1 p2" "mline.holds [] us'' p2" by blast
  have e: "us'' = []" "mon_pending p2 = []" using mline.holds_empty [OF 2(4)] by simp_all
  have t: "mline.taken us p p2" using mline.taken_trans [OF 1(3) 2(3)] e(1) 1(2) 2(2) by simp
  then have rx: "mn_rx p2 = [COMMAND_PREFIX1, C_END] @ enc_word ck @ []" and sum: "dm_checksumming p2"
    and ck: "ck = checksum_of [COMMAND_PREFIX1, C_END] (dm_checksum p2)"
    using assms(2,3,6) by (auto simp: mline.taken_def)
  obtain p6 p7 where 6: "mon_wait_for_token p2 C_END = Inr p6" "mon_verify_checksum p6 = Inr p7" "mn_rx p7 = []"
    "mon_pending p7 = []" "mon_core p7 = (mon_core p2)\<lparr>dm_checksumming := False\<rparr>"
    using packet_end [OF e(2) rx sum ck] by blast
  have core: "mon_core p7 = (mon_core p)\<lparr>dm_checksumming := False\<rparr>"
    using 6(5) t by (simp add: mline.taken_def)
  let ?p8 = "mon_sent [COMMAND_PREFIX1, C_DATASTART] (mon_init_checksum p7)"
  have p8: "mn_rx ?p8 = []" "mn_mem ?p8 = mn_mem p" "mapped_range ?p8 a n" "mon_rest ?p8 = mon_rest p" "mn_tx p7 = mn_tx p"
    using 6(3) core_summing [OF core] assms(7) by (simp_all add: mapped_range_def)
  define m where "m = (if a AND 3 = 0 \<and> \<not> False then n div 4 else 0)"
  define k where "k = (if (a + of_nat (4 * m)) AND 1 = 0 \<and> \<not> False then (n - 4 * m) div 2 else 0)"
  have mk: "4 * m \<le> n" "2 * k \<le> n - 4 * m" by (simp add: m_def) (simp add: k_def)
  obtain p9 p10 cs where 3: "ul_words m a ?p8 = Inr p9" "ul_shorts k (a + of_nat (4 * m)) p9 = Inr p10"
    "ul_bytes False (n - 4 * m - 2 * k) (a + of_nat (4 * m) + of_nat (2 * k)) p10 = Inr (mon_sent cs ?p8)"
    "encodes cs (mem_bytes (mn_mem p) a n)"
    using ul_loops_send [OF p8(1,3) mk] unfolding p8(2) by blast
  let ?p11 = "(mon_sent [COMMAND_PREFIX1, C_DATAEND] (mon_sent cs ?p8))\<lparr>dm_checksumming := False\<rparr>"
  let ?p12 = "mon_sent (enc_word (dm_checksum ?p11)) ?p11"
  have init: "mn_rx (mon_init_checksum p7) = []" and rx9: "mn_rx (mon_sent cs ?p8) = []" and rx11: "mn_rx ?p11 = []"
    using 6(3) by (simp_all add: mon_init_checksum_def mon_sent_def)
  have "upload_cmd p False = Inr ?p12"
    by (simp only: upload_cmd_def Let_def 1(1) 2(1) mbind_simps prod.case len m_def [symmetric] k_def [symmetric]
        3(1-3) 6(1,2) mon_send_sent(1) [OF init] mon_send_sent(1) [OF rx9] mon_send_checksum_def mon_send_sent(4) [OF rx11])
  moreover have "mon_rest ?p12 = mon_rest p" using p8(4) by (simp add: mon_rest_def mon_sent_def mon_core_def)
  moreover have "mn_mem ?p12 = mn_mem p" using p8(2) by (simp add: mon_sent_def)
  ultimately show ?thesis
    using 3(4) p8(5) 6(3,4)
    by (intro exI [of _ ?p12] exI [of _ cs]) (simp add: mon_sent_def mon_pending_def mon_init_checksum_def)
qed

section \<open>One packet\<close>

text \<open>The characters of a packet of the debugger, and the monitor waiting for one.\<close>

definition packet :: "u8 \<Rightarrow> u8 list \<Rightarrow> u8 list" where
  "packet c us =
     [COMMAND_PREFIX1, c] @ us @ [COMMAND_PREFIX1, C_END] @
       enc_word (checksum_of ([COMMAND_PREFIX1, c] @ us @ [COMMAND_PREFIX1, C_END]) 0)"

definition idle_mon :: "mon \<Rightarrow> bool" where
  "idle_mon p \<longleftrightarrow> mn_rx p = [] \<and> mon_pending p = []"

definition packet_taken :: "u8 \<Rightarrow> u8 list \<Rightarrow> mon \<Rightarrow> mon" where
  "packet_taken c us p =
     p\<lparr>mn_rx := us @ [COMMAND_PREFIX1, C_END] @
         enc_word (checksum_of ([COMMAND_PREFIX1, c] @ us @ [COMMAND_PREFIX1, C_END]) 0), mn_tx := [],
       dm_checksum := checksum_of [COMMAND_PREFIX1, c] 0, dm_checksumming := True\<rparr>"

lemma monitor_packet:
  assumes "idle_mon p" and "c \<noteq> VSTART" and "c \<noteq> VSTOP"
    and "mon_command rom c (packet_taken c us p) = Inr p'" and "mn_rx p' = []"
  shows "monitor rom p (packet c us) = (mn_tx p', mon_init_checksum p')"
proof -
  let ?p = "p\<lparr>mn_rx := packet c us, mn_tx := []\<rparr>"
  have it: "mon_iteration rom ?p = Inr p'"
    using assms by (cases p) (simp add: mon_iteration_def mon_init_checksum_def mon_get_char_def packet_def
        mon_add_to_checksum_def packet_taken_def)
  have "mon_init_checksum p'\<lparr>mn_rx := []\<rparr> = mon_init_checksum p'"
    using assms(5) by (simp add: mon_init_checksum_def)
  then have "mon_iteration rom p' = Inl (Waits, mon_init_checksum p')"
    using assms(5) by (simp add: mon_iteration_def mon_get_char_def mon_init_checksum_def)
  moreover obtain n where "length (packet c us) = Suc n" by (simp add: packet_def)
  ultimately show ?thesis using it assms(1) by (simp add: monitor_def idle_mon_def mon_init_checksum_def)
qed

lemma packet_taken_fields:
  assumes "idle_mon p"
  shows "mon_pending (packet_taken c us p) = []" "mn_rx (packet_taken c us p) = us @ [COMMAND_PREFIX1, C_END] @
      enc_word (checksum_of ([COMMAND_PREFIX1, c] @ us @ [COMMAND_PREFIX1, C_END]) 0)"
    "dm_checksumming (packet_taken c us p)" "mn_tx (packet_taken c us p) = []"
    "checksum_of ([COMMAND_PREFIX1, c] @ us @ [COMMAND_PREFIX1, C_END]) 0 =
       checksum_of (us @ [COMMAND_PREFIX1, C_END]) (dm_checksum (packet_taken c us p))"
    "mapped_range (packet_taken c us p) = mapped_range p" "mn_mem (packet_taken c us p) = mn_mem p"
    "mon_rest (packet_taken c us p) = mon_rest p"
  using assms
  by (simp_all add: idle_mon_def packet_taken_def mon_pending_def mapped_range_def fun_eq_iff mon_rest_def mon_core_def)

text \<open>A download packet is stored and acknowledged; an upload packet is answered with the memory.\<close>

lemma monitor_download:
  assumes "idle_mon p" and "encodes us (word_bytes a @ word_bytes (of_nat (length data)) @ data)"
    and "length data < 2 ^ 32" and "mapped_range p a (length data)"
  shows "\<exists>p'. monitor rom p (packet C_DOWNLOAD us) = ([COMMAND_PREFIX1, C_ACK], p') \<and> idle_mon p' \<and>
    mn_mem p' = put_mem a data (mn_mem p) \<and> mon_rest p' = mon_rest p"
proof -
  note f = packet_taken_fields [OF assms(1), of C_DOWNLOAD us]
  obtain p' where "download_cmd (packet_taken C_DOWNLOAD us p) False = Inr p'" "mn_rx p' = []" "mon_pending p' = []"
    "mn_tx p' = mn_tx (packet_taken C_DOWNLOAD us p) @ [COMMAND_PREFIX1, C_ACK]"
    "mn_mem p' = put_mem a data (mn_mem p)" "mon_rest p' = mon_rest p"
    using download_cmd_stores [OF f(1,2,3) assms(2,3) f(5)] assms(4) unfolding f(6-8) by blast
  moreover from this have "mon_command rom C_DOWNLOAD (packet_taken C_DOWNLOAD us p) = Inr p'"
    by (simp add: mon_command_def)
  ultimately show ?thesis
    using monitor_packet [OF assms(1), of C_DOWNLOAD rom us p'] f(4) by (simp add: idle_mon_def)
qed

lemma monitor_upload:
  assumes "idle_mon p" and "encodes us (word_bytes a @ word_bytes (of_nat n))" and "n < 2 ^ 31"
    and "mapped_range p a n" and "c \<in> {C_UPLOAD, C_UPLOADNOINIT}"
  shows "\<exists>p' cs. monitor rom p (packet c us) =
      ([COMMAND_PREFIX1, C_DATASTART] @ cs @ [COMMAND_PREFIX1, C_DATAEND] @
        enc_word (checksum_of ([COMMAND_PREFIX1, C_DATASTART] @ cs @ [COMMAND_PREFIX1, C_DATAEND]) 0), p') \<and>
    encodes cs (mem_bytes (mn_mem p) a n) \<and> idle_mon p' \<and> mn_mem p' = mn_mem p \<and> mon_rest p' = mon_rest p"
proof -
  note f = packet_taken_fields [OF assms(1), of c us]
  obtain p' cs where 1: "upload_cmd (packet_taken c us p) False = Inr p'" "mn_rx p' = []" "mon_pending p' = []"
    "mn_tx p' = mn_tx (packet_taken c us p) @ [COMMAND_PREFIX1, C_DATASTART] @ cs @ [COMMAND_PREFIX1, C_DATAEND] @
      enc_word (checksum_of ([COMMAND_PREFIX1, C_DATASTART] @ cs @ [COMMAND_PREFIX1, C_DATAEND]) 0)"
    "encodes cs (mem_bytes (mn_mem p) a n)" "mn_mem p' = mn_mem p" "mon_rest p' = mon_rest p"
    using upload_cmd_sends [OF f(1,2,3) assms(2,3) f(5)] assms(4) unfolding f(6-8) by blast
  have "mon_command rom c (packet_taken c us p) = Inr p'"
    using 1(1) assms(5) by (auto simp: mon_command_def)
  then show ?thesis
    using monitor_packet [OF assms(1), of c rom us p'] 1 f(4) assms(5) by (auto simp: idle_mon_def)
qed

section \<open>An example\<close>

text \<open>A monitor that waits, with memory everywhere, to show that the hypotheses of the theorems can hold.\<close>

definition demo_mon :: mon where
  "demo_mon = \<lparr>dm_checksum = 0, dm_checksumming = False, dm_partial = 0, dm_partial_length = 0, dm_in_mon = (\<lambda>_. 0),
     dm_exception_code = 0, dm_restart_count = 0, mn_cpu = 0, mn_rx = [], mn_tx = [], mn_mem = (\<lambda>_. 7),
     mn_mapped = (\<lambda>_. True), mn_user = (\<lambda>_. None), mn_report = False, mn_pointers = []\<rparr>"

lemma demo_mon:
  "idle_mon demo_mon" "mn_mem demo_mon = (\<lambda>_. 7)" "mapped_range demo_mon a n" "\<not> mn_report demo_mon"
  by (simp_all add: demo_mon_def idle_mon_def mon_pending_def mapped_range_def)

end
