(* ===== verification/Rem_Session.thy ===== *)
theory Rem_Session
  imports Rem_Upload
begin

text \<open>
  The debugger connected to the monitor: what its read and write routines do to the memory of the target
  and to its cache of memory lines.  In the theorems on single accesses the target at the other end of
  the line is the model of the monitor.
\<close>

section \<open>The debugger's packets\<close>

definition after_packet :: "u8 \<Rightarrow> u8 list \<Rightarrow> 't link \<Rightarrow> 't link" where
  "after_packet c us h =
     h\<lparr>l_checksum := checksum_of ([COMMAND_PREFIX1, c] @ us @ [COMMAND_PREFIX1, C_END]) 0, l_checksumming := False,
       l_output := l_output h @ packet c us\<rparr>"

lemma packet_sent:
  "send_checksum (send_command (sent us (send_command (init_checksum h) c)) C_END) = after_packet c us h"
  by (cases h) (simp add: send_sent send_checksum_sent sent_def init_checksum_def after_packet_def packet_def)

lemma send_upload_sent:
  "send_upload a len m h = after_packet (upload_command m h) (enc_word a @ enc_word len) h"
  unfolding send_upload_def send_sent(4) sent_sent by (rule packet_sent)

section \<open>Answers\<close>

text \<open>What reading a token does, if it is the next on the line or if the target answers with it.\<close>

definition token_read :: "u8 \<Rightarrow> u8 list \<Rightarrow> 't link \<Rightarrow> 't link" where
  "token_read tk cs h =
     h\<lparr>l_input := cs,
       l_checksum := (if l_checksumming h then checksum_of [COMMAND_PREFIX1, tk] (l_checksum h) else l_checksum h)\<rparr>"

lemma wait_next:
  assumes "l_input h = [COMMAND_PREFIX1, tk] @ cs" and "tk = token1 \<or> tk = token2" and "tk \<noteq> C_SYNC"
  shows "wait_for_token target token1 token2 h = Inr (Some tk, token_read tk cs h)"
proof -
  have limit: "SYNC_LIMIT = Suc 999" by simp
  have "wait_loop target (Suc n) token1 token2 h = Inr (Some tk, token_read tk cs h)" for n
    using assms by (cases h) (auto simp: get_remote_char_def char_from_input_buffer_def token_read_def)
  then show ?thesis unfolding wait_for_token_def limit .
qed

lemma wait_answer:
  assumes "l_input h = []" and "target (l_target h) (l_output h) = ([COMMAND_PREFIX1, tk] @ cs, t)"
    and "tk = token1 \<or> tk = token2" and "tk \<noteq> C_SYNC"
  shows "wait_for_token target token1 token2 h = Inr (Some tk, token_read tk cs (h\<lparr>l_output := [], l_target := t\<rparr>))"
proof -
  let ?h = "h\<lparr>l_output := [], l_target := t, l_input := [COMMAND_PREFIX1, tk] @ cs\<rparr>"
  have "get_remote_char target h = get_remote_char target ?h"
    using assms(1,2) by (simp add: get_remote_char_def char_from_input_buffer_def)
  moreover have "SYNC_LIMIT = Suc 999" by simp
  ultimately have "wait_for_token target token1 token2 h = wait_for_token target token1 token2 ?h"
    unfolding wait_for_token_def by (simp only: wait_loop.simps)
  also have "\<dots> = Inr (Some tk, token_read tk cs ?h)"
    by (rule wait_next) (use assms in simp_all)
  finally show ?thesis by (simp add: token_read_def)
qed

lemma verify_next:
  assumes "link_pending h = []" and "l_input h = enc_word (l_checksum h) @ cs"
  shows "\<exists>h'. verify_checksum tgt h = Inr h' \<and> l_input h' = cs \<and> link_pending h' = [] \<and>
    link_core h' = (link_core h)\<lparr>l_checksumming := False\<rparr>"
proof -
  let ?h = "h\<lparr>l_checksumming := False\<rparr>" and ?ck = "l_checksum h"
  have "hline.holds (word_bytes ?ck @ []) (enc_word ?ck) ?h"
    using assms encodes_word [of ?ck] by (simp add: hline.holds_def link_pending_def)
  from get_word_holds [OF this] obtain h' us1 us2 where 2: "get_word tgt ?h = Inr (?ck, h')"
    "enc_word ?ck = us1 @ us2" "hline.taken us1 ?h h'" "hline.holds [] us2 h'" by blast
  have e: "us2 = []" "link_pending h' = []" using hline.holds_empty [OF 2(4)] by simp_all
  with 2(2,3) assms(2) have "l_input h' = cs" "link_core h' = link_core ?h" "l_checksum h' = ?ck"
    by (auto simp: hline.taken_def)
  with 2(1) e show ?thesis by (simp add: verify_checksum_def link_core_def)
qed

lemma end_of_data_next:
  assumes "link_pending h = []" and "l_checksumming h"
    and "l_input h = [COMMAND_PREFIX1, C_DATAEND] @ enc_word (checksum_of [COMMAND_PREFIX1, C_DATAEND] (l_checksum h))"
  shows "\<exists>h'. end_of_data tgt h = Inr h' \<and> l_input h' = [] \<and> link_pending h' = [] \<and>
    link_core h' = (link_core h)\<lparr>l_checksumming := False\<rparr>"
proof -
  let ?cs = "enc_word (checksum_of [COMMAND_PREFIX1, C_DATAEND] (l_checksum h))"
  let ?h = "token_read C_DATAEND ?cs h"
  have w: "wait_for_token tgt C_DATAEND C_NONE h = Inr (Some C_DATAEND, ?h)"
    by (rule wait_next) (use assms(3) in simp_all)
  have "link_pending ?h = []" "l_input ?h = enc_word (l_checksum ?h) @ []"
    using assms(1,2) by (simp_all add: token_read_def link_pending_def)
  from verify_next [OF this] obtain h' where "verify_checksum tgt ?h = Inr h'" "l_input h' = []" "link_pending h' = []"
    "link_core h' = (link_core ?h)\<lparr>l_checksumming := False\<rparr>" by blast
  moreover have "link_core ?h = link_core h" by (simp add: link_core_def token_read_def)
  ultimately show ?thesis using w by (simp add: end_of_data_def expect_token_def)
qed

section \<open>The connection\<close>

definition connected :: "mon link \<Rightarrow> bool" where
  "connected h \<longleftrightarrow> l_input h = [] \<and> l_output h = [] \<and> link_pending h = [] \<and> idle_mon (l_target h)"

definition link_rest :: "'t link \<Rightarrow> nat \<times> (nat \<Rightarrow> u32) \<times> bool \<times> (string \<Rightarrow> u32) \<times> bool" where
  "link_rest h = (l_selected_processor h, l_register_area h, l_ignore_errors h, l_vars h, l_big_endian h)"

lemma link_core_fields:
  "link_core h' = (link_core h)\<lparr>l_checksumming := b\<rparr> \<Longrightarrow>
     l_output h' = l_output h \<and> l_target h' = l_target h \<and> l_remote_errno h' = l_remote_errno h \<and>
     l_mem_cache h' = l_mem_cache h \<and> link_rest h' = link_rest h"
  by (cases h; cases h') (simp add: link_core_def link_rest_def)

text \<open>The answer to an upload packet in supervisor mode.\<close>

lemma upload_answer:
  assumes "connected h" and "n < 2 ^ 31" and "mapped_range (l_target h) a n"
  shows "\<exists>h2 h3 h4.
    wait_for_token (monitor rom) C_DATASTART C_DATAERROR (init_checksum (send_upload a (of_nat n) US_SUPERVISOR h)) =
      Inr (Some C_DATASTART, h2) \<and>
    hline.receive (monitor rom) n h2 = Inr (mem_bytes (mn_mem (l_target h)) a n, h3) \<and>
    end_of_data (monitor rom) h3 = Inr h4 \<and> connected h4 \<and> link_rest h4 = link_rest h \<and>
    l_mem_cache h4 = l_mem_cache h \<and> l_remote_errno h4 = l_remote_errno h \<and>
    mn_mem (l_target h4) = mn_mem (l_target h) \<and> mon_rest (l_target h4) = mon_rest (l_target h)"
proof -
  let ?us = "enc_word a @ enc_word (of_nat n)" and ?c = "upload_command US_SUPERVISOR h"
  let ?bs = "mem_bytes (mn_mem (l_target h)) a n"
  have idle: "idle_mon (l_target h)" using assms(1) by (simp add: connected_def)
  have enc: "encodes ?us (word_bytes a @ word_bytes (of_nat n))"
    by (rule encodes_append) (rule encodes_word)+
  have c: "?c \<in> {C_UPLOAD, C_UPLOADNOINIT}" by (simp add: upload_command_def)
  obtain p' cs where p': "monitor rom (l_target h) (packet ?c ?us) =
      ([COMMAND_PREFIX1, C_DATASTART] @ cs @ [COMMAND_PREFIX1, C_DATAEND] @
        enc_word (checksum_of ([COMMAND_PREFIX1, C_DATASTART] @ cs @ [COMMAND_PREFIX1, C_DATAEND]) 0), p')"
    "encodes cs ?bs" "idle_mon p'" "mn_mem p' = mn_mem (l_target h)" "mon_rest p' = mon_rest (l_target h)"
    using monitor_upload [OF idle enc assms(2,3) c] by blast
  let ?h1 = "init_checksum (after_packet ?c ?us h)"
  let ?tail = "[COMMAND_PREFIX1, C_DATAEND] @
    enc_word (checksum_of ([COMMAND_PREFIX1, C_DATASTART] @ cs @ [COMMAND_PREFIX1, C_DATAEND]) 0)"
  let ?h2 = "token_read C_DATASTART (cs @ ?tail) (?h1\<lparr>l_output := [], l_target := p'\<rparr>)"
  have w: "wait_for_token (monitor rom) C_DATASTART C_DATAERROR ?h1 = Inr (Some C_DATASTART, ?h2)"
    by (rule wait_answer)
      (use assms(1) p'(1) in \<open>simp_all add: connected_def init_checksum_def after_packet_def\<close>)
  have in2: "link_pending ?h2 = []" "l_input ?h2 = cs @ ?tail"
    using assms(1) by (simp_all add: connected_def token_read_def init_checksum_def after_packet_def link_pending_def)
  obtain h3 where 3: "hline.receive (monitor rom) n ?h2 = Inr (?bs, h3)" "hline.taken cs ?h2 h3" "link_pending h3 = []"
    using hline.receive_all [OF in2(1) p'(2) in2(2), where tgt = "monitor rom"] by auto
  have "l_input h3 = ?tail" "l_checksumming h3" "l_checksum h3 = checksum_of ([COMMAND_PREFIX1, C_DATASTART] @ cs) 0"
    and core: "link_core h3 = link_core ?h2"
    using 3(2) by (simp_all add: hline.taken_def token_read_def init_checksum_def)
  with end_of_data_next [OF 3(3), of "monitor rom"] obtain h4 where
    4: "end_of_data (monitor rom) h3 = Inr h4" "l_input h4 = []" "link_pending h4 = []"
      "link_core h4 = (link_core ?h2)\<lparr>l_checksumming := False\<rparr>" by auto
  note f = link_core_fields [OF 4(4)]
  have "connected h4" "link_rest h4 = link_rest h" "l_mem_cache h4 = l_mem_cache h" "l_remote_errno h4 = l_remote_errno h"
    "l_target h4 = p'"
    using f 4(2,3) p'(3)
    by (simp_all add: connected_def token_read_def init_checksum_def after_packet_def link_rest_def)
  then show ?thesis using w 3(1) 4(1) p'(4,5) unfolding send_upload_sent by blast
qed


section \<open>Cache lines\<close>

lemma line_addr_offset: "line_addr a + of_nat (unat (a AND CACHELINEMASK)) = a"
proof -
  have "line_addr a + (a AND CACHELINEMASK) = line_addr a OR (a AND CACHELINEMASK)"
    unfolding line_addr_def by (rule disjunctive_add) (auto simp: bit_simps)
  also have "\<dots> = a" unfolding line_addr_def by (rule bit_word_eqI) (auto simp: bit_simps)
  finally show ?thesis by simp
qed

lemma offset_mod: "unat (a AND CACHELINEMASK) = unat a mod 128" for a :: u32
proof -
  have "a AND CACHELINEMASK = take_bit 7 a" by (simp add: take_bit_eq_mask mask_eq_exp_minus_1)
  then show ?thesis by (simp add: unsigned_take_bit_eq take_bit_nat_def)
qed

lemma bit_line_addr: "bit (line_addr a) n \<longleftrightarrow> 7 \<le> n \<and> bit a n"
proof -
  have m: "bit (CACHELINEMASK :: u32) n \<longleftrightarrow> n < 7" for n
    using bit_mask_iff [where ?'a = u32, of 7 n] by (auto simp: mask_eq_exp_minus_1)
  have "bit a n \<Longrightarrow> n < 32" using bit_imp_le_length [of a n] by simp
  then show ?thesis unfolding line_addr_def bit_and_iff bit_not_iff m by auto
qed

lemma line_addr_unique:
  assumes "line_addr l = l" and "i < CACHELINESIZE"
  shows "line_addr (l + of_nat i) = l"
proof -
  have i: "n < 7" if "bit (of_nat i :: u32) n" for n
  proof -
    have "(of_nat i :: u32) = take_bit 7 (of_nat i)"
      using assms(2) by (simp add: word_unat_eq_iff unsigned_take_bit_eq unat_of_nat take_bit_nat_def)
    with that show ?thesis by (metis bit_take_bit_iff)
  qed
  have l: "7 \<le> n" if "bit l n" for n
    using that bit_line_addr [of l n] assms(1) by simp
  have "l + of_nat i = l OR of_nat i"
    by (rule disjunctive_add) (use i l not_le in blast)
  moreover have "line_addr (l OR of_nat i) = l"
    by (rule bit_word_eqI) (use i l not_le in \<open>auto simp: bit_line_addr bit_or_iff\<close>)
  ultimately show ?thesis by simp
qed

lemma line_addr_idem [simp]: "line_addr (line_addr a) = line_addr a"
  by (simp add: line_addr_def and.assoc)

text \<open>An aligned access stays inside one line.\<close>

definition aligned_access :: "u32 \<Rightarrow> nat \<Rightarrow> bool" where
  "aligned_access a sz \<longleftrightarrow> sz \<in> {1, 2, 4} \<and> a AND (of_nat sz - 1) = 0"

lemma aligned_fits:
  assumes "aligned_access a sz"
  shows "unat (a AND CACHELINEMASK) + sz \<le> CACHELINESIZE"
proof -
  have low: "unat (a AND 1) = unat a mod 2" "unat (a AND 3) = unat a mod 4"
    using arg_cong [OF take_bit_eq_mask [of 1 a], of unat] arg_cong [OF take_bit_eq_mask [of 2 a], of unat]
    by (simp_all add: unsigned_take_bit_eq take_bit_nat_def mask_eq_exp_minus_1 unat_mod)
  from assms consider "sz = 1" | "sz = 2" "unat a mod 2 = 0" | "sz = 4" "unat a mod 4 = 0"
    using low by (fastforce simp: aligned_access_def)
  then show ?thesis unfolding offset_mod by cases presburger+
qed

text \<open>Memory after a store.\<close>

lemma put_mem_at:
  "length bs \<le> 2 ^ 32 \<Longrightarrow> put_mem a bs f x = (if unat (x - a) < length bs then bs ! unat (x - a) else f x)"
proof (induction bs arbitrary: a f)
  case (Cons b bs)
  show ?case
  proof (cases "x = a")
    case True
    have "unat (x - (a + 1)) = 2 ^ 32 - 1" using True by (simp add: unsigned_minus_1_eq_mask mask_eq_exp_minus_1)
    then show ?thesis using Cons True by simp
  next
    case False
    then have "unat (x - a) \<noteq> 0" by (simp add: unat_eq_zero)
    then have "unat (x - a) = Suc (unat (x - (a + 1)))"
      using unat_minus_one [of "x - a"] False by (simp add: algebra_simps)
    then show ?thesis using Cons False by simp
  qed
qed simp

lemma mem_bytes_nth [simp]: "i < n \<Longrightarrow> mem_bytes f a n ! i = f (a + of_nat i)"
  by (simp add: mem_bytes_def)

lemma mem_bytes_put: "length bs \<le> 2 ^ 32 \<Longrightarrow> mem_bytes (put_mem a bs f) a (length bs) = bs"
  by (rule nth_equalityI) (simp_all add: put_mem_at unat_of_nat)

end
