(* ===== verification/Rem_Memory.thy ===== *)
theory Rem_Memory
  imports Rem_Session
begin

text \<open>
  Reading and writing the memory of the target through the cache of memory lines: single accesses give
  and change exactly the bytes in the memory of the target, and the lines that were read in supervisor
  mode stay equal to it.
\<close>

section \<open>The cache and the memory\<close>

definition coherent :: "mon link \<Rightarrow> bool" where
  "coherent h \<longleftrightarrow>
     distinct (map (\<lambda>m. (mc_addr m, mc_usmode m)) (l_mem_cache h)) \<and>
     (\<forall>m \<in> set (l_mem_cache h). line_addr (mc_addr m) = mc_addr m \<and>
        (mc_usmode m = US_SUPERVISOR \<longrightarrow>
           (\<forall>i < CACHELINESIZE. mc_values m i = mn_mem (l_target h) (mc_addr m + of_nat i))))"

lemma coherentD:
  assumes "coherent h" and "m \<in> set (l_mem_cache h)"
  shows "line_addr (mc_addr m) = mc_addr m"
    and "mc_usmode m = US_SUPERVISOR \<Longrightarrow> i < CACHELINESIZE \<Longrightarrow>
      mc_values m i = mn_mem (l_target h) (mc_addr m + of_nat i)"
  using assms by (auto simp: coherent_def)

lemma coherent_cong:
  "l_mem_cache h' = l_mem_cache h \<Longrightarrow> mn_mem (l_target h') = mn_mem (l_target h) \<Longrightarrow> coherent h' = coherent h"
  by (simp add: coherent_def)

lemma line_value_mem:
  assumes "coherent h" and "m \<in> set (l_mem_cache h)" and "mc_usmode m = US_SUPERVISOR" and "mc_addr m = line_addr addr"
    and "sz \<in> {1, 2, 4}" and "unat (addr AND CACHELINEMASK) + sz \<le> CACHELINESIZE"
  shows "line_value m (unat (addr AND CACHELINEMASK)) sz h' = Inr (value_of (mem_bytes (mn_mem (l_target h)) addr sz), h')"
proof -
  let ?off = "unat (addr AND CACHELINEMASK)"
  have "map (\<lambda>i. mc_values m (?off + i)) [0..<sz] = mem_bytes (mn_mem (l_target h)) addr sz"
  proof (rule nth_equalityI)
    fix i
    assume "i < length (map (\<lambda>i. mc_values m (?off + i)) [0..<sz])"
    then have i: "i < sz" by simp
    then have "mc_values m (?off + i) = mn_mem (l_target h) (mc_addr m + of_nat (?off + i))"
      using coherentD(2) [OF assms(1,2,3), of "?off + i"] assms(6) by simp
    also have "mc_addr m + of_nat (?off + i) = addr + of_nat i"
      using line_addr_offset [of addr] assms(4) by (simp only: of_nat_add add.assoc [symmetric])
    finally show "map (\<lambda>i. mc_values m (?off + i)) [0..<sz] ! i = mem_bytes (mn_mem (l_target h)) addr sz ! i"
      using i by simp
  qed simp
  moreover have "fold (\<lambda>i w. push_bit 8 w OR ucast (mc_values m (?off + i))) [0..<sz] 0 =
      value_of (map (\<lambda>i. mc_values m (?off + i)) [0..<sz])"
    by (simp add: value_of_def fold_map o_def)
  ultimately show ?thesis using assms(5,6) by (simp add: line_value_def)
qed

section \<open>Reading\<close>

lemma get_line_receive:
  "get_line tgt n i vals h =
     mbind (hline.receive tgt n h) (\<lambda>(bs, h). Inr (\<lambda>j. if i \<le> j \<and> j < i + n then bs ! (j - i) else vals j, h))"
proof (induction n arbitrary: i vals h)
  case (Suc n)
  have "(\<lambda>j. if Suc i \<le> j \<and> j < Suc i + n then bs ! (j - Suc i) else (vals(i := b)) j) =
      (\<lambda>j. if i \<le> j \<and> j < i + Suc n then (b # bs) ! (j - i) else vals j)" for b bs
    by (auto simp: fun_eq_iff nth_Cons' less_Suc_eq_le)
  then show ?case by (simp add: Suc.IH mbind_def split: sum.splits)
qed (auto simp: fun_eq_iff)

text \<open>A miss is filled with the line of the target's memory.\<close>

lemma fill_line_supervisor:
  assumes "connected h" and "coherent h" and "mapped_range (l_target h) (line_addr addr) CACHELINESIZE"
    and "find (mc_hit addr US_SUPERVISOR) (l_mem_cache h) = None"
  shows "\<exists>m h'. fill_line (monitor rom) addr US_SUPERVISOR h = Inr (Some m, h') \<and> connected h' \<and> coherent h' \<and>
    m \<in> set (l_mem_cache h') \<and> mc_usmode m = US_SUPERVISOR \<and> mc_addr m = line_addr addr \<and>
    link_rest h' = link_rest h \<and> l_remote_errno h' = l_remote_errno h \<and>
    mn_mem (l_target h') = mn_mem (l_target h) \<and> mon_rest (l_target h') = mon_rest (l_target h)"
proof -
  obtain h2 h3 h4 where
    1: "wait_for_token (monitor rom) C_DATASTART C_DATAERROR
          (init_checksum (send_upload (line_addr addr) (of_nat CACHELINESIZE) US_SUPERVISOR h)) = Inr (Some C_DATASTART, h2)"
    and 2: "hline.receive (monitor rom) CACHELINESIZE h2 =
          Inr (mem_bytes (mn_mem (l_target h)) (line_addr addr) CACHELINESIZE, h3)"
    and 3: "end_of_data (monitor rom) h3 = Inr h4"
    and 4: "connected h4" "link_rest h4 = link_rest h" "l_mem_cache h4 = l_mem_cache h" "l_remote_errno h4 = l_remote_errno h"
      "mn_mem (l_target h4) = mn_mem (l_target h)" "mon_rest (l_target h4) = mon_rest (l_target h)"
    using upload_answer [OF assms(1) _ assms(3), of rom] by auto
  define vals where "vals = (\<lambda>j. if 0 \<le> j \<and> j < 0 + CACHELINESIZE
    then mem_bytes (mn_mem (l_target h)) (line_addr addr) CACHELINESIZE ! (j - 0) else (0 :: u8))"
  let ?m = "\<lparr>mc_usmode = US_SUPERVISOR, mc_addr = line_addr addr, mc_values = vals\<rparr>"
  let ?h = "h4\<lparr>l_mem_cache := ?m # l_mem_cache h4\<rparr>"
  have "get_line (monitor rom) CACHELINESIZE 0 (\<lambda>_. 0) h2 = Inr (vals, h3)"
    unfolding get_line_receive 2 vals_def by simp
  then have "fill_line (monitor rom) addr US_SUPERVISOR h = Inr (Some ?m, ?h)"
    using 1 3 by (simp add: fill_line_def Let_def)
  moreover have "(line_addr addr, US_SUPERVISOR) \<notin> (\<lambda>m. (mc_addr m, mc_usmode m)) ` set (l_mem_cache h)"
    using assms(4) by (auto simp: find_None_iff mc_hit_def)
  then have "coherent ?h"
    using assms(2) 4(3,5) by (simp add: coherent_def vals_def)
  moreover have "connected ?h" "link_rest ?h = link_rest h"
    using 4(1,2) by (simp_all add: connected_def link_rest_def link_pending_def)
  ultimately show ?thesis using 4(4-6) by fastforce
qed

lemma forced_read_supervisor:
  assumes "connected h" and "aligned_access addr sz" and "mapped_range (l_target h) addr sz"
  shows "\<exists>h'. forced_read_remote (monitor rom) addr sz US_SUPERVISOR h =
      Inr (value_of (mem_bytes (mn_mem (l_target h)) addr sz), h') \<and> connected h' \<and>
    link_rest h' = link_rest h \<and> \<not> l_remote_errno h' \<and> l_mem_cache h' = l_mem_cache h \<and>
    mn_mem (l_target h') = mn_mem (l_target h) \<and> mon_rest (l_target h') = mon_rest (l_target h)"
proof -
  let ?h = "h\<lparr>l_remote_errno := False\<rparr>"
  have c: "connected ?h" "mapped_range (l_target ?h) addr sz" "sz < 2 ^ 31"
    using assms by (auto simp: connected_def link_pending_def aligned_access_def)
  obtain h2 h3 h4 where
    1: "wait_for_token (monitor rom) C_DATASTART C_DATAERROR (init_checksum (send_upload addr (of_nat sz) US_SUPERVISOR ?h)) =
      Inr (Some C_DATASTART, h2)"
    and 2: "hline.receive (monitor rom) sz h2 = Inr (mem_bytes (mn_mem (l_target h)) addr sz, h3)"
    and 3: "end_of_data (monitor rom) h3 = Inr h4"
    and 4: "connected h4" "link_rest h4 = link_rest h" "l_mem_cache h4 = l_mem_cache h" "\<not> l_remote_errno h4"
      "mn_mem (l_target h4) = mn_mem (l_target h)" "mon_rest (l_target h4) = mon_rest (l_target h)"
    using upload_answer [OF c(1,3,2), of rom] by (auto simp: link_rest_def)
  have "hline.collect (monitor rom) sz 0 h2 = Inr (value_of (mem_bytes (mn_mem (l_target h)) addr sz), h3)"
    unfolding hline.collect_receive 2 by (simp add: value_of_def)
  moreover have "mbind (get_byte (monitor rom) h2) (\<lambda>(b, h). Inr (ucast b, h)) = hline.collect (monitor rom) 1 0 h2"
    by (simp add: mbind_def split: sum.splits)
  moreover have "addr AND (of_nat sz - 1) = 0" "sz \<in> {1, 2, 4}" using assms(2) by (simp_all add: aligned_access_def)
  ultimately have "forced_read_remote (monitor rom) addr sz US_SUPERVISOR h =
      Inr (value_of (mem_bytes (mn_mem (l_target h)) addr sz), h4)"
    using 1 3 unfolding forced_read_remote_def Let_def get_short_collect get_word_collect by auto
  then show ?thesis using 4 by blast
qed


text \<open>Everything that an access leaves as it is.\<close>

definition session_kept :: "mon link \<Rightarrow> mon link \<Rightarrow> bool" where
  "session_kept h h' \<longleftrightarrow> connected h' \<and> coherent h' \<and> link_rest h' = link_rest h \<and>
     mon_rest (l_target h') = mon_rest (l_target h)"

lemma mapped_line:
  assumes "mapped_range p (line_addr addr) CACHELINESIZE" and "unat (addr AND CACHELINEMASK) + sz \<le> CACHELINESIZE"
  shows "mapped_range p addr sz"
proof -
  let ?off = "unat (addr AND CACHELINEMASK)"
  have "CACHELINESIZE = ?off + (sz + (CACHELINESIZE - ?off - sz))" using assms(2) by simp
  with assms(1) have "mapped_range p (line_addr addr + of_nat ?off) sz"
    by (metis mapped_range_split)
  then show ?thesis by (simp only: line_addr_offset)
qed

lemma read_remote_supervisor:
  assumes "connected h" and "coherent h" and "aligned_access addr sz"
    and "mapped_range (l_target h) (line_addr addr) CACHELINESIZE"
  shows "\<exists>h'. read_remote (monitor rom) addr sz US_SUPERVISOR h =
      Inr (value_of (mem_bytes (mn_mem (l_target h)) addr sz), h') \<and>
    session_kept h h' \<and> \<not> l_remote_errno h' \<and> mn_mem (l_target h') = mn_mem (l_target h)"
proof -
  let ?h = "h\<lparr>l_remote_errno := False\<rparr>"
  have h: "connected ?h" "coherent ?h" "link_rest ?h = link_rest h" "l_target ?h = l_target h"
    using assms(1,2) by (simp_all add: connected_def coherent_def link_pending_def link_rest_def)
  consider (forced) "addr \<ge> 0x80000000 \<and> \<not> in_rom ?h addr \<and> \<not> in_sram ?h addr"
    | (hit) m where "\<not> (addr \<ge> 0x80000000 \<and> \<not> in_rom ?h addr \<and> \<not> in_sram ?h addr)"
        "find (mc_hit addr US_SUPERVISOR) (l_mem_cache ?h) = Some m"
    | (miss) "\<not> (addr \<ge> 0x80000000 \<and> \<not> in_rom ?h addr \<and> \<not> in_sram ?h addr)"
        "find (mc_hit addr US_SUPERVISOR) (l_mem_cache ?h) = None"
    by (cases "find (mc_hit addr US_SUPERVISOR) (l_mem_cache ?h)") auto
  then show ?thesis
  proof cases
    case forced
    have "read_remote (monitor rom) addr sz US_SUPERVISOR h = forced_read_remote (monitor rom) addr sz US_SUPERVISOR ?h"
      unfolding read_remote_def Let_def if_P [OF forced] ..
    moreover have "mapped_range (l_target ?h) addr sz"
      using mapped_line [OF assms(4) aligned_fits [OF assms(3)]] by simp
    ultimately show ?thesis
      using forced_read_supervisor [OF h(1) assms(3), of rom] h(3,4) coherent_cong [of _ ?h] h(2)
      unfolding session_kept_def by metis
  next
    case (hit m)
    then have m: "m \<in> set (l_mem_cache ?h)" "mc_usmode m = US_SUPERVISOR" "mc_addr m = line_addr addr"
      by (auto simp: find_Some_iff mc_hit_def)
    have "read_remote (monitor rom) addr sz US_SUPERVISOR h = line_value m (unat (addr AND CACHELINEMASK)) sz ?h"
      unfolding read_remote_def Let_def if_not_P [OF hit(1)] hit(2) by simp
    also have "\<dots> = Inr (value_of (mem_bytes (mn_mem (l_target ?h)) addr sz), ?h)"
      using line_value_mem [OF h(2) m(1-3) _ aligned_fits [OF assms(3)]] assms(3) by (simp add: aligned_access_def)
    finally show ?thesis using h by (simp add: session_kept_def)
  next
    case miss
    obtain m h' where m: "fill_line (monitor rom) addr US_SUPERVISOR ?h = Inr (Some m, h')" "connected h'" "coherent h'"
      "m \<in> set (l_mem_cache h')" "mc_usmode m = US_SUPERVISOR" "mc_addr m = line_addr addr" "link_rest h' = link_rest h"
      "\<not> l_remote_errno h'" "mn_mem (l_target h') = mn_mem (l_target h)" "mon_rest (l_target h') = mon_rest (l_target h)"
      using fill_line_supervisor [OF h(1,2) _ miss(2), of rom] assms(4) h(3,4) by auto
    have "read_remote (monitor rom) addr sz US_SUPERVISOR h = line_value m (unat (addr AND CACHELINEMASK)) sz h'"
      unfolding read_remote_def Let_def if_not_P [OF miss(1)] miss(2) using m(1) by simp
    also have "\<dots> = Inr (value_of (mem_bytes (mn_mem (l_target h')) addr sz), h')"
      using line_value_mem [OF m(3-6) _ aligned_fits [OF assms(3)]] assms(3) by (simp add: aligned_access_def)
    finally show ?thesis using m by (simp add: session_kept_def)
  qed
qed


section \<open>Writing\<close>

definition data_bytes :: "nat \<Rightarrow> u32 \<Rightarrow> u8 list" where
  "data_bytes sz w = drop (4 - sz) (word_bytes w)"

lemma length_data_bytes [simp]: "sz \<le> 4 \<Longrightarrow> length (data_bytes sz w) = sz"
  by (simp add: data_bytes_def word_bytes_def)

lemma update_line_map:
  "distinct (map (\<lambda>m. (mc_addr m, mc_usmode m)) ms) \<Longrightarrow>
     update_line addr u f ms = map (\<lambda>m. if mc_hit addr u m then f m else m) ms"
proof (induction ms)
  case (Cons m ms)
  show ?case
  proof (cases "mc_hit addr u m")
    case True
    with Cons.prems have "\<not> mc_hit addr u m'" if "m' \<in> set ms" for m'
      using that by (force simp: mc_hit_def image_iff)
    with True show ?thesis by (simp add: map_idI)
  qed (use Cons in simp)
qed simp

text \<open>Bytes stored in the range of an access change its own line only, at the offset of the access.\<close>

lemma put_mem_line:
  assumes "line_addr l = l" and "i < CACHELINESIZE" and "length bs = sz"
    and "unat (addr AND CACHELINEMASK) + sz \<le> CACHELINESIZE"
  shows "put_mem addr bs f (l + of_nat i) =
    (if l = line_addr addr then put_values (unat (addr AND CACHELINEMASK)) bs (\<lambda>i. f (l + of_nat i)) i else f (l + of_nat i))"
proof -
  let ?off = "unat (addr AND CACHELINEMASK)" and ?x = "l + of_nat i"
  have at: "put_mem addr bs f ?x = (if unat (?x - addr) < sz then bs ! unat (?x - addr) else f ?x)"
    using put_mem_at [of bs addr f ?x] assms(3,4) by simp
  have inside: "unat (?x - addr) < sz \<longleftrightarrow> l = line_addr addr \<and> ?off \<le> i \<and> i < ?off + sz"
    and index: "l = line_addr addr \<Longrightarrow> ?off \<le> i \<Longrightarrow> unat (?x - addr) = i - ?off"
  proof -
    have index: "unat (?x - addr) = i - ?off" if "l = line_addr addr" "?off \<le> i"
    proof -
      have "?x - addr = of_nat i - of_nat ?off"
        using line_addr_offset [of addr] that(1) by (metis add_diff_cancel_left)
      then have "?x - addr = of_nat (i - ?off)" using that(2) by simp
      moreover have "i - ?off < 2 ^ 32" using assms(2) by simp
      ultimately show ?thesis by (simp add: unat_of_nat)
    qed
    show "unat (?x - addr) = i - ?off" if "l = line_addr addr" "?off \<le> i" using index that .
    show "unat (?x - addr) < sz \<longleftrightarrow> l = line_addr addr \<and> ?off \<le> i \<and> i < ?off + sz"
    proof
      assume k: "unat (?x - addr) < sz"
      let ?k = "unat (?x - addr)"
      have "?x = addr + (?x - addr)" by simp
      also have "\<dots> = line_addr addr + of_nat ?off + of_nat ?k" by (simp only: line_addr_offset) simp
      finally have x: "?x = line_addr addr + of_nat (?off + ?k)" by (simp only: of_nat_add add.assoc)
      have "?off + ?k < CACHELINESIZE" using k assms(4) by simp
      from line_addr_unique [OF line_addr_idem this, of addr] line_addr_unique [OF assms(1,2)] x
      have l: "l = line_addr addr" by metis
      with x have "(of_nat i :: u32) = of_nat (?off + ?k)" by (metis add_left_cancel)
      then have "unat (of_nat i :: u32) = unat (of_nat (?off + ?k) :: u32)" by (rule arg_cong)
      moreover have "unat (of_nat j :: u32) = j" if "j < CACHELINESIZE" for j using that by (simp add: unat_of_nat)
      ultimately have "i = ?off + ?k" using assms(2) \<open>?off + ?k < CACHELINESIZE\<close> by metis
      with l k show "l = line_addr addr \<and> ?off \<le> i \<and> i < ?off + sz" by linarith
    next
      assume "l = line_addr addr \<and> ?off \<le> i \<and> i < ?off + sz"
      with index show "unat (?x - addr) < sz" by fastforce
    qed
  qed
  show ?thesis unfolding at put_values_def assms(3) using inside index by auto
qed

text \<open>Writing through the cache keeps it equal to the memory that the target will have.\<close>

lemma coherent_store:
  assumes "coherent h" and "length bs = sz" and "unat (addr AND CACHELINEMASK) + sz \<le> CACHELINESIZE"
    and "mn_mem (l_target h') = put_mem addr bs (mn_mem (l_target h))"
    and "l_mem_cache h' = update_line addr US_SUPERVISOR
      (\<lambda>m. m\<lparr>mc_values := put_values (unat (addr AND CACHELINEMASK)) bs (mc_values m)\<rparr>) (l_mem_cache h)"
  shows "coherent h'"
proof -
  let ?off = "unat (addr AND CACHELINEMASK)"
  define f where "f = (\<lambda>m. if mc_hit addr US_SUPERVISOR m then m\<lparr>mc_values := put_values ?off bs (mc_values m)\<rparr> else m)"
  have d: "distinct (map (\<lambda>m. (mc_addr m, mc_usmode m)) (l_mem_cache h))" using assms(1) by (simp add: coherent_def)
  have cache: "l_mem_cache h' = map f (l_mem_cache h)" using assms(5) update_line_map [OF d] by (simp add: f_def)
  have keys: "mc_addr (f m) = mc_addr m" "mc_usmode (f m) = mc_usmode m" for m by (simp_all add: f_def)
  then have "distinct (map (\<lambda>m. (mc_addr m, mc_usmode m)) (l_mem_cache h'))"
    using d unfolding cache by (simp add: o_def)
  moreover have "mc_values (f m) i = mn_mem (l_target h') (mc_addr m + of_nat i)"
    if m: "m \<in> set (l_mem_cache h)" "mc_usmode m = US_SUPERVISOR" "i < CACHELINESIZE" for m i
  proof -
    note l = coherentD(1) [OF assms(1) m(1)]
    have v: "mc_values m j = mn_mem (l_target h) (mc_addr m + of_nat j)" if "j < CACHELINESIZE" for j
      using coherentD(2) [OF assms(1) m(1,2)] that by simp
    show ?thesis
      unfolding assms(4) put_mem_line [OF l m(3) assms(2,3)]
      using v [OF m(3)] m(2) by (auto simp: f_def mc_hit_def put_values_def)
  qed
  ultimately show ?thesis
    using coherentD(1) [OF assms(1)] unfolding coherent_def cache by (simp add: keys)
qed

section \<open>An example\<close>

definition demo_link :: "mon link" where
  "demo_link = \<lparr>l_checksum = 0, l_checksumming = False, l_partial = 0, l_partial_length = 0, l_output = [], l_input = [],
     l_target = demo_mon, l_remote_errno = False, l_mem_cache = [], l_selected_processor = 0,
     l_register_area = (\<lambda>_. 0x1000), l_ignore_errors = False, l_vars = (\<lambda>_. 0), l_big_endian = True\<rparr>"

lemma demo_link:
  "connected demo_link" "coherent demo_link" "l_big_endian demo_link" "l_target demo_link = demo_mon"
  "l_register_area demo_link = (\<lambda>_. 0x1000)" "l_selected_processor demo_link = 0"
  by (simp_all add: demo_link_def connected_def coherent_def link_pending_def demo_mon)

lemmas demo = demo_mon demo_link

text \<open>Applied to the theorem of \<open>Rem_Line\<close>:\<close>

theorem word_codec_roundtrip_witness:
  "(\<exists>us. l_output (send_word demo_link 0xdeadbeef) = l_output demo_link @ us \<and>
      (\<exists>p'. mon_get_word (demo_mon\<lparr>mn_rx := us @ [1]\<rparr>) = Inr (0xdeadbeef, p') \<and> mn_rx p' = [1])) \<and>
    (\<exists>vs p1. mon_send_word demo_mon 0xdeadbeef = Inr p1 \<and> mn_tx p1 = mn_tx demo_mon @ vs \<and>
      (\<exists>h'. get_word (\<lambda>t _. ([], t)) (demo_link\<lparr>l_input := vs @ [1]\<rparr>) = Inr (0xdeadbeef, h') \<and> l_input h' = [1]))"
proof -
  have d: "mn_rx demo_mon = []" "dm_partial_length demo_mon = 0" "l_partial_length demo_link = 0"
    by (simp_all add: demo_mon_def demo_link_def)
  note rt = word_codec_roundtrip [OF d(1), of demo_link "0xdeadbeef" "(\<lambda>t _. ([], t)) :: mon target"]
  obtain us where us: "l_output (send_word demo_link 0xdeadbeef) = l_output demo_link @ us"
    "\<forall>p cs. mn_rx p = us @ cs \<and> dm_partial_length p = 0 \<longrightarrow>
        (\<exists>p'. mon_get_word p = Inr (0xdeadbeef, p') \<and> mn_rx p' = cs \<and> dm_partial_length p' = 0)"
    using conjunct1 [OF rt] by (elim exE conjE) (rule that)
  have 1: "\<exists>p'. mon_get_word (demo_mon\<lparr>mn_rx := us @ [1]\<rparr>) = Inr (0xdeadbeef, p') \<and> mn_rx p' = [1]"
    using us(2) [rule_format, of "demo_mon\<lparr>mn_rx := us @ [1]\<rparr>" "[1]"] d(2) by auto
  obtain vs p1 where vs: "mon_send_word demo_mon 0xdeadbeef = Inr p1" "mn_tx p1 = mn_tx demo_mon @ vs"
    "\<forall>(h :: mon link) cs. l_input h = vs @ cs \<and> l_partial_length h = 0 \<longrightarrow>
        (\<exists>h'. get_word (\<lambda>t _. ([], t)) h = Inr (0xdeadbeef, h') \<and> l_input h' = cs \<and> l_partial_length h' = 0)"
    using conjunct2 [OF rt] by (elim exE conjE) (rule that)
  have 2: "\<exists>h'. get_word (\<lambda>t _. ([], t)) (demo_link\<lparr>l_input := vs @ [1]\<rparr>) = Inr (0xdeadbeef, h') \<and> l_input h' = [1]"
    using vs(3) [rule_format, of "demo_link\<lparr>l_input := vs @ [1]\<rparr>" "[1]"] d(3) by auto
  show ?thesis using us(1) 1 vs(1,2) 2 by blast
qed

end
