(* ===== verification/Rem_Access.thy ===== *)
theory Rem_Access
  imports Rem_Memory
begin

text \<open>
  The theorems on accesses of the debugger to the memory and the registers of the target: a write
  followed by reads, whole blocks, and the accesses that fail.
\<close>

section \<open>Single accesses\<close>

definition enc_data :: "nat \<Rightarrow> u32 \<Rightarrow> u8 list" where
  "enc_data sz w = (if sz = 1 then enc_byte (ucast w) else if sz = 2 then enc_short (ucast w) else enc_word w)"

lemma encodes_data: "sz \<in> {1, 2, 4} \<Longrightarrow> encodes (enc_data sz w) (data_bytes sz w)"
proof -
  have "short_bytes (ucast w) = drop 2 (word_bytes w)"
    unfolding short_bytes_def word_bytes_def
    by (simp add: numeral_2_eq_2) (rule conjI; rule bit_word_eqI; auto simp: bit_simps)
  moreover have "drop 3 (word_bytes w) = [ucast w]" by (simp add: word_bytes_def)
  moreover assume "sz \<in> {1, 2, 4}"
  ultimately show ?thesis
    using encodes_byte [of "ucast w"] encodes_short [of "ucast w"] encodes_word [of w]
    by (auto simp: enc_data_def data_bytes_def)
qed

lemma send_data:
  "(if sz = 1 then send_byte h (ucast w) else if sz = 2 then send_short h (ucast w) else send_word h w) =
     sent (enc_data sz w) h"
  by (simp add: enc_data_def send_sent)

lemma write_remote_packet:
  "write_remote target addr w sz usmode h =
     (if sz \<notin> {1, 2, 4} then Inl (Rerr, h\<lparr>l_remote_errno := False\<rparr>)
      else
        mbind (resolve_usmode target usmode (h\<lparr>l_remote_errno := False\<rparr>)) (\<lambda>(usmode, h).
        mbind (write_thru_mem_cache addr w sz usmode h) (\<lambda>h.
        expect_ack target
          (after_packet (if usmode = US_USER then C_DOWNLOADUSER else C_DOWNLOAD)
            (enc_word addr @ enc_word (of_nat sz) @ enc_data sz w) h))))"
  unfolding write_remote_def Let_def send_data unfolding send_sent(4) sent_sent packet_sent append_assoc ..

lemma write_remote_supervisor:
  assumes "connected h" and "coherent h" and "aligned_access addr sz" and "l_big_endian h"
    and "mapped_range (l_target h) addr sz"
  shows "\<exists>h'. write_remote (monitor rom) addr w sz US_SUPERVISOR h = Inr h' \<and> session_kept h h' \<and> \<not> l_remote_errno h' \<and>
    mn_mem (l_target h') = put_mem addr (data_bytes sz w) (mn_mem (l_target h))"
proof -
  have sz: "sz \<in> {1, 2, 4}" using assms(3) by (simp add: aligned_access_def)
  let ?off = "unat (addr AND CACHELINEMASK)" and ?bs = "data_bytes sz w"
  let ?upd = "update_line addr US_SUPERVISOR (\<lambda>m. m\<lparr>mc_values := put_values ?off ?bs (mc_values m)\<rparr>) (l_mem_cache h)"
  let ?h = "h\<lparr>l_remote_errno := False, l_mem_cache := ?upd\<rparr>"
  have none: "find (mc_hit addr u) ms = None \<Longrightarrow> update_line addr u f ms = ms" for u f ms
    by (induction ms) (auto split: if_splits)
  have thru: "write_thru_mem_cache addr w sz US_SUPERVISOR (h\<lparr>l_remote_errno := False\<rparr>) = Inr ?h"
    using aligned_fits [OF assms(3)] assms(4) none [of US_SUPERVISOR "l_mem_cache h"]
    by (cases h) (simp add: write_thru_mem_cache_def host_bytes_def data_bytes_def Let_def)
  have mode: "resolve_usmode tgt US_SUPERVISOR h0 = Inr (US_SUPERVISOR, h0)" for tgt and h0 :: "mon link"
    by (simp add: resolve_usmode_def)
  let ?us = "enc_word addr @ enc_word (of_nat sz) @ enc_data sz w"
  have w: "write_remote (monitor rom) addr w sz US_SUPERVISOR h =
      expect_ack (monitor rom) (after_packet C_DOWNLOAD ?us ?h)"
    unfolding write_remote_packet mode mbind_simps prod.case thru using sz by simp
  have idle: "idle_mon (l_target h)" using assms(1) by (simp add: connected_def)
  have len: "length ?bs = sz" using sz by auto
  have enc: "encodes ?us (word_bytes addr @ word_bytes (of_nat (length ?bs)) @ ?bs)"
    unfolding len by (intro encodes_append encodes_word encodes_data sz)
  obtain p' where p': "monitor rom (l_target h) (packet C_DOWNLOAD ?us) = ([COMMAND_PREFIX1, C_ACK], p')" "idle_mon p'"
    "mn_mem p' = put_mem addr ?bs (mn_mem (l_target h))" "mon_rest p' = mon_rest (l_target h)"
    using monitor_download [OF idle enc, of rom] assms(5) sz len by fastforce
  define h' where "h' = token_read C_ACK [] ((after_packet C_DOWNLOAD ?us ?h)\<lparr>l_output := [], l_target := p'\<rparr>)"
  have "wait_for_token (monitor rom) C_ACK C_DATAERROR (after_packet C_DOWNLOAD ?us ?h) = Inr (Some C_ACK, h')"
    unfolding h'_def by (rule wait_answer) (use assms(1) p'(1) in \<open>simp_all add: connected_def after_packet_def\<close>)
  then have "write_remote (monitor rom) addr w sz US_SUPERVISOR h = Inr h'"
    unfolding w by (simp add: expect_ack_def)
  moreover have "\<not> l_remote_errno h'" by (simp add: h'_def token_read_def after_packet_def)
  moreover have f: "connected h'" "link_rest h' = link_rest h" "l_target h' = p'" "l_mem_cache h' = ?upd"
    using assms(1) p'(2)
    by (simp_all add: h'_def connected_def token_read_def after_packet_def link_pending_def link_rest_def)
  moreover from f have "coherent h'"
    using coherent_store [OF assms(2) len aligned_fits [OF assms(3)]] p'(3) by simp
  ultimately show ?thesis using p'(3,4) by (intro exI [of _ h']) (simp add: session_kept_def)
qed

text \<open>What a write stored is what a read returns.\<close>

lemma value_of_data:
  assumes "sz \<in> {1, 2, 4}"
  shows "value_of (data_bytes sz w) = take_bit (8 * sz) w"
proof -
  from assms consider "sz = 1" | "sz = 2" | "sz = 4" by auto
  then show ?thesis
  proof cases
    case 1
    have "ucast (ucast w :: u8) = take_bit 8 w" by (rule bit_word_eqI) (auto simp: bit_simps)
    then show ?thesis by (simp add: 1 value_of_def data_bytes_def word_bytes_def)
  next
    case 2
    have "push_bit 8 (ucast (ucast (drop_bit 8 w) :: u8)) OR ucast (ucast w :: u8) = take_bit 16 w"
      by (rule bit_word_eqI) (auto simp: bit_simps)
    then show ?thesis by (simp add: 2 value_of_def data_bytes_def word_bytes_def)
  next
    case 3
    have "take_bit 32 w = w" by (rule bit_word_eqI) (simp add: bit_simps)
    then show ?thesis
      using bytes_word_bytes [of w] by (simp add: 3 value_of_def data_bytes_def word_bytes_def bytes_word_def)
  qed
qed

lemma session_trans: "session_kept h h' \<Longrightarrow> session_kept h' h'' \<Longrightarrow> session_kept h h''"
  by (simp add: session_kept_def)

lemma session_mapped: "session_kept h h' \<Longrightarrow> mapped_range (l_target h') = mapped_range (l_target h)"
  unfolding session_kept_def mapped_range_def fun_eq_iff by (metis rest_fields(1))

text \<open>
  Property C5.  Accesses in supervisor mode on a big-endian host (accesses that mix the modes can read a stale
  line, and a little-endian host writes words in the wrong order).  The debugger, connected to the monitor
  and with a cache that agrees with the memory of
  the target, writes a byte, halfword or word at an aligned address and then reads at any aligned address, both
  in memory that is mapped: the
  target's memory has changed in exactly the bytes of the write, the read returns what memory now
  holds, whether its line is cached or has to be fetched, and the cache
  still agrees with memory.  A read of the written place returns the value that was written.
\<close>

theorem write_then_read:
  assumes "connected h" and "coherent h" and "l_big_endian h" and "aligned_access addr sz" and "aligned_access b sz'"
    and "mapped_range (l_target h) (line_addr addr) CACHELINESIZE" and "mapped_range (l_target h) (line_addr b) CACHELINESIZE"
  shows "\<exists>h1 h2. write_remote (monitor rom) addr w sz US_SUPERVISOR h = Inr h1 \<and>
    read_remote (monitor rom) b sz' US_SUPERVISOR h1 =
      Inr (value_of (mem_bytes (put_mem addr (data_bytes sz w) (mn_mem (l_target h))) b sz'), h2) \<and>
    (b = addr \<and> sz' = sz \<longrightarrow> value_of (mem_bytes (put_mem addr (data_bytes sz w) (mn_mem (l_target h))) b sz') =
       take_bit (8 * sz) w) \<and>
    mn_mem (l_target h2) = put_mem addr (data_bytes sz w) (mn_mem (l_target h)) \<and> session_kept h h2"
proof -
  have sz: "sz \<in> {1, 2, 4}" using assms(4) by (simp add: aligned_access_def)
  obtain h1 where 1: "write_remote (monitor rom) addr w sz US_SUPERVISOR h = Inr h1" "session_kept h h1"
    "mn_mem (l_target h1) = put_mem addr (data_bytes sz w) (mn_mem (l_target h))"
    using write_remote_supervisor [OF assms(1,2,4,3) mapped_line [OF assms(6) aligned_fits [OF assms(4)]]] by blast
  have "mapped_range (l_target h1) (line_addr b) CACHELINESIZE"
    using session_mapped [OF 1(2)] assms(7) by simp
  then obtain h2 where "read_remote (monitor rom) b sz' US_SUPERVISOR h1 =
      Inr (value_of (mem_bytes (mn_mem (l_target h1)) b sz'), h2)" "session_kept h1 h2"
      "mn_mem (l_target h2) = mn_mem (l_target h1)"
    using read_remote_supervisor [OF _ _ assms(5)] 1(2) unfolding session_kept_def by metis
  moreover have "value_of (mem_bytes (put_mem addr (data_bytes sz w) f) addr sz) = take_bit (8 * sz) w" for f
  proof -
    have "length (data_bytes sz w) = sz" "sz \<le> 2 ^ 32" using sz by auto
    then show ?thesis using mem_bytes_put [of "data_bytes sz w" addr f] value_of_data [OF sz] by simp
  qed
  ultimately show ?thesis
    using 1 session_trans [OF 1(2)] by (intro exI [of _ h1] exI [of _ h2]) simp
qed

theorem write_then_read_witness:
  "\<exists>h1 h2. write_remote (monitor (\<lambda>_ p. (0, p))) 0x1000 0x12345678 4 US_SUPERVISOR demo_link = Inr h1 \<and>
     read_remote (monitor (\<lambda>_ p. (0, p))) 0x1002 2 US_SUPERVISOR h1 = Inr (0x5678, h2)"
proof -
  have "value_of (mem_bytes (put_mem 0x1000 (data_bytes 4 0x12345678) (mn_mem (l_target demo_link))) 0x1002 2) = 0x5678"
    by (simp add: value_of_def data_bytes_def word_bytes_def mem_bytes_small demo)
  then show ?thesis
    using write_then_read [of demo_link "0x1000" 4 "0x1002" 2 "\<lambda>_ p. (0, p)" "0x12345678"]
    by (auto simp: demo aligned_access_def)
qed

end
