(* ===== verification/Rem_Blocks.thy ===== *)
theory Rem_Blocks
  imports Rem_Access
begin

text \<open>
  Blocks of target memory and the registers of the program that is debugged, which are words in the
  register area of the monitor.
\<close>

section \<open>Aligned addresses\<close>

lemma aligned_iff: "aligned_access a sz \<longleftrightarrow> sz \<in> {1, 2, 4} \<and> unat a mod sz = 0"
proof -
  have "unat (a AND 1) = unat a mod 2" "unat (a AND 3) = unat a mod 4"
    using arg_cong [OF take_bit_eq_mask [of 1 a], of unat] arg_cong [OF take_bit_eq_mask [of 2 a], of unat]
    by (simp_all add: unsigned_take_bit_eq take_bit_nat_def mask_eq_exp_minus_1 unat_mod)
  moreover have "a AND (of_nat sz - 1) = 0 \<longleftrightarrow> unat (a AND (of_nat sz - 1)) = 0" by (simp add: unat_eq_zero)
  ultimately have "a AND (of_nat sz - 1) = 0 \<longleftrightarrow> unat a mod sz = 0" if "sz \<in> {1, 2, 4}"
    using that by auto
  then show ?thesis by (auto simp: aligned_access_def)
qed

lemma unat_add_mod:
  assumes "k dvd 2 ^ 32"
  shows "unat (a + of_nat n :: u32) mod k = (unat a + n) mod k"
  using assms by (simp add: unat_word_ariths unat_of_nat mod_simps mod_mod_cancel)

lemma aligned_add: "aligned_access a sz \<Longrightarrow> sz dvd n \<Longrightarrow> aligned_access (a + of_nat n) sz"
proof -
  assume a: "aligned_access a sz" and n: "sz dvd n"
  then have "sz \<in> {1, 2, 4}" by (simp add: aligned_iff)
  then have "sz dvd 2 ^ 32" by auto
  from unat_add_mod [OF this, of a n] a n show ?thesis by (auto simp: aligned_iff mod_eq_0_iff_dvd)
qed

lemma aligned_other:
  assumes "aligned_access a 4" and "aligned_access b 4" and "a \<noteq> b" and "i < 4"
  shows "4 \<le> unat (b + of_nat i - a)"
proof -
  let ?d = "b - a"
  have "unat (a + of_nat (unat ?d)) mod 4 = (unat a + unat ?d) mod 4" by (rule unat_add_mod) simp
  then have "unat ?d mod 4 = 0" using assms(1,2)
    by (simp add: aligned_iff mod_eq_0_iff_dvd dvd_add_right_iff)
  moreover have "unat ?d \<noteq> 0" using assms(3) by (simp add: unat_eq_zero)
  ultimately obtain k where k: "unat ?d = 4 * k" "0 < k" by (auto simp: mod_eq_0_iff_dvd dvd_def)
  have "unat ?d < 2 ^ 32" using unsigned_less [of ?d] by simp
  with k have "4 * k + i < 2 ^ 32" "4 \<le> 4 * k + i" using assms(4) by auto
  moreover have "b + of_nat i - a = of_nat (4 * k + i)"
  proof -
    have "?d = of_nat (unat ?d)" by simp
    then have "?d = of_nat (4 * k)" unfolding k(1) .
    then show ?thesis by (simp add: algebra_simps)
  qed
  moreover have "unat (of_nat (4 * k + i) :: u32) = 4 * k + i"
    using \<open>4 * k + i < 2 ^ 32\<close> by (simp only: unat_of_nat) simp
  ultimately show ?thesis by (simp only:)
qed

lemma other_word:
  assumes "aligned_access a 4" and "aligned_access b 4" and "a \<noteq> b"
  shows "mem_bytes (put_mem a (data_bytes 4 w) f) b 4 = mem_bytes f b 4"
proof (rule nth_equalityI)
  fix i
  assume "i < length (mem_bytes (put_mem a (data_bytes 4 w) f) b 4)"
  then have i: "i < 4" by simp
  then show "mem_bytes (put_mem a (data_bytes 4 w) f) b 4 ! i = mem_bytes f b 4 ! i"
    using aligned_other [OF assms i] by (simp add: put_mem_at)
qed simp

section \<open>Reading blocks\<close>

lemma data_bytes_value:
  assumes "length bs = sz" and "sz \<in> {1, 2, 4}"
  shows "data_bytes sz (value_of bs) = bs"
proof -
  from assms(2) consider "sz = 1" | "sz = 2" | "sz = 4" by auto
  then show ?thesis
  proof cases
    case 1
    then obtain a where "bs = [a]" using assms(1) by (auto simp: length_Suc_conv)
    then show ?thesis by (simp add: 1 value_of_def data_bytes_def word_bytes_def)
  next
    case 2
    then obtain a b where ab: "bs = [a, b]" using assms(1) by (auto simp: numeral_eq_Suc length_Suc_conv)
    have "ucast (drop_bit 8 (push_bit 8 (ucast a) OR ucast b :: u32)) = a"
      "ucast (push_bit 8 (ucast a) OR ucast b :: u32) = b"
      by (rule bit_word_eqI, auto simp: bit_simps dest: bit_imp_le_length)+
    then show ?thesis by (simp add: 2 ab value_of_def data_bytes_def word_bytes_def)
  next
    case 3
    then obtain a b c d where abcd: "bs = [a, b, c, d]" using assms(1) by (auto simp: numeral_eq_Suc length_Suc_conv)
    have "value_of bs = bytes_word a b c d" by (simp add: abcd value_of_def bytes_word_def)
    then show ?thesis using word_bytes_word [of a b c d] by (simp add: 3 abcd data_bytes_def)
  qed
qed

text \<open>The lines of a range answer.\<close>

definition mapped_lines :: "mon \<Rightarrow> u32 \<Rightarrow> nat \<Rightarrow> bool" where
  "mapped_lines p a n \<longleftrightarrow> (\<forall>i < n. mapped_range p (line_addr (a + of_nat i)) CACHELINESIZE)"

lemma mapped_lines_split:
  "mapped_lines p a (m + n) \<Longrightarrow> mapped_lines p a m \<and> mapped_lines p (a + of_nat m) n"
proof -
  assume all: "mapped_lines p a (m + n)"
  have "mapped_range p (line_addr (a + of_nat m + of_nat j)) CACHELINESIZE" if "j < n" for j
    using all that unfolding mapped_lines_def by (metis add.assoc add_strict_left_mono of_nat_add)
  with all show ?thesis unfolding mapped_lines_def by simp
qed

lemma session_lines: "session_kept h h' \<Longrightarrow> mapped_lines (l_target h') = mapped_lines (l_target h)"
  using session_mapped [of h h'] by (simp add: mapped_lines_def fun_eq_iff)

lemma session_refl: "connected h \<Longrightarrow> coherent h \<Longrightarrow> session_kept h h"
  by (simp add: session_kept_def)

lemma dread_loop_reads:
  "connected h \<Longrightarrow> coherent h \<Longrightarrow> aligned_access addr sz \<Longrightarrow> mapped_lines (l_target h) addr (sz * n) \<Longrightarrow>
     \<exists>h'. dread_loop (monitor rom) n sz addr US_SUPERVISOR h =
         Inr ((mem_bytes (mn_mem (l_target h)) addr (sz * n), False), h') \<and>
       session_kept h h' \<and> mn_mem (l_target h') = mn_mem (l_target h)"
proof (induction n arbitrary: addr h)
  case 0
  then show ?case by (auto simp: mem_bytes_small session_kept_def)
next
  case (Suc n)
  have sz: "sz \<in> {1, 2, 4}" "0 < sz" using Suc.prems(3) by (auto simp: aligned_access_def)
  have m: "mapped_lines (l_target h) addr sz" "mapped_lines (l_target h) (addr + of_nat sz) (sz * n)"
    using mapped_lines_split [of "l_target h" addr sz "sz * n"] Suc.prems(4) by simp_all
  have "mapped_range (l_target h) (line_addr (addr + of_nat 0)) CACHELINESIZE"
    using m(1) sz(2) unfolding mapped_lines_def by blast
  then obtain h1 where 1: "read_remote (monitor rom) addr sz US_SUPERVISOR h =
      Inr (value_of (mem_bytes (mn_mem (l_target h)) addr sz), h1)" "session_kept h h1" "\<not> l_remote_errno h1"
      "mn_mem (l_target h1) = mn_mem (l_target h)"
    using read_remote_supervisor [OF Suc.prems(1-3), of rom] by auto
  have c1: "connected h1" "coherent h1" using 1(2) by (simp_all add: session_kept_def)
  have "mapped_lines (l_target h1) (addr + of_nat sz) (sz * n)" using m(2) session_lines [OF 1(2)] by simp
  with Suc.IH [OF c1 aligned_add [OF Suc.prems(3) dvd_refl]] obtain h2 where
    2: "dread_loop (monitor rom) n sz (addr + of_nat sz) US_SUPERVISOR h1 =
      Inr ((mem_bytes (mn_mem (l_target h)) (addr + of_nat sz) (sz * n), False), h2)" "session_kept h1 h2"
      "mn_mem (l_target h2) = mn_mem (l_target h)"
    unfolding 1(4) by blast
  have "drop (4 - sz) (word_bytes (value_of (mem_bytes (mn_mem (l_target h)) addr sz))) = mem_bytes (mn_mem (l_target h)) addr sz"
    using data_bytes_value [OF mem_bytes_length sz(1)] by (simp add: data_bytes_def)
  then have "dread_loop (monitor rom) (Suc n) sz addr US_SUPERVISOR h =
      Inr ((mem_bytes (mn_mem (l_target h)) addr (sz * Suc n), False), h2)"
    using 1(1,3) 2(1) mem_bytes_add [of "mn_mem (l_target h)" addr sz "sz * n"] by simp
  then show ?case using 2(3) session_trans [OF 1(2) 2(2)] by blast
qed


text \<open>Reading a block gives the bytes in the memory of the target.\<close>

lemma dread_remote_reads:
  assumes "connected h" and "coherent h" and "aligned_access addr 4" and "mapped_lines (l_target h) addr n"
  shows "\<exists>h'. dread_remote (monitor rom) addr n US_SUPERVISOR h = Inr ((mem_bytes (mn_mem (l_target h)) addr n, False), h') \<and>
    session_kept h h' \<and> mn_mem (l_target h') = mn_mem (l_target h)"
proof -
  define m where "m = full_words (n)"
  define k where "k = full_shorts (n)"
  define l where "l = single_bytes (n)"
  let ?f = "mn_mem (l_target h)"
  have n: "n = 4 * m + (2 * k + 1 * l)" unfolding m_def k_def l_def by (rule bytes_split)
  note lines = assms(4) [unfolded n]
  have l1: "mapped_lines (l_target h) addr (4 * m)" and l23: "mapped_lines (l_target h) (addr + of_nat (4 * m)) (2 * k + 1 * l)"
    using mapped_lines_split [OF lines] by simp_all
  obtain h1 where 1: "dread_loop (monitor rom) m 4 addr US_SUPERVISOR h = Inr ((mem_bytes ?f addr (4 * m), False), h1)"
    "session_kept h h1" "mn_mem (l_target h1) = ?f"
    using dread_loop_reads [OF assms(1-3) l1] by blast
  have "aligned_access (addr + of_nat (4 * m)) 4" by (rule aligned_add) (use assms(3) in simp_all)
  then have a2: "aligned_access (addr + of_nat (4 * m)) 2"
    by (auto simp: aligned_iff mod_eq_0_iff_dvd intro: dvd_trans [of 2 4])
  have l2: "mapped_lines (l_target h1) (addr + of_nat (4 * m)) (2 * k)"
    and l3: "mapped_lines (l_target h1) (addr + of_nat (4 * m) + of_nat (2 * k)) (1 * l)"
    using mapped_lines_split [OF l23] session_lines [OF 1(2)] by simp_all
  have c1: "connected h1" "coherent h1" using 1(2) by (simp_all add: session_kept_def)
  obtain h2 where 2: "dread_loop (monitor rom) k 2 (addr + of_nat (4 * m)) US_SUPERVISOR h1 =
      Inr ((mem_bytes ?f (addr + of_nat (4 * m)) (2 * k), False), h2)"
    "session_kept h1 h2" "mn_mem (l_target h2) = ?f"
    using dread_loop_reads [OF c1 a2 l2] unfolding 1(3) by blast
  have c2: "connected h2" "coherent h2" using 2(2) by (simp_all add: session_kept_def)
  have a3: "aligned_access (addr + of_nat (4 * m) + of_nat (2 * k)) 1" by (simp add: aligned_iff)
  have l3': "mapped_lines (l_target h2) (addr + of_nat (4 * m) + of_nat (2 * k)) (1 * l)"
    using l3 session_lines [OF 2(2)] by simp
  obtain h3 where 3: "dread_loop (monitor rom) l 1 (addr + of_nat (4 * m) + of_nat (2 * k)) US_SUPERVISOR h2 =
      Inr ((mem_bytes ?f (addr + of_nat (4 * m) + of_nat (2 * k)) (1 * l), False), h3)"
    "session_kept h2 h3" "mn_mem (l_target h3) = ?f"
    using dread_loop_reads [OF c2 a3 l3'] unfolding 2(3) by blast
  have mode: "resolve_usmode tgt US_SUPERVISOR h = Inr (US_SUPERVISOR, h)" for tgt and h :: "mon link"
    by (simp add: resolve_usmode_def)
  have "dread_remote (monitor rom) addr n US_SUPERVISOR h = Inr ((mem_bytes ?f addr (4 * m) @
      mem_bytes ?f (addr + of_nat (4 * m)) (2 * k) @
      mem_bytes ?f (addr + of_nat (4 * m) + of_nat (2 * k)) (1 * l), False), h3)"
    unfolding dread_remote_def mode mbind_simps prod.case Let_def m_def [symmetric] k_def [symmetric] l_def [symmetric]
      1(1) 2(1) 3(1) by simp
  also have "\<dots> = Inr ((mem_bytes ?f addr n, False), h3)" unfolding n mem_bytes_add ..
  finally show ?thesis using 3(3) session_trans [OF 1(2) session_trans [OF 2(2) 3(2)]] by blast
qed

section \<open>Registers\<close>

lemma register_aligned:
  assumes "aligned_access (l_register_area h (if n = H_MEMBRK_REGNUM then 3 else l_selected_processor h)) 4"
  shows "aligned_access (register_address n h) 4"
proof -
  have "4 * word_of_int (regmap n) = (of_nat (4 * unat (word_of_int (regmap n) :: u32)) :: u32)" by simp
  then show ?thesis using aligned_add [OF assms, of "4 * unat (word_of_int (regmap n) :: u32)"]
    by (simp add: register_address_def)
qed

text \<open>
  The words of the registers in the register area: only the pairs \<open>pc\<close>, \<open>snip\<close> and \<open>psr\<close>, \<open>epsr\<close> share one.
\<close>

definition same_register :: "nat \<Rightarrow> nat \<Rightarrow> bool" where
  "same_register m n \<longleftrightarrow> m = n \<or> {m, n} = {32, 38} \<or> {m, n} = {34, 35}"

lemma regmap_shared:
  assumes "n \<le> 65" and "m \<le> 65"
  shows "regmap m = regmap n \<longleftrightarrow> same_register m n"
  using assms by (auto simp: regmap_def same_register_def doubleton_eq_iff split: if_splits)

lemma register_address_inj:
  assumes "n \<le> 65" and "m \<le> 65"
  shows "register_address m h = register_address n h \<longleftrightarrow> same_register m n"
proof -
  have r: "0 \<le> regmap k \<and> regmap k \<le> 65" if "k \<le> 65" for k using that by (simp add: regmap_def)
  have u: "unat (4 * word_of_int (regmap k) :: u32) = 4 * nat (regmap k)" if "k \<le> 65" for k
  proof -
    have "(4 * word_of_int (regmap k) :: u32) = of_nat (4 * nat (regmap k))" using r [OF that] by simp
    moreover have "nat (regmap k) \<le> 65" using r [OF that] by (auto simp: nat_le_iff)
    then have "unat (of_nat (4 * nat (regmap k)) :: u32) = 4 * nat (regmap k)" by (simp only: unat_of_nat) simp
    ultimately show ?thesis by simp
  qed
  have "register_address m h = register_address n h \<longleftrightarrow>
      (4 * word_of_int (regmap m) :: u32) = 4 * word_of_int (regmap n)"
    using assms by (simp add: register_address_def)
  also have "\<dots> \<longleftrightarrow> regmap m = regmap n"
    using r [OF assms(1)] r [OF assms(2)] unfolding word_unat_eq_iff u [OF assms(1)] u [OF assms(2)] by auto
  finally show ?thesis using regmap_shared [OF assms] by simp
qed

text \<open>
  Property C32.  A register of the program that is debugged is a word in the register area of the monitor:
  after a write to register \<open>n\<close> through the line, a read of register \<open>m\<close> returns the new value if \<open>m\<close> is \<open>n\<close> (or
  shares its word: \<open>pc\<close> with \<open>snip\<close>, \<open>psr\<close> with \<open>epsr\<close>), and what the target's memory held for it otherwise.  For the
  registers 0 to 65, on a big-endian host, with the two sides of the line in step, a cache that agrees with the
  target, an aligned register area and memory where its lines are.
\<close>

theorem register_write_read:
  assumes "connected h" and "coherent h" and "n \<le> 65" and "m \<le> 65" and "l_big_endian h"
    and "\<forall>i. aligned_access (l_register_area h i) 4"
    and "mapped_range (l_target h) (line_addr (register_address n h)) CACHELINESIZE"
    and "mapped_range (l_target h) (line_addr (register_address m h)) CACHELINESIZE"
  shows "\<exists>h1 h2. remote_write_register (monitor rom) n w h = Inr h1 \<and> session_kept h h2 \<and>
    remote_read_register (monitor rom) m h1 =
      Inr (if same_register m n then w
           else value_of (mem_bytes (mn_mem (l_target h)) (register_address m h) 4), h2)"
proof -
  note shared = register_address_inj [OF assms(3,4), of h]
  have a: "aligned_access (register_address i h) 4" for i
    by (rule register_aligned) (use assms(6) in blast)
  obtain h1 where 1: "write_remote (monitor rom) (register_address n h) w 4 US_SUPERVISOR h = Inr h1" "session_kept h h1"
    "mn_mem (l_target h1) = put_mem (register_address n h) (data_bytes 4 w) (mn_mem (l_target h))"
    using write_remote_supervisor [OF assms(1,2) a assms(5) mapped_line [OF assms(7) aligned_fits [OF a]]] by blast
  have "mapped_range (l_target h1) (line_addr (register_address m h)) CACHELINESIZE"
    using session_mapped [OF 1(2)] assms(8) by simp
  then obtain h2 where 2: "read_remote (monitor rom) (register_address m h) 4 US_SUPERVISOR h1 =
      Inr (value_of (mem_bytes (mn_mem (l_target h1)) (register_address m h) 4), h2)" "session_kept h1 h2"
    using read_remote_supervisor [OF _ _ a] 1(2) unfolding session_kept_def by metis
  have "register_address m h1 = register_address m h"
    using 1(2) by (simp add: session_kept_def link_rest_def register_address_def)
  moreover have "value_of (mem_bytes (put_mem b (data_bytes 4 w) f) b 4) = w" for b f
  proof -
    have "take_bit 32 w = w" by (rule bit_word_eqI) (simp add: bit_simps)
    then show ?thesis using mem_bytes_put [of "data_bytes 4 w" b f] value_of_data [of 4 w] by simp
  qed
  ultimately show ?thesis
    using 1(1,3) 2 session_trans [OF 1(2) 2(2)] other_word [OF a a]
    unfolding remote_write_register_def remote_read_register_def shared [symmetric] by fastforce
qed

theorem register_write_read_witness:
  "\<exists>h1 h2. remote_write_register (monitor (\<lambda>_ p. (0, p))) 5 99 demo_link = Inr h1 \<and>
     remote_read_register (monitor (\<lambda>_ p. (0, p))) 5 h1 = Inr (99, h2)"
  using register_write_read [of demo_link 5 5 "\<lambda>_ p. (0, p)" 99] by (auto simp: demo aligned_access_def same_register_def)

end
