(* ===== verification/Rem_Dwrite.thy ===== *)
theory Rem_Dwrite
  imports Rem_Blocks
begin

text \<open>
  Reading and writing blocks of target memory.  The debugger is built without \<open>dwrite_remote\<close>: the source
  has it under \<open>DWRITE_NEEDED\<close>, and keeps it in case it is needed.
\<close>

section \<open>Writing blocks\<close>

lemma aligned_mapped:
  assumes "mapped_lines p a n" and "aligned_access a sz" and "sz \<le> n"
  shows "mapped_range p a sz"
proof -
  have "0 < n" using assms(2,3) by (auto simp: aligned_access_def)
  then have "mapped_range p (line_addr (a + of_nat 0)) CACHELINESIZE" using assms(1) unfolding mapped_lines_def by blast
  then show ?thesis using mapped_line [OF _ aligned_fits [OF assms(2)]] by simp
qed

lemma dwrite_loop_stores:
  "connected h \<Longrightarrow> coherent h \<Longrightarrow> l_big_endian h \<Longrightarrow> aligned_access addr sz \<Longrightarrow>
     mapped_lines (l_target h) addr (sz * n) \<Longrightarrow> sz * n \<le> length bs \<Longrightarrow>
     \<exists>h'. dwrite_loop (monitor rom) n sz addr bs US_SUPERVISOR h = Inr h' \<and> session_kept h h' \<and>
       mn_mem (l_target h') = put_mem addr (take (sz * n) bs) (mn_mem (l_target h))"
proof (induction n arbitrary: addr bs h)
  case 0
  then show ?case by (simp add: session_kept_def)
next
  case (Suc n)
  have sz: "sz \<in> {1, 2, 4}" "0 < sz" using Suc.prems(4) by (auto simp: aligned_access_def)
  have m: "mapped_lines (l_target h) (addr + of_nat sz) (sz * n)"
    using mapped_lines_split [of "l_target h" addr sz "sz * n"] Suc.prems(5) by simp
  have now: "mapped_range (l_target h) addr sz"
    by (rule aligned_mapped [OF Suc.prems(5,4)]) simp
  obtain h1 where 1: "write_remote (monitor rom) addr (value_of (take sz bs)) sz US_SUPERVISOR h = Inr h1"
    "session_kept h h1" "\<not> l_remote_errno h1"
    "mn_mem (l_target h1) = put_mem addr (data_bytes sz (value_of (take sz bs))) (mn_mem (l_target h))"
    using write_remote_supervisor [OF Suc.prems(1,2,4,3) now] by blast
  have len: "length (take sz bs) = sz" using Suc.prems(6) by simp
  have data: "data_bytes sz (value_of (take sz bs)) = take sz bs" by (rule data_bytes_value [OF len sz(1)])
  have c1: "connected h1" "coherent h1" "l_big_endian h1"
    using 1(2) Suc.prems(3) by (simp_all add: session_kept_def link_rest_def)
  have m1: "mapped_lines (l_target h1) (addr + of_nat sz) (sz * n)" using m session_lines [OF 1(2)] by simp
  have "sz * n \<le> length (drop sz bs)" using Suc.prems(6) by simp
  from Suc.IH [OF c1 aligned_add [OF Suc.prems(4) dvd_refl] m1 this] obtain h2 where
    2: "dwrite_loop (monitor rom) n sz (addr + of_nat sz) (drop sz bs) US_SUPERVISOR h1 = Inr h2" "session_kept h1 h2"
      "mn_mem (l_target h2) = put_mem (addr + of_nat sz) (take (sz * n) (drop sz bs)) (mn_mem (l_target h1))"
    by blast
  have "take (sz * Suc n) bs = take sz bs @ take (sz * n) (drop sz bs)" by (simp add: take_add)
  then have "mn_mem (l_target h2) = put_mem addr (take (sz * Suc n) bs) (mn_mem (l_target h))"
    unfolding 2(3) 1(4) data using len by (simp add: put_mem_append)
  moreover have "dwrite_loop (monitor rom) (Suc n) sz addr bs US_SUPERVISOR h = Inr h2"
    using 1(1,3) 2(1) by simp
  ultimately show ?case using session_trans [OF 1(2) 2(2)] by blast
qed

text \<open>
  Property C12.  Blocks in supervisor mode, from an address that is a multiple of four on, on a big-endian
  host.  \<open>dread_remote\<close>, with words, then halfwords, then bytes, returns exactly the bytes of the
  target's memory, which stays as it is, for every length up to 4 GB.  A block written with \<open>dwrite_remote\<close> (which
  is compiled only under \<open>DWRITE_NEEDED\<close>) changes exactly its bytes, and reading the block returns it.
\<close>

theorem block_write_read:
  assumes "connected h" and "coherent h" and "l_big_endian h" and "aligned_access addr 4"
    and "mapped_lines (l_target h) addr (length bs)" and "length bs < 2 ^ 32"
  shows "(\<exists>h1. dread_remote (monitor rom) addr (length bs) US_SUPERVISOR h =
      Inr ((mem_bytes (mn_mem (l_target h)) addr (length bs), False), h1) \<and>
      mn_mem (l_target h1) = mn_mem (l_target h) \<and> session_kept h h1) \<and>
    (\<exists>h1 h2. dwrite_remote (monitor rom) addr bs US_SUPERVISOR h = Inr h1 \<and>
      mn_mem (l_target h1) = put_mem addr bs (mn_mem (l_target h)) \<and>
      dread_remote (monitor rom) addr (length bs) US_SUPERVISOR h1 = Inr ((bs, False), h2) \<and> session_kept h h2)"
proof -
  obtain h0 where 0: "dread_remote (monitor rom) addr (length bs) US_SUPERVISOR h =
      Inr ((mem_bytes (mn_mem (l_target h)) addr (length bs), False), h0)" "session_kept h h0"
      "mn_mem (l_target h0) = mn_mem (l_target h)"
    using dread_remote_reads [OF assms(1,2,4,5)] by blast
  define m where "m = full_words (length bs)"
  define k where "k = full_shorts (length bs)"
  define l where "l = single_bytes (length bs)"
  have n: "length bs = 4 * m + (2 * k + 1 * l)" unfolding m_def k_def l_def by (rule bytes_split)
  note lines = assms(5) [unfolded n]
  have l1: "mapped_lines (l_target h) addr (4 * m)" and l23: "mapped_lines (l_target h) (addr + of_nat (4 * m)) (2 * k + 1 * l)"
    using mapped_lines_split [OF lines] by simp_all
  have "4 * m \<le> length bs" using n by simp
  from dwrite_loop_stores [OF assms(1-4) l1 this] obtain h1 where
    1: "dwrite_loop (monitor rom) m 4 addr bs US_SUPERVISOR h = Inr h1" "session_kept h h1"
      "mn_mem (l_target h1) = put_mem addr (take (4 * m) bs) (mn_mem (l_target h))" by blast
  have "aligned_access (addr + of_nat (4 * m)) 4" by (rule aligned_add) (use assms(4) in simp_all)
  then have a2: "aligned_access (addr + of_nat (4 * m)) 2"
    by (auto simp: aligned_iff mod_eq_0_iff_dvd intro: dvd_trans [of 2 4])
  have l2: "mapped_lines (l_target h1) (addr + of_nat (4 * m)) (2 * k)"
    and l3: "mapped_lines (l_target h1) (addr + of_nat (4 * m) + of_nat (2 * k)) (1 * l)"
    using mapped_lines_split [OF l23] session_lines [OF 1(2)] by simp_all
  have c1: "connected h1" "coherent h1" "l_big_endian h1"
    using 1(2) assms(3) by (simp_all add: session_kept_def link_rest_def)
  have "2 * k \<le> length (drop (4 * m) bs)" using n by simp
  from dwrite_loop_stores [OF c1 a2 l2 this] obtain h2 where
    2: "dwrite_loop (monitor rom) k 2 (addr + of_nat (4 * m)) (drop (4 * m) bs) US_SUPERVISOR h1 = Inr h2" "session_kept h1 h2"
      "mn_mem (l_target h2) = put_mem (addr + of_nat (4 * m)) (take (2 * k) (drop (4 * m) bs)) (mn_mem (l_target h1))" by blast
  have c2: "connected h2" "coherent h2" "l_big_endian h2"
    using 2(2) c1(3) by (simp_all add: session_kept_def link_rest_def)
  have a3: "aligned_access (addr + of_nat (4 * m) + of_nat (2 * k)) 1" by (simp add: aligned_iff)
  have l3': "mapped_lines (l_target h2) (addr + of_nat (4 * m) + of_nat (2 * k)) (1 * l)"
    using l3 session_lines [OF 2(2)] by simp
  let ?d3 = "drop (2 * k) (drop (4 * m) bs)"
  have d3: "1 * l \<le> length ?d3" "take (1 * l) ?d3 = ?d3" using n by simp_all
  from dwrite_loop_stores [OF c2 a3 l3' d3(1)] obtain h3 where
    3: "dwrite_loop (monitor rom) l 1 (addr + of_nat (4 * m) + of_nat (2 * k)) ?d3 US_SUPERVISOR h2 = Inr h3" "session_kept h2 h3"
      "mn_mem (l_target h3) = put_mem (addr + of_nat (4 * m) + of_nat (2 * k)) (take (1 * l) ?d3) (mn_mem (l_target h2))" by blast
  have mode: "resolve_usmode tgt US_SUPERVISOR h = Inr (US_SUPERVISOR, h)" for tgt and h :: "mon link"
    by (simp add: resolve_usmode_def)
  have w: "dwrite_remote (monitor rom) addr bs US_SUPERVISOR h = Inr h3"
    unfolding dwrite_remote_def mode mbind_simps prod.case Let_def m_def [symmetric] k_def [symmetric] l_def [symmetric]
      1(1) 2(1) 3(1) ..
  have "bs = take (4 * m) bs @ take (2 * k) (drop (4 * m) bs) @ ?d3" by (metis append_take_drop_id)
  moreover have "length (take (4 * m) bs) = 4 * m" "length (take (2 * k) (drop (4 * m) bs)) = 2 * k" using n by simp_all
  ultimately have mem: "mn_mem (l_target h3) = put_mem addr bs (mn_mem (l_target h))"
    unfolding 3(3) 2(3) 1(3) d3(2) by (metis put_mem_append)
  have kept: "session_kept h h3" by (rule session_trans [OF 1(2) session_trans [OF 2(2) 3(2)]])
  then have c3: "connected h3" "coherent h3" "mapped_lines (l_target h3) addr (length bs)"
    using assms(5) session_lines [OF kept] by (simp_all add: session_kept_def)
  obtain h4 where "dread_remote (monitor rom) addr (length bs) US_SUPERVISOR h3 =
      Inr ((mem_bytes (mn_mem (l_target h3)) addr (length bs), False), h4)" "session_kept h3 h4"
    using dread_remote_reads [OF c3(1,2) assms(4) c3(3)] by blast
  moreover have "mem_bytes (mn_mem (l_target h3)) addr (length bs) = bs"
    unfolding mem using assms(6) by (simp add: mem_bytes_put)
  ultimately show ?thesis using 0 w mem session_trans [OF kept] by auto
qed

theorem block_write_read_witness:
  "(\<exists>h1. dread_remote (monitor (\<lambda>_ p. (0, p))) 0x1000 7 US_SUPERVISOR demo_link =
      Inr ((mem_bytes (mn_mem (l_target demo_link)) 0x1000 7, False), h1)) \<and>
   (\<exists>h1 h2. dwrite_remote (monitor (\<lambda>_ p. (0, p))) 0x1000 [1, 2, 3, 4, 5, 6, 9] US_SUPERVISOR demo_link = Inr h1 \<and>
     dread_remote (monitor (\<lambda>_ p. (0, p))) 0x1000 7 US_SUPERVISOR h1 = Inr (([1, 2, 3, 4, 5, 6, 9], False), h2))"
proof -
  have a: "aligned_access 0x1000 4" by (simp add: aligned_access_def)
  have m: "mapped_lines (l_target demo_link) 0x1000 n" for n by (simp add: demo mapped_lines_def)
  have "length [1, 2, 3, 4, 5, 6, 9 :: u8] < 2 ^ 32" and len: "length [1, 2, 3, 4, 5, 6, 9 :: u8] = 7" by simp_all
  from block_write_read [OF demo_link(1-3) a m this(1), of "\<lambda>_ p. (0, p)"] show ?thesis unfolding len by blast
qed

end
