(* ===== verification/Rem_Errors.thy ===== *)
theory Rem_Errors
  imports Rem_Blocks
begin

text \<open>
  What goes wrong on the line: packets with a wrong character, and the accesses to the user address
  space that the monitor does not know.
\<close>

section \<open>A wrong character\<close>

text \<open>
  Property C13.  A download packet arrives with one character of its address, length or data replaced by
  another one, such that the characters up to the unchanged end of the packet still are the
  encoding of an address, a length and that many bytes, all at mapped addresses.  (A character that
  changes the framing of the packet, or gives a length that does not fit, is not covered.)  The checksum
  detects every such change and the monitor reports it; but the monitor has already stored the
  bytes that arrived, at the address that arrived.
\<close>

theorem corrupted_download:
  assumes "idle_mon p" and "us = vs @ c # ws" and "us' = vs @ c' # ws" and "c \<noteq> c'"
    and "encodes us' (word_bytes a @ word_bytes (of_nat (length data)) @ data)" and "length data < 2 ^ 32"
    and "mapped_range p a (length data)"
    and "ck = checksum_of ([COMMAND_PREFIX1, C_DOWNLOAD] @ us @ [COMMAND_PREFIX1, C_END]) 0"
  shows "\<exists>p' cs. monitor rom p ([COMMAND_PREFIX1, C_DOWNLOAD] @ us' @ [COMMAND_PREFIX1, C_END] @ enc_word ck) =
      ([COMMAND_PREFIX1, C_CHECKSUMERR] @ cs, p') \<and> mn_mem p' = put_mem a data (mn_mem p)"
proof -
  let ?rx = "us' @ [COMMAND_PREFIX1, C_END] @ enc_word ck"
  let ?p0 = "p\<lparr>mn_rx := [COMMAND_PREFIX1, C_DOWNLOAD] @ ?rx, mn_tx := []\<rparr>"
  let ?p1 = "p\<lparr>mn_rx := ?rx, mn_tx := [], dm_checksum := checksum_of [COMMAND_PREFIX1, C_DOWNLOAD] 0,
    dm_checksumming := True\<rparr>"
  have p1: "mon_pending ?p1 = []" "mn_rx ?p1 = ?rx" "dm_checksumming ?p1" "mapped_range ?p1 a (length data)"
    using assms(1,7) by (simp_all add: idle_mon_def mon_pending_def mapped_range_def)
  obtain p5 where 5: "download_cmd ?p1 False =
      mbind (mon_wait_for_token p5 C_END) (\<lambda>p. mbind (mon_verify_checksum p) (\<lambda>p. mon_send_command p C_ACK))"
    "mn_rx p5 = [COMMAND_PREFIX1, C_END] @ enc_word ck" "dm_checksumming p5" "mon_pending p5 = []"
    "dm_checksum p5 = checksum_of us' (dm_checksum ?p1)" "mon_core p5 = (mon_core ?p1)\<lparr>mn_mem := put_mem a data (mn_mem ?p1)\<rparr>"
    using download_cmd_data [OF p1(1-3) assms(5,6) p1(4)] by blast
  let ?p6 = "p5\<lparr>mn_rx := enc_word ck, dm_checksum := checksum_of [COMMAND_PREFIX1, C_END] (dm_checksum p5)\<rparr>"
  have w: "mon_wait_for_token p5 C_END = Inr ?p6"
    using 5(2,3) by (simp add: mon_wait_for_token_def mon_get_char_def mon_add_to_checksum_def)
  have "checksum_of (us' @ [COMMAND_PREFIX1, C_END]) s \<noteq> checksum_of (us @ [COMMAND_PREFIX1, C_END]) s" for s
    using checksum_of_other [of vs c "ws @ [COMMAND_PREFIX1, C_END]" s c'] assms(2-4) by auto
  from this [of "checksum_of [COMMAND_PREFIX1, C_DOWNLOAD] 0"] have "dm_checksum ?p6 \<noteq> ck"
    unfolding assms(8) using 5(5) by simp
  moreover have "mon_pending ?p6 = []" using 5(4) by (simp add: mon_pending_def)
  ultimately obtain r p' where r: "mon_verify_checksum ?p6 = Inl (r, p')" "mn_mem p' = mn_mem p5"
    "mn_tx p' = mn_tx p5 @ [COMMAND_PREFIX1, C_CHECKSUMERR] @ enc_word (dm_checksum ?p6) @ enc_word ck"
    using packet_bad_checksum [of ?p6 ck] by auto
  have "mn_tx (mon_core p5) = mn_tx (mon_core ?p1)" "mn_mem (mon_core p5) = put_mem a data (mn_mem p)"
    using 5(6) by simp_all
  then have f: "mn_tx p5 = []" "mn_mem p5 = put_mem a data (mn_mem p)" by (simp_all add: core_fields)
  have "mon_iteration rom ?p0 = mon_command rom C_DOWNLOAD ?p1"
    using assms(1) by (cases p) (simp add: mon_iteration_def mon_init_checksum_def mon_get_char_def mon_add_to_checksum_def)
  also have "\<dots> = Inl (r, p')" using 5(1) w r(1) by (simp add: mon_command_def)
  finally have "monitor rom p ([COMMAND_PREFIX1, C_DOWNLOAD] @ ?rx) = (mn_tx p', p')"
    using assms(1) by (simp add: monitor_def idle_mon_def)
  then show ?thesis using r f by auto
qed

theorem corrupted_download_witness:
  "\<exists>p' cs. monitor (\<lambda>_ p. (0, p)) demo_mon
       ([COMMAND_PREFIX1, C_DOWNLOAD] @ [2, 20, 24, 121] @ [COMMAND_PREFIX1, C_END] @
        enc_word (checksum_of ([COMMAND_PREFIX1, C_DOWNLOAD] @ [2, 20, 24, 120] @ [COMMAND_PREFIX1, C_END]) 0)) =
     ([COMMAND_PREFIX1, C_CHECKSUMERR] @ cs, p') \<and> mn_mem p' 0x5da00100 = 0x20"
proof -
  have "encodes ([2] @ [20] @ [24] @ [121] @ []) ([0x5d, 0xa0, 1, 0] @ [0, 0] @ [0, 1] @ [0x20] @ [])"
    by (intro encodes_tok encodes_Nil) (simp_all add: compress_table_def word_bytes_def)
  moreover have "word_bytes 0x5da00100 = [0x5d, 0xa0, 1, 0]" "word_bytes (of_nat (length [0x20 :: u8])) = [0, 0, 0, 1]"
    by (simp_all add: word_bytes_def)
  ultimately have "encodes [2, 20, 24, 121] (word_bytes 0x5da00100 @ word_bytes (of_nat (length [0x20 :: u8])) @ [0x20])"
    by simp
  from corrupted_download [OF demo_mon(1) _ _ _ this, of "[2, 20, 24, 120]" "[2, 20, 24]" 120 "[]" 121, OF _ _ _ _ demo_mon(3) refl]
  show ?thesis by fastforce
qed

section \<open>User space\<close>

text \<open>
  Characters that hold no command: what follows \<open>COMMAND_PREFIX1\<close> is the second character of a quoted
  byte or \<open>C_END\<close>.
\<close>

fun harmless :: "u8 list \<Rightarrow> bool" where
  "harmless [] \<longleftrightarrow> True"
| "harmless (c # cs) \<longleftrightarrow>
     (c = COMMAND_PREFIX1 \<longrightarrow> cs = [] \<or> hd cs < 0x80 \<or> hd cs = C_END) \<and> c \<noteq> VSTART \<and> c \<noteq> VSTOP \<and> harmless cs"

lemma harmless_append: "harmless (us @ vs) \<Longrightarrow> harmless vs"
  by (induction us) auto

lemma harmless_tok:
  assumes "tok_bytes t = Some bs" and "harmless cs"
  shows "harmless (t @ cs)"
  using assms(1)
proof (cases rule: tok_cases)
  case (coded c p l)
  then show ?thesis using coded_not_avoided [OF coded(2,3)] assms(2) by simp
next
  case (low b)
  then have "b \<noteq> COMMAND_PREFIX1" by auto
  then show ?thesis using low low_not_flow [OF low(2)] assms(2) by simp
next
  case (high b)
  then have "b \<noteq> COMMAND_PREFIX1" by auto
  then show ?thesis using high low_not_flow [OF high(2)] assms(2) by simp
qed

lemma harmless_encodes: "encodes us bs \<Longrightarrow> harmless cs \<Longrightarrow> harmless (us @ cs)"
  by (induction rule: encodes.induct) (auto intro: harmless_tok)

text \<open>\<open>untouched p p'\<close>: characters were taken and sent, and memory did not change.\<close>

definition untouched :: "mon \<Rightarrow> mon \<Rightarrow> bool" where
  "untouched p p' \<longleftrightarrow> mn_mem p' = mn_mem p \<and> (\<exists>us. mn_rx p = us @ mn_rx p') \<and> (\<exists>ts. mn_tx p' = mn_tx p @ ts)"

definition ends :: "mstep \<Rightarrow> mon" where
  "ends r = (case r of Inl (_, p) \<Rightarrow> p | Inr p \<Rightarrow> p)"

lemma ends_simps [simp]: "ends (Inl (x, p)) = p" "ends (Inr p) = p"
  by (simp_all add: ends_def)

lemma untouched_refl [simp]: "untouched p p"
  by (simp add: untouched_def)

lemma untouched_trans: "untouched p p' \<Longrightarrow> untouched p' p'' \<Longrightarrow> untouched p p''"
  unfolding untouched_def by (metis append_assoc)

lemma untouched_mbind:
  "untouched p (ends r) \<Longrightarrow> (\<And>p'. untouched p' (ends (f p'))) \<Longrightarrow> untouched p (ends (mbind r f))"
  by (cases r) (auto simp: ends_def intro: untouched_trans)

lemma untouched_transmit: "untouched p (mon_transmit p c)"
  by (auto simp: untouched_def mon_transmit_def mon_add_to_checksum_def)

lemma untouched_check_stop: "untouched p (ends (check_stop n p))"
proof (induction n arbitrary: p)
  case (Suc n)
  let ?put = "\<lambda>c r. mbind r (\<lambda>p. mbind (check_stop n p) (\<lambda>p. Inr (mon_transmit p c)))"
  have put: "untouched p (ends (fold ?put cs r))" if "untouched p (ends r)" for p cs r
    using that
  proof (induction cs arbitrary: r)
    case (Cons c cs)
    have "untouched p (ends (?put c r))"
      by (rule untouched_mbind [OF Cons.prems]) (rule untouched_mbind [OF Suc.IH], simp add: untouched_transmit)
    with Cons.IH show ?case by simp
  qed simp
  have tl: "untouched p (p\<lparr>mn_rx := cs\<rparr>)" if "mn_rx p = us @ cs" for us cs
    using that by (auto simp: untouched_def)
  define de where "de = (\<lambda>p. if mn_report p then fold ?put ([COMMAND_PREFIX1, C_COMMERR] @ enc_byte 1) (Inr p) else Inr p)"
  have de: "untouched p (ends (de p'))" if "untouched p p'" for p'
    using put [of p "Inr p'"] that by (simp only: de_def ends_simps split: if_split) simp
  have "check_stop (Suc n) p =
      (case mn_rx p of
        [] \<Rightarrow> Inr p
      | c # cs \<Rightarrow>
          if c = VSTART then Inr (p\<lparr>mn_rx := cs\<rparr>)
          else if c = VSTOP then
            (case cs of
               [] \<Rightarrow> Inl (Waits, p)
             | c' # cs' \<Rightarrow> if c' = VSTART then Inr (p\<lparr>mn_rx := cs'\<rparr>) else de (p\<lparr>mn_rx := cs'\<rparr>))
          else de (p\<lparr>mn_rx := cs\<rparr>))"
    unfolding check_stop.simps Let_def de_def by (rule refl)
  then show ?case
    using tl [of "[hd (mn_rx p)]" "tl (mn_rx p)"] tl [of "[hd (mn_rx p), hd (tl (mn_rx p))]" "tl (tl (mn_rx p))"]
    by (auto split: list.split intro!: de)
qed simp

lemma untouched_put_char: "untouched p (ends (mon_put_char p c))"
  unfolding mon_put_char_def check_for_stop_def
  by (rule untouched_mbind [OF untouched_check_stop]) (simp add: untouched_transmit)

lemma untouched_send_command: "untouched p (ends (mon_send_command p c))"
  unfolding mon_send_command_def by (rule untouched_mbind [OF untouched_put_char]) (rule untouched_put_char)

lemma untouched_send_byte: "untouched p (ends (mon_send_byte p b))"
  unfolding mon_send_byte_def
  by (auto split: option.split intro!: untouched_mbind untouched_put_char)


text \<open>A command that the monitor does not know is reported, and memory stays as it is.\<close>

lemma unknown_command:
  assumes "c < 0x80 \<or> c = C_END \<or> c = C_DOWNLOADUSER"
  shows "mon_command rom c p = mbind (mon_send_command p C_BADCOMMAND) (\<lambda>p. mon_send_byte p c)"
  using assms by (auto simp: mon_command_def)

lemma untouched_unknown:
  assumes "c < 0x80 \<or> c = C_END \<or> c = C_DOWNLOADUSER"
  shows "untouched p (ends (mon_command rom c p))"
  unfolding unknown_command [OF assms]
  by (rule untouched_mbind [OF untouched_send_command]) (rule untouched_send_byte)

lemma untouched_take:
  "mn_rx p = us @ mn_rx p' \<Longrightarrow> mn_tx p' = mn_tx p \<Longrightarrow> mn_mem p' = mn_mem p \<Longrightarrow> untouched p p'"
  by (simp add: untouched_def)

lemma untouched_iteration:
  assumes "harmless (mn_rx p)"
  shows "untouched p (ends (mon_iteration rom p))"
proof (cases "mn_rx p")
  case Nil
  then show ?thesis
    by (auto simp: mon_iteration_def mon_get_char_def mon_init_checksum_def untouched_def)
next
  case (Cons c cs)
  let ?p1 = "(mon_init_checksum p)\<lparr>mn_rx := cs, dm_checksum := add_to_checksum 0 (ucast c)\<rparr>"
  have get1: "mon_get_char (mon_init_checksum p) = Inr (c, ?p1)"
    using assms Cons by (simp add: mon_get_char_def mon_init_checksum_def mon_add_to_checksum_def)
  have 1: "untouched p ?p1" by (rule untouched_take [of _ "[c]"]) (simp_all add: Cons mon_init_checksum_def)
  show ?thesis
  proof (cases "c = COMMAND_PREFIX1")
    case False
    then show ?thesis using 1 by (simp add: mon_iteration_def get1)
  next
    case True
    show ?thesis
    proof (cases cs)
      case Nil
      then have "mon_get_char ?p1 = Inl (Waits, ?p1)" by (simp add: mon_get_char_def)
      then show ?thesis using 1 True by (simp add: mon_iteration_def get1)
    next
      case (Cons d ds)
      let ?p2 = "?p1\<lparr>mn_rx := ds, dm_checksum := add_to_checksum (add_to_checksum 0 (ucast c)) (ucast d)\<rparr>"
      have d: "d < 0x80 \<or> d = C_END" "d \<noteq> VSTART" "d \<noteq> VSTOP"
        using assms \<open>mn_rx p = c # cs\<close> Cons True by simp_all
      then have "mon_get_char ?p1 = Inr (d, ?p2)"
        using Cons by (simp add: mon_get_char_def mon_add_to_checksum_def mon_init_checksum_def)
      then have it: "mon_iteration rom p = mon_command rom d ?p2" using True by (simp add: mon_iteration_def get1)
      have "untouched p ?p2"
        by (rule untouched_take [of _ "[c, d]"]) (simp_all add: Cons \<open>mn_rx p = c # cs\<close> mon_init_checksum_def)
      moreover have "untouched ?p2 (ends (mon_command rom d ?p2))" by (rule untouched_unknown) (use d(1) in blast)
      ultimately show ?thesis unfolding it by (rule untouched_trans)
    qed
  qed
qed

lemma untouched_loop: "harmless (mn_rx p) \<Longrightarrow> untouched p (snd (mon_loop n rom p))"
proof (induction n arbitrary: p)
  case (Suc n)
  note it = untouched_iteration [OF Suc.prems, of rom]
  show ?case
  proof (cases "mon_iteration rom p")
    case (Inl r)
    then show ?thesis using it by (cases r) simp
  next
    case (Inr p')
    with it have u: "untouched p p'" by simp
    then have "harmless (mn_rx p')" using Suc.prems harmless_append unfolding untouched_def by metis
    from untouched_trans [OF u Suc.IH [OF this]] show ?thesis using Inr by simp
  qed
qed simp

text \<open>The answer to the packet of a write to user space.\<close>

lemma put_char_lost:
  assumes "\<not> mn_report p" and "mn_rx p = c # cs" and "harmless (mn_rx p)"
  shows "mon_put_char p d = Inr (mon_transmit (p\<lparr>mn_rx := cs\<rparr>) d)"
  using assms by (simp add: mon_put_char_def check_for_stop_def)

lemma monitor_user_download:
  assumes "idle_mon p" and "\<not> mn_report p" and "encodes us bs" and "us = u1 # u2 # us'"
  shows "\<exists>cs p'. monitor rom p (packet C_DOWNLOADUSER us) = ([COMMAND_PREFIX1, C_BADCOMMAND] @ cs, p') \<and>
    mn_mem p' = mn_mem p"
proof -
  let ?rest = "us @ [COMMAND_PREFIX1, C_END] @
    enc_word (checksum_of ([COMMAND_PREFIX1, C_DOWNLOADUSER] @ us @ [COMMAND_PREFIX1, C_END]) 0)"
  let ?p0 = "p\<lparr>mn_rx := packet C_DOWNLOADUSER us, mn_tx := []\<rparr>"
  let ?p1 = "packet_taken C_DOWNLOADUSER us p"
  have "harmless (enc_word w @ [])" for w by (rule harmless_encodes [OF encodes_word]) simp
  then have "harmless ([COMMAND_PREFIX1, C_END] @ enc_word w)" for w by simp
  from harmless_encodes [OF assms(3) this] have h: "harmless ?rest" .
  have "mn_rx ?p1 = ?rest" by (simp add: packet_taken_def)
  then have h1: "harmless (mn_rx ?p1)" using h by simp
  have r1: "\<not> mn_report ?p1" "mn_tx ?p1 = []" "mn_mem ?p1 = mn_mem p" using assms(2) by (simp_all add: packet_taken_def)
  have rx1: "mn_rx ?p1 = u1 # u2 # tl (tl ?rest)" by (simp add: packet_taken_def assms(4))
  define p2 where "p2 = mon_transmit (?p1\<lparr>mn_rx := u2 # tl (tl ?rest)\<rparr>) COMMAND_PREFIX1"
  have p2: "\<not> mn_report p2" "mn_rx p2 = u2 # tl (tl ?rest)" "mn_tx p2 = [COMMAND_PREFIX1]" "mn_mem p2 = mn_mem p"
    using r1 by (simp_all add: p2_def mon_transmit_def mon_add_to_checksum_def)
  have h2: "harmless (mn_rx p2)" using h1 unfolding p2(2) rx1 by simp
  define p3 where "p3 = mon_transmit (p2\<lparr>mn_rx := tl (tl ?rest)\<rparr>) C_BADCOMMAND"
  have p3: "mn_rx p3 = tl (tl ?rest)" "mn_tx p3 = [COMMAND_PREFIX1, C_BADCOMMAND]" "mn_mem p3 = mn_mem p"
    using p2 by (simp_all add: p3_def mon_transmit_def mon_add_to_checksum_def)
  have h3: "harmless (mn_rx p3)" using h2 unfolding p3(1) p2(2) by simp
  have "mon_put_char ?p1 COMMAND_PREFIX1 = Inr p2" unfolding p2_def by (rule put_char_lost [OF r1(1) rx1 h1])
  moreover have "mon_put_char p2 C_BADCOMMAND = Inr p3" unfolding p3_def by (rule put_char_lost [OF p2(1,2) h2])
  ultimately have cmd: "mon_command rom C_DOWNLOADUSER ?p1 = mon_send_byte p3 C_DOWNLOADUSER"
    by (simp add: unknown_command mon_send_command_def)
  have it: "mon_iteration rom ?p0 = mon_send_byte p3 C_DOWNLOADUSER"
    unfolding cmd [symmetric] using assms(1)
    by (cases p) (simp add: mon_iteration_def mon_init_checksum_def mon_get_char_def packet_def
        mon_add_to_checksum_def packet_taken_def)
  have u: "untouched p3 (snd (case mon_send_byte p3 C_DOWNLOADUSER of Inl r \<Rightarrow> r | Inr p \<Rightarrow> mon_loop n rom p))" for n
  proof (cases "mon_send_byte p3 C_DOWNLOADUSER")
    case (Inl r)
    then show ?thesis using untouched_send_byte [of p3 C_DOWNLOADUSER] by (cases r) simp
  next
    case (Inr p4)
    then have "untouched p3 p4" using untouched_send_byte [of p3 C_DOWNLOADUSER] by simp
    moreover from this have "harmless (mn_rx p4)" using h3 harmless_append unfolding untouched_def by metis
    ultimately show ?thesis using untouched_trans untouched_loop Inr by simp
  qed
  obtain n where n: "mon_loop (Suc (length (mn_rx p) + length (packet C_DOWNLOADUSER us))) rom ?p0 =
      (case mon_send_byte p3 C_DOWNLOADUSER of Inl r \<Rightarrow> r | Inr p \<Rightarrow> mon_loop n rom p)"
    using it by simp
  have "monitor rom p (packet C_DOWNLOADUSER us) =
      (mn_tx (snd (mon_loop (Suc (length (mn_rx p) + length (packet C_DOWNLOADUSER us))) rom ?p0)),
       snd (mon_loop (Suc (length (mn_rx p) + length (packet C_DOWNLOADUSER us))) rom ?p0))"
    using assms(1) by (simp add: monitor_def idle_mon_def case_prod_beta)
  then show ?thesis using u [of n] p3(2,3) unfolding n untouched_def by auto
qed


lemma encodes_Nil_bytes: "encodes [] bs \<Longrightarrow> bs = []"
proof (cases rule: encodes.cases)
  fix t bs1 cs bs2
  assume "[] = t @ cs" and "tok_bytes t = Some bs1"
  then show ?thesis by simp
qed simp_all

lemma enc_word_nonempty: "enc_word w \<noteq> []"
proof
  assume "enc_word w = []"
  then have "encodes [] (word_bytes w)" using encodes_word [of w] by simp
  then have "word_bytes w = []" by (rule encodes_Nil_bytes)
  then show False by (simp add: word_bytes_def)
qed

lemma expect_other:
  assumes "l_input h = []" and "target (l_target h) (l_output h) = ([COMMAND_PREFIX1, tk] @ cs, t)"
    and "tk \<noteq> C_ACK" and "tk \<noteq> C_DATAERROR" and "tk \<noteq> C_SYNC" and "tk \<noteq> C_EXCEPTION"
  shows "\<exists>h'. expect_ack target h = Inl (Rerr, h') \<and> l_target h' = t"
proof -
  have limit: "SYNC_LIMIT = Suc 999" by simp
  have "\<exists>h'. wait_loop target (Suc n) C_ACK C_DATAERROR h = Inl (Rerr, h') \<and> l_target h' = t" for n
    using assms by (auto simp: get_remote_char_def char_from_input_buffer_def other_token_def Let_def)
  then obtain h' where h': "wait_loop target (Suc 999) C_ACK C_DATAERROR h = Inl (Rerr, h')" "l_target h' = t" by blast
  show ?thesis unfolding expect_ack_def wait_for_token_def limit h'(1) using h'(2) by simp
qed

text \<open>
  Property C22.  A write to the user address space uses \<open>C_DOWNLOADUSER\<close>, which the monitor does not
  know: the command always ends with an error, and the memory of the target is not changed.
\<close>

theorem user_write_rejected:
  assumes "connected h" and "\<not> mn_report (l_target h)" and "aligned_access addr sz"
  shows "\<exists>h'. write_remote (monitor rom) addr w sz US_USER h = Inl (Rerr, h') \<and> mn_mem (l_target h') = mn_mem (l_target h)"
proof -
  have sz: "sz \<in> {1, 2, 4}" using assms(3) by (simp add: aligned_access_def)
  let ?us = "enc_word addr @ enc_word (of_nat sz) @ enc_data sz w"
  have enc: "encodes ?us (word_bytes addr @ word_bytes (of_nat sz) @ data_bytes sz w)"
    by (intro encodes_append encodes_word encodes_data sz)
  obtain u1 u2 us' where us: "?us = u1 # u2 # us'"
    using enc_word_nonempty [of addr] enc_word_nonempty [of "of_nat sz"] by (metis append_Cons neq_Nil_conv append_Nil)
  let ?h = "h\<lparr>l_remote_errno := False\<rparr>"
  have "\<exists>h1. write_thru_mem_cache addr w sz US_USER ?h = Inr h1 \<and> l_input h1 = [] \<and> l_output h1 = [] \<and>
      l_target h1 = l_target h"
    using aligned_fits [OF assms(3)] assms(1)
    by (cases "find (mc_hit addr US_USER) (l_mem_cache h) = None")
      (simp_all add: write_thru_mem_cache_def connected_def Let_def)
  then obtain h1 where h1: "write_thru_mem_cache addr w sz US_USER ?h = Inr h1" "l_input h1 = []" "l_output h1 = []"
    "l_target h1 = l_target h" by blast
  have mode: "resolve_usmode tgt US_USER h0 = Inr (US_USER, h0)" for tgt and h0 :: "mon link"
    by (simp add: resolve_usmode_def)
  have w: "write_remote (monitor rom) addr w sz US_USER h =
      expect_ack (monitor rom) (after_packet C_DOWNLOADUSER ?us h1)"
    unfolding write_remote_packet mode mbind_simps prod.case h1(1) using sz by simp
  obtain cs p' where p': "monitor rom (l_target h) (packet C_DOWNLOADUSER ?us) = ([COMMAND_PREFIX1, C_BADCOMMAND] @ cs, p')"
    "mn_mem p' = mn_mem (l_target h)"
    using monitor_user_download [OF _ assms(2) enc us, of rom] assms(1) by (auto simp: connected_def)
  have "\<exists>h'. expect_ack (monitor rom) (after_packet C_DOWNLOADUSER ?us h1) = Inl (Rerr, h') \<and> l_target h' = p'"
    by (rule expect_other [where tk = C_BADCOMMAND and cs = cs]) (use h1 p' in \<open>simp_all add: after_packet_def\<close>)
  with p'(2) show ?thesis unfolding w by blast
qed

theorem user_write_rejected_witness:
  "\<exists>h'. write_remote (monitor (\<lambda>_ p. (0, p))) 0x1000 5 4 US_USER demo_link = Inl (Rerr, h') \<and>
     mn_mem (l_target h') 0x1003 = 7"
  using user_write_rejected [OF demo_link(1), of "0x1000" 4 "\<lambda>_ p. (0, p)" 5] by (auto simp: demo aligned_access_def)

end
