(* ===== verification/Rem_Sums.thy ===== *)
theory Rem_Sums
  imports Rem_Blocks
begin

text \<open>
  The checksums of pages of memory, which the monitor sends for the incremental download.
\<close>

section \<open>The checksums of pages\<close>

lemma word_at: "file_words True (word_bytes w @ bs) = w # file_words True bs"
proof -
  have "push_bit 24 (ucast (ucast (drop_bit 24 w) :: u8)) OR push_bit 16 (ucast (ucast (drop_bit 16 w) :: u8)) OR
      push_bit 8 (ucast (ucast (drop_bit 8 w) :: u8)) OR ucast (ucast w :: u8) = w"
  proof (rule bit_word_eqI)
    fix n :: nat
    assume "n < LENGTH(32)"
    then consider "n < 8" | "8 \<le> n" "n < 16" | "16 \<le> n" "n < 24" | "24 \<le> n" "n < 32" by fastforce
    then show "bit (push_bit 24 (ucast (ucast (drop_bit 24 w) :: u8)) OR push_bit 16 (ucast (ucast (drop_bit 16 w) :: u8)) OR
        push_bit 8 (ucast (ucast (drop_bit 8 w) :: u8)) OR ucast (ucast w :: u8) :: u32) n = bit w n"
      by cases (auto simp: bit_simps)
  qed
  then show ?thesis by (simp add: word_bytes_def Let_def)
qed

lemma file_words_bytes: "length bs = 4 * n \<Longrightarrow> concat (map word_bytes (file_words True bs)) = bs \<and> length (file_words True bs) = n"
proof (induction n arbitrary: bs)
  case (Suc n)
  then obtain w rest where "bs = word_bytes w @ rest" "length rest = 4 * n" using split_word [of bs "4 * n"] by auto
  then show ?case using Suc.IH [of rest] by (simp add: word_at)
qed simp

text \<open>The checksums of the pages of a range of bytes, and what is needed for them to tell pages apart.\<close>

fun page_sums :: "u8 list \<Rightarrow> u32 list" where
  "page_sums bs =
     (if bs = [] then []
      else block_checksum (file_words True (take DL_PAGESIZE bs)) # page_sums (drop DL_PAGESIZE bs))"

fun told_apart :: "u8 list \<Rightarrow> u8 list \<Rightarrow> bool" where
  "told_apart bs cs =
     (if bs = [] then True else
     (block_checksum (file_words True (take DL_PAGESIZE bs)) = block_checksum (file_words True (take DL_PAGESIZE cs)) \<longrightarrow>
        take DL_PAGESIZE bs = take DL_PAGESIZE cs) \<and>
      told_apart (drop DL_PAGESIZE bs) (drop DL_PAGESIZE cs))"

declare page_sums.simps [simp del] told_apart.simps [simp del]

lemma page_sums_Nil [simp]: "page_sums [] = []"
  by (simp add: page_sums.simps)

lemma length_page_sums: "length (page_sums bs) = (length bs + 4095) div 4096"
proof (induction bs rule: page_sums.induct)
  case (1 bs)
  show ?case
  proof (cases "bs = []")
    case False
    then have "length (page_sums bs) = Suc ((length (drop DL_PAGESIZE bs) + 4095) div 4096)"
      using 1 by (simp add: page_sums.simps [of bs])
    also have "\<dots> = (length bs + 4095) div 4096"
    proof (cases "length bs \<le> 4096")
      case True
      moreover have "0 < length bs" using False by simp
      moreover have "(n + 4095) div 4096 = 1" if "0 < n" "n \<le> 4096" for n :: nat
        using that by (intro div_nat_eqI; simp)
      ultimately have "(length bs + 4095) div 4096 = 1" by blast
      then show ?thesis using True by simp
    next
      case False
      then show ?thesis by (simp add: le_div_geq)
    qed
    finally show ?thesis .
  qed simp
qed

section \<open>The monitor's answer\<close>

text \<open>Everything but the characters sent and the checksum.\<close>

definition mon_same :: "mon \<Rightarrow> mon \<Rightarrow> bool" where
  "mon_same p p' \<longleftrightarrow> mn_mem p' = mn_mem p \<and> mon_rest p' = mon_rest p \<and> mn_rx p' = mn_rx p \<and> mon_pending p' = mon_pending p"

lemma mon_same_trans: "mon_same p p' \<Longrightarrow> mon_same p' p'' \<Longrightarrow> mon_same p p''"
  by (simp add: mon_same_def)

lemma mon_same_mapped: "mon_same p p' \<Longrightarrow> mapped_range p' = mapped_range p"
  unfolding mon_same_def mapped_range_def fun_eq_iff by (metis rest_fields(1))

lemma mon_same_simps [simp]:
  "mon_same p p" "mon_same p (p\<lparr>dm_checksum := c\<rparr>)" "mon_same p (p\<lparr>dm_checksumming := b\<rparr>)"
  "mon_same p (mon_sent cs p)" "mon_same p (mon_init_checksum p)"
  by (simp_all add: mon_same_def mon_rest_def mon_core_def mon_pending_def mon_sent_def mon_init_checksum_def)

text \<open>The loop on words, as long as no page is full.\<close>

lemma cs_words_add:
  "cs_words (m + n) a c p = mbind (cs_words m a c p) (\<lambda>(c, p). cs_words n (a + of_nat (4 * m)) c p)"
  by (induction m arbitrary: a c p) (simp_all add: mbind_def algebra_simps split: sum.splits prod.splits)

lemma cs_words_part:
  "mapped_range p a (4 * n) \<Longrightarrow> j + n < 1024 \<Longrightarrow>
     cs_words n a (of_nat (4 * j)) p =
       Inr (of_nat (4 * (j + n)), p\<lparr>dm_checksum :=
         fold (\<lambda>w cs. add_to_checksum cs w) (file_words True (mem_bytes (mn_mem p) a (4 * n))) (dm_checksum p)\<rparr>)"
proof (induction n arbitrary: a p j)
  case (Suc n)
  let ?w = "bytes_word (mn_mem p a) (mn_mem p (a + 1)) (mn_mem p (a + 2)) (mn_mem p (a + 3))"
  have r: "mapped_range p a (4 + 4 * n)" using Suc.prems(1) by simp
  have "mem_bytes (mn_mem p) a (4 + 4 * n) = word_bytes ?w @ mem_bytes (mn_mem p) (a + 4) (4 * n)"
    using mem_bytes_add [of "mn_mem p" a 4 "4 * n"] by (simp add: word_bytes_word mem_bytes_small)
  then have words: "file_words True (mem_bytes (mn_mem p) a (4 + 4 * n)) = ?w # file_words True (mem_bytes (mn_mem p) (a + 4) (4 * n))"
    by (simp only: word_at)
  let ?p = "mon_add_to_checksum p ?w"
  have r2: "mapped_range ?p (a + 4) (4 * n)"
    using r mapped_range_split [of p a 4 "4 * n"] by (simp add: mapped_range_def mon_add_to_checksum_def)
  have count: "(of_nat (4 * j) + 4 :: u32) = of_nat (4 * Suc j)" by simp
  have "unat (of_nat (4 * Suc j) :: u32) = 4 * Suc j"
    using Suc.prems(2) by (simp only: unat_of_nat) simp
  then have "unat (of_nat (4 * Suc j) :: u32) \<noteq> unat (4096 :: u32)" using Suc.prems(2) by simp
  then have "(of_nat (4 * Suc j) :: u32) \<noteq> 4096" by metis
  then have "block_done (of_nat (4 * j) + 4) ?p = Inr (of_nat (4 * Suc j), ?p)"
    unfolding count by (simp only: block_done_def if_False)
  then show ?case
    using mapped_word [OF r] Suc.IH [OF r2, of "Suc j"] Suc.prems(2)
    by (simp add: mon_load_word_def words mon_add_to_checksum_def)
qed (simp add: mem_bytes_small)


text \<open>A full page: its checksum is sent, and the next one starts from nothing.\<close>

lemma block_words:
  "file_words True (mem_bytes f a (4 * m + 4 * n)) =
     file_words True (mem_bytes f a (4 * m)) @ file_words True (mem_bytes f (a + of_nat (4 * m)) (4 * n))"
proof (induction m arbitrary: a)
  case (Suc m)
  let ?w = "bytes_word (f a) (f (a + 1)) (f (a + 2)) (f (a + 3))"
  have "mem_bytes f a (4 + k) = word_bytes ?w @ mem_bytes f (a + 4) k" for k
    using mem_bytes_add [of f a 4 k] by (simp add: word_bytes_word mem_bytes_small)
  from this [of "4 * m + 4 * n"] this [of "4 * m"] show ?case
    using Suc.IH [of "a + 4"] by (simp add: word_at algebra_simps)
qed (simp add: mem_bytes_small)

lemma cs_words_page:
  assumes "mapped_range p a 4096" and "mn_rx p = []" and "dm_checksum p = 0"
  shows "\<exists>p'. cs_words 1024 a 0 p = Inr (0, p') \<and> mon_same p p' \<and> dm_checksum p' = 0 \<and>
    mn_tx p' = mn_tx p @ enc_word (block_checksum (file_words True (mem_bytes (mn_mem p) a 4096)))"
proof -
  let ?f = "mn_mem p"
  let ?part = "fold (\<lambda>w cs. add_to_checksum cs w) (file_words True (mem_bytes ?f a (4 * 1023))) 0"
  let ?p1 = "p\<lparr>dm_checksum := ?part\<rparr>"
  let ?b = "a + of_nat (4 * 1023)"
  let ?w = "bytes_word (?f ?b) (?f (?b + 1)) (?f (?b + 2)) (?f (?b + 3))"
  have split: "mapped_range p a (4 * 1023) \<and> mapped_range p ?b (4 + 4 * 0)"
    using assms(1) mapped_range_split [of p a "4 * 1023" "4 + 4 * 0"] by simp
  have 1: "cs_words 1023 a 0 p = Inr (of_nat (4 * (0 + 1023)), ?p1)"
    using cs_words_part [OF conjunct1 [OF split], of 0] assms(3) by simp
  have m: "mn_mapped ?p1 ?b \<and> mn_mapped ?p1 (?b + 1) \<and> mn_mapped ?p1 (?b + 2) \<and> mn_mapped ?p1 (?b + 3)"
    using mapped_word [OF conjunct2 [OF split]] by simp
  let ?sum = "add_to_checksum ?part ?w"
  have "file_words True (mem_bytes ?f ?b 4) = [?w]"
    using word_at [of ?w "[]"] by (simp add: mem_bytes_small word_bytes_word)
  then have sum: "block_checksum (file_words True (mem_bytes ?f a 4096)) = ?sum"
    using block_words [of ?f a 1023 1] by (simp add: block_checksum_def)
  let ?p2 = "mon_init_checksum (mon_sent (enc_word ?sum) (p\<lparr>dm_checksum := ?sum, dm_checksumming := False\<rparr>))"
  have "cs_words 1 ?b (of_nat (4 * (0 + 1023))) ?p1 = Inr (0, ?p2)"
    using m assms(2)
    by (simp add: mon_load_word_def mon_add_to_checksum_def block_done_def mon_send_checksum_def mon_send_sent)
  moreover have "cs_words (1023 + 1) a 0 p = mbind (cs_words 1023 a 0 p) (\<lambda>(c, p). cs_words 1 ?b c p)"
    by (rule cs_words_add)
  moreover have "(1023 + 1 :: nat) = 1024" by simp
  ultimately have "cs_words 1024 a 0 p = Inr (0, ?p2)" by (simp only: 1 mbind_simps prod.case)
  moreover have "mon_same p ?p2"
    by (simp add: mon_same_def mon_rest_def mon_core_def mon_pending_def mon_sent_def mon_init_checksum_def)
  ultimately show ?thesis
    unfolding sum by (intro exI [of _ ?p2]) (simp add: mon_init_checksum_def mon_sent_def)
qed


definition send_sums :: "u32 list \<Rightarrow> u8 list" where
  "send_sums cs = concat (map enc_word cs)"

text \<open>The words of a range, and the checksum that is left at its end.\<close>

lemma cs_words_sends:
  "mn_rx p = [] \<Longrightarrow> dm_checksum p = 0 \<Longrightarrow> mapped_range p a (4 * n) \<Longrightarrow>
     \<exists>p'. mbind (cs_words n a 0 p) (\<lambda>(count, p). if count \<noteq> 0 then mon_send_checksum p else Inr p) = Inr p' \<and>
       mon_same p p' \<and> mn_tx p' = mn_tx p @ send_sums (page_sums (mem_bytes (mn_mem p) a (4 * n)))"
proof (induction n arbitrary: a p rule: less_induct)
  case (less n)
  let ?bs = "mem_bytes (mn_mem p) a (4 * n)"
  show ?case
  proof (cases "n < 1024")
    case True
    let ?sum = "block_checksum (file_words True ?bs)"
    have 1: "cs_words n a 0 p = Inr (of_nat (4 * n), p\<lparr>dm_checksum := ?sum\<rparr>)"
      using cs_words_part [OF less.prems(3), of 0] True less.prems(2) by (simp add: block_checksum_def)
    have "unat (of_nat (4 * n) :: u32) = 4 * n" using True by (simp only: unat_of_nat) simp
    then have zero: "(of_nat (4 * n) :: u32) = 0 \<longleftrightarrow> n = 0" by (metis mult_is_0 unat_eq_zero zero_neq_numeral)
    show ?thesis
    proof (cases "n = 0")
      case True
      then show ?thesis using 1 by (simp add: send_sums_def mem_bytes_small block_checksum_def)
    next
      case False
      let ?p = "mon_sent (enc_word ?sum) (p\<lparr>dm_checksum := ?sum, dm_checksumming := False\<rparr>)"
      have "?bs \<noteq> []" using False by (metis mem_bytes_length length_0_conv mult_is_0 zero_neq_numeral)
      moreover have "take DL_PAGESIZE ?bs = ?bs" "drop DL_PAGESIZE ?bs = []" using True by simp_all
      ultimately have "page_sums ?bs = [?sum]" using page_sums.simps [of ?bs] by (simp only: if_False page_sums_Nil)
      moreover have "mbind (cs_words n a 0 p) (\<lambda>(count, p). if count \<noteq> 0 then mon_send_checksum p else Inr p) = Inr ?p"
        unfolding 1 mbind_simps prod.case zero using False less.prems(1) by (simp add: mon_send_checksum_def mon_send_sent)
      moreover have "mon_same p ?p"
        by (simp add: mon_same_def mon_rest_def mon_core_def mon_pending_def mon_sent_def)
      ultimately show ?thesis by (intro exI [of _ ?p]) (simp add: send_sums_def mon_sent_def)
    qed
  next
    case False
    then obtain m where m: "n = 1024 + m" by (metis le_Suc_ex not_less)
    then have m4: "4 * n = 4096 + 4 * m" by simp
    note split = less.prems(3) [unfolded m4 mapped_range_split]
    obtain p1 where 1: "cs_words 1024 a 0 p = Inr (0, p1)" "mon_same p p1" "dm_checksum p1 = 0"
      "mn_tx p1 = mn_tx p @ enc_word (block_checksum (file_words True (mem_bytes (mn_mem p) a 4096)))"
      using cs_words_page [OF _ less.prems(1,2)] split by blast
    have p1: "mn_rx p1 = []" "mn_mem p1 = mn_mem p" using 1(2) less.prems(1) by (simp_all add: mon_same_def)
    have "mapped_range p1 (a + 4096) (4 * m)" using split mon_same_mapped [OF 1(2)] by simp
    with less.IH [OF _ p1(1) 1(3), of m "a + 4096"] obtain p2 where
      2: "mbind (cs_words m (a + 4096) 0 p1) (\<lambda>(count, p). if count \<noteq> 0 then mon_send_checksum p else Inr p) = Inr p2"
        "mon_same p1 p2" "mn_tx p2 = mn_tx p1 @ send_sums (page_sums (mem_bytes (mn_mem p) (a + 4096) (4 * m)))"
      using m p1(2) by auto
    have "?bs = mem_bytes (mn_mem p) a 4096 @ mem_bytes (mn_mem p) (a + 4096) (4 * m)"
      unfolding m4 mem_bytes_add by simp
    then have parts: "take DL_PAGESIZE ?bs = mem_bytes (mn_mem p) a 4096"
        "drop DL_PAGESIZE ?bs = mem_bytes (mn_mem p) (a + 4096) (4 * m)" "?bs \<noteq> []"
      by (simp, simp, metis append_is_Nil_conv length_0_conv mem_bytes_length zero_neq_numeral)
    have "page_sums ?bs = block_checksum (file_words True (mem_bytes (mn_mem p) a 4096)) #
        page_sums (mem_bytes (mn_mem p) (a + 4096) (4 * m))"
      using page_sums.simps [of ?bs] parts by (simp only: if_False)
    moreover have "cs_words n a 0 p = mbind (cs_words 1024 a 0 p) (\<lambda>(c, p). cs_words m (a + of_nat (4 * 1024)) c p)"
      unfolding m by (rule cs_words_add)
    then have "cs_words n a 0 p = cs_words m (a + 4096) 0 p1" unfolding 1(1) by simp
    ultimately show ?thesis
      using 2 1(4) mon_same_trans [OF 1(2) 2(2)] by (simp add: send_sums_def)
  qed
qed

lemma checksum_cmd_sends:
  assumes "mon_pending p = []" and "mn_rx p = us @ [COMMAND_PREFIX1, C_END] @ enc_word ck" and "dm_checksumming p"
    and "encodes us (word_bytes a @ word_bytes (of_nat (4 * n)))" and "4 * n < 2 ^ 31"
    and "ck = checksum_of (us @ [COMMAND_PREFIX1, C_END]) (dm_checksum p)" and "mapped_range p a (4 * n)"
    and "a AND 3 = 0"
  shows "\<exists>p'. checksum_cmd p = Inr p' \<and> mn_rx p' = [] \<and> mon_pending p' = [] \<and>
    mn_tx p' = mn_tx p @ [COMMAND_PREFIX1, C_DATASTART] @ send_sums (page_sums (mem_bytes (mn_mem p) a (4 * n))) @
      [COMMAND_PREFIX1, C_DATAEND] \<and> mn_mem p' = mn_mem p \<and> mon_rest p' = mon_rest p"
proof -
  let ?len = "of_nat (4 * n) :: u32"
  have "sint ?len = int (4 * n)" using assms(5) by (simp only: signed_of_nat) (simp add: signed_take_bit_int_eq_self)
  then have len: "signed_len ?len = 4 * n" by (simp add: signed_len_def)
  have "mline.holds (word_bytes a @ word_bytes ?len @ []) us p"
    using assms(1,2,4) by (simp add: mline.holds_def)
  from mon_get_word_holds [OF this] obtain p1 us1 us' where
    1: "mon_get_word p = Inr (a, p1)" "us = us1 @ us'" "mline.taken us1 p p1" "mline.holds (word_bytes ?len @ []) us' p1"
    by blast
  from mon_get_word_holds [OF 1(4)] obtain p2 us2 us'' where
    2: "mon_get_word p1 = Inr (?len, p2)" "us' = us2 @ us''" "mline.taken us2 p1 p2" "mline.holds [] us'' p2" by blast
  have e: "us'' = []" "mon_pending p2 = []" using mline.holds_empty [OF 2(4)] by simp_all
  have t: "mline.taken us p p2" using mline.taken_trans [OF 1(3) 2(3)] e(1) 1(2) 2(2) by simp
  then have rx: "mn_rx p2 = [COMMAND_PREFIX1, C_END] @ enc_word ck @ []" and sum: "dm_checksumming p2"
    and ck: "ck = checksum_of [COMMAND_PREFIX1, C_END] (dm_checksum p2)"
    using assms(2,3,6) by (auto simp: mline.taken_def)
  obtain p6 p7 where 6: "mon_wait_for_token p2 C_END = Inr p6" "mon_verify_checksum p6 = Inr p7" "mn_rx p7 = []"
    "mon_pending p7 = []" "mon_core p7 = (mon_core p2)\<lparr>dm_checksumming := False\<rparr>"
    using packet_end [OF e(2) rx sum ck] by blast
  have core: "mon_core p7 = (mon_core p)\<lparr>dm_checksumming := False\<rparr>"
    using 6(5) t by (simp add: mline.taken_def)
  let ?p8 = "mon_init_checksum (mon_sent [COMMAND_PREFIX1, C_DATASTART] p7)"
  have p8: "mn_rx ?p8 = []" "mn_mem ?p8 = mn_mem p" "mapped_range ?p8 a (4 * n)" "mon_rest ?p8 = mon_rest p"
    "dm_checksum ?p8 = 0" "mon_pending ?p8 = []" "mn_tx ?p8 = mn_tx p @ [COMMAND_PREFIX1, C_DATASTART]"
    using 6(3,4) core_summing [OF core] assms(7)
    by (simp_all add: mapped_range_def mon_init_checksum_def mon_sent_def mon_pending_def)
      (simp_all add: mon_rest_def mon_core_def)
  obtain p9 where 9: "mbind (cs_words n a 0 ?p8) (\<lambda>(count, p). if count \<noteq> 0 then mon_send_checksum p else Inr p) = Inr p9"
    "mon_same ?p8 p9" "mn_tx p9 = mn_tx ?p8 @ send_sums (page_sums (mem_bytes (mn_mem p) a (4 * n)))"
    using cs_words_sends [OF p8(1,5,3)] unfolding p8(2) by blast
  have rx9: "mn_rx p9 = []" using 9(2) p8(1) by (simp add: mon_same_def)
  have assoc: "mbind (mbind x f) g = mbind x (\<lambda>y. mbind (f y) g)" for x :: "u32 mres" and f :: "u32 \<times> mon \<Rightarrow> mstep" and g :: "mon \<Rightarrow> mstep"
    by (cases x) simp_all
  have words: "4 * n div 4 = n" "4 * n - 4 * n = 0" by simp_all
  have "checksum_cmd p = mbind (cs_words n a 0 ?p8) (\<lambda>(count, p).
      mbind (if count \<noteq> 0 then mon_send_checksum p else Inr p) (\<lambda>p. mon_send_command p C_DATAEND))"
    unfolding checksum_cmd_def Let_def 1(1) 2(1) mbind_simps prod.case len 6(1,2) mon_send_sent(1) [OF 6(3)] if_P [OF assms(8)]
      words cs_bytes.simps ..
  also have "\<dots> = mbind (mbind (cs_words n a 0 ?p8) (\<lambda>(count, p). if count \<noteq> 0 then mon_send_checksum p else Inr p))
      (\<lambda>p. mon_send_command p C_DATAEND)"
    unfolding assoc by (simp add: case_prod_unfold)
  also have "\<dots> = Inr (mon_sent [COMMAND_PREFIX1, C_DATAEND] p9)"
    unfolding 9(1) using mon_send_sent(1) [OF rx9] by simp
  finally show ?thesis
    using 9(2,3) p8 rx9
    by (intro exI [of _ "mon_sent [COMMAND_PREFIX1, C_DATAEND] p9"]) (simp add: mon_same_def mon_sent_def mon_pending_def
        mon_rest_def mon_core_def)
qed


lemma monitor_checksum:
  assumes "idle_mon p" and "encodes us (word_bytes a @ word_bytes (of_nat (4 * n)))" and "4 * n < 2 ^ 31"
    and "mapped_range p a (4 * n)" and "c \<in> {C_CHECKSUM, C_CHECKSUMNOINIT}" and "a AND 3 = 0"
  shows "\<exists>p'. monitor rom p (packet c us) =
      ([COMMAND_PREFIX1, C_DATASTART] @ send_sums (page_sums (mem_bytes (mn_mem p) a (4 * n))) @
        [COMMAND_PREFIX1, C_DATAEND], p') \<and>
    idle_mon p' \<and> mn_mem p' = mn_mem p \<and> mon_rest p' = mon_rest p"
proof -
  note f = packet_taken_fields [OF assms(1), of c us]
  obtain p' where 1: "checksum_cmd (packet_taken c us p) = Inr p'" "mn_rx p' = []" "mon_pending p' = []"
    "mn_tx p' = mn_tx (packet_taken c us p) @ [COMMAND_PREFIX1, C_DATASTART] @
      send_sums (page_sums (mem_bytes (mn_mem p) a (4 * n))) @ [COMMAND_PREFIX1, C_DATAEND]"
    "mn_mem p' = mn_mem p" "mon_rest p' = mon_rest p"
    using checksum_cmd_sends [OF f(1,2,3) assms(2,3) f(5) _ assms(6)] assms(4) unfolding f(6-8) by blast
  have "mon_command rom c (packet_taken c us p) = Inr p'"
    using 1(1) assms(5) by (auto simp: mon_command_def)
  then show ?thesis
    using monitor_packet [OF assms(1), of c rom us p'] 1 f(4) assms(5) by (auto simp: idle_mon_def)
qed

end
