(* ===== verification/Rem_Download.thy ===== *)
theory Rem_Download
  imports Rem_Sums
begin

text \<open>
  The incremental download: the debugger sends those pages of a file whose checksums differ from the
  ones of the target's memory.  If checksums tell the old pages from the new ones, the memory of the
  target becomes the file.
\<close>

section \<open>Lists of words\<close>

lemma send_words_sent: "send_words ws h = sent (concat (map enc_word ws)) h"
  by (induction ws arbitrary: h) (simp_all add: send_words_def send_sent(4))

lemma encodes_words: "encodes (concat (map enc_word ws)) (concat (map word_bytes ws))"
  by (induction ws) (simp_all add: encodes_Nil encodes_append encodes_word)

lemma get_words_holds:
  "hline.holds (concat (map word_bytes ws) @ bs) us h \<Longrightarrow>
     \<exists>h' us1 us2. get_words tgt (length ws) h = Inr (ws, h') \<and> us = us1 @ us2 \<and> hline.taken us1 h h' \<and>
       hline.holds bs us2 h'"
proof (induction ws arbitrary: us h)
  case Nil
  then show ?case by (intro exI [of _ h] exI [of _ "[]"] exI [of _ us]) (simp add: hline.taken_refl)
next
  case (Cons w ws)
  then obtain h1 us1 us2 where 1: "get_word tgt h = Inr (w, h1)" "us = us1 @ us2" "hline.taken us1 h h1"
    "hline.holds (concat (map word_bytes ws) @ bs) us2 h1"
    using get_word_holds [of w "concat (map word_bytes ws) @ bs" us h tgt] by auto
  from Cons.IH [OF 1(4)] obtain h2 us3 us4 where
    2: "get_words tgt (length ws) h1 = Inr (ws, h2)" "us2 = us3 @ us4" "hline.taken us3 h1 h2" "hline.holds bs us4 h2"
    by blast
  have "get_words tgt (length (w # ws)) h = Inr (w # ws, h2)" using 1(1) 2(1) by simp
  then show ?case using 1(2) 2(2,4) hline.taken_trans [OF 1(3) 2(3)] by (metis append_assoc)
qed

section \<open>One page\<close>

text \<open>What the debugger keeps while it downloads; it has invalidated its cache before.\<close>

definition download_kept :: "mon link \<Rightarrow> mon link \<Rightarrow> bool" where
  "download_kept h h' \<longleftrightarrow> connected h' \<and> link_rest h' = link_rest h \<and> mon_rest (l_target h') = mon_rest (l_target h) \<and>
     l_mem_cache h' = l_mem_cache h"

lemma download_kept_trans: "download_kept h h' \<Longrightarrow> download_kept h' h'' \<Longrightarrow> download_kept h h''"
  by (simp add: download_kept_def)

lemma download_kept_mapped: "download_kept h h' \<Longrightarrow> mapped_range (l_target h') = mapped_range (l_target h)"
  unfolding download_kept_def mapped_range_def fun_eq_iff by (metis rest_fields(1))

lemma put_mem_same: "n \<le> 2 ^ 32 \<Longrightarrow> put_mem a (mem_bytes f a n) f = f"
  by (rule ext) (simp add: put_mem_at mem_bytes_def)

lemma download_block_stores:
  assumes "connected h" and "l_big_endian h" and "length data = 4 * n" and "4 * n < 2 ^ 32"
    and "mapped_range (l_target h) addr (4 * n)"
    and "cs = block_checksum (file_words True (mem_bytes (mn_mem (l_target h)) addr (4 * n)))"
    and "cs = block_checksum (file_words True data) \<longrightarrow> mem_bytes (mn_mem (l_target h)) addr (4 * n) = data"
  shows "\<exists>h'. download_block (monitor rom) cs addr data h = Inr h' \<and> download_kept h h' \<and>
    mn_mem (l_target h') = put_mem addr data (mn_mem (l_target h))"
proof (cases "cs = block_checksum (file_words True data)")
  case True
  with assms(7) have "put_mem addr data (mn_mem (l_target h)) = mn_mem (l_target h)"
    using put_mem_same [of "4 * n" addr "mn_mem (l_target h)"] assms(4) by auto
  moreover let ?h = "h\<lparr>l_checksum := block_checksum (file_words True data), l_checksumming := True\<rparr>"
  have "download_block (monitor rom) cs addr data h = Inr ?h"
    using True assms(2) by (simp add: download_block_def Let_def)
  moreover have "download_kept h ?h"
    using assms(1) by (simp add: download_kept_def connected_def link_rest_def link_pending_def)
  ultimately show ?thesis by simp
next
  case False
  let ?ws = "file_words True data"
  let ?h = "h\<lparr>l_checksum := block_checksum ?ws, l_checksumming := True\<rparr>"
  let ?us = "enc_word addr @ enc_word (of_nat (length data)) @ concat (map enc_word ?ws)"
  let ?p = "after_packet C_DOWNLOAD ?us ?h"
  have block: "download_block (monitor rom) cs addr data h = expect_token (monitor rom) C_ACK C_DATAERROR ?p"
    using False assms(2) packet_sent [of ?us ?h C_DOWNLOAD] by (simp add: download_block_def Let_def send_words_sent)
  have idle: "idle_mon (l_target h)" using assms(1) by (simp add: connected_def)
  have words: "concat (map word_bytes ?ws) = data" using file_words_bytes [OF assms(3)] by simp
  have "encodes ?us (word_bytes addr @ word_bytes (of_nat (length data)) @ concat (map word_bytes ?ws))"
    by (intro encodes_append encodes_word encodes_words)
  from monitor_download [OF idle this [unfolded words], of rom] obtain p' where
    p': "monitor rom (l_target h) (packet C_DOWNLOAD ?us) = ([COMMAND_PREFIX1, C_ACK], p')" "idle_mon p'"
      "mn_mem p' = put_mem addr data (mn_mem (l_target h))" "mon_rest p' = mon_rest (l_target h)"
    using assms(3,4,5) by auto
  define h' where "h' = token_read C_ACK [] (?p\<lparr>l_output := [], l_target := p'\<rparr>)"
  have "wait_for_token (monitor rom) C_ACK C_DATAERROR ?p = Inr (Some C_ACK, h')"
    unfolding h'_def by (rule wait_answer) (use assms(1) p'(1) in \<open>simp_all add: connected_def after_packet_def\<close>)
  then have "download_block (monitor rom) cs addr data h = Inr h'"
    unfolding block by (simp add: expect_token_def)
  moreover have "download_kept h h'" "l_target h' = p'"
    using assms(1) p'(2,4)
    by (simp_all add: h'_def download_kept_def connected_def token_read_def after_packet_def link_pending_def link_rest_def)
  ultimately show ?thesis using p'(3) by blast
qed


section \<open>All pages\<close>

lemma block_size_min:
  assumes "0 < r" and "len = 4096 * i + r"
  shows "block_size i ((len + 4095) div 4096) len = min 4096 r"
proof -
  consider "r < 4096" | "r = 4096" | "4096 < r" by linarith
  then show ?thesis
  proof cases
    case 1
    have "(len + 4095) div 4096 = i + 1" unfolding assms(2) using 1 assms(1) by (intro div_nat_eqI) simp_all
    then show ?thesis using 1 assms by (simp add: block_size_def)
  next
    case 2
    have "(len + 4095) div 4096 = i + 1" unfolding assms(2) using 2 by (intro div_nat_eqI) simp_all
    then show ?thesis using 2 assms by (simp add: block_size_def)
  next
    case 3
    have "i + 1 < (len + 4095) div 4096" unfolding assms(2) using 3 by (simp add: less_eq_div_iff_mult_less_eq Suc_le_eq [symmetric])
    then show ?thesis using 3 by (simp add: block_size_def)
  qed
qed

lemma mem_bytes_beyond:
  assumes "length bs + n \<le> 2 ^ 32"
  shows "mem_bytes (put_mem a bs f) (a + of_nat (length bs)) n = mem_bytes f (a + of_nat (length bs)) n"
proof (rule nth_equalityI)
  fix i
  assume "i < length (mem_bytes (put_mem a bs f) (a + of_nat (length bs)) n)"
  then have i: "i < n" by simp
  have "a + of_nat (length bs) + of_nat i - a = of_nat (length bs + i)" by simp
  moreover have "unat (of_nat (length bs + i) :: u32) = length bs + i"
    using assms i by (simp only: unat_of_nat) simp
  ultimately show "mem_bytes (put_mem a bs f) (a + of_nat (length bs)) n ! i = mem_bytes f (a + of_nat (length bs)) n ! i"
    using i assms by (simp only: mem_bytes_nth put_mem_at) simp
qed simp

lemma download_blocks_store:
  "connected h \<Longrightarrow> l_big_endian h \<Longrightarrow> len = 4096 * i + r \<Longrightarrow> len < 2 ^ 32 \<Longrightarrow> r mod 4 = 0 \<Longrightarrow> r \<le> length fs \<Longrightarrow>
     mapped_range (l_target h) addr r \<Longrightarrow> css = page_sums (mem_bytes (mn_mem (l_target h)) addr r) \<Longrightarrow>
     told_apart (mem_bytes (mn_mem (l_target h)) addr r) (take r fs) \<Longrightarrow>
     \<exists>h'. download_blocks (monitor rom) i ((len + 4095) div 4096) len addr fs css h = Inr (drop r fs, h') \<and>
       download_kept h h' \<and> mn_mem (l_target h') = put_mem addr (take r fs) (mn_mem (l_target h))"
proof (induction r arbitrary: i addr fs css h rule: less_induct)
  case (less r)
  let ?f = "mn_mem (l_target h)"
  show ?case
  proof (cases "r = 0")
    case True
    then show ?thesis using less.prems(1,8) by (simp add: mem_bytes_small download_kept_def)
  next
    case False
    define k where "k = min 4096 r"
    define s where "s = r - k"
    have r: "r = k + s" "s < r" "k \<le> r" "0 < k" using False by (simp_all add: k_def s_def)
    have k4: "k mod 4 = 0" "s mod 4 = 0" using less.prems(5) by (auto simp: k_def s_def min_def mod_eq_0_iff_dvd)
    then obtain n where n: "k = 4 * n" by (auto simp: mod_eq_0_iff_dvd dvd_def)
    have size: "block_size i ((len + 4095) div 4096) len = k"
      unfolding k_def using block_size_min less.prems(3) False by blast
    let ?bs = "mem_bytes ?f addr r" and ?data = "take k fs"
    have parts: "?bs = mem_bytes ?f addr k @ mem_bytes ?f (addr + of_nat k) s" unfolding r(1) by (rule mem_bytes_add)
    have ne: "?bs \<noteq> []" using False by (metis length_0_conv mem_bytes_length)
    have cut: "take DL_PAGESIZE ?bs = mem_bytes ?f addr k \<and> drop DL_PAGESIZE ?bs = mem_bytes ?f (addr + of_nat k) s \<and>
        take DL_PAGESIZE (take r fs) = ?data \<and> drop DL_PAGESIZE (take r fs) = take s (drop k fs)"
    proof (cases "r \<le> 4096")
      case True
      then have "k = r" "s = 0" by (simp_all add: k_def s_def)
      then show ?thesis using True by (simp add: mem_bytes_small)
    next
      case False
      then have "k = 4096" by (simp add: k_def)
      then show ?thesis unfolding parts using r(1) by (simp add: drop_take s_def)
    qed
    let ?cs = "block_checksum (file_words True (mem_bytes ?f addr k))"
    have css: "css = ?cs # page_sums (mem_bytes ?f (addr + of_nat k) s)"
      using page_sums.simps [of ?bs] ne cut less.prems(8) by (simp only: if_False)
    have "told_apart ?bs (take r fs) = ((?cs = block_checksum (file_words True ?data) \<longrightarrow> mem_bytes ?f addr k = ?data) \<and>
        told_apart (mem_bytes ?f (addr + of_nat k) s) (take s (drop k fs)))"
      using told_apart.simps [of ?bs "take r fs"] ne cut by (simp only: if_False)
    with less.prems(9) have told: "?cs = block_checksum (file_words True ?data) \<longrightarrow> mem_bytes ?f addr k = ?data"
        "told_apart (mem_bytes ?f (addr + of_nat k) s) (take s (drop k fs))"
      by blast+
    have len: "length ?data = k" using less.prems(6) r(3) by simp
    note mapped = less.prems(7) [unfolded r(1) mapped_range_split]
    have "4 * n < 2 ^ 32" using less.prems(3,4) r(3) n by simp
    then obtain h1 where 1: "download_block (monitor rom) ?cs addr ?data h = Inr h1" "download_kept h h1"
      "mn_mem (l_target h1) = put_mem addr ?data ?f"
      using download_block_stores [OF less.prems(1,2), of ?data n addr ?cs rom] told(1) mapped len n by auto
    have "k + s \<le> 2 ^ 32" using less.prems(3,4) r(1) by simp
    then have rest: "mem_bytes (mn_mem (l_target h1)) (addr + of_nat k) s = mem_bytes ?f (addr + of_nat k) s"
      using mem_bytes_beyond [of ?data s addr ?f] unfolding 1(3) len by simp
    have h1: "connected h1" "l_big_endian h1" "mapped_range (l_target h1) (addr + of_nat k) s"
      using 1(2) less.prems(2) mapped download_kept_mapped [OF 1(2)] by (simp_all add: download_kept_def link_rest_def)
    have tail: "\<exists>h'. download_blocks (monitor rom) (Suc i) ((len + 4095) div 4096) len (addr + of_nat k) (drop k fs)
        (page_sums (mem_bytes ?f (addr + of_nat k) s)) h1 = Inr (drop s (drop k fs), h') \<and> download_kept h1 h' \<and>
        mn_mem (l_target h') = put_mem (addr + of_nat k) (take s (drop k fs)) (mn_mem (l_target h1))"
    proof (cases "s = 0")
      case True
      then show ?thesis using h1(1) by (simp add: mem_bytes_small download_kept_def)
    next
      case False
      then have "k = 4096" unfolding s_def k_def by linarith
      then have whole: "len = 4096 * Suc i + s" using less.prems(3) r(1) unfolding mult_Suc_right by linarith
      have "s \<le> length (drop k fs)" using less.prems(6) r(1) by simp
      from less.IH [OF r(2) h1(1,2) whole less.prems(4) k4(2) this h1(3), unfolded rest, OF refl told(2)] show ?thesis .
    qed
    then obtain h2 where 2: "download_blocks (monitor rom) (Suc i) ((len + 4095) div 4096) len (addr + of_nat k) (drop k fs)
        (page_sums (mem_bytes ?f (addr + of_nat k) s)) h1 = Inr (drop s (drop k fs), h2)" "download_kept h1 h2"
        "mn_mem (l_target h2) = put_mem (addr + of_nat k) (take s (drop k fs)) (mn_mem (l_target h1))" by blast
    have "download_blocks (monitor rom) i ((len + 4095) div 4096) len addr fs css h = Inr (drop r fs, h2)"
      unfolding css download_blocks.simps Let_def size using len less.prems(6) r(1,3) 1(1) 2(1) by (simp add: add.commute)
    moreover have "take r fs = ?data @ take s (drop k fs)" unfolding r(1) by (rule take_add)
    then have "mn_mem (l_target h2) = put_mem addr (take r fs) ?f"
      unfolding 2(3) 1(3) using len by (simp add: put_mem_append)
    ultimately show ?thesis using download_kept_trans [OF 1(2) 2(2)] by blast
  qed
qed


section \<open>The command\<close>

text \<open>The checksums arrive.\<close>

lemma sums_answer:
  assumes "connected h" and "a AND 3 = 0" and "4 * n < 2 ^ 31" and "mapped_range (l_target h) a (4 * n)"
    and "c \<in> {C_CHECKSUM, C_CHECKSUMNOINIT}" and "ws = page_sums (mem_bytes (mn_mem (l_target h)) a (4 * n))"
  shows "\<exists>h1 h2 h3. expect_token (monitor rom) C_DATASTART C_DATAERROR
        (after_packet c (enc_word a @ enc_word (of_nat (4 * n))) h) = Inr h1 \<and>
      get_words (monitor rom) (length ws) h1 = Inr (ws, h2) \<and>
      expect_token (monitor rom) C_DATAEND C_NONE h2 = Inr h3 \<and> download_kept h h3 \<and>
      mn_mem (l_target h3) = mn_mem (l_target h)"
proof -
  let ?us = "enc_word a @ enc_word (of_nat (4 * n))"
  let ?p = "after_packet c ?us h"
  let ?tail = "[COMMAND_PREFIX1, C_DATAEND]"
  have idle: "idle_mon (l_target h)" using assms(1) by (simp add: connected_def)
  have enc: "encodes ?us (word_bytes a @ word_bytes (of_nat (4 * n)))" by (rule encodes_append) (rule encodes_word)+
  obtain p' where p': "monitor rom (l_target h) (packet c ?us) = ([COMMAND_PREFIX1, C_DATASTART] @ send_sums ws @ ?tail, p')"
    "idle_mon p'" "mn_mem p' = mn_mem (l_target h)" "mon_rest p' = mon_rest (l_target h)"
    using monitor_checksum [OF idle enc assms(3,4,5,2), of rom] unfolding assms(6) by blast
  define h1 where "h1 = token_read C_DATASTART (send_sums ws @ ?tail) (?p\<lparr>l_output := [], l_target := p'\<rparr>)"
  have "wait_for_token (monitor rom) C_DATASTART C_DATAERROR ?p = Inr (Some C_DATASTART, h1)"
    unfolding h1_def by (rule wait_answer) (use assms(1) p'(1) in \<open>simp_all add: connected_def after_packet_def\<close>)
  then have 1: "expect_token (monitor rom) C_DATASTART C_DATAERROR ?p = Inr h1" by (simp add: expect_token_def)
  have "hline.holds (concat (map word_bytes ws) @ []) (send_sums ws) h1"
    using assms(1) encodes_words [of ws]
    by (simp add: hline.holds_def h1_def token_read_def after_packet_def connected_def link_pending_def send_sums_def)
  from get_words_holds [OF this, of "monitor rom"] obtain h2 us1 us2 where
    2: "get_words (monitor rom) (length ws) h1 = Inr (ws, h2)" "send_sums ws = us1 @ us2" "hline.taken us1 h1 h2"
    "hline.holds [] us2 h2" by blast
  have e: "us2 = []" "link_pending h2 = []" using hline.holds_empty [OF 2(4)] by simp_all
  have in2: "l_input h2 = [COMMAND_PREFIX1, C_DATAEND] @ []"
    using 2(2,3) e(1) by (simp add: hline.taken_def h1_def token_read_def)
  have core: "link_core h2 = link_core h1" using 2(3) by (simp add: hline.taken_def)
  let ?h3 = "token_read C_DATAEND [] h2"
  have "wait_for_token (monitor rom) C_DATAEND C_NONE h2 = Inr (Some C_DATAEND, ?h3)"
    by (rule wait_next [OF in2]) simp_all
  then have 3: "expect_token (monitor rom) C_DATAEND C_NONE h2 = Inr ?h3" by (simp add: expect_token_def)
  have "link_core h2 = (link_core h1)\<lparr>l_checksumming := l_checksumming h1\<rparr>"
    unfolding core by (simp add: link_core_def)
  note f = link_core_fields [OF this]
  have "download_kept h ?h3" "mn_mem (l_target ?h3) = mn_mem (l_target h)"
    using f e(2) p'(2-4)
    by (simp_all add: download_kept_def connected_def token_read_def link_pending_def link_rest_def h1_def after_packet_def)
  then show ?thesis using 1 2(1) 3 by blast
qed

text \<open>
  Property C4.  The incremental download asks for the checksums of the pages in the target's memory
  and sends the pages of the file whose checksums differ.  If no page of memory that differs from the
  file has the same checksum, the memory of the target ends equal to the file, nothing else in it has changed,
  the cache is empty and exactly the bytes of the range have been taken from the file.
\<close>

theorem download_makes_memory:
  assumes "connected h" and "l_big_endian h" and "start AND 3 = 0" and "len AND 3 = 0" and "unat len < 2 ^ 31"
    and "unat len \<le> length bs" and "mapped_range (l_target h) start (unat len)"
    and "told_apart (mem_bytes (mn_mem (l_target h)) start (unat len)) (take (unat len) bs)"
  shows "\<exists>h'. download (monitor rom) bs start len h = Inr (drop (unat len) bs, h') \<and> connected h' \<and> l_mem_cache h' = [] \<and>
    mem_bytes (mn_mem (l_target h')) start (unat len) = take (unat len) bs \<and>
    mn_mem (l_target h') = put_mem start (take (unat len) bs) (mn_mem (l_target h))"
proof -
  have "unat len mod 4 = 0" using aligned_iff [of len 4] assms(4) by (simp add: aligned_access_def)
  then obtain n where n: "unat len = 4 * n" by (auto simp: mod_eq_0_iff_dvd dvd_def)
  have "len = of_nat (unat len)" by simp
  then have len: "len = of_nat (4 * n)" unfolding n .
  have blocks: "unat (drop_bit 12 (len + 4095)) = (4 * n + 4095) div 4096"
  proof -
    have "unat (len + 4095) = 4 * n + 4095" using assms(5) n by (simp add: unat_word_ariths)
    then show ?thesis by (simp add: drop_bit_eq_div unat_div)
  qed
  let ?ws = "page_sums (mem_bytes (mn_mem (l_target h)) start (4 * n))"
  let ?c = "if l_vars h ''noparityinit'' \<noteq> 0 then C_CHECKSUMNOINIT else C_CHECKSUM"
  have c: "?c \<in> {C_CHECKSUM, C_CHECKSUMNOINIT}" by simp
  have small: "4 * n < 2 ^ 31" and mapped: "mapped_range (l_target h) start (4 * n)" using assms(5,7) n by simp_all
  have lw: "length ?ws = (4 * n + 4095) div 4096" by (simp add: length_page_sums)
  obtain h1 h2 h3 where 1: "expect_token (monitor rom) C_DATASTART C_DATAERROR
      (after_packet ?c (enc_word start @ enc_word (of_nat (4 * n))) h) = Inr h1"
    "get_words (monitor rom) ((4 * n + 4095) div 4096) h1 = Inr (?ws, h2)"
    "expect_token (monitor rom) C_DATAEND C_NONE h2 = Inr h3" "download_kept h h3"
    "mn_mem (l_target h3) = mn_mem (l_target h)"
    using sums_answer [OF assms(1,3) small mapped c refl, of rom] unfolding lw by blast
  let ?h4 = "invalidate_mem_cache h3"
  have h4: "connected ?h4" "l_big_endian ?h4" "l_target ?h4 = l_target h3" "l_mem_cache ?h4 = []"
    "mapped_range (l_target ?h4) start (4 * n)"
    using 1(4) assms(2,7) n download_kept_mapped [OF 1(4)]
    by (simp_all add: invalidate_mem_cache_def download_kept_def connected_def link_pending_def link_rest_def)
  obtain h5 where 5: "download_blocks (monitor rom) 0 ((4 * n + 4095) div 4096) (4 * n) start bs ?ws ?h4 =
      Inr (drop (4 * n) bs, h5)" "download_kept ?h4 h5"
    "mn_mem (l_target h5) = put_mem start (take (4 * n) bs) (mn_mem (l_target h))"
    using download_blocks_store [OF h4(1,2), of "4 * n" 0 "4 * n" bs start ?ws rom] h4(3,5) 1(5) assms(5,6,8) n by auto
  have packet: "send_checksum (send_command (send_words [start, of_nat (4 * n)]
      (send_command (init_checksum h) ?c)) C_END) = after_packet ?c (enc_word start @ enc_word (of_nat (4 * n))) h"
    using packet_sent [of "enc_word start @ enc_word (of_nat (4 * n))" h ?c] by (simp only: send_words_sent) simp
  have "download (monitor rom) bs start len h = Inr (drop (4 * n) bs, h5)"
    unfolding download_def Let_def blocks if_not_P [of "len AND 3 \<noteq> 0"] using assms(4)
    by (simp only: n len [symmetric] packet [unfolded len [symmetric]] 1(1) [unfolded len [symmetric]] 1(2,3) 5(1) mbind_simps prod.case) simp
  moreover have "mem_bytes (put_mem start (take (4 * n) bs) f) start (4 * n) = take (4 * n) bs" for f
  proof -
    have "length (take (4 * n) bs) = 4 * n" "4 * n \<le> 2 ^ 32" using assms(5,6) n by simp_all
    then show ?thesis using mem_bytes_put [of "take (4 * n) bs" start f] by simp
  qed
  ultimately show ?thesis using 5(2,3) h4(4) unfolding n download_kept_def by auto
qed

theorem download_makes_memory_witness:
  "\<exists>h'. download (monitor (\<lambda>_ p. (0, p))) [1, 2, 3, 4, 5] 0x1000 4 demo_link = Inr ([5], h') \<and>
     mem_bytes (mn_mem (l_target h')) 0x1000 4 = [1, 2, 3, 4]"
proof -
  have "told_apart [7, 7, 7, 7] [1, 2, 3, 4]"
    by (simp add: told_apart.simps block_checksum_def add_to_checksum_inj Let_def)
  then have "told_apart (mem_bytes (mn_mem (l_target demo_link)) 0x1000 (unat (4 :: u32))) (take (unat (4 :: u32)) [1, 2, 3, 4, 5])"
    by (simp add: demo mem_bytes_small)
  from download_makes_memory [OF demo_link(1,3) _ _ _ _ _ this, of "\<lambda>_ p. (0, p)"] show ?thesis
    by (auto simp: demo)
qed

end
