(* ===== verification/Rem_Bound.thy ===== *)
theory Rem_Bound
  imports Rem_Upload
begin

text \<open>
  The main loop of the monitor makes progress: every iteration that comes to its end has taken a
  character.  So the bound in \<open>monitor\<close> never cuts the loop off: with more iterations it does the same.
\<close>

section \<open>No step puts a character back\<close>

definition takes :: "('b \<Rightarrow> mon) \<Rightarrow> nat \<Rightarrow> (mon_stop \<times> mon) + 'b \<Rightarrow> bool" where
  "takes f n r \<longleftrightarrow> (\<forall>b. r = Inr b \<longrightarrow> length (mn_rx (f b)) \<le> n)"

abbreviation (input) takes_step :: "nat \<Rightarrow> mstep \<Rightarrow> bool" where "takes_step \<equiv> takes (\<lambda>p. p)"
abbreviation (input) takes_value :: "nat \<Rightarrow> 'a mres \<Rightarrow> bool" where "takes_value \<equiv> takes snd"

named_theorems takes

lemma takes_Inl [takes]: "takes f n (Inl e)"
  by (simp add: takes_def)

lemma takes_Inr [takes]: "length (mn_rx (f b)) \<le> n \<Longrightarrow> takes f n (Inr b)"
  by (simp add: takes_def)

lemma takes_mbind_step [takes]:
  "takes_step n r \<Longrightarrow> (\<And>p. length (mn_rx p) \<le> n \<Longrightarrow> takes f n (g p)) \<Longrightarrow> takes f n (mbind r g)"
  by (cases r) (auto simp: takes_def)

lemma takes_mbind_value [takes]:
  "takes_value n r \<Longrightarrow> (\<And>a p. length (mn_rx p) \<le> n \<Longrightarrow> takes f n (g a p)) \<Longrightarrow>
     takes f n (mbind r (\<lambda>(a, p). g a p))"
  by (cases r) (auto simp: takes_def)

lemma takes_if [takes]: "(P \<Longrightarrow> takes f n a) \<Longrightarrow> (\<not> P \<Longrightarrow> takes f n b) \<Longrightarrow> takes f n (if P then a else b)"
  by simp

lemma takes_option [takes]:
  "(x = None \<Longrightarrow> takes f n a) \<Longrightarrow> (\<And>i. x = Some i \<Longrightarrow> takes f n (b i)) \<Longrightarrow>
     takes f n (case x of None \<Rightarrow> a | Some i \<Rightarrow> b i)"
  by (cases x) simp_all

lemma takes_mono: "takes f m r \<Longrightarrow> m \<le> n \<Longrightarrow> takes f n r"
  by (fastforce simp: takes_def)

lemma rx_updates [simp]:
  "mn_rx (mon_init_checksum p) = mn_rx p" "mn_rx (mon_add_to_checksum p x) = mn_rx p" "mn_rx (mon_transmit p c) = mn_rx p"
  "mn_rx (release_cpu i b p) = mn_rx p"
  by (simp_all add: mon_init_checksum_def mon_add_to_checksum_def mon_transmit_def release_cpu_def)

lemma takes_check_stop: "length (mn_rx p) \<le> m \<Longrightarrow> takes_step m (check_stop n p)"
proof (induction n arbitrary: p)
  case (Suc n)
  let ?put = "\<lambda>c r. mbind r (\<lambda>p. mbind (check_stop n p) (\<lambda>p. Inr (mon_transmit p c)))"
  have put: "takes_step m (fold ?put cs r)" if "takes_step m r" for cs r
    using that
  proof (induction cs arbitrary: r)
    case (Cons c cs)
    have "takes_step m (?put c r)"
      by (intro takes_mbind_step [OF Cons.prems] takes_mbind_step [OF Suc.IH] takes_Inr) simp_all
    with Cons.IH show ?case by simp
  qed simp
  define de where "de = (\<lambda>p. if mn_report p then fold ?put ([COMMAND_PREFIX1, C_COMMERR] @ enc_byte 1) (Inr p) else Inr p)"
  have de: "takes_step m (de p')" if "length (mn_rx p') \<le> m" for p'
    using put [of "Inr p'"] takes_Inr [of "\<lambda>p. p" p' m] that by (simp only: de_def split: if_split) simp
  have "check_stop (Suc n) p =
      (case mn_rx p of
        [] \<Rightarrow> Inr p
      | c # cs \<Rightarrow>
          if c = VSTART then Inr (p\<lparr>mn_rx := cs\<rparr>)
          else if c = VSTOP then
            (case cs of
               [] \<Rightarrow> Inl (Waits, p)
             | c' # cs' \<Rightarrow> if c' = VSTART then Inr (p\<lparr>mn_rx := cs'\<rparr>) else de (p\<lparr>mn_rx := cs'\<rparr>))
          else de (p\<lparr>mn_rx := cs\<rparr>))"
    unfolding check_stop.simps Let_def de_def by (rule refl)
  then show ?case
    using Suc.prems by (auto split: list.split intro!: de takes_Inr takes_Inl)
qed (simp add: takes_Inr)

section \<open>Characters\<close>

lemma takes_put_char [takes]: "length (mn_rx p) \<le> n \<Longrightarrow> takes_step n (mon_put_char p c)"
  unfolding mon_put_char_def check_for_stop_def
  by (intro takes takes_check_stop) simp_all

lemma takes_send_command [takes]: "length (mn_rx p) \<le> n \<Longrightarrow> takes_step n (mon_send_command p c)"
  unfolding mon_send_command_def by (intro takes)

lemma takes_send_byte [takes]: "length (mn_rx p) \<le> n \<Longrightarrow> takes_step n (mon_send_byte p c)"
  unfolding mon_send_byte_def by (intro takes)

lemma takes_send_short [takes]: "length (mn_rx p) \<le> n \<Longrightarrow> takes_step n (mon_send_short p c)"
  unfolding mon_send_short_def by (intro takes)

lemma takes_send_word [takes]: "length (mn_rx p) \<le> n \<Longrightarrow> takes_step n (mon_send_word p c)"
  unfolding mon_send_word_def by (intro takes)

lemma takes_send_checksum [takes]: "length (mn_rx p) \<le> n \<Longrightarrow> takes_step n (mon_send_checksum p)"
  unfolding mon_send_checksum_def Let_def by (intro takes) simp

text \<open>A character that is read is taken off the line.\<close>

lemma takes_get_char_less: "length (mn_rx p) \<le> Suc n \<Longrightarrow> takes_value n (mon_get_char p)"
proof -
  assume len: "length (mn_rx p) \<le> Suc n"
  have "length (dropWhile (\<lambda>c. c = VSTART \<or> c = VSTOP) (mn_rx p)) \<le> length (mn_rx p)" by (rule length_dropWhile_le)
  with len show ?thesis
    by (auto simp: mon_get_char_def Let_def takes_def split: list.splits)
qed

lemma takes_get_char [takes]: "length (mn_rx p) \<le> n \<Longrightarrow> takes_value n (mon_get_char p)"
  by (rule takes_mono [OF takes_get_char_less [of p "n - 1"]]) simp_all

lemma takes_get_byte [takes]: "length (mn_rx p) \<le> n \<Longrightarrow> takes_value n (mon_get_byte p)"
  unfolding mon_get_byte_def Let_def case_prod_unfold
  by (intro takes takes_mbind_value [where g = "\<lambda>a p. g (a, p)" for g, simplified]) (simp_all add: takes)


lemma takes_get_bytes [takes]: "length (mn_rx p) \<le> m \<Longrightarrow> takes_value m (mon_get_bytes n t p)"
proof (induction n arbitrary: t p)
  case (Suc n)
  show ?case unfolding mon_get_bytes.simps by (intro takes Suc.IH) (rule Suc.prems)
qed (simp add: takes)

lemma takes_get_short [takes]: "length (mn_rx p) \<le> n \<Longrightarrow> takes_value n (mon_get_short p)"
  unfolding mon_get_short_def by (intro takes) simp_all

lemma takes_get_word [takes]: "length (mn_rx p) \<le> n \<Longrightarrow> takes_value n (mon_get_word p)"
  unfolding mon_get_word_def by (intro takes)

lemma takes_verify_checksum [takes]: "length (mn_rx p) \<le> n \<Longrightarrow> takes_step n (mon_verify_checksum p)"
  unfolding mon_verify_checksum_def Let_def by (intro takes) simp_all

lemma takes_expected [takes]: "length (mn_rx p) \<le> n \<Longrightarrow> takes_step n (mon_expected p t c)"
  unfolding mon_expected_def by (intro takes)

lemma takes_wait_for_token [takes]: "length (mn_rx p) \<le> n \<Longrightarrow> takes_step n (mon_wait_for_token p t)"
  unfolding mon_wait_for_token_def by (intro takes) simp_all

section \<open>Memory\<close>

lemma takes_memory [takes]:
  assumes "length (mn_rx p) \<le> n"
  shows "takes_value n (mon_load p a)" "takes_step n (mon_store p a b)" "takes_value n (mon_load_short p a)"
    "takes_value n (mon_load_word p a)" "takes_step n (mon_store_short p a s)" "takes_step n (mon_store_word p a w)"
  using assms
  by (auto simp: mon_load_def mon_store_def mon_load_short_def mon_load_word_def mon_store_short_def mon_store_word_def
      intro: takes)

lemma takes_user [takes]:
  assumes "length (mn_rx p) \<le> n"
  shows "takes_value n (fubyte p a)" "takes_step n (subyte p a b)"
  using assms by (auto simp: fubyte_def subyte_def intro: takes split: option.split)

section \<open>Commands\<close>

lemma takes_dl_words [takes]: "length (mn_rx p) \<le> m \<Longrightarrow> takes_step m (dl_words n a p)"
proof (induction n arbitrary: a p)
  case (Suc n)
  show ?case unfolding dl_words.simps by (intro takes Suc.IH) (simp_all add: Suc.prems)
qed (simp add: takes)

lemma takes_dl_shorts [takes]: "length (mn_rx p) \<le> m \<Longrightarrow> takes_step m (dl_shorts n a p)"
proof (induction n arbitrary: a p)
  case (Suc n)
  show ?case unfolding dl_shorts.simps by (intro takes Suc.IH) (simp_all add: Suc.prems)
qed (simp add: takes)

lemma takes_dl_bytes [takes]: "length (mn_rx p) \<le> m \<Longrightarrow> takes_step m (dl_bytes user n a p)"
proof (induction n arbitrary: a p)
  case (Suc n)
  show ?case unfolding dl_bytes.simps by (intro takes Suc.IH) (simp_all add: Suc.prems)
qed (simp add: takes)

lemma takes_ul_words [takes]: "length (mn_rx p) \<le> m \<Longrightarrow> takes_step m (ul_words n a p)"
proof (induction n arbitrary: a p)
  case (Suc n)
  show ?case unfolding ul_words.simps by (intro takes Suc.IH) (simp_all add: Suc.prems)
qed (simp add: takes)

lemma takes_ul_shorts [takes]: "length (mn_rx p) \<le> m \<Longrightarrow> takes_step m (ul_shorts n a p)"
proof (induction n arbitrary: a p)
  case (Suc n)
  show ?case unfolding ul_shorts.simps by (intro takes Suc.IH) (simp_all add: Suc.prems)
qed (simp add: takes)

lemma takes_ul_bytes [takes]: "length (mn_rx p) \<le> m \<Longrightarrow> takes_step m (ul_bytes user n a p)"
proof (induction n arbitrary: a p)
  case (Suc n)
  show ?case unfolding ul_bytes.simps by (intro takes Suc.IH) (simp_all add: Suc.prems)
qed (simp add: takes)

lemma takes_block_done [takes]: "length (mn_rx p) \<le> n \<Longrightarrow> takes_value n (block_done count p)"
  unfolding block_done_def by (intro takes) simp_all

lemma takes_cs_words [takes]: "length (mn_rx p) \<le> m \<Longrightarrow> takes_value m (cs_words n a count p)"
proof (induction n arbitrary: a count p)
  case (Suc n)
  show ?case unfolding cs_words.simps by (intro takes Suc.IH) (simp_all add: Suc.prems)
qed (simp add: takes)

lemma takes_cs_bytes [takes]: "length (mn_rx p) \<le> m \<Longrightarrow> takes_value m (cs_bytes n a count p)"
proof (induction n arbitrary: a count p)
  case (Suc n)
  show ?case unfolding cs_bytes.simps by (intro takes Suc.IH) (simp_all add: Suc.prems)
qed (simp add: takes)

lemma takes_fill_words [takes]: "length (mn_rx p) \<le> m \<Longrightarrow> takes_step m (fill_words n a p)"
proof (induction n arbitrary: a p)
  case (Suc n)
  show ?case unfolding fill_words.simps by (intro takes Suc.IH) (simp_all add: Suc.prems)
qed (simp add: takes)

lemma takes_fill_bytes [takes]: "length (mn_rx p) \<le> m \<Longrightarrow> takes_step m (fill_bytes n a p)"
proof (induction n arbitrary: a p)
  case (Suc n)
  show ?case unfolding fill_bytes.simps by (intro takes Suc.IH) (simp_all add: Suc.prems)
qed (simp add: takes)

lemma takes_search_loop [takes]: "length (mn_rx p) \<le> m \<Longrightarrow> takes_value m (search_loop al n a stride p1 p2 m1 m2 p)"
proof (induction n arbitrary: a p)
  case (Suc n)
  show ?case unfolding search_loop.simps by (intro takes Suc.IH) (simp_all add: Suc.prems)
qed (simp add: takes)

lemma takes_move_bytes [takes]: "length (mn_rx p) \<le> m \<Longrightarrow> takes_step m (move_bytes n src dst p)"
proof (induction n arbitrary: src dst p)
  case (Suc n)
  show ?case unfolding move_bytes.simps by (intro takes Suc.IH) (simp_all add: Suc.prems)
qed (simp add: takes)

lemma takes_words [takes]: "length (mn_rx p) \<le> m \<Longrightarrow> takes_step m (mon_send_all ws p)"
proof (induction ws arbitrary: p)
  case (Cons w ws)
  show ?case unfolding mon_send_all.simps by (intro takes Cons.IH) (rule Cons.prems)
qed (simp add: takes)

lemma takes_packet [takes]: "length (mn_rx p) \<le> n \<Longrightarrow> takes_step n (send_packet ws p)"
  unfolding send_packet_def by (intro takes) simp_all

lemma takes_commands [takes]:
  assumes "length (mn_rx p) \<le> n"
  shows "takes_step n (download_cmd p user)" "takes_step n (upload_cmd p user)" "takes_step n (checksum_cmd p)"
    "takes_step n (go_cmd p)" "takes_step n (fill_cmd p)" "takes_step n (retptrs_cmd p)" "takes_step n (sync_cmd p)"
    "takes_step n (search_cmd p)" "takes_step n (move_cmd p)"
  unfolding download_cmd_def upload_cmd_def checksum_cmd_def go_cmd_def fill_cmd_def retptrs_cmd_def sync_cmd_def
    search_cmd_def move_cmd_def send_word_in_packet_def Let_def
  by (intro takes; simp add: assms)+

text \<open>The ROM is asked to leave the line alone.\<close>

definition quiet_rom :: "rom_call \<Rightarrow> bool" where
  "quiet_rom rom \<longleftrightarrow> (\<forall>ws p. mn_rx (snd (rom ws p)) = mn_rx p)"

lemma takes_syscall188 [takes]:
  assumes "quiet_rom rom" and "length (mn_rx p) \<le> n"
  shows "takes_step n (syscall188_cmd rom p)"
proof -
  have "takes_step n (let (r, p) = rom ws p in send_packet [r] p)" if "length (mn_rx p) \<le> n" for ws p
    using that assms(1) by (cases "rom ws p") (auto simp: quiet_rom_def dest: spec [of _ ws] intro!: takes dest!: spec [of _ p])
  with assms(2) show ?thesis unfolding syscall188_cmd_def by (intro takes) simp_all
qed

section \<open>The main loop\<close>

lemma takes_command: "quiet_rom rom \<Longrightarrow> length (mn_rx p) \<le> n \<Longrightarrow> takes_step n (mon_command rom c p)"
  unfolding mon_command_def by (intro takes) simp_all

lemma iteration_progress:
  assumes "quiet_rom rom" and "mon_iteration rom p = Inr p'"
  shows "length (mn_rx p') < length (mn_rx p)"
proof -
  have "mn_rx p \<noteq> []"
    using assms(2) by (auto simp: mon_iteration_def mon_get_char_def mon_init_checksum_def)
  then obtain n where n: "length (mn_rx p) = Suc n" by (cases "mn_rx p") auto
  have "takes_step n (mon_iteration rom p)"
    unfolding mon_iteration_def
    by (intro takes_mbind_value takes_get_char_less takes_if takes_mbind_value takes_get_char takes_command takes_Inr assms(1))
      (simp_all add: n)
  with assms(2) n show ?thesis by (simp add: takes_def)
qed

text \<open>
  The main loop of the monitor takes a character off the line in every iteration that comes
  to its end, so that every bound above the number of waiting characters gives the same run; \<open>monitor\<close> uses
  such a bound.
\<close>

theorem monitor_bound_enough:
  assumes "quiet_rom rom" and "length (mn_rx p) < n" and "length (mn_rx p) < m"
  shows "mon_loop n rom p = mon_loop m rom p"
  using assms(2,3)
proof (induction n arbitrary: p m)
  case (Suc n)
  then obtain k where m: "m = Suc k" by (cases m) auto
  show ?case
  proof (cases "mon_iteration rom p")
    case (Inr p')
    from iteration_progress [OF assms(1) this] Suc.prems m have "length (mn_rx p') < n" "length (mn_rx p') < k"
      by simp_all
    from Suc.IH [OF this] show ?thesis using Inr m by simp
  qed (simp add: m)
qed simp

theorem monitor_bound_enough_witness:
  "mon_loop 5 (\<lambda>_ p. (0, p)) (demo_mon\<lparr>mn_rx := [1, 2, 3]\<rparr>) = mon_loop 9 (\<lambda>_ p. (0, p)) (demo_mon\<lparr>mn_rx := [1, 2, 3]\<rparr>)"
  by (rule monitor_bound_enough) (simp_all add: quiet_rom_def)

end
