(* ===== verification/Rem_Table.thy ===== *)
theory Rem_Table
  imports Rem_Cmd Sim_Lookup
begin

text \<open>
  The instruction table of the debugger (\<open>decode.c\<close>, \<open>decode.h\<close>), which is not the table of the simulator:
  its rows have no handler, and the search for a row is linear.
\<close>

section \<open>The table\<close>

text \<open>\<open>struct instr_info\<close> of \<open>decode.h\<close>; the formats are those of \<open>format.h\<close>.\<close>

datatype dbg_instr = DI (di_opcode: u32) (di_opmask: u32) (di_mnemonic: string) (di_format: fmt)

text \<open>\<open>in_tab\<close>, in the order of the program.\<close>

definition dbg_tab_alu :: "dbg_instr list" where
  "dbg_tab_alu = [
    DI 0x70000000 0xfc000000 ''add'' INTRL,
    DI 0xf4007000 0xfc00ffe0 ''add'' INTRR,
    DI 0xf4007100 0xfc00ffe0 ''add.co'' INTRR,
    DI 0xf4007200 0xfc00ffe0 ''add.ci'' INTRR,
    DI 0xf4007300 0xfc00ffe0 ''add.cio'' INTRR,
    DI 0x60000000 0xfc000000 ''addu'' INTRL,
    DI 0xf4006000 0xfc00ffe0 ''addu'' INTRR,
    DI 0xf4006100 0xfc00ffe0 ''addu.co'' INTRR,
    DI 0xf4006200 0xfc00ffe0 ''addu.ci'' INTRR,
    DI 0xf4006300 0xfc00ffe0 ''addu.cio'' INTRR,
    DI 0x40000000 0xfc000000 ''and'' INTRL,
    DI 0x44000000 0xfc000000 ''and.u'' INTRL,
    DI 0xf4004000 0xfc00ffe0 ''and'' INTRR,
    DI 0xf4004400 0xfc00ffe0 ''and.c'' INTRR,
    DI 0xe8400000 0xffe00000 ''bcnd_eq0'' CBRANCH,
    DI 0xe9a00000 0xffe00000 ''bcnd_ne0'' CBRANCH,
    DI 0xe8200000 0xffe00000 ''bcnd_gt0'' CBRANCH,
    DI 0xe9800000 0xffe00000 ''bcnd_lt0'' CBRANCH,
    DI 0xe8600000 0xffe00000 ''bcnd_ge0'' CBRANCH,
    DI 0xe9c00000 0xffe00000 ''bcnd_le0'' CBRANCH,
    DI 0xe8000000 0xffe00000 ''bcnd_0'' CBRANCH,
    DI 0xe8800000 0xffe00000 ''bcnd_4'' CBRANCH,
    DI 0xe8a00000 0xffe00000 ''bcnd_5'' CBRANCH,
    DI 0xe8c00000 0xffe00000 ''bcnd_6'' CBRANCH,
    DI 0xe8e00000 0xffe00000 ''bcnd_7'' CBRANCH,
    DI 0xe9000000 0xffe00000 ''bcnd_8'' CBRANCH,
    DI 0xe9200000 0xffe00000 ''bcnd_9'' CBRANCH,
    DI 0xe9400000 0xffe00000 ''bcnd_10'' CBRANCH,
    DI 0xe9600000 0xffe00000 ''bcnd_11'' CBRANCH,
    DI 0xe9e00000 0xffe00000 ''bcnd_always'' CBRANCH,
    DI 0xec400000 0xffe00000 ''bcnd_eq0_n'' CBRANCH,
    DI 0xeda00000 0xffe00000 ''bcnd_ne0_n'' CBRANCH,
    DI 0xec200000 0xffe00000 ''bcnd_gt0_n'' CBRANCH,
    DI 0xed800000 0xffe00000 ''bcnd_lt0_n'' CBRANCH,
    DI 0xec600000 0xffe00000 ''bcnd_ge0_n'' CBRANCH,
    DI 0xedc00000 0xffe00000 ''bcnd_le0_n'' CBRANCH,
    DI 0xec000000 0xffe00000 ''bcnd_0_n'' CBRANCH,
    DI 0xec800000 0xffe00000 ''bcnd_4_n'' CBRANCH,
    DI 0xeca00000 0xffe00000 ''bcnd_5_n'' CBRANCH,
    DI 0xecc00000 0xffe00000 ''bcnd_6_n'' CBRANCH,
    DI 0xece00000 0xffe00000 ''bcnd_7_n'' CBRANCH,
    DI 0xed000000 0xffe00000 ''bcnd_8_n'' CBRANCH,
    DI 0xed200000 0xffe00000 ''bcnd_9_n'' CBRANCH,
    DI 0xed400000 0xffe00000 ''bcnd_10_n'' CBRANCH,
    DI 0xed600000 0xffe00000 ''bcnd_11_n'' CBRANCH,
    DI 0xede00000 0xffe00000 ''bcnd_always_n'' CBRANCH]"

definition dbg_tab_bb :: "dbg_instr list" where
  "dbg_tab_bb = [
    DI 0xc0000000 0xfc000000 ''br'' IPREL,
    DI 0xc4000000 0xfc000000 ''br.n'' IPREL,
    DI 0xd0000000 0xffe00000 ''bb0_0'' BITBRANCH,
    DI 0xd0200000 0xffe00000 ''bb0_1'' BITBRANCH,
    DI 0xd0400000 0xffe00000 ''bb0_2'' BITBRANCH,
    DI 0xd0600000 0xffe00000 ''bb0_3'' BITBRANCH,
    DI 0xd0800000 0xffe00000 ''bb0_4'' BITBRANCH,
    DI 0xd0a00000 0xffe00000 ''bb0_5'' BITBRANCH,
    DI 0xd0c00000 0xffe00000 ''bb0_6'' BITBRANCH,
    DI 0xd0e00000 0xffe00000 ''bb0_7'' BITBRANCH,
    DI 0xd1000000 0xffe00000 ''bb0_8'' BITBRANCH,
    DI 0xd1200000 0xffe00000 ''bb0_9'' BITBRANCH,
    DI 0xd1400000 0xffe00000 ''bb0_10'' BITBRANCH,
    DI 0xd1600000 0xffe00000 ''bb0_11'' BITBRANCH,
    DI 0xd1800000 0xffe00000 ''bb0_12'' BITBRANCH,
    DI 0xd1a00000 0xffe00000 ''bb0_13'' BITBRANCH,
    DI 0xd1c00000 0xffe00000 ''bb0_14'' BITBRANCH,
    DI 0xd1e00000 0xffe00000 ''bb0_15'' BITBRANCH,
    DI 0xd2000000 0xffe00000 ''bb0_16'' BITBRANCH,
    DI 0xd2200000 0xffe00000 ''bb0_17'' BITBRANCH,
    DI 0xd2400000 0xffe00000 ''bb0_18'' BITBRANCH,
    DI 0xd2600000 0xffe00000 ''bb0_19'' BITBRANCH,
    DI 0xd2800000 0xffe00000 ''bb0_20'' BITBRANCH,
    DI 0xd2a00000 0xffe00000 ''bb0_21'' BITBRANCH,
    DI 0xd2c00000 0xffe00000 ''bb0_22'' BITBRANCH,
    DI 0xd2e00000 0xffe00000 ''bb0_23'' BITBRANCH,
    DI 0xd3000000 0xffe00000 ''bb0_24'' BITBRANCH,
    DI 0xd3200000 0xffe00000 ''bb0_25'' BITBRANCH,
    DI 0xd3400000 0xffe00000 ''bb0_26'' BITBRANCH,
    DI 0xd3600000 0xffe00000 ''bb0_27'' BITBRANCH,
    DI 0xd3800000 0xffe00000 ''bb0_28'' BITBRANCH,
    DI 0xd3a00000 0xffe00000 ''bb0_29'' BITBRANCH,
    DI 0xd3c00000 0xffe00000 ''bb0_30'' BITBRANCH,
    DI 0xd3e00000 0xffe00000 ''bb0_31'' BITBRANCH,
    DI 0xd8000000 0xffe00000 ''bb1_0'' BITBRANCH,
    DI 0xd8200000 0xffe00000 ''bb1_1'' BITBRANCH,
    DI 0xd8400000 0xffe00000 ''bb1_2'' BITBRANCH,
    DI 0xd8600000 0xffe00000 ''bb1_3'' BITBRANCH,
    DI 0xd8800000 0xffe00000 ''bb1_4'' BITBRANCH,
    DI 0xd8a00000 0xffe00000 ''bb1_5'' BITBRANCH,
    DI 0xd8c00000 0xffe00000 ''bb1_6'' BITBRANCH,
    DI 0xd8e00000 0xffe00000 ''bb1_7'' BITBRANCH,
    DI 0xd9000000 0xffe00000 ''bb1_8'' BITBRANCH,
    DI 0xd9200000 0xffe00000 ''bb1_9'' BITBRANCH,
    DI 0xd9400000 0xffe00000 ''bb1_10'' BITBRANCH,
    DI 0xd9600000 0xffe00000 ''bb1_11'' BITBRANCH,
    DI 0xd9800000 0xffe00000 ''bb1_12'' BITBRANCH,
    DI 0xd9a00000 0xffe00000 ''bb1_13'' BITBRANCH,
    DI 0xd9c00000 0xffe00000 ''bb1_14'' BITBRANCH,
    DI 0xd9e00000 0xffe00000 ''bb1_15'' BITBRANCH,
    DI 0xda000000 0xffe00000 ''bb1_16'' BITBRANCH,
    DI 0xda200000 0xffe00000 ''bb1_17'' BITBRANCH,
    DI 0xda400000 0xffe00000 ''bb1_18'' BITBRANCH,
    DI 0xda600000 0xffe00000 ''bb1_19'' BITBRANCH,
    DI 0xda800000 0xffe00000 ''bb1_20'' BITBRANCH,
    DI 0xdaa00000 0xffe00000 ''bb1_21'' BITBRANCH,
    DI 0xdac00000 0xffe00000 ''bb1_22'' BITBRANCH,
    DI 0xdae00000 0xffe00000 ''bb1_23'' BITBRANCH,
    DI 0xdb000000 0xffe00000 ''bb1_24'' BITBRANCH,
    DI 0xdb200000 0xffe00000 ''bb1_25'' BITBRANCH,
    DI 0xdb400000 0xffe00000 ''bb1_26'' BITBRANCH,
    DI 0xdb600000 0xffe00000 ''bb1_27'' BITBRANCH,
    DI 0xdb800000 0xffe00000 ''bb1_28'' BITBRANCH,
    DI 0xdba00000 0xffe00000 ''bb1_29'' BITBRANCH,
    DI 0xdbc00000 0xffe00000 ''bb1_30'' BITBRANCH,
    DI 0xdbe00000 0xffe00000 ''bb1_31'' BITBRANCH,
    DI 0xd4000000 0xffe00000 ''bb0_n_0'' BITBRANCH,
    DI 0xd4200000 0xffe00000 ''bb0_n_1'' BITBRANCH,
    DI 0xd4400000 0xffe00000 ''bb0_n_2'' BITBRANCH,
    DI 0xd4600000 0xffe00000 ''bb0_n_3'' BITBRANCH,
    DI 0xd4800000 0xffe00000 ''bb0_n_4'' BITBRANCH,
    DI 0xd4a00000 0xffe00000 ''bb0_n_5'' BITBRANCH,
    DI 0xd4c00000 0xffe00000 ''bb0_n_6'' BITBRANCH,
    DI 0xd4e00000 0xffe00000 ''bb0_n_7'' BITBRANCH,
    DI 0xd5000000 0xffe00000 ''bb0_n_8'' BITBRANCH,
    DI 0xd5200000 0xffe00000 ''bb0_n_9'' BITBRANCH,
    DI 0xd5400000 0xffe00000 ''bb0_n_10'' BITBRANCH,
    DI 0xd5600000 0xffe00000 ''bb0_n_11'' BITBRANCH,
    DI 0xd5800000 0xffe00000 ''bb0_n_12'' BITBRANCH,
    DI 0xd5a00000 0xffe00000 ''bb0_n_13'' BITBRANCH,
    DI 0xd5c00000 0xffe00000 ''bb0_n_14'' BITBRANCH,
    DI 0xd5e00000 0xffe00000 ''bb0_n_15'' BITBRANCH,
    DI 0xd6000000 0xffe00000 ''bb0_n_16'' BITBRANCH,
    DI 0xd6200000 0xffe00000 ''bb0_n_17'' BITBRANCH,
    DI 0xd6400000 0xffe00000 ''bb0_n_18'' BITBRANCH,
    DI 0xd6600000 0xffe00000 ''bb0_n_19'' BITBRANCH,
    DI 0xd6800000 0xffe00000 ''bb0_n_20'' BITBRANCH,
    DI 0xd6a00000 0xffe00000 ''bb0_n_21'' BITBRANCH,
    DI 0xd6c00000 0xffe00000 ''bb0_n_22'' BITBRANCH,
    DI 0xd6e00000 0xffe00000 ''bb0_n_23'' BITBRANCH,
    DI 0xd7000000 0xffe00000 ''bb0_n_24'' BITBRANCH,
    DI 0xd7200000 0xffe00000 ''bb0_n_25'' BITBRANCH,
    DI 0xd7400000 0xffe00000 ''bb0_n_26'' BITBRANCH,
    DI 0xd7600000 0xffe00000 ''bb0_n_27'' BITBRANCH,
    DI 0xd7800000 0xffe00000 ''bb0_n_28'' BITBRANCH,
    DI 0xd7a00000 0xffe00000 ''bb0_n_29'' BITBRANCH,
    DI 0xd7c00000 0xffe00000 ''bb0_n_30'' BITBRANCH,
    DI 0xd7e00000 0xffe00000 ''bb0_n_31'' BITBRANCH,
    DI 0xdc000000 0xffe00000 ''bb1_n_0'' BITBRANCH,
    DI 0xdc200000 0xffe00000 ''bb1_n_1'' BITBRANCH,
    DI 0xdc400000 0xffe00000 ''bb1_n_2'' BITBRANCH,
    DI 0xdc600000 0xffe00000 ''bb1_n_3'' BITBRANCH,
    DI 0xdc800000 0xffe00000 ''bb1_n_4'' BITBRANCH,
    DI 0xdca00000 0xffe00000 ''bb1_n_5'' BITBRANCH,
    DI 0xdcc00000 0xffe00000 ''bb1_n_6'' BITBRANCH,
    DI 0xdce00000 0xffe00000 ''bb1_n_7'' BITBRANCH,
    DI 0xdd000000 0xffe00000 ''bb1_n_8'' BITBRANCH,
    DI 0xdd200000 0xffe00000 ''bb1_n_9'' BITBRANCH,
    DI 0xdd400000 0xffe00000 ''bb1_n_10'' BITBRANCH,
    DI 0xdd600000 0xffe00000 ''bb1_n_11'' BITBRANCH,
    DI 0xdd800000 0xffe00000 ''bb1_n_12'' BITBRANCH,
    DI 0xdda00000 0xffe00000 ''bb1_n_13'' BITBRANCH,
    DI 0xddc00000 0xffe00000 ''bb1_n_14'' BITBRANCH,
    DI 0xdde00000 0xffe00000 ''bb1_n_15'' BITBRANCH,
    DI 0xde000000 0xffe00000 ''bb1_n_16'' BITBRANCH,
    DI 0xde200000 0xffe00000 ''bb1_n_17'' BITBRANCH,
    DI 0xde400000 0xffe00000 ''bb1_n_18'' BITBRANCH,
    DI 0xde600000 0xffe00000 ''bb1_n_19'' BITBRANCH,
    DI 0xde800000 0xffe00000 ''bb1_n_20'' BITBRANCH,
    DI 0xdea00000 0xffe00000 ''bb1_n_21'' BITBRANCH,
    DI 0xdec00000 0xffe00000 ''bb1_n_22'' BITBRANCH,
    DI 0xdee00000 0xffe00000 ''bb1_n_23'' BITBRANCH,
    DI 0xdf000000 0xffe00000 ''bb1_n_24'' BITBRANCH,
    DI 0xdf200000 0xffe00000 ''bb1_n_25'' BITBRANCH,
    DI 0xdf400000 0xffe00000 ''bb1_n_26'' BITBRANCH,
    DI 0xdf600000 0xffe00000 ''bb1_n_27'' BITBRANCH,
    DI 0xdf800000 0xffe00000 ''bb1_n_28'' BITBRANCH,
    DI 0xdfa00000 0xffe00000 ''bb1_n_29'' BITBRANCH,
    DI 0xdfc00000 0xffe00000 ''bb1_n_30'' BITBRANCH,
    DI 0xdfe00000 0xffe00000 ''bb1_n_31'' BITBRANCH]"

definition dbg_tab_fp :: "dbg_instr list" where
  "dbg_tab_fp = [
    DI 0xc8000000 0xfc000000 ''bsr'' IPREL,
    DI 0xcc000000 0xfc000000 ''bsr.n'' IPREL,
    DI 0xf0008000 0xfc00fc00 ''clr'' BITFIELD,
    DI 0xf4008000 0xfc00ffe0 ''clr'' INTRR,
    DI 0x7c000000 0xfc000000 ''cmp'' INTRL,
    DI 0xf4007c00 0xfc00fee0 ''cmp'' INTRR,
    DI 0x78000000 0xfc000000 ''div'' INTRL,
    DI 0xf4007800 0xfc00fee0 ''div'' INTRR,
    DI 0x68000000 0xfc000000 ''divu'' INTRL,
    DI 0xf4006800 0xfc00fee0 ''divu'' INTRR,
    DI 0xf0009000 0xfc00fc00 ''ext'' BITFIELD,
    DI 0xf4009000 0xfc00ffe0 ''ext'' INTRR,
    DI 0xf0009800 0xfc00fc00 ''extu'' BITFIELD,
    DI 0xf4009800 0xfc00ffe0 ''extu'' INTRR,
    DI 0x84002800 0xfc00ffe0 ''fadd.sss'' INTRR,
    DI 0x84002880 0xfc00ffe0 ''fadd.ssd'' INTRR,
    DI 0x84002a00 0xfc00ffe0 ''fadd.sds'' INTRR,
    DI 0x84002a80 0xfc00ffe0 ''fadd.sdd'' INTRR,
    DI 0x84002820 0xfc00ffe0 ''fadd.dss'' INTRR,
    DI 0x840028a0 0xfc00ffe0 ''fadd.dsd'' INTRR,
    DI 0x84002a20 0xfc00ffe0 ''fadd.dds'' INTRR,
    DI 0x84002aa0 0xfc00ffe0 ''fadd.ddd'' INTRR,
    DI 0x84003800 0xfc00ffe0 ''fcmp.sss'' INTRR,
    DI 0x84003880 0xfc00ffe0 ''fcmp.ssd'' INTRR,
    DI 0x84003a00 0xfc00ffe0 ''fcmp.sds'' INTRR,
    DI 0x84003a80 0xfc00ffe0 ''fcmp.sdd'' INTRR,
    DI 0x84007000 0xfc00ffe0 ''fdiv.sss'' INTRR,
    DI 0x84007080 0xfc00ffe0 ''fdiv.ssd'' INTRR,
    DI 0x84007200 0xfc00ffe0 ''fdiv.sds'' INTRR,
    DI 0x84007280 0xfc00ffe0 ''fdiv.sdd'' INTRR,
    DI 0x84007020 0xfc00ffe0 ''fdiv.dss'' INTRR,
    DI 0x840070a0 0xfc00ffe0 ''fdiv.dsd'' INTRR,
    DI 0x84007220 0xfc00ffe0 ''fdiv.dds'' INTRR,
    DI 0x840072a0 0xfc00ffe0 ''fdiv.ddd'' INTRR,
    DI 0xf400ec00 0xfc1fffe0 ''ff0'' INTRR2OP,
    DI 0xf400e800 0xfc1fffe0 ''ff1'' INTRR2OP,
    DI 0x80004800 0xfc1ff81f ''fldcr'' FLDCR,
    DI 0x84002000 0xfc1fffe0 ''flt.ss'' INTRR2OP,
    DI 0x84002020 0xfc1fffe0 ''flt.ds'' INTRR2OP,
    DI 0x84000000 0xfc00ffe0 ''fmul.sss'' INTRR,
    DI 0x84000080 0xfc00ffe0 ''fmul.ssd'' INTRR,
    DI 0x84000200 0xfc00ffe0 ''fmul.sds'' INTRR,
    DI 0x84000280 0xfc00ffe0 ''fmul.sdd'' INTRR,
    DI 0x84000020 0xfc00ffe0 ''fmul.dss'' INTRR,
    DI 0x840000a0 0xfc00ffe0 ''fmul.dsd'' INTRR,
    DI 0x84000220 0xfc00ffe0 ''fmul.dds'' INTRR,
    DI 0x840002a0 0xfc00ffe0 ''fmul.ddd'' INTRR,
    DI 0x80008800 0xffe0f800 ''fstcr'' FSTCR,
    DI 0x84003000 0xfc00ffe0 ''fsub.sss'' INTRR,
    DI 0x84003080 0xfc00ffe0 ''fsub.ssd'' INTRR,
    DI 0x84003200 0xfc00ffe0 ''fsub.sds'' INTRR,
    DI 0x84003280 0xfc00ffe0 ''fsub.sdd'' INTRR,
    DI 0x84003020 0xfc00ffe0 ''fsub.dss'' INTRR,
    DI 0x840030a0 0xfc00ffe0 ''fsub.dsd'' INTRR,
    DI 0x84003220 0xfc00ffe0 ''fsub.dds'' INTRR,
    DI 0x840032a0 0xfc00ffe0 ''fsub.ddd'' INTRR,
    DI 0x8000c800 0xfc00f800 ''fxcr'' FXCR,
    DI 0x84004800 0xfc1fffe0 ''int.ss'' INTRR2OP,
    DI 0x84004880 0xfc1fffe0 ''int.sd'' INTRR2OP]"

definition dbg_tab_mem :: "dbg_instr list" where
  "dbg_tab_mem = [
    DI 0xf400c000 0xffffffe0 ''jmp'' JMP,
    DI 0xf400c400 0xffffffe0 ''jmp.n'' JMP,
    DI 0xf400c800 0xffffffe0 ''jsr'' JMP,
    DI 0xf400cc00 0xffffffe0 ''jsr.n'' JMP,
    DI 0x10000000 0xfc000000 ''ld.d'' LDLIT,
    DI 0x14000000 0xfc000000 ''ld'' LDLIT,
    DI 0x18000000 0xfc000000 ''ld.h'' LDLIT,
    DI 0x1c000000 0xfc000000 ''ld.b'' LDLIT,
    DI 0x00000000 0xfc000000 ''xmem.bu'' LDLIT,
    DI 0x04000000 0xfc000000 ''xmem'' LDLIT,
    DI 0x08000000 0xfc000000 ''ld.hu'' LDLIT,
    DI 0x0c000000 0xfc000000 ''ld.bu'' LDLIT,
    DI 0xf4000000 0xfc00ffe0 ''xmem.bu'' LDRO,
    DI 0xf4000400 0xfc00ffe0 ''xmem'' LDRO,
    DI 0xf4000800 0xfc00ffe0 ''ld.hu'' LDRO,
    DI 0xf4000c00 0xfc00ffe0 ''ld.bu'' LDRO,
    DI 0xf4001000 0xfc00ffe0 ''ld.d'' LDRO,
    DI 0xf4001400 0xfc00ffe0 ''ld'' LDRO,
    DI 0xf4001800 0xfc00ffe0 ''ld.h'' LDRO,
    DI 0xf4001c00 0xfc00ffe0 ''ld.b'' LDRO,
    DI 0xf4000200 0xfc00ffe0 ''xmem.bu'' LDRI,
    DI 0xf4000600 0xfc00ffe0 ''xmem'' LDRI,
    DI 0xf4000a00 0xfc00ffe0 ''ld.hu'' LDRI,
    DI 0xf4000e00 0xfc00ffe0 ''ld.bu'' LDRI,
    DI 0xf4001200 0xfc00ffe0 ''ld.d'' LDRI,
    DI 0xf4001600 0xfc00ffe0 ''ld'' LDRI,
    DI 0xf4001a00 0xfc00ffe0 ''ld.h'' LDRI,
    DI 0xf4001e00 0xfc00ffe0 ''ld.b'' LDRI,
    DI 0xf4000900 0xfc00ffe0 ''ld.hu.usr'' LDRO,
    DI 0xf4000d00 0xfc00ffe0 ''ld.bu.usr'' LDRO,
    DI 0xf4001100 0xfc00ffe0 ''ld.d.usr'' LDRO,
    DI 0xf4001500 0xfc00ffe0 ''ld.usr'' LDRO,
    DI 0xf4001900 0xfc00ffe0 ''ld.h.usr'' LDRO,
    DI 0xf4001d00 0xfc00ffe0 ''ld.b.usr'' LDRO,
    DI 0xf4000b00 0xfc00ffe0 ''ld.hu.usr'' LDRI,
    DI 0xf4000f00 0xfc00ffe0 ''ld.bu.usr'' LDRI,
    DI 0xf4001300 0xfc00ffe0 ''ld.d.usr'' LDRI,
    DI 0xf4001700 0xfc00ffe0 ''ld.usr'' LDRI,
    DI 0xf4001b00 0xfc00ffe0 ''ld.h.usr'' LDRI,
    DI 0xf4001f00 0xfc00ffe0 ''ld.b.usr'' LDRI,
    DI 0xf4000100 0xfc00ffe0 ''xmem.bu.usr'' LDRO,
    DI 0xf4000500 0xfc00ffe0 ''xmem.usr'' LDRO,
    DI 0xf4000300 0xfc00ffe0 ''xmem.bu.usr'' LDRI,
    DI 0xf4000700 0xfc00ffe0 ''xmem.usr'' LDRI,
    DI 0x30000000 0xfc000000 ''lda.d'' INTRL,
    DI 0x34000000 0xfc000000 ''lda'' INTRL,
    DI 0x38000000 0xfc000000 ''lda.h'' INTRL,
    DI 0x3c000000 0xfc000000 ''lda.b'' INTRL,
    DI 0xf4003000 0xfc00ffe0 ''lda.d'' INTRR,
    DI 0xf4003400 0xfc00ffe0 ''lda'' INTRR,
    DI 0xf4003800 0xfc00ffe0 ''lda.h'' INTRR,
    DI 0xf4003c00 0xfc00ffe0 ''lda.b'' INTRR,
    DI 0xf4003200 0xfc00ffe0 ''lda.d'' INTRR,
    DI 0xf4003600 0xfc00ffe0 ''lda'' INTRR,
    DI 0xf4003a00 0xfc00ffe0 ''lda.h'' INTRR,
    DI 0xf4003e00 0xfc00ffe0 ''lda.b'' INTRR,
    DI 0x80004000 0xfc1ff81f ''ldcr'' LDCR]"

definition dbg_tab_rest :: "dbg_instr list" where
  "dbg_tab_rest = [
    DI 0xf000a000 0xfc00fc00 ''mak'' BITFIELD,
    DI 0xf400a000 0xfc00ffe0 ''mak'' INTRR,
    DI 0x48000000 0xfc000000 ''mask'' INTRL,
    DI 0x4c000000 0xfc000000 ''mask.u'' INTRL,
    DI 0x6c000000 0xfc000000 ''mul'' INTRL,
    DI 0xf4006c00 0xfc00fee0 ''mul'' INTRR,
    DI 0x84005000 0xfc1fffe0 ''nint.ss'' INTRR2OP,
    DI 0x84005080 0xfc1fffe0 ''nint.sd'' INTRR2OP,
    DI 0x58000000 0xfc000000 ''or'' INTRL,
    DI 0x5c000000 0xfc000000 ''or.u'' INTRL,
    DI 0xf4005800 0xfc00ffe0 ''or'' INTRR,
    DI 0xf4005c00 0xfc00ffe0 ''or.c'' INTRR,
    DI 0xf000a800 0xfc00ffe0 ''rot'' ROT,
    DI 0xf400a800 0xfc00ffe0 ''rot'' INTRR,
    DI 0xf400fc00 0xffffffff ''rte'' RTE,
    DI 0xf0008800 0xfc00fc00 ''set'' BITFIELD,
    DI 0xf4008800 0xfc00ffe0 ''set'' INTRR,
    DI 0x20000000 0xfc000000 ''st.d'' STLIT,
    DI 0x24000000 0xfc000000 ''st'' STLIT,
    DI 0x28000000 0xfc000000 ''st.h'' STLIT,
    DI 0x2c000000 0xfc000000 ''st.b'' STLIT,
    DI 0xf4002000 0xfc00ffe0 ''st.d'' STRO,
    DI 0xf4002400 0xfc00ffe0 ''st'' STRO,
    DI 0xf4002800 0xfc00ffe0 ''st.h'' STRO,
    DI 0xf4002c00 0xfc00ffe0 ''st.b'' STRO,
    DI 0xf4002200 0xfc00ffe0 ''st.d'' STRI,
    DI 0xf4002600 0xfc00ffe0 ''st'' STRI,
    DI 0xf4002a00 0xfc00ffe0 ''st.h'' STRI,
    DI 0xf4002e00 0xfc00ffe0 ''st.b'' STRI,
    DI 0xf4002100 0xfc00ffe0 ''st.d.usr'' STRO,
    DI 0xf4002500 0xfc00ffe0 ''st.usr'' STRO,
    DI 0xf4002900 0xfc00ffe0 ''st.h.usr'' STRO,
    DI 0xf4002d00 0xfc00ffe0 ''st.b.usr'' STRO,
    DI 0xf4002300 0xfc00ffe0 ''st.d.usr'' STRI,
    DI 0xf4002700 0xfc00ffe0 ''st.usr'' STRI,
    DI 0xf4002b00 0xfc00ffe0 ''st.h.usr'' STRI,
    DI 0xf4002f00 0xfc00ffe0 ''st.b.usr'' STRI,
    DI 0x80008000 0xffe0f800 ''stcr'' STCR,
    DI 0x74000000 0xfc000000 ''sub'' INTRL,
    DI 0xf4007400 0xfc00ffe0 ''sub'' INTRR,
    DI 0xf4007500 0xfc00ffe0 ''sub.bo'' INTRR,
    DI 0xf4007600 0xfc00ffe0 ''sub.bi'' INTRR,
    DI 0xf4007700 0xfc00ffe0 ''sub.bio'' INTRR,
    DI 0x64000000 0xfc000000 ''subu'' INTRL,
    DI 0xf4006400 0xfc00ffe0 ''subu'' INTRR,
    DI 0xf4006500 0xfc00ffe0 ''subu.bo'' INTRR,
    DI 0xf4006600 0xfc00ffe0 ''subu.bi'' INTRR,
    DI 0xf4006700 0xfc00ffe0 ''subu.bio'' INTRR,
    DI 0xf000d000 0xfc00fe00 ''tb0'' TRAP,
    DI 0xf000d800 0xfc00fe00 ''tb1'' TRAP,
    DI 0xf8000000 0xffe00000 ''tbnd'' TBND,
    DI 0xf400f800 0xffe0ffe0 ''tbnd'' INTRR_S1_S2,
    DI 0xf000e800 0xfc00fe00 ''tcnd'' TCND,
    DI 0x84005800 0xfc1fffe0 ''trnc.ss'' INTRR2OP,
    DI 0x84005880 0xfc1fffe0 ''trnc.sd'' INTRR2OP,
    DI 0x8000c000 0xfc00c000 ''xcr'' XCR,
    DI 0x50000000 0xfc000000 ''xor'' INTRL,
    DI 0x54000000 0xfc000000 ''xor.u'' INTRL,
    DI 0xf4005000 0xfc00ffe0 ''xor'' INTRR,
    DI 0xf4005400 0xfc00ffe0 ''xor.c'' INTRR,
    DI 0x00000000 0x00000000 ''pseudo'' F_0]"

definition dbg_in_tab :: "dbg_instr list" where
  "dbg_in_tab = dbg_tab_alu @ dbg_tab_bb @ dbg_tab_fp @ dbg_tab_mem @ dbg_tab_rest"

text \<open>The search ends at the first row without a mask.\<close>

definition di_hit :: "u32 \<Rightarrow> dbg_instr \<Rightarrow> bool" where
  "di_hit i p \<longleftrightarrow> di_opmask p AND i = di_opcode p"

definition remote_instruction_lookup :: "u32 \<Rightarrow> dbg_instr option" where
  "remote_instruction_lookup i = find (di_hit i) (takeWhile (\<lambda>p. di_opmask p \<noteq> 0) dbg_in_tab)"

section \<open>The rows\<close>

definition dbg_rows :: "dbg_instr list" where
  "dbg_rows = takeWhile (\<lambda>p. di_opmask p \<noteq> 0) dbg_in_tab"

lemma lookup_rows: "remote_instruction_lookup i = find (di_hit i) dbg_rows"
  unfolding remote_instruction_lookup_def dbg_rows_def ..

lemma dbg_rowsD: "p \<in> set dbg_rows \<Longrightarrow> di_opmask p \<noteq> 0 \<and> p \<in> set dbg_in_tab"
  unfolding dbg_rows_def by (rule conj_commute [THEN iffD1], rule set_takeWhileD)

lemma dbg_tab_masks: "list_all (\<lambda>p. di_opmask p = 0 \<or> di_opmask p AND 0xfc000000 = 0xfc000000) dbg_in_tab"
  unfolding dbg_in_tab_def list_all_append dbg_tab_alu_def dbg_tab_bb_def dbg_tab_fp_def dbg_tab_mem_def dbg_tab_rest_def
  by simp

definition di_key :: "dbg_instr \<Rightarrow> u32 \<times> u32 \<times> fmt" where
  "di_key p = (di_opcode p, di_opmask p, di_format p)"

definition ii_key :: "instr_info \<Rightarrow> u32 \<times> u32 \<times> fmt" where
  "ii_key p = (ii_opcode p, ii_opmask p, ii_format p)"

text \<open>The simulator has the same rows in the same order, with two more terminators.\<close>

lemma dbg_keys: "map ii_key in_tab = map di_key dbg_in_tab @ [(0, 0, F_0), (0, 0, F_0)]"
  unfolding in_tab_def dbg_in_tab_def map_append in_tab_alu_def in_tab_bb_def in_tab_fp_def in_tab_mem_def
    in_tab_rest_def dbg_tab_alu_def dbg_tab_bb_def dbg_tab_fp_def dbg_tab_mem_def dbg_tab_rest_def
  by (simp add: ii_key_def di_key_def)

lemma dbg_in_tab_rows: "dbg_in_tab = dbg_rows @ [DI 0 0 ''pseudo'' F_0]"
proof -
  define ps where "ps = dbg_tab_alu @ dbg_tab_bb @ dbg_tab_fp @ dbg_tab_mem @ butlast dbg_tab_rest"
  have "list_all (\<lambda>p. di_opmask p \<noteq> 0) ps" unfolding ps_def by code_simp
  moreover have "dbg_tab_rest = butlast dbg_tab_rest @ [DI 0 0 ''pseudo'' F_0]"
    by (simp add: dbg_tab_rest_def)
  then have tab: "dbg_in_tab = ps @ [DI 0 0 ''pseudo'' F_0]"
    unfolding dbg_in_tab_def ps_def append_assoc by (rule arg_cong)
  ultimately have "dbg_rows = ps"
    using takeWhile_append2 [of ps "\<lambda>p. di_opmask p \<noteq> 0" "[DI 0 0 ''pseudo'' F_0]"]
    unfolding dbg_rows_def tab list_all_iff by simp
  with tab show ?thesis by simp
qed

lemma ii_key_in_tab: "ii_key q \<in> set (map ii_key in_tab) \<Longrightarrow> ii_opmask q \<noteq> 0 \<Longrightarrow> \<exists>p \<in> set dbg_rows. di_key p = ii_key q"
  unfolding dbg_keys dbg_in_tab_rows by (auto simp: ii_key_def di_key_def)

lemma in_tab_masked:
  "q \<in> set in_tab \<Longrightarrow> ii_opmask q \<noteq> 0 \<Longrightarrow> ii_opmask q AND 0xfc000000 = 0xfc000000"
proof -
  assume "q \<in> set in_tab" and "ii_opmask q \<noteq> 0"
  then obtain p where "p \<in> set dbg_rows" "di_key p = ii_key q"
    using ii_key_in_tab [of q] by auto
  with dbg_tab_masks dbg_rowsD [of p] show ?thesis by (auto simp: list_all_iff di_key_def ii_key_def)
qed

lemma hit_index:
  assumes "q \<in> set in_tab" and "ii_hit i q" and "ii_opmask q \<noteq> 0"
  shows "DECODECACHE_INDEX (ii_opcode q) = DECODECACHE_INDEX i"
proof -
  have "ii_opcode q AND 0xfc000000 = i AND 0xfc000000"
    using assms(2) in_tab_masked [OF assms(1,3)] unfolding ii_hit_def by (metis and.assoc and.commute)
  then show ?thesis using drop_top_bits [of i] drop_top_bits [of "ii_opcode q"]
    unfolding DECODECACHE_INDEX_def by metis
qed

lemma dbg_row_in_tab:
  assumes "remote_instruction_lookup i = Some p"
  shows "\<exists>q \<in> set in_tab. ii_key q = di_key p \<and> ii_hit i q \<and> ii_opmask q \<noteq> 0"
proof -
  have p: "p \<in> set dbg_rows" "di_hit i p"
    using assms find_SomeD [of "di_hit i" dbg_rows p] by (auto simp: lookup_rows)
  then have "di_opmask p \<noteq> 0" using dbg_rowsD by blast
  moreover have "p \<in> set dbg_in_tab" using p(1) dbg_rowsD by blast
  then have "di_key p \<in> set (map ii_key in_tab)" unfolding dbg_keys by simp
  ultimately show ?thesis using p(2) by (auto simp: ii_key_def di_key_def ii_hit_def di_hit_def)
qed

section \<open>The two tables\<close>

lemma dbg_unknown:
  assumes "remote_instruction_lookup i = None" and "DECODECACHE_INDEX i \<noteq> 0"
  shows "decode_spec i = None"
proof -
  have "\<not> ii_hit i q" if q: "q \<in> set in_tab" "ii_opmask q \<noteq> 0" for q
  proof
    assume hit: "ii_hit i q"
    obtain p where "p \<in> set dbg_rows" "di_key p = ii_key q" using ii_key_in_tab [of q] q by auto
    with hit assms(1) show False
      by (auto simp: lookup_rows find_None_iff ii_hit_def di_hit_def di_key_def ii_key_def)
  qed
  moreover have "DECODECACHE_INDEX (ii_opcode q) = 0" if "q \<in> set in_tab" "ii_opmask q = 0" for q
  proof -
    have "ii_key q \<in> set (map di_key dbg_rows) \<or> ii_key q = (0, 0, F_0)"
      using imageI [OF that(1), of ii_key] unfolding set_map [symmetric] dbg_keys dbg_in_tab_rows
      by (auto simp: di_key_def)
    moreover have "di_opmask p \<noteq> 0" if "p \<in> set dbg_rows" for p using that dbg_rowsD by blast
    ultimately have "ii_opcode q = 0" using that(2) by (auto simp: ii_key_def di_key_def)
    then show ?thesis by (simp add: DECODECACHE_INDEX_def)
  qed
  ultimately show ?thesis
    using assms(2) unfolding decode_spec_def find_None_iff set_rev by metis
qed

lemma dbg_known:
  assumes "remote_instruction_lookup i = Some p" and "DECODECACHE_INDEX i \<noteq> 0" and "di_format p \<noteq> FXCR"
  shows "\<exists>q. decode_spec i = Some q \<and> ii_key q = di_key p"
proof -
  obtain q where q: "q \<in> set in_tab" "ii_key q = di_key p" "ii_hit i q" "ii_opmask q \<noteq> 0"
    using dbg_row_in_tab [OF assms(1)] by blast
  moreover from this assms(3) have "ii_format q \<noteq> FXCR" by (simp add: ii_key_def di_key_def)
  ultimately show ?thesis
    using decode_spec_unique [OF q(1,3) _ hit_index [OF q(1,3,4)] assms(2)] by auto
qed

text \<open>
  Property C7.  The debugger and the simulator decode alike: outside group 0, where the simulator finds its
  pseudo instruction, the row that the debugger's search finds has the opcode, the mask and the format
  of the row that \<open>sim_instruction_lookup\<close> finds after any history of lookups, with the single exception
  of \<open>fxcr\<close>; and a word that the debugger does not know is unknown to the simulator.
\<close>

theorem tables_agree:
  assumes "decode_inv m" and "DECODECACHE_INDEX i \<noteq> 0"
  shows "case remote_instruction_lookup i of
      Some p \<Rightarrow> di_format p = FXCR \<or> (\<exists>q. fst (sim_instruction_lookup i m) = Some q \<and>
        ii_opcode q = di_opcode p \<and> ii_opmask q = di_opmask p \<and> ii_format q = di_format p)
    | None \<Rightarrow> fst (sim_instruction_lookup i m) = None"
proof (cases "remote_instruction_lookup i")
  case None
  then show ?thesis using dbg_unknown assms(2) by (simp add: lookup_decode_spec [OF assms(1)])
next
  case (Some p)
  then show ?thesis
    using dbg_known [OF Some assms(2)] by (auto simp: lookup_decode_spec [OF assms(1)] ii_key_def di_key_def)
qed

theorem tables_agree_witness:
  "\<exists>p q. remote_instruction_lookup 0x70a60007 = Some p \<and> di_format p = INTRL \<and>
     fst (sim_instruction_lookup 0x70a60007 (builddecodetable cleared_mach)) = Some q \<and>
     ii_format q = INTRL"
proof -
  let ?m = "builddecodetable cleared_mach"
  have "decode_inv ?m" by (rule decode_inv_build) (simp_all add: cleared_mach_def)
  moreover have "map_option di_format (remote_instruction_lookup 0x70a60007) = Some INTRL"
    by (simp add: remote_instruction_lookup_def dbg_in_tab_def dbg_tab_alu_def di_hit_def)
  ultimately show ?thesis
    using tables_agree [of ?m "0x70a60007"] by (auto simp: DECODECACHE_INDEX_def)
qed

end
