(* ===== verification/Rem_Step.thy ===== *)
theory Rem_Step
  imports Rem_Table
begin

text \<open>
  Running and single-stepping the target (\<open>remrun.c\<close>), and what the debugger does when the target stops
  (\<open>wait_for_exception\<close> and its callees in \<open>remote.c\<close>).

  A control instruction is not executed by the target: the debugger computes its effect and writes the
  shadow instruction pointers.  Any other instruction is run by the target, with the third pointer of
  the pipeline set to a trap in the monitor's ROM.
\<close>

section \<open>The state\<close>

record 't stepper =
  s_link :: "'t link"
  s_delayed_p :: bool
  s_delayed_ip :: u32
  s_cpu_enabled :: "nat \<Rightarrow> bool"
  s_target_running :: bool
  s_trap_addr :: u32               \<comment> \<open>\<open>mon_single_step_trap_addr\<close>\<close>
  s_nmiing :: bool                 \<comment> \<open>\<open>nmiing_remote\<close>\<close>
  s_stop_cause :: u32
  s_remote_debugging :: bool
  s_downloaded :: bool
  s_reads :: "u8 list list"        \<comment> \<open>what the next reads of the terminal deliver\<close>
  s_console :: "u8 list"           \<comment> \<open>the characters written for the target\<close>
  s_ld_st_addr :: u32
  s_last_iword :: u32

type_synonym ('a, 't) sres = "(link_stop \<times> 't stepper) + ('a \<times> 't stepper)"
type_synonym 't sstep = "(link_stop \<times> 't stepper) + 't stepper"

text \<open>The operations of the link on the link of a state.\<close>

definition on_link :: "('t link \<Rightarrow> ('a, 't) lres) \<Rightarrow> 't stepper \<Rightarrow> ('a, 't) sres" where
  "on_link f s =
     (case f (s_link s) of
        Inl (e, h) \<Rightarrow> Inl (e, s\<lparr>s_link := h\<rparr>) | Inr (a, h) \<Rightarrow> Inr (a, s\<lparr>s_link := h\<rparr>))"

definition step_link :: "('t link \<Rightarrow> (link_stop \<times> 't link) + 't link) \<Rightarrow> 't stepper \<Rightarrow> 't sstep" where
  "step_link f s =
     (case f (s_link s) of Inl (e, h) \<Rightarrow> Inl (e, s\<lparr>s_link := h\<rparr>) | Inr h \<Rightarrow> Inr (s\<lparr>s_link := h\<rparr>))"

definition map_link :: "('t link \<Rightarrow> 't link) \<Rightarrow> 't stepper \<Rightarrow> 't stepper" where
  "map_link f s = s\<lparr>s_link := f (s_link s)\<rparr>"

abbreviation (input) IP_VALID :: u32 where "IP_VALID \<equiv> 2"
abbreviation (input) IP_EXCEPTION :: u32 where "IP_EXCEPTION \<equiv> 1"
abbreviation (input) H_R1_REGNUM :: nat where "H_R1_REGNUM \<equiv> 1"
abbreviation (input) H_SXIP_REGNUM :: nat where "H_SXIP_REGNUM \<equiv> 37"
abbreviation (input) H_SNIP_REGNUM :: nat where "H_SNIP_REGNUM \<equiv> 38"
abbreviation (input) H_SFIP_REGNUM :: nat where "H_SFIP_REGNUM \<equiv> 39"
abbreviation (input) MAX_PROCESSORS :: nat where "MAX_PROCESSORS \<equiv> 4"
abbreviation (input) C_DBWRITE :: u8 where "C_DBWRITE \<equiv> 0x9d"
abbreviation (input) C_DBREAD :: u8 where "C_DBREAD \<equiv> 0x9e"
abbreviation (input) TR_INT :: u32 where "TR_INT \<equiv> 1"
abbreviation (input) TR_TRC :: u32 where "TR_TRC \<equiv> 253"
abbreviation (input) TR_BPT :: u32 where "TR_BPT \<equiv> 254"
abbreviation (input) SIGINT_BIT :: u32 where "SIGINT_BIT \<equiv> 4"
abbreviation (input) SIGTRAP_BIT :: u32 where "SIGTRAP_BIT \<equiv> 32"

definition read_reg :: "'t target \<Rightarrow> nat \<Rightarrow> 't stepper \<Rightarrow> (u32, 't) sres" where
  "read_reg target n s = on_link (remote_read_register target n) s"

definition write_reg :: "'t target \<Rightarrow> nat \<Rightarrow> u32 \<Rightarrow> 't stepper \<Rightarrow> 't sstep" where
  "write_reg target n w s = step_link (remote_write_register target n w) s"

section \<open>Classes of instructions\<close>

datatype iclass =
    I_NON_CONTROL | I_CBRANCH | I_CBRANCH_N | I_TRAP | I_JMP | I_JMP_N | I_BSR | I_BSR_N | I_JSR | I_JSR_N
  | I_BR | I_BR_N | I_BB | I_BB_N | I_TRAP_NOT_TAKEN

text \<open>A trap on a bit is classified with the value the register has.\<close>

definition classify_instruction :: "'t target \<Rightarrow> u32 \<Rightarrow> 't stepper \<Rightarrow> (iclass, 't) sres" where
  "classify_instruction target instr s =
     (case remote_instruction_lookup instr of
        None \<Rightarrow> Inl (Rerr, s)
      | Some p \<Rightarrow>
          let n = instr AND 0x04000000 \<noteq> 0; jn = instr AND 0x400 \<noteq> 0; f = di_format p in
          if f = IPREL then
            Inr (if drop_bit 27 instr AND 0x1f = 0x19 then (if n then I_BSR_N else I_BSR)
                 else (if n then I_BR_N else I_BR), s)
          else if f = BITBRANCH then Inr (if n then I_BB_N else I_BB, s)
          else if f = CBRANCH then Inr (if n then I_CBRANCH_N else I_CBRANCH, s)
          else if f = JMP then
            Inr (if instr AND 0xfffffbe0 = 0xf400c800 then (if jn then I_JSR_N else I_JSR)
                 else (if jn then I_JMP_N else I_JMP), s)
          else if f = TRAP then
            mbind (read_reg target (S1 instr) s) (\<lambda>(r, s).
            Inr (if (r AND push_bit (B5 instr) 1 \<noteq> 0) \<noteq> (instr AND 0x800 \<noteq> 0) then I_TRAP_NOT_TAKEN else I_TRAP, s))
          else if f = TBND \<or> f = TCND \<or> f = RTE then Inr (I_TRAP, s)
          else if instr AND 0xffe0ffe0 = 0xf400f800 then Inr (I_TRAP, s)
          else Inr (I_NON_CONTROL, s))"

section \<open>When the target stops\<close>

definition remote_select_processor :: "nat \<Rightarrow> 't stepper \<Rightarrow> 't stepper" where
  "remote_select_processor n s = map_link (\<lambda>h. h\<lparr>l_selected_processor := n\<rparr>) s"

text \<open>
  The error packets of the target: their arguments are read and printed.  Unless the target is running,
  the command is given up.
\<close>

definition handle_target_rerr :: "'t target \<Rightarrow> u8 \<Rightarrow> 't stepper \<Rightarrow> 't sstep" where
  "handle_target_rerr target c s =
     mbind (if c = C_CHECKSUMERR then
              mbind (on_link (get_word target) s) (\<lambda>(_, s). mbind (on_link (get_word target) s) (\<lambda>(_, s). Inr s))
            else if c = C_BADCOMMAND \<or> c = C_COMMERR then mbind (on_link (get_byte target) s) (\<lambda>(_, s). Inr s)
            else if c = C_COMPRESSERR then Inr s
            else if c = C_EXPECTEDTOKEN then
              mbind (on_link (get_byte target) s) (\<lambda>(_, s). mbind (on_link (get_byte target) s) (\<lambda>(_, s). Inr s))
            else Inl (Rerr, s)) (\<lambda>s.
     if s_target_running s then Inr s else Inl (Rerr, s))"

text \<open>
  A request for input: what a read of the terminal delivers is sent, at most one byte more than the
  target asked for.
\<close>

definition send_bytes :: "u8 list \<Rightarrow> 't link \<Rightarrow> 't link" where
  "send_bytes bs h = fold (\<lambda>b h. send_byte h b) bs h"

definition serve_dbread :: "'t target \<Rightarrow> 't stepper \<Rightarrow> 't sstep" where
  "serve_dbread target s =
     mbind (on_link (get_word target) s) (\<lambda>(len, s).
     mbind (step_link (verify_checksum target) s) (\<lambda>s.
     if len > 0x100000 then Inl (Rerr, s)
     else
       let s = map_link (\<lambda>h. if l_vars h ''showinput'' > 2 then h\<lparr>l_vars := (l_vars h)(''showinput'' := 0)\<rparr> else h) s;
           buf = (case s_reads s of [] \<Rightarrow> [] | bs # _ \<Rightarrow> take (unat len + 1) bs);
           s = s\<lparr>s_reads := tl (s_reads s)\<rparr>
       in Inr (map_link (\<lambda>h. send_checksum (send_command
            (send_bytes buf (send_word (send_command (init_checksum h) C_DATASTART) (of_nat (length buf)))) C_DATAEND)) s)))"

text \<open>A request for output.\<close>

primrec put_bytes_out :: "'t target \<Rightarrow> nat \<Rightarrow> 't stepper \<Rightarrow> 't sstep" where
  "put_bytes_out target 0 s = Inr s"
| "put_bytes_out target (Suc n) s =
     mbind (on_link (get_byte target) s) (\<lambda>(b, s). put_bytes_out target n (s\<lparr>s_console := s_console s @ [b]\<rparr>))"

definition serve_dbwrite :: "'t target \<Rightarrow> 't stepper \<Rightarrow> 't sstep" where
  "serve_dbwrite target s =
     mbind (on_link (get_word target) s) (\<lambda>(len, s).
     if len > 0x100000 then Inl (Rerr, s)
     else
       mbind (on_link (wait_for_token target C_DATASTART C_DATAERROR) s) (\<lambda>(r, s).
       if r = Some C_DATASTART then
         mbind (put_bytes_out target (unat len) s) (\<lambda>s.
         mbind (on_link (wait_for_token target C_DATAEND C_NONE) s) (\<lambda>(r, s).
         if r = Some C_DATAEND then step_link (verify_checksum target) s else Inr s))
       else Inl (Rerr, s)))"

text \<open>
  \<open>wait_for_exception\<close>: the characters up to a prefix are skipped, requests are served, and the loop ends
  with an exception packet or an error packet.  Each iteration takes a character, and the loop is
  bounded by \<open>n\<close> of them; a target that keeps sending is shown as one that does not answer.
\<close>

primrec wait_for_prefix :: "'t target \<Rightarrow> nat \<Rightarrow> 't stepper \<Rightarrow> 't sstep" where
  "wait_for_prefix target 0 s = Inl (Hangs, s)"
| "wait_for_prefix target (Suc n) s =
     mbind (on_link (get_remote_char target) s) (\<lambda>(c, s).
     if c = COMMAND_PREFIX1 then Inr s
     else if \<not> l_ignore_errors (s_link s) \<and> c = 0x0d \<and> l_vars (s_link s) ''motomode'' \<noteq> 0 then Inl (Rerr, s)
     else wait_for_prefix target n (map_link init_checksum s))"

definition serve_exception :: "'t target \<Rightarrow> u32 \<Rightarrow> 't stepper \<Rightarrow> (bool, 't) sres" where
  "serve_exception target expected_exception s =
     mbind (on_link (get_word target) (map_link invalidate_mem_cache (s\<lparr>s_target_running := False\<rparr>))) (\<lambda>(new_processor, s).
     mbind (on_link (get_word target) s) (\<lambda>(exception_code, s).
     if unat new_processor \<ge> MAX_PROCESSORS then Inl (Undefined, s)
     else
       let s = remote_select_processor (unat new_processor) s in
       if exception_code = expected_exception then Inr (True, s) else Inl (Rerr, s)))"

primrec wait_for_exception :: "'t target \<Rightarrow> nat \<Rightarrow> u32 \<Rightarrow> 't stepper \<Rightarrow> (bool, 't) sres" where
  "wait_for_exception target 0 expected_exception s = Inl (Hangs, s)"
| "wait_for_exception target (Suc n) expected_exception s =
     mbind (wait_for_prefix target (Suc n) (map_link init_checksum s)) (\<lambda>s.
     mbind (on_link (get_remote_char target) s) (\<lambda>(c, s).
     if c = C_EXCEPTION then serve_exception target expected_exception s
     else if c = C_DBREAD then
       mbind (serve_dbread target s) (\<lambda>s. wait_for_exception target n expected_exception s)
     else if c = C_DBWRITE then
       mbind (serve_dbwrite target s) (\<lambda>s. wait_for_exception target n expected_exception s)
     else if c \<in> {C_CHECKSUMERR, C_COMMERR, C_BADCOMMAND, C_COMPRESSERR, C_EXPECTEDTOKEN} then
       mbind (handle_target_rerr target c s) (\<lambda>s. Inr (False, s))
     else if c = 0x0d \<and> l_vars (s_link s) ''motomode'' \<noteq> 0 then Inl (Rerr, s)
     else if \<not> l_ignore_errors (s_link s) then Inl (Rerr, s)
     else wait_for_exception target n expected_exception s))"

section \<open>Single-stepping\<close>

text \<open>The condition of \<open>bcnd\<close>: bit 1 of the index is the sign, bit 0 says that the rest is zero.\<close>

definition m5_index :: "u32 \<Rightarrow> nat" where
  "m5_index r = unat (push_bit 1 (drop_bit 31 r AND 1) OR of_bool (r AND 0x7fffffff = 0))"

definition bcnd_taken :: "u32 \<Rightarrow> u32 \<Rightarrow> bool" where
  "bcnd_taken instr r \<longleftrightarrow> drop_bit (m5_index r) (M5 instr) AND 1 \<noteq> 0"

definition bb_taken :: "u32 \<Rightarrow> u32 \<Rightarrow> bool" where
  "bb_taken instr r \<longleftrightarrow> drop_bit 27 instr AND 1 = drop_bit (B5 instr) r AND 1"

definition set_delayed :: "u32 \<Rightarrow> 't stepper \<Rightarrow> 't stepper" where
  "set_delayed a s = s\<lparr>s_delayed_p := True, s_delayed_ip := a\<rparr>"

text \<open>The first two, and all three shadow pointers, as after a breakpoint.\<close>

definition shadow_two :: "'t target \<Rightarrow> u32 \<Rightarrow> u32 \<Rightarrow> 't stepper \<Rightarrow> 't sstep" where
  "shadow_two target xip nip s =
     mbind (write_reg target H_SXIP_REGNUM (xip OR IP_VALID) s) (\<lambda>s.
     write_reg target H_SNIP_REGNUM (nip OR IP_VALID) s)"

definition shadow_three :: "'t target \<Rightarrow> u32 \<Rightarrow> u32 \<Rightarrow> u32 \<Rightarrow> 't stepper \<Rightarrow> 't sstep" where
  "shadow_three target xip nip fip s =
     mbind (shadow_two target xip nip s) (\<lambda>s. write_reg target H_SFIP_REGNUM (fip OR IP_VALID) s)"

definition send_go :: "(nat \<Rightarrow> bool) \<Rightarrow> 't link \<Rightarrow> 't link" where
  "send_go on h =
     send_checksum (send_command
       (send_bytes (map (\<lambda>i. of_bool (on i)) [0..<MAX_PROCESSORS]) (send_command (init_checksum h) C_GO)) C_END)"

text \<open>An instruction that the target executes, in supervisor mode only.\<close>

definition ss_non_control :: "'t target \<Rightarrow> nat \<Rightarrow> u32 \<Rightarrow> 't stepper \<Rightarrow> 't sstep" where
  "ss_non_control target n real_ip s =
     mbind (read_reg target H_PSR_REGNUM s) (\<lambda>(psr, s).
     if psr AND 0x80000000 = 0 then Inl (Rerr, s)
     else
       mbind (read_reg target H_SNIP_REGNUM s) (\<lambda>(_, s).
       mbind (write_reg target H_SFIP_REGNUM (s_trap_addr s OR IP_VALID) s) (\<lambda>s.
       let s = map_link (\<lambda>h. send_go (\<lambda>i. i = l_selected_processor h) (invalidate_mem_cache h)) s in
       mbind (on_link (wait_for_token target C_ACK C_NONE) s) (\<lambda>(r, s).
       if r \<noteq> Some C_ACK then Inr s
       else
         mbind (wait_for_exception target n TR_TRC s) (\<lambda>(_, s).
         let new_ip = (if s_delayed_p s then s_delayed_ip s else real_ip + 4)
         in shadow_three target real_ip new_ip (new_ip + 4) (s\<lparr>s_delayed_p := False\<rparr>))))))"

text \<open>The instructions that the debugger executes.\<close>

definition ss_control :: "'t target \<Rightarrow> iclass \<Rightarrow> u32 \<Rightarrow> u32 \<Rightarrow> 't stepper \<Rightarrow> 't sstep" where
  "ss_control target c instr real_ip s =
     (case c of
        I_BR \<Rightarrow>
          let new_ip = REL26 instr + real_ip in shadow_three target real_ip new_ip (new_ip + 4) s
      | I_BR_N \<Rightarrow>
          mbind (shadow_two target real_ip (real_ip + 4) s) (\<lambda>s.
          let d = REL26 instr + real_ip in write_reg target H_SFIP_REGNUM (d OR IP_VALID) (set_delayed d s))
      | I_BB \<Rightarrow>
          mbind (read_reg target (S1 instr) s) (\<lambda>(r, s).
          let new_ip = (if bb_taken instr r then REL16 instr + real_ip else real_ip + 4)
          in shadow_three target real_ip new_ip (new_ip + 4) s)
      | I_BB_N \<Rightarrow>
          mbind (shadow_two target real_ip (real_ip + 4) s) (\<lambda>s.
          mbind (read_reg target (S1 instr) s) (\<lambda>(r, s).
          if bb_taken instr r then
            let d = REL16 instr + real_ip in write_reg target H_SFIP_REGNUM (d OR IP_VALID) (set_delayed d s)
          else write_reg target H_SFIP_REGNUM ((real_ip + 4 + 4) OR IP_VALID) s))
      | I_CBRANCH \<Rightarrow>
          mbind (read_reg target (S1 instr) s) (\<lambda>(r, s).
          let new_ip = (if bcnd_taken instr r then REL16 instr + real_ip else real_ip + 4)
          in shadow_three target real_ip new_ip (new_ip + 4) s)
      | I_CBRANCH_N \<Rightarrow>
          mbind (shadow_two target real_ip (real_ip + 4) s) (\<lambda>s.
          mbind (read_reg target (S1 instr) s) (\<lambda>(r, s).
          if bcnd_taken instr r then
            let d = REL16 instr + real_ip in write_reg target H_SFIP_REGNUM (d OR IP_VALID) (set_delayed d s)
          else write_reg target H_SFIP_REGNUM ((real_ip + 4 + 4) OR IP_VALID) s))
      | I_BSR \<Rightarrow>
          mbind (write_reg target H_R1_REGNUM (real_ip + 4) s) (\<lambda>s.
          let new_ip = REL26 instr + real_ip in shadow_three target real_ip new_ip (new_ip + 4) s)
      | I_BSR_N \<Rightarrow>
          let d = REL26 instr + real_ip in
          mbind (write_reg target H_R1_REGNUM (real_ip + 8) (set_delayed d s)) (\<lambda>s.
          shadow_three target real_ip (real_ip + 4) d s)
      | I_JMP \<Rightarrow>
          mbind (read_reg target (S2 instr) s) (\<lambda>(new_ip, s).
          shadow_three target real_ip new_ip (new_ip + 4) s)
      | I_JMP_N \<Rightarrow>
          mbind (read_reg target (S2 instr) s) (\<lambda>(d, s).
          shadow_three target real_ip (real_ip + 4) d (set_delayed d s))
      | I_JSR \<Rightarrow>
          mbind (read_reg target (S2 instr) s) (\<lambda>(new_ip, s).
          mbind (write_reg target H_R1_REGNUM (real_ip + 4) s) (\<lambda>s.
          shadow_three target real_ip new_ip (new_ip + 4) s))
      | I_JSR_N \<Rightarrow>
          mbind (write_reg target H_R1_REGNUM (real_ip + 8) s) (\<lambda>s.
          mbind (read_reg target (S2 instr) s) (\<lambda>(d, s).
          shadow_three target real_ip (real_ip + 4) d (set_delayed d s)))
      | _ \<Rightarrow> Inl (Undefined, s))"

definition ss_instr :: "'t target \<Rightarrow> nat \<Rightarrow> iclass \<Rightarrow> u32 \<Rightarrow> u32 \<Rightarrow> 't stepper \<Rightarrow> 't sstep" where
  "ss_instr target n c instr real_ip s =
     (if c = I_NON_CONTROL then ss_non_control target n real_ip s
      else if c = I_TRAP_NOT_TAKEN then
        mbind (shadow_two target real_ip (real_ip + 4) s) (\<lambda>s.
        write_reg target H_SFIP_REGNUM ((s_delayed_ip s + 4) OR IP_VALID) s)
      else if c = I_TRAP then Inl (Rerr, s)
      else if s_delayed_p s then Inl (Rerr, s)
      else ss_control target c instr real_ip s)"

definition host_word :: "bool \<Rightarrow> u8 list \<Rightarrow> u32" where
  "host_word big bs = value_of (if big then bs else rev bs)"

definition ss_remote :: "'t target \<Rightarrow> nat \<Rightarrow> 't stepper \<Rightarrow> 't sstep" where
  "ss_remote target n s =
     (if l_selected_processor (s_link s) \<ge> MAX_PROCESSORS then Inl (Undefined, s)
      else if \<not> s_cpu_enabled s (l_selected_processor (s_link s)) then Inl (Rerr, s)
      else
        mbind (read_reg target H_SNIP_REGNUM s) (\<lambda>(snip, s).
        let real_ip = snip AND NOT (IP_VALID OR IP_EXCEPTION) in
        mbind (on_link (dread_remote target real_ip 4 US_CURMODE) s) (\<lambda>((bs, err), s).
        if err then Inl (Rerr, s)
        else
          let instr = host_word (l_big_endian (s_link s)) bs in
          mbind (classify_instruction target instr s) (\<lambda>(c, s).
          mbind (ss_instr target n c instr real_ip s) (\<lambda>s.
          let s = s\<lparr>s_stop_cause := s_stop_cause s OR SIGTRAP_BIT\<rparr>
          in if s_nmiing s then Inl (Rerr, s) else Inr s)))))"

section \<open>Running\<close>

definition ip_valid :: "u32 \<Rightarrow> bool" where
  "ip_valid w \<longleftrightarrow> w AND (IP_VALID OR IP_EXCEPTION) = IP_VALID"

definition ip_of :: "u32 \<Rightarrow> u32" where
  "ip_of w = w AND NOT (IP_VALID OR IP_EXCEPTION)"

definition check_for_delay_slot_after_breakpoint :: "'t target \<Rightarrow> 't stepper \<Rightarrow> 't sstep" where
  "check_for_delay_slot_after_breakpoint target s =
     mbind (read_reg target H_SXIP_REGNUM s) (\<lambda>(sxip, s).
     mbind (read_reg target H_SNIP_REGNUM s) (\<lambda>(snip, s).
     Inr (if ip_valid snip then
            if ip_of sxip \<noteq> ip_of snip - 4 then set_delayed (ip_of snip) s else s\<lparr>s_delayed_p := False\<rparr>
          else s)))"

definition check_for_delay_slot_after_interrupt :: "'t target \<Rightarrow> 't stepper \<Rightarrow> 't sstep" where
  "check_for_delay_slot_after_interrupt target s =
     mbind (read_reg target H_SNIP_REGNUM s) (\<lambda>(snip, s).
     mbind (read_reg target H_SFIP_REGNUM s) (\<lambda>(sfip, s).
     Inr (if ip_valid snip \<and> ip_valid sfip \<and> ip_of snip \<noteq> ip_of sfip - 4
          then set_delayed (ip_of sfip) s else s)))"

definition kludge_pc :: "'t target \<Rightarrow> 't stepper \<Rightarrow> 't sstep" where
  "kludge_pc target s =
     mbind (read_reg target H_SXIP_REGNUM s) (\<lambda>(sxip, s).
     mbind (write_reg target H_SNIP_REGNUM sxip s) (\<lambda>s.
     mbind (read_reg target H_SXIP_REGNUM s) (\<lambda>(sxip, s).
     write_reg target H_SFIP_REGNUM (sxip + 4) s)))"

datatype go_result = CAUGHT_EXCEPTION | CAUGHT_BREAKPOINT | Exited

definition read_ips :: "'t target \<Rightarrow> nat list \<Rightarrow> 't stepper \<Rightarrow> 't sstep" where
  "read_ips target ns s = fold (\<lambda>n r. mbind r (\<lambda>s. mbind (read_reg target n s) (\<lambda>(_, s). Inr s))) ns (Inr s)"

definition go_remote :: "'t target \<Rightarrow> nat \<Rightarrow> 't stepper \<Rightarrow> (go_result, 't) sres" where
  "go_remote target n s =
     (if l_selected_processor (s_link s) \<ge> MAX_PROCESSORS then Inl (Undefined, s)
      else if \<not> s_cpu_enabled s (l_selected_processor (s_link s)) then Inl (Rerr, s)
      else
        mbind (read_ips target [H_SNIP_REGNUM, H_SFIP_REGNUM] s) (\<lambda>s.
        let s = map_link (\<lambda>h. send_go (\<lambda>i. i = l_selected_processor h \<or> s_cpu_enabled s i) (invalidate_mem_cache h)) s in
        mbind (on_link (wait_for_token target C_ACK C_NONE) s) (\<lambda>(r, s).
        if r \<noteq> Some C_ACK then Inr (CAUGHT_EXCEPTION, s)
        else
          let s = s\<lparr>s_target_running := True\<rparr> in
          if l_vars (s_link s) ''exitaftercontinue'' \<noteq> 0 then Inr (Exited, s)
          else
            mbind (wait_for_exception target n TR_BPT s) (\<lambda>(hit, s).
            if \<not> hit then Inr (CAUGHT_EXCEPTION, s)
            else
              mbind (read_ips target [H_SXIP_REGNUM, H_SNIP_REGNUM, H_SFIP_REGNUM] s) (\<lambda>s.
              mbind (check_for_delay_slot_after_breakpoint target s) (\<lambda>s.
              mbind (kludge_pc target s) (\<lambda>s.
              Inr (CAUGHT_BREAKPOINT, s\<lparr>s_stop_cause := s_stop_cause s OR SIGTRAP_BIT\<rparr>))))))))"

text \<open>\<open>remote_resume\<close> for a target that is not the simulator.\<close>

definition remote_resume :: "'t target \<Rightarrow> nat \<Rightarrow> bool \<Rightarrow> 't stepper \<Rightarrow> 't sstep" where
  "remote_resume target n step s =
     (if \<not> s_remote_debugging s then Inl (Rerr, s)
      else if \<not> s_downloaded s then Inl (Rerr, s\<lparr>s_downloaded := True\<rparr>)
      else if step then ss_remote target n s
      else mbind (go_remote target n s) (\<lambda>(_, s). Inr s))"

datatype wait_status = Stopped_int | Stopped_trap

definition remote_wait :: "'t stepper \<Rightarrow> (wait_status, 't) sres" where
  "remote_wait s =
     (if s_stop_cause s AND SIGINT_BIT \<noteq> 0 then
        Inr (Stopped_int, s\<lparr>s_stop_cause := s_stop_cause s AND NOT SIGINT_BIT\<rparr>)
      else if s_stop_cause s AND SIGTRAP_BIT \<noteq> 0 then
        Inr (Stopped_trap, s\<lparr>s_stop_cause := s_stop_cause s AND NOT SIGTRAP_BIT\<rparr>)
      else Inl (Rerr, s))"

section \<open>Processors\<close>

text \<open>
  A processor says in its register area whether it is stopped in the monitor (word 74, \<open>dm_in_mon\<close>), and why
  (word 68, \<open>dm_exception_code\<close>).  The monitor keeps the numbers of the words by the order of
  \<open>struct all_vars\<close>.  Both questions go past the cache.
\<close>

definition IN_MON_MAGIC :: u32 where "IN_MON_MAGIC = 0x31415926"

definition in_monitor :: "'t target \<Rightarrow> nat \<Rightarrow> 't link \<Rightarrow> (bool, 't) lres" where
  "in_monitor target n h =
     mbind (read_remote target (l_register_area h n + 4 * 74) 4 US_SUPERVISOR (invalidate_mem_cache h)) (\<lambda>(w, h).
     Inr (w = IN_MON_MAGIC, h))"

definition processor_exception_code :: "'t target \<Rightarrow> nat \<Rightarrow> 't link \<Rightarrow> (u32, 't) lres" where
  "processor_exception_code target n h =
     read_remote target (l_register_area h n + 4 * 68) 4 US_SUPERVISOR (invalidate_mem_cache h)"

definition select_stopped_processor :: "'t target \<Rightarrow> nat \<Rightarrow> bool \<Rightarrow> 't stepper \<Rightarrow> 't sstep" where
  "select_stopped_processor target n force s =
     (if force then Inr (remote_select_processor n s)
      else
        mbind (on_link (in_monitor target n) s) (\<lambda>(b, s).
        if b then Inr (remote_select_processor n s) else Inl (Rerr, s)))"

section \<open>Before a step\<close>

text \<open>
  The address of a load or a store is computed before the step, since the step may change the registers
  it is made of.  The shift of a scaled access is read off bits 10 and 11 alone.
\<close>

definition decode_instr_before_stepping :: "'t target \<Rightarrow> u32 \<Rightarrow> 't stepper \<Rightarrow> 't sstep" where
  "decode_instr_before_stepping target iword s =
     (let s = s\<lparr>s_last_iword := iword\<rparr> in
      case remote_instruction_lookup iword of
        None \<Rightarrow> Inl (Rerr, s)
      | Some p \<Rightarrow>
          if di_format p \<in> {LDLIT, STLIT} then
            mbind (read_reg target (S1 iword) s) (\<lambda>(r1, s). Inr (s\<lparr>s_ld_st_addr := r1 + LIT16 iword\<rparr>))
          else if di_format p \<in> {LDRO, STRO} then
            mbind (read_reg target (S1 iword) s) (\<lambda>(r1, s).
            mbind (read_reg target (S2 iword) s) (\<lambda>(r2, s). Inr (s\<lparr>s_ld_st_addr := r1 + r2\<rparr>)))
          else if di_format p \<in> {LDRI, STRI} then
            mbind (read_reg target (S1 iword) s) (\<lambda>(r1, s).
            mbind (read_reg target (S2 iword) s) (\<lambda>(r2, s).
            Inr (s\<lparr>s_ld_st_addr := r1 + push_bit (3 - unat (drop_bit 10 iword AND 3)) r2\<rparr>)))
          else Inr s)"

end
