(* ===== verification/Rem_Branch.thy ===== *)
theory Rem_Branch
  imports Rem_Step Sim_Alu
begin

text \<open>
  The effect of the control instructions of the 88000 on the flow of control, read off the rows of the
  simulator's table, and the decisions the debugger makes when it executes them itself.
\<close>

section \<open>Conditions\<close>

text \<open>The condition field of \<open>bcnd\<close>.\<close>

fun bcond_code :: "bcond \<Rightarrow> u32" where
  "bcond_code BC_eq0 = 2" | "bcond_code BC_ne0 = 13" | "bcond_code BC_gt0 = 1" | "bcond_code BC_lt0 = 12"
| "bcond_code BC_ge0 = 3" | "bcond_code BC_le0 = 14" | "bcond_code BC_4 = 4" | "bcond_code BC_5 = 5"
| "bcond_code BC_6 = 6" | "bcond_code BC_7 = 7" | "bcond_code BC_8 = 8" | "bcond_code BC_9 = 9"
| "bcond_code BC_10 = 10" | "bcond_code BC_11 = 11" | "bcond_code BC_always = 15"

lemma bit_alone: "drop_bit n w AND 1 = of_bool (bit w n)" for w :: u32
  by (rule bit_word_eqI) (auto simp: bit_simps bit_1_iff)

lemma sign_bit: "drop_bit 31 r AND 1 = of_bool (r <s 0)" for r :: u32
proof -
  have "r <s 0 \<longleftrightarrow> bit r 31"
    using bit_last_iff [of r] by (simp add: word_sless_alt)
  then show ?thesis using bit_alone [of 31 r] by simp
qed

lemma rest_zero: "r AND 0x7fffffff = 0 \<longleftrightarrow> r = 0 \<or> r = 0x80000000" for r :: u32
proof
  assume "r AND 0x7fffffff = 0"
  moreover have "r AND 0x7fffffff = take_bit 31 r" by (simp add: take_bit_eq_mask mask_eq_exp_minus_1)
  ultimately have "take_bit 31 r = 0" by simp
  then have "take_bit 31 (unat r) = 0" by (metis unsigned_take_bit_eq unat_0)
  then have "unat r mod 2147483648 = 0" by (simp add: take_bit_nat_def)
  moreover have "unat r < 4294967296" using unsigned_less [of r] by simp
  moreover obtain k where k: "unat r = 2147483648 * k"
    using \<open>unat r mod 2147483648 = 0\<close> by (auto simp: mod_eq_0_iff_dvd dvd_def)
  ultimately have "k < 2" by linarith
  then have "unat r = 0 \<or> unat r = 2147483648" using k by (auto simp: less_2_cases_iff)
  moreover have "unat (0x80000000 :: u32) = 2147483648" by simp
  ultimately show "r = 0 \<or> r = 0x80000000" by (metis unat_0 unsigned_word_eqI)
qed auto

lemma m5_index_cases:
  "m5_index r = (if r <s 0 then 2 else 0) + (if r = 0 \<or> r = 0x80000000 then 1 else 0)"
  by (simp add: m5_index_def sign_bit rest_zero)

lemma bcond_field: "drop_bit (m5_index r) (bcond_code c) AND 1 \<noteq> 0 \<longleftrightarrow> bcond_holds c r"
proof -
  have min: "(0x80000000 :: u32) <s 0" by (simp add: word_sless_alt)
  consider "r = 0" | "r = 0x80000000" | "r <s 0" "r \<noteq> 0" "r \<noteq> 0x80000000" | "0 <s r" "r \<noteq> 0" "r \<noteq> 0x80000000"
    using signed.less_linear [of r 0] by blast
  then show ?thesis
  proof cases
    case 1
    then show ?thesis by (cases c) (simp_all add: m5_index_cases)
  next
    case 2
    then show ?thesis using min by (cases c) (simp_all add: m5_index_cases word_sless_alt word_sle_eq)
  next
    case 3
    then show ?thesis
      by (cases c) (simp_all add: m5_index_cases rest_zero signed.less_imp_le signed.not_le signed.not_less)
  next
    case 4
    then have "\<not> r <s 0" by (simp add: signed.less_imp_le signed.not_less)
    with 4 show ?thesis
      by (cases c) (simp_all add: m5_index_cases rest_zero signed.less_imp_le signed.not_le signed.not_less)
  qed
qed

section \<open>The effect of a control instruction\<close>

text \<open>
  The target if the instruction transfers control, whether the next instruction is executed first, and
  whether \<open>r1\<close> receives the return address: for the instruction of a handler of the simulator at the
  address \<open>ip\<close>, with the values \<open>g\<close> of the general registers.
\<close>

fun control_effect :: "handler \<Rightarrow> u32 \<Rightarrow> u32 \<Rightarrow> (nat \<Rightarrow> u32) \<Rightarrow> (u32 option \<times> bool \<times> bool) option" where
  "control_effect (H_br op) i ip g =
     Some (Some (REL26 i + ip), op \<in> {R_br_n, R_bsr_n}, op \<in> {R_bsr, R_bsr_n})"
| "control_effect (H_bb op n) i ip g =
     Some (if bit (g (S1 i)) n = (op \<in> {R_bb1, R_bb1_n}) then Some (REL16 i + ip) else None,
       op \<in> {R_bb0_n, R_bb1_n}, False)"
| "control_effect (H_bcnd c n) i ip g =
     Some (if bcond_holds c (g (S1 i)) then Some (REL16 i + ip) else None, n, False)"
| "control_effect (H_jump op) i ip g =
     Some (Some (g (S2 i)), op \<in> {J_jmp_n, J_jsr_n}, op \<in> {J_jsr, J_jsr_n})"
| "control_effect _ i ip g = None"

definition class_of :: "handler \<Rightarrow> iclass" where
  "class_of op =
     (case op of
        H_br b \<Rightarrow> (case b of R_br \<Rightarrow> I_BR | R_br_n \<Rightarrow> I_BR_N | R_bsr \<Rightarrow> I_BSR | R_bsr_n \<Rightarrow> I_BSR_N)
      | H_bb b n \<Rightarrow> if b \<in> {R_bb0_n, R_bb1_n} then I_BB_N else I_BB
      | H_bcnd c n \<Rightarrow> if n then I_CBRANCH_N else I_CBRANCH
      | H_jump j \<Rightarrow> (case j of J_jmp \<Rightarrow> I_JMP | J_jmp_n \<Rightarrow> I_JMP_N | J_jsr \<Rightarrow> I_JSR | J_jsr_n \<Rightarrow> I_JSR_N)
      | _ \<Rightarrow> I_NON_CONTROL)"

text \<open>What the opcodes of the control instructions have in common.\<close>

definition control_row :: "instr_info \<Rightarrow> bool" where
  "control_row q \<longleftrightarrow>
     (let c = ii_opcode q; m = ii_opmask q; n = (c AND 0x04000000 \<noteq> 0); jn = (c AND 0x400 \<noteq> 0) in
      case ii_norm_e_addr q of
        H_br op \<Rightarrow> ii_format q = IPREL \<and> m = 0xfc000000 \<and> (drop_bit 27 c AND 0x1f = 0x19) = (op \<in> {R_bsr, R_bsr_n}) \<and>
          n = (op \<in> {R_br_n, R_bsr_n})
      | H_bb op k \<Rightarrow> ii_format q = BITBRANCH \<and> m = 0xffe00000 \<and> drop_bit 21 c AND 0x1f = of_nat k \<and> k < 32 \<and>
          drop_bit 27 c AND 1 = of_bool (op \<in> {R_bb1, R_bb1_n}) \<and> n = (op \<in> {R_bb0_n, R_bb1_n})
      | H_bcnd b d \<Rightarrow> ii_format q = CBRANCH \<and> m = 0xffe00000 \<and> drop_bit 21 c AND 0x1f = bcond_code b \<and> n = d
      | H_jump op \<Rightarrow> ii_format q = JMP \<and> m = 0xffffffe0 \<and> (c AND 0xfffffbe0 = 0xf400c800) = (op \<in> {J_jsr, J_jsr_n}) \<and>
          jn = (op \<in> {J_jmp_n, J_jsr_n})
      | _ \<Rightarrow> True)"

lemma control_rows: "list_all control_row in_tab"
  unfolding in_tab_def list_all_append in_tab_alu_def in_tab_bb_def in_tab_fp_def in_tab_mem_def in_tab_rest_def
  by (simp add: control_row_def)

lemma control_row: "q \<in> set in_tab \<Longrightarrow> control_row q"
  using control_rows by (simp add: list_all_iff)

section \<open>What the debugger computes\<close>

lemma hit_part: "ii_hit i q \<Longrightarrow> ii_opmask q AND k = k \<Longrightarrow> i AND k = ii_opcode q AND k"
  unfolding ii_hit_def by (metis and.assoc and.commute)

lemma hit_field:
  assumes "ii_hit i q" and "ii_opmask q AND push_bit n k = push_bit n k" and "drop_bit n (push_bit n k) = k"
  shows "drop_bit n i AND k = drop_bit n (ii_opcode q) AND k"
proof -
  have "drop_bit n (i AND push_bit n k) = drop_bit n (ii_opcode q AND push_bit n k)"
    using hit_part [OF assms(1,2)] by simp
  then show ?thesis by (simp add: drop_bit_and assms(3))
qed

lemma bb_decision:
  assumes "q \<in> set in_tab" and "ii_hit i q" and "ii_norm_e_addr q = H_bb op n"
  shows "bb_taken i r \<longleftrightarrow> bit r n = (op \<in> {R_bb1, R_bb1_n})"
proof -
  note row = control_row [OF assms(1), unfolded control_row_def assms(3) Let_def, simplified]
  have "drop_bit 21 i AND 0x1f = of_nat n"
    using hit_field [OF assms(2), of 21 "0x1f"] row by simp
  then have n: "B5 i = n" using row by (simp add: B5_def unat_of_nat)
  have "drop_bit 27 i AND 1 = of_bool (op \<in> {R_bb1, R_bb1_n})"
    using hit_field [OF assms(2), of 27 1] row by simp
  then show ?thesis unfolding bb_taken_def n bit_alone by auto
qed

lemma bcnd_decision:
  assumes "q \<in> set in_tab" and "ii_hit i q" and "ii_norm_e_addr q = H_bcnd c d"
  shows "bcnd_taken i r \<longleftrightarrow> bcond_holds c r"
proof -
  note row = control_row [OF assms(1), unfolded control_row_def assms(3) Let_def, simplified]
  have "M5 i = bcond_code c"
    using hit_field [OF assms(2), of 21 "0x1f"] row by (simp add: M5_def)
  then show ?thesis unfolding bcnd_taken_def using bcond_field [of r c] by simp
qed

lemma classify_control:
  assumes "q \<in> set in_tab" and "ii_hit i q" and "remote_instruction_lookup i = Some p" and "di_format p = ii_format q"
    and "control_effect (ii_norm_e_addr q) i ip g \<noteq> None"
  shows "classify_instruction target i s = Inr (class_of (ii_norm_e_addr q), s)"
proof -
  note row = control_row [OF assms(1), unfolded control_row_def Let_def]
  show ?thesis
  proof (cases "ii_norm_e_addr q")
    case (H_br op)
    have "drop_bit 27 i AND 0x1f = drop_bit 27 (ii_opcode q) AND 0x1f" "i AND 0x04000000 = ii_opcode q AND 0x04000000"
      using hit_field [OF assms(2), of 27 "0x1f"] hit_part [OF assms(2)] row by (simp_all add: H_br)
    then show ?thesis using row assms(3,4)
      by (cases op) (simp_all add: H_br classify_instruction_def class_of_def)
  next
    case (H_bb op n)
    have "i AND 0x04000000 = ii_opcode q AND 0x04000000"
      using hit_part [OF assms(2)] row by (simp add: H_bb)
    then show ?thesis using row assms(3,4)
      by (simp add: H_bb classify_instruction_def class_of_def)
  next
    case (H_bcnd c d)
    have "i AND 0x04000000 = ii_opcode q AND 0x04000000"
      using hit_part [OF assms(2)] row by (simp add: H_bcnd)
    then show ?thesis using row assms(3,4)
      by (simp add: H_bcnd classify_instruction_def class_of_def)
  next
    case (H_jump op)
    have "i AND 0xfffffbe0 = ii_opcode q AND 0xfffffbe0" "i AND 0x400 = ii_opcode q AND 0x400"
      using hit_part [OF assms(2)] row by (simp_all add: H_jump)
    then show ?thesis using row assms(3,4)
      by (cases op) (simp_all add: H_jump classify_instruction_def class_of_def)
  qed (use assms(5) in simp_all)
qed

lemma control_index:
  "list_all (\<lambda>q. DECODECACHE_INDEX (ii_opcode q) = 32 \<longrightarrow> class_of (ii_norm_e_addr q) = I_NON_CONTROL) in_tab"
  unfolding in_tab_def list_all_append in_tab_alu_def in_tab_bb_def in_tab_fp_def in_tab_mem_def in_tab_rest_def
  by (simp add: DECODECACHE_INDEX_def class_of_def)

lemma effect_class: "control_effect hd' i ip g \<noteq> None \<longleftrightarrow> class_of hd' \<noteq> I_NON_CONTROL"
  by (cases hd') (auto simp: class_of_def split: brop.splits jmpop.splits)

lemma control_lookup:
  assumes "decode_spec i = Some q" and "control_effect (ii_norm_e_addr q) i ip g \<noteq> None"
  shows "q \<in> set in_tab \<and> ii_hit i q \<and> (\<exists>p. remote_instruction_lookup i = Some p \<and> di_format p = ii_format q)"
proof -
  let ?P = "\<lambda>p. DECODECACHE_INDEX (ii_opcode p) = DECODECACHE_INDEX i \<and> ii_hit i p"
  have q: "q \<in> set in_tab" "ii_hit i q" "DECODECACHE_INDEX (ii_opcode q) = DECODECACHE_INDEX i"
    using assms(1) find_SomeD [of ?P "rev in_tab" q] by (auto simp: decode_spec_def)
  have i0: "DECODECACHE_INDEX i \<noteq> 0"
  proof
    assume "DECODECACHE_INDEX i = 0"
    from decode_spec_index_0 [OF this] assms show False by simp
  qed
  then obtain p where p: "remote_instruction_lookup i = Some p"
    using dbg_unknown [of i] assms(1) by (cases "remote_instruction_lookup i") auto
  have "di_format p \<noteq> FXCR"
  proof
    assume f: "di_format p = FXCR"
    obtain r where r: "r \<in> set in_tab" "ii_key r = di_key p" "ii_hit i r" "ii_opmask r \<noteq> 0"
      using dbg_row_in_tab [OF p] by blast
    with f have "ii_opcode r = 0x8000c800"
      using fxcr_row_hit by (auto simp: list_all_iff ii_key_def di_key_def)
    then have "DECODECACHE_INDEX (ii_opcode q) = 32"
      using hit_index [OF r(1,3,4)] q(3) by (simp add: DECODECACHE_INDEX_def)
    with control_index q(1) have "class_of (ii_norm_e_addr q) = I_NON_CONTROL" by (auto simp: list_all_iff)
    with assms(2) effect_class show False by blast
  qed
  with dbg_known [OF p i0] assms(1) have "ii_key q = di_key p" by auto
  with q p show ?thesis by (simp add: ii_key_def di_key_def)
qed

end
