(* ===== verification/Rem_Stepping.thy ===== *)
theory Rem_Stepping
  imports Rem_Branch Rem_Blocks
begin

text \<open>
  Single-stepping a control instruction: through the serial line, the cache and the monitor, the debugger
  changes the registers of the program exactly as the instruction does in the simulator.
\<close>

section \<open>The registers of the program\<close>

definition prog_reg :: "nat \<Rightarrow> bool" where
  "prog_reg n \<longleftrightarrow> n < 32 \<or> n \<in> {34, 37, 38, 39}"

definition area_base :: "mon link \<Rightarrow> u32" where
  "area_base h = l_register_area h (l_selected_processor h)"

definition reg_value :: "mon link \<Rightarrow> nat \<Rightarrow> u32" where
  "reg_value h n = value_of (mem_bytes (mn_mem (l_target h)) (register_address n h) 4)"

definition regs_of :: "mon link \<Rightarrow> nat \<Rightarrow> u32 option" where
  "regs_of h n = (if prog_reg n then Some (reg_value h n) else None)"

definition attached :: "mon link \<Rightarrow> bool" where
  "attached h \<longleftrightarrow> connected h \<and> coherent h \<and> l_big_endian h \<and> (\<forall>i. aligned_access (l_register_area h i) 4) \<and>
     (\<forall>n. prog_reg n \<longrightarrow> mapped_range (l_target h) (line_addr (register_address n h)) CACHELINESIZE)"

text \<open>
  The words that stepping over a control instruction may change: \<open>r1\<close> and the three pointers of the
  pipeline.  The session goes on, and of the target's memory, so of the whole register area and of
  all that is outside it, every other byte is as it was.
\<close>

definition step_reg :: "nat \<Rightarrow> bool" where
  "step_reg n \<longleftrightarrow> n = 1 \<or> n = 37 \<or> n = 38 \<or> n = 39"

definition goes_on :: "mon link \<Rightarrow> mon link \<Rightarrow> bool" where
  "goes_on h h' \<longleftrightarrow> session_kept h h' \<and>
     (\<forall>a. (\<forall>n. step_reg n \<longrightarrow> 4 \<le> unat (a - register_address n h)) \<longrightarrow>
        mn_mem (l_target h') a = mn_mem (l_target h) a)"

lemma kept_address: "session_kept h h' \<Longrightarrow> register_address n h' = register_address n h"
  by (simp add: session_kept_def link_rest_def register_address_def)

lemma goes_on_trans: "goes_on h h' \<Longrightarrow> goes_on h' h'' \<Longrightarrow> goes_on h h''"
  using session_trans [of h h' h''] kept_address [of h h'] unfolding goes_on_def by simp

lemma attached_goes_on: "attached h \<Longrightarrow> goes_on h h' \<Longrightarrow> attached h'"
  unfolding attached_def goes_on_def
  using session_mapped [of h h'] kept_address [of h h']
  by (simp add: session_kept_def link_rest_def)

lemma regmap_prog: "prog_reg n \<Longrightarrow> n \<noteq> H_MEMBRK_REGNUM \<and> 0 \<le> regmap n \<and> regmap n < 64"
  by (auto simp: prog_reg_def regmap_def)

lemma regmap_inj: "prog_reg n \<Longrightarrow> prog_reg m \<Longrightarrow> regmap n = regmap m \<Longrightarrow> n = m"
  by (auto simp: prog_reg_def regmap_def split: if_splits)

lemma address_offset:
  assumes "prog_reg n"
  shows "register_address n h = area_base h + of_nat (4 * nat (regmap n))"
proof -
  have "word_of_int (regmap n) = (of_nat (nat (regmap n)) :: u32)"
    using regmap_prog [OF assms] by (metis int_nat_eq of_int_of_nat_eq)
  then show ?thesis using regmap_prog [OF assms] by (simp add: register_address_def area_base_def)
qed

lemma address_inj:
  assumes "prog_reg n" and "prog_reg m" and "register_address n h = register_address m (h :: mon link)"
  shows "n = m"
proof -
  have "(of_nat (4 * nat (regmap n)) :: u32) = of_nat (4 * nat (regmap m))"
    using assms(3) unfolding address_offset [OF assms(1)] address_offset [OF assms(2)] by (rule add_left_imp_eq)
  moreover have "unat (of_nat (4 * nat (regmap k)) :: u32) = 4 * nat (regmap k)" if "prog_reg k" for k
  proof -
    have "nat (regmap k) < 64" using regmap_prog [OF that] by (auto simp: nat_less_iff)
    then show ?thesis by (simp only: unat_of_nat) simp
  qed
  ultimately have "4 * nat (regmap n) = 4 * nat (regmap m)" using assms(1,2) by metis
  then have "regmap n = regmap m" using regmap_prog [OF assms(1)] regmap_prog [OF assms(2)] by auto
  then show ?thesis by (rule regmap_inj [OF assms(1,2)])
qed

section \<open>Reading and writing them\<close>

lemma word_value: "value_of (mem_bytes (put_mem b (data_bytes 4 w) f) b 4) = w"
proof -
  have "take_bit 32 w = w" by (rule bit_word_eqI) (simp add: bit_simps)
  then show ?thesis using mem_bytes_put [of "data_bytes 4 w" b f] value_of_data [of 4 w] by simp
qed

lemma attached_aligned: "attached h \<Longrightarrow> aligned_access (register_address n h) 4"
  by (rule register_aligned) (simp add: attached_def)

lemma attached_read:
  assumes "attached h" and "prog_reg n"
  shows "\<exists>h'. remote_read_register (monitor rom) n h = Inr (reg_value h n, h') \<and> session_kept h h' \<and>
    mn_mem (l_target h') = mn_mem (l_target h)"
  using read_remote_supervisor [OF _ _ attached_aligned [OF assms(1)]] assms
  unfolding attached_def remote_read_register_def reg_value_def by metis

lemma read_reg_ok:
  assumes "attached (s_link s)" and "prog_reg n"
  shows "\<exists>h'. read_reg (monitor rom) n s = Inr (reg_value (s_link s) n, s\<lparr>s_link := h'\<rparr>) \<and>
    goes_on (s_link s) h' \<and> regs_of h' = regs_of (s_link s) \<and> mn_mem (l_target h') = mn_mem (l_target (s_link s))"
proof -
  obtain h' where h': "remote_read_register (monitor rom) n (s_link s) = Inr (reg_value (s_link s) n, h')"
    "session_kept (s_link s) h'" "mn_mem (l_target h') = mn_mem (l_target (s_link s))"
    using attached_read [OF assms] by blast
  have "regs_of h' = regs_of (s_link s)"
    unfolding regs_of_def reg_value_def kept_address [OF h'(2)] h'(3) ..
  then show ?thesis using h' by (auto simp: read_reg_def on_link_def goes_on_def)
qed

lemma step_reg_prog: "step_reg n \<Longrightarrow> prog_reg n"
  by (auto simp: step_reg_def prog_reg_def)

lemma write_reg_ok:
  assumes "attached (s_link s)" and "step_reg n"
  shows "\<exists>h'. write_reg (monitor rom) n w s = Inr (s\<lparr>s_link := h'\<rparr>) \<and>
    goes_on (s_link s) h' \<and> regs_of h' = (regs_of (s_link s))(n \<mapsto> w)"
proof -
  let ?h = "s_link s" and ?a = "\<lambda>n. register_address n (s_link s)"
  note prog = step_reg_prog [OF assms(2)]
  have m: "mapped_range (l_target ?h) (?a n) 4"
    using mapped_line [OF _ aligned_fits [OF attached_aligned [OF assms(1)]]] assms(1) prog unfolding attached_def by blast
  obtain h' where h': "write_remote (monitor rom) (?a n) w 4 US_SUPERVISOR ?h = Inr h'" "session_kept ?h h'"
    "mn_mem (l_target h') = put_mem (?a n) (data_bytes 4 w) (mn_mem (l_target ?h))"
    using write_remote_supervisor [OF _ _ attached_aligned [OF assms(1)] _ m] assms(1) unfolding attached_def by metis
  have "reg_value h' k = (if k = n then w else reg_value ?h k)" if "prog_reg k" for k
  proof (cases "k = n")
    case True
    then show ?thesis using word_value by (simp add: reg_value_def kept_address [OF h'(2)] h'(3))
  next
    case False
    then have "?a n \<noteq> ?a k" using address_inj [OF that prog] by metis
    then show ?thesis
      using other_word [OF attached_aligned [OF assms(1)] attached_aligned [OF assms(1)]] False
      by (simp add: reg_value_def kept_address [OF h'(2)] h'(3))
  qed
  then have "regs_of h' = (regs_of ?h)(n \<mapsto> w)" using prog by (auto simp: regs_of_def fun_eq_iff)
  moreover have "mn_mem (l_target h') a = mn_mem (l_target ?h) a" if "\<forall>n. step_reg n \<longrightarrow> 4 \<le> unat (a - ?a n)" for a
  proof -
    have "4 \<le> unat (a - ?a n)" using that assms(2) by blast
    then show ?thesis by (simp add: h'(3) put_mem_at)
  qed
  ultimately show ?thesis
    using h' by (auto simp: write_reg_def step_link_def remote_write_register_def goes_on_def)
qed

text \<open>
  A part of a step that remembers the transfer \<open>d\<close>, if it is one, and changes the registers with \<open>f\<close>.
\<close>

definition set_pending :: "u32 option \<Rightarrow> 't stepper \<Rightarrow> 't stepper" where
  "set_pending d s = (case d of None \<Rightarrow> s | Some a \<Rightarrow> set_delayed a s)"

definition does :: "mon sstep \<Rightarrow> mon stepper \<Rightarrow> u32 option \<Rightarrow> ((nat \<Rightarrow> u32 option) \<Rightarrow> nat \<Rightarrow> u32 option) \<Rightarrow> bool" where
  "does r s d f \<longleftrightarrow> (\<exists>h'. r = Inr (set_pending d (s\<lparr>s_link := h'\<rparr>)) \<and> goes_on (s_link s) h' \<and>
     regs_of h' = f (regs_of (s_link s)))"

lemma does_bind:
  assumes "attached (s_link s)" and "does r s None f"
    and "\<And>h'. attached h' \<Longrightarrow> regs_of h' = f (regs_of (s_link s)) \<Longrightarrow> does (k (s\<lparr>s_link := h'\<rparr>)) (s\<lparr>s_link := h'\<rparr>) d g"
    and "\<And>x. g (f x) = fg x"
  shows "does (mbind r k) s d fg"
proof -
  obtain h1 where 1: "r = Inr (s\<lparr>s_link := h1\<rparr>)" "goes_on (s_link s) h1" "regs_of h1 = f (regs_of (s_link s))"
    using assms(2) by (auto simp: does_def set_pending_def)
  obtain h2 where 2: "k (s\<lparr>s_link := h1\<rparr>) = Inr (set_pending d (s\<lparr>s_link := h2\<rparr>))" "goes_on h1 h2" "regs_of h2 = g (regs_of h1)"
    using assms(3) [OF attached_goes_on [OF assms(1) 1(2)] 1(3)] by (auto simp: does_def)
  show ?thesis unfolding does_def
    by (intro exI [of _ h2]) (use 1 2 assms(4) goes_on_trans [OF 1(2) 2(2)] in simp)
qed

lemma does_read:
  assumes "attached (s_link s)" and "prog_reg n"
    and "\<And>h'. attached h' \<Longrightarrow> regs_of h' = regs_of (s_link s) \<Longrightarrow>
      does (k (the (regs_of (s_link s) n), s\<lparr>s_link := h'\<rparr>)) (s\<lparr>s_link := h'\<rparr>) d g"
  shows "does (mbind (read_reg (monitor rom) n s) k) s d g"
proof -
  obtain h1 where 1: "read_reg (monitor rom) n s = Inr (reg_value (s_link s) n, s\<lparr>s_link := h1\<rparr>)"
    "goes_on (s_link s) h1" "regs_of h1 = regs_of (s_link s)"
    using read_reg_ok [OF assms(1,2)] by blast
  obtain h2 where 2: "k (the (regs_of (s_link s) n), s\<lparr>s_link := h1\<rparr>) = Inr (set_pending d (s\<lparr>s_link := h2\<rparr>))"
    "goes_on h1 h2" "regs_of h2 = g (regs_of h1)"
    using assms(3) [OF attached_goes_on [OF assms(1) 1(2)] 1(3)] by (auto simp: does_def)
  show ?thesis unfolding does_def
    by (intro exI [of _ h2]) (use 1 2 assms(2) goes_on_trans [OF 1(2) 2(2)] in \<open>simp add: regs_of_def\<close>)
qed

lemma does_write: "attached (s_link s) \<Longrightarrow> step_reg n \<Longrightarrow> does (write_reg (monitor rom) n w s) s None (\<lambda>f. f(n \<mapsto> w))"
  using write_reg_ok [of s n rom w] by (auto simp: does_def set_pending_def)

lemma does_delayed: "does r (set_delayed d s) None f \<Longrightarrow> does r s (Some d) f"
proof -
  assume "does r (set_delayed d s) None f"
  then obtain h' where "r = Inr (set_delayed d s\<lparr>s_link := h'\<rparr>)" "goes_on (s_link s) h'" "regs_of h' = f (regs_of (s_link s))"
    by (auto simp: does_def set_pending_def set_delayed_def)
  then show ?thesis unfolding does_def
    by (intro exI [of _ h']) (cases s, simp add: set_pending_def set_delayed_def)
qed

lemma delayed_link [simp]: "s_link (set_delayed d s) = s_link s"
  by (simp add: set_delayed_def)

lemma shadow_regs [simp]: "prog_reg 1" "prog_reg 34" "prog_reg 37" "prog_reg 38" "prog_reg 39" "n < 32 \<Longrightarrow> prog_reg n"
  by (simp_all add: prog_reg_def)

lemma step_regs [simp]: "step_reg 1" "step_reg (Suc 0)" "step_reg 37" "step_reg 38" "step_reg 39"
  by (simp_all add: step_reg_def)

lemma does_two:
  "attached (s_link s) \<Longrightarrow>
     does (shadow_two (monitor rom) x y s) s None (\<lambda>f. f(37 \<mapsto> x OR 2, 38 \<mapsto> y OR 2))"
  unfolding shadow_two_def
  by (rule does_bind [OF _ does_write], assumption+, (simp; fail)?, rule does_write, simp_all)

lemma does_three:
  "attached (s_link s) \<Longrightarrow>
     does (shadow_three (monitor rom) x y z s) s None (\<lambda>f. f(37 \<mapsto> x OR 2, 38 \<mapsto> y OR 2, 39 \<mapsto> z OR 2))"
  unfolding shadow_three_def
  by (rule does_bind [OF _ does_two], assumption+, (simp; fail)?, rule does_write, simp_all)

section \<open>One step\<close>

text \<open>The registers after a step over an instruction with an effect.\<close>

fun next_ip :: "u32 \<Rightarrow> u32 option \<times> bool \<times> bool \<Rightarrow> u32" where
  "next_ip ip (Some t, False, l) = t"
| "next_ip ip (_, _, l) = ip + 4"

fun fetch_ip :: "u32 \<Rightarrow> u32 option \<times> bool \<times> bool \<Rightarrow> u32" where
  "fetch_ip ip (Some t, d, l) = (if d then t else t + 4)"
| "fetch_ip ip (None, d, l) = ip + 8"

fun link_regs :: "u32 \<Rightarrow> u32 option \<times> bool \<times> bool \<Rightarrow> (nat \<Rightarrow> u32 option) \<Rightarrow> nat \<Rightarrow> u32 option" where
  "link_regs ip (t, d, l) f = (if l then f(1 \<mapsto> (if d then ip + 8 else ip + 4)) else f)"

definition stepped_regs :: "u32 \<Rightarrow> u32 option \<times> bool \<times> bool \<Rightarrow> (nat \<Rightarrow> u32 option) \<Rightarrow> nat \<Rightarrow> u32 option" where
  "stepped_regs ip e f =
     (link_regs ip e f)(37 \<mapsto> ip OR 2, 38 \<mapsto> next_ip ip e OR 2, 39 \<mapsto> fetch_ip ip e OR 2)"

text \<open>The transfer that is still to happen.\<close>

fun pending :: "u32 option \<times> bool \<times> bool \<Rightarrow> u32 option" where
  "pending (Some t, True, l) = Some t"
| "pending _ = None"

lemma does_eq: "does r s d f \<Longrightarrow> (\<And>x. f x = g x) \<Longrightarrow> does r s d g"
  by (simp add: does_def)

text \<open>The last step of a delayed branch that depends on a register.\<close>

lemma does_branch_n:
  assumes "attached (s_link s)" and "n < 32"
  shows "does (mbind (shadow_two (monitor rom) ip (ip + 4) s) (\<lambda>s. mbind (read_reg (monitor rom) n s) (\<lambda>(r, s).
      if P r then write_reg (monitor rom) 39 (d OR 2) (set_delayed d s)
      else write_reg (monitor rom) 39 ((ip + 4 + 4) OR 2) s)))
    s (if P (the (regs_of (s_link s) n)) then Some d else None)
    (\<lambda>f. f(37 \<mapsto> ip OR 2, 38 \<mapsto> (ip + 4) OR 2, 39 \<mapsto> (if P (the (regs_of (s_link s) n)) then d else ip + 8) OR 2))"
proof (rule does_bind [OF assms(1) does_two [OF assms(1)]])
  fix h1
  let ?s = "s\<lparr>s_link := h1\<rparr>" and ?r = "the (regs_of (s_link s) n)"
  assume 1: "attached h1" "regs_of h1 = (regs_of (s_link s))(37 \<mapsto> ip OR 2, 38 \<mapsto> (ip + 4) OR 2)"
  have r: "the (regs_of h1 n) = ?r" using assms(2) by (simp add: 1(2))
  have "does (if P ?r then write_reg (monitor rom) 39 (d OR 2) (set_delayed d s')
        else write_reg (monitor rom) 39 ((ip + 4 + 4) OR 2) s') s' (if P ?r then Some d else None)
      (\<lambda>f. f(39 \<mapsto> (if P ?r then d else ip + 8) OR 2))" if "attached (s_link s')" for s' :: "mon stepper"
    using that by (auto intro!: does_delayed does_write does_eq [OF does_write] simp: add.assoc)
  then show "does (mbind (read_reg (monitor rom) n ?s) (\<lambda>(r, s).
      if P r then write_reg (monitor rom) 39 (d OR 2) (set_delayed d s)
      else write_reg (monitor rom) 39 ((ip + 4 + 4) OR 2) s)) ?s (if P ?r then Some d else None)
    (\<lambda>f. f(39 \<mapsto> (if P ?r then d else ip + 8) OR 2))"
    using 1(1) assms(2) by (intro does_read) (simp_all add: r)
qed simp

lemma S1_S2_less [simp]: "S1 i < 32" "S2 i < 32"
proof -
  have "unat (w AND 0x1f) < 32" for w :: u32
  proof -
    have "w AND 0x1f = take_bit 5 w" by (simp add: take_bit_eq_mask mask_eq_exp_minus_1)
    then show ?thesis by (simp add: unsigned_take_bit_eq take_bit_nat_def)
  qed
  then show "S1 i < 32" "S2 i < 32" by (simp_all add: S1_def S2_def)
qed

text \<open>The shapes of the steps.\<close>

lemma plain_step:
  "attached (s_link s) \<Longrightarrow>
     does (shadow_three (monitor rom) ip t (t + 4) s) s None (stepped_regs ip (Some t, False, False))"
  by (rule does_eq [OF does_three]) (simp_all add: stepped_regs_def)

lemma no_step:
  "attached (s_link s) \<Longrightarrow>
     does (shadow_three (monitor rom) ip (ip + 4) (ip + 4 + 4) s) s None (stepped_regs ip (None, False, False))"
  by (rule does_eq [OF does_three]) (simp_all add: stepped_regs_def add.assoc)

lemma delayed_step:
  "attached (s_link s) \<Longrightarrow>
     does (shadow_three (monitor rom) ip (ip + 4) t (set_delayed t s)) s (Some t) (stepped_regs ip (Some t, True, False))"
  by (rule does_delayed, rule does_eq [OF does_three]) (simp_all add: stepped_regs_def)

lemma delayed_two_step:
  assumes "attached (s_link s)"
  shows "does (mbind (shadow_two (monitor rom) ip (ip + 4) s) (\<lambda>s. write_reg (monitor rom) 39 (t OR 2) (set_delayed t s)))
    s (Some t) (stepped_regs ip (Some t, True, False))"
  by (rule does_bind [OF assms does_two [OF assms], where g = "\<lambda>f. f(39 \<mapsto> t OR 2)"])
    (auto intro!: does_delayed does_write simp: stepped_regs_def)

lemma link_step:
  assumes "attached (s_link s)"
  shows "does (mbind (write_reg (monitor rom) 1 (ip + 4) s) (\<lambda>s. shadow_three (monitor rom) ip t (t + 4) s))
    s None (stepped_regs ip (Some t, False, True))"
  by (rule does_bind [OF assms does_write [OF assms]], simp, rule does_three, simp) (simp add: stepped_regs_def)

lemma link_delayed_step:
  assumes "attached (s_link s)"
  shows "does (mbind (write_reg (monitor rom) 1 (ip + 8) (set_delayed t s)) (\<lambda>s. shadow_three (monitor rom) ip (ip + 4) t s))
    s (Some t) (stepped_regs ip (Some t, True, True))"
proof (rule does_delayed)
  have s: "attached (s_link (set_delayed t s))" using assms by simp
  show "does (mbind (write_reg (monitor rom) 1 (ip + 8) (set_delayed t s)) (\<lambda>s. shadow_three (monitor rom) ip (ip + 4) t s))
      (set_delayed t s) None (stepped_regs ip (Some t, True, True))"
    by (rule does_bind [OF s does_write [OF s]], simp, rule does_three, simp) (simp add: stepped_regs_def)
qed

lemma jsr_n_step:
  assumes "attached (s_link s)" and "n < 32" and "n \<noteq> 1"
  shows "does (mbind (write_reg (monitor rom) 1 (ip + 8) s) (\<lambda>s. mbind (read_reg (monitor rom) n s) (\<lambda>(t, s).
      shadow_three (monitor rom) ip (ip + 4) t (set_delayed t s))))
    s (Some (the (regs_of (s_link s) n))) (stepped_regs ip (Some (the (regs_of (s_link s) n)), True, True))"
proof (rule does_bind [OF assms(1) does_write [OF assms(1)]])
  fix h1
  let ?s = "s\<lparr>s_link := h1\<rparr>" and ?t = "the (regs_of (s_link s) n)"
  assume "attached h1" "regs_of h1 = (regs_of (s_link s))(1 \<mapsto> ip + 8)"
  then show "does (mbind (read_reg (monitor rom) n ?s) (\<lambda>(t, s). shadow_three (monitor rom) ip (ip + 4) t (set_delayed t s)))
      ?s (Some ?t) (stepped_regs ip (Some ?t, True, False))"
    using assms(2,3) by (intro does_read) (simp_all add: delayed_step)
qed (simp_all add: stepped_regs_def)

lemma branch_step:
  assumes "attached (s_link s)" and "n < 32"
  shows "does (mbind (read_reg (monitor rom) n s) (\<lambda>(r, s).
      let new_ip = (if P r then t else ip + 4) in shadow_three (monitor rom) ip new_ip (new_ip + 4) s))
    s (pending (if P (the (regs_of (s_link s) n)) then Some t else None, False, False))
    (stepped_regs ip (if P (the (regs_of (s_link s) n)) then Some t else None, False, False))"
proof -
  have eight: "ip + 4 + 4 = 8 + ip" by simp
  show ?thesis
    using assms by (intro does_read) (simp_all add: Let_def plain_step no_step [where ip = ip, unfolded eight])
qed

lemma branch_n_step:
  assumes "attached (s_link s)" and "n < 32"
  shows "does (mbind (shadow_two (monitor rom) ip (ip + 4) s) (\<lambda>s. mbind (read_reg (monitor rom) n s) (\<lambda>(r, s).
      if P r then let d = t in write_reg (monitor rom) 39 (d OR 2) (set_delayed d s)
      else write_reg (monitor rom) 39 ((ip + 4 + 4) OR 2) s)))
    s (pending (if P (the (regs_of (s_link s) n)) then Some t else None, True, False))
    (stepped_regs ip (if P (the (regs_of (s_link s) n)) then Some t else None, True, False))"
proof -
  let ?r = "the (regs_of (s_link s) n)"
  have p: "pending (if P ?r then Some t else None, True, False) = (if P ?r then Some t else None)" by simp
  show ?thesis unfolding Let_def p
    by (rule does_eq [OF does_branch_n [OF assms]]) (simp add: stepped_regs_def)
qed

lemmas step_shapes = plain_step no_step delayed_step delayed_two_step link_step link_delayed_step

lemma ss_control_does:
  assumes "attached (s_link s)" and "q \<in> set in_tab" and "ii_hit i q"
    and "control_effect (ii_norm_e_addr q) i ip (\<lambda>n. the (regs_of (s_link s) n)) = Some e"
    and "\<not> (ii_norm_e_addr q = H_jump J_jsr_n \<and> S2 i = 1)"
  shows "does (ss_control (monitor rom) (class_of (ii_norm_e_addr q)) i ip s) s (pending e) (stepped_regs ip e)"
proof (cases "ii_norm_e_addr q")
  case (H_br op)
  then show ?thesis using assms(1,4)
    by (cases op) (auto simp: class_of_def ss_control_def Let_def simp del: One_nat_def intro!: step_shapes)
next
  case (H_jump op)
  then show ?thesis using assms(1,4,5) jsr_n_step [OF assms(1), of "S2 i"]
    by (cases op) (auto simp: class_of_def ss_control_def Let_def simp del: One_nat_def intro!: step_shapes does_read)
next
  case (H_bb op n)
  have e: "e = (if bb_taken i (the (regs_of (s_link s) (S1 i))) then Some (REL16 i + ip) else None, op \<in> {R_bb0_n, R_bb1_n}, False)"
    using assms(4) by (simp add: H_bb bb_decision [OF assms(2,3) H_bb])
  show ?thesis unfolding e
    by (cases "op \<in> {R_bb0_n, R_bb1_n}")
      (simp_all only: H_bb class_of_def ss_control_def handler.case iclass.case if_True if_False simp_thms
        branch_n_step [OF assms(1) S1_S2_less(1)] branch_step [OF assms(1) S1_S2_less(1)])
next
  case (H_bcnd c n)
  have e: "e = (if bcnd_taken i (the (regs_of (s_link s) (S1 i))) then Some (REL16 i + ip) else None, n, False)"
    using assms(4) by (simp add: H_bcnd bcnd_decision [OF assms(2,3) H_bcnd])
  show ?thesis unfolding e
    by (cases n)
      (simp_all only: H_bcnd class_of_def ss_control_def handler.case iclass.case if_True if_False simp_thms
        branch_n_step [OF assms(1) S1_S2_less(1)] branch_step [OF assms(1) S1_S2_less(1)])
qed (use assms in simp_all)

section \<open>The whole step\<close>

lemma read_current:
  assumes "attached (s_link s)" and "the (regs_of (s_link s) 34) AND 0x80000000 \<noteq> 0"
    and "aligned_access a 4" and "mapped_lines (l_target (s_link s)) a n"
  shows "\<exists>h'. on_link (dread_remote (monitor rom) a n US_CURMODE) s =
      Inr ((mem_bytes (mn_mem (l_target (s_link s))) a n, False), s\<lparr>s_link := h'\<rparr>) \<and>
    goes_on (s_link s) h' \<and> regs_of h' = regs_of (s_link s) \<and> mn_mem (l_target h') = mn_mem (l_target (s_link s))"
proof -
  let ?h = "s_link s"
  obtain h1 where 1: "remote_read_register (monitor rom) 34 ?h = Inr (reg_value ?h 34, h1)" "session_kept ?h h1"
    "mn_mem (l_target h1) = mn_mem (l_target ?h)"
    using attached_read [OF assms(1) shadow_regs(2)] by blast
  have "bit (reg_value ?h 34) 31"
    using assms(2) and_exp_eq_0_iff_not_bit [of "reg_value ?h 34" 31] by (simp add: regs_of_def)
  then have "drop_bit 31 (reg_value ?h 34) AND 1 \<noteq> 0" by (simp add: bit_alone)
  then have mode: "resolve_usmode (monitor rom) US_CURMODE ?h = Inr (US_SUPERVISOR, h1)"
    using 1(1) by (simp add: resolve_usmode_def)
  have "resolve_usmode (monitor rom) US_SUPERVISOR h1 = Inr (US_SUPERVISOR, h1)" by (simp add: resolve_usmode_def)
  then have d: "dread_remote (monitor rom) a n US_CURMODE ?h = dread_remote (monitor rom) a n US_SUPERVISOR h1"
    unfolding dread_remote_def mode by simp
  have c1: "connected h1" "coherent h1" using 1(2) by (simp_all add: session_kept_def)
  have "mapped_lines (l_target h1) a n" using assms(4) session_lines [OF 1(2)] by simp
  then obtain h2 where 2: "dread_remote (monitor rom) a n US_SUPERVISOR h1 = Inr ((mem_bytes (mn_mem (l_target h1)) a n, False), h2)"
    "session_kept h1 h2" "mn_mem (l_target h2) = mn_mem (l_target h1)"
    using dread_remote_reads [OF c1 assms(3)] by blast
  have k: "session_kept ?h h2" using session_trans [OF 1(2) 2(2)] .
  have "regs_of h2 = regs_of ?h" unfolding regs_of_def reg_value_def kept_address [OF k] 2(3) 1(3) ..
  then show ?thesis using 2 1(3) k d by (auto simp: on_link_def goes_on_def)
qed

text \<open>The instruction that is next, and its class.\<close>

lemma ss_fetch:
  assumes "attached (s_link s)" and "the (regs_of (s_link s) 34) AND 0x80000000 \<noteq> 0"
    and "ip_of (the (regs_of (s_link s) 38)) = ip" and "aligned_access ip 4" and "mapped_lines (l_target (s_link s)) ip 4"
  shows "\<exists>h2. attached h2 \<and> goes_on (s_link s) h2 \<and> regs_of h2 = regs_of (s_link s) \<and>
    mn_mem (l_target h2) = mn_mem (l_target (s_link s)) \<and>
    (\<forall>k. mbind (read_reg (monitor rom) 38 s) (\<lambda>(snip, s).
       mbind (on_link (dread_remote (monitor rom) (ip_of snip) 4 US_CURMODE) s) (k snip)) =
     k (the (regs_of (s_link s) 38)) ((mem_bytes (mn_mem (l_target (s_link s))) ip 4, False), s\<lparr>s_link := h2\<rparr>))"
proof -
  let ?h = "s_link s"
  obtain h1 where 1: "read_reg (monitor rom) 38 s = Inr (the (regs_of ?h 38), s\<lparr>s_link := h1\<rparr>)" "goes_on ?h h1"
    "regs_of h1 = regs_of ?h" "mn_mem (l_target h1) = mn_mem (l_target ?h)"
    using read_reg_ok [OF assms(1) shadow_regs(4), of rom] by (auto simp: regs_of_def)
  have a1: "attached h1" by (rule attached_goes_on [OF assms(1) 1(2)])
  have "mapped_lines (l_target h1) ip 4"
    using session_lines [of ?h h1] 1(2) assms(5) by (simp add: goes_on_def)
  then obtain h2 where 2: "on_link (dread_remote (monitor rom) ip 4 US_CURMODE) (s\<lparr>s_link := h1\<rparr>) =
      Inr ((mem_bytes (mn_mem (l_target ?h)) ip 4, False), s\<lparr>s_link := h2\<rparr>)"
    "goes_on h1 h2" "regs_of h2 = regs_of ?h" "mn_mem (l_target h2) = mn_mem (l_target ?h)"
    using read_current [of "s\<lparr>s_link := h1\<rparr>" ip 4 rom] a1 assms(2,4) 1(3,4) by auto
  have "goes_on ?h h2" by (rule goes_on_trans [OF 1(2) 2(2)])
  then show ?thesis
    using attached_goes_on [OF assms(1)] 1(1) 2(1,3,4) assms(3) by (intro exI [of _ h2]) simp
qed

lemma ss_classify:
  assumes "decode_spec i = Some q" and "control_effect (ii_norm_e_addr q) i ip g = Some e"
  shows "q \<in> set in_tab" and "ii_hit i q" and "classify_instruction target i s = Inr (class_of (ii_norm_e_addr q), s)"
    and "class_of (ii_norm_e_addr q) \<notin> {I_NON_CONTROL, I_TRAP_NOT_TAKEN, I_TRAP}"
proof -
  have e: "control_effect (ii_norm_e_addr q) i ip g \<noteq> None" using assms(2) by simp
  obtain p where p: "q \<in> set in_tab" "ii_hit i q" "remote_instruction_lookup i = Some p" "di_format p = ii_format q"
    using control_lookup [OF assms(1) e] by blast
  then show "q \<in> set in_tab" "ii_hit i q" by simp_all
  show "classify_instruction target i s = Inr (class_of (ii_norm_e_addr q), s)"
    by (rule classify_control [OF p e])
  show "class_of (ii_norm_e_addr q) \<notin> {I_NON_CONTROL, I_TRAP_NOT_TAKEN, I_TRAP}"
    using e effect_class [of "ii_norm_e_addr q" i ip g]
    by (auto simp: class_of_def split: handler.splits brop.splits jmpop.splits if_splits)
qed

text \<open>
  Property C3.  The debugger steps over a control instruction of a program in supervisor mode on a
  big-endian target, with no delayed branch and no interrupt by the user pending.  The instruction pointer
  is \<open>ip\<close>, and \<open>q\<close> is the row of the simulator's table for the word at \<open>ip\<close>, with the effect \<open>e\<close>: then \<open>ss_remote\<close>
  succeeds and leaves in the register area of the monitor, in the target's memory, the pointers of the
  pipeline as the instruction does (the branch decided as in the simulator, the instruction in the delay
  slot next if there is one) and the return address in \<open>r1\<close>; by \<open>goes_on\<close> every byte of the target's memory other
  than these four words, and so every other register of the area (control, data unit and floating
  point registers too), is as it was; a delayed transfer is remembered.  Excluded is \<open>jsr.n\<close>
  through \<open>r1\<close>, where the code does not follow the instruction (\<open>remrun.c\<close>, line 510).
\<close>

theorem single_step_control:
  assumes "attached (s_link s)" and "l_selected_processor (s_link s) < MAX_PROCESSORS"
    and "s_cpu_enabled s (l_selected_processor (s_link s))" and "\<not> s_nmiing s" and "\<not> s_delayed_p s"
    and "the (regs_of (s_link s) 34) AND 0x80000000 \<noteq> 0" and "ip_of (the (regs_of (s_link s) 38)) = ip"
    and "aligned_access ip 4" and "mapped_lines (l_target (s_link s)) ip 4"
    and "value_of (mem_bytes (mn_mem (l_target (s_link s))) ip 4) = i" and "decode_spec i = Some q"
    and "control_effect (ii_norm_e_addr q) i ip (\<lambda>n. the (regs_of (s_link s) n)) = Some e"
    and "\<not> (ii_norm_e_addr q = H_jump J_jsr_n \<and> S2 i = 1)"
  shows "\<exists>h'. ss_remote (monitor rom) n s =
      Inr ((set_pending (pending e) (s\<lparr>s_link := h'\<rparr>))\<lparr>s_stop_cause := s_stop_cause s OR SIGTRAP_BIT\<rparr>) \<and>
    goes_on (s_link s) h' \<and> regs_of h' = stepped_regs ip e (regs_of (s_link s))"
proof -
  let ?h = "s_link s" and ?c = "class_of (ii_norm_e_addr q)"
  note cl = ss_classify [OF assms(11,12)]
  obtain h2 where 2: "attached h2" "goes_on ?h h2" "regs_of h2 = regs_of ?h" "mn_mem (l_target h2) = mn_mem (l_target ?h)"
    "\<And>k. mbind (read_reg (monitor rom) 38 s) (\<lambda>(snip, s).
       mbind (on_link (dread_remote (monitor rom) (ip_of snip) 4 US_CURMODE) s) (k snip)) =
     (k (the (regs_of ?h 38)) ((mem_bytes (mn_mem (l_target ?h)) ip 4, False), s\<lparr>s_link := h2\<rparr>) :: mon sstep)"
    using ss_fetch [OF assms(1,6-9), of rom] by blast
  have word: "host_word (l_big_endian h2) (mem_bytes (mn_mem (l_target ?h)) ip 4) = i"
    using 2(1) assms(10) by (simp add: host_word_def attached_def)
  have "does (ss_control (monitor rom) ?c i ip (s\<lparr>s_link := h2\<rparr>)) (s\<lparr>s_link := h2\<rparr>) (pending e) (stepped_regs ip e)"
    by (rule ss_control_does [OF _ cl(1,2) _ assms(13)]) (use 2(1,3) assms(12) in simp_all)
  then obtain h3 where 3: "ss_control (monitor rom) ?c i ip (s\<lparr>s_link := h2\<rparr>) = Inr (set_pending (pending e) (s\<lparr>s_link := h3\<rparr>))"
    "goes_on h2 h3" "regs_of h3 = stepped_regs ip e (regs_of ?h)"
    using 2(3) by (auto simp: does_def)
  have "ss_instr (monitor rom) n ?c i ip (s\<lparr>s_link := h2\<rparr>) = Inr (set_pending (pending e) (s\<lparr>s_link := h3\<rparr>))"
    using assms(5) 3(1) cl(4) by (simp add: ss_instr_def)
  moreover have "s_nmiing (set_pending d s') = s_nmiing s'" "s_stop_cause (set_pending d s') = s_stop_cause s'"
    for d and s' :: "mon stepper" by (simp_all add: set_pending_def set_delayed_def split: option.split)
  ultimately have "ss_remote (monitor rom) n s =
      Inr ((set_pending (pending e) (s\<lparr>s_link := h3\<rparr>))\<lparr>s_stop_cause := s_stop_cause s OR SIGTRAP_BIT\<rparr>)"
    using assms(2-4,7) word unfolding ss_remote_def Let_def ip_of_def [symmetric] 2(5) by (simp add: cl(3))
  then show ?thesis using 3(3) goes_on_trans [OF 2(2) 3(2)] by blast
qed

section \<open>An example\<close>

text \<open>The program is stopped at \<open>0x2000\<close>, at the instruction \<open>bsr .+16\<close>.\<close>

definition demo_stepper :: "u32 \<Rightarrow> mon stepper" where
  "demo_stepper i =
     \<lparr>s_link = demo_link\<lparr>l_target := demo_mon\<lparr>mn_mem :=
        put_mem 0x2000 (word_bytes i) (put_mem 0x1098 [0, 0, 0x20, 2] (put_mem 0x108c [0x80, 0, 0, 0] (\<lambda>_. 0)))\<rparr>\<rparr>,
      s_delayed_p = False, s_delayed_ip = 0, s_cpu_enabled = (\<lambda>_. True), s_target_running = False, s_trap_addr = 0,
      s_nmiing = False, s_stop_cause = 0, s_remote_debugging = True, s_downloaded = True, s_reads = [], s_console = [],
      s_ld_st_addr = 0, s_last_iword = 0\<rparr>"

lemma demo_stepper:
  "attached (s_link (demo_stepper i))" "l_selected_processor (s_link (demo_stepper i)) = 0"
  "s_cpu_enabled (demo_stepper i) = (\<lambda>_. True)" "\<not> s_nmiing (demo_stepper i)" "\<not> s_delayed_p (demo_stepper i)"
  "s_delayed_ip (demo_stepper i) = 0"
  "regs_of (s_link (demo_stepper i)) 34 = Some 0x80000000" "regs_of (s_link (demo_stepper i)) 38 = Some 0x2002"
  "value_of (mem_bytes (mn_mem (l_target (s_link (demo_stepper i)))) 0x2000 4) = i"
  "mapped_lines (l_target (s_link (demo_stepper i))) a n"
proof -
  show "attached (s_link (demo_stepper i))"
    by (simp add: attached_def demo_stepper_def demo connected_def coherent_def link_pending_def demo_link_def
        idle_mon_def mon_pending_def demo_mon_def mapped_range_def aligned_access_def)
  show "regs_of (s_link (demo_stepper i)) 34 = Some 0x80000000" "regs_of (s_link (demo_stepper i)) 38 = Some 0x2002"
    by (simp_all add: regs_of_def reg_value_def register_address_def regmap_def demo_stepper_def demo_link_def
        mem_bytes_small value_of_def word_bytes_def)
  show "value_of (mem_bytes (mn_mem (l_target (s_link (demo_stepper i)))) 0x2000 4) = i"
    using word_value [of "0x2000" i] by (simp add: demo_stepper_def data_bytes_def)
qed (simp_all add: demo_stepper_def demo_link_def mapped_lines_def mapped_range_def demo_mon_def)

lemma bsr_row: "decode_spec 0xc8000004 = Some (II 0xc8000000 0xfc000000 ''bsr'' IPREL (H_br R_bsr) NOFIX)"
  by (rule decode_spec_unique) (simp_all add: in_tab_def in_tab_fp_def ii_hit_def DECODECACHE_INDEX_def)

theorem single_step_control_witness:
  "\<exists>h'. ss_remote (monitor (\<lambda>_ p. (0, p))) 0 (demo_stepper 0xc8000004) =
      Inr ((demo_stepper 0xc8000004)\<lparr>s_link := h', s_stop_cause := SIGTRAP_BIT\<rparr>) \<and>
    regs_of h' 1 = Some 0x2004 \<and> regs_of h' 37 = Some 0x2002 \<and> regs_of h' 38 = Some 0x2012 \<and> regs_of h' 39 = Some 0x2016"
proof -
  let ?s = "demo_stepper 0xc8000004"
  have "\<exists>h'. ss_remote (monitor (\<lambda>_ p. (0, p))) 0 ?s =
      Inr ((set_pending (pending (Some 0x2010, False, True)) (?s\<lparr>s_link := h'\<rparr>))\<lparr>s_stop_cause := s_stop_cause ?s OR SIGTRAP_BIT\<rparr>) \<and>
    goes_on (s_link ?s) h' \<and> regs_of h' = stepped_regs 0x2000 (Some 0x2010, False, True) (regs_of (s_link ?s))"
    by (rule single_step_control [OF demo_stepper(1) _ _ demo_stepper(4,5) _ _ _ demo_stepper(10,9) bsr_row])
      (simp_all add: demo_stepper ip_of_def aligned_access_def REL26_def)
  moreover have "s_stop_cause ?s = 0" by (simp add: demo_stepper_def)
  ultimately show ?thesis by (auto simp: set_pending_def stepped_regs_def)
qed

end
