(* ===== verification/Rem_Faults.thy ===== *)
theory Rem_Faults
  imports Rem_Stepping
begin

text \<open>
  Single steps that need care: the instructions that cannot be stepped, a trap that is not taken, and
  \<open>jsr.n\<close> through the register that receives the return address.
\<close>

section \<open>Traps on a bit\<close>

definition trap_row :: "instr_info \<Rightarrow> bool" where
  "trap_row q \<longleftrightarrow>
     (case ii_norm_e_addr q of
        H_trap op \<Rightarrow> op \<in> {T_tb0, T_tb1} \<longrightarrow> ii_format q = TRAP \<and> ii_opmask q = 0xfc00fe00 \<and>
          (ii_opcode q AND 0x800 \<noteq> 0) = (op = T_tb1) \<and> DECODECACHE_INDEX (ii_opcode q) = 60
      | _ \<Rightarrow> True)"

lemma trap_rows: "list_all trap_row in_tab"
  unfolding in_tab_def list_all_append in_tab_alu_def in_tab_bb_def in_tab_fp_def in_tab_mem_def in_tab_rest_def
  by (simp add: trap_row_def DECODECACHE_INDEX_def)

lemma trap_lookup:
  assumes "decode_spec i = Some q" and "ii_norm_e_addr q = H_trap op" and "op \<in> {T_tb0, T_tb1}"
  shows "\<exists>p. remote_instruction_lookup i = Some p \<and> di_format p = TRAP" and "(i AND 0x800 \<noteq> 0) = (op = T_tb1)"
proof -
  let ?P = "\<lambda>p. DECODECACHE_INDEX (ii_opcode p) = DECODECACHE_INDEX i \<and> ii_hit i p"
  have q: "q \<in> set in_tab" "ii_hit i q" "DECODECACHE_INDEX (ii_opcode q) = DECODECACHE_INDEX i"
    using assms(1) find_SomeD [of ?P "rev in_tab" q] by (auto simp: decode_spec_def)
  have row: "ii_format q = TRAP" "ii_opmask q = 0xfc00fe00" "(ii_opcode q AND 0x800 \<noteq> 0) = (op = T_tb1)"
    "DECODECACHE_INDEX i = 60"
    using trap_rows q(1,3) assms(2,3) by (auto simp: list_all_iff trap_row_def)
  have "i AND 0x800 = ii_opcode q AND 0x800" using hit_part [OF q(2)] row(2) by simp
  with row(3) show "(i AND 0x800 \<noteq> 0) = (op = T_tb1)" by simp
  obtain p where p: "remote_instruction_lookup i = Some p"
    using dbg_unknown [of i] assms(1) row(4) by (cases "remote_instruction_lookup i") auto
  have "di_format p \<noteq> FXCR"
  proof
    assume f: "di_format p = FXCR"
    obtain r where r: "r \<in> set in_tab" "ii_key r = di_key p" "ii_hit i r" "ii_opmask r \<noteq> 0"
      using dbg_row_in_tab [OF p] by blast
    with f have "ii_opcode r = 0x8000c800"
      using fxcr_row_hit by (auto simp: list_all_iff ii_key_def di_key_def)
    then show False using hit_index [OF r(1,3,4)] row(4) by (simp add: DECODECACHE_INDEX_def)
  qed
  with dbg_known [OF p] row(1,4) assms(1) p show "\<exists>p. remote_instruction_lookup i = Some p \<and> di_format p = TRAP"
    by (auto simp: ii_key_def di_key_def)
qed

lemma trap_class:
  assumes "decode_spec i = Some q" and "ii_norm_e_addr q = H_trap op" and "op \<in> {T_tb0, T_tb1}" and "attached (s_link s)"
  shows "\<exists>h'. classify_instruction (monitor rom) i s =
      Inr (if bit (the (regs_of (s_link s) (S1 i))) (B5 i) = (op = T_tb1) then I_TRAP else I_TRAP_NOT_TAKEN, s\<lparr>s_link := h'\<rparr>) \<and>
    goes_on (s_link s) h' \<and> regs_of h' = regs_of (s_link s) \<and> mn_mem (l_target h') = mn_mem (l_target (s_link s))"
proof -
  let ?r = "the (regs_of (s_link s) (S1 i))"
  obtain p where p: "remote_instruction_lookup i = Some p" "di_format p = TRAP"
    using trap_lookup(1) [OF assms(1-3)] by blast
  obtain h' where h': "read_reg (monitor rom) (S1 i) s = Inr (?r, s\<lparr>s_link := h'\<rparr>)" "goes_on (s_link s) h'"
    "regs_of h' = regs_of (s_link s)" "mn_mem (l_target h') = mn_mem (l_target (s_link s))"
    using read_reg_ok [OF assms(4), of "S1 i" rom] by (auto simp: regs_of_def)
  have "(?r AND push_bit (B5 i) 1 \<noteq> 0) = bit ?r (B5 i)"
    using and_exp_eq_0_iff_not_bit [of ?r "B5 i"] by (simp add: push_bit_eq_mult)
  with p h' trap_lookup(2) [OF assms(1-3)] show ?thesis
    by (auto simp: classify_instruction_def)
qed

text \<open>
  Property C24.  Stepping over \<open>tb0\<close> and \<open>tb1\<close> in a program in supervisor mode, on a big-endian target.  If the
  trap would be taken, the debugger refuses and the target's memory, so every register in it, is exactly
  as it was.  If not, execution goes on with the next instruction and no word but the three pointers of the
  pipeline changes (\<open>r1\<close>, which \<open>goes_on\<close> leaves open, keeps its value by the last equation), but the code sets
  the third pointer from \<open>delayed_ip\<close>, the target of some earlier delayed branch, and not from the address of
  the instruction: unless that target happens to be the next instruction, the instruction after the next
  one is fetched from the wrong place.
\<close>

theorem step_over_trap:
  assumes "attached (s_link s)" and "l_selected_processor (s_link s) < MAX_PROCESSORS"
    and "s_cpu_enabled s (l_selected_processor (s_link s))" and "\<not> s_nmiing s"
    and "the (regs_of (s_link s) 34) AND 0x80000000 \<noteq> 0" and "ip_of (the (regs_of (s_link s) 38)) = ip"
    and "aligned_access ip 4" and "mapped_lines (l_target (s_link s)) ip 4"
    and "value_of (mem_bytes (mn_mem (l_target (s_link s))) ip 4) = i" and "decode_spec i = Some q"
    and "ii_norm_e_addr q = H_trap op" and "op \<in> {T_tb0, T_tb1}"
  shows "\<exists>h'. goes_on (s_link s) h' \<and>
    (if bit (the (regs_of (s_link s) (S1 i))) (B5 i) = (op = T_tb1)
     then ss_remote (monitor rom) n s = Inl (Rerr, s\<lparr>s_link := h'\<rparr>) \<and> regs_of h' = regs_of (s_link s) \<and>
       mn_mem (l_target h') = mn_mem (l_target (s_link s))
     else ss_remote (monitor rom) n s = Inr (s\<lparr>s_link := h', s_stop_cause := s_stop_cause s OR SIGTRAP_BIT\<rparr>) \<and>
       regs_of h' = (regs_of (s_link s))(37 \<mapsto> ip OR 2, 38 \<mapsto> (ip + 4) OR 2, 39 \<mapsto> (s_delayed_ip s + 4) OR 2))"
proof -
  let ?h = "s_link s" and ?taken = "bit (the (regs_of (s_link s) (S1 i))) (B5 i) = (op = T_tb1)"
  obtain h2 where 2: "attached h2" "goes_on ?h h2" "regs_of h2 = regs_of ?h" "mn_mem (l_target h2) = mn_mem (l_target ?h)"
    "\<And>k. mbind (read_reg (monitor rom) 38 s) (\<lambda>(snip, s).
       mbind (on_link (dread_remote (monitor rom) (ip_of snip) 4 US_CURMODE) s) (k snip)) =
     (k (the (regs_of ?h 38)) ((mem_bytes (mn_mem (l_target ?h)) ip 4, False), s\<lparr>s_link := h2\<rparr>) :: mon sstep)"
    using ss_fetch [OF assms(1,5-8), of rom] by blast
  have word: "host_word (l_big_endian h2) (mem_bytes (mn_mem (l_target ?h)) ip 4) = i"
    using 2(1) assms(9) by (simp add: host_word_def attached_def)
  obtain h3 where 3: "classify_instruction (monitor rom) i (s\<lparr>s_link := h2\<rparr>) =
      Inr (if ?taken then I_TRAP else I_TRAP_NOT_TAKEN, s\<lparr>s_link := h3\<rparr>)" "goes_on h2 h3" "regs_of h3 = regs_of ?h"
    "mn_mem (l_target h3) = mn_mem (l_target ?h)"
    using trap_class [OF assms(10-12), of "s\<lparr>s_link := h2\<rparr>" rom] 2(1,3,4) by auto
  have g3: "goes_on ?h h3" by (rule goes_on_trans [OF 2(2) 3(2)])
  note step = assms(2-4,6) word 3(1)
  show ?thesis
  proof (cases ?taken)
    case True
    then have "ss_remote (monitor rom) n s = Inl (Rerr, s\<lparr>s_link := h3\<rparr>)"
      using step unfolding ss_remote_def Let_def ip_of_def [symmetric] 2(5) by (simp add: ss_instr_def)
    then show ?thesis using True g3 3(3,4) by auto
  next
    case False
    have a3: "attached (s_link (s\<lparr>s_link := h3\<rparr>))" using attached_goes_on [OF assms(1) g3] by simp
    have "does (mbind (shadow_two (monitor rom) ip (ip + 4) (s\<lparr>s_link := h3\<rparr>)) (\<lambda>s.
        write_reg (monitor rom) 39 ((s_delayed_ip s + 4) OR 2) s)) (s\<lparr>s_link := h3\<rparr>) None
      (\<lambda>f. f(37 \<mapsto> ip OR 2, 38 \<mapsto> (ip + 4) OR 2, 39 \<mapsto> (s_delayed_ip s + 4) OR 2))"
      by (rule does_bind [OF a3 does_two [OF a3], where g = "\<lambda>f. f(39 \<mapsto> (s_delayed_ip s + 4) OR 2)"])
        (auto intro!: does_write)
    then obtain h4 where 4: "mbind (shadow_two (monitor rom) ip (ip + 4) (s\<lparr>s_link := h3\<rparr>)) (\<lambda>s.
        write_reg (monitor rom) 39 ((s_delayed_ip s + 4) OR 2) s) = Inr (s\<lparr>s_link := h4\<rparr>)" "goes_on h3 h4"
      "regs_of h4 = (regs_of ?h)(37 \<mapsto> ip OR 2, 38 \<mapsto> (ip + 4) OR 2, 39 \<mapsto> (s_delayed_ip s + 4) OR 2)"
      using 3(3) by (auto simp: does_def set_pending_def)
    have "ss_remote (monitor rom) n s = Inr (s\<lparr>s_link := h4, s_stop_cause := s_stop_cause s OR SIGTRAP_BIT\<rparr>)"
      using step False 4(1) unfolding ss_remote_def Let_def ip_of_def [symmetric] 2(5) by (simp add: ss_instr_def)
    then show ?thesis using False 4(3) goes_on_trans [OF g3 4(2)] by auto
  qed
qed

lemma tb0_row: "decode_spec 0xf020d1ff = Some (II 0xf000d000 0xfc00fe00 ''tb0'' TRAP (H_trap T_tb0) NOFIX)"
  by (rule decode_spec_unique) (simp_all add: in_tab_def in_tab_rest_def ii_hit_def DECODECACHE_INDEX_def)

theorem step_over_trap_witness:
  "\<exists>h'. ss_remote (monitor (\<lambda>_ p. (0, p))) 0 (demo_stepper 0xf020d1ff) = Inl (Rerr, (demo_stepper 0xf020d1ff)\<lparr>s_link := h'\<rparr>) \<and>
     regs_of h' = regs_of (s_link (demo_stepper 0xf020d1ff))"
proof -
  let ?s = "demo_stepper 0xf020d1ff"
  have "regs_of (s_link ?s) 0 = Some 0"
    by (simp add: regs_of_def prog_reg_def reg_value_def register_address_def regmap_def demo_stepper_def demo_link_def
        mem_bytes_small value_of_def word_bytes_def)
  then have "bit (the (regs_of (s_link ?s) (S1 0xf020d1ff))) (B5 0xf020d1ff) = (T_tb0 = T_tb1)"
    by (simp add: S1_def)
  moreover have "\<exists>h'. goes_on (s_link ?s) h' \<and>
    (if bit (the (regs_of (s_link ?s) (S1 0xf020d1ff))) (B5 0xf020d1ff) = (T_tb0 = T_tb1)
     then ss_remote (monitor (\<lambda>_ p. (0, p))) 0 ?s = Inl (Rerr, ?s\<lparr>s_link := h'\<rparr>) \<and> regs_of h' = regs_of (s_link ?s) \<and>
       mn_mem (l_target h') = mn_mem (l_target (s_link ?s))
     else ss_remote (monitor (\<lambda>_ p. (0, p))) 0 ?s = Inr (?s\<lparr>s_link := h', s_stop_cause := s_stop_cause ?s OR SIGTRAP_BIT\<rparr>) \<and>
       regs_of h' = (regs_of (s_link ?s))(37 \<mapsto> 0x2000 OR 2, 38 \<mapsto> (0x2000 + 4) OR 2, 39 \<mapsto> (s_delayed_ip ?s + 4) OR 2))"
    by (rule step_over_trap [OF demo_stepper(1) _ _ demo_stepper(4) _ _ _ demo_stepper(10,9) tb0_row])
      (simp_all add: demo_stepper ip_of_def aligned_access_def)
  ultimately show ?thesis by auto
qed

end
