(* ===== verification/Rem_Console.thy ===== *)
theory Rem_Console
  imports Rem_Stepping Rem_Session
begin

text \<open>
  The console of the program on the target: the monitor's \<open>mon_dbread\<close> and \<open>mon_dbwrite\<close> (\<open>hmon/mon.c\<close>), which the
  program calls, and the debugger's side of them in \<open>wait_for_exception\<close>.
\<close>

section \<open>The monitor's side\<close>

text \<open>
  \<open>mon_dbread\<close> in its two halves: the request, and what is done with the answer.  The bytes go to
  the buffer of the program; \<open>0xff\<close> ends them.
\<close>

definition mon_dbread_request :: "u32 \<Rightarrow> mon \<Rightarrow> mstep" where
  "mon_dbread_request len p =
     mbind (mon_send_command (mon_init_checksum p) C_DBREAD) (\<lambda>p.
     mbind (mon_send_word p len) (\<lambda>p. mon_send_checksum p))"

primrec dbread_bytes :: "nat \<Rightarrow> nat \<Rightarrow> u32 \<Rightarrow> mon \<Rightarrow> (nat \<times> bool) mres" where
  "dbread_bytes 0 i buffer p = Inr ((i, False), p)"
| "dbread_bytes (Suc n) i buffer p =
     mbind (mon_get_byte p) (\<lambda>(c, p).
     if c = 0xff then Inr ((i, True), p)
     else mbind (mon_store p buffer c) (\<lambda>p. dbread_bytes n (Suc i) (buffer + 1) p))"

definition mon_dbread_answer :: "u32 \<Rightarrow> mon \<Rightarrow> nat mres" where
  "mon_dbread_answer buffer p =
     mbind (mon_wait_for_token (mon_init_checksum p) C_DATASTART) (\<lambda>p.
     mbind (mon_get_word p) (\<lambda>(len, p).
     mbind (dbread_bytes (signed_len len) 0 buffer p) (\<lambda>((i, early), p).
     if early then Inr (i, p)
     else
       mbind (mon_wait_for_token p C_DATAEND) (\<lambda>p.
       mbind (mon_verify_checksum p) (\<lambda>p. Inr (i, p))))))"

definition mon_dbread :: "u32 \<Rightarrow> u32 \<Rightarrow> mon \<Rightarrow> nat mres" where
  "mon_dbread buffer len p = mbind (mon_dbread_request len p) (\<lambda>p. mon_dbread_answer buffer p)"

definition mon_dbwrite :: "u32 \<Rightarrow> u32 \<Rightarrow> mon \<Rightarrow> mstep" where
  "mon_dbwrite buffer len p =
     mbind (mon_send_command (mon_init_checksum p) C_DBWRITE) (\<lambda>p.
     mbind (mon_send_word p len) (\<lambda>p.
     mbind (mon_send_command p C_DATASTART) (\<lambda>p.
     mbind (ul_bytes False (signed_len len) buffer p) (\<lambda>p.
     mbind (mon_send_command p C_DATAEND) (\<lambda>p. mon_send_checksum p)))))"

section \<open>Sending bytes\<close>

definition enc_bytes :: "u8 list \<Rightarrow> u8 list" where
  "enc_bytes bs = concat (map enc_byte bs)"

lemma encodes_bytes: "encodes (enc_bytes bs) bs"
proof (induction bs)
  case (Cons b bs)
  then show ?case using encodes_append [OF encodes_byte [of b] Cons.IH] by (simp add: enc_bytes_def)
qed (simp add: enc_bytes_def encodes_Nil)

lemma send_bytes_sent: "send_bytes bs h = sent (enc_bytes bs) h"
  by (induction bs arbitrary: h) (simp_all add: send_bytes_def enc_bytes_def send_sent(2))

text \<open>The two packets.\<close>

definition dbread_packet :: "u32 \<Rightarrow> u8 list" where
  "dbread_packet len =
     [COMMAND_PREFIX1, C_DBREAD] @ enc_word len @ enc_word (checksum_of ([COMMAND_PREFIX1, C_DBREAD] @ enc_word len) 0)"

definition data_packet :: "u8 list \<Rightarrow> u8 list" where
  "data_packet bs =
     (let us = [COMMAND_PREFIX1, C_DATASTART] @ enc_word (of_nat (length bs)) @ enc_bytes bs @ [COMMAND_PREFIX1, C_DATAEND]
      in us @ enc_word (checksum_of us 0))"

lemma dbread_request_sends:
  assumes "mn_rx p = []"
  shows "\<exists>p'. mon_dbread_request len p = Inr p' \<and> mn_tx p' = mn_tx p @ dbread_packet len \<and> mn_rx p' = [] \<and>
    mon_pending p' = mon_pending p \<and> mn_mem p' = mn_mem p \<and> mn_mapped p' = mn_mapped p"
proof -
  let ?us = "[COMMAND_PREFIX1, C_DBREAD] @ enc_word len"
  let ?p1 = "mon_sent ?us (mon_init_checksum p)"
  let ?p2 = "mon_sent (enc_word (dm_checksum ?p1)) (?p1\<lparr>dm_checksumming := False\<rparr>)"
  have r: "mn_rx (mon_init_checksum p) = []" "mn_rx (mon_sent [COMMAND_PREFIX1, C_DBREAD] (mon_init_checksum p)) = []"
    "mn_rx (?p1\<lparr>dm_checksumming := False\<rparr>) = []"
    using assms by simp_all
  have "mon_dbread_request len p = Inr ?p2"
    unfolding mon_dbread_request_def mon_send_sent(1) [OF r(1)] mbind_simps mon_send_sent(4) [OF r(2)] mon_sent_sent
      mon_send_checksum_def Let_def mon_send_sent(4) [OF r(3)] by simp
  moreover have "dm_checksum ?p1 = checksum_of ?us 0" by (simp add: mon_sent_def mon_init_checksum_def)
  ultimately show ?thesis using assms
    by (simp add: mon_sent_def mon_init_checksum_def dbread_packet_def mon_pending_def)
qed

text \<open>What the debugger does with a request.\<close>

lemma get_char_next:
  assumes "l_input (s_link s) = c # cs"
  shows "on_link (get_remote_char target) s = Inr (c, s\<lparr>s_link := (s_link s)\<lparr>l_input := cs,
    l_checksum := (if l_checksumming (s_link s) then checksum_of [c] (l_checksum (s_link s)) else l_checksum (s_link s))\<rparr>\<rparr>)"
  using assms by (simp add: on_link_def get_remote_char_def char_from_input_buffer_def)

text \<open>The start of a request: the prefix and the command are taken.\<close>

lemma wait_request:
  assumes "l_input (s_link s) = [COMMAND_PREFIX1, c] @ cs"
  shows "mbind (wait_for_prefix target (Suc n) (map_link init_checksum s)) (\<lambda>s. mbind (on_link (get_remote_char target) s) k) =
    k (c, s\<lparr>s_link := (s_link s)\<lparr>l_checksumming := True, l_input := cs, l_checksum := checksum_of [COMMAND_PREFIX1, c] 0\<rparr>\<rparr>)"
proof -
  let ?s0 = "map_link init_checksum s"
  have 0: "l_input (s_link ?s0) = COMMAND_PREFIX1 # c # cs" "l_checksumming (s_link ?s0)" "l_checksum (s_link ?s0) = 0"
    using assms by (simp_all add: map_link_def init_checksum_def)
  let ?s1 = "?s0\<lparr>s_link := (s_link ?s0)\<lparr>l_input := c # cs, l_checksum := checksum_of [COMMAND_PREFIX1] 0\<rparr>\<rparr>"
  have "wait_for_prefix target (Suc n) ?s0 = Inr ?s1"
    using get_char_next [OF 0(1), of target] 0(2,3) by simp
  moreover have "on_link (get_remote_char target) ?s1 =
      Inr (c, ?s1\<lparr>s_link := (s_link ?s1)\<lparr>l_input := cs, l_checksum := checksum_of [COMMAND_PREFIX1, c] 0\<rparr>\<rparr>)"
    using get_char_next [of ?s1 c cs target] 0(2) by simp
  ultimately show ?thesis by (simp add: map_link_def init_checksum_def)
qed

lemma data_packet_sent:
  "send_checksum (send_command (send_bytes bs (send_word (send_command (init_checksum h) C_DATASTART) (of_nat (length bs)))) C_DATAEND) =
     h\<lparr>l_checksumming := False, l_output := l_output h @ data_packet bs,
       l_checksum := checksum_of ([COMMAND_PREFIX1, C_DATASTART] @ enc_word (of_nat (length bs)) @ enc_bytes bs @
         [COMMAND_PREFIX1, C_DATAEND]) 0\<rparr>"
  by (cases h) (simp add: send_bytes_sent send_sent send_checksum_sent sent_def init_checksum_def data_packet_def Let_def)

lemma serve_dbread_answers:
  assumes "l_input (s_link s) = enc_word len @ enc_word (checksum_of (enc_word len) (l_checksum (s_link s)))"
    and "l_checksumming (s_link s)" and "link_pending (s_link s) = []" and "l_output (s_link s) = []"
    and "len \<le> 0x100000" and "s_reads s = line # rest"
  shows "\<exists>s'. serve_dbread target s = Inr s' \<and> l_output (s_link s') = data_packet (take (unat len + 1) line) \<and>
    l_input (s_link s') = [] \<and> link_pending (s_link s') = [] \<and> s_reads s' = rest"
proof -
  let ?h = "s_link s"
  have "hline.holds (word_bytes len @ []) (enc_word len) ?h"
    using assms(1,3) encodes_word [of len] by (simp add: hline.holds_def)
  from get_word_holds [OF this] obtain h1 us1 us2 where 1: "get_word target ?h = Inr (len, h1)" "enc_word len = us1 @ us2"
    "hline.taken us1 ?h h1" "hline.holds [] us2 h1" by blast
  have e: "us2 = []" "link_pending h1 = []" using hline.holds_empty [OF 1(4)] by simp_all
  with 1(2,3) assms(1,2) have in1: "l_input h1 = enc_word (l_checksum h1) @ []" and core: "link_core h1 = link_core ?h"
    by (auto simp: hline.taken_def)
  obtain h2 where 2: "verify_checksum target h1 = Inr h2" "l_input h2 = []" "link_pending h2 = []"
    "link_core h2 = (link_core h1)\<lparr>l_checksumming := False\<rparr>"
    using verify_next [OF e(2) in1] by blast
  have "l_output h2 = l_output h1" using link_core_fields [OF 2(4)] by simp
  also have "\<dots> = l_output ?h" using arg_cong [OF core, of l_output] by (simp add: link_core_def)
  finally have out: "l_output h2 = []" using assms(4) by simp
  let ?h3 = "if l_vars h2 ''showinput'' > 2 then h2\<lparr>l_vars := (l_vars h2)(''showinput'' := 0)\<rparr> else h2"
  let ?bs = "take (unat len + 1) line"
  have "serve_dbread target s = Inr (s\<lparr>s_link := send_checksum (send_command
      (send_bytes ?bs (send_word (send_command (init_checksum ?h3) C_DATASTART) (of_nat (length ?bs)))) C_DATAEND), s_reads := rest\<rparr>)"
    using 1(1) 2(1) assms(5,6) by (simp add: serve_dbread_def on_link_def step_link_def map_link_def not_less)
  moreover have "l_output ?h3 = []" "l_input ?h3 = []" "link_pending ?h3 = []" using out 2(2,3) by (simp_all add: link_pending_def)
  ultimately show ?thesis unfolding data_packet_sent by (simp add: link_pending_def)
qed

lemma dbread_served:
  assumes "l_input (s_link s) = dbread_packet len" and "link_pending (s_link s) = []" and "l_output (s_link s) = []"
    and "len \<le> 0x100000" and "s_reads s = line # rest"
  shows "\<exists>s'. wait_for_exception target (Suc n) ex s = wait_for_exception target n ex s' \<and>
    l_output (s_link s') = data_packet (take (unat len + 1) line) \<and> l_input (s_link s') = [] \<and>
    link_pending (s_link s') = [] \<and> s_reads s' = rest"
proof -
  let ?ck = "checksum_of ([COMMAND_PREFIX1, C_DBREAD] @ enc_word len) 0"
  let ?s = "s\<lparr>s_link := (s_link s)\<lparr>l_checksumming := True, l_input := enc_word len @ enc_word ?ck,
    l_checksum := checksum_of [COMMAND_PREFIX1, C_DBREAD] 0\<rparr>\<rparr>"
  have inp: "l_input (s_link s) = [COMMAND_PREFIX1, C_DBREAD] @ enc_word len @ enc_word ?ck"
    using assms(1) by (simp add: dbread_packet_def)
  obtain s' where s': "serve_dbread target ?s = Inr s'" "l_output (s_link s') = data_packet (take (unat len + 1) line)"
    "l_input (s_link s') = []" "link_pending (s_link s') = []" "s_reads s' = rest"
    using serve_dbread_answers [of ?s len line rest target] assms(2-5) by (auto simp: link_pending_def)
  have "wait_for_exception target (Suc n) ex s = mbind (serve_dbread target ?s) (\<lambda>s. wait_for_exception target n ex s)"
    unfolding wait_for_exception.simps wait_request [OF inp] by simp
  with s' show ?thesis by auto
qed

section \<open>What the monitor makes of the answer\<close>

lemma dbread_bytes_stores:
  "mline.holds (data @ bs) us p \<Longrightarrow> 0xff \<notin> set data \<Longrightarrow> mapped_range p a (length data) \<Longrightarrow>
     \<exists>p' us1 us2. dbread_bytes (length data) i a p = Inr ((i + length data, False), p') \<and> us = us1 @ us2 \<and>
       stores us1 (put_mem a data (mn_mem p)) p p' \<and> mline.holds bs us2 p'"
proof (induction data arbitrary: us p a i)
  case Nil
  then show ?case
    by (intro exI [of _ p] exI [of _ "[]"] exI [of _ us]) (simp add: taken_stores mline.taken_refl)
next
  case (Cons b data)
  obtain p1 us1 us2 where 1: "mon_get_byte p = Inr (b, p1)" "us = us1 @ us2" "mline.taken us1 p p1"
    "mline.holds (data @ bs) us2 p1"
    using mline.get_one_holds [of b "data @ bs" us p] Cons.prems(1) by auto
  note s1 = taken_stores [OF 1(3)]
  have r1: "mapped_range p1 a (1 + length data)" using Cons.prems(3) stores_mapped [OF s1] by simp
  let ?p2 = "p1\<lparr>mn_mem := (mn_mem p1)(a := b)\<rparr>"
  have "mn_mapped p1 (a + of_nat 0)" using r1 unfolding mapped_range_def by blast
  then have st: "mon_store p1 a b = Inr ?p2" by (simp add: mon_store_def)
  have r2: "mapped_range ?p2 (a + 1) (length data)"
    using r1 mapped_range_split [of p1 a 1 "length data"] by (simp add: mapped_range_def)
  have ff: "0xff \<notin> set data" "b \<noteq> 0xff" using Cons.prems(2) by auto
  obtain p3 us3 us4 where 3: "dbread_bytes (length data) (Suc i) (a + 1) ?p2 = Inr ((Suc i + length data, False), p3)"
    "us2 = us3 @ us4" "stores us3 (put_mem (a + 1) data (mn_mem ?p2)) ?p2 p3" "mline.holds bs us4 p3"
    using Cons.IH [OF holds_store [OF 1(4) refl] ff(1) r2, of "Suc i"] by blast
  have "put_mem (a + 1) data (mn_mem ?p2) = put_mem a (b # data) (mn_mem p)"
    using stores_mem [OF s1] by simp
  then have "stores (us1 @ us3) (put_mem a (b # data) (mn_mem p)) p p3"
    using stores_trans [OF s1 stores_trans [OF stores_now 3(3)]] by simp
  moreover have "dbread_bytes (length (b # data)) i a p = Inr ((i + length (b # data), False), p3)"
    using 1(1) st 3(1) ff(2) by simp
  ultimately show ?case using 1(2) 3(2,4) by (metis append_assoc)
qed

lemma dataend_taken:
  assumes "mon_pending p = []" and "mn_rx p = [COMMAND_PREFIX1, C_DATAEND] @ enc_word ck" and "dm_checksumming p"
    and "ck = checksum_of [COMMAND_PREFIX1, C_DATAEND] (dm_checksum p)"
  shows "\<exists>p1 p'. mon_wait_for_token p C_DATAEND = Inr p1 \<and> mon_verify_checksum p1 = Inr p' \<and>
    mn_rx p' = [] \<and> mon_core p' = (mon_core p)\<lparr>dm_checksumming := False\<rparr>"
proof -
  let ?p1 = "p\<lparr>mn_rx := enc_word ck, dm_checksum := ck\<rparr>"
  let ?p2 = "?p1\<lparr>dm_checksumming := False\<rparr>"
  have 1: "mon_wait_for_token p C_DATAEND = Inr ?p1"
    using assms by (simp add: mon_wait_for_token_def mon_get_char_def mon_add_to_checksum_def)
  have "mline.holds (word_bytes ck @ []) (enc_word ck) ?p2"
    using assms(1) encodes_word [of ck] by (simp add: mline.holds_def mon_pending_def)
  from mon_get_word_holds [OF this] obtain p' us1 us2 where 2: "mon_get_word ?p2 = Inr (ck, p')"
    "enc_word ck = us1 @ us2" "mline.taken us1 ?p2 p'" "mline.holds [] us2 p'" by blast
  have e: "us2 = []" using mline.holds_empty [OF 2(4)] by simp
  with 2(2,3) have t: "mn_rx p' = []" "mon_core p' = mon_core ?p2" "dm_checksum p' = ck"
    by (auto simp: mline.taken_def)
  then have "mon_verify_checksum ?p1 = Inr p'" using 2(1) by (simp add: mon_verify_checksum_def)
  moreover have "mon_core ?p2 = (mon_core p)\<lparr>dm_checksumming := False\<rparr>" by (simp add: mon_core_def)
  ultimately show ?thesis using 1 t by metis
qed

lemma answer_stored:
  assumes "mon_pending p = []" and "mn_rx p = data_packet data" and "length data < 2 ^ 31" and "0xff \<notin> set data"
    and "mapped_range p buffer (length data)"
  shows "\<exists>p'. mon_dbread_answer buffer p = Inr (length data, p') \<and> mn_rx p' = [] \<and>
    mn_mem p' = put_mem buffer data (mn_mem p)"
proof -
  let ?len = "of_nat (length data) :: u32"
  let ?body = "[COMMAND_PREFIX1, C_DATASTART] @ enc_word ?len @ enc_bytes data @ [COMMAND_PREFIX1, C_DATAEND]"
  let ?tail = "[COMMAND_PREFIX1, C_DATAEND] @ enc_word (checksum_of ?body 0)"
  let ?p0 = "p\<lparr>mn_rx := enc_word ?len @ enc_bytes data @ ?tail, dm_checksumming := True,
    dm_checksum := checksum_of [COMMAND_PREFIX1, C_DATASTART] 0\<rparr>"
  have 0: "mon_wait_for_token (mon_init_checksum p) C_DATASTART = Inr ?p0"
    using assms(2) by (cases p) (simp add: mon_wait_for_token_def mon_get_char_def mon_add_to_checksum_def
        mon_init_checksum_def data_packet_def Let_def)
  have "mline.holds (word_bytes ?len @ data @ []) (enc_word ?len @ enc_bytes data) ?p0"
    using encodes_append [OF encodes_word [of ?len] encodes_bytes [of data]] assms(1)
    by (simp add: mline.holds_def mon_pending_def)
  from mon_get_word_holds [OF this] obtain p1 us1 us' where 1: "mon_get_word ?p0 = Inr (?len, p1)"
    "enc_word ?len @ enc_bytes data = us1 @ us'" "mline.taken us1 ?p0 p1" "mline.holds (data @ []) us' p1" by blast
  note s1 = taken_stores [OF 1(3)]
  have m1: "mapped_range p1 buffer (length data)"
    using assms(5) stores_mapped [OF s1] by (simp add: mapped_range_def)
  obtain p2 us2 us3 where 2: "dbread_bytes (length data) 0 buffer p1 = Inr ((length data, False), p2)" "us' = us2 @ us3"
    "stores us2 (put_mem buffer data (mn_mem p1)) p1 p2" "mline.holds [] us3 p2"
    using dbread_bytes_stores [OF 1(4) assms(4) m1, of 0] by auto
  have e: "us3 = []" "mon_pending p2 = []" using mline.holds_empty [OF 2(4)] by simp_all
  have mem: "mn_mem p2 = put_mem buffer data (mn_mem p)" using stores_mem [OF 2(3)] stores_mem [OF s1] by simp
  have s: "stores (us1 @ us2) (put_mem buffer data (mn_mem p1)) ?p0 p2" by (rule stores_trans [OF s1 2(3)])
  have us: "us1 @ us2 = enc_word ?len @ enc_bytes data" using 1(2) 2(2) e(1) by simp
  have "mn_rx p2 = ?tail" "dm_checksumming p2" "checksum_of ?body 0 = checksum_of [COMMAND_PREFIX1, C_DATAEND] (dm_checksum p2)"
    using s unfolding us by (simp_all add: stores_def)
  from dataend_taken [OF e(2) this] obtain p3 p4 where 3: "mon_wait_for_token p2 C_DATAEND = Inr p3"
    "mon_verify_checksum p3 = Inr p4" "mn_rx p4 = []" "mon_core p4 = (mon_core p2)\<lparr>dm_checksumming := False\<rparr>" by blast
  have "mn_mem p4 = mn_mem p2" using arg_cong [OF 3(4), of mn_mem] by (simp add: mon_core_def)
  moreover have "signed_len ?len = length data"
    using assms(3) by (simp add: signed_len_def signed_of_nat signed_take_bit_int_eq_self)
  ultimately show ?thesis using 0 1(1) 2(1) 3(1-3) mem by (simp add: mon_dbread_answer_def)
qed

section \<open>Console output\<close>

lemma put_bytes_out_receives:
  "hline.holds (data @ bs) us (s_link s) \<Longrightarrow>
     \<exists>h' us1 us2. put_bytes_out target (length data) s = Inr (s\<lparr>s_link := h', s_console := s_console s @ data\<rparr>) \<and>
       us = us1 @ us2 \<and> hline.taken us1 (s_link s) h' \<and> hline.holds bs us2 h'"
proof (induction data arbitrary: us s)
  case Nil
  then show ?case
    by (intro exI [of _ "s_link s"] exI [of _ "[]"] exI [of _ us]) (simp add: hline.taken_refl)
next
  case (Cons b data)
  obtain h1 us1 us2 where 1: "get_byte target (s_link s) = Inr (b, h1)" "us = us1 @ us2" "hline.taken us1 (s_link s) h1"
    "hline.holds (data @ bs) us2 h1"
    using hline.get_one_holds [of b "data @ bs" us "s_link s" target] Cons.prems by auto
  let ?s = "s\<lparr>s_link := h1, s_console := s_console s @ [b]\<rparr>"
  have "hline.holds (data @ bs) us2 (s_link ?s)" using 1(4) by simp
  from Cons.IH [OF this] obtain h2 us3 us4 where
    2: "put_bytes_out target (length data) ?s = Inr (?s\<lparr>s_link := h2, s_console := s_console ?s @ data\<rparr>)" "us2 = us3 @ us4"
    "hline.taken us3 h1 h2" "hline.holds bs us4 h2" by auto
  have "put_bytes_out target (length (b # data)) s = Inr (s\<lparr>s_link := h2, s_console := s_console s @ b # data\<rparr>)"
    using 1(1) 2(1) by (simp add: on_link_def)
  then show ?case using 1(2) 2(2,4) hline.taken_trans [OF 1(3) 2(3)]
    by (intro exI [of _ h2] exI [of _ "us1 @ us3"] exI [of _ us4]) simp
qed

definition dbwrite_packet :: "u32 \<Rightarrow> u8 list \<Rightarrow> u8 list" where
  "dbwrite_packet len cs =
     (let us = [COMMAND_PREFIX1, C_DBWRITE] @ enc_word len @ [COMMAND_PREFIX1, C_DATASTART] @ cs @ [COMMAND_PREFIX1, C_DATAEND]
      in us @ enc_word (checksum_of us 0))"

lemma dbwrite_sends:
  assumes "mn_rx p = []" and "mapped_range p buffer n" and "n < 2 ^ 31"
  shows "\<exists>p' cs. mon_dbwrite buffer (of_nat n) p = Inr p' \<and> mn_tx p' = mn_tx p @ dbwrite_packet (of_nat n) cs \<and>
    encodes cs (mem_bytes (mn_mem p) buffer n) \<and> mn_rx p' = [] \<and> mn_mem p' = mn_mem p"
proof -
  let ?len = "of_nat n :: u32"
  let ?a = "[COMMAND_PREFIX1, C_DBWRITE] @ enc_word ?len @ [COMMAND_PREFIX1, C_DATASTART]"
  let ?p1 = "mon_sent ?a (mon_init_checksum p)"
  have r: "mn_rx (mon_init_checksum p) = []" "mn_rx (mon_sent cs p') = mn_rx p'" for cs p'
    using assms(1) by simp_all
  have len: "signed_len ?len = n"
    using assms(3) by (simp add: signed_len_def signed_of_nat signed_take_bit_int_eq_self)
  have "mapped_range ?p1 buffer n" "mn_rx ?p1 = []" using assms(1,2) by (simp_all add: mapped_range_def)
  then obtain cs where cs: "ul_bytes False n buffer ?p1 = Inr (mon_sent cs ?p1)" "encodes cs (mem_bytes (mn_mem ?p1) buffer n)"
    using ul_bytes_sends by blast
  let ?p2 = "mon_sent [COMMAND_PREFIX1, C_DATAEND] (mon_sent cs ?p1)"
  let ?p3 = "mon_sent (enc_word (dm_checksum ?p2)) (?p2\<lparr>dm_checksumming := False\<rparr>)"
  have "mon_dbwrite buffer ?len p = Inr ?p3"
    using cs(1) assms(1) by (simp add: mon_dbwrite_def mon_send_sent mon_send_checksum_def Let_def len)
  moreover have "mn_mem ?p1 = mn_mem p" by simp
  ultimately show ?thesis using cs(2) assms(1)
    by (intro exI [of _ ?p3] exI [of _ cs]) (simp add: mon_sent_def mon_init_checksum_def dbwrite_packet_def Let_def)
qed

lemma serve_dbwrite_prints:
  assumes "l_input (s_link s) = enc_word len @ [COMMAND_PREFIX1, C_DATASTART] @ cs @ [COMMAND_PREFIX1, C_DATAEND] @ enc_word ck"
    and "ck = checksum_of (enc_word len @ [COMMAND_PREFIX1, C_DATASTART] @ cs @ [COMMAND_PREFIX1, C_DATAEND]) (l_checksum (s_link s))"
    and "l_checksumming (s_link s)" and "link_pending (s_link s) = []" and "len \<le> 0x100000"
    and "encodes cs data" and "length data = unat len"
  shows "\<exists>h'. serve_dbwrite target s = Inr (s\<lparr>s_link := h', s_console := s_console s @ data\<rparr>) \<and>
    l_input h' = [] \<and> link_pending h' = []"
proof -
  let ?h = "s_link s" and ?tail = "[COMMAND_PREFIX1, C_DATAEND] @ enc_word ck"
  have "hline.holds (word_bytes len @ []) (enc_word len) ?h"
    using assms(1,4) encodes_word [of len] by (simp add: hline.holds_def)
  from get_word_holds [OF this] obtain h1 us1 us2 where 1: "get_word target ?h = Inr (len, h1)" "enc_word len = us1 @ us2"
    "hline.taken us1 ?h h1" "hline.holds [] us2 h1" by blast
  have e: "us2 = []" "link_pending h1 = []" using hline.holds_empty [OF 1(4)] by simp_all
  with 1(2,3) assms(1,3) have in1: "l_input h1 = [COMMAND_PREFIX1, C_DATASTART] @ (cs @ ?tail)" "l_checksumming h1"
    "l_checksum h1 = checksum_of (enc_word len) (l_checksum ?h)"
    by (auto simp: hline.taken_def)
  let ?h2 = "token_read C_DATASTART (cs @ ?tail) h1"
  have w: "wait_for_token target C_DATASTART C_DATAERROR h1 = Inr (Some C_DATASTART, ?h2)"
    by (rule wait_next [OF in1(1)]) simp_all
  have "hline.holds (data @ []) cs (s_link (s\<lparr>s_link := ?h2\<rparr>))"
    using assms(6) e(2) by (simp add: hline.holds_def token_read_def link_pending_def)
  from put_bytes_out_receives [OF this, of target] obtain h3 us3 us4 where
    3: "put_bytes_out target (length data) (s\<lparr>s_link := ?h2\<rparr>) = Inr (s\<lparr>s_link := h3, s_console := s_console s @ data\<rparr>)"
    "cs = us3 @ us4" "hline.taken us3 ?h2 h3" "hline.holds [] us4 h3" by auto
  have e3: "us4 = []" "link_pending h3 = []" using hline.holds_empty [OF 3(4)] by simp_all
  with 3(2,3) in1(2,3) have in3: "l_input h3 = [COMMAND_PREFIX1, C_DATAEND] @ enc_word ck" "l_checksumming h3"
    "ck = checksum_of [COMMAND_PREFIX1, C_DATAEND] (l_checksum h3)"
    by (auto simp: hline.taken_def token_read_def assms(2))
  let ?h4 = "token_read C_DATAEND (enc_word ck) h3"
  have w4: "wait_for_token target C_DATAEND C_NONE h3 = Inr (Some C_DATAEND, ?h4)"
    by (rule wait_next [OF in3(1)]) simp_all
  have "link_pending ?h4 = []" "l_input ?h4 = enc_word (l_checksum ?h4) @ []"
    using e3(2) in3(2,3) by (simp_all add: token_read_def link_pending_def)
  from verify_next [OF this] obtain h5 where "verify_checksum target ?h4 = Inr h5" "l_input h5 = []" "link_pending h5 = []"
    by blast
  then show ?thesis
    using 1(1) w 3(1) w4 assms(5,7)
    by (intro exI [of _ h5]) (cases s, simp add: serve_dbwrite_def on_link_def step_link_def not_less)
qed

section \<open>The console\<close>

text \<open>
  Property C21.  Console output.  The program hands \<open>n\<close> bytes of its memory to \<open>mon_dbwrite\<close>; the debugger, which
  waits for the program to stop, takes the packet, prints exactly these bytes and goes on waiting.
\<close>

theorem console_output:
  assumes "mn_rx p = []" and "mn_tx p = []" and "mapped_range p buffer n" and "n \<le> 0x100000"
  shows "\<exists>p'. mon_dbwrite buffer (of_nat n) p = Inr p' \<and> mn_mem p' = mn_mem p \<and>
    (\<forall>s. l_input (s_link s) = mn_tx p' \<and> link_pending (s_link s) = [] \<longrightarrow>
      (\<exists>s'. wait_for_exception target (Suc m) ex s = wait_for_exception target m ex s' \<and>
        s_console s' = s_console s @ mem_bytes (mn_mem p) buffer n \<and> l_input (s_link s') = []))"
proof -
  let ?data = "mem_bytes (mn_mem p) buffer n" and ?len = "of_nat n :: u32"
  obtain p' cs where p': "mon_dbwrite buffer ?len p = Inr p'" "mn_tx p' = dbwrite_packet ?len cs" "encodes cs ?data"
    "mn_mem p' = mn_mem p"
    using dbwrite_sends [OF assms(1,3)] assms(2,4) by auto
  have n: "unat ?len = n" "?len \<le> 0x100000" using assms(4) by (simp_all add: unat_of_nat word_le_nat_alt)
  have "\<exists>s'. wait_for_exception target (Suc m) ex s = wait_for_exception target m ex s' \<and>
      s_console s' = s_console s @ ?data \<and> l_input (s_link s') = []"
    if s: "l_input (s_link s) = mn_tx p'" "link_pending (s_link s) = []" for s
  proof -
    define ck where "ck = checksum_of ([COMMAND_PREFIX1, C_DBWRITE] @ enc_word ?len @ [COMMAND_PREFIX1, C_DATASTART] @ cs @
      [COMMAND_PREFIX1, C_DATAEND]) 0"
    let ?inp = "enc_word ?len @ [COMMAND_PREFIX1, C_DATASTART] @ cs @ [COMMAND_PREFIX1, C_DATAEND] @ enc_word ck"
    let ?s = "s\<lparr>s_link := (s_link s)\<lparr>l_checksumming := True, l_input := ?inp,
      l_checksum := checksum_of [COMMAND_PREFIX1, C_DBWRITE] 0\<rparr>\<rparr>"
    have inp: "l_input (s_link s) = [COMMAND_PREFIX1, C_DBWRITE] @ ?inp"
      using s(1) p'(2) by (simp add: dbwrite_packet_def Let_def ck_def)
    obtain h' where h': "serve_dbwrite target ?s = Inr (?s\<lparr>s_link := h', s_console := s_console s @ ?data\<rparr>)" "l_input h' = []"
      using serve_dbwrite_prints [of ?s ?len cs ck ?data target] s(2) p'(3) n by (auto simp: ck_def link_pending_def)
    have "wait_for_exception target (Suc m) ex s = mbind (serve_dbwrite target ?s) (\<lambda>s. wait_for_exception target m ex s)"
      unfolding wait_for_exception.simps wait_request [OF inp] by simp
    then show ?thesis using h' by auto
  qed
  then show ?thesis using p'(1,4) by blast
qed

theorem console_output_witness:
  "\<exists>p' s'. mon_dbwrite 0x2000 (of_nat 2) (demo_mon\<lparr>mn_mem := put_mem 0x2000 [0x68, 0x69] (\<lambda>_. 0)\<rparr>) = Inr p' \<and>
    wait_for_exception (\<lambda>t _. ([], t)) (Suc 0) 0
      ((demo_stepper 0)\<lparr>s_link := demo_link\<lparr>l_input := mn_tx p'\<rparr>\<rparr>) =
    wait_for_exception (\<lambda>t _. ([], t)) 0 0 s' \<and> s_console s' = [0x68, 0x69]"
proof -
  let ?p = "demo_mon\<lparr>mn_mem := put_mem 0x2000 [0x68, 0x69] (\<lambda>_. 0)\<rparr>"
  have "\<exists>p'. mon_dbwrite 0x2000 (of_nat 2) ?p = Inr p' \<and> mn_mem p' = mn_mem ?p \<and>
    (\<forall>s :: mon stepper. l_input (s_link s) = mn_tx p' \<and> link_pending (s_link s) = [] \<longrightarrow>
      (\<exists>s'. wait_for_exception (\<lambda>t _. ([], t)) (Suc 0) 0 s = wait_for_exception (\<lambda>t _. ([], t)) 0 0 s' \<and>
        s_console s' = s_console s @ mem_bytes (mn_mem ?p) 0x2000 2 \<and> l_input (s_link s') = []))"
    by (rule console_output) (simp_all add: demo_mon_def mapped_range_def)
  then obtain p' where p': "mon_dbwrite 0x2000 (of_nat 2) ?p = Inr p'"
    "\<And>s :: mon stepper. l_input (s_link s) = mn_tx p' \<Longrightarrow> link_pending (s_link s) = [] \<Longrightarrow>
      \<exists>s'. wait_for_exception (\<lambda>t _. ([], t)) (Suc 0) 0 s = wait_for_exception (\<lambda>t _. ([], t)) 0 0 s' \<and>
        s_console s' = s_console s @ mem_bytes (mn_mem ?p) 0x2000 2 \<and> l_input (s_link s') = []" by blast
  let ?s = "(demo_stepper 0)\<lparr>s_link := demo_link\<lparr>l_input := mn_tx p'\<rparr>\<rparr>"
  have "s_console ?s = []" "mem_bytes (mn_mem ?p) 0x2000 2 = [0x68, 0x69]"
    by (simp_all add: demo_stepper_def mem_bytes_small)
  then show ?thesis using p'(1) p'(2) [of ?s] by (auto simp: link_pending_def demo_link_def)
qed

text \<open>
  Property C20.  Console input, of at most a megabyte and without the byte \<open>0xff\<close>, which has a meaning of its
  own on the line.  The program asks \<open>mon_dbread\<close> for \<open>len\<close> bytes; the debugger answers with what
  a read of the terminal delivers, and \<open>mon_dbread\<close> returns the number of these bytes and leaves them in the
  buffer of the program.  The debugger reads up to \<open>len + 1\<close> bytes, and the monitor does not
  compare: a line that is longer than the buffer overwrites the byte behind it.
\<close>

theorem console_input:
  assumes "mn_rx p = []" and "mn_tx p = []" and "mon_pending p = []" and "len \<le> 0x100000"
    and "data = take (unat len + 1) line" and "0xff \<notin> set data" and "mapped_range p buffer (length data)"
  shows "\<exists>p1. mon_dbread_request len p = Inr p1 \<and>
    (\<forall>s. l_input (s_link s) = mn_tx p1 \<and> link_pending (s_link s) = [] \<and> l_output (s_link s) = [] \<and> s_reads s = line # rest \<longrightarrow>
      (\<exists>s' p2. wait_for_exception target (Suc m) ex s = wait_for_exception target m ex s' \<and> s_reads s' = rest \<and>
        mon_dbread_answer buffer (p1\<lparr>mn_rx := l_output (s_link s')\<rparr>) = Inr (length data, p2) \<and>
        mn_mem p2 = put_mem buffer data (mn_mem p)))"
proof -
  obtain p1 where p1: "mon_dbread_request len p = Inr p1" "mn_tx p1 = dbread_packet len" "mon_pending p1 = []"
    "mn_mem p1 = mn_mem p" "mn_mapped p1 = mn_mapped p"
    using dbread_request_sends [OF assms(1), of len] assms(2,3) by auto
  have "unat len \<le> 0x100000" using assms(4) by (simp add: word_le_nat_alt)
  then have small: "length data < 2 ^ 31" using assms(5) by simp
  have "\<exists>s' p2. wait_for_exception target (Suc m) ex s = wait_for_exception target m ex s' \<and> s_reads s' = rest \<and>
      mon_dbread_answer buffer (p1\<lparr>mn_rx := l_output (s_link s')\<rparr>) = Inr (length data, p2) \<and>
      mn_mem p2 = put_mem buffer data (mn_mem p)"
    if s: "l_input (s_link s) = mn_tx p1" "link_pending (s_link s) = []" "l_output (s_link s) = []" "s_reads s = line # rest" for s
  proof -
    obtain s' where s': "wait_for_exception target (Suc m) ex s = wait_for_exception target m ex s'"
      "l_output (s_link s') = data_packet data" "s_reads s' = rest"
      using dbread_served [of s len line rest target m ex] s p1(2) assms(4,5) by auto
    let ?p = "p1\<lparr>mn_rx := l_output (s_link s')\<rparr>"
    have "mon_pending ?p = []" "mn_rx ?p = data_packet data" "mapped_range ?p buffer (length data)"
      using p1(3,5) s'(2) assms(7) by (simp_all add: mon_pending_def mapped_range_def)
    from answer_stored [OF this(1,2) small assms(6) this(3)] s'(1,3) p1(4) show ?thesis by auto
  qed
  then show ?thesis using p1(1) by blast
qed

theorem console_input_witness:
  "\<exists>p1 s' p2. mon_dbread_request 1 demo_mon = Inr p1 \<and>
    wait_for_exception (\<lambda>t _. ([], t)) (Suc 0) 0
      ((demo_stepper 0)\<lparr>s_link := demo_link\<lparr>l_input := mn_tx p1\<rparr>, s_reads := [[0x41, 0x42, 0x0a]]\<rparr>) =
    wait_for_exception (\<lambda>t _. ([], t)) 0 0 s' \<and>
    mon_dbread_answer 0x2000 (p1\<lparr>mn_rx := l_output (s_link s')\<rparr>) = Inr (2, p2) \<and> mn_mem p2 0x2001 = 0x42"
proof -
  have "\<exists>p1. mon_dbread_request 1 demo_mon = Inr p1 \<and>
    (\<forall>s :: mon stepper. l_input (s_link s) = mn_tx p1 \<and> link_pending (s_link s) = [] \<and> l_output (s_link s) = [] \<and>
        s_reads s = [0x41, 0x42, 0x0a] # [] \<longrightarrow>
      (\<exists>s' p2. wait_for_exception (\<lambda>t _. ([], t)) (Suc 0) 0 s = wait_for_exception (\<lambda>t _. ([], t)) 0 0 s' \<and> s_reads s' = [] \<and>
        mon_dbread_answer 0x2000 (p1\<lparr>mn_rx := l_output (s_link s')\<rparr>) = Inr (length [0x41, 0x42 :: u8], p2) \<and>
        mn_mem p2 = put_mem 0x2000 [0x41, 0x42] (mn_mem demo_mon)))"
    by (rule console_input) (simp_all add: demo_mon_def mapped_range_def mon_pending_def)
  then obtain p1 where p1: "mon_dbread_request 1 demo_mon = Inr p1"
    "\<And>s :: mon stepper. l_input (s_link s) = mn_tx p1 \<Longrightarrow> link_pending (s_link s) = [] \<Longrightarrow> l_output (s_link s) = [] \<Longrightarrow>
        s_reads s = [[0x41, 0x42, 0x0a]] \<Longrightarrow>
      \<exists>s' p2. wait_for_exception (\<lambda>t _. ([], t)) (Suc 0) 0 s = wait_for_exception (\<lambda>t _. ([], t)) 0 0 s' \<and> s_reads s' = [] \<and>
        mon_dbread_answer 0x2000 (p1\<lparr>mn_rx := l_output (s_link s')\<rparr>) = Inr (length [0x41, 0x42 :: u8], p2) \<and>
        mn_mem p2 = put_mem 0x2000 [0x41, 0x42] (mn_mem demo_mon)" by blast
  let ?s = "(demo_stepper 0)\<lparr>s_link := demo_link\<lparr>l_input := mn_tx p1\<rparr>, s_reads := [[0x41, 0x42, 0x0a]]\<rparr>"
  obtain s' p2 where "wait_for_exception (\<lambda>t _. ([], t)) (Suc 0) 0 ?s = wait_for_exception (\<lambda>t _. ([], t)) 0 0 s'"
    "mon_dbread_answer 0x2000 (p1\<lparr>mn_rx := l_output (s_link s')\<rparr>) = Inr (2, p2)"
    "mn_mem p2 = put_mem 0x2000 [0x41, 0x42] (mn_mem demo_mon)"
    using p1(2) [of ?s] by (auto simp: link_pending_def demo_link_def numeral_2_eq_2)
  with p1(1) show ?thesis by auto
qed

end
