(* ===== verification/Spec2Isabelle.thy ===== *)
theory Spec2Isabelle
  imports Sim_Access Sim_Decoding Sim_Exceptions Sim_Ram Sim_Devices Sim_Front
    Sim_Serial_Int Sim_Disks
    Rem_Dwrite Rem_Errors Rem_Download Rem_Bound Rem_Faults Rem_Console
begin

text \<open>
  Verification of g88, a debugger for Motorola 88000 systems: a fork of gdb that runs 88000 programs
  either on its own simulator (\<open>src/sim\<close>) or on a target board, over a serial line to a debug monitor in
  the target's ROM (\<open>src/hmon/mon.c\<close>).  The development models these two back ends; gdb itself, its symbol tables,
  expressions and commands, is not modelled.

  The program's parts and how they interact

  The simulator.  \<open>sim()\<close> (\<open>sim/execute.c\<close>) executes instructions that are decoded once and kept with the
  page of memory they come from.  It calls \<open>decode\<close> (\<open>sim/simdecode.c\<close>) for an instruction it meets the first
  time; \<open>decode\<close> looks the word up in the table \<open>in_tab\<close> and allocates literals in pools.  Loads, stores and control
  transfers use software TLBs (\<open>sim/siminit.c\<close>); when they miss, \<open>l_mem_op\<close> and its relatives (\<open>sim/misc.c\<close>) call
  \<open>l_to_p\<close> (\<open>sim/cmmu.c\<close>), which walks the page tables in simulated memory (\<open>sim/memory.c\<close>), and fill the TLBs.  Addresses
  outside RAM are transferred to the device table (\<open>sim/io.c\<close>): the registers of the CMMUs, the interrupt
  registers and the counter/timer of the MVME188 board (\<open>sim/mvme188.c\<close>), the serial controller (\<open>sim/duart.c\<close>), disks, the
  console and the clock (\<open>sim/disk.c\<close>, \<open>sim/console.c\<close>, \<open>sim/gettime.c\<close>).  A change of the CMMU or of
  the page tables flushes the TLBs and the decoded instructions.  The debugger talks to the simulator through
  \<open>sim/simgdb.c\<close>.

  The target.  \<open>remote.c\<close> sends packets of compressed words with checksums over the line and takes the answers;
  \<open>remmem.c\<close> reads and writes target memory through a cache of lines, \<open>remcmd.c\<close> downloads files and runs commands on
  blocks of memory, \<open>remrun.c\<close> runs and single-steps the program, where it executes the control instructions
  itself, using the table of \<open>decode.c\<close>.  The monitor takes the commands, works on the target's memory and
  answers; the program on the target reads and writes the debugger's terminal through it.

  The theories

  \<^item> \<open>G88_Prelude\<close>: words, the C shifts, bit fields and the lemmas the components share.
  \<^item> \<open>Sim_State\<close> (\<open>sim.h\<close>, \<open>sim_interface.h\<close>, \<open>cmmu.h\<close>, \<open>io.h\<close>, the globals): the record \<open>mach\<close> is the state of the
    simulator, one field for each global; \<open>hostptr\<close> are the C pointers into the registers, RAM pages and devices.
  \<^item> \<open>Sim_Decode\<close>, \<open>Sim_Lookup\<close> (\<open>sim/simdecode.c\<close>, \<open>fields88.h\<close>): the table, its hash lists and their move-to-front search; the
    result of a lookup is the same after any history.  \<open>Sim_Literals\<close>: the pools.  \<open>Sim_Decoder\<close>, \<open>Sim_Decoding\<close>: \<open>decode\<close>.
  \<^item> \<open>Sim_Memory\<close>, \<open>Sim_Ram\<close> (\<open>sim/memory.c\<close>): pages allocated on first use, compared with an array of bytes.
  \<^item> \<open>Sim_Tlb\<close> (\<open>sim/siminit.c\<close>), \<open>Sim_Memop\<close> (\<open>do_mem_op\<close>), \<open>Sim_Cmmu\<close>, \<open>Sim_Translate\<close>, \<open>Sim_Cmmu_Op\<close> (\<open>sim/cmmu.c\<close>), \<open>Sim_Misc\<close>
    (\<open>sim/misc.c\<close>): accesses and address translation.  \<open>Sim_Translate\<close> states the table walk of the 88200 as
    a specification and shows that \<open>l_to_p\<close> refines it.
  \<^item> \<open>Sim_Mvme188\<close>, \<open>Sim_Io\<close>, \<open>Sim_Devices\<close>: the board, the device table, their properties.
  \<^item> \<open>Sim_Duart\<close>, \<open>Sim_Serial\<close>, \<open>Sim_Serial_Int\<close>: the serial controller.  The locale \<open>bounded_queue\<close> is the contract of its
    typeahead buffers; the ring buffers and the handling of a line are interpretations of it.  The interrupt
    request and the buffers are invariants of a step relation of accesses and arriving characters.
    \<open>Sim_Disk\<close>, \<open>Sim_Disks\<close>: disks, console and clock, and the blocks that go to a disk and back.
  \<^item> \<open>Sim_Alu\<close>, \<open>Sim_Execute\<close>, \<open>Sim_Run\<close> (\<open>sim/execute.c\<close>): the arithmetic, the handlers, and \<open>sim()\<close>.  The labels of the C
    function are the constructors of a datatype, \<open>step\<close> goes from label to label and \<open>run\<close> iterates it.  \<open>Sim_Instr\<close>,
    \<open>Sim_Exceptions\<close>, \<open>Sim_Paths\<close>: what instructions compute, exceptions and interrupts, delayed branches, the fast and the
    slow path.  \<open>Sim_Access\<close> joins the parts: an access that misses the TLBs against the specification of the
    table walk, and what a change of a BATC entry takes back.
  \<^item> \<open>Sim_Gdb\<close>, \<open>Sim_Front\<close> (\<open>sim/simgdb.c\<close>, \<open>sim_init\<close>): the interface to the debugger.
  \<^item> \<open>Rem_Codec\<close> (\<open>compress.h\<close>, both ends): the encoding of words.  \<open>Rem_Host\<close> (\<open>remote.c\<close>, \<open>remmem.c\<close>): the record \<open>link\<close> is the
    debugger's end of the line with the cache.  \<open>Rem_Monitor\<close> (\<open>hmon/mon.c\<close>): the record \<open>mon\<close> is the monitor with the
    target's memory.  \<open>Rem_Cmd\<close> (\<open>remcmd.c\<close>).  \<open>Rem_Table\<close> (\<open>decode.c\<close>).  \<open>Rem_Step\<close> (\<open>remrun.c\<close>, \<open>wait_for_exception\<close>): the record \<open>stepper\<close>
    adds the variables of \<open>remrun.c\<close> to the link.
  \<^item> \<open>Rem_Line\<close>, \<open>Rem_Protocol\<close>, \<open>Rem_Upload\<close>, \<open>Rem_Session\<close>: the two ends together, from characters to packets to sessions.
    The locale \<open>receiver\<close> is the contract of taking characters and bytes; both ends are
    interpretations of it.  \<open>Rem_Memory\<close>, \<open>Rem_Access\<close>, \<open>Rem_Blocks\<close>, \<open>Rem_Dwrite\<close>: memory and registers of the target through the line and
    the cache.  \<open>Rem_Sums\<close>, \<open>Rem_Download\<close>: the incremental download.  \<open>Rem_Errors\<close>: corrupted packets, unknown commands.
    \<open>Rem_Bound\<close>: the monitor's loop makes progress.  \<open>Rem_Branch\<close>, \<open>Rem_Stepping\<close>, \<open>Rem_Faults\<close>: single steps against
    the simulator's table.  \<open>Rem_Console\<close>: the console of the program on the target.

  State and effects.  A C function becomes a function on the state that returns the new state.  A place where
  the behaviour of C is undefined, or where the simulator calls \<open>abort\<close>, is \<open>None\<close> in the simulator (\<open>Stuck\<close> for a
  whole run); the operations of the link return a sum: a stop (\<open>Rerr\<close> for \<open>rerr\<close>, \<open>Hangs\<close> for a wait
  that nothing ends, \<open>Undefined\<close>) with the state at that point, or the result.  The host is big-endian
  with 32-bit words in the simulator, which relies on it; in the debugger the byte order is a field.

  Parameters.  \<open>devs\<close>: the host of the device drivers, its terminal lines and the room on its disk.  \<open>host\<close>: the IO space as the handlers see
  it, the floating-point arithmetic of the host and the addresses of objects.  \<open>target\<close>: what the other end
  of the line answers; the theorems on the whole line put the model of the monitor there.  \<open>rom\<close>: the effect of a
  system call in the monitor's ROM.  \<open>s_reads\<close>: what the reads of the terminal deliver.

  What the properties assume.  Each property's text names its hypotheses.  Those on the whole line are for a connected
  debugger, whose cache agrees with the target, on a big-endian host, and for accesses in supervisor mode; that
  writes in user mode fail is \<open>user_write_rejected\<close>.  Those on translations are for page tables in RAM.  \<open>dwrite_remote\<close> is
  modelled although it is compiled only under \<open>DWRITE_NEEDED\<close>, which nothing defines.

  Bounds.  \<open>run\<close> has a bound on the steps; \<open>sim_bound_irrelevant\<close> shows that a run that returns is the same with every
  larger bound, and \<open>Out_of_fuel\<close> is a value of its own.  The same holds for \<open>mp_loop\<close>.  The loop of \<open>monitor\<close> is given
  one iteration more than there are characters; \<open>monitor_bound_enough\<close> shows that more iterations change nothing.
  \<open>wait_for_token\<close> skips at most 1000 answers to synchronisation requests and then counts as hanging, a
  case no theorem depends on.  \<open>wait_for_exception\<close> has a bound on the requests served while it waits.

  Not modelled.  gdb's own files: symbol readers, expressions, values, printing, breakpoints and process control
  contain nothing about the 88000 that the back ends rely on.  The simulator's circuit emulation board (\<open>ce.c\<close>) and the
  disassembler; statistics and printing; errors of \<open>ioctl\<close> on the host's lines.  The monitor's assembly: access to user
  memory (\<open>fubyte\<close>, \<open>subyte\<close>), interrupt masking, the mutex between processors; errors of the UART.  In the debugger:
  terminal modes, the pass-through mode, the control-C that jumps out of a wait, and timeouts, which
  appear as \<open>Hangs\<close>.
\<close>

end
